(* ===== verification/Prelude.thy ===== *)
theory Prelude
  imports Complex_Main "HOL-Library.Word" "HOL-Library.Multiset" "HOL-Library.Sublist"
    "HOL-Library.Product_Lexorder"
begin

text \<open>
  Shared vocabulary of the development: the type synonyms for the machine and library types of
  the Rust code, the parts of the Rust standard library the sources use (strings, options,
  ordering, stable sorting, \<open>min_by_key\<close>), the error-and-state monad in which the effectful
  functions are written, and the collections \<open>io_simps\<close> and \<open>std_simps\<close> through
  which the component proofs unfold them.

  A Rust \<open>String\<close> is a list of bytes (\<^typ>\<open>string\<close>); \<open>len()\<close> is its
  length. The case conversions act on ASCII letters, and bytes above 127 are left alone.
  \<open>anyhow::Error\<close> and \<open>sqlx::Error\<close> values are represented by their display text.
\<close>

named_theorems std_simps \<open>Unfolding of the modelled standard library functions\<close>
named_theorems io_simps \<open>Unfolding of the error-and-state monad\<close>

section \<open>Type synonyms\<close>

type_synonym uuid = "128 word"
type_synonym u64 = "64 word"
type_synonym u32 = "32 word"
type_synonym i32 = int
type_synonym timestamp = nat
type_synonym error = string
type_synonym 'a result = "error + 'a"

definition i32_MAX :: i32 where
  "i32_MAX = 2147483647"

section \<open>Options\<close>

fun opt_or :: "'a option \<Rightarrow> 'a option \<Rightarrow> 'a option" where
  "opt_or (Some x) _ = Some x"
| "opt_or None y = y"

definition unwrap_or :: "'a option \<Rightarrow> 'a \<Rightarrow> 'a" where
  "unwrap_or m d = (case m of None \<Rightarrow> d | Some x \<Rightarrow> x)"

definition is_some :: "'a option \<Rightarrow> bool" where
  "is_some m = (m \<noteq> None)"

definition flatten_option :: "'a option option \<Rightarrow> 'a option" where
  "flatten_option m = (case m of None \<Rightarrow> None | Some x \<Rightarrow> x)"

lemma unwrap_or_simps [simp]: "unwrap_or None d = d" "unwrap_or (Some x) d = x"
  by (simp_all add: unwrap_or_def)

lemma is_some_simps [simp]: "is_some (Some x)" "\<not> is_some None"
  by (simp_all add: is_some_def)

lemma is_some_iff: "is_some m \<longleftrightarrow> (\<exists>x. m = Some x)"
  by (cases m) auto

lemma flatten_option_simps [simp]:
  "flatten_option None = None" "flatten_option (Some x) = x"
  by (simp_all add: flatten_option_def)

lemma opt_or_None [simp]: "opt_or m None = m"
  by (cases m) auto

lemma opt_or_eq_None [simp]: "opt_or a b = None \<longleftrightarrow> a = None \<and> b = None"
  by (cases a) auto

section \<open>Machine words\<close>

lemma unat_add_one:
  fixes a b :: "'a::len word"
  assumes "a < b"
  shows "unat (a + 1) = unat a + 1"
proof -
  have "unat b < 2 ^ LENGTH('a)" by (rule unsigned_less)
  then have "unat a + unat (1 :: 'a word) < 2 ^ LENGTH('a)"
    using assms unfolding word_less_nat_alt unsigned_1 by linarith
  then have "unat (a + 1) = unat a + unat (1 :: 'a word)" by (rule unat_add_lem [THEN iffD1])
  then show ?thesis by simp
qed

section \<open>Strings\<close>

definition is_upper :: "char \<Rightarrow> bool" where
  "is_upper c \<longleftrightarrow> of_char c \<in> {65..90 :: nat}"

definition is_lower :: "char \<Rightarrow> bool" where
  "is_lower c \<longleftrightarrow> of_char c \<in> {97..122 :: nat}"

definition is_digit :: "char \<Rightarrow> bool" where
  "is_digit c \<longleftrightarrow> of_char c \<in> {48..57 :: nat}"

definition lower_char :: "char \<Rightarrow> char" where
  "lower_char c = (if is_upper c then char_of (of_char c + 32 :: nat) else c)"

definition upper_char :: "char \<Rightarrow> char" where
  "upper_char c = (if is_lower c then char_of (of_char c - 32 :: nat) else c)"

definition to_lowercase :: "string \<Rightarrow> string" where
  "to_lowercase s = map lower_char s"

definition to_uppercase :: "string \<Rightarrow> string" where
  "to_uppercase s = map upper_char s"

text \<open>\<open>trim\<close> removes white space (space, tab, line feed, vertical tab, form feed and carriage
  return) at both ends.\<close>

definition is_space :: "char \<Rightarrow> bool" where
  "is_space c \<longleftrightarrow> of_char c = (32 :: nat) \<or> of_char c \<in> {9..13 :: nat}"

definition trim :: "string \<Rightarrow> string" where
  "trim s = rev (dropWhile is_space (rev (dropWhile is_space s)))"

definition starts_with :: "string \<Rightarrow> string \<Rightarrow> bool" where
  "starts_with s p = prefix p s"

definition contains :: "string \<Rightarrow> string \<Rightarrow> bool" where
  "contains s t = sublist t s"

fun join :: "string \<Rightarrow> string list \<Rightarrow> string" where
  "join _ [] = []"
| "join _ [s] = s"
| "join sep (s # t # ss) = s @ sep @ join sep (t # ss)"

definition replace_char :: "char \<Rightarrow> string \<Rightarrow> string \<Rightarrow> string" where
  "replace_char c r s = concat (map (\<lambda>x. if x = c then r else [x]) s)"

fun show_nat :: "nat \<Rightarrow> string" where
  "show_nat n = (if n < 10 then [char_of (48 + n)]
                 else show_nat (n div 10) @ [char_of (48 + n mod 10)])"

declare show_nat.simps [simp del]

definition show_int :: "int \<Rightarrow> string" where
  "show_int i = (if i < 0 then ''-'' @ show_nat (nat (- i)) else show_nat (nat i))"

definition show_bool :: "bool \<Rightarrow> string" where
  "show_bool b = (if b then ''true'' else ''false'')"

lemma is_lower_lower_char: "is_upper c \<Longrightarrow> is_lower (lower_char c)"
  by (auto simp: lower_char_def is_upper_def is_lower_def of_char_of)

lemma lower_char_idem [simp]: "lower_char (lower_char c) = lower_char c"
  by (cases "is_upper c")
    (auto simp: lower_char_def is_upper_def of_char_of)

lemma to_lowercase_idem [simp]: "to_lowercase (to_lowercase s) = to_lowercase s"
  by (simp add: to_lowercase_def)

lemma length_to_lowercase [simp]: "length (to_lowercase s) = length s"
  by (simp add: to_lowercase_def)

section \<open>Ordering and sorting\<close>

datatype ordering = Less | Equal | Greater

definition cmp :: "'a::linorder \<Rightarrow> 'a \<Rightarrow> ordering" where
  "cmp a b = (if a < b then Less else if a = b then Equal else Greater)"

lemma cmp_eq [simp]:
  "cmp a b = Less \<longleftrightarrow> a < b" "cmp a b = Equal \<longleftrightarrow> a = b" "cmp a b = Greater \<longleftrightarrow> b < a"
  by (auto simp: cmp_def)

text \<open>
  Rust's \<open>sort_by\<close> is stable; insertion of the elements from the right, each before the
  first element that is not smaller, is the stable sort for every comparison that is a total
  preorder.
\<close>

fun insert_by :: "('a \<Rightarrow> 'a \<Rightarrow> ordering) \<Rightarrow> 'a \<Rightarrow> 'a list \<Rightarrow> 'a list" where
  "insert_by c x [] = [x]"
| "insert_by c x (y # ys) = (if c x y = Greater then y # insert_by c x ys else x # y # ys)"

definition sort_by :: "('a \<Rightarrow> 'a \<Rightarrow> ordering) \<Rightarrow> 'a list \<Rightarrow> 'a list" where
  "sort_by c xs = foldr (insert_by c) xs []"

text \<open>\<open>min_by_key\<close> returns the first of the minimal elements.\<close>

fun min_by_key :: "('a \<Rightarrow> 'k::linorder) \<Rightarrow> 'a list \<Rightarrow> 'a option" where
  "min_by_key f [] = None"
| "min_by_key f (x # xs) =
     (case min_by_key f xs of
        None \<Rightarrow> Some x
      | Some y \<Rightarrow> Some (if f x \<le> f y then x else y))"

lemma min_by_key_None [simp]: "min_by_key f xs = None \<longleftrightarrow> xs = []"
  by (cases xs) (auto split: option.splits)

lemma min_by_key_Some:
  "min_by_key f xs = Some y \<Longrightarrow> y \<in> set xs \<and> (\<forall>x \<in> set xs. f y \<le> f x)"
proof (induction xs arbitrary: y)
  case (Cons x xs)
  show ?case
  proof (cases "min_by_key f xs")
    case None
    then show ?thesis using Cons.prems by auto
  next
    case (Some z)
    from Cons.IH [OF this] Some Cons.prems show ?thesis
      by (auto split: if_splits intro: order_trans)
  qed
qed simp

lemma mset_insert_by [simp]: "mset (insert_by c x xs) = add_mset x (mset xs)"
  by (induction xs) auto

lemma mset_sort_by [simp]: "mset (sort_by c xs) = mset xs"
  by (induction xs) (auto simp: sort_by_def)

lemma set_sort_by [simp]: "set (sort_by c xs) = set xs"
  by (metis mset_sort_by set_mset_mset)

lemma sort_by_eq_Nil [simp]: "sort_by c xs = [] \<longleftrightarrow> xs = []"
  by (metis mset_sort_by mset_zero_iff)

text \<open>
  The contract a caller of \<open>sort_by\<close> relies on: on the elements it sorts, the comparison
  is the comparison of a key in a linear order.
\<close>

locale keyed_cmp =
  fixes c :: "'a \<Rightarrow> 'a \<Rightarrow> ordering"
    and key :: "'a \<Rightarrow> 'k::linorder"
    and ok :: "'a \<Rightarrow> bool"
  assumes cmp_key: "ok a \<Longrightarrow> ok b \<Longrightarrow> c a b = cmp (key a) (key b)"
begin

lemma insert_by_insort:
  "ok x \<Longrightarrow> \<forall>y \<in> set ys. ok y \<Longrightarrow> insert_by c x ys = insort_key key x ys"
  by (induction ys) (auto simp: cmp_key)

lemma sort_by_sort_key: "\<forall>x \<in> set xs. ok x \<Longrightarrow> sort_by c xs = sort_key key xs"
proof (induction xs)
  case Nil
  then show ?case by (simp add: sort_by_def)
next
  case (Cons x xs)
  then have "\<forall>y \<in> set (sort_key key xs). ok y" by simp
  with Cons show ?case by (simp add: sort_by_def insert_by_insort)
qed

lemma sort_by_hd:
  assumes "\<forall>x \<in> set xs. ok x" and "sort_by c xs = y # ys"
  shows "y \<in> set xs" and "\<forall>x \<in> set xs. key y \<le> key x"
proof -
  have "set (y # ys) = set xs" using assms(2) set_sort_by by metis
  moreover have "sorted (map key (y # ys))"
    using sort_by_sort_key [OF assms(1)] assms(2) by (metis sorted_sort_key)
  ultimately show "y \<in> set xs" and "\<forall>x \<in> set xs. key y \<le> key x" by auto
qed

end

section \<open>Errors and state\<close>

text \<open>
  An \<open>async fn\<close> that returns \<open>Result\<close> is a function from the state to a result and
  the new state; the question mark operator is \<open>io_bind\<close>.
\<close>

type_synonym ('s, 'a) io = "'s \<Rightarrow> 'a result \<times> 's"

definition io_return :: "'a \<Rightarrow> ('s, 'a) io" where
  "io_return x = (\<lambda>s. (Inr x, s))"

definition io_err :: "error \<Rightarrow> ('s, 'a) io" where
  "io_err e = (\<lambda>s. (Inl e, s))"

definition io_bind :: "('s, 'a) io \<Rightarrow> ('a \<Rightarrow> ('s, 'b) io) \<Rightarrow> ('s, 'b) io" where
  "io_bind m f = (\<lambda>s. case m s of (Inl e, s') \<Rightarrow> (Inl e, s') | (Inr x, s') \<Rightarrow> f x s')"

definition io_try :: "('s, 'a) io \<Rightarrow> ('s, 'a result) io" where
  "io_try m = (\<lambda>s. case m s of (r, s') \<Rightarrow> (Inr r, s'))"

definition io_map_err :: "(error \<Rightarrow> error) \<Rightarrow> ('s, 'a) io \<Rightarrow> ('s, 'a) io" where
  "io_map_err g m = (\<lambda>s. case m s of (Inl e, s') \<Rightarrow> (Inl (g e), s') | r \<Rightarrow> r)"

definition io_get :: "('s \<Rightarrow> 'a) \<Rightarrow> ('s, 'a) io" where
  "io_get f = (\<lambda>s. (Inr (f s), s))"

definition io_modify :: "('s \<Rightarrow> 's) \<Rightarrow> ('s, unit) io" where
  "io_modify f = (\<lambda>s. (Inr (), f s))"

fun io_iter :: "('a \<Rightarrow> ('s, unit) io) \<Rightarrow> 'a list \<Rightarrow> ('s, unit) io" where
  "io_iter f [] = io_return ()"
| "io_iter f (x # xs) = io_bind (f x) (\<lambda>_. io_iter f xs)"

fun io_mapM :: "('a \<Rightarrow> ('s, 'b) io) \<Rightarrow> 'a list \<Rightarrow> ('s, 'b list) io" where
  "io_mapM f [] = io_return []"
| "io_mapM f (x # xs) = io_bind (f x) (\<lambda>y. io_bind (io_mapM f xs) (\<lambda>ys. io_return (y # ys)))"

declare io_return_def [io_simps] io_err_def [io_simps] io_bind_def [io_simps]
  io_try_def [io_simps] io_map_err_def [io_simps] io_get_def [io_simps]
  io_modify_def [io_simps]

lemma io_bind_return [simp]: "io_bind (io_return x) f = f x"
  by (simp add: io_simps)

lemma io_bind_err [simp]: "io_bind (io_err e) f = io_err e"
  by (simp add: io_simps)

lemma io_bind_assoc: "io_bind (io_bind m f) g = io_bind m (\<lambda>x. io_bind (f x) g)"
  by (auto simp: io_simps fun_eq_iff split: prod.splits sum.splits)

lemma io_bind_eqD:
  assumes "io_bind m f s = (Inr y, s'')"
  obtains x s' where "m s = (Inr x, s')" and "f x s' = (Inr y, s'')"
  using assms by (auto simp: io_bind_def split: prod.splits sum.splits)


subsection \<open>Invariants of effectful functions\<close>

text \<open>\<open>preserves P m\<close>: running \<open>m\<close> keeps \<open>P\<close>, whether it succeeds or fails.\<close>

named_theorems preserves_intros \<open>Introduction rules for \<open>preserves\<close>\<close>

definition preserves :: "('s \<Rightarrow> bool) \<Rightarrow> ('s, 'a) io \<Rightarrow> bool" where
  "preserves P m \<longleftrightarrow> (\<forall>s. P s \<longrightarrow> P (snd (m s)))"

lemma preservesI: "(\<And>s. P s \<Longrightarrow> P (snd (m s))) \<Longrightarrow> preserves P m"
  by (simp add: preserves_def)

lemma preservesD: "preserves P m \<Longrightarrow> P s \<Longrightarrow> m s = (r, s') \<Longrightarrow> P s'"
  unfolding preserves_def by (metis snd_conv)

lemma preserves_snd: "preserves P m \<Longrightarrow> P s \<Longrightarrow> P (snd (m s))"
  by (simp add: preserves_def)

lemma preserves_basic [preserves_intros]:
  "preserves P (io_return x)" "preserves P (io_err e)" "preserves P (io_get f)"
  by (simp_all add: preserves_def io_simps)

lemma preserves_bind [preserves_intros]:
  assumes "preserves P m" and "\<And>x. preserves P (f x)"
  shows "preserves P (io_bind m f)"
proof (rule preservesI)
  fix s
  assume s: "P s"
  obtain r s1 where m: "m s = (r, s1)" by force
  then have "P s1" using preservesD [OF assms(1) s] by simp
  then show "P (snd (io_bind m f s))"
    using m preserves_snd [OF assms(2)] by (cases r) (simp_all add: io_bind_def)
qed

lemma preserves_try [preserves_intros]: "preserves P m \<Longrightarrow> preserves P (io_try m)"
  by (auto simp: preserves_def io_try_def split: prod.splits)

lemma preserves_map_err [preserves_intros]: "preserves P m \<Longrightarrow> preserves P (io_map_err g m)"
  by (auto simp: preserves_def io_map_err_def split: prod.splits sum.splits)

lemma preserves_modify: "(\<And>s. P s \<Longrightarrow> P (f s)) \<Longrightarrow> preserves P (io_modify f)"
  by (simp add: preserves_def io_modify_def)

lemma preserves_iter [preserves_intros]:
  "(\<And>x. preserves P (f x)) \<Longrightarrow> preserves P (io_iter f xs)"
  by (induction xs) (auto intro: preserves_intros)

lemma preserves_mapM [preserves_intros]:
  "(\<And>x. preserves P (f x)) \<Longrightarrow> preserves P (io_mapM f xs)"
  by (induction xs) (auto intro!: preserves_intros)

lemma preserves_if [preserves_intros]:
  "preserves P a \<Longrightarrow> preserves P b \<Longrightarrow> preserves P (if c then a else b)"
  by simp

lemma preserves_option [preserves_intros]:
  "preserves P a \<Longrightarrow> (\<And>x. preserves P (f x)) \<Longrightarrow>
     preserves P (case m of None \<Rightarrow> a | Some x \<Rightarrow> f x)"
  by (cases m) auto

lemma preserves_sum [preserves_intros]:
  "(\<And>e. preserves P (f e)) \<Longrightarrow> (\<And>x. preserves P (g x)) \<Longrightarrow>
     preserves P (case m of Inl e \<Rightarrow> f e | Inr x \<Rightarrow> g x)"
  by (cases m) auto

lemma preserves_prod [preserves_intros]:
  "(\<And>x y. preserves P (f x y)) \<Longrightarrow> preserves P (case p of (x, y) \<Rightarrow> f x y)"
  by (cases p) auto

lemma preserves_nat [preserves_intros]:
  "preserves P a \<Longrightarrow> (\<And>k. preserves P (f k)) \<Longrightarrow> preserves P (case n of 0 \<Rightarrow> a | Suc k \<Rightarrow> f k)"
  by (cases n) auto

lemma preserves_let [preserves_intros]: "preserves P (f x) \<Longrightarrow> preserves P (let y = x in f y)"
  by simp


text \<open>\<open>never_fails m\<close>: \<open>m\<close> always returns a value.\<close>

definition never_fails :: "('s, 'a) io \<Rightarrow> bool" where
  "never_fails m \<longleftrightarrow> (\<forall>s. \<exists>x. fst (m s) = Inr x)"

lemma never_fails_run:
  assumes "never_fails m"
  obtains x s' where "m s = (Inr x, s')"
  using assms unfolding never_fails_def by (metis prod.collapse)

lemma never_fails_basic [preserves_intros]:
  "never_fails (io_return x)" "never_fails (io_get f)" "never_fails (io_modify g)" "never_fails (io_try m)"
  by (auto simp: never_fails_def io_simps split: prod.split)

lemma never_fails_bind [preserves_intros]:
  assumes "never_fails m" and "\<And>x. never_fails (f x)"
  shows "never_fails (io_bind m f)"
  unfolding never_fails_def
proof
  fix s
  obtain x s' where "m s = (Inr x, s')" using assms(1) by (rule never_fails_run)
  then show "\<exists>y. fst (io_bind m f s) = Inr y"
    using assms(2) by (simp add: io_bind_def never_fails_def)
qed

lemma never_fails_cases [preserves_intros]:
  "never_fails a \<Longrightarrow> never_fails b \<Longrightarrow> never_fails (if c then a else b)"
  "never_fails a \<Longrightarrow> (\<And>x. never_fails (h x)) \<Longrightarrow> never_fails (case mo of None \<Rightarrow> a | Some x \<Rightarrow> h x)"
  "(\<And>e. never_fails (k e)) \<Longrightarrow> (\<And>x. never_fails (h x)) \<Longrightarrow>
     never_fails (case r of Inl e \<Rightarrow> k e | Inr x \<Rightarrow> h x)"
  by (auto split: option.split sum.split)

lemma io_bind_run: "m s = (Inr x, s') \<Longrightarrow> io_bind m f s = f x s'"
  by (simp add: io_bind_def)

lemma io_try_run: "m s = (r, s') \<Longrightarrow> io_try m s = (Inr r, s')"
  by (simp add: io_try_def)

end
