(* ===== verification/F64.thy ===== *)
theory F64
  imports Prelude "HOL-Library.Log_Nat"
begin

text \<open>
  The Rust type \<open>f64\<close>: IEEE 754 binary64 with rounding to nearest, ties to even. A finite
  value is the rational number it denotes; \<open>round64\<close> rounds an exact result to the
  53-bit grid (with gradual underflow at exponent -1022) and overflows to an infinity.
  The two zeros are identified. The theory shows that rounding is monotone and idempotent, that
  the rounded distance to a point grows with the distance, and that the float comparison
  extends to a linear order in which NaN is least.
\<close>

section \<open>Values and rounding\<close>

datatype f64 = NaN | NegInf | Fin rat | PosInf

definition ilog2 :: "rat \<Rightarrow> int" where
  "ilog2 x = (let (a, b) = quotient_of x; k = bitlen a - bitlen b
              in if 2 powi k \<le> x then k else k - 1)"

definition round_even :: "rat \<Rightarrow> int" where
  "round_even x = (let n = \<lfloor>x\<rfloor>; d = x - of_int n
                   in if d < 1/2 then n else if 1/2 < d then n + 1
                      else if even n then n else n + 1)"

definition quantum_exp :: "rat \<Rightarrow> int" where
  "quantum_exp x = max (ilog2 \<bar>x\<bar>) (-1022) - 52"

definition round_rat :: "rat \<Rightarrow> rat" where
  "round_rat x = (if x = 0 then 0
     else of_int (round_even (x / 2 powi quantum_exp x)) * 2 powi quantum_exp x)"

definition f64_max_pow :: rat where "f64_max_pow = 2 ^ 1024"

definition round64 :: "rat \<Rightarrow> f64" where
  "round64 x = (let r = round_rat x in
     if f64_max_pow \<le> r then PosInf else if r \<le> - f64_max_pow then NegInf else Fin r)"


subsection \<open>Binary exponents\<close>

lemma powi_mono2: "a \<le> b \<Longrightarrow> (2::rat) powi a \<le> 2 powi b"
  by (rule power_int_increasing) auto

lemma powi_pos2 [simp]: "0 < (2::rat) powi a"
  by (rule zero_less_power_int) simp

lemma powi_add2: "(2::rat) powi (a + b) = 2 powi a * 2 powi b"
  by (rule power_int_add) simp

lemma powi_split2: "a \<le> b \<Longrightarrow> (2::rat) powi b = of_int (2 ^ nat (b - a)) * 2 powi a"
  using powi_add2 [of "b - a" a] by (simp add: power_int_def)

lemma bitlen_powi:
  assumes "0 < a"
  shows "2 powi (bitlen a - 1) \<le> (of_int a :: rat)" and "(of_int a :: rat) < 2 powi bitlen a"
proof -
  have b: "1 \<le> bitlen a"
    using assms bitlen_eq_zero_iff [of a] bitlen_nonneg [of a] by linarith
  have "of_int (2 ^ nat (bitlen a - 1)) \<le> (of_int a :: rat)"
    using bitlen_bounds [OF assms] by (simp only: of_int_le_iff)
  then show "2 powi (bitlen a - 1) \<le> (of_int a :: rat)"
    using b by (simp add: power_int_def)
  have "(of_int a :: rat) < of_int (2 ^ nat (bitlen a))"
    using bitlen_bounds [OF assms] by (simp only: of_int_less_iff)
  then show "(of_int a :: rat) < 2 powi bitlen a"
    using b by (simp add: power_int_def)
qed

lemma ilog2_bounds:
  assumes "0 < x"
  shows "2 powi ilog2 x \<le> x" and "x < 2 powi (ilog2 x + 1)"
proof -
  obtain a b where q: "quotient_of x = (a, b)" by force
  have b: "0 < b" using q by (rule quotient_of_denom_pos)
  have x: "x = of_int a / of_int b" using q by (rule quotient_of_div)
  have a: "0 < a" using assms b x by (simp add: zero_less_divide_iff)
  let ?k = "bitlen a - bitlen b"
  have bb: "0 < (of_int b :: rat)" using b by simp
  have up: "x < 2 powi (?k + 1)"
  proof -
    have e: "(2::rat) powi (?k + 1) * 2 powi (bitlen b - 1) = 2 powi bitlen a"
      by (simp flip: powi_add2)
    have "of_int a < (2::rat) powi (?k + 1) * 2 powi (bitlen b - 1)"
      using bitlen_powi(2) [OF a] e by simp
    also have "\<dots> \<le> 2 powi (?k + 1) * of_int b"
      using bitlen_powi(1) [OF b] by (intro mult_left_mono) auto
    finally show ?thesis using bb x by (simp add: divide_less_eq)
  qed
  have lo: "2 powi (?k - 1) \<le> x"
  proof -
    have e: "(2::rat) powi (?k - 1) * 2 powi bitlen b = 2 powi (bitlen a - 1)"
      by (simp flip: powi_add2)
    have "(2::rat) powi (?k - 1) * of_int b \<le> 2 powi (?k - 1) * 2 powi bitlen b"
      using bitlen_powi(2) [OF b] by (intro mult_left_mono) auto
    also have "\<dots> \<le> of_int a" using bitlen_powi(1) [OF a] e by simp
    finally show ?thesis using bb x by (simp add: le_divide_eq)
  qed
  show "2 powi ilog2 x \<le> x" and "x < 2 powi (ilog2 x + 1)"
    using up lo q by (auto simp: ilog2_def Let_def)
qed

lemma ilog2_mono:
  assumes "0 < x" and "x \<le> y"
  shows "ilog2 x \<le> ilog2 y"
proof (rule ccontr)
  assume "\<not> ilog2 x \<le> ilog2 y"
  then have "(2::rat) powi (ilog2 y + 1) \<le> 2 powi ilog2 x" by (intro powi_mono2) simp
  moreover have "y < 2 powi (ilog2 y + 1)" using assms by (intro ilog2_bounds) simp
  moreover have "2 powi ilog2 x \<le> x" using assms(1) by (rule ilog2_bounds)
  ultimately show False using assms(2) by simp
qed

lemma ilog2_unique:
  assumes "0 < x" and "2 powi k \<le> x" and "x < 2 powi (k + 1)"
  shows "ilog2 x = k"
proof -
  have "ilog2 x < k + 1"
    using ilog2_bounds(1) [OF assms(1)] assms(3)
    by (metis not_less powi_mono2 order.trans order.strict_trans2 linorder_not_le)
  moreover have "k < ilog2 x + 1"
    using ilog2_bounds(2) [OF assms(1)] assms(2)
    by (metis not_less powi_mono2 order.trans order.strict_trans2 linorder_not_le)
  ultimately show ?thesis by simp
qed

subsection \<open>Rounding to the nearest integer, ties to even\<close>

lemma round_even_of_int [simp]: "round_even (of_int n) = n"
  by (simp add: round_even_def)

lemma round_even_floor: "round_even x = \<lfloor>x\<rfloor> \<or> round_even x = \<lfloor>x\<rfloor> + 1"
  by (simp add: round_even_def Let_def)

lemma round_even_mono:
  assumes "x \<le> y"
  shows "round_even x \<le> round_even y"
proof (cases "\<lfloor>x\<rfloor> = \<lfloor>y\<rfloor>")
  case True
  with assms show ?thesis by (auto simp: round_even_def Let_def)
next
  case False
  then have "\<lfloor>x\<rfloor> + 1 \<le> \<lfloor>y\<rfloor>" using floor_mono [OF assms] by linarith
  then show ?thesis using round_even_floor [of x] round_even_floor [of y] by linarith
qed

lemma round_even_minus: "round_even (- x) = - round_even x"
proof (cases "x \<in> \<int>")
  case True
  then show ?thesis by (metis Ints_cases of_int_minus round_even_of_int)
next
  case False
  then have f: "\<lfloor>- x\<rfloor> = - \<lfloor>x\<rfloor> - 1"
    by (metis add.commute ceiling_altdef ceiling_def diff_minus_eq_add minus_add_distrib
        minus_diff_eq verit_minus_simplify(4) uminus_add_conv_diff Ints_of_int)
  show ?thesis using f by (auto simp: round_even_def Let_def)
qed

subsection \<open>Rounding to the float grid\<close>

lemma round_rat_zero [simp]: "round_rat 0 = 0"
  by (simp add: round_rat_def)

lemma quantum_exp_minus [simp]: "quantum_exp (- x) = quantum_exp x"
  by (simp add: quantum_exp_def)

lemma round_rat_minus: "round_rat (- x) = - round_rat x"
  by (simp add: round_rat_def round_even_minus)

lemma on_grid_round:
  assumes "x = of_int n * 2 powi q" and "quantum_exp x \<le> q"
  shows "round_rat x = x"
proof -
  let ?m = "n * 2 ^ nat (q - quantum_exp x)"
  have x: "x = of_int ?m * 2 powi quantum_exp x"
    using assms powi_split2 [OF assms(2)] by simp
  then have "x / 2 powi quantum_exp x = of_int ?m"
    by (metis nonzero_mult_div_cancel_right less_irrefl powi_pos2)
  then have "round_even (x / 2 powi quantum_exp x) = ?m"
    by (simp only: round_even_of_int)
  then have "of_int (round_even (x / 2 powi quantum_exp x)) * 2 powi quantum_exp x = x"
    using x by simp
  then show ?thesis by (simp add: round_rat_def)
qed

lemma round_rat_pow2:
  assumes "-1074 \<le> k"
  shows "round_rat (2 powi k) = 2 powi k"
proof -
  have "\<not> k < ilog2 (2 powi k)"
  proof
    assume "k < ilog2 (2 powi k)"
    then have "(2::rat) powi (k + 1) \<le> 2 powi ilog2 (2 powi k)" by (intro powi_mono2) simp
    also have "\<dots> \<le> 2 powi k" by (rule ilog2_bounds) simp
    finally show False by (simp add: powi_add2)
  qed
  then have "quantum_exp (2 powi k) \<le> k" using assms by (simp add: quantum_exp_def)
  then show ?thesis by (intro on_grid_round [of _ 1 k]) simp_all
qed

lemma quantum_exp_ge: "-1074 \<le> quantum_exp x"
  by (simp add: quantum_exp_def)

lemma quantum_exp_mono: "0 < x \<Longrightarrow> x \<le> y \<Longrightarrow> quantum_exp x \<le> quantum_exp y"
  using ilog2_mono [of x y] by (auto simp: quantum_exp_def)

lemma round_rat_same_quantum:
  assumes "0 < x" and "x \<le> y" and "quantum_exp x = quantum_exp y"
  shows "round_rat x \<le> round_rat y"
  using assms by (auto simp: round_rat_def intro!: mult_right_mono round_even_mono divide_right_mono)

text \<open>Rounding never leaves the binade's closed upper and lower ends.\<close>

lemma round_rat_le_pow2:
  assumes "0 < x" and "x \<le> 2 powi k" and "quantum_exp x \<le> k"
  shows "round_rat x \<le> 2 powi k"
proof -
  let ?q = "quantum_exp x"
  have e: "(2::rat) powi k / 2 powi ?q = of_int (2 ^ nat (k - ?q))"
    using powi_split2 [OF assms(3)] by simp
  have "x / 2 powi ?q \<le> 2 powi k / 2 powi ?q"
    using assms(2) by (intro divide_right_mono) auto
  then have "round_even (x / 2 powi ?q) \<le> 2 ^ nat (k - ?q)"
    using round_even_mono [of _ "of_int (2 ^ nat (k - ?q))"] e by (metis round_even_of_int)
  then have "(of_int (round_even (x / 2 powi ?q)) :: rat) \<le> of_int (2 ^ nat (k - ?q))"
    by (simp only: of_int_le_iff)
  then have "of_int (round_even (x / 2 powi ?q)) * 2 powi ?q
      \<le> of_int (2 ^ nat (k - ?q)) * (2::rat) powi ?q"
    by (intro mult_right_mono) auto
  also have "\<dots> = 2 powi k" using powi_split2 [OF assms(3)] by simp
  finally show ?thesis using assms(1) by (simp add: round_rat_def)
qed

lemma pow2_le_round_rat:
  assumes "2 powi k \<le> x" and "quantum_exp x \<le> k"
  shows "2 powi k \<le> round_rat x"
proof -
  let ?q = "quantum_exp x"
  have x: "0 < x" using assms(1) powi_pos2 [of k] by linarith
  have e: "(2::rat) powi k / 2 powi ?q = of_int (2 ^ nat (k - ?q))"
    using powi_split2 [OF assms(2)] by simp
  have "2 powi k / 2 powi ?q \<le> x / 2 powi ?q"
    using assms(1) by (intro divide_right_mono) auto
  then have "2 ^ nat (k - ?q) \<le> round_even (x / 2 powi ?q)"
    using round_even_mono [of "of_int (2 ^ nat (k - ?q))"] e by (metis round_even_of_int)
  then have "of_int (2 ^ nat (k - ?q)) \<le> (of_int (round_even (x / 2 powi ?q)) :: rat)"
    by (simp only: of_int_le_iff)
  then have "of_int (2 ^ nat (k - ?q)) * (2::rat) powi ?q
      \<le> of_int (round_even (x / 2 powi ?q)) * 2 powi ?q"
    by (intro mult_right_mono) auto
  then show ?thesis using x powi_split2 [OF assms(2)] by (simp add: round_rat_def)
qed

lemma round_rat_nonneg:
  assumes "0 \<le> x"
  shows "0 \<le> round_rat x"
proof -
  have "round_even 0 \<le> round_even (x / 2 powi quantum_exp x)"
    using assms by (intro round_even_mono) simp
  then show ?thesis using round_even_of_int [of 0] by (simp add: round_rat_def)
qed

lemma round_rat_mono_pos:
  assumes x: "0 < x" and le: "x \<le> y"
  shows "round_rat x \<le> round_rat y"
proof (cases "quantum_exp x = quantum_exp y")
  case True
  with x le show ?thesis by (rule round_rat_same_quantum)
next
  case False
  then have lt: "quantum_exp x < quantum_exp y" using quantum_exp_mono [OF x le] by simp
  let ?k = "ilog2 y"
  have y: "0 < y" using x le by simp
  have k: "-1022 < ?k" and ek: "quantum_exp y = ?k - 52"
    using lt quantum_exp_ge [of x] y by (auto simp: quantum_exp_def max_def split: if_splits)
  have lx: "ilog2 x < ?k" using lt ek x by (auto simp: quantum_exp_def)
  have "x \<le> 2 powi ?k"
  proof -
    have "x < 2 powi (ilog2 x + 1)" using x by (rule ilog2_bounds)
    also have "\<dots> \<le> 2 powi ?k" using lx by (intro powi_mono2) simp
    finally show ?thesis by simp
  qed
  moreover have "quantum_exp x \<le> ?k" using lt ek by simp
  ultimately have "round_rat x \<le> 2 powi ?k" by (rule round_rat_le_pow2 [OF x])
  also have "\<dots> \<le> round_rat y" using ilog2_bounds(1) [OF y] ek by (intro pow2_le_round_rat) auto
  finally show ?thesis .
qed

lemma round_rat_mono:
  assumes "x \<le> y"
  shows "round_rat x \<le> round_rat y"
proof -
  consider "0 < x" | "x \<le> 0" "0 \<le> y" | "y < 0" using assms by linarith
  then show ?thesis
  proof cases
    case 1
    then show ?thesis using assms by (rule round_rat_mono_pos)
  next
    case 2
    then have "round_rat x \<le> 0" using round_rat_nonneg [of "- x"] by (simp add: round_rat_minus)
    also have "\<dots> \<le> round_rat y" using 2 by (intro round_rat_nonneg)
    finally show ?thesis .
  next
    case 3
    then have "round_rat (- y) \<le> round_rat (- x)" using assms by (intro round_rat_mono_pos) auto
    then show ?thesis by (simp add: round_rat_minus)
  qed
qed

text \<open>Every result of rounding is a fixed point of rounding.\<close>

lemma round_rat_idem [simp]: "round_rat (round_rat x) = round_rat x"
proof -
  have pos: "round_rat (round_rat x) = round_rat x" if x: "0 < x" for x
  proof -
    let ?q = "quantum_exp x" and ?k = "max (ilog2 x) (-1022)"
    let ?r = "round_rat x" and ?n = "round_even (x / 2 powi quantum_exp x)"
    have q: "?q = ?k - 52" using x by (simp add: quantum_exp_def)
    have rn: "?r = of_int ?n * 2 powi ?q" using x by (simp add: round_rat_def)
    have r0: "0 \<le> ?r" using x by (intro round_rat_nonneg) simp
    have "x \<le> 2 powi (?k + 1)"
    proof -
      have "x < 2 powi (ilog2 x + 1)" using x by (rule ilog2_bounds)
      also have "\<dots> \<le> 2 powi (?k + 1)" by (intro powi_mono2) simp
      finally show ?thesis by simp
    qed
    then have up: "?r \<le> 2 powi (?k + 1)" using x q by (intro round_rat_le_pow2) auto
    show ?thesis
    proof (cases "?r = 0 \<or> ?r = 2 powi (?k + 1)")
      case True
      then show ?thesis using round_rat_pow2 [of "?k + 1"] by auto
    next
      case False
      with r0 up have r: "0 < ?r" "?r < 2 powi (?k + 1)" by auto
      have "\<not> ?k < ilog2 ?r"
      proof
        assume "?k < ilog2 ?r"
        then have "(2::rat) powi (?k + 1) \<le> 2 powi ilog2 ?r" by (intro powi_mono2) linarith
        also have "\<dots> \<le> ?r" using r(1) by (rule ilog2_bounds)
        finally show False using r(2) by simp
      qed
      then have "max (ilog2 ?r) (-1022) \<le> ?k" by (intro max.boundedI) auto
      then have "quantum_exp ?r \<le> ?q" using r(1) q by (simp only: quantum_exp_def abs_of_pos)
      with rn show ?thesis by (intro on_grid_round) auto
    qed
  qed
  consider "x = 0" | "0 < x" | "0 < - x" by linarith
  then show ?thesis
  proof cases
    case 3
    from pos [OF this] show ?thesis by (simp add: round_rat_minus)
  qed (use pos in auto)
qed


subsection \<open>Operations\<close>

fun f64_neg :: "f64 \<Rightarrow> f64" where
  "f64_neg NaN = NaN"
| "f64_neg NegInf = PosInf"
| "f64_neg PosInf = NegInf"
| "f64_neg (Fin x) = Fin (- x)"

fun f64_abs :: "f64 \<Rightarrow> f64" where
  "f64_abs NaN = NaN"
| "f64_abs NegInf = PosInf"
| "f64_abs PosInf = PosInf"
| "f64_abs (Fin x) = Fin \<bar>x\<bar>"

fun f64_add :: "f64 \<Rightarrow> f64 \<Rightarrow> f64" where
  "f64_add (Fin x) (Fin y) = round64 (x + y)"
| "f64_add NaN _ = NaN"
| "f64_add _ NaN = NaN"
| "f64_add PosInf NegInf = NaN"
| "f64_add NegInf PosInf = NaN"
| "f64_add PosInf _ = PosInf"
| "f64_add NegInf _ = NegInf"
| "f64_add (Fin _) b = b"

definition f64_sub :: "f64 \<Rightarrow> f64 \<Rightarrow> f64" where
  "f64_sub a b = f64_add a (f64_neg b)"

definition signed_inf :: "bool \<Rightarrow> f64" where
  "signed_inf neg = (if neg then NegInf else PosInf)"

fun f64_sign :: "f64 \<Rightarrow> rat" where
  "f64_sign NaN = 0"
| "f64_sign NegInf = -1"
| "f64_sign PosInf = 1"
| "f64_sign (Fin x) = sgn x"

fun f64_mul :: "f64 \<Rightarrow> f64 \<Rightarrow> f64" where
  "f64_mul (Fin x) (Fin y) = round64 (x * y)"
| "f64_mul a b =
     (if a = NaN \<or> b = NaN \<or> f64_sign a * f64_sign b = 0 then NaN
      else signed_inf (f64_sign a * f64_sign b < 0))"

fun f64_div :: "f64 \<Rightarrow> f64 \<Rightarrow> f64" where
  "f64_div NaN _ = NaN"
| "f64_div _ NaN = NaN"
| "f64_div (Fin x) (Fin y) =
     (if y = 0 then (if x = 0 then NaN else signed_inf (x < 0)) else round64 (x / y))"
| "f64_div (Fin _) _ = Fin 0"
| "f64_div a (Fin y) = signed_inf (f64_sign a * (if y < 0 then -1 else 1) < 0)"
| "f64_div _ _ = NaN"

fun partial_cmp :: "f64 \<Rightarrow> f64 \<Rightarrow> ordering option" where
  "partial_cmp NaN _ = None"
| "partial_cmp _ NaN = None"
| "partial_cmp (Fin x) (Fin y) = Some (if x < y then Less else if x = y then Equal else Greater)"
| "partial_cmp NegInf NegInf = Some Equal"
| "partial_cmp PosInf PosInf = Some Equal"
| "partial_cmp NegInf _ = Some Less"
| "partial_cmp _ NegInf = Some Greater"
| "partial_cmp PosInf _ = Some Greater"
| "partial_cmp _ PosInf = Some Less"

definition f64_lt :: "f64 \<Rightarrow> f64 \<Rightarrow> bool" where
  "f64_lt a b \<longleftrightarrow> partial_cmp a b = Some Less"

definition f64_le :: "f64 \<Rightarrow> f64 \<Rightarrow> bool" where
  "f64_le a b \<longleftrightarrow> partial_cmp a b = Some Less \<or> partial_cmp a b = Some Equal"

definition f64_max :: "f64 \<Rightarrow> f64 \<Rightarrow> f64" where
  "f64_max a b = (if a = NaN then b else if b = NaN then a else if f64_lt a b then b else a)"

definition f64_of_int :: "int \<Rightarrow> f64" where
  "f64_of_int i = round64 (of_int i)"

fun f64_to_u64 :: "f64 \<Rightarrow> 64 word" where
  "f64_to_u64 NaN = 0"
| "f64_to_u64 NegInf = 0"
| "f64_to_u64 PosInf = - 1"
| "f64_to_u64 (Fin x) =
     (if x < 0 then 0 else if 2 ^ 64 \<le> x then - 1 else word_of_int \<lfloor>x\<rfloor>)"

definition is_f64 :: "f64 \<Rightarrow> bool" where
  "is_f64 a = (case a of Fin x \<Rightarrow> round64 x = Fin x | _ \<Rightarrow> True)"

lemma f64_lt_simps [simp]:
  "f64_lt (Fin x) (Fin y) = (x < y)" "\<not> f64_lt NaN b" "\<not> f64_lt a NaN"
  "\<not> f64_lt PosInf a" "\<not> f64_lt a NegInf"
  "f64_lt (Fin x) PosInf" "f64_lt NegInf (Fin x)" "f64_lt NegInf PosInf"
  by (cases a; simp add: f64_lt_def)+

lemma f64_le_simps [simp]:
  "f64_le (Fin x) (Fin y) = (x \<le> y)" "\<not> f64_le NaN b" "\<not> f64_le a NaN"
  "f64_le PosInf b = (b = PosInf)" "f64_le a NegInf = (a = NegInf)"
  "f64_le (Fin x) PosInf" "f64_le NegInf (Fin x)" "f64_le NegInf PosInf"
  by (cases a; cases b; auto simp: f64_le_def)+


lemma round64_not_NaN [simp]: "round64 x \<noteq> NaN" "NaN \<noteq> round64 x"
  by (simp_all add: round64_def Let_def)

lemma round64_mono: "x \<le> y \<Longrightarrow> f64_le (round64 x) (round64 y)"
  using round_rat_mono [of x y] by (auto simp: round64_def Let_def)

lemma round64_fixed: "round64 x = Fin r \<Longrightarrow> round64 r = Fin r"
  by (auto simp: round64_def Let_def split: if_splits)

lemma is_f64_round64 [simp]: "is_f64 (round64 x)"
  by (cases "round64 x") (auto simp: is_f64_def dest: round64_fixed)

lemma round64_zero [simp]: "round64 0 = Fin 0"
  by (simp add: round64_def f64_max_pow_def)

lemma round64_minus: "round64 (- x) = f64_neg (round64 x)"
  by (auto simp: round64_def Let_def round_rat_minus f64_max_pow_def)

lemma f64_abs_neg [simp]: "f64_abs (f64_neg a) = f64_abs a"
  by (cases a) auto

lemma f64_le_trans: "f64_le a b \<Longrightarrow> f64_le b c \<Longrightarrow> f64_le a c"
  by (cases a; cases b; cases c) auto

lemma f64_le_lt_trans: "f64_le a b \<Longrightarrow> f64_lt b c \<Longrightarrow> f64_lt a c"
  by (cases a; cases b; cases c) auto

lemma f64_le_refl: "a \<noteq> NaN \<Longrightarrow> f64_le a a"
  by (cases a) auto

lemma f64_le_total: "a \<noteq> NaN \<Longrightarrow> b \<noteq> NaN \<Longrightarrow> f64_le a b \<or> f64_le b a"
  by (cases a; cases b) auto

lemma f64_lt_not_le: "a \<noteq> NaN \<Longrightarrow> b \<noteq> NaN \<Longrightarrow> f64_lt a b \<longleftrightarrow> \<not> f64_le b a"
  by (cases a; cases b) auto

lemma f64_abs_round64: "0 \<le> x \<Longrightarrow> f64_abs (round64 x) = round64 x"
  using round_rat_nonneg [of x] by (auto simp: round64_def Let_def f64_max_pow_def)

text \<open>The rounded distance to a fixed point grows with the exact distance.\<close>

lemma f64_dist_eq: "f64_abs (f64_sub (Fin x) (Fin y)) = round64 \<bar>x - y\<bar>"
proof (cases "y \<le> x")
  case True
  then show ?thesis by (simp add: f64_sub_def f64_abs_round64)
next
  case False
  then show ?thesis using f64_abs_round64 [of "y - x"] round64_minus [of "y - x"]
    by (simp add: f64_sub_def)
qed

lemma f64_dist_mono:
  assumes "f64_le a b" and "f64_le b h"
    and "f64_lt (f64_abs (f64_sub a h)) e"
  shows "f64_lt (f64_abs (f64_sub b h)) e"
proof -
  have "a = Fin (case a of Fin x \<Rightarrow> x) \<and> h = Fin (case h of Fin x \<Rightarrow> x)"
    using assms by (cases a; cases h; cases e; cases b) (auto simp: f64_sub_def)
  then obtain x z where az: "a = Fin x" "h = Fin z" by blast
  with assms(1,2) obtain y where b: "b = Fin y" by (cases b) auto
  have "f64_le (round64 \<bar>y - z\<bar>) (round64 \<bar>x - z\<bar>)"
    using assms(1,2) az b by (intro round64_mono) auto
  with assms(3) show ?thesis by (auto simp: az b f64_dist_eq intro: f64_le_lt_trans)
qed

text \<open>A rounded distance below a float bound is an exact distance below it.\<close>

lemma f64_dist_exact:
  assumes "is_f64 (Fin e)" and "f64_lt (f64_abs (f64_sub (Fin x) (Fin y))) (Fin e)"
  shows "\<bar>x - y\<bar> < e"
proof (rule ccontr)
  assume "\<not> \<bar>x - y\<bar> < e"
  then have "f64_le (round64 e) (round64 \<bar>x - y\<bar>)" by (intro round64_mono) simp
  with assms show False
    by (cases "round64 \<bar>x - y\<bar>") (auto simp: f64_dist_eq is_f64_def)
qed

subsection \<open>Representable values\<close>

lemma abs_scaled_less:
  assumes "\<bar>n\<bar> < 2 ^ 53"
  shows "\<bar>of_int n * 2 powi q :: rat\<bar> < 2 powi (53 + q)"
proof -
  have "\<bar>of_int n :: rat\<bar> < of_int (2 ^ 53)"
    using assms by (simp only: flip: of_int_abs of_int_less_iff)
  then have "\<bar>of_int n * 2 powi q :: rat\<bar> < 2 powi 53 * 2 powi q"
    by (simp add: abs_mult power_int_def)
  then show ?thesis by (simp only: powi_add2)
qed

lemma round_rat_representable:
  assumes "\<bar>n\<bar> < 2 ^ 53" and "-1074 \<le> q"
  shows "round_rat (of_int n * 2 powi q) = of_int n * 2 powi q"
proof (cases "n = 0")
  case False
  let ?x = "of_int n * 2 powi q :: rat"
  have x: "0 < \<bar>?x\<bar>" using False by (simp add: abs_mult)
  have lt: "\<bar>?x\<bar> < 2 powi (53 + q)" using assms(1) by (rule abs_scaled_less)
  have "ilog2 \<bar>?x\<bar> < 53 + q"
  proof (rule ccontr)
    assume "\<not> ilog2 \<bar>?x\<bar> < 53 + q"
    then have "(2::rat) powi (53 + q) \<le> 2 powi ilog2 \<bar>?x\<bar>" by (intro powi_mono2) simp
    also have "\<dots> \<le> \<bar>?x\<bar>" using x by (rule ilog2_bounds)
    finally show False using lt by simp
  qed
  then have "quantum_exp ?x \<le> q" using assms(2) by (simp add: quantum_exp_def)
  then show ?thesis by (intro on_grid_round) auto
qed simp

lemma round64_representable:
  assumes "\<bar>n\<bar> < 2 ^ 53" and "-1074 \<le> q" and "q \<le> 971"
  shows "round64 (of_int n * 2 powi q) = Fin (of_int n * 2 powi q)"
proof -
  have "\<bar>of_int n * 2 powi q :: rat\<bar> < 2 powi (53 + q)"
    using assms(1) by (rule abs_scaled_less)
  also have "\<dots> \<le> 2 powi 1024" using assms(3) by (intro powi_mono2) simp
  also have "\<dots> = f64_max_pow" by (simp add: f64_max_pow_def power_int_def)
  finally have "\<bar>of_int n * 2 powi q :: rat\<bar> < f64_max_pow" .
  then show ?thesis
    by (simp add: round64_def round_rat_representable [OF assms(1,2)] abs_less_iff Let_def)
qed

lemma round64_of_int: "\<bar>n\<bar> < 2 ^ 53 \<Longrightarrow> round64 (of_int n) = Fin (of_int n)"
  using round64_representable [of n 0] by simp

lemma round64_numeral [simp]:
  "(numeral k :: int) < 2 ^ 53 \<Longrightarrow> round64 (numeral k) = Fin (numeral k)"
  "(numeral k :: int) < 2 ^ 53 \<Longrightarrow> round64 (- numeral k) = Fin (- numeral k)"
  using round64_of_int [of "numeral k"] round64_of_int [of "- numeral k"] by simp_all

lemma round64_one [simp]: "round64 1 = Fin 1" "round64 (- 1) = Fin (- 1)"
  using round64_of_int [of 1] round64_of_int [of "- 1"] by simp_all

lemma round64_dyadic:
  assumes "\<bar>n\<bar> < 2 ^ 53" and "k \<le> 1074"
  shows "round64 (of_int n / 2 ^ k) = Fin (of_int n / 2 ^ k)"
proof -
  have "(2::rat) powi (- int k) = 1 / 2 ^ k" by (simp add: power_int_minus field_simps)
  then show ?thesis using round64_representable [OF assms(1), of "- int k"] assms(2) by simp
qed

subsection \<open>Reading and printing\<close>

text \<open>\<open>str::parse::<f64>\<close>: an optional sign, then \<open>inf\<close>, \<open>infinity\<close> or
  \<open>nan\<close> in any case, or decimal digits with an optional fraction and exponent. The decimal
  value is rounded once.\<close>

definition digit_val :: "char \<Rightarrow> nat" where
  "digit_val c = of_char c - 48"

definition digits_val :: "string \<Rightarrow> nat" where
  "digits_val ds = foldl (\<lambda>n c. 10 * n + digit_val c) 0 ds"

definition split_sign :: "string \<Rightarrow> bool \<times> string" where
  "split_sign s = (case s of [] \<Rightarrow> (False, [])
     | c # cs \<Rightarrow> if c = CHR ''-'' then (True, cs) else if c = CHR ''+'' then (False, cs)
                 else (False, s))"

definition parse_exponent :: "string \<Rightarrow> int option" where
  "parse_exponent s = (let (neg, ds) = split_sign s in
     if ds = [] \<or> \<not> list_all is_digit ds then None
     else Some (if neg then - int (digits_val ds) else int (digits_val ds)))"

definition parse_decimal :: "string \<Rightarrow> rat option" where
  "parse_decimal s =
     (let ip = takeWhile is_digit s; r1 = dropWhile is_digit s;
          (fp, r2) = (case r1 of [] \<Rightarrow> ([], [])
             | c # cs \<Rightarrow> if c = CHR ''.'' then (takeWhile is_digit cs, dropWhile is_digit cs)
                         else ([], r1));
          m = of_nat (digits_val (ip @ fp)) / 10 ^ length fp
      in if ip = [] \<and> fp = [] then None
         else case r2 of [] \<Rightarrow> Some m
            | c # cs \<Rightarrow> if c = CHR ''e'' \<or> c = CHR ''E''
                then map_option (\<lambda>e. m * 10 powi e) (parse_exponent cs) else None)"

definition parse_f64 :: "string \<Rightarrow> f64 option" where
  "parse_f64 s =
     (let (neg, r) = split_sign s; l = to_lowercase r
      in if l = ''nan'' then Some NaN
         else if l = ''inf'' \<or> l = ''infinity'' then Some (signed_inf neg)
         else map_option (\<lambda>x. round64 (if neg then - x else x)) (parse_decimal r))"

text \<open>\<open>Display\<close> for \<open>f64\<close> prints the shortest decimal that reads back as the value,
  the closest one when there are several, without an exponent.\<close>

definition ilog10 :: "rat \<Rightarrow> int" where
  "ilog10 x = (let (a, b) = quotient_of x;
                   k = int (length (show_nat (nat a))) - int (length (show_nat (nat b)))
               in if 10 powi k \<le> x then k else k - 1)"

definition shortest_at :: "rat \<Rightarrow> nat \<Rightarrow> (nat \<times> int) option" where
  "shortest_at x n =
     (let e = ilog10 x - int n + 1; y = x / 10 powi e; lo = \<lfloor>y\<rfloor>; hi = \<lceil>y\<rceil>;
          back = (\<lambda>m. round64 (of_int m * 10 powi e) = Fin x)
      in if back lo \<and> (\<not> back hi \<or> y - of_int lo \<le> of_int hi - y) then Some (nat lo, e)
         else if back hi then Some (nat hi, e) else None)"

definition shortest :: "rat \<Rightarrow> nat \<times> int" where
  "shortest x = (case List.find is_some (map (shortest_at x) [1..<18]) of
     Some (Some r) \<Rightarrow> r | _ \<Rightarrow> (0, 0))"

definition show_decimal :: "nat \<Rightarrow> int \<Rightarrow> string" where
  "show_decimal m e =
     (let ds = show_nat m in
      if 0 \<le> e then ds @ replicate (nat e) CHR ''0''
      else let k = nat (- e); z = replicate (Suc k - length ds) CHR ''0'' @ ds;
               ip = take (length z - k) z; fp = drop (length z - k) z
           in ip @ ''.'' @ fp)"

fun f64_to_string :: "f64 \<Rightarrow> string" where
  "f64_to_string NaN = ''NaN''"
| "f64_to_string PosInf = ''inf''"
| "f64_to_string NegInf = ''-inf''"
| "f64_to_string (Fin x) =
     (if x = 0 then ''0''
      else (if x < 0 then ''-'' else []) @ (case shortest \<bar>x\<bar> of (m, e) \<Rightarrow> show_decimal m e))"

subsection \<open>A total order that extends the float comparison\<close>

instantiation f64 :: linorder
begin

definition less_eq_f64 :: "f64 \<Rightarrow> f64 \<Rightarrow> bool" where
  "less_eq_f64 a b \<longleftrightarrow> a = NaN \<or> f64_le a b"

definition less_f64 :: "f64 \<Rightarrow> f64 \<Rightarrow> bool" where
  "less_f64 a b \<longleftrightarrow> a \<le> b \<and> \<not> b \<le> (a :: f64)"

instance
proof
  fix a b c :: f64
  show "a < b \<longleftrightarrow> a \<le> b \<and> \<not> b \<le> a" by (rule less_f64_def)
  show "a \<le> a" by (cases a) (auto simp: less_eq_f64_def)
  show "a \<le> b \<Longrightarrow> b \<le> c \<Longrightarrow> a \<le> c"
    by (auto simp: less_eq_f64_def intro: f64_le_trans)
  show "a \<le> b \<Longrightarrow> b \<le> a \<Longrightarrow> a = b"
    by (cases a; cases b) (auto simp: less_eq_f64_def)
  show "a \<le> b \<or> b \<le> a"
    by (cases a; cases b) (auto simp: less_eq_f64_def)
qed

end

lemma partial_cmp_order:
  assumes "a \<noteq> NaN" and "b \<noteq> NaN"
  shows "partial_cmp a b = Some (if a < b then Less else if a = b then Equal else Greater)"
  using assms by (cases a; cases b) (auto simp: less_f64_def less_eq_f64_def)

lemma f64_le_iff: "a \<noteq> NaN \<Longrightarrow> f64_le a b \<longleftrightarrow> a \<le> b"
  by (simp add: less_eq_f64_def)

lemma f64_lt_iff: "a \<noteq> NaN \<Longrightarrow> f64_lt a b \<longleftrightarrow> a < b"
  by (cases a; cases b) (auto simp: less_f64_def less_eq_f64_def)

end
