(* ===== verification/Retry.thy ===== *)
theory Retry
  imports F64
begin

text \<open>
  Model of \<open>crates/core/src/services/retry.rs\<close>. \<open>retry_with_backoff\<close> runs an
  operation until it succeeds or \<open>max_retries\<close> retries have failed; the model returns,
  beside the result and the state left by the operation, the list of the delays it slept.
  The circuit breaker is a record of the fields of the Rust struct. A call is one admission
  step followed, when it was admitted, by one completion step (\<open>on_success\<close> or
  \<open>on_failure\<close>); concurrent calls are interleavings of these steps, given by the step
  relation \<open>cb_step\<close>, in which each of the three handlers is atomic.
\<close>

section \<open>Retry with exponential backoff\<close>

record RetryConfig =
  max_retries :: u32
  initial_delay_ms :: u64
  max_delay_ms :: u64
  multiplier :: f64

definition RetryConfig_default :: RetryConfig where
  "RetryConfig_default = \<lparr> max_retries = 3, initial_delay_ms = 100, max_delay_ms = 1000,
     multiplier = Fin 2 \<rparr>"

definition next_delay :: "RetryConfig \<Rightarrow> u64 \<Rightarrow> u64" where
  "next_delay config delay_ms =
     min (f64_to_u64 (f64_mul (f64_of_int (uint delay_ms)) (multiplier config)))
       (max_delay_ms config)"

function retry_loop ::
  "RetryConfig \<Rightarrow> ('s, 'a) io \<Rightarrow> u32 \<Rightarrow> u64 \<Rightarrow> 's \<Rightarrow> 'a result \<times> 's \<times> u64 list" where
  "retry_loop config f attempt delay_ms s =
     (case f s of
        (Inr x, s') \<Rightarrow> (Inr x, s', [])
      | (Inl e, s') \<Rightarrow>
          if max_retries config \<le> attempt then (Inl e, s', [])
          else case retry_loop config f (attempt + 1) (next_delay config delay_ms) s' of
            (r, s'', sleeps) \<Rightarrow> (r, s'', delay_ms # sleeps))"
  by pat_completeness auto
termination
  by (relation "measure (\<lambda>(config, f, attempt, d, s). unat (max_retries config) - unat attempt)")
    (auto simp: not_le word_less_nat_alt unat_add_one)

declare retry_loop.simps [simp del]

definition retry_with_sleeps ::
  "RetryConfig \<Rightarrow> ('s, 'a) io \<Rightarrow> 's \<Rightarrow> 'a result \<times> 's \<times> u64 list" where
  "retry_with_sleeps config f s = retry_loop config f 0 (initial_delay_ms config) s"

definition retry_with_backoff :: "RetryConfig \<Rightarrow> ('s, 'a) io \<Rightarrow> ('s, 'a) io" where
  "retry_with_backoff config f s = (case retry_with_sleeps config f s of (r, s', _) \<Rightarrow> (r, s'))"

section \<open>Circuit breaker\<close>

datatype CircuitState = Closed | Open | HalfOpen

record CircuitBreaker =
  cb_state :: CircuitState
  failure_count :: u64
  success_count :: u64
  last_failure_time :: "timestamp option"
  failure_threshold :: u64
  success_threshold :: u64
  cb_timeout :: nat

definition CircuitBreaker_new :: "u64 \<Rightarrow> u64 \<Rightarrow> nat \<Rightarrow> CircuitBreaker" where
  "CircuitBreaker_new ft st t = \<lparr> cb_state = Closed, failure_count = 0, success_count = 0,
     last_failure_time = None, failure_threshold = ft, success_threshold = st, cb_timeout = t \<rparr>"

definition on_success :: "CircuitBreaker \<Rightarrow> CircuitBreaker" where
  "on_success cb =
     (case cb_state cb of
        HalfOpen \<Rightarrow>
          let success = success_count cb + 1; cb1 = cb\<lparr>success_count := success\<rparr>
          in if success_threshold cb \<le> success
             then cb1\<lparr>cb_state := Closed, failure_count := 0\<rparr> else cb1
      | Closed \<Rightarrow> cb\<lparr>failure_count := 0\<rparr>
      | Open \<Rightarrow> cb)"

definition on_failure :: "timestamp \<Rightarrow> CircuitBreaker \<Rightarrow> CircuitBreaker" where
  "on_failure now cb =
     (case cb_state cb of
        HalfOpen \<Rightarrow> cb\<lparr>cb_state := Open, last_failure_time := Some now, success_count := 0\<rparr>
      | Closed \<Rightarrow>
          let failures = failure_count cb + 1;
              cb1 = cb\<lparr>failure_count := failures, last_failure_time := Some now\<rparr>
          in if failure_threshold cb \<le> failures then cb1\<lparr>cb_state := Open\<rparr> else cb1
      | Open \<Rightarrow> cb\<lparr>last_failure_time := Some now\<rparr>)"

text \<open>The head of \<open>call\<close>: \<open>None\<close> when the call is refused, otherwise the breaker with which
  the operation is started. \<open>elapsed\<close> saturates at zero.\<close>

definition cb_admit :: "timestamp \<Rightarrow> CircuitBreaker \<Rightarrow> CircuitBreaker option" where
  "cb_admit now cb =
     (case cb_state cb of
        Open \<Rightarrow>
          (case last_failure_time cb of
             Some last' \<Rightarrow>
               if cb_timeout cb \<le> now - last'
               then Some (cb\<lparr>cb_state := HalfOpen, success_count := 0\<rparr>) else None
           | None \<Rightarrow> None)
      | HalfOpen \<Rightarrow> Some cb
      | Closed \<Rightarrow> Some cb)"

definition cb_call ::
  "timestamp \<Rightarrow> timestamp \<Rightarrow> ('s, 'a) io \<Rightarrow> CircuitBreaker \<Rightarrow> 's \<Rightarrow> 'a result \<times> CircuitBreaker \<times> 's"
where
  "cb_call t0 t1 f cb s =
     (case cb_admit t0 cb of
        None \<Rightarrow> (Inl ''Circuit breaker is open'', cb, s)
      | Some cb1 \<Rightarrow>
          (case f s of
             (Inr x, s') \<Rightarrow> (Inr x, on_success cb1, s')
           | (Inl e, s') \<Rightarrow> (Inl e, on_failure t1 cb1, s')))"

definition is_open :: "CircuitBreaker \<Rightarrow> bool" where
  "is_open cb \<longleftrightarrow> cb_state cb = Open"


section \<open>Retry: what the loop computes\<close>

text \<open>The reference: at most \<open>n\<close> further attempts after a failed one, and the delays of
  consecutive retries.\<close>

primrec attempts :: "nat \<Rightarrow> ('s, 'a) io \<Rightarrow> ('s, 'a) io" where
  "attempts 0 f s = f s"
| "attempts (Suc n) f s =
     (case f s of (Inr x, s') \<Rightarrow> (Inr x, s') | (Inl e, s') \<Rightarrow> attempts n f s')"

primrec failed_attempts :: "nat \<Rightarrow> ('s, 'a) io \<Rightarrow> 's \<Rightarrow> nat" where
  "failed_attempts 0 f s = 0"
| "failed_attempts (Suc n) f s =
     (case f s of (Inr x, s') \<Rightarrow> 0 | (Inl e, s') \<Rightarrow> Suc (failed_attempts n f s'))"

primrec delays :: "RetryConfig \<Rightarrow> u64 \<Rightarrow> nat \<Rightarrow> u64 list" where
  "delays config d 0 = []"
| "delays config d (Suc n) = d # delays config (next_delay config d) n"

lemma length_delays [simp]: "length (delays config d n) = n"
  by (induction n arbitrary: d) auto

lemma failed_attempts_le: "failed_attempts n f s \<le> n"
  by (induction n arbitrary: s) (auto split: prod.splits sum.splits)

lemma next_delay_le: "next_delay config d \<le> max_delay_ms config"
  by (simp add: next_delay_def)

lemma delays_bounded: "d' \<in> set (delays config (next_delay config d) n) \<Longrightarrow> d' \<le> max_delay_ms config"
  by (induction n arbitrary: d) (auto simp: next_delay_le)

lemma retry_loop_attempts:
  assumes "unat attempt \<le> unat (max_retries config)"
    and "n = unat (max_retries config) - unat attempt"
  shows "retry_loop config f attempt d s =
    (fst (attempts n f s), snd (attempts n f s), delays config d (failed_attempts n f s))"
  using assms
proof (induction n arbitrary: attempt d s)
  case 0
  then have "max_retries config \<le> attempt" by (simp add: word_le_nat_alt)
  then show ?case
    by (subst retry_loop.simps) (auto split: prod.splits sum.splits)
next
  case (Suc n)
  then have lt: "attempt < max_retries config" by (simp add: word_less_nat_alt)
  then have "unat (attempt + 1) = unat attempt + 1" by (rule unat_add_one)
  with Suc.prems have "retry_loop config f (attempt + 1) (next_delay config d) s' =
      (fst (attempts n f s'), snd (attempts n f s'),
       delays config (next_delay config d) (failed_attempts n f s'))" for s'
    by (intro Suc.IH) auto
  with lt show ?case
    by (subst retry_loop.simps) (auto split: prod.splits sum.splits)
qed

lemma retry_with_backoff_attempts:
  "retry_with_backoff config f s = attempts (unat (max_retries config)) f s"
  by (simp add: retry_with_backoff_def retry_with_sleeps_def
      retry_loop_attempts [of 0 config "unat (max_retries config)"])

lemma attempts_invariant:
  assumes "\<And>s. P s \<Longrightarrow> P (snd (f s))" and "P s"
  shows "P (snd (attempts n f s))"
  using assms(2)
proof (induction n arbitrary: s)
  case (Suc n)
  then show ?case using assms(1) [of s] by (auto split: prod.splits sum.splits)
qed (simp add: assms(1))

lemma retry_invariant:
  assumes "\<And>s. P s \<Longrightarrow> P (snd (f s))" and "P s"
  shows "P (snd (retry_with_backoff config f s))"
  using attempts_invariant [OF assms] by (simp add: retry_with_backoff_attempts)

text \<open>C32: \<open>retry_with_backoff\<close> always returns; its result and final state are those of running
  the operation until it first succeeds, at most \<open>max_retries + 1\<close> times; it sleeps once per
  failed attempt but the last, first for \<open>initial_delay_ms\<close> and then never longer than
  \<open>max_delay_ms\<close>.\<close>

theorem retry_with_backoff_correct:
  "\<exists>k \<le> unat (max_retries config).
     retry_with_sleeps config f s =
       (fst (attempts (unat (max_retries config)) f s),
        snd (attempts (unat (max_retries config)) f s),
        delays config (initial_delay_ms config) k)
     \<and> k = failed_attempts (unat (max_retries config)) f s
     \<and> list_all (\<lambda>d. d \<le> max_delay_ms config)
         (tl (delays config (initial_delay_ms config) k))"
proof -
  let ?n = "unat (max_retries config)"
  have "list_all (\<lambda>d. d \<le> max_delay_ms config) (tl (delays config (initial_delay_ms config) k))" for k
    by (cases k) (auto simp: list_all_iff dest: delays_bounded)
  then show ?thesis
    using retry_loop_attempts [of 0 config ?n f "initial_delay_ms config" s]
      failed_attempts_le [of ?n f s]
    by (auto simp: retry_with_sleeps_def)
qed

section \<open>Circuit breaker: the state machine\<close>

datatype cb_event = Admit timestamp | Refuse timestamp | Success | Failure timestamp

text \<open>The breaker with the number of operations in flight.\<close>

inductive cb_step :: "CircuitBreaker \<times> nat \<Rightarrow> cb_event \<Rightarrow> CircuitBreaker \<times> nat \<Rightarrow> bool" where
  admit: "cb_admit now cb = Some cb' \<Longrightarrow> cb_step (cb, n) (Admit now) (cb', Suc n)"
| refuse: "cb_admit now cb = None \<Longrightarrow> cb_step (cb, n) (Refuse now) (cb, n)"
| success: "cb_step (cb, Suc n) Success (on_success cb, n)"
| failure: "cb_step (cb, Suc n) (Failure now) (on_failure now cb, n)"

inductive cb_reachable :: "u64 \<Rightarrow> u64 \<Rightarrow> nat \<Rightarrow> CircuitBreaker \<times> nat \<Rightarrow> bool"
  for ft st t where
  init: "cb_reachable ft st t (CircuitBreaker_new ft st t, 0)"
| step: "cb_reachable ft st t c \<Longrightarrow> cb_step c e c' \<Longrightarrow> cb_reachable ft st t c'"

inductive_cases cb_stepE: "cb_step c e c'"

definition cb_inv :: "CircuitBreaker \<Rightarrow> bool" where
  "cb_inv cb \<longleftrightarrow>
     (case cb_state cb of
        Closed \<Rightarrow> failure_count cb = 0 \<or> failure_count cb < failure_threshold cb
      | Open \<Rightarrow> last_failure_time cb \<noteq> None
      | HalfOpen \<Rightarrow> success_count cb = 0 \<or> success_count cb < success_threshold cb)"

lemma cb_inv_admit: "cb_inv cb \<Longrightarrow> cb_admit now cb = Some cb' \<Longrightarrow> cb_inv cb'"
  by (auto simp: cb_inv_def cb_admit_def split: CircuitState.splits option.splits if_splits)

lemma cb_inv_success: "cb_inv cb \<Longrightarrow> cb_inv (on_success cb)"
  by (auto simp: cb_inv_def on_success_def Let_def split: CircuitState.splits)

lemma cb_inv_failure: "cb_inv cb \<Longrightarrow> cb_inv (on_failure now cb)"
  by (auto simp: cb_inv_def on_failure_def Let_def split: CircuitState.splits)

lemma cb_reachable_inv: "cb_reachable ft st t c \<Longrightarrow> cb_inv (fst c)"
proof (induction rule: cb_reachable.induct)
  case init
  then show ?case by (simp add: cb_inv_def CircuitBreaker_new_def)
next
  case (step c e c')
  from step.hyps(2) step.IH show ?case
    by (cases rule: cb_step.cases) (auto intro: cb_inv_admit cb_inv_success cb_inv_failure)
qed

lemma cb_thresholds:
  "failure_threshold (on_success cb) = failure_threshold cb"
  "failure_threshold (on_failure now cb) = failure_threshold cb"
  "cb_timeout (on_success cb) = cb_timeout cb"
  "cb_timeout (on_failure now cb) = cb_timeout cb"
  by (auto simp: on_success_def on_failure_def Let_def split: CircuitState.splits)



text \<open>A run of calls, each with the times at which it is admitted and completes.\<close>

primrec cb_calls ::
  "(timestamp \<times> timestamp) list \<Rightarrow> ('s, 'a) io \<Rightarrow> CircuitBreaker \<Rightarrow> 's \<Rightarrow> CircuitBreaker \<times> 's"
where
  "cb_calls [] f cb s = (cb, s)"
| "cb_calls (t # ts) f cb s =
     (case cb_call (fst t) (snd t) f cb s of (_, cb', s') \<Rightarrow> cb_calls ts f cb' s')"

lemma cb_call_closed_failing:
  assumes "cb_state cb = Closed" and "\<And>s. \<exists>e. fst (f s) = Inl e"
  shows "\<exists>r s'. cb_call t0 t1 f cb s = (r, on_failure t1 cb, s')"
  using assms(1) assms(2) [of s]
  by (auto simp: cb_call_def cb_admit_def split: prod.splits)

lemma cb_failing_run:
  assumes "\<And>s. \<exists>e. fst (f s) = Inl e" and "cb_state cb = Closed"
    and "failure_count cb < failure_threshold cb"
    and "unat (failure_count cb) + length ts \<le> unat (failure_threshold cb)"
  shows "cb_state (fst (cb_calls ts f cb s)) =
    (if unat (failure_count cb) + length ts = unat (failure_threshold cb) then Open else Closed)"
  using assms(2-4)
proof (induction ts arbitrary: cb s)
  case Nil
  then show ?case by (auto simp: word_less_nat_alt)
next
  case (Cons t ts)
  let ?cb = "on_failure (snd t) cb"
  obtain r s' where call: "cb_call (fst t) (snd t) f cb s = (r, ?cb, s')"
    using cb_call_closed_failing [OF Cons.prems(1), of f "fst t" "snd t" s] assms(1) by blast
  have u: "unat (failure_count cb + 1) = unat (failure_count cb) + 1"
    using Cons.prems(2) by (rule unat_add_one)
  show ?case
  proof (cases "failure_threshold cb \<le> failure_count cb + 1")
    case True
    then have "length ts = 0" using Cons.prems(3) u unfolding word_le_nat_alt list.size by linarith
    moreover have "cb_state ?cb = Open"
      using True Cons.prems(1) by (simp add: on_failure_def Let_def)
    ultimately show ?thesis using call True Cons.prems(3) u by (simp add: word_le_nat_alt)
  next
    case False
    then have "cb_state ?cb = Closed" "failure_count ?cb = failure_count cb + 1"
      using Cons.prems(1) by (simp_all add: on_failure_def Let_def)
    with False Cons.prems(3) u show ?thesis
      using Cons.IH [of ?cb s'] call by (simp add: cb_thresholds word_less_nat_alt word_le_nat_alt)
  qed
qed

text \<open>a fresh breaker stays closed for the first \<open>failure_threshold - 1\<close> consecutive failing
  calls and is open after the next one, whatever the times of the calls.\<close>

theorem circuit_breaker_opens_at_threshold:
  assumes "\<And>s. \<exists>e. fst (f s) = Inl e" and "0 < k" and "length ts \<le> unat k"
  shows "is_open (fst (cb_calls ts f (CircuitBreaker_new k st t) s)) \<longleftrightarrow> length ts = unat k"
  using cb_failing_run [of f "CircuitBreaker_new k st t" ts s, OF assms(1)] assms(2,3)
  by (simp add: CircuitBreaker_new_def is_open_def)

theorem circuit_breaker_opens_at_threshold_witness:
  "is_open (fst (cb_calls [(0, 1), (2, 3), (4, 5)] (io_err ''error'') (CircuitBreaker_new 3 2 1000) ()))"
  using circuit_breaker_opens_at_threshold
    [of "io_err ''error''" 3 "[(0, 1), (2, 3), (4, 5)]" 2 1000 "()"]
  by (simp add: io_simps)

text \<open>While the breaker is open and its timeout has not passed, a call fails with the breaker's
  error, leaves the breaker as it is and does not run the operation; once it has passed, a
  successful call in a breaker with success threshold 1 closes it and clears the failures.\<close>

theorem circuit_breaker_open_call:
  assumes "cb_state cb = Open" and "last_failure_time cb = Some t0" and "t0 \<le> now"
  shows "(now < t0 + cb_timeout cb \<longrightarrow>
            cb_call now t1 f cb s = (Inl ''Circuit breaker is open'', cb, s))
    \<and> (t0 + cb_timeout cb \<le> now \<and> f s = (Inr x, s') \<and> success_threshold cb \<le> 1 \<longrightarrow>
         cb_call now t1 f cb s =
           (Inr x, cb\<lparr>cb_state := Closed, success_count := 1, failure_count := 0\<rparr>, s'))"
  using assms by (auto simp: cb_call_def cb_admit_def on_success_def Let_def)

theorem circuit_breaker_open_call_witness:
  "cb_call 12 13 (io_return (7::nat)) (on_failure 5 (CircuitBreaker_new 1 1 10)) ()
     = (Inl ''Circuit breaker is open'', on_failure 5 (CircuitBreaker_new 1 1 10), ())"
  using circuit_breaker_open_call
    [of "on_failure 5 (CircuitBreaker_new 1 1 10)" 5 12 13 "io_return (7::nat)" "()"]
  by (simp add: on_failure_def CircuitBreaker_new_def)

end
