(* ===== verification/Json.thy ===== *)
theory Json
  imports F64
begin

text \<open>
  JSON values as the code handles them through \<open>serde_json::Value\<close>: the constructors of
  that type and the accessors the sources call (\<open>get\<close>, \<open>as_str\<close>,
  \<open>as_f64\<close>, \<open>as_bool\<close>, \<open>as_array\<close>, \<open>as_object\<close>,
  \<open>Map::insert\<close>, \<open>Map::remove\<close>). An object is an association list in which
  the first entry of a key counts; the order of its keys is not observed. The theory states the
  map laws of objects as the interface \<open>json_map\<close> and interprets it.
\<close>

datatype json =
    JNull
  | JBool bool
  | JInt int
  | JFloat f64
  | JStr string
  | JArr "json list"
  | JObj "(string \<times> json) list"

type_synonym json_obj = "(string \<times> json) list"

section \<open>Objects\<close>

definition obj_get :: "json_obj \<Rightarrow> string \<Rightarrow> json option" where
  "obj_get o1 k = map_of o1 k"

fun obj_insert :: "string \<Rightarrow> json \<Rightarrow> json_obj \<Rightarrow> json_obj" where
  "obj_insert k v [] = [(k, v)]"
| "obj_insert k v ((k', v') # o1) = (if k = k' then (k, v) # o1 else (k', v') # obj_insert k v o1)"

definition obj_remove :: "string \<Rightarrow> json_obj \<Rightarrow> json_obj" where
  "obj_remove k o1 = filter (\<lambda>(k', _). k' \<noteq> k) o1"

definition obj_keys :: "json_obj \<Rightarrow> string set" where
  "obj_keys o1 = fst ` set o1"

text \<open>Inserting an optional field, as in \<open>if let Some(v) = ... { obj.insert(k, v) }\<close>.\<close>

definition obj_insert_opt :: "string \<Rightarrow> json option \<Rightarrow> json_obj \<Rightarrow> json_obj" where
  "obj_insert_opt k m o1 = (case m of None \<Rightarrow> o1 | Some v \<Rightarrow> obj_insert k v o1)"

lemma obj_get_Nil [simp]: "obj_get [] k = None"
  by (simp add: obj_get_def)

lemma obj_get_Cons: "obj_get ((k, v) # o1) k' = (if k' = k then Some v else obj_get o1 k')"
  by (simp add: obj_get_def)

lemma obj_get_insert [simp]:
  "obj_get (obj_insert k v o1) k' = (if k' = k then Some v else obj_get o1 k')"
  by (induction k v o1 rule: obj_insert.induct) (auto simp: obj_get_def)

lemma obj_get_insert_opt [simp]:
  "obj_get (obj_insert_opt k m o1) k' =
     (if k' = k then opt_or m (obj_get o1 k) else obj_get o1 k')"
  by (cases m) (simp_all add: obj_insert_opt_def)

lemma obj_get_remove [simp]:
  "obj_get (obj_remove k o1) k' = (if k' = k then None else obj_get o1 k')"
  by (induction o1) (auto simp: obj_get_def obj_remove_def)

lemma obj_keys_insert [simp]: "obj_keys (obj_insert k v o1) = insert k (obj_keys o1)"
  by (induction k v o1 rule: obj_insert.induct) (auto simp: obj_keys_def)

lemma obj_keys_insert_opt:
  "obj_keys (obj_insert_opt k m o1) = (if m = None then {} else {k}) \<union> obj_keys o1"
  by (cases m) (simp_all add: obj_insert_opt_def)

lemma obj_keys_Nil [simp]: "obj_keys [] = {}"
  by (simp add: obj_keys_def)

lemma obj_get_keys: "obj_get o1 k \<noteq> None \<longleftrightarrow> k \<in> obj_keys o1"
  by (simp add: obj_get_def obj_keys_def map_of_eq_None_iff)

locale json_map =
  fixes empty :: 'm
    and put :: "'k \<Rightarrow> 'v \<Rightarrow> 'm \<Rightarrow> 'm"
    and del :: "'k \<Rightarrow> 'm \<Rightarrow> 'm"
    and look :: "'m \<Rightarrow> 'k \<Rightarrow> 'v option"
  assumes look_empty: "look empty k = None"
    and look_put: "look (put k v m) k' = (if k' = k then Some v else look m k')"
    and look_del: "look (del k m) k' = (if k' = k then None else look m k')"
begin

fun put_all :: "('k \<times> 'v) list \<Rightarrow> 'm \<Rightarrow> 'm" where
  "put_all [] m = m"
| "put_all ((k, v) # kvs) m = put_all kvs (put k v m)"

lemma look_put_all:
  "look (put_all kvs m) k = (case map_of (rev kvs) k of None \<Rightarrow> look m k | Some v \<Rightarrow> Some v)"
  by (induction kvs m rule: put_all.induct)
    (auto simp: look_put map_add_def split: option.splits)

lemma look_put_del: "look (put k v (del k m)) = look (put k v m)"
  by (auto simp: look_put look_del fun_eq_iff)

lemma look_put_put: "look (put k v (put k w m)) = look (put k v m)"
  by (auto simp: look_put fun_eq_iff)

end

interpretation jobj: json_map "[]" obj_insert obj_remove obj_get
  by unfold_locales auto

section \<open>Accessors\<close>

fun as_object :: "json \<Rightarrow> json_obj option" where
  "as_object (JObj o1) = Some o1"
| "as_object _ = None"

fun as_array :: "json \<Rightarrow> json list option" where
  "as_array (JArr xs) = Some xs"
| "as_array _ = None"

fun as_str :: "json \<Rightarrow> string option" where
  "as_str (JStr s) = Some s"
| "as_str _ = None"

fun as_bool :: "json \<Rightarrow> bool option" where
  "as_bool (JBool b) = Some b"
| "as_bool _ = None"

fun as_f64 :: "json \<Rightarrow> f64 option" where
  "as_f64 (JInt i) = Some (f64_of_int i)"
| "as_f64 (JFloat x) = Some x"
| "as_f64 _ = None"

definition json_get :: "json \<Rightarrow> string \<Rightarrow> json option" where
  "json_get v k = Option.bind (as_object v) (\<lambda>o1. obj_get o1 k)"

definition get_str :: "json \<Rightarrow> string \<Rightarrow> string option" where
  "get_str v k = Option.bind (json_get v k) as_str"

lemma json_get_simps [simp]:
  "json_get (JObj o1) k = obj_get o1 k" "json_get JNull k = None" "json_get (JStr s) k = None"
  "json_get (JBool b) k = None" "json_get (JInt i) k = None" "json_get (JFloat x) k = None"
  "json_get (JArr xs) k = None"
  by (simp_all add: json_get_def)

text \<open>\<open>jsonb || jsonb\<close> of PostgreSQL on two objects: the entries of the right one win.\<close>

fun obj_merge :: "json_obj \<Rightarrow> json_obj \<Rightarrow> json_obj" where
  "obj_merge o1 [] = o1"
| "obj_merge o1 ((k, v) # o2) = obj_insert k v (obj_merge o1 o2)"

lemma obj_get_merge:
  "obj_get (obj_merge o1 o2) k = opt_or (obj_get o2 k) (obj_get o1 k)"
  by (induction o1 o2 rule: obj_merge.induct) (auto simp: obj_get_Cons)

fun opt_json :: "string option \<Rightarrow> json" where
  "opt_json None = JNull"
| "opt_json (Some s) = JStr s"

fun opt_f64_json :: "f64 option \<Rightarrow> json" where
  "opt_f64_json None = JNull"
| "opt_f64_json (Some x) = (case x of Fin _ \<Rightarrow> JFloat x | _ \<Rightarrow> JNull)"

end
