(* ===== verification/Models.thy ===== *)
theory Models
  imports Json
begin

text \<open>
  The data model of \<open>crates/core/src/models\<close>: the status enums with their display
  strings, and the row types of the database tables as records with the fields of the Rust
  structs. Field names carry a prefix per struct (\<open>l_\<close> lead, \<open>c_\<close> campaign,
  \<open>b_\<close> buyer, \<open>bi_\<close> buyer integration, \<open>pt_\<close> ping tree,
  \<open>ptc_\<close> ping tree campaign, \<open>ptp_\<close> ping tree publisher, \<open>qc_\<close>
  qualification config, \<open>p_\<close> publisher). Points in time are natural numbers, decimals are
  rationals. The theory holds the pure operations of the models (activity tests, revenue share
  validation and defaults) and their properties.
\<close>

section \<open>Enums\<close>

datatype LeadStatus = LS_Processing | LS_PingAccepted | LS_Sold | LS_Rejected | LS_Timeout
  | LS_Invalid | LS_Error | LS_Test

fun LeadStatus_as_str :: "LeadStatus \<Rightarrow> string" where
  "LeadStatus_as_str LS_Processing = ''processing''"
| "LeadStatus_as_str LS_PingAccepted = ''ping_accepted''"
| "LeadStatus_as_str LS_Sold = ''sold''"
| "LeadStatus_as_str LS_Rejected = ''rejected''"
| "LeadStatus_as_str LS_Timeout = ''timeout''"
| "LeadStatus_as_str LS_Invalid = ''invalid''"
| "LeadStatus_as_str LS_Error = ''error''"
| "LeadStatus_as_str LS_Test = ''test''"

datatype PublisherStatus = PS_Active | PS_Inactive | PS_Suspended

fun PublisherStatus_as_str :: "PublisherStatus \<Rightarrow> string" where
  "PublisherStatus_as_str PS_Active = ''active''"
| "PublisherStatus_as_str PS_Inactive = ''inactive''"
| "PublisherStatus_as_str PS_Suspended = ''suspended''"

datatype BuyerStatus = BS_Active | BS_Incomplete | BS_Inactive | BS_Suspended

fun BuyerStatus_as_str :: "BuyerStatus \<Rightarrow> string" where
  "BuyerStatus_as_str BS_Active = ''active''"
| "BuyerStatus_as_str BS_Incomplete = ''incomplete''"
| "BuyerStatus_as_str BS_Inactive = ''inactive''"
| "BuyerStatus_as_str BS_Suspended = ''suspended''"

datatype CampaignStatus = CS_Active | CS_Paused | CS_Inactive

fun CampaignStatus_as_str :: "CampaignStatus \<Rightarrow> string" where
  "CampaignStatus_as_str CS_Active = ''active''"
| "CampaignStatus_as_str CS_Paused = ''paused''"
| "CampaignStatus_as_str CS_Inactive = ''inactive''"

datatype PingResult = PiR_Accepted | PiR_Rejected | PiR_Timeout | PiR_Invalid | PiR_Error | PiR_Sold

fun PingResult_as_str :: "PingResult \<Rightarrow> string" where
  "PingResult_as_str PiR_Accepted = ''accepted''"
| "PingResult_as_str PiR_Rejected = ''rejected''"
| "PingResult_as_str PiR_Timeout = ''timeout''"
| "PingResult_as_str PiR_Invalid = ''invalid''"
| "PingResult_as_str PiR_Error = ''error''"
| "PingResult_as_str PiR_Sold = ''sold''"

datatype PostResult = PoR_Sold | PoR_Rejected | PoR_Timeout | PoR_Invalid | PoR_Error

fun PostResult_as_str :: "PostResult \<Rightarrow> string" where
  "PostResult_as_str PoR_Sold = ''sold''"
| "PostResult_as_str PoR_Rejected = ''rejected''"
| "PostResult_as_str PoR_Timeout = ''timeout''"
| "PostResult_as_str PoR_Invalid = ''invalid''"
| "PostResult_as_str PoR_Error = ''error''"

lemma LeadStatus_as_str_inj [simp]: "LeadStatus_as_str a = LeadStatus_as_str b \<longleftrightarrow> a = b"
  by (cases a; cases b; simp)

section \<open>Records\<close>

type_synonym decimal = rat

record Lead =
  l_uuid :: uuid
  l_event_id :: string
  l_lead_id :: "string option"
  l_publisher_id :: "uuid option"
  l_vertical_id :: uuid
  l_campaign_id :: "uuid option"
  l_buyer_id :: "uuid option"
  l_request_type :: string
  l_strategy :: string
  l_status :: LeadStatus
  l_promise_id :: "string option"
  l_ping_id :: "string option"
  l_post_id :: "string option"
  l_session_id :: "string option"
  l_request_stage :: "string option"
  l_first_name_encrypted :: "string option"
  l_last_name_encrypted :: "string option"
  l_email_encrypted :: "string option"
  l_cell_phone_encrypted :: "string option"
  l_street_address_encrypted :: "string option"
  l_city_encrypted :: "string option"
  l_state_encrypted :: "string option"
  l_zip_encrypted :: "string option"
  l_ip_address_encrypted :: "string option"
  l_email_sha256 :: "string option"
  l_phone_sha256 :: "string option"
  l_ip_address_hash :: "string option"
  l_email_domain :: "string option"
  l_tcpa_consent :: bool
  l_tcpa_language :: string
  l_is_test :: bool
  l_user_agent :: "string option"
  l_referrer :: "string option"
  l_website_url :: "string option"
  l_click_id :: "string option"
  l_url_consent :: "string option"
  l_best_call_time :: "string option"
  l_date_of_birth :: "nat option"
  l_home_phone :: "string option"
  l_jornaya_lead_id :: "string option"
  l_trusted_form_url :: "string option"
  l_fbp_cookie :: "string option"
  l_fbc_cookie :: "string option"
  l_utm_params :: "json option"
  l_submitted_at :: "timestamp option"
  l_sold_at :: "timestamp option"
  l_retry_count :: i32
  l_next_retry_at :: "timestamp option"
  l_vertical_data :: json
  l_created_at :: timestamp
  l_updated_at :: timestamp

record Campaign =
  c_id :: uuid
  c_buyer_id :: uuid
  c_publisher_id :: uuid
  c_instance_id :: uuid
  c_name :: "string option"
  c_vertical :: string
  c_campaign_token :: string
  c_status :: CampaignStatus
  c_is_documentation_test :: bool
  c_deleted_at :: "timestamp option"
  c_created_at :: timestamp
  c_updated_at :: timestamp

definition Campaign_active :: "Campaign \<Rightarrow> bool" where
  "Campaign_active c \<longleftrightarrow> c_status c = CS_Active \<and> c_deleted_at c = None"

record Buyer =
  b_id :: uuid
  b_name :: string
  b_instance_id :: uuid
  b_instance_user_id :: "uuid option"
  b_vertical_id :: "uuid option"
  b_buyer_integration_id :: "uuid option"
  b_status :: BuyerStatus
  b_deleted_at :: "timestamp option"
  b_created_at :: timestamp
  b_updated_at :: timestamp
  b_contact_info :: json
  b_ein_tin :: "string option"
  b_address_street :: "string option"
  b_address_city :: "string option"
  b_address_state :: "string option"
  b_address_zip :: "string option"
  b_email_address :: "string option"
  b_representative_first_name :: "string option"
  b_representative_last_name :: "string option"
  b_documents :: json
  b_post_type :: "string option"
  b_buyer_type :: "string option"

definition Buyer_active :: "Buyer \<Rightarrow> bool" where
  "Buyer_active b \<longleftrightarrow> b_status b = BS_Active \<and> b_deleted_at b = None"

record BuyerIntegration =
  bi_id :: uuid
  bi_name :: string
  bi_slug :: string
  bi_vertical_id :: uuid
  bi_description :: "string option"
  bi_configuration_template :: json
  bi_default_timeout :: "decimal option"
  bi_posting_url_template :: "string option"
  bi_is_internal :: bool
  bi_status :: string
  bi_created_at :: timestamp
  bi_updated_at :: timestamp

record BuyerIntegrationCredential =
  bic_id :: uuid
  bic_buyer_integration_id :: uuid
  bic_buyer_id :: "uuid option"
  bic_api_key_encrypted :: "string option"
  bic_api_secret_encrypted :: "string option"
  bic_ping_endpoint :: "string option"
  bic_post_endpoint :: "string option"
  bic_created_at :: timestamp
  bic_updated_at :: timestamp

record BuyerQualificationConfig =
  qc_id :: uuid
  qc_buyer_id :: uuid
  qc_vertical_id :: uuid
  qc_buyer_integration_id :: "uuid option"
  qc_rule_set_name :: string
  qc_config :: json
  qc_rules_order :: "string list"
  qc_enabled :: bool
  qc_is_active :: bool
  qc_timeout_seconds :: "f64 option"
  qc_created_at :: timestamp
  qc_updated_at :: timestamp

record PingTree =
  pt_id :: uuid
  pt_instance_id :: uuid
  pt_name :: string
  pt_vertical :: string
  pt_strategy :: string
  pt_status :: string
  pt_priority :: "i32 option"
  pt_deleted_at :: "timestamp option"
  pt_created_at :: timestamp
  pt_updated_at :: timestamp

definition PingTree_is_active :: "PingTree \<Rightarrow> bool" where
  "PingTree_is_active pt \<longleftrightarrow> pt_status pt = ''active'' \<and> pt_deleted_at pt = None"

record PingTreeCampaign =
  ptc_id :: uuid
  ptc_ping_tree_id :: uuid
  ptc_campaign_id :: uuid
  ptc_priority :: "i32 option"
  ptc_min_price :: "f64 option"
  ptc_max_price :: "f64 option"
  ptc_enabled :: bool
  ptc_created_at :: timestamp
  ptc_updated_at :: timestamp

record PingTreePublisher =
  ptp_id :: uuid
  ptp_ping_tree_id :: uuid
  ptp_publisher_id :: uuid
  ptp_vertical :: string
  ptp_revshare_percentage :: "decimal option"
  ptp_revshare_flat_amount :: "decimal option"
  ptp_created_at :: timestamp
  ptp_updated_at :: timestamp

record Publisher =
  p_id :: uuid
  p_name :: string
  p_email :: string
  p_api_key_hash :: string
  p_api_key_prefix :: string
  p_api_key_encrypted :: "string option"
  p_status :: PublisherStatus
  p_total_requests :: i32
  p_last_request_at :: "timestamp option"
  p_instance_id :: uuid
  p_instance_user_id :: "uuid option"
  p_is_documentation_test :: bool
  p_hmac_secret_hash :: "string option"
  p_hmac_secret_prefix :: "string option"
  p_hmac_required :: bool
  p_hmac_secret_encrypted :: "string option"
  p_deleted_at :: "timestamp option"
  p_created_at :: timestamp
  p_updated_at :: timestamp
  p_representative_first_name :: "string option"
  p_representative_last_name :: "string option"
  p_address_street :: "string option"
  p_address_city :: "string option"
  p_address_state :: "string option"
  p_address_zip :: "string option"
  p_timezone :: "string option"
  p_ein_tin :: "string option"

definition Publisher_active :: "Publisher \<Rightarrow> bool" where
  "Publisher_active p \<longleftrightarrow> p_status p = PS_Active \<and> p_deleted_at p = None"

record Vertical =
  v_id :: uuid
  v_name :: string
  v_slug :: string
  v_is_active :: bool
  v_created_at :: timestamp
  v_updated_at :: timestamp

datatype InstanceUserStatus = IU_Active | IU_Inactive | IU_Suspended

fun InstanceUserStatus_as_str :: "InstanceUserStatus \<Rightarrow> string" where
  "InstanceUserStatus_as_str IU_Active = ''active''"
| "InstanceUserStatus_as_str IU_Inactive = ''inactive''"
| "InstanceUserStatus_as_str IU_Suspended = ''suspended''"

record User =
  u_id :: uuid
  u_email :: string
  u_encrypted_password :: string
  u_first_name :: "string option"
  u_last_name :: "string option"
  u_status :: InstanceUserStatus
  u_confirmed_at :: "timestamp option"
  u_created_at :: timestamp
  u_updated_at :: timestamp

definition User_is_active :: "User \<Rightarrow> bool" where
  "User_is_active u \<longleftrightarrow> u_status u = IU_Active"

definition User_is_confirmed :: "User \<Rightarrow> bool" where
  "User_is_confirmed u \<longleftrightarrow> is_some (u_confirmed_at u)"

section \<open>Revenue share of a ping tree publisher\<close>

datatype ValidationError = BothRevshareSet | PercentageOutOfRange | FlatAmountNegative
  | VerticalMismatch

definition validate_revshare ::
  "decimal option \<Rightarrow> decimal option \<Rightarrow> ValidationError + unit" where
  "validate_revshare pct flat =
     (if pct \<noteq> None \<and> flat \<noteq> None then Inl BothRevshareSet
      else case pct of
        Some p \<Rightarrow> if p < 0 \<or> 100 < p then Inl PercentageOutOfRange else Inr ()
      | None \<Rightarrow>
         (case flat of
            Some f \<Rightarrow> if f < 0 then Inl FlatAmountNegative else Inr ()
          | None \<Rightarrow> Inr ()))"

definition apply_defaults ::
  "decimal option \<Rightarrow> decimal option \<Rightarrow> decimal option \<times> decimal option" where
  "apply_defaults pct flat =
     (if pct = None \<and> flat = None then (Some 80, None) else (pct, flat))"

definition valid_revshare :: "decimal option \<Rightarrow> decimal option \<Rightarrow> bool" where
  "valid_revshare pct flat \<longleftrightarrow>
     (case (pct, flat) of
        (Some p, None) \<Rightarrow> 0 \<le> p \<and> p \<le> 100
      | (None, Some f) \<Rightarrow> 0 \<le> f
      | _ \<Rightarrow> False)"

lemma validate_revshare_Inr:
  "validate_revshare pct flat = Inr () \<longleftrightarrow> (pct = None \<and> flat = None) \<or> valid_revshare pct flat"
  by (auto simp: validate_revshare_def valid_revshare_def split: option.splits)

lemma validate_after_defaults:
  "validate_revshare (fst (apply_defaults pct flat)) (snd (apply_defaults pct flat)) = Inr ()
   \<longleftrightarrow> valid_revshare (fst (apply_defaults pct flat)) (snd (apply_defaults pct flat))"
  by (auto simp: validate_revshare_Inr apply_defaults_def)

end
