(* ===== verification/Auction.thy ===== *)
theory Auction
  imports Models
begin

text \<open>
  The responses of buyers and the choice of the auction winner: \<open>BuyerResponse\<close> of
  \<open>crates/core/src/services/buyer_router.rs\<close>, \<open>RoutingResult\<close> and
  \<open>select_winner\<close> of \<open>ping_tree_router.rs\<close>. The random number drawn to break
  ties is an argument; a panic is the value \<open>None\<close>.
\<close>

section \<open>Data\<close>

record BuyerResponse =
  r_success :: bool
  r_status :: string
  r_error :: "string option"
  r_message :: "string option"
  r_promise_id :: "string option"
  r_ping_id :: "string option"
  r_post_id :: "string option"
  r_price :: "f64 option"
  r_bid :: "f64 option"

record RoutingResult =
  rr_success :: bool
  rr_status :: string
  rr_error :: "string option"
  rr_promise_id :: "string option"
  rr_ping_id :: "string option"
  rr_post_id :: "string option"
  rr_price :: "f64 option"
  rr_campaign_id :: "uuid option"
  rr_buyer_id :: "uuid option"
  rr_per_buyer_timings :: "json list option"

type_synonym auction_entry = "BuyerResponse \<times> uuid \<times> i32 option"

definition PRICE_EPSILON :: f64 where
  "PRICE_EPSILON = round64 (1 / 100)"

abbreviation bid_of :: "auction_entry \<Rightarrow> f64" where
  "bid_of e \<equiv> unwrap_or (r_bid (fst e)) (Fin 0)"

abbreviation priority_of :: "auction_entry \<Rightarrow> i32 option" where
  "priority_of e \<equiv> snd (snd e)"

section \<open>Winner selection\<close>

definition valid_bid :: "auction_entry \<Rightarrow> bool" where
  "valid_bid e \<longleftrightarrow> is_some (r_bid (fst e)) \<and> f64_lt (Fin 0) (bid_of e)"

definition bid_order :: "auction_entry \<Rightarrow> auction_entry \<Rightarrow> ordering" where
  "bid_order a b =
     (case partial_cmp (bid_of b) (bid_of a) of
        Some Equal \<Rightarrow> cmp (unwrap_or (priority_of a) i32_MAX) (unwrap_or (priority_of b) i32_MAX)
      | Some ord \<Rightarrow> ord
      | None \<Rightarrow> Equal)"

definition near :: "f64 \<Rightarrow> auction_entry \<Rightarrow> bool" where
  "near highest_bid e \<longleftrightarrow> f64_lt (f64_abs (f64_sub (bid_of e) highest_bid)) PRICE_EPSILON"

definition select_winner :: "u64 \<Rightarrow> auction_entry list \<Rightarrow> auction_entry option" where
  "select_winner rand responses =
     (let sorted0 = filter valid_bid responses in
      if sorted0 = [] then (case responses of first # _ \<Rightarrow> Some first | [] \<Rightarrow> None)
      else
        let sorted1 = sort_by bid_order sorted0;
            highest_bid = bid_of (hd sorted1);
            candidates = takeWhile (near highest_bid) sorted1
        in if length candidates = 1 then Some (hd candidates)
           else
             let with_priority = filter (\<lambda>e. is_some (priority_of e)) candidates
             in if with_priority \<noteq> [] then min_by_key (\<lambda>e. the (priority_of e)) with_priority
                else if candidates = [] then None
                else Some (candidates ! (unat rand mod length candidates)))"

section \<open>The comparison is a key comparison\<close>

definition bid_key :: "auction_entry \<Rightarrow> f64 \<times> i32" where
  "bid_key e = (f64_neg (bid_of e), unwrap_or (priority_of e) i32_MAX)"

lemma f64_neg_less: "a \<noteq> NaN \<Longrightarrow> b \<noteq> NaN \<Longrightarrow> f64_neg a < f64_neg b \<longleftrightarrow> b < a"
  by (cases a; cases b) (auto simp: less_f64_def less_eq_f64_def)

lemma f64_neg_le: "a \<noteq> NaN \<Longrightarrow> b \<noteq> NaN \<Longrightarrow> f64_neg a \<le> f64_neg b \<longleftrightarrow> b \<le> a"
  by (cases a; cases b) (auto simp: less_eq_f64_def)

lemma f64_neg_inject [simp]: "f64_neg a = f64_neg b \<longleftrightarrow> a = b"
  by (cases a; cases b) auto

lemma valid_bid_not_NaN: "valid_bid e \<Longrightarrow> bid_of e \<noteq> NaN"
  by (auto simp: valid_bid_def)

interpretation bids: keyed_cmp bid_order bid_key valid_bid
proof
  fix a b :: auction_entry
  assume "valid_bid a" and "valid_bid b"
  then have n: "bid_of a \<noteq> NaN" "bid_of b \<noteq> NaN" by (auto dest: valid_bid_not_NaN)
  show "bid_order a b = cmp (bid_key a) (bid_key b)"
    using partial_cmp_order [OF n(2,1)] n
    by (auto simp: bid_order_def bid_key_def cmp_def f64_neg_less f64_neg_le)
qed

section \<open>Candidates\<close>

lemma PRICE_EPSILON_value: "PRICE_EPSILON = Fin (5764607523034235 / 576460752303423488)"
proof -
  have l: "ilog2 (1 / 100) = -7"
    by (rule ilog2_unique) (simp_all add: power_int_def power_divide)
  then have q: "quantum_exp (1 / 100) = -59" by (simp add: quantum_exp_def)
  have "\<lfloor>144115188075855872 / 25 :: rat\<rfloor> = 5764607523034234" by (simp add: floor_eq_iff)
  then have "round_even (144115188075855872 / 25) = 5764607523034235"
    by (simp add: round_even_def Let_def)
  then show ?thesis
    by (simp add: PRICE_EPSILON_def round64_def round_rat_def q Let_def f64_max_pow_def power_int_def
        power_divide)
qed

lemma PRICE_EPSILON_f64: "is_f64 PRICE_EPSILON"
  by (simp add: PRICE_EPSILON_def)

definition eps :: rat where
  "eps = 5764607523034235 / 576460752303423488"

lemma PRICE_EPSILON_eps: "PRICE_EPSILON = Fin eps"
  by (simp add: PRICE_EPSILON_value eps_def)

lemma eps_pos: "0 < eps"
  by (simp add: eps_def)

lemma takeWhile_filter_sorted:
  assumes "sorted_wrt R xs" and "\<And>x y. x \<in> set xs \<Longrightarrow> y \<in> set xs \<Longrightarrow> R x y \<Longrightarrow> P y \<Longrightarrow> P x"
  shows "takeWhile P xs = filter P xs"
  using assms
proof (induction xs)
  case (Cons x xs)
  show ?case
  proof (cases "P x")
    case True
    then show ?thesis using Cons by auto
  next
    case False
    then have "\<not> P y" if "y \<in> set xs" for y using Cons.prems that by auto
    with False show ?thesis by simp
  qed
qed simp


lemma near_Fin:
  assumes "valid_bid e" and "near h e"
  obtains x y where "bid_of e = Fin x" and "h = Fin y"
  using assms by (cases "bid_of e"; cases h) (auto simp: near_def valid_bid_def f64_sub_def)

lemma near_refl: "near (Fin x) e" if "bid_of e = Fin x"
  using that by (simp add: near_def f64_dist_eq PRICE_EPSILON_eps eps_pos)

lemma near_PosInf: "\<not> near PosInf e"
  by (cases "bid_of e") (auto simp: near_def f64_sub_def)

lemma near_exact: "near h e \<Longrightarrow> bid_of e = Fin x \<Longrightarrow> h = Fin y \<Longrightarrow> \<bar>x - y\<bar> < eps"
  using PRICE_EPSILON_f64 by (auto simp: near_def PRICE_EPSILON_eps dest: f64_dist_exact)

text \<open>The sorted bids, the highest one and the candidates, named.\<close>

definition ranking :: "auction_entry list \<Rightarrow> auction_entry list" where
  "ranking responses = sort_by bid_order (filter valid_bid responses)"

definition highest :: "auction_entry list \<Rightarrow> f64" where
  "highest responses = bid_of (hd (ranking responses))"

definition contenders :: "auction_entry list \<Rightarrow> auction_entry list" where
  "contenders responses = filter (near (highest responses)) (ranking responses)"

lemma set_ranking [simp]: "set (ranking rs) = {e \<in> set rs. valid_bid e}"
  by (simp add: ranking_def)

lemma ranking_sorted: "sorted (map bid_key (ranking rs))"
  using bids.sort_by_sort_key [of "filter valid_bid rs"] by (simp add: ranking_def)

lemma bid_key_le_bid:
  "valid_bid a \<Longrightarrow> valid_bid b \<Longrightarrow> bid_key a \<le> bid_key b \<Longrightarrow> bid_of b \<le> bid_of a"
  using valid_bid_not_NaN f64_neg_le [of "bid_of a" "bid_of b"] f64_neg_less [of "bid_of a" "bid_of b"]
  by (auto simp: bid_key_def)

lemma highest_is_max:
  assumes "e \<in> set rs" and "valid_bid e"
  shows "bid_of e \<le> highest rs"
proof -
  have "ranking rs \<noteq> []" using assms by (auto simp: ranking_def filter_empty_conv)
  then obtain y ys where y: "ranking rs = y # ys" by (cases "ranking rs") auto
  then have r: "sort_by bid_order (filter valid_bid rs) = y # ys" by (simp add: ranking_def)
  have v: "\<forall>x \<in> set (filter valid_bid rs). valid_bid x" by simp
  have "bid_key y \<le> bid_key e" using bids.sort_by_hd(2) [OF v r] assms by (auto simp del: split_paired_All)
  moreover have "valid_bid y" using bids.sort_by_hd(1) [OF v r] by simp
  ultimately show ?thesis using assms(2) y by (simp add: highest_def bid_key_le_bid)
qed

lemma highest_attained:
  assumes "filter valid_bid rs \<noteq> []"
  obtains y where "y \<in> set rs" and "valid_bid y" and "highest rs = bid_of y"
proof -
  have "ranking rs \<noteq> []" using assms by (simp add: ranking_def)
  then have "hd (ranking rs) \<in> set (ranking rs)" by (rule list.set_sel)
  then have "hd (ranking rs) \<in> set rs \<and> valid_bid (hd (ranking rs))" unfolding set_ranking by blast
  then show thesis using that [of "hd (ranking rs)"] by (simp add: highest_def)
qed

lemma near_downward:
  assumes "valid_bid a" and "valid_bid b" and "bid_of b \<le> bid_of a" and "bid_of a \<le> h"
    and "near h b"
  shows "near h a"
proof -
  have "f64_le (bid_of b) (bid_of a)" and "f64_le (bid_of a) h"
    using assms valid_bid_not_NaN by (simp_all add: f64_le_iff)
  with assms(5) show ?thesis unfolding near_def by (blast intro: f64_dist_mono)
qed

lemma takeWhile_contenders: "takeWhile (near (highest rs)) (ranking rs) = contenders rs"
  unfolding contenders_def
proof (rule takeWhile_filter_sorted)
  show "sorted_wrt (\<lambda>a b. bid_key a \<le> bid_key b) (ranking rs)"
    using ranking_sorted [of rs] by (simp add: sorted_map)
  fix a b
  assume "a \<in> set (ranking rs)" "b \<in> set (ranking rs)" "bid_key a \<le> bid_key b" "near (highest rs) b"
  then show "near (highest rs) a"
    by (auto intro: near_downward [of a b] bid_key_le_bid highest_is_max)
qed

lemma select_winner_alt:
  "select_winner rand rs =
     (if filter valid_bid rs = [] then (case rs of first # _ \<Rightarrow> Some first | [] \<Rightarrow> None)
      else if length (contenders rs) = 1 then Some (hd (contenders rs))
      else if filter (\<lambda>e. is_some (priority_of e)) (contenders rs) \<noteq> []
           then min_by_key (\<lambda>e. the (priority_of e))
                  (filter (\<lambda>e. is_some (priority_of e)) (contenders rs))
      else if contenders rs = [] then None
      else Some (contenders rs ! (unat rand mod length (contenders rs))))"
  using takeWhile_contenders [of rs]
  by (simp add: select_winner_def Let_def ranking_def [symmetric] highest_def [symmetric])

lemma select_winner_contender:
  assumes "select_winner rand rs = Some w" and "filter valid_bid rs \<noteq> []"
  shows "w \<in> set (contenders rs)"
  using assms by (auto simp: select_winner_alt split: if_splits dest!: min_by_key_Some)
    (metis length_0_conv length_greater_0_conv list.set_sel(1) One_nat_def zero_neq_one)

lemma select_winner_priority:
  assumes "select_winner rand rs = Some w" and "filter valid_bid rs \<noteq> []"
    and "e \<in> set (contenders rs)" and "priority_of e = Some p"
  shows "\<exists>q. priority_of w = Some q \<and> q \<le> p"
proof (cases "length (contenders rs) = 1")
  case True
  then obtain x where x: "contenders rs = [x]" by (metis One_nat_def length_0_conv length_Suc_conv)
  with assms True show ?thesis by (simp add: select_winner_alt)
next
  case False
  let ?wp = "filter (\<lambda>e. is_some (priority_of e)) (contenders rs)"
  have e: "e \<in> set ?wp" using assms(3,4) by simp
  then have "?wp \<noteq> []" by (metis empty_iff list.set(1))
  then have "min_by_key (\<lambda>e. the (priority_of e)) ?wp = Some w"
    using assms(1,2) False by (simp add: select_winner_alt)
  from min_by_key_Some [OF this] e assms(4) show ?thesis
    by (auto simp: is_some_iff simp del: split_paired_All dest!: bspec [of _ _ e])
qed


lemma set_contenders:
  "e \<in> set (contenders rs) \<longleftrightarrow> e \<in> set rs \<and> valid_bid e \<and> near (highest rs) e"
  by (auto simp: contenders_def)

lemma contenders_nonempty:
  assumes "filter valid_bid rs \<noteq> []" and "\<And>e. e \<in> set rs \<Longrightarrow> r_bid (fst e) \<noteq> Some PosInf"
  shows "contenders rs \<noteq> []"
proof -
  obtain y where y: "y \<in> set rs" "valid_bid y" "highest rs = bid_of y"
    using highest_attained [OF assms(1)] .
  then have "r_bid (fst y) = Some (bid_of y)" by (auto simp: valid_bid_def is_some_iff)
  then have "bid_of y \<noteq> PosInf" using assms(2) [OF y(1)] by auto
  with y(2) obtain x where x: "bid_of y = Fin x" by (cases "bid_of y") (auto simp: valid_bid_def)
  then have "near (highest rs) y" using near_refl [OF x] y(3) by simp
  then have "y \<in> set (contenders rs)" using y set_contenders by blast
  then show ?thesis by auto
qed

lemma contenders_PosInf:
  assumes "e \<in> set rs" and "r_bid (fst e) = Some PosInf"
  shows "filter valid_bid rs \<noteq> []" and "contenders rs = []"
proof -
  have v: "valid_bid e" using assms(2) by (simp add: valid_bid_def)
  then show "filter valid_bid rs \<noteq> []" using assms(1) by (auto simp: filter_empty_conv)
  have "PosInf \<le> highest rs" using highest_is_max [OF assms(1) v] assms(2) by simp
  then have "highest rs = PosInf" by (simp add: less_eq_f64_def)
  then show "contenders rs = []" by (simp add: contenders_def near_PosInf filter_empty_conv)
qed

section \<open>Properties\<close>

text \<open>C4: the winner of an auction with a positive bid is one of the responses, its bid is positive,
  finite and less than the price epsilon below the highest bid (exactly, not only after rounding),
  and no response whose bid lies within the epsilon of the highest one has a better priority.\<close>

theorem select_winner_optimal:
  assumes "select_winner rand rs = Some w"
    and "\<exists>e \<in> set rs. valid_bid e"
  shows "w \<in> set rs \<and> valid_bid w \<and>
    (\<exists>x h. bid_of w = Fin x \<and> highest rs = Fin h \<and> 0 < x \<and> x \<le> h \<and> h - x < eps \<and>
       (\<forall>e \<in> set rs. valid_bid e \<longrightarrow> f64_le (bid_of e) (Fin h)) \<and>
       (\<forall>e \<in> set rs. valid_bid e \<and> near (Fin h) e \<longrightarrow>
          (\<forall>p. priority_of e = Some p \<longrightarrow> (\<exists>q. priority_of w = Some q \<and> q \<le> p))))"
proof -
  have ne: "filter valid_bid rs \<noteq> []" using assms(2) by (auto simp: filter_empty_conv)
  have w: "w \<in> set rs" "valid_bid w" "near (highest rs) w"
    using select_winner_contender [OF assms(1) ne] unfolding set_contenders by auto
  then obtain x h where xh: "bid_of w = Fin x" "highest rs = Fin h" by (blast elim: near_Fin)
  have "0 < x" using w(2) xh by (simp add: valid_bid_def)
  moreover have "x \<le> h" using highest_is_max [OF w(1,2)] xh by (simp add: less_eq_f64_def)
  moreover have "\<bar>x - h\<bar> < eps" using near_exact [OF w(3) xh] .
  moreover have "f64_le (bid_of e) (Fin h)" if "e \<in> set rs" "valid_bid e" for e
    using highest_is_max [OF that] xh valid_bid_not_NaN [OF that(2)] by (simp add: f64_le_iff)
  moreover have "\<exists>q. priority_of w = Some q \<and> q \<le> p"
    if "e \<in> set rs" "valid_bid e" "near (Fin h) e" "priority_of e = Some p" for e p
    using select_winner_priority [OF assms(1) ne _ that(4)] that xh set_contenders [of e rs] by simp
  ultimately show ?thesis using w xh by auto
qed

definition sample_response :: "f64 option \<Rightarrow> BuyerResponse" where
  "sample_response b = \<lparr> r_success = True, r_status = ''accepted'', r_error = None, r_message = None,
     r_promise_id = None, r_ping_id = None, r_post_id = None, r_price = None, r_bid = b \<rparr>"

lemmas auction_eval = select_winner_def valid_bid_def bid_order_def near_def sort_by_def
  sample_response_def f64_sub_def PRICE_EPSILON_value cmp_def Let_def

theorem select_winner_optimal_witness:
  "select_winner 0 [(sample_response (Some (Fin 100)), 1, Some 2), (sample_response (Some (Fin 150)), 2, None)]
     = Some (sample_response (Some (Fin 150)), 2, None)
   \<and> valid_bid (sample_response (Some (Fin 150)), 2, None)"
proof -
  let ?rs = "[(sample_response (Some (Fin 100)), 1, Some 2), (sample_response (Some (Fin 150)), 2, None)]
    :: auction_entry list"
  have "select_winner 0 ?rs = Some (sample_response (Some (Fin 150)), 2, None)"
    by (simp add: auction_eval)
  moreover have "\<exists>e \<in> set ?rs. valid_bid e" by (simp add: valid_bid_def sample_response_def)
  ultimately show ?thesis using select_winner_optimal by blast
qed

text \<open>C35: \<open>select_winner\<close> returns a response exactly when it is given at least one response and no
  response carries an infinite bid; with no positive bid at all it is the first response.\<close>

theorem select_winner_returns:
  "(is_some (select_winner rand rs) \<longleftrightarrow> rs \<noteq> [] \<and> (\<forall>e \<in> set rs. r_bid (fst e) \<noteq> Some PosInf))
   \<and> (filter valid_bid rs = [] \<and> rs \<noteq> [] \<longrightarrow> select_winner rand rs = Some (hd rs))"
proof (cases "filter valid_bid rs = []")
  case True
  then have "\<forall>e \<in> set rs. r_bid (fst e) \<noteq> Some PosInf"
    by (force simp: filter_empty_conv valid_bid_def)
  with True show ?thesis by (cases rs) (simp_all add: select_winner_alt)
next
  case False
  show ?thesis
  proof (cases "\<forall>e \<in> set rs. r_bid (fst e) \<noteq> Some PosInf")
    case True
    then have "contenders rs \<noteq> []" using contenders_nonempty [OF False] by blast
    moreover have "is_some (min_by_key f xs)" if "xs \<noteq> []" for f :: "auction_entry \<Rightarrow> i32" and xs
      using that by (simp add: is_some_def del: not_None_eq)
    ultimately have "is_some (select_winner rand rs)" using False by (simp add: select_winner_alt)
    with True False show ?thesis by auto
  next
    case inf: False
    then obtain e where "e \<in> set rs" "r_bid (fst e) = Some PosInf" by blast
    with contenders_PosInf [OF this] inf False show ?thesis by (auto simp: select_winner_alt)
  qed
qed

theorem select_winner_returns_witness:
  "select_winner 0 [(sample_response (Some PosInf), 1, None)] = None"
  using select_winner_returns [of 0 "[(sample_response (Some PosInf), 1, None)]"]
  by (simp add: sample_response_def is_some_def del: not_None_eq)

text \<open>without priorities the tie is broken by the random draw alone, and every contender can
  win: the winner is the contender at position \<open>rand mod n\<close>, so each of the \<open>n\<close>
  contenders is selected by some draw.\<close>

theorem select_winner_fair:
  assumes "e \<in> set (contenders rs)" and "\<forall>c \<in> set (contenders rs). priority_of c = None"
    and "length (contenders rs) \<le> 2 ^ 64"
  shows "\<exists>rand. select_winner rand rs = Some e"
proof -
  let ?c = "contenders rs"
  have ne: "filter valid_bid rs \<noteq> []"
    using assms(1) unfolding set_contenders by (auto simp: filter_empty_conv)
  obtain i where i: "i < length ?c" "?c ! i = e" using assms(1) by (auto simp: in_set_conv_nth)
  then have "unat (of_nat i :: u64) = i" using assms(3) by (simp add: unat_of_nat)
  then have "?c ! (unat (of_nat i :: u64) mod length ?c) = e" using i by simp
  moreover have "filter (\<lambda>e. is_some (priority_of e)) ?c = []"
    using assms(2) by (simp add: filter_empty_conv is_some_def)
  moreover have "hd ?c = e" if "length ?c = 1"
    using that i by (metis hd_conv_nth length_0_conv less_one not_less_zero)
  ultimately have "select_winner (of_nat i) rs = Some e"
    using ne i by (auto simp: select_winner_alt)
  then show ?thesis ..
qed

lemma two_contenders:
  "contenders [(sample_response (Some (Fin 100)), 1, None), (sample_response (Some (Fin 100)), 2, None)]
   = [(sample_response (Some (Fin 100)), 1, None), (sample_response (Some (Fin 100)), 2, None)]"
  by (simp add: contenders_def ranking_def highest_def auction_eval)

theorem select_winner_fair_witness:
  "\<exists>rand. select_winner rand
     [(sample_response (Some (Fin 100)), 1, None), (sample_response (Some (Fin 100)), 2, None)]
     = Some (sample_response (Some (Fin 100)), 2, None)"
  by (rule select_winner_fair) (simp_all add: two_contenders)

end
