(* ===== verification/Qualification.thy ===== *)
theory Qualification
  imports Models
begin

text \<open>
  Model of \<open>crates/core/src/services/qualification_engine.rs\<close>: the rules a buyer configures
  are evaluated in order on the lead's \<open>vertical_data\<close>, and the first rejecting rule decides.
\<close>

section \<open>Data\<close>

record QualificationResult =
  q_accepted :: bool
  q_reason :: string
  q_price_multiplier :: "f64 option"

record QualificationEngine =
  qe_lead :: Lead
  qe_request_type :: string
  qe_config :: "BuyerQualificationConfig option"

definition QualificationEngine_new ::
  "Lead \<Rightarrow> string \<Rightarrow> BuyerQualificationConfig option \<Rightarrow> QualificationEngine" where
  "QualificationEngine_new lead request_type config =
     \<lparr> qe_lead = lead, qe_request_type = request_type, qe_config = config \<rparr>"

abbreviation accept_with :: "string \<Rightarrow> QualificationResult" where
  "accept_with r \<equiv> \<lparr> q_accepted = True, q_reason = r, q_price_multiplier = None \<rparr>"

abbreviation reject_with :: "string \<Rightarrow> QualificationResult" where
  "reject_with r \<equiv> \<lparr> q_accepted = False, q_reason = r, q_price_multiplier = None \<rparr>"

section \<open>Field access\<close>

definition get_value :: "QualificationEngine \<Rightarrow> string \<Rightarrow> json option" where
  "get_value qe field = json_get (l_vertical_data (qe_lead qe)) field"

fun scalar_string :: "json \<Rightarrow> string option" where
  "scalar_string (JStr s) = Some s"
| "scalar_string (JBool b) = Some (show_bool b)"
| "scalar_string (JInt i) = Some (f64_to_string (f64_of_int i))"
| "scalar_string (JFloat x) = Some (f64_to_string x)"
| "scalar_string _ = None"

definition get_string_value :: "QualificationEngine \<Rightarrow> string \<Rightarrow> string option" where
  "get_string_value qe field = Option.bind (get_value qe field) scalar_string"

section \<open>Rules\<close>

definition evaluate_zip_blacklist :: "QualificationEngine \<Rightarrow> QualificationResult" where
  "evaluate_zip_blacklist qe =
     (case get_string_value qe ''zip'' of
        None \<Rightarrow> accept_with ''Zip code not provided''
      | Some _ \<Rightarrow> accept_with ''Zip blacklist check passed (not implemented)'')"

definition evaluate_zip_whitelist :: "QualificationEngine \<Rightarrow> QualificationResult" where
  "evaluate_zip_whitelist qe =
     (case get_string_value qe ''zip'' of
        None \<Rightarrow> accept_with ''Zip code not provided''
      | Some _ \<Rightarrow> accept_with ''Zip whitelist check passed (not implemented)'')"

definition config_rules :: "json_obj option \<Rightarrow> json list" where
  "config_rules rule_config =
     unwrap_or (Option.bind (Option.bind rule_config (\<lambda>c. obj_get c ''rules'')) as_array) []"

definition normalize_own_home :: "json \<Rightarrow> string" where
  "normalize_own_home v =
     (case v of JBool b \<Rightarrow> if b then ''yes'' else ''no''
      | _ \<Rightarrow> to_lowercase (unwrap_or (as_str v) []))"

definition normalize_rule_value :: "string \<Rightarrow> string" where
  "normalize_rule_value rule_value =
     (let l = to_lowercase rule_value in
      if l = ''yes'' \<or> l = ''true'' then ''yes''
      else if l = ''no'' \<or> l = ''false'' then ''no'' else l)"

definition own_home_matches :: "string \<Rightarrow> json \<Rightarrow> bool" where
  "own_home_matches own_home rule =
     (case get_str rule ''value'' of
        Some rule_value \<Rightarrow> normalize_rule_value rule_value = own_home
      | None \<Rightarrow> False)"

definition rule_action :: "json \<Rightarrow> string" where
  "rule_action rule = unwrap_or (get_str rule ''action'') ''accept''"

definition evaluate_own_home :: "QualificationEngine \<Rightarrow> json_obj option \<Rightarrow> QualificationResult" where
  "evaluate_own_home qe rule_config =
     (let rules = config_rules rule_config in
      if rules = [] then accept_with ''No own_home rules configured - accepting by default''
      else case get_value qe ''own_home'' of
        None \<Rightarrow> accept_with ''Own home field missing - accepting by default''
      | Some v \<Rightarrow>
          let own_home = normalize_own_home v in
          case List.find (own_home_matches own_home) rules of
            None \<Rightarrow> accept_with (''No rule configured for own_home value: '' @ own_home)
          | Some rule \<Rightarrow>
              if to_lowercase (rule_action rule) = ''reject''
              then reject_with (''Lead does not meet own_home requirement (value: '' @ own_home @ '')'')
              else accept_with ''Own home requirement met'')"

definition evaluate_roof_shade :: "QualificationEngine \<Rightarrow> json_obj option \<Rightarrow> QualificationResult" where
  "evaluate_roof_shade qe rule_config =
     (if rule_config = None \<or> rule_config = Some []
      then accept_with ''No roof_shade rules configured - accepting by default''
      else case get_string_value qe ''roof_shade'' of
        None \<Rightarrow> accept_with ''Roof shade field missing - accepting by default''
      | Some roof_shade \<Rightarrow>
          (case Option.bind rule_config (\<lambda>c. obj_get c roof_shade) of
             None \<Rightarrow> accept_with (''No rule configured for roof shade: '' @ roof_shade)
           | Some rule \<Rightarrow>
               if rule_action rule = ''reject''
               then reject_with (''Roof shade '' @ roof_shade @ '' is not acceptable'')
               else accept_with (''Roof shade '' @ roof_shade @ '' is acceptable'')))"

definition credit_rating_matches :: "string \<Rightarrow> json \<Rightarrow> bool" where
  "credit_rating_matches credit_rating rule =
     (case get_str rule ''value'' of
        Some rule_value \<Rightarrow> to_lowercase rule_value = credit_rating
      | None \<Rightarrow> False)"

definition evaluate_credit_rating ::
  "QualificationEngine \<Rightarrow> json_obj option \<Rightarrow> QualificationResult" where
  "evaluate_credit_rating qe rule_config =
     (let rules = config_rules rule_config in
      if rules = [] then accept_with ''No credit_rating rules configured - accepting by default''
      else case get_string_value qe ''credit_rating'' of
        None \<Rightarrow> accept_with ''Credit rating field missing - accepting by default''
      | Some s \<Rightarrow>
          let credit_rating = to_lowercase s in
          case List.find (credit_rating_matches credit_rating) rules of
            None \<Rightarrow> accept_with (''No rule configured for credit rating value: '' @ credit_rating)
          | Some rule \<Rightarrow>
              if to_lowercase (rule_action rule) = ''reject''
              then reject_with (''Credit rating '' @ credit_rating @ '' is not acceptable'')
              else \<lparr> q_accepted = True,
                     q_reason = ''Credit rating '' @ credit_rating @ '' is acceptable'',
                     q_price_multiplier = Option.bind (json_get rule ''price_multiplier'') as_f64 \<rparr>)"

definition evaluate_monthly_bill :: QualificationResult where
  "evaluate_monthly_bill = accept_with ''Monthly bill check passed (not implemented)''"

definition evaluate_utility_provider :: QualificationResult where
  "evaluate_utility_provider = accept_with ''Utility provider check passed (not implemented)''"

definition evaluate_property_type :: "QualificationEngine \<Rightarrow> string list \<Rightarrow> QualificationResult" where
  "evaluate_property_type qe rejected =
     (if rejected = []
      then accept_with ''No property_type rejection rules configured - accepting by default''
      else case get_string_value qe ''property_type'' of
        None \<Rightarrow> accept_with ''Property type field missing - accepting by default''
      | Some s \<Rightarrow>
          let property_type = to_lowercase s in
          if list_ex (\<lambda>r. to_lowercase r = property_type) rejected
          then reject_with (''Property type '' @ property_type @ '' is rejected'')
          else accept_with (''Property type '' @ property_type @ '' is acceptable''))"

definition evaluate_roof_type :: "QualificationEngine \<Rightarrow> string list \<Rightarrow> QualificationResult" where
  "evaluate_roof_type qe rejected =
     (if rejected = []
      then accept_with ''No roof_type rejection rules configured - accepting by default''
      else case get_string_value qe ''roof_type'' of
        None \<Rightarrow> accept_with ''Roof type field missing - accepting by default''
      | Some s \<Rightarrow>
          let roof_type = to_lowercase s in
          if list_ex (\<lambda>r. to_lowercase r = roof_type) rejected
          then reject_with (''Roof type '' @ roof_type @ '' is rejected'')
          else accept_with (''Roof type '' @ roof_type @ '' is acceptable''))"

definition evaluate_purchase_timeframe :: QualificationResult where
  "evaluate_purchase_timeframe = accept_with ''Purchase timeframe check passed (not implemented)''"

definition rule_object :: "json \<Rightarrow> string \<Rightarrow> json_obj option" where
  "rule_object config k = Option.bind (json_get config k) as_object"

definition rejected_list :: "json \<Rightarrow> string \<Rightarrow> string list" where
  "rejected_list config k =
     unwrap_or (map_option (List.map_filter as_str) (Option.bind (json_get config k) as_array)) []"

definition evaluate_rule :: "QualificationEngine \<Rightarrow> string \<Rightarrow> json \<Rightarrow> QualificationResult" where
  "evaluate_rule qe rule_name config =
     (if rule_name = ''zip_blacklist'' then evaluate_zip_blacklist qe
      else if rule_name = ''zip_whitelist'' then evaluate_zip_whitelist qe
      else if rule_name = ''own_home'' then evaluate_own_home qe (rule_object config ''own_home_rule'')
      else if rule_name = ''roof_shade''
        then evaluate_roof_shade qe (rule_object config ''roof_shade_rules'')
      else if rule_name = ''credit_rating''
        then evaluate_credit_rating qe (rule_object config ''credit_rating_rules'')
      else if rule_name = ''monthly_bill'' then evaluate_monthly_bill
      else if rule_name = ''utility_provider'' then evaluate_utility_provider
      else if rule_name = ''property_type''
        then evaluate_property_type qe (rejected_list config ''property_type_rejected'')
      else if rule_name = ''roof_type''
        then evaluate_roof_type qe (rejected_list config ''roof_type_rejected'')
      else if rule_name = ''purchase_timeframe'' then evaluate_purchase_timeframe
      else accept_with (''Unknown rule: '' @ rule_name))"

section \<open>Evaluation\<close>

definition ping_rules :: "string list" where
  "ping_rules = [''zip_blacklist'', ''zip_whitelist'', ''monthly_bill'', ''own_home'',
     ''purchase_timeframe'', ''credit_rating'', ''roof_shade'', ''utility_provider'']"

definition filter_rules_by_request_type :: "string \<Rightarrow> string list \<Rightarrow> string list" where
  "filter_rules_by_request_type request_type rules_order =
     (if request_type = ''ping'' then filter (\<lambda>rule. rule \<in> set ping_rules) rules_order
      else rules_order)"

fun evaluate_rules :: "QualificationEngine \<Rightarrow> json \<Rightarrow> string list \<Rightarrow> QualificationResult" where
  "evaluate_rules qe config [] = accept_with ''All qualification rules passed''"
| "evaluate_rules qe config (rule_name # rules) =
     (let result = evaluate_rule qe rule_name config in
      if \<not> q_accepted result then result else evaluate_rules qe config rules)"

definition qe_evaluate :: "QualificationEngine \<Rightarrow> QualificationResult" where
  "qe_evaluate qe =
     (case qe_config qe of
        None \<Rightarrow> accept_with ''No qualification config found - defaulting to accept''
      | Some config \<Rightarrow>
          if \<not> qc_enabled config \<or> \<not> qc_is_active config
          then accept_with ''Qualification config is disabled - defaulting to accept''
          else evaluate_rules qe (qc_config config)
                 (filter_rules_by_request_type (qe_request_type qe) (qc_rules_order config)))"


section \<open>Lemmas\<close>

lemma evaluate_rules_find:
  "evaluate_rules qe config rules =
     (case List.find (\<lambda>r. \<not> q_accepted (evaluate_rule qe r config)) rules of
        None \<Rightarrow> accept_with ''All qualification rules passed''
      | Some r \<Rightarrow> evaluate_rule qe r config)"
  by (induction rules) (auto simp: Let_def)

lemma evaluate_rules_accepted:
  "q_accepted (evaluate_rules qe config rules) \<longleftrightarrow>
     (\<forall>r \<in> set rules. q_accepted (evaluate_rule qe r config))"
  by (induction rules) (auto simp: Let_def)

lemma get_string_value_qe [simp]:
  "get_string_value (qe\<lparr>qe_request_type := t\<rparr>) f = get_string_value qe f"
  "get_value (qe\<lparr>qe_request_type := t\<rparr>) f = get_value qe f"
  by (simp_all add: get_string_value_def get_value_def)

lemma rules_request_type:
  "evaluate_zip_blacklist (qe\<lparr>qe_request_type := t\<rparr>) = evaluate_zip_blacklist qe"
  "evaluate_zip_whitelist (qe\<lparr>qe_request_type := t\<rparr>) = evaluate_zip_whitelist qe"
  "evaluate_own_home (qe\<lparr>qe_request_type := t\<rparr>) o1 = evaluate_own_home qe o1"
  "evaluate_roof_shade (qe\<lparr>qe_request_type := t\<rparr>) o1 = evaluate_roof_shade qe o1"
  "evaluate_credit_rating (qe\<lparr>qe_request_type := t\<rparr>) o1 = evaluate_credit_rating qe o1"
  "evaluate_property_type (qe\<lparr>qe_request_type := t\<rparr>) xs = evaluate_property_type qe xs"
  "evaluate_roof_type (qe\<lparr>qe_request_type := t\<rparr>) xs = evaluate_roof_type qe xs"
  by (simp_all only: evaluate_zip_blacklist_def evaluate_zip_whitelist_def evaluate_own_home_def
      evaluate_roof_shade_def evaluate_credit_rating_def evaluate_property_type_def
      evaluate_roof_type_def get_string_value_qe)

lemma evaluate_rule_request_type [simp]:
  "evaluate_rule (qe\<lparr>qe_request_type := t\<rparr>) r config = evaluate_rule qe r config"
  by (simp only: evaluate_rule_def rules_request_type)

lemma never_rejecting:
  "q_accepted (evaluate_zip_blacklist qe)" "q_accepted (evaluate_zip_whitelist qe)"
  "q_accepted evaluate_monthly_bill" "q_accepted evaluate_utility_provider"
  "q_accepted evaluate_purchase_timeframe"
  by (simp_all add: evaluate_zip_blacklist_def evaluate_zip_whitelist_def
      evaluate_monthly_bill_def evaluate_utility_provider_def evaluate_purchase_timeframe_def
      split: option.split)

text \<open>A rejection carries no price multiplier.\<close>

lemma rejecting_multiplier:
  "q_accepted (evaluate_own_home qe o1) \<or> q_price_multiplier (evaluate_own_home qe o1) = None"
  "q_accepted (evaluate_roof_shade qe o1) \<or> q_price_multiplier (evaluate_roof_shade qe o1) = None"
  "q_accepted (evaluate_credit_rating qe o1) \<or> q_price_multiplier (evaluate_credit_rating qe o1) = None"
  "q_accepted (evaluate_property_type qe xs) \<or> q_price_multiplier (evaluate_property_type qe xs) = None"
  "q_accepted (evaluate_roof_type qe xs) \<or> q_price_multiplier (evaluate_roof_type qe xs) = None"
  by (simp_all add: evaluate_own_home_def evaluate_roof_shade_def evaluate_credit_rating_def
      evaluate_property_type_def evaluate_roof_type_def Let_def split: option.split)

lemma set_filter_rules:
  "set (filter_rules_by_request_type t rules) \<subseteq> set rules"
  by (auto simp: filter_rules_by_request_type_def)

definition unpriced_rejection :: "QualificationResult \<Rightarrow> bool" where
  "unpriced_rejection q \<longleftrightarrow> q_accepted q \<or> q_price_multiplier q = None"

lemma unpriced_rules:
  "unpriced_rejection (accept_with m)" "unpriced_rejection (evaluate_own_home qe o1)"
  "unpriced_rejection (evaluate_roof_shade qe o1)" "unpriced_rejection (evaluate_credit_rating qe o1)"
  "unpriced_rejection (evaluate_property_type qe xs)" "unpriced_rejection (evaluate_roof_type qe xs)"
  "unpriced_rejection (evaluate_zip_blacklist qe)" "unpriced_rejection (evaluate_zip_whitelist qe)"
  "unpriced_rejection evaluate_monthly_bill" "unpriced_rejection evaluate_utility_provider"
  "unpriced_rejection evaluate_purchase_timeframe"
  using rejecting_multiplier never_rejecting by (simp_all add: unpriced_rejection_def)

lemma evaluate_rule_rejecting:
  assumes "\<not> q_accepted (evaluate_rule qe r config)"
  shows "r \<in> {''own_home'', ''roof_shade'', ''credit_rating'', ''property_type'', ''roof_type''}"
    and "q_price_multiplier (evaluate_rule qe r config) = None"
proof -
  have "q_accepted (evaluate_rule qe r config)"
    if "r \<noteq> ''own_home''" "r \<noteq> ''roof_shade''" "r \<noteq> ''credit_rating''" "r \<noteq> ''property_type''"
      "r \<noteq> ''roof_type''"
    unfolding evaluate_rule_def if_distrib [of q_accepted]
    using that by (simp only: never_rejecting if_False QualificationResult.select_convs if_cancel)
  with assms show "r \<in> {''own_home'', ''roof_shade'', ''credit_rating'', ''property_type'', ''roof_type''}"
    unfolding insert_iff by meson
  have "unpriced_rejection (evaluate_rule qe r config)"
    unfolding evaluate_rule_def if_distrib [of unpriced_rejection]
    by (simp only: unpriced_rules if_cancel)
  with assms show "q_price_multiplier (evaluate_rule qe r config) = None"
    by (simp add: unpriced_rejection_def)
qed

lemma evaluate_rule_types:
  "evaluate_rule qe ''property_type'' config =
     evaluate_property_type qe (rejected_list config ''property_type_rejected'')"
  "evaluate_rule qe ''roof_type'' config =
     evaluate_roof_type qe (rejected_list config ''roof_type_rejected'')"
  by (simp_all add: evaluate_rule_def)

lemma evaluate_rules_all_passed:
  "q_accepted (evaluate_rules qe config rules) \<Longrightarrow>
     evaluate_rules qe config rules = accept_with ''All qualification rules passed''"
  by (induction rules) (auto simp: Let_def split: if_splits)

section \<open>Properties\<close>


text \<open>only the own-home, roof-shade and credit-rating rules can reject a ping, only these and
  the property-type and roof-type rules can reject a post or a fullpost, and no evaluation ever
  yields a price multiplier.\<close>

theorem qualification_rejections:
  "q_price_multiplier (qe_evaluate qe) = None \<and>
   (q_accepted (qe_evaluate qe) \<or>
    (\<exists>c r. qe_config qe = Some c \<and> qc_enabled c \<and> qc_is_active c \<and> r \<in> set (qc_rules_order c)
       \<and> qe_evaluate qe = evaluate_rule qe r (qc_config c)
       \<and> (r \<in> {''own_home'', ''roof_shade'', ''credit_rating''}
          \<or> qe_request_type qe \<noteq> ''ping'' \<and> r \<in> {''property_type'', ''roof_type''})))"
proof (cases "q_accepted (qe_evaluate qe)")
  case True
  then have "q_price_multiplier (qe_evaluate qe) = None"
    by (auto simp: qe_evaluate_def split: option.splits if_splits dest: evaluate_rules_all_passed)
  with True show ?thesis by simp
next
  case False
  then obtain c where c: "qe_config qe = Some c" "qc_enabled c" "qc_is_active c"
    by (auto simp: qe_evaluate_def split: option.splits if_splits)
  let ?rs = "filter_rules_by_request_type (qe_request_type qe) (qc_rules_order c)"
  let ?find = "List.find (\<lambda>r. \<not> q_accepted (evaluate_rule qe r (qc_config c))) ?rs"
  obtain r where r: "?find = Some r"
    using False c by (auto simp: qe_evaluate_def evaluate_rules_find split: option.splits)
  then have mem: "r \<in> set ?rs" and rej: "\<not> q_accepted (evaluate_rule qe r (qc_config c))"
    by (auto simp: find_Some_iff)
  have ev: "qe_evaluate qe = evaluate_rule qe r (qc_config c)"
    using c r by (simp add: qe_evaluate_def evaluate_rules_find)
  have "r \<in> set ping_rules" if "qe_request_type qe = ''ping''"
    using mem that by (simp add: filter_rules_by_request_type_def)
  moreover have "''property_type'' \<notin> set ping_rules" "''roof_type'' \<notin> set ping_rules"
    by (simp_all add: ping_rules_def)
  ultimately have alt: "r \<in> {''own_home'', ''roof_shade'', ''credit_rating''}
      \<or> qe_request_type qe \<noteq> ''ping'' \<and> r \<in> {''property_type'', ''roof_type''}"
    using evaluate_rule_rejecting(1) [OF rej] unfolding insert_iff by metis
  have mem': "r \<in> set (qc_rules_order c)" using mem set_filter_rules by blast
  have "q_price_multiplier (qe_evaluate qe) = None"
    using evaluate_rule_rejecting(2) [OF rej] ev by argo
  then show ?thesis
    by (rule conjI) (rule disjI2, rule exI [of _ c], rule exI [of _ r], rule conjI [OF c(1)],
      rule conjI [OF c(2)], rule conjI [OF c(3)], rule conjI [OF mem'], rule conjI [OF ev alt])
qed

lemma accepted_for_every_request:
  assumes "q_accepted (qe_evaluate (qe\<lparr>qe_request_type := t\<rparr>))" and "t \<noteq> ''ping''"
  shows "q_accepted (qe_evaluate (qe\<lparr>qe_request_type := t'\<rparr>))"
proof (cases "qe_config qe")
  case None
  then show ?thesis by (simp add: qe_evaluate_def)
next
  case (Some c)
  with assms show ?thesis
    by (auto simp: qe_evaluate_def evaluate_rules_accepted filter_rules_by_request_type_def)
qed

text \<open>a lead that qualifies as a post qualifies as a ping: the ping check never rejects what the
  later post check would accept.\<close>

theorem ping_accepts_what_post_accepts:
  assumes "q_accepted (qe_evaluate (qe\<lparr>qe_request_type := t\<rparr>))" and "t \<noteq> ''ping''"
  shows "q_accepted (qe_evaluate (qe\<lparr>qe_request_type := t'\<rparr>))"
  using assms by (rule accepted_for_every_request)

text \<open>a post or fullpost whose property type equals, up to letter case, an entry of the rejected
  types is rejected whenever the rule is active, and likewise for roof types.\<close>

theorem rejected_types_never_pass:
  assumes "qe_config qe = Some c" and "qc_enabled c" and "qc_is_active c"
    and "qe_request_type qe \<noteq> ''ping''"
    and "(field, key) \<in> {(''property_type'', ''property_type_rejected''), (''roof_type'', ''roof_type_rejected'')}"
    and "field \<in> set (qc_rules_order c)"
    and "get_string_value qe field = Some s" and "r \<in> set (rejected_list (qc_config c) key)"
    and "to_lowercase r = to_lowercase s"
  shows "\<not> q_accepted (qe_evaluate qe)"
proof -
  have nonempty: "rejected_list (qc_config c) key \<noteq> []" using assms(8) by auto
  then have p: "\<not> q_accepted (evaluate_property_type qe (rejected_list (qc_config c) key))"
      if "field = ''property_type''"
    using assms(7-9) that by (auto simp: evaluate_property_type_def Let_def list_ex_iff)
  have q: "\<not> q_accepted (evaluate_roof_type qe (rejected_list (qc_config c) key))"
      if "field = ''roof_type''"
    using nonempty assms(7-9) that by (auto simp: evaluate_roof_type_def Let_def list_ex_iff)
  have "\<not> q_accepted (evaluate_rule qe field (qc_config c))"
    using assms(5) p q by (auto simp only: insert_iff prod.inject evaluate_rule_types empty_iff)
  then show ?thesis
    using assms(1-4,6)
    by (auto simp: qe_evaluate_def evaluate_rules_accepted filter_rules_by_request_type_def)
qed


section \<open>Witnesses\<close>

definition sample_lead :: "json_obj \<Rightarrow> Lead" where
  "sample_lead vd = \<lparr> l_uuid = 7, l_event_id = ''ev'', l_lead_id = Some ''L1'', l_publisher_id = Some 1,
     l_vertical_id = 2, l_campaign_id = None, l_buyer_id = None, l_request_type = ''ping'',
     l_strategy = ''ping_post'', l_status = LS_Processing, l_promise_id = None, l_ping_id = None,
     l_post_id = None, l_session_id = None, l_request_stage = None, l_first_name_encrypted = None,
     l_last_name_encrypted = None, l_email_encrypted = None, l_cell_phone_encrypted = None,
     l_street_address_encrypted = None, l_city_encrypted = None, l_state_encrypted = None,
     l_zip_encrypted = None, l_ip_address_encrypted = None, l_email_sha256 = None,
     l_phone_sha256 = None, l_ip_address_hash = None, l_email_domain = None, l_tcpa_consent = True,
     l_tcpa_language = ''I agree'', l_is_test = False, l_user_agent = None, l_referrer = None,
     l_website_url = None, l_click_id = None, l_url_consent = None, l_best_call_time = None,
     l_date_of_birth = None, l_home_phone = None, l_jornaya_lead_id = None,
     l_trusted_form_url = None, l_fbp_cookie = None, l_fbc_cookie = None, l_utm_params = None,
     l_submitted_at = None, l_sold_at = None, l_retry_count = 0, l_next_retry_at = None,
     l_vertical_data = JObj vd, l_created_at = 0, l_updated_at = 0 \<rparr>"

definition sample_qc :: BuyerQualificationConfig where
  "sample_qc = \<lparr> qc_id = 1, qc_buyer_id = 2, qc_vertical_id = 3, qc_buyer_integration_id = None,
     qc_rule_set_name = ''default'',
     qc_config = JObj [(''property_type_rejected'', JArr [JStr ''Mobile''])],
     qc_rules_order = [''property_type''], qc_enabled = True, qc_is_active = True,
     qc_timeout_seconds = None, qc_created_at = 0, qc_updated_at = 0 \<rparr>"

theorem ping_accepts_what_post_accepts_witness:
  "q_accepted (qe_evaluate (QualificationEngine_new (sample_lead []) ''ping'' (Some sample_qc)))"
  using ping_accepts_what_post_accepts
    [where qe = "QualificationEngine_new (sample_lead []) ''x'' (Some sample_qc)"
       and t = "''post''" and t' = "''ping''"]
  by (simp add: QualificationEngine_new_def qe_evaluate_def sample_qc_def
      filter_rules_by_request_type_def evaluate_rule_types evaluate_property_type_def
      get_string_value_def get_value_def sample_lead_def rejected_list_def obj_get_def)

theorem rejected_types_never_pass_witness:
  "\<not> q_accepted (qe_evaluate (QualificationEngine_new (sample_lead [(''property_type'', JStr ''mobile'')])
     ''fullpost'' (Some sample_qc)))"
proof -
  have "to_lowercase ''Mobile'' = to_lowercase ''mobile''" by code_simp
  then show ?thesis
    by (intro rejected_types_never_pass
      [where c = sample_qc and field = "''property_type''" and key = "''property_type_rejected''"
         and s = "''mobile''" and r = "''Mobile''"])
    (simp_all add: QualificationEngine_new_def sample_qc_def get_string_value_def get_value_def
      sample_lead_def rejected_list_def obj_get_def List.map_filter_def)
qed


theorem qualification_rejections_witness:
  "q_accepted (qe_evaluate (QualificationEngine_new (sample_lead [(''property_type'', JStr ''mobile'')])
     ''ping'' (Some sample_qc)))"
  using qualification_rejections
    [of "QualificationEngine_new (sample_lead [(''property_type'', JStr ''mobile'')]) ''ping'' (Some sample_qc)"]
  by (simp add: QualificationEngine_new_def sample_qc_def)

end
