(* ===== verification/Metrics.thy ===== *)
theory Metrics
  imports Json
begin

text \<open>
  Models of \<open>crates/core/src/services/diagnostic_metrics.rs\<close> and
  \<open>auction_timing.rs\<close>. Atomic counters are 64-bit words whose \<open>fetch_add\<close> wraps;
  the map of stage timings is a partial map; instants are milliseconds. An index out of range or a
  division by zero is a panic, the outer \<open>None\<close> of \<open>get_stage_percentiles\<close>.
\<close>

section \<open>Diagnostic metrics\<close>

record DiagnosticMetrics =
  db_queries :: u64
  db_query_time_ms :: u64
  cache_hits :: u64
  cache_misses :: u64
  dm_ping_auction_time_ms :: u64
  dm_ping_auction_count :: u64
  dm_post_time_ms :: u64
  dm_post_count :: u64
  stage_timings :: "string \<rightharpoonup> u64 list"

definition DiagnosticMetrics_new :: DiagnosticMetrics where
  "DiagnosticMetrics_new = \<lparr> db_queries = 0, db_query_time_ms = 0, cache_hits = 0, cache_misses = 0,
     dm_ping_auction_time_ms = 0, dm_ping_auction_count = 0, dm_post_time_ms = 0, dm_post_count = 0,
     stage_timings = Map.empty \<rparr>"

definition record_query :: "u64 \<Rightarrow> DiagnosticMetrics \<Rightarrow> DiagnosticMetrics" where
  "record_query d m = m\<lparr>db_queries := db_queries m + 1, db_query_time_ms := db_query_time_ms m + d\<rparr>"

definition record_cache_hit :: "DiagnosticMetrics \<Rightarrow> DiagnosticMetrics" where
  "record_cache_hit m = m\<lparr>cache_hits := cache_hits m + 1\<rparr>"

definition record_cache_miss :: "DiagnosticMetrics \<Rightarrow> DiagnosticMetrics" where
  "record_cache_miss m = m\<lparr>cache_misses := cache_misses m + 1\<rparr>"

definition record_ping_auction :: "u64 \<Rightarrow> DiagnosticMetrics \<Rightarrow> DiagnosticMetrics" where
  "record_ping_auction d m = m\<lparr>dm_ping_auction_count := dm_ping_auction_count m + 1,
     dm_ping_auction_time_ms := dm_ping_auction_time_ms m + d\<rparr>"

definition record_post :: "u64 \<Rightarrow> DiagnosticMetrics \<Rightarrow> DiagnosticMetrics" where
  "record_post d m = m\<lparr>dm_post_count := dm_post_count m + 1, dm_post_time_ms := dm_post_time_ms m + d\<rparr>"

definition record_stage_timing :: "string \<Rightarrow> u64 \<Rightarrow> DiagnosticMetrics \<Rightarrow> DiagnosticMetrics" where
  "record_stage_timing stage d m =
     (let times0 = unwrap_or (stage_timings m stage) [] @ [d];
          kept = (if 1000 < length times0 then drop (length times0 - 1000) times0 else times0)
      in m\<lparr>stage_timings := (stage_timings m)(stage \<mapsto> kept)\<rparr>)"

definition get_cache_hit_rate :: "DiagnosticMetrics \<Rightarrow> f64" where
  "get_cache_hit_rate m =
     (let total = cache_hits m + cache_misses m in
      if total = 0 then Fin 0
      else f64_mul (f64_div (f64_of_int (uint (cache_hits m))) (f64_of_int (uint total))) (Fin 100))"

definition get_avg_ping_auction_time_ms :: "DiagnosticMetrics \<Rightarrow> f64" where
  "get_avg_ping_auction_time_ms m =
     (if dm_ping_auction_count m = 0 then Fin 0
      else f64_div (f64_of_int (uint (dm_ping_auction_time_ms m)))
             (f64_of_int (uint (dm_ping_auction_count m))))"

definition get_avg_post_time_ms :: "DiagnosticMetrics \<Rightarrow> f64" where
  "get_avg_post_time_ms m =
     (if dm_post_count m = 0 then Fin 0
      else f64_div (f64_of_int (uint (dm_post_time_ms m))) (f64_of_int (uint (dm_post_count m))))"

definition index_checked :: "'a list \<Rightarrow> nat \<Rightarrow> 'a option" where
  "index_checked xs i = (if i < length xs then Some (xs ! i) else None)"

definition div_checked :: "nat \<Rightarrow> nat \<Rightarrow> nat option" where
  "div_checked a b = (if b = 0 then None else Some (a div b))"

definition get_stage_percentiles ::
  "string \<Rightarrow> DiagnosticMetrics \<Rightarrow> (u64 \<times> u64 \<times> u64) option option" where
  "get_stage_percentiles stage m =
     (case stage_timings m stage of
        None \<Rightarrow> Some None
      | Some times0 \<Rightarrow>
          if times0 = [] then Some None
          else
            let sorted1 = sort times0; n = length sorted1 in
            Option.bind (index_checked sorted1 (n * 50 div 100)) (\<lambda>p50.
            Option.bind (index_checked sorted1 (n * 95 div 100)) (\<lambda>p95.
            Option.bind (div_checked (n * 99) (min 100 (n - 1))) (\<lambda>i.
            Option.bind (index_checked sorted1 i) (\<lambda>p99.
            Some (Some (p50, p95, p99)))))))"

text \<open>The format \<open>{:.1}\<close>.\<close>

definition format_fixed1 :: "f64 \<Rightarrow> string" where
  "format_fixed1 a =
     (case a of
        Fin x \<Rightarrow> let n = round_even (\<bar>x\<bar> * 10) in
          (if x < 0 then ''-'' else []) @ show_nat (nat (n div 10)) @ ''.'' @ show_nat (nat (n mod 10))
      | _ \<Rightarrow> f64_to_string a)"

definition metrics_log_summary :: "string \<Rightarrow> DiagnosticMetrics \<Rightarrow> json" where
  "metrics_log_summary context m = JObj
     [(''context'', JStr context),
      (''db_queries'', JInt (uint (db_queries m))),
      (''db_query_time_ms'', JInt (uint (db_query_time_ms m))),
      (''cache_hits'', JInt (uint (cache_hits m))),
      (''cache_misses'', JInt (uint (cache_misses m))),
      (''cache_hit_rate'', JStr (format_fixed1 (get_cache_hit_rate m) @ ''%'')),
      (''avg_ping_auction_ms'', JStr (format_fixed1 (get_avg_ping_auction_time_ms m))),
      (''avg_post_ms'', JStr (format_fixed1 (get_avg_post_time_ms m)))]"

section \<open>Auction timing\<close>

record TimingStage =
  ts_name :: string
  ts_started_at :: timestamp
  ts_completed_at :: "timestamp option"
  ts_duration_ms :: "u64 option"
  ts_metadata :: json

record AuctionTiming =
  at_lead_arrived_at :: timestamp
  at_stages :: "TimingStage list"

definition AuctionTiming_new :: "timestamp \<Rightarrow> AuctionTiming" where
  "AuctionTiming_new now = \<lparr> at_lead_arrived_at = now, at_stages = [] \<rparr>"

definition start_stage :: "timestamp \<Rightarrow> string \<Rightarrow> json \<Rightarrow> AuctionTiming \<Rightarrow> nat \<times> AuctionTiming" where
  "start_stage now name metadata t =
     (let stage = \<lparr> ts_name = name, ts_started_at = now, ts_completed_at = None,
                    ts_duration_ms = None, ts_metadata = metadata \<rparr>;
          stages = at_stages t @ [stage]
      in (length stages - 1, t\<lparr>at_stages := stages\<rparr>))"

definition complete_stage :: "timestamp \<Rightarrow> nat \<Rightarrow> json option \<Rightarrow> AuctionTiming \<Rightarrow> AuctionTiming" where
  "complete_stage now index metadata t =
     (if index < length (at_stages t) then
        let stage = at_stages t ! index;
            stage1 = stage\<lparr>ts_completed_at := Some now,
                       ts_duration_ms := Some (of_nat (now - ts_started_at stage))\<rparr>;
            stage2 = (case metadata of None \<Rightarrow> stage1 | Some meta \<Rightarrow> stage1\<lparr>ts_metadata := meta\<rparr>)
        in t\<lparr>at_stages := (at_stages t)[index := stage2]\<rparr>
      else t)"

definition elapsed_ms :: "timestamp \<Rightarrow> AuctionTiming \<Rightarrow> u64" where
  "elapsed_ms now t = of_nat (now - at_lead_arrived_at t)"

definition stage_json :: "TimingStage \<Rightarrow> json" where
  "stage_json s = JObj
     [(''name'', JStr (ts_name s)),
      (''duration_ms'', case ts_duration_ms s of None \<Rightarrow> JNull | Some d \<Rightarrow> JInt (uint d)),
      (''metadata'', ts_metadata s)]"

definition timing_to_json :: "timestamp \<Rightarrow> string \<Rightarrow> AuctionTiming \<Rightarrow> json" where
  "timing_to_json now lead_id t = JObj
     [(''lead_id'', JStr lead_id),
      (''total_ms'', JInt (uint (elapsed_ms now t))),
      (''stages'', JArr (map stage_json (at_stages t)))]"

record AtomicAuctionTiming =
  aat_lead_arrived_at :: timestamp
  pre_checks_ms :: u64
  ping_auction_ms :: u64
  qualification_ms :: u64
  post_sent_ms :: u64
  total_ms :: u64

definition AtomicAuctionTiming_new :: "timestamp \<Rightarrow> AtomicAuctionTiming" where
  "AtomicAuctionTiming_new now = \<lparr> aat_lead_arrived_at = now, pre_checks_ms = 0, ping_auction_ms = 0,
     qualification_ms = 0, post_sent_ms = 0, total_ms = 0 \<rparr>"

definition record_pre_checks :: "u64 \<Rightarrow> AtomicAuctionTiming \<Rightarrow> AtomicAuctionTiming" where
  "record_pre_checks d t = t\<lparr>pre_checks_ms := d\<rparr>"

definition timing_record_ping_auction :: "u64 \<Rightarrow> AtomicAuctionTiming \<Rightarrow> AtomicAuctionTiming" where
  "timing_record_ping_auction d t = t\<lparr>ping_auction_ms := d\<rparr>"

definition record_qualification :: "u64 \<Rightarrow> AtomicAuctionTiming \<Rightarrow> AtomicAuctionTiming" where
  "record_qualification d t = t\<lparr>qualification_ms := d\<rparr>"

definition record_post_sent :: "u64 \<Rightarrow> AtomicAuctionTiming \<Rightarrow> AtomicAuctionTiming" where
  "record_post_sent d t = t\<lparr>post_sent_ms := d\<rparr>"

definition record_total :: "timestamp \<Rightarrow> AtomicAuctionTiming \<Rightarrow> AtomicAuctionTiming" where
  "record_total now t = t\<lparr>total_ms := of_nat (now - aat_lead_arrived_at t)\<rparr>"

section \<open>Properties\<close>

lemma length_record_stage:
  "stage_timings (record_stage_timing s d m) s =
     Some (drop (length (unwrap_or (stage_timings m s) []) + 1 - 1000)
            (unwrap_or (stage_timings m s) [] @ [d]))"
  by (simp add: record_stage_timing_def Let_def)

lemma record_stage_other:
  "s' \<noteq> s \<Longrightarrow> stage_timings (record_stage_timing s d m) s' = stage_timings m s'"
  by (simp add: record_stage_timing_def Let_def)

definition window :: "'a list \<Rightarrow> 'a list" where
  "window xs = drop (length xs - 1000) xs"

lemma window_snoc: "drop (length (window xs) + 1 - 1000) (window xs @ [d]) = window (xs @ [d])"
proof (cases "length xs < 1000")
  case False
  then have "Suc (length xs - 1000) = length xs - 999" by arith
  with False show ?thesis by (simp add: window_def)
qed (simp add: window_def)

text \<open>The timings kept for a stage are the last thousand recorded for it, in order, whatever
  was recorded for other stages in between.\<close>

theorem stage_timings_window:
  "stage_timings (fold (\<lambda>(s, d). record_stage_timing s d) evs DiagnosticMetrics_new) s =
     (let ds = map snd (filter (\<lambda>(s', _). s' = s) evs)
      in if ds = [] then None else Some (drop (length ds - 1000) ds))"
proof (induction evs rule: rev_induct)
  case Nil
  then show ?case by (simp add: DiagnosticMetrics_new_def)
next
  case (snoc e evs)
  obtain s' d where e: "e = (s', d)" by force
  let ?m = "fold (\<lambda>(s, d). record_stage_timing s d) evs DiagnosticMetrics_new"
  let ?ds = "map snd (filter (\<lambda>(s', _). s' = s) evs)"
  have "unwrap_or (stage_timings ?m s) [] = window ?ds"
    using snoc by (simp add: Let_def window_def)
  then show ?case
    using snoc e length_record_stage [of s d ?m] window_snoc [of ?ds d]
    by (cases "s' = s") (simp_all add: record_stage_other Let_def window_def)
qed

lemma percentile_index_bad:
  fixes n :: nat
  assumes "2 \<le> n" and "n \<le> 100"
  shows "n \<le> n * 99 div (n - 1)"
proof -
  have "n * (n - 1) \<le> n * 99" using assms by (intro mult_le_mono2) simp
  then show ?thesis using assms by (simp add: less_eq_div_iff_mult_less_eq)
qed

lemma index_checked_Some: "i < length xs \<Longrightarrow> index_checked xs i = Some (xs ! i)"
  by (simp add: index_checked_def)

text \<open>\<open>get_stage_percentiles\<close> panics exactly on the stages that hold between one and a
  hundred timings; above a hundred it returns three recorded timings in ascending order.\<close>

theorem stage_percentiles_panic:
  "(get_stage_percentiles stage m = None \<longleftrightarrow>
     (\<exists>ts. stage_timings m stage = Some ts \<and> 1 \<le> length ts \<and> length ts \<le> 100))
   \<and> (\<forall>ts. stage_timings m stage = Some ts \<and> 100 < length ts \<longrightarrow>
       (\<exists>p50 p95 p99. get_stage_percentiles stage m = Some (Some (p50, p95, p99))
          \<and> p50 \<le> p95 \<and> p95 \<le> p99 \<and> {p50, p95, p99} \<subseteq> set ts))"
proof (intro conjI allI impI)
  have panic: "get_stage_percentiles stage m = None"
    if "stage_timings m stage = Some ts" "1 \<le> length ts" "length ts \<le> 100" for ts
  proof (cases "length ts = 1")
    case True
    then show ?thesis using that
      by (auto simp: get_stage_percentiles_def div_checked_def Let_def bind_eq_None_conv)
  next
    case False
    with that percentile_index_bad [of "length ts"] show ?thesis
      by (auto simp: get_stage_percentiles_def div_checked_def index_checked_def Let_def
          bind_eq_None_conv min_def)
  qed
  have fine: "\<exists>p50 p95 p99. get_stage_percentiles stage m = Some (Some (p50, p95, p99))
          \<and> p50 \<le> p95 \<and> p95 \<le> p99 \<and> {p50, p95, p99} \<subseteq> set ts"
    if ts: "stage_timings m stage = Some ts" "100 < length ts" for ts
  proof -
    let ?n = "length ts" and ?s = "sort ts"
    have i: "?n * 50 div 100 \<le> ?n * 95 div 100" "?n * 95 div 100 \<le> ?n * 99 div 100"
      "?n * 99 div 100 < ?n" using ts(2) by (auto intro: div_le_mono)
    have "get_stage_percentiles stage m =
        Some (Some (?s ! (?n * 50 div 100), ?s ! (?n * 95 div 100), ?s ! (?n * 99 div 100)))"
      using ts i by (auto simp: get_stage_percentiles_def div_checked_def index_checked_def Let_def)
    moreover have "?s ! j \<in> set ts" if "j < ?n" for j
      using that by (metis length_sort nth_mem set_sort)
    ultimately show ?thesis using i by (auto intro: sorted_nth_mono)
  qed
  show "get_stage_percentiles stage m = None \<longleftrightarrow>
      (\<exists>ts. stage_timings m stage = Some ts \<and> 1 \<le> length ts \<and> length ts \<le> 100)"
  proof
    assume a: "get_stage_percentiles stage m = None"
    then obtain ts where ts: "stage_timings m stage = Some ts" "ts \<noteq> []"
      by (auto simp: get_stage_percentiles_def split: option.splits if_splits)
    moreover have "\<not> 100 < length ts" using fine [OF ts(1)] a by auto
    ultimately show "\<exists>ts. stage_timings m stage = Some ts \<and> 1 \<le> length ts \<and> length ts \<le> 100"
      by (auto simp: Suc_le_eq)
  qed (use panic in blast)
  show "\<exists>p50 p95 p99. get_stage_percentiles stage m = Some (Some (p50, p95, p99))
          \<and> p50 \<le> p95 \<and> p95 \<le> p99 \<and> {p50, p95, p99} \<subseteq> set ts"
    if "stage_timings m stage = Some ts \<and> 100 < length ts" for ts
    using fine that by blast
qed

theorem stage_percentiles_panic_witness:
  "get_stage_percentiles ''auction'' (record_stage_timing ''auction'' 12 DiagnosticMetrics_new) = None"
  using stage_percentiles_panic
    [of "''auction''" "record_stage_timing ''auction'' 12 DiagnosticMetrics_new"]
  by (auto simp: length_record_stage DiagnosticMetrics_new_def)


lemma f64_of_int_mono: "i \<le> j \<Longrightarrow> f64_le (f64_of_int i) (f64_of_int j)"
  unfolding f64_of_int_def by (intro round64_mono) simp

lemma f64_of_int_fin:
  assumes "0 \<le> i" and "i < 2 ^ 64"
  obtains a where "f64_of_int i = Fin a" and "0 \<le> a"
proof -
  have "round64 (of_int 1 * 2 powi 64) = Fin (of_int 1 * 2 powi 64)"
    by (rule round64_representable) simp_all
  then have "f64_of_int (2 ^ 64) = Fin (2 ^ 64)" by (simp add: f64_of_int_def power_int_def)
  moreover have "f64_le (f64_of_int i) (f64_of_int (2 ^ 64))" "f64_le (f64_of_int 0) (f64_of_int i)"
    using assms by (auto intro!: f64_of_int_mono)
  moreover have "f64_of_int 0 = Fin 0" by (simp add: f64_of_int_def)
  ultimately show thesis using that by (cases "f64_of_int i") auto
qed

lemma round64_unit:
  assumes "x \<le> 1" and "0 \<le> x"
  obtains q where "round64 x = Fin q" and "0 \<le> q" and "q \<le> 1"
proof -
  have "f64_le (round64 0) (round64 x)" "f64_le (round64 x) (round64 1)"
    using assms by (intro round64_mono; simp)+
  then show thesis using that by (cases "round64 x") auto
qed

text \<open>As long as the two counters do not overflow together, the cache hit rate is a percentage
  between 0 and 100.\<close>

theorem cache_hit_rate_bounds:
  assumes "uint (cache_hits m) + uint (cache_misses m) < 2 ^ 64"
  shows "f64_le (Fin 0) (get_cache_hit_rate m) \<and> f64_le (get_cache_hit_rate m) (Fin 100)"
proof -
  let ?h = "cache_hits m" and ?t = "cache_hits m + cache_misses m"
  have t: "uint ?t = uint ?h + uint (cache_misses m)"
    using assms uint_add_lem [of ?h "cache_misses m"] by simp
  show ?thesis
  proof (cases "?t = 0")
    case True
    then show ?thesis by (simp add: get_cache_hit_rate_def)
  next
    case False
    then have pos: "1 \<le> uint ?t" using uint_nonnegative [of ?t] uint_0_iff [of ?t] by linarith
    obtain a where a: "f64_of_int (uint ?h) = Fin a" "0 \<le> a"
      using f64_of_int_fin [of "uint ?h"] uint_lt2p [of ?h] by auto
    obtain b where b: "f64_of_int (uint ?t) = Fin b"
      using f64_of_int_fin [of "uint ?t"] uint_lt2p [of ?t] by auto
    have "f64_le (f64_of_int 1) (f64_of_int (uint ?t))" using pos by (rule f64_of_int_mono)
    then have b1: "1 \<le> b" using b by (simp add: f64_of_int_def [of 1])
    have "f64_le (f64_of_int (uint ?h)) (f64_of_int (uint ?t))"
      using t uint_nonnegative [of "cache_misses m"] by (intro f64_of_int_mono) linarith
    then have "a \<le> b" using a b by simp
    then have "a / b \<le> 1" "0 \<le> a / b" using a(2) b1 by simp_all
    then obtain q where q: "round64 (a / b) = Fin q" "0 \<le> q" "q \<le> 1"
      by (rule round64_unit)
    then have "f64_le (round64 0) (round64 (q * 100))" "f64_le (round64 (q * 100)) (round64 100)"
      by (intro round64_mono; simp)+
    with False a b b1 q show ?thesis by (simp add: get_cache_hit_rate_def Let_def)
  qed
qed

theorem cache_hit_rate_bounds_witness:
  "f64_le (get_cache_hit_rate (record_cache_hit DiagnosticMetrics_new)) (Fin 100)"
  using cache_hit_rate_bounds [of "record_cache_hit DiagnosticMetrics_new"]
  by (simp add: record_cache_hit_def DiagnosticMetrics_new_def)

text \<open>Completing the stage just started records its duration on that stage, keeps its name and
  start, and leaves every earlier stage as it was; an unknown index changes nothing.\<close>

theorem complete_started_stage:
  assumes "start_stage t0 name meta t = (i, t1)"
  shows "at_stages (complete_stage t2 i None t1) = at_stages t @
      [\<lparr> ts_name = name, ts_started_at = t0, ts_completed_at = Some t2,
         ts_duration_ms = Some (of_nat (t2 - t0)), ts_metadata = meta \<rparr>]
    \<and> (\<forall>j \<ge> length (at_stages t). complete_stage t2 j m t = t)"
  using assms by (auto simp: start_stage_def complete_stage_def Let_def)

theorem complete_started_stage_witness:
  "map ts_duration_ms (at_stages (complete_stage 30 0 None
     (snd (start_stage 5 ''pre_checks'' JNull (AuctionTiming_new 1))))) = [Some 25]"
  using complete_started_stage
    [of 5 "''pre_checks''" JNull "AuctionTiming_new 1" 0
       "snd (start_stage 5 ''pre_checks'' JNull (AuctionTiming_new 1))" 30]
  by (simp add: start_stage_def AuctionTiming_new_def)

end
