(* ===== verification/Database.thy ===== *)
theory Database
  imports Models
begin

text \<open>
  The PostgreSQL database as the code uses it: a record of tables, each a list of rows in
  insertion order, and the queries of \<open>crates/core/src/models\<close>. A statement is run by
  \<open>db_stmt\<close>: the outcome of each coming statement is prescribed by the list \<open>db_faults\<close>
  (an entry \<open>Some e\<close> makes the statement fail with \<open>e\<close> and leaves the tables alone, as
  a lost connection or a constraint outside this model does; when the list is used up, statements
  succeed). Modelled constraints: the primary key and the unique \<open>lead_id\<close> of leads, the
  foreign keys of buyer responses and payloads, and the unique and check constraints of
  \<open>ping_tree_publishers\<close>. \<open>NOW()\<close> is the field \<open>db_now\<close>; rows that tie in an
  ORDER BY come in table order. Ids drawn by \<open>Uuid::new_v4()\<close> are arguments.
\<close>

section \<open>Tables\<close>

record BuyerResponseRow =
  br_id :: int
  br_lead_id :: uuid
  br_ping_id :: "string option"
  br_post_id :: "string option"
  br_buyer_id :: "uuid option"
  br_campaign_id :: uuid
  br_payload :: json
  br_created_at :: timestamp

record PingRow =
  pg_id :: int
  pg_ping_id :: string
  pg_lead_id :: uuid
  pg_promise_id :: "string option"
  pg_state :: string
  pg_sent_at :: timestamp
  pg_created_at :: timestamp

record PingPayloadRow =
  pp_id :: int
  pp_ping_id :: "string option"
  pp_lead_id :: uuid
  pp_payload :: json
  pp_request_payload_encrypted :: string
  pp_response_payload_encrypted :: "string option"
  pp_external_ping_id :: "string option"
  pp_created_at :: timestamp
  pp_updated_at :: timestamp

record PostPayloadRow =
  po_id :: int
  po_lead_id :: uuid
  po_post_id :: "string option"
  po_payload :: json
  po_request_payload_encrypted :: "string option"
  po_response_payload_encrypted :: "string option"
  po_created_at :: timestamp
  po_updated_at :: timestamp

record PulsarLogRow =
  pl_lead_id :: uuid
  pl_ping_id :: "string option"
  pl_buyer_id :: uuid
  pl_accepted :: bool
  pl_final_bid_price :: decimal
  pl_evaluated_at :: timestamp

record LeadRevenueRow =
  lr_id :: uuid
  lr_lead_id :: uuid
  lr_lead_sale_id :: "uuid option"
  lr_gross_sale_price :: f64
  lr_buyer_payment :: f64
  lr_platform_fee :: f64
  lr_admin_fee_percentage :: "f64 option"
  lr_admin_fee_amount :: f64
  lr_publisher_payment :: f64
  lr_publisher_id :: uuid
  lr_buyer_id :: uuid
  lr_campaign_id :: uuid
  lr_admin_id :: "uuid option"
  lr_payment_status :: string
  lr_created_at :: timestamp

text \<open>A row of \<open>instance_users\<close>: the columns of the model and the two for resetting the password.\<close>

record InstanceUserRow =
  iu_user :: User
  iu_reset_password_token :: "string option"
  iu_reset_password_sent_at :: "timestamp option"

record UserOtpRow =
  uo_instance_user_id :: uuid
  uo_enabled :: bool
  uo_secret_encrypted :: string
  uo_backup_codes_encrypted :: "string option"
  uo_last_verified_at :: "timestamp option"
  uo_created_at :: timestamp
  uo_updated_at :: timestamp

record InstanceRow =
  ins_id :: uuid
  ins_name :: string
  ins_instance_user_id :: "uuid option"
  ins_deleted_at :: "timestamp option"

record AuditLog =
  au_id :: uuid
  au_instance_id :: "uuid option"
  au_instance_user_id :: "uuid option"
  au_action_type :: string
  au_resource_type :: "string option"
  au_resource_id :: "uuid option"
  au_details :: json
  au_affected_resources :: json
  au_ip_address :: "string option"
  au_user_agent :: "string option"
  au_created_at :: timestamp
  au_updated_at :: timestamp

record ZipListRow =
  zl_id :: uuid
  zl_buyer_id :: uuid
  zl_name :: string
  zl_list_type :: string
  zl_created_at :: timestamp
  zl_updated_at :: timestamp

record ZipCodeRow =
  zc_id :: uuid
  zc_list_id :: uuid
  zc_zip :: string
  zc_created_at :: timestamp
  zc_updated_at :: timestamp

record db =
  leads :: "Lead list"
  campaigns :: "Campaign list"
  buyers :: "Buyer list"
  buyer_integrations :: "BuyerIntegration list"
  buyer_integration_credentials :: "BuyerIntegrationCredential list"
  buyer_qualification_configs :: "BuyerQualificationConfig list"
  ping_trees :: "PingTree list"
  ping_tree_publishers :: "PingTreePublisher list"
  ping_tree_campaigns :: "PingTreeCampaign list"
  publishers :: "Publisher list"
  verticals :: "Vertical list"
  buyer_responses :: "BuyerResponseRow list"
  pings :: "PingRow list"
  ping_payloads :: "PingPayloadRow list"
  post_payloads :: "PostPayloadRow list"
  pulsar_decision_logs :: "PulsarLogRow list"
  lead_revenues :: "LeadRevenueRow list"
  instance_users :: "InstanceUserRow list"
  user_otp_settings :: "UserOtpRow list"
  instances :: "InstanceRow list"
  audit_logs :: "AuditLog list"
  publisher_verticals :: "(uuid \<times> uuid) list"
  buyer_zip_lists :: "ZipListRow list"
  buyer_zip_codes :: "ZipCodeRow list"
  db_next_id :: int
  db_now :: timestamp
  db_faults :: "error option list"

section \<open>Statements\<close>

definition db_stmt :: "(db, 'a) io \<Rightarrow> (db, 'a) io" where
  "db_stmt q d =
     (case db_faults d of
        Some e # fs \<Rightarrow> (Inl e, d\<lparr>db_faults := fs\<rparr>)
      | None # fs \<Rightarrow> q (d\<lparr>db_faults := fs\<rparr>)
      | [] \<Rightarrow> q d)"

definition db_query :: "(db \<Rightarrow> 'a) \<Rightarrow> (db, 'a) io" where
  "db_query f = db_stmt (io_get f)"

definition ROW_NOT_FOUND :: error where
  "ROW_NOT_FOUND = ''no rows returned by a query that expected to return at least one row''"

definition UNIQUE_VIOLATION :: error where
  "UNIQUE_VIOLATION = ''duplicate key value violates unique constraint''"

definition fetch_one :: "'a list \<Rightarrow> 'a result" where
  "fetch_one rows = (case rows of [] \<Rightarrow> Inl ROW_NOT_FOUND | r # _ \<Rightarrow> Inr r)"

definition db_query_one :: "(db \<Rightarrow> 'a list) \<Rightarrow> (db, 'a) io" where
  "db_query_one f = db_stmt (\<lambda>d. (fetch_one (f d), d))"

definition first_row :: "'a list \<Rightarrow> 'a option" where
  "first_row rows = (case rows of [] \<Rightarrow> None | r # _ \<Rightarrow> Some r)"

definition db_query_optional :: "(db \<Rightarrow> 'a list) \<Rightarrow> (db, 'a option) io" where
  "db_query_optional f = db_query (\<lambda>d. first_row (f d))"

text \<open>An UPDATE of the rows that satisfy a condition; the result is the number of rows affected.\<close>

definition update_rows :: "('r \<Rightarrow> bool) \<Rightarrow> ('r \<Rightarrow> 'r) \<Rightarrow> 'r list \<Rightarrow> 'r list" where
  "update_rows p f rows = map (\<lambda>r. if p r then f r else r) rows"

definition count_rows :: "('r \<Rightarrow> bool) \<Rightarrow> 'r list \<Rightarrow> nat" where
  "count_rows p rows = length (filter p rows)"

definition update_leads :: "(Lead \<Rightarrow> bool) \<Rightarrow> (timestamp \<Rightarrow> Lead \<Rightarrow> Lead) \<Rightarrow> (db, nat) io" where
  "update_leads p f = db_stmt (\<lambda>d.
     (Inr (count_rows p (leads d)), d\<lparr>leads := update_rows p (f (db_now d)) (leads d)\<rparr>))"

definition nulls_last :: "int option \<Rightarrow> int \<times> int" where
  "nulls_last m = (case m of Some p \<Rightarrow> (0, p) | None \<Rightarrow> (1, 0))"

section \<open>Queries of the models\<close>

definition Lead_find_by_lead_id :: "string \<Rightarrow> (db, Lead option) io" where
  "Lead_find_by_lead_id lead_id =
     db_query_optional (\<lambda>d. filter (\<lambda>l. l_lead_id l = Some lead_id) (leads d))"

definition Lead_find_by_promise_id :: "string \<Rightarrow> (db, Lead option) io" where
  "Lead_find_by_promise_id promise_id =
     db_query_optional (\<lambda>d. filter (\<lambda>l. l_promise_id l = Some promise_id) (leads d))"

definition Buyer_find_by_id :: "uuid \<Rightarrow> (db, Buyer option) io" where
  "Buyer_find_by_id i =
     db_query_optional (\<lambda>d. filter (\<lambda>b. b_id b = i \<and> b_deleted_at b = None) (buyers d))"

definition BuyerIntegration_find_by_id :: "uuid \<Rightarrow> (db, BuyerIntegration option) io" where
  "BuyerIntegration_find_by_id i =
     db_query_optional (\<lambda>d.
       filter (\<lambda>b. bi_id b = i \<and> bi_status b = ''available'') (buyer_integrations d))"

definition BuyerIntegration_find_by_slug :: "string \<Rightarrow> (db, BuyerIntegration option) io" where
  "BuyerIntegration_find_by_slug slug =
     db_query_optional (\<lambda>d.
       filter (\<lambda>b. bi_slug b = slug \<and> bi_status b = ''available'') (buyer_integrations d))"

definition Credential_find ::
  "uuid \<Rightarrow> uuid option \<Rightarrow> (db, BuyerIntegrationCredential option) io" where
  "Credential_find integration_id buyer_id =
     (case buyer_id of
        Some bid \<Rightarrow> db_query_optional (\<lambda>d.
          filter (\<lambda>c. bic_buyer_integration_id c = integration_id \<and> bic_buyer_id c = Some bid)
            (buyer_integration_credentials d))
      | None \<Rightarrow> db_query_optional (\<lambda>d.
          filter (\<lambda>c. bic_buyer_integration_id c = integration_id \<and> bic_buyer_id c = None)
            (buyer_integration_credentials d)))"

definition Vertical_find_by_slug :: "string \<Rightarrow> (db, Vertical option) io" where
  "Vertical_find_by_slug slug =
     db_query_optional (\<lambda>d. filter (\<lambda>v. v_slug v = slug \<and> v_is_active v) (verticals d))"

subsection \<open>Campaigns\<close>

definition Campaign_find_by_token :: "string \<Rightarrow> (db, Campaign option) io" where
  "Campaign_find_by_token token =
     db_query_optional (\<lambda>d.
       filter (\<lambda>c. c_campaign_token c = token \<and> c_deleted_at c = None) (campaigns d))"

definition Campaign_find_by_token_and_publisher :: "string \<Rightarrow> uuid \<Rightarrow> (db, Campaign option) io" where
  "Campaign_find_by_token_and_publisher token publisher =
     db_query_optional (\<lambda>d.
       filter (\<lambda>c. c_campaign_token c = token \<and> c_publisher_id c = publisher \<and> c_deleted_at c = None)
         (campaigns d))"

definition Campaign_find_by_ids :: "uuid list \<Rightarrow> (db, Campaign list) io" where
  "Campaign_find_by_ids ids =
     (if ids = [] then io_return []
      else db_query (\<lambda>d. filter (\<lambda>c. c_id c \<in> set ids \<and> c_deleted_at c = None) (campaigns d)))"

type_synonym campaign_assoc = "Campaign \<times> Buyer option \<times> BuyerIntegration option"

definition join_buyer :: "db \<Rightarrow> Campaign \<Rightarrow> Buyer option" where
  "join_buyer d c = List.find (\<lambda>b. b_id b = c_buyer_id c \<and> b_deleted_at b = None) (buyers d)"

definition join_integration :: "db \<Rightarrow> Buyer option \<Rightarrow> BuyerIntegration option" where
  "join_integration d mb =
     Option.bind mb (\<lambda>b. List.find (\<lambda>i. Some (bi_id i) = b_buyer_integration_id b
       \<and> bi_status i = ''available'') (buyer_integrations d))"

definition Campaign_find_by_ids_with_associations ::
  "uuid list \<Rightarrow> (db, campaign_assoc list) io" where
  "Campaign_find_by_ids_with_associations ids =
     (if ids = [] then io_return []
      else db_query (\<lambda>d. map (\<lambda>c. (c, join_buyer d c, join_integration d (join_buyer d c)))
             (filter (\<lambda>c. c_id c \<in> set ids \<and> c_deleted_at c = None) (campaigns d))))"

subsection \<open>Qualification configurations\<close>

definition active_configs :: "uuid list \<Rightarrow> db \<Rightarrow> BuyerQualificationConfig list" where
  "active_configs buyer_ids d =
     filter (\<lambda>q. qc_buyer_id q \<in> set buyer_ids \<and> qc_enabled q \<and> qc_is_active q)
       (buyer_qualification_configs d)"

definition group_configs ::
  "uuid list \<Rightarrow> BuyerQualificationConfig list \<Rightarrow> (uuid \<rightharpoonup> BuyerQualificationConfig option)" where
  "group_configs buyer_ids configs =
     fold (\<lambda>config m.
             case m (qc_buyer_id config) of
               Some None \<Rightarrow> m(qc_buyer_id config \<mapsto> Some config)
             | _ \<Rightarrow> m) configs
       (\<lambda>b. if b \<in> set buyer_ids then Some None else None)"

definition QualificationConfig_find_by_buyer_ids ::
  "uuid list \<Rightarrow> (db, uuid \<rightharpoonup> BuyerQualificationConfig option) io" where
  "QualificationConfig_find_by_buyer_ids buyer_ids =
     (if buyer_ids = [] then io_return Map.empty
      else io_bind (db_query (\<lambda>d. active_configs buyer_ids d \<noteq> [])) (\<lambda>has_configs.
        if \<not> has_configs then io_return (group_configs buyer_ids [])
        else io_bind (db_query (\<lambda>d. sort_key (\<lambda>q. - int (qc_created_at q)) (active_configs buyer_ids d)))
          (\<lambda>configs. io_return (group_configs buyer_ids configs))))"

subsection \<open>Ping trees\<close>

definition PingTree_find_by_id :: "uuid \<Rightarrow> (db, PingTree option) io" where
  "PingTree_find_by_id i =
     db_query_optional (\<lambda>d. filter (\<lambda>t. pt_id t = i \<and> pt_deleted_at t = None) (ping_trees d))"

definition routing_rows :: "uuid \<Rightarrow> string \<Rightarrow> db \<Rightarrow> (PingTree \<times> PingTreePublisher) list" where
  "routing_rows publisher vertical d =
     filter (\<lambda>(t, a). pt_id t = ptp_ping_tree_id a \<and> ptp_publisher_id a = publisher
               \<and> pt_vertical t = vertical \<and> pt_deleted_at t = None)
       (List.product (ping_trees d) (ping_tree_publishers d))"

definition PingTree_find_for_routing ::
  "uuid \<Rightarrow> string \<Rightarrow> (db, (PingTree \<times> decimal option \<times> decimal option) option) io" where
  "PingTree_find_for_routing publisher vertical =
     io_bind (db_query_optional (\<lambda>d.
         sort_key (\<lambda>(t, a). (nulls_last (pt_priority t), pt_created_at t)) (routing_rows publisher vertical d)))
       (\<lambda>row. io_return (map_option
          (\<lambda>(t, a). (t, ptp_revshare_percentage a, ptp_revshare_flat_amount a)) row))"

definition PingTreeCampaign_find_enabled :: "uuid \<Rightarrow> (db, PingTreeCampaign list) io" where
  "PingTreeCampaign_find_enabled tree =
     db_query (\<lambda>d. sort_key (\<lambda>p. (nulls_last (ptc_priority p), ptc_created_at p))
       (filter (\<lambda>p. ptc_ping_tree_id p = tree \<and> ptc_enabled p
                  \<and> list_ex (\<lambda>c. c_id c = ptc_campaign_id p \<and> Campaign_active c) (campaigns d))
         (ping_tree_campaigns d)))"

definition PingTreeCampaign_find_by_ping_tree_and_campaign ::
  "uuid \<Rightarrow> uuid \<Rightarrow> (db, PingTreeCampaign option) io" where
  "PingTreeCampaign_find_by_ping_tree_and_campaign tree campaign =
     db_query_optional (\<lambda>d.
       filter (\<lambda>p. ptc_ping_tree_id p = tree \<and> ptc_campaign_id p = campaign) (ping_tree_campaigns d))"


subsection \<open>Ping tree publishers\<close>

text \<open>The table's unique constraints on (publisher, vertical) and (ping tree, publisher).\<close>

definition ptp_conflict :: "PingTreePublisher \<Rightarrow> PingTreePublisher \<Rightarrow> bool" where
  "ptp_conflict a b \<longleftrightarrow> ptp_id a = ptp_id b
     \<or> ptp_publisher_id a = ptp_publisher_id b \<and> ptp_vertical a = ptp_vertical b
     \<or> ptp_ping_tree_id a = ptp_ping_tree_id b \<and> ptp_publisher_id a = ptp_publisher_id b"

definition insert_ptp :: "PingTreePublisher \<Rightarrow> (db, PingTreePublisher) io" where
  "insert_ptp a = db_stmt (\<lambda>d.
     if list_ex (ptp_conflict a) (ping_tree_publishers d) then (Inl UNIQUE_VIOLATION, d)
     else (Inr a, d\<lparr>ping_tree_publishers := ping_tree_publishers d @ [a]\<rparr>))"

definition validated_revshare ::
  "decimal option \<Rightarrow> decimal option \<Rightarrow> (db, unit) io" where
  "validated_revshare pct flat =
     (case validate_revshare pct flat of Inl _ \<Rightarrow> io_err ROW_NOT_FOUND | Inr _ \<Rightarrow> io_return ())"

definition PingTreePublisher_create ::
  "uuid \<Rightarrow> uuid \<Rightarrow> uuid \<Rightarrow> string \<Rightarrow> decimal option \<Rightarrow> decimal option \<Rightarrow> (db, PingTreePublisher) io"
where
  "PingTreePublisher_create new_id tree publisher vertical pct0 flat0 =
     (let (pct, flat) = apply_defaults pct0 flat0 in
      io_bind (validated_revshare pct flat) (\<lambda>_.
      io_bind (db_query_one (\<lambda>d. map pt_vertical
          (filter (\<lambda>t. pt_id t = tree \<and> pt_deleted_at t = None) (ping_trees d)))) (\<lambda>ping_tree_vertical.
      if vertical \<noteq> ping_tree_vertical then io_err ROW_NOT_FOUND
      else io_bind (io_get db_now) (\<lambda>now.
        insert_ptp \<lparr> ptp_id = new_id, ptp_ping_tree_id = tree, ptp_publisher_id = publisher,
          ptp_vertical = vertical, ptp_revshare_percentage = pct, ptp_revshare_flat_amount = flat,
          ptp_created_at = now, ptp_updated_at = now \<rparr>))))"

definition PingTreePublisher_find_by_ping_tree :: "uuid \<Rightarrow> (db, PingTreePublisher list) io" where
  "PingTreePublisher_find_by_ping_tree tree =
     db_query (\<lambda>d. sort_key ptp_created_at
       (filter (\<lambda>a. ptp_ping_tree_id a = tree) (ping_tree_publishers d)))"

definition PingTree_find_publishers :: "uuid \<Rightarrow> (db, PingTreePublisher list) io" where
  "PingTree_find_publishers tree = PingTreePublisher_find_by_ping_tree tree"

definition PingTreePublisher_find_by_publisher_and_vertical ::
  "uuid \<Rightarrow> string \<Rightarrow> (db, PingTreePublisher option) io" where
  "PingTreePublisher_find_by_publisher_and_vertical publisher vertical =
     db_query_optional (\<lambda>d.
       filter (\<lambda>a. ptp_publisher_id a = publisher \<and> ptp_vertical a = vertical) (ping_tree_publishers d))"

definition PingTreePublisher_update_revshare ::
  "uuid \<Rightarrow> decimal option \<Rightarrow> decimal option \<Rightarrow> (db, PingTreePublisher) io" where
  "PingTreePublisher_update_revshare i pct0 flat0 =
     (let (pct, flat) = apply_defaults pct0 flat0 in
      io_bind (validated_revshare pct flat) (\<lambda>_.
      db_stmt (\<lambda>d.
        let rows = update_rows (\<lambda>a. ptp_id a = i)
              (\<lambda>a. a\<lparr>ptp_revshare_percentage := pct, ptp_revshare_flat_amount := flat,
                     ptp_updated_at := db_now d\<rparr>) (ping_tree_publishers d)
        in (fetch_one (filter (\<lambda>a. ptp_id a = i) rows), d\<lparr>ping_tree_publishers := rows\<rparr>))))"

definition PingTreePublisher_delete :: "uuid \<Rightarrow> uuid \<Rightarrow> (db, unit) io" where
  "PingTreePublisher_delete tree publisher = db_stmt (\<lambda>d.
     (Inr (), d\<lparr>ping_tree_publishers :=
        filter (\<lambda>a. \<not> (ptp_ping_tree_id a = tree \<and> ptp_publisher_id a = publisher))
          (ping_tree_publishers d)\<rparr>))"

definition PingTreePublisher_find_by_ping_tree_and_publisher ::
  "uuid \<Rightarrow> uuid \<Rightarrow> (db, PingTreePublisher option) io" where
  "PingTreePublisher_find_by_ping_tree_and_publisher tree publisher =
     db_query_optional (\<lambda>d.
       filter (\<lambda>a. ptp_ping_tree_id a = tree \<and> ptp_publisher_id a = publisher) (ping_tree_publishers d))"

subsection \<open>Publishers\<close>

text \<open>The hash of a key, \<open>hex(sha256(key))\<close>, is a parameter.\<close>

definition Publisher_find_by_api_key ::
  "(string \<Rightarrow> string) \<Rightarrow> string \<Rightarrow> (db, Publisher option) io" where
  "Publisher_find_by_api_key sha256_hex api_key =
     (let trimmed = trim api_key in
      if trimmed = [] then io_return None
      else db_query_optional (\<lambda>d.
        filter (\<lambda>p. p_api_key_hash p = sha256_hex trimmed \<and> p_deleted_at p = None) (publishers d)))"

definition Publisher_record_request :: "Publisher \<Rightarrow> (db, unit) io" where
  "Publisher_record_request p = db_stmt (\<lambda>d.
     if list_ex (\<lambda>q. p_id q = p_id p \<and> i32_MAX \<le> p_total_requests q) (publishers d)
     then (Inl ''integer out of range'', d)
     else (Inr (), d\<lparr>publishers := update_rows (\<lambda>q. p_id q = p_id p)
        (\<lambda>q. q\<lparr>p_last_request_at := Some (db_now d), p_total_requests := p_total_requests q + 1\<rparr>)
        (publishers d)\<rparr>))"

section \<open>Laws of the statements\<close>

lemma db_stmt_ok: "db_faults d = [] \<Longrightarrow> db_stmt q d = q d"
  by (simp add: db_stmt_def)

text \<open>A statement either fails without touching the tables or runs.\<close>

lemma db_stmt_cases:
  obtains (fault) e fs where "db_stmt q d = (Inl e, d\<lparr>db_faults := fs\<rparr>)"
  | (run) fs where "db_stmt q d = q (d\<lparr>db_faults := fs\<rparr>)"
proof (cases "db_faults d")
  case Nil
  then have "d = d\<lparr>db_faults := []\<rparr>" by simp
  then have "q d = q (d\<lparr>db_faults := []\<rparr>)" by (rule arg_cong)
  then show thesis by (intro run [of "[]"]) (simp only: db_stmt_ok [OF Nil])
next
  case (Cons x fs)
  show thesis
  proof (cases x)
    case None
    show thesis by (rule run [of fs]) (simp add: db_stmt_def Cons None)
  next
    case (Some e)
    show thesis by (rule fault [of e fs]) (simp add: db_stmt_def Cons Some)
  qed
qed

lemma preserves_db_stmt:
  assumes "preserves P q" and "\<And>d fs. P d \<Longrightarrow> P (d\<lparr>db_faults := fs\<rparr>)"
  shows "preserves P (db_stmt q)"
  using assms by (auto simp: preserves_def db_stmt_def split: list.split option.split)

lemma db_query_state: "snd (db_query f d) = d \<or> (\<exists>fs. snd (db_query f d) = d\<lparr>db_faults := fs\<rparr>)"
  by (auto simp: db_query_def db_stmt_def io_simps split: list.split option.split)


lemma preserves_db_query:
  "(\<And>d fs. P d \<Longrightarrow> P (d\<lparr>db_faults := fs\<rparr>)) \<Longrightarrow> preserves P (db_query f)"
  unfolding db_query_def by (intro preserves_db_stmt preserves_basic)

lemma set_update_rows: "set (update_rows p f rows) = (\<lambda>r. if p r then f r else r) ` set rows"
  by (simp add: update_rows_def)

lemma map_update_rows: "(\<And>r. g (f r) = g r) \<Longrightarrow> map g (update_rows p f rows) = map g rows"
  by (simp add: update_rows_def)

section \<open>Assignments of publishers to ping trees\<close>

definition ptp_inv :: "db \<Rightarrow> bool" where
  "ptp_inv d \<longleftrightarrow>
     sorted_wrt (\<lambda>a b. \<not> ptp_conflict a b) (ping_tree_publishers d) \<and>
     (\<forall>a \<in> set (ping_tree_publishers d).
        valid_revshare (ptp_revshare_percentage a) (ptp_revshare_flat_amount a) \<and>
        (\<exists>t \<in> set (ping_trees d). pt_id t = ptp_ping_tree_id a \<and> pt_vertical t = ptp_vertical a))"

lemma ptp_inv_faults [simp]: "ptp_inv (d\<lparr>db_faults := fs\<rparr>) = ptp_inv d"
  by (simp add: ptp_inv_def)

lemma ptp_conflict_sym: "ptp_conflict a b = ptp_conflict b a"
  by (auto simp: ptp_conflict_def)

lemma ptp_conflict_refl [simp]: "ptp_conflict a a"
  by (simp add: ptp_conflict_def)

lemma ptp_inv_unique:
  assumes "ptp_inv d" and "a \<in> set (ping_tree_publishers d)" and "b \<in> set (ping_tree_publishers d)"
    and "ptp_conflict a b"
  shows "a = b"
proof (rule ccontr)
  assume ne: "a \<noteq> b"
  obtain i j where ij: "i < length (ping_tree_publishers d)" "ping_tree_publishers d ! i = a"
    "j < length (ping_tree_publishers d)" "ping_tree_publishers d ! j = b"
    using assms(2,3) by (auto simp: in_set_conv_nth)
  then have "i < j \<or> j < i" using ne by (metis linorder_neqE_nat)
  then show False
    using assms(1,4) ij ptp_conflict_sym sorted_wrt_nth_less
    unfolding ptp_inv_def by metis
qed

lemma ptp_inv_distinct: "ptp_inv d \<Longrightarrow> distinct (ping_tree_publishers d)"
  unfolding ptp_inv_def distinct_conv_nth
  by (metis linorder_neqE_nat ptp_conflict_refl sorted_wrt_nth_less)

lemma ptp_inv_delete: "preserves ptp_inv (PingTreePublisher_delete tree publisher)"
  unfolding PingTreePublisher_delete_def
  by (intro preserves_db_stmt preservesI) (auto simp: ptp_inv_def sorted_wrt_filter)

lemma ptp_conflict_update:
  "ptp_conflict
     (if p then a\<lparr>ptp_revshare_percentage := x, ptp_revshare_flat_amount := y, ptp_updated_at := z\<rparr> else a)
     (if q then b\<lparr>ptp_revshare_percentage := x, ptp_revshare_flat_amount := y, ptp_updated_at := z\<rparr> else b)
   = ptp_conflict a b"
  by (simp add: ptp_conflict_def)

lemma ptp_inv_update: "preserves ptp_inv (PingTreePublisher_update_revshare i pct flat)"
proof -
  obtain pct' flat' where d: "apply_defaults pct flat = (pct', flat')" by force
  have upd: "preserves ptp_inv (db_stmt (\<lambda>d.
        let rows = update_rows (\<lambda>a. ptp_id a = i)
              (\<lambda>a. a\<lparr>ptp_revshare_percentage := pct', ptp_revshare_flat_amount := flat',
                     ptp_updated_at := db_now d\<rparr>) (ping_tree_publishers d)
        in (fetch_one (filter (\<lambda>a. ptp_id a = i) rows), d\<lparr>ping_tree_publishers := rows\<rparr>)))"
    if "valid_revshare pct' flat'"
    using that by (intro preserves_db_stmt preservesI)
      (auto simp: ptp_inv_def update_rows_def sorted_wrt_map ptp_conflict_update Let_def)
  show ?thesis
  proof (cases "validate_revshare pct' flat' = Inr ()")
    case True
    then have "valid_revshare pct' flat'" using validate_after_defaults [of pct flat] d by simp
    then show ?thesis using True d upd
      by (simp add: PingTreePublisher_update_revshare_def validated_revshare_def)
  next
    case False
    then obtain e where "validate_revshare pct' flat' = Inl e"
      by (cases "validate_revshare pct' flat'") auto
    then show ?thesis using d
      by (simp add: PingTreePublisher_update_revshare_def validated_revshare_def preserves_basic)
  qed
qed


lemma ptp_inv_insert:
  assumes "valid_revshare (ptp_revshare_percentage a) (ptp_revshare_flat_amount a)"
    and "\<exists>t \<in> set (ping_trees d). pt_id t = ptp_ping_tree_id a \<and> pt_vertical t = ptp_vertical a"
    and "ptp_inv d" and "db_faults d = []"
  shows "ptp_inv (snd (insert_ptp a d))"
  using assms ptp_conflict_sym
  by (auto simp: insert_ptp_def db_stmt_ok ptp_inv_def sorted_wrt_append list_ex_iff)

text \<open>What a successful \<open>create\<close> did, on a database whose statements succeed.\<close>

lemma PingTreePublisher_create_Inr:
  assumes "PingTreePublisher_create i tree pub v pct flat d = (Inr a, d')" and "db_faults d = []"
  obtains t where "t \<in> set (ping_trees d)" and "pt_id t = tree" and "pt_vertical t = v"
    and "pt_deleted_at t = None"
    and "a = \<lparr> ptp_id = i, ptp_ping_tree_id = tree, ptp_publisher_id = pub, ptp_vertical = v,
      ptp_revshare_percentage = fst (apply_defaults pct flat),
      ptp_revshare_flat_amount = snd (apply_defaults pct flat),
      ptp_created_at = db_now d, ptp_updated_at = db_now d \<rparr>"
    and "valid_revshare (fst (apply_defaults pct flat)) (snd (apply_defaults pct flat))"
    and "\<forall>b \<in> set (ping_tree_publishers d). \<not> ptp_conflict a b"
    and "d' = d\<lparr>ping_tree_publishers := ping_tree_publishers d @ [a]\<rparr>"
proof -
  obtain p f where pf: "apply_defaults pct flat = (p, f)" by force
  let ?row = "\<lparr> ptp_id = i, ptp_ping_tree_id = tree, ptp_publisher_id = pub, ptp_vertical = v,
      ptp_revshare_percentage = p, ptp_revshare_flat_amount = f,
      ptp_created_at = db_now d, ptp_updated_at = db_now d \<rparr>"
  have val: "validate_revshare p f = Inr ()"
    using assms(1) pf by (cases "validate_revshare p f")
      (auto simp: PingTreePublisher_create_def validated_revshare_def io_simps)
  obtain t ts where ts: "filter (\<lambda>t. pt_id t = tree \<and> pt_deleted_at t = None) (ping_trees d) = t # ts"
    using assms pf val
    by (cases "filter (\<lambda>t. pt_id t = tree \<and> pt_deleted_at t = None) (ping_trees d)")
      (auto simp: PingTreePublisher_create_def validated_revshare_def db_query_one_def db_stmt_ok
        fetch_one_def io_simps)
  then have t: "t \<in> set (ping_trees d)" "pt_id t = tree" "pt_deleted_at t = None"
    by (auto simp: filter_eq_Cons_iff)
  have "pt_vertical t = v \<and> insert_ptp ?row d = (Inr a, d')"
    using assms pf val ts
    by (auto simp: PingTreePublisher_create_def validated_revshare_def db_query_one_def db_stmt_ok
        fetch_one_def io_simps split: if_splits)
  moreover from this have "a = ?row" "\<forall>b \<in> set (ping_tree_publishers d). \<not> ptp_conflict a b"
    "d' = d\<lparr>ping_tree_publishers := ping_tree_publishers d @ [a]\<rparr>"
    using assms(2) by (auto simp: insert_ptp_def db_stmt_ok list_ex_iff split: if_splits)
  moreover have "valid_revshare p f" using val pf validate_after_defaults [of pct flat] by simp
  ultimately show thesis using that [of t] t pf by simp
qed

lemma singleton_list: "distinct xs \<Longrightarrow> set xs = {x} \<Longrightarrow> xs = [x]"
  by (metis distinct_length_2_or_more insert_not_empty list.set(1) list.set_cases
      list.set_intros(1) list.set_intros(2) neq_Nil_conv singletonD)

text \<open>assigning a publisher to a ping tree and then routing for that publisher and vertical
  finds exactly that tree with the assigned revenue share (80 percent when none was given), and
  the assignments keep their invariant: no two assignments of a publisher for one vertical, a
  valid revenue share each, and the vertical of the tree.\<close>

theorem create_then_route:
  assumes "ptp_inv d" and "distinct (map pt_id (ping_trees d))" and "db_faults d = []"
    and "PingTreePublisher_create i tree pub v pct flat d = (Inr a, d')"
  shows "ptp_inv d' \<and> (\<exists>t. t \<in> set (ping_trees d) \<and> pt_id t = tree \<and>
    PingTree_find_for_routing pub v d' = (Inr (Some (t, apply_defaults pct flat)), d'))"
proof -
  obtain t where t: "t \<in> set (ping_trees d)" "pt_id t = tree" "pt_vertical t = v"
      "pt_deleted_at t = None"
    and a: "ptp_ping_tree_id a = tree" "ptp_publisher_id a = pub" "ptp_vertical a = v"
      "ptp_revshare_percentage a = fst (apply_defaults pct flat)"
      "ptp_revshare_flat_amount a = snd (apply_defaults pct flat)"
    and val: "valid_revshare (fst (apply_defaults pct flat)) (snd (apply_defaults pct flat))"
    and new: "\<forall>b \<in> set (ping_tree_publishers d). \<not> ptp_conflict a b"
    and d': "d' = d\<lparr>ping_tree_publishers := ping_tree_publishers d @ [a]\<rparr>"
    using PingTreePublisher_create_Inr [OF assms(4,3)] by (metis PingTreePublisher.select_convs)
  have inv': "ptp_inv d'"
    using assms(1) t a val new d' ptp_conflict_sym
    by (auto simp: ptp_inv_def sorted_wrt_append)
  have dist: "distinct (routing_rows pub v d')"
    using ptp_inv_distinct [OF inv'] assms(2) d' distinct_map [of pt_id "ping_trees d"]
    by (auto simp: routing_rows_def intro!: distinct_filter distinct_product)
  have "x = (t, a)" if x: "x \<in> set (routing_rows pub v d')" for x
  proof -
    obtain t' b where tb: "x = (t', b)" "t' \<in> set (ping_trees d)" "b \<in> set (ping_tree_publishers d')"
        "pt_id t' = ptp_ping_tree_id b" "ptp_publisher_id b = pub" "pt_vertical t' = v"
      using x d' by (auto simp: routing_rows_def)
    have "\<forall>b \<in> set (ping_tree_publishers d').
        \<exists>t \<in> set (ping_trees d). pt_id t = ptp_ping_tree_id b \<and> pt_vertical t = ptp_vertical b"
      using inv' d' by (simp add: ptp_inv_def)
    then obtain t'' where t'': "t'' \<in> set (ping_trees d)" "pt_id t'' = pt_id t'"
        "pt_vertical t'' = ptp_vertical b"
      using tb by metis
    have "t'' = t'" using assms(2) t''(1,2) tb(2) by (auto simp: distinct_map dest: inj_onD)
    then have "ptp_vertical b = v" using tb t'' by simp
    then have "b = a"
      using ptp_inv_unique [OF inv' tb(3), of a] tb(5) a(2,3) d' by (simp add: ptp_conflict_def)
    moreover from this have "t' = t" using tb(2,4) t(1,2) a(1) assms(2) by (simp add: distinct_map inj_on_def)
    ultimately show ?thesis using tb by simp
  qed
  moreover have "(t, a) \<in> set (routing_rows pub v d')"
    using t a d' by (auto simp: routing_rows_def)
  ultimately have "set (routing_rows pub v d') = {(t, a)}" by blast
  then have "routing_rows pub v d' = [(t, a)]" by (rule singleton_list [OF dist])
  then have "PingTree_find_for_routing pub v d' = (Inr (Some (t, apply_defaults pct flat)), d')"
    using assms(3) d' a
    by (simp add: PingTree_find_for_routing_def db_query_optional_def db_query_def db_stmt_ok
        first_row_def io_simps)
  with inv' t show ?thesis by blast
qed


definition empty_db :: db where
  "empty_db = \<lparr> leads = [], campaigns = [], buyers = [], buyer_integrations = [],
     buyer_integration_credentials = [], buyer_qualification_configs = [], ping_trees = [],
     ping_tree_publishers = [], ping_tree_campaigns = [], publishers = [], verticals = [],
     buyer_responses = [], pings = [], ping_payloads = [], post_payloads = [],
     pulsar_decision_logs = [], lead_revenues = [], instance_users = [], user_otp_settings = [],
     instances = [], audit_logs = [], publisher_verticals = [], buyer_zip_lists = [], buyer_zip_codes = [], db_next_id = 1, db_now = 0, db_faults = [] \<rparr>"

definition sample_tree :: PingTree where
  "sample_tree = \<lparr> pt_id = 5, pt_instance_id = 1, pt_name = ''main'', pt_vertical = ''solar'',
     pt_strategy = ''ping_post'', pt_status = ''active'', pt_priority = Some 1, pt_deleted_at = None,
     pt_created_at = 0, pt_updated_at = 0 \<rparr>"

theorem create_then_route_witness:
  "fst (PingTree_find_for_routing 9 ''solar''
     (snd (PingTreePublisher_create 1 5 9 ''solar'' None None (empty_db\<lparr>ping_trees := [sample_tree]\<rparr>))))
   = Inr (Some (sample_tree, Some 80, None))"
proof -
  let ?d = "empty_db\<lparr>ping_trees := [sample_tree]\<rparr>"
  let ?r = "PingTreePublisher_create 1 5 9 ''solar'' None None ?d"
  have "\<exists>a. fst ?r = Inr a"
    by (simp add: PingTreePublisher_create_def validated_revshare_def validate_revshare_def
        apply_defaults_def db_query_one_def db_stmt_def fetch_one_def insert_ptp_def io_simps
        empty_db_def sample_tree_def)
  then obtain a where r: "?r = (Inr a, snd ?r)" by (metis prod.collapse)
  have "ptp_inv ?d" "distinct (map pt_id (ping_trees ?d))" "db_faults ?d = []"
    by (simp_all add: ptp_inv_def empty_db_def)
  from create_then_route [OF this r] obtain t where "t \<in> set (ping_trees ?d)"
    "PingTree_find_for_routing 9 ''solar'' (snd ?r) = (Inr (Some (t, apply_defaults None None)), snd ?r)"
    by blast
  then show ?thesis by (simp add: apply_defaults_def)
qed

section \<open>Qualification configurations\<close>

lemma group_configs_fold:
  "fold (\<lambda>config m. case m (qc_buyer_id config) of
           Some None \<Rightarrow> m(qc_buyer_id config \<mapsto> Some config) | _ \<Rightarrow> m) configs m0 b =
     (case m0 b of
        Some None \<Rightarrow> Some (first_row (filter (\<lambda>q. qc_buyer_id q = b) configs))
      | x \<Rightarrow> x)"
  by (induction configs arbitrary: m0) (auto simp: first_row_def split: option.splits)

lemma group_configs_lookup:
  "group_configs ids configs b =
     (if b \<in> set ids then Some (first_row (filter (\<lambda>q. qc_buyer_id q = b) configs)) else None)"
  by (simp add: group_configs_def group_configs_fold)

lemma first_row_filter_None: "first_row (filter P xs) = None \<longleftrightarrow> (\<forall>x \<in> set xs. \<not> P x)"
  by (induction xs) (auto simp: first_row_def)

lemma first_row_sorted:
  assumes "first_row (filter P (sort_key k xs)) = Some x"
  shows "x \<in> set xs \<and> P x \<and> (\<forall>y \<in> set xs. P y \<longrightarrow> k x \<le> k y)"
proof -
  obtain ys where f: "filter P (sort_key k xs) = x # ys"
    using assms by (auto simp: first_row_def split: list.splits)
  then have "sorted (map k (x # ys))" by (metis sorted_filter sorted_sort_key)
  moreover have "set (x # ys) = {y \<in> set xs. P y}" using f by (metis set_filter set_sort)
  ultimately show ?thesis by auto
qed

text \<open>the bulk lookup of qualification configurations returns, for each requested buyer and for
  no other, the most recently created of its enabled and active configurations, and \<open>None\<close>
  exactly when it has none.\<close>

theorem qualification_configs_most_recent:
  assumes "db_faults d = []"
  shows "\<exists>m. QualificationConfig_find_by_buyer_ids ids d = (Inr m, d) \<and>
    (\<forall>b. (m b = None \<longleftrightarrow> b \<notin> set ids) \<and>
         (m b = Some None \<longleftrightarrow> b \<in> set ids \<and> (\<forall>q \<in> set (active_configs ids d). qc_buyer_id q \<noteq> b)) \<and>
         (\<forall>q. m b = Some (Some q) \<longrightarrow> q \<in> set (active_configs ids d) \<and> qc_buyer_id q = b \<and>
            (\<forall>q' \<in> set (active_configs ids d). qc_buyer_id q' = b \<longrightarrow> qc_created_at q' \<le> qc_created_at q)))"
proof (cases "ids = []")
  case True
  then show ?thesis
    by (simp add: QualificationConfig_find_by_buyer_ids_def io_simps)
next
  case False
  let ?k = "\<lambda>q. - int (qc_created_at q)"
  let ?m = "group_configs ids (sort_key ?k (active_configs ids d))"
  have run: "QualificationConfig_find_by_buyer_ids ids d = (Inr ?m, d)"
    using assms False
    by (simp add: QualificationConfig_find_by_buyer_ids_def db_query_def db_stmt_ok io_simps)
  have none: "?m b = Some None \<longleftrightarrow> b \<in> set ids \<and> (\<forall>q \<in> set (active_configs ids d). qc_buyer_id q \<noteq> b)" for b
    by (simp add: group_configs_lookup first_row_filter_None)
  have some: "q \<in> set (active_configs ids d) \<and> qc_buyer_id q = b \<and>
      (\<forall>q' \<in> set (active_configs ids d). qc_buyer_id q' = b \<longrightarrow> qc_created_at q' \<le> qc_created_at q)"
    if "?m b = Some (Some q)" for b q
    using that first_row_sorted [of "\<lambda>q. qc_buyer_id q = b" ?k "active_configs ids d" q]
    by (auto simp: group_configs_lookup split: if_splits)
  have dom: "?m b = None \<longleftrightarrow> b \<notin> set ids" for b by (simp add: group_configs_lookup)
  show ?thesis
    by (rule exI [of _ ?m], rule conjI [OF run], rule allI, intro conjI)
      (rule dom, rule none, use some in blast)
qed

theorem qualification_configs_most_recent_witness:
  "\<exists>m. QualificationConfig_find_by_buyer_ids [3] empty_db = (Inr m, empty_db) \<and> m 3 = Some None"
  using qualification_configs_most_recent [of empty_db "[3]"]
  by (force simp: empty_db_def active_configs_def)

end
