(* ===== verification/Revenue.thy ===== *)
theory Revenue
  imports Database
begin

text \<open>
  Model of \<open>crates/core/src/services/revenue_calculator.rs\<close>: the split of a sale price
  between platform, publisher and administrator in binary64 arithmetic, and the idempotent
  creation of the revenue record.
\<close>

record RevenueCalculation =
  rc_gross_sale_price :: f64
  rc_platform_fee :: f64
  rc_publisher_payment :: f64
  rc_admin_fee_amount :: f64

definition PLATFORM_FEE :: f64 where
  "PLATFORM_FEE = round64 (15 / 10000)"

definition publisher_share :: "f64 \<Rightarrow> f64 option \<Rightarrow> f64 option \<Rightarrow> f64" where
  "publisher_share after_platform_fee pct flat =
     (case pct of
        Some percentage \<Rightarrow> f64_mul after_platform_fee (f64_div percentage (Fin 100))
      | None \<Rightarrow>
          (case flat of
             Some f \<Rightarrow> f64_max (f64_sub after_platform_fee f) (Fin 0)
           | None \<Rightarrow> f64_mul after_platform_fee (round64 (8 / 10))))"

definition calculate_revenue ::
  "f64 \<Rightarrow> f64 option \<Rightarrow> f64 option \<Rightarrow> RevenueCalculation result" where
  "calculate_revenue lead_value pct flat =
     (if f64_le lead_value (Fin 0) then Inl ROW_NOT_FOUND
      else
        let platform_fee = PLATFORM_FEE;
            after_platform_fee = f64_sub lead_value platform_fee;
            publisher_payment = publisher_share after_platform_fee pct flat;
            admin_fee_amount = f64_sub after_platform_fee publisher_payment
        in Inr \<lparr> rc_gross_sale_price = lead_value, rc_platform_fee = platform_fee,
                 rc_publisher_payment = publisher_payment, rc_admin_fee_amount = admin_fee_amount \<rparr>)"

definition admin_fee_percentage :: "RevenueCalculation \<Rightarrow> f64 option" where
  "admin_fee_percentage c =
     (if f64_lt (Fin 0) (rc_gross_sale_price c)
      then Some (f64_mul (f64_div (rc_admin_fee_amount c) (rc_gross_sale_price c)) (Fin 100))
      else None)"

definition create_lead_revenue ::
  "uuid \<Rightarrow> uuid \<Rightarrow> uuid option \<Rightarrow> RevenueCalculation \<Rightarrow> uuid \<Rightarrow> uuid \<Rightarrow> uuid \<Rightarrow> (db, uuid) io" where
  "create_lead_revenue revenue_id lead lead_sale calculation publisher buyer campaign =
     io_bind (db_query_optional (\<lambda>d. map lr_id (filter (\<lambda>r. lr_lead_id r = lead) (lead_revenues d))))
       (\<lambda>existing.
         case existing of
           Some existing_id \<Rightarrow> io_return existing_id
         | None \<Rightarrow>
             io_bind (db_stmt (\<lambda>d. (Inr (), d\<lparr>lead_revenues := lead_revenues d @
               [\<lparr> lr_id = revenue_id, lr_lead_id = lead, lr_lead_sale_id = lead_sale,
                  lr_gross_sale_price = rc_gross_sale_price calculation,
                  lr_buyer_payment = rc_gross_sale_price calculation,
                  lr_platform_fee = rc_platform_fee calculation,
                  lr_admin_fee_percentage = admin_fee_percentage calculation,
                  lr_admin_fee_amount = rc_admin_fee_amount calculation,
                  lr_publisher_payment = rc_publisher_payment calculation,
                  lr_publisher_id = publisher, lr_buyer_id = buyer, lr_campaign_id = campaign,
                  lr_admin_id = None, lr_payment_status = ''pending'', lr_created_at = db_now d \<rparr>]\<rparr>)))
               (\<lambda>_. io_return revenue_id))"

section \<open>The split\<close>

lemma PLATFORM_FEE_bounds:
  obtains p where "PLATFORM_FEE = Fin p" and "3 / 2048 \<le> p" and "p \<le> 1 / 512"
proof -
  have "f64_le (round64 (of_int 3 / 2 ^ 11)) PLATFORM_FEE" "f64_le PLATFORM_FEE (round64 (of_int 1 / 2 ^ 9))"
    unfolding PLATFORM_FEE_def by (intro round64_mono; simp)+
  moreover have "round64 (of_int 3 / 2 ^ 11) = Fin (3 / 2048)" "round64 (of_int 1 / 2 ^ 9) = Fin (1 / 512)"
    using round64_dyadic [of 3 11] round64_dyadic [of 1 9] by simp_all
  ultimately have "f64_le (Fin (3 / 2048)) PLATFORM_FEE" "f64_le PLATFORM_FEE (Fin (1 / 512))"
    by simp_all
  then show thesis using that
  proof (cases PLATFORM_FEE)
    case (Fin p)
    then show thesis using that [of p] \<open>f64_le (Fin (3 / 2048)) PLATFORM_FEE\<close>
      \<open>f64_le PLATFORM_FEE (Fin (1 / 512))\<close> unfolding Fin by simp
  qed (auto simp: PLATFORM_FEE_def)
qed

lemma eighty_percent:
  obtains e where "round64 (8 / 10) = Fin e" and "1 / 2 \<le> e" and "e \<le> 1"
proof -
  have "f64_le (round64 (of_int 1 / 2 ^ 1)) (round64 (8 / 10))" "f64_le (round64 (8 / 10)) (round64 1)"
    by (intro round64_mono; simp)+
  moreover have "round64 (of_int 1 / 2 ^ 1) = Fin (1 / 2)" using round64_dyadic [of 1 1] by simp
  ultimately show thesis using that by (cases "round64 (8 / 10)") auto
qed

text \<open>Rounding a value below a float stays below it.\<close>

lemma round64_between:
  assumes "0 \<le> x" and "x \<le> a" and "is_f64 (Fin a)"
  obtains y where "round64 x = Fin y" and "0 \<le> y" and "y \<le> a"
proof -
  have "f64_le (round64 0) (round64 x)" "f64_le (round64 x) (round64 a)"
    using assms by (intro round64_mono; simp)+
  then show thesis using that assms(3) by (cases "round64 x") (auto simp: is_f64_def)
qed

lemma is_f64_FinI: "round64 x = Fin y \<Longrightarrow> is_f64 (Fin y)"
  by (metis is_f64_round64)

definition valid_share :: "f64 option \<Rightarrow> f64 option \<Rightarrow> bool" where
  "valid_share pct flat \<longleftrightarrow>
     (case pct of
        Some p \<Rightarrow> f64_le (Fin 0) p \<and> f64_le p (Fin 100)
      | None \<Rightarrow> (case flat of Some f \<Rightarrow> f64_le (Fin 0) f \<and> f64_lt f PosInf | None \<Rightarrow> True))"

lemma publisher_share_bounds:
  assumes "0 \<le> a" and "is_f64 (Fin a)" and "valid_share pct flat"
  obtains y where "publisher_share (Fin a) pct flat = Fin y" and "0 \<le> y" and "y \<le> a"
proof -
  have scale: "\<exists>y. round64 (a * e) = Fin y \<and> 0 \<le> y \<and> y \<le> a" if "0 \<le> e" "e \<le> 1" for e
    using round64_between [of "a * e" a] that assms(1,2) by (metis mult_left_le mult_nonneg_nonneg)
  show thesis
  proof (cases pct)
    case (Some p)
    with assms(3) obtain q where q: "p = Fin q" "0 \<le> q" "q \<le> 100"
      by (cases p) (auto simp: valid_share_def)
    then obtain e where e: "round64 (q / 100) = Fin e" "0 \<le> e" "e \<le> 1"
      using round64_between [of "q / 100" 1] by (auto simp: is_f64_def)
    with Some q scale [OF e(2,3)] that show thesis by (auto simp: publisher_share_def)
  next
    case None
    show thesis
    proof (cases flat)
      case (Some f)
      with None assms(3) obtain q where q: "f = Fin q" "0 \<le> q"
        by (cases f) (auto simp: valid_share_def)
      have "f64_le (round64 (a - q)) (round64 a)" using q by (intro round64_mono) simp
      then have le: "f64_le (round64 (a - q)) (Fin a)" using assms(2) by (simp add: is_f64_def)
      then consider "round64 (a - q) = NegInf" | z where "round64 (a - q) = Fin z" "z \<le> a"
        by (cases "round64 (a - q)") auto
      then show thesis
      proof cases
        case 1
        then show thesis using that [of 0] None Some q assms(1)
          by (simp add: publisher_share_def f64_sub_def f64_max_def)
      next
        case (2 z)
        then show thesis using that [of "max z 0"] None Some q assms(1)
          by (simp add: publisher_share_def f64_sub_def f64_max_def max_def)
      qed
    next
      case none: None
      obtain e where e: "round64 (8 / 10) = Fin e" "1 / 2 \<le> e" "e \<le> 1" by (rule eighty_percent)
      then show thesis using scale [of e] that None none by (auto simp: publisher_share_def)
    qed
  qed
qed



text \<open>a sale for a tenth of a cent or less leaves the publisher with a negative payment, under
  the default share.\<close>

theorem tiny_sale_negative_payment:
  assumes "0 < v" and "v \<le> 1 / 1024"
  shows "\<exists>c y. calculate_revenue (Fin v) None None = Inr c
    \<and> rc_publisher_payment c = Fin y \<and> y < 0"
proof -
  obtain p where p: "PLATFORM_FEE = Fin p" "3 / 2048 \<le> p" "p \<le> 1 / 512" by (rule PLATFORM_FEE_bounds)
  obtain e where e: "round64 (8 / 10) = Fin e" "1 / 2 \<le> e" "e \<le> 1" by (rule eighty_percent)
  have d: "round64 (of_int (- 1) / 2 ^ k) = Fin (- 1 / 2 ^ k)" if "k \<le> 1074" for k
    using round64_dyadic [of "- 1" k] that by simp
  have "f64_le (round64 (v - p)) (round64 (of_int (- 1) / 2 ^ 11))"
    "f64_le (round64 (of_int (- 1) / 2 ^ 8)) (round64 (v - p))"
    using assms p by (intro round64_mono; simp)+
  then obtain a where a: "round64 (v - p) = Fin a" "a \<le> - 1 / 2048" "- 1 / 256 \<le> a"
    using d [of 11] d [of 8] by (cases "round64 (v - p)") auto
  have "a * e \<le> a * (1 / 2)" using a(2) e(2) by (intro mult_left_mono_neg) auto
  moreover have "a * 1 \<le> a * e" using a(2) e(3) by (intro mult_left_mono_neg) auto
  ultimately have "a * e \<le> - 1 / 4096" "- 1 / 256 \<le> a * e" using a(2,3) by linarith+
  then have "f64_le (round64 (a * e)) (round64 (of_int (- 1) / 2 ^ 12))"
    "f64_le (round64 (of_int (- 1) / 2 ^ 8)) (round64 (a * e))"
    by (intro round64_mono; simp)+
  then obtain y where "round64 (a * e) = Fin y" "y < 0"
    using d [of 12] d [of 8] by (cases "round64 (a * e)") auto
  with a e assms show ?thesis
    by (auto simp: calculate_revenue_def Let_def f64_sub_def publisher_share_def p(1))
qed

theorem tiny_sale_negative_payment_witness:
  "\<exists>c y. calculate_revenue (Fin (1 / 2048)) None None = Inr c \<and> rc_publisher_payment c = Fin y \<and> y < 0"
  by (rule tiny_sale_negative_payment) simp_all

section \<open>The record\<close>

definition revenue_inv :: "db \<Rightarrow> bool" where
  "revenue_inv d \<longleftrightarrow> distinct (map lr_lead_id (lead_revenues d))"

lemma revenue_inv_faults [simp]: "revenue_inv (d\<lparr>db_faults := fs\<rparr>) = revenue_inv d"
  by (simp add: revenue_inv_def)

lemma revenue_inv_append:
  assumes "revenue_inv d" and "filter (\<lambda>r. lr_lead_id r = lead) (lead_revenues d) = []"
    and "lr_lead_id r = lead" and "lead_revenues d' = lead_revenues d @ [r]"
  shows "revenue_inv d'"
  using assms by (auto simp: revenue_inv_def filter_empty_conv)

lemma first_row_None: "first_row rows = None \<longleftrightarrow> rows = []"
  by (cases rows) (auto simp: first_row_def)

text \<open>What a run can do: fail, find an existing record, or append one.\<close>

lemma create_lead_revenue_cases:
  assumes "create_lead_revenue i lead sale c p b cm d = (r, d')"
  shows "(lead_revenues d' = lead_revenues d \<and>
            (\<forall>j. r = Inr j \<longrightarrow> first_row (map lr_id (filter (\<lambda>r. lr_lead_id r = lead) (lead_revenues d))) = Some j))
    \<or> (filter (\<lambda>r. lr_lead_id r = lead) (lead_revenues d) = [] \<and> r = Inr i \<and>
        (\<exists>row. lr_lead_id row = lead \<and> lr_id row = i \<and> lead_revenues d' = lead_revenues d @ [row]))"
proof (cases rule: db_stmt_cases
    [of "io_get (\<lambda>d. first_row (map lr_id (filter (\<lambda>r. lr_lead_id r = lead) (lead_revenues d))))" d])
  case (fault e fs)
  then show ?thesis using assms
    by (auto simp: create_lead_revenue_def db_query_optional_def db_query_def io_bind_def)
next
  case (run fs)
  let ?f = "map lr_id (filter (\<lambda>r. lr_lead_id r = lead) (lead_revenues d))"
  let ?ins = "\<lambda>d. (Inr () :: unit result, d\<lparr>lead_revenues := lead_revenues d @
               [\<lparr> lr_id = i, lr_lead_id = lead, lr_lead_sale_id = sale,
                  lr_gross_sale_price = rc_gross_sale_price c, lr_buyer_payment = rc_gross_sale_price c,
                  lr_platform_fee = rc_platform_fee c, lr_admin_fee_percentage = admin_fee_percentage c,
                  lr_admin_fee_amount = rc_admin_fee_amount c,
                  lr_publisher_payment = rc_publisher_payment c,
                  lr_publisher_id = p, lr_buyer_id = b, lr_campaign_id = cm,
                  lr_admin_id = None, lr_payment_status = ''pending'', lr_created_at = db_now d \<rparr>]\<rparr>)"
  show ?thesis
  proof (cases "first_row ?f")
    case None
    have r: "io_bind (db_stmt ?ins) (\<lambda>_. io_return i) (d\<lparr>db_faults := fs\<rparr>) = (r, d')"
      using assms run None
      by (simp add: create_lead_revenue_def db_query_optional_def db_query_def io_bind_def io_get_def)
    have "filter (\<lambda>r. lr_lead_id r = lead) (lead_revenues d) = []"
      using None by (simp add: first_row_None)
    then show ?thesis
      using r by (cases rule: db_stmt_cases [of ?ins "d\<lparr>db_faults := fs\<rparr>"])
        (auto simp: io_bind_def io_return_def)
  next
    case (Some j)
    then show ?thesis using assms run
      by (auto simp: create_lead_revenue_def db_query_optional_def db_query_def io_bind_def io_get_def
          io_return_def)
  qed
qed

lemma create_lead_revenue_existing:
  assumes "db_faults d = []"
    and "first_row (map lr_id (filter (\<lambda>r. lr_lead_id r = lead) (lead_revenues d))) = Some j"
  shows "create_lead_revenue i lead sale c p b cm d = (Inr j, d)"
  using assms
  by (simp add: create_lead_revenue_def db_query_optional_def db_query_def db_stmt_ok io_simps)

text \<open>a lead gets at most one revenue record: the operation keeps that invariant whatever
  statement fails, and once it has succeeded for a lead, repeating it (with any other arguments)
  returns the id of the first record and changes nothing.\<close>

theorem lead_revenue_idempotent:
  assumes "revenue_inv d"
  shows "revenue_inv (snd (create_lead_revenue i lead sale c p b cm d)) \<and>
    (\<forall>j d'. create_lead_revenue i lead sale c p b cm d = (Inr j, d') \<and> db_faults d' = [] \<longrightarrow>
       create_lead_revenue i' lead sale' c' p' b' cm' d' = (Inr j, d'))"
proof (intro conjI allI impI)
  obtain r d1 where run: "create_lead_revenue i lead sale c p b cm d = (r, d1)" by force
  from create_lead_revenue_cases [OF run] show "revenue_inv (snd (create_lead_revenue i lead sale c p b cm d))"
  proof
    assume "lead_revenues d1 = lead_revenues d \<and>
      (\<forall>j. r = Inr j \<longrightarrow> first_row (map lr_id (filter (\<lambda>r. lr_lead_id r = lead) (lead_revenues d))) = Some j)"
    then show ?thesis using assms run by (simp add: revenue_inv_def)
  next
    assume "filter (\<lambda>r. lr_lead_id r = lead) (lead_revenues d) = [] \<and> r = Inr i \<and>
      (\<exists>row. lr_lead_id row = lead \<and> lr_id row = i \<and> lead_revenues d1 = lead_revenues d @ [row])"
    then show ?thesis using assms run by (auto intro: revenue_inv_append)
  qed
  fix j d'
  assume a: "create_lead_revenue i lead sale c p b cm d = (Inr j, d') \<and> db_faults d' = []"
  then have "first_row (map lr_id (filter (\<lambda>r. lr_lead_id r = lead) (lead_revenues d'))) = Some j"
    using create_lead_revenue_cases [of i lead sale c p b cm d "Inr j" d'] by (auto simp: first_row_def)
  then show "create_lead_revenue i' lead sale' c' p' b' cm' d' = (Inr j, d')"
    using a by (intro create_lead_revenue_existing) auto
qed

theorem lead_revenue_idempotent_witness:
  "revenue_inv (snd (create_lead_revenue 1 2 None
     \<lparr> rc_gross_sale_price = Fin 100, rc_platform_fee = Fin 0, rc_publisher_payment = Fin 80,
       rc_admin_fee_amount = Fin 20 \<rparr> 3 4 5 empty_db))"
proof -
  have "revenue_inv empty_db" by (simp add: revenue_inv_def empty_db_def)
  then show ?thesis by (rule conjunct1 [OF lead_revenue_idempotent])
qed

end
