(* ===== verification/Crypto.thy ===== *)
theory Crypto
  imports Json
begin

text \<open>
  Models of \<open>crates/core/src/encryption.rs\<close>, \<open>hmac.rs\<close> and
  \<open>password_policy.rs\<close>. The third-party primitives (AES-256-GCM, HMAC-SHA256, PBKDF2,
  base64, hex, the JSON printer and parser, the UTF-8 check) are the fields of the record
  \<open>extlib\<close>, with the text forms of ids and dates, an argument of the definitions; what the code relies on is the predicate
  \<open>crypto_ok\<close>, whose clauses are documented behaviour of those libraries. A nonce drawn from
  the operating system is an argument. Passwords are byte strings and the letter tests are those
  of ASCII.
\<close>

section \<open>Primitives\<close>

record extlib =
  aes_encrypt :: "string \<Rightarrow> string \<Rightarrow> string \<Rightarrow> string option"
  aes_decrypt :: "string \<Rightarrow> string \<Rightarrow> string \<Rightarrow> string option"
  b64_encode :: "string \<Rightarrow> string"
  b64_decode :: "string \<Rightarrow> string option"
  hmac_sha256 :: "string \<Rightarrow> string \<Rightarrow> string"
  pbkdf2_hmac_sha1 :: "string \<Rightarrow> string \<Rightarrow> nat \<Rightarrow> string"
  json_print :: "json \<Rightarrow> string"
  json_parse :: "string \<Rightarrow> json option"
  utf8_valid :: "string \<Rightarrow> bool"
  hex_encode :: "string \<Rightarrow> string"
  hex_decode :: "string \<Rightarrow> string option"
  uuid_text :: "uuid \<Rightarrow> string"
  utc_text :: "timestamp \<Rightarrow> string"
  utc_rfc3339 :: "timestamp \<Rightarrow> string"
  date_text :: "nat \<Rightarrow> string"

definition ok_or :: "'a option \<Rightarrow> error \<Rightarrow> 'a result" where
  "ok_or m e = (case m of None \<Rightarrow> Inl e | Some x \<Rightarrow> Inr x)"

definition result_bind :: "'a result \<Rightarrow> ('a \<Rightarrow> 'b result) \<Rightarrow> 'b result" where
  "result_bind r f = (case r of Inl e \<Rightarrow> Inl e | Inr x \<Rightarrow> f x)"

lemma result_simps [simp]:
  "result_bind (Inl e) f = Inl e" "result_bind (Inr x) f = f x"
  "ok_or (Some x) e = Inr x" "ok_or None e = Inl e"
  by (simp_all add: result_bind_def ok_or_def)

section \<open>Encryption\<close>

definition EncryptionService_new :: "string \<Rightarrow> string result" where
  "EncryptionService_new key =
     (if length key \<noteq> 32 then Inl ''Encryption key must be 32 bytes'' else Inr key)"

definition encrypt :: "extlib \<Rightarrow> string \<Rightarrow> string \<Rightarrow> string \<Rightarrow> string result" where
  "encrypt C key nonce plaintext =
     result_bind (ok_or (aes_encrypt C key nonce plaintext) ''Encryption failed: Error'')
       (\<lambda>ciphertext. Inr (b64_encode C (nonce @ ciphertext)))"

definition decrypt :: "extlib \<Rightarrow> string \<Rightarrow> string \<Rightarrow> string result" where
  "decrypt C key ciphertext =
     result_bind (ok_or (b64_decode C ciphertext) ''Invalid base64'') (\<lambda>combined.
       if length combined < 12 then Inl ''Invalid ciphertext length''
       else result_bind (ok_or (aes_decrypt C key (take 12 combined) (drop 12 combined))
                           ''Decryption failed: Error'') (\<lambda>plaintext.
         if utf8_valid C plaintext then Inr plaintext else Inl ''invalid utf-8 sequence''))"

definition derive_key_from_secret :: "extlib \<Rightarrow> string \<Rightarrow> string \<Rightarrow> string" where
  "derive_key_from_secret C secret salt = pbkdf2_hmac_sha1 C secret salt 65536"

text \<open>The keys of the envelope object are written in the order in which they are printed.\<close>

definition envelope_json :: "string \<Rightarrow> string \<Rightarrow> string \<Rightarrow> json" where
  "envelope_json p iv tag = JObj
     [(''h'', JObj [(''at'', JStr tag), (''c'', JBool False), (''iv'', JStr iv)]), (''p'', JStr p)]"

definition encrypt_envelope :: "extlib \<Rightarrow> string \<Rightarrow> string \<Rightarrow> string \<Rightarrow> bool \<Rightarrow> string result" where
  "encrypt_envelope C random_iv key plaintext deterministic =
     (if length key \<noteq> 32 then Inl ''Encryption key must be 32 bytes''
      else
        let iv = (if deterministic then take 12 (hmac_sha256 C key plaintext) else random_iv) in
        result_bind (ok_or (aes_encrypt C key iv plaintext) ''encrypt failed: Error'')
          (\<lambda>ciphertext_with_tag.
            if length ciphertext_with_tag < 16 then Inl ''ciphertext too short''
            else
              let tag_pos = length ciphertext_with_tag - 16 in
              Inr (json_print C (envelope_json (b64_encode C (take tag_pos ciphertext_with_tag))
                (b64_encode C iv) (b64_encode C (drop tag_pos ciphertext_with_tag))))))"

definition decrypt_envelope :: "extlib \<Rightarrow> string \<Rightarrow> string \<Rightarrow> string result" where
  "decrypt_envelope C key envelope =
     result_bind (ok_or (json_parse C envelope) ''invalid JSON'') (\<lambda>v.
     result_bind (ok_or (get_str v ''p'') ''missing payload'') (\<lambda>payload_b64.
     result_bind (ok_or (json_get v ''h'') ''missing headers'') (\<lambda>headers.
     result_bind (ok_or (get_str headers ''iv'') ''missing iv'') (\<lambda>iv_b64.
     result_bind (ok_or (get_str headers ''at'') ''missing at'') (\<lambda>at_b64.
     result_bind (ok_or (b64_decode C payload_b64) ''Invalid base64'') (\<lambda>payload.
     result_bind (ok_or (b64_decode C iv_b64) ''Invalid base64'') (\<lambda>iv.
     result_bind (ok_or (b64_decode C at_b64) ''Invalid base64'') (\<lambda>tag.
     if length iv \<noteq> 12 \<or> length tag \<noteq> 16 then Inl ''invalid iv/tag lengths''
     else result_bind (ok_or (aes_decrypt C key iv (payload @ tag)) ''decrypt failed: Error'')
       (\<lambda>plaintext. if utf8_valid C plaintext then Inr plaintext
                    else Inl ''invalid utf-8 sequence'')))))))))"

section \<open>Signatures\<close>

definition generate_hmac :: "extlib \<Rightarrow> string \<Rightarrow> string \<Rightarrow> string result" where
  "generate_hmac C secret message = Inr (hex_encode C (hmac_sha256 C secret message))"

definition verify_hmac :: "extlib \<Rightarrow> string \<Rightarrow> string \<Rightarrow> string \<Rightarrow> bool result" where
  "verify_hmac C secret message signature =
     result_bind (ok_or (hex_decode C signature) ''Invalid hex'') (\<lambda>signature_bytes.
       if signature_bytes = hmac_sha256 C secret message then Inr True else Inl ''MAC tag mismatch'')"

section \<open>Passwords\<close>

definition validate_password :: "string \<Rightarrow> unit result" where
  "validate_password password =
     (if length password < 8 then Inl ''Password must be at least 8 characters''
      else if 128 < length password then Inl ''Password must be at most 128 characters''
      else if \<not> list_ex is_upper password
        then Inl ''Password must contain at least one uppercase letter''
      else if \<not> list_ex is_lower password
        then Inl ''Password must contain at least one lowercase letter''
      else if \<not> list_ex is_digit password then Inl ''Password must contain at least one number''
      else Inr ())"

section \<open>Laws of the primitives\<close>

definition crypto_ok :: "extlib \<Rightarrow> bool" where
  "crypto_ok C \<longleftrightarrow>
     (\<forall>k n p c. aes_encrypt C k n p = Some c \<longrightarrow> aes_decrypt C k n c = Some p \<and> length c = length p + 16) \<and>
     (\<forall>k n p. length k = 32 \<and> length n = 12 \<and> length p < 2 ^ 32 \<longrightarrow> aes_encrypt C k n p \<noteq> None) \<and>
     (\<forall>x. b64_decode C (b64_encode C x) = Some x) \<and>
     (\<forall>x. hex_decode C (hex_encode C x) = Some x) \<and>
     (\<forall>k m. length (hmac_sha256 C k m) = 32) \<and>
     (\<forall>p iv tg. json_parse C (json_print C (envelope_json p iv tg)) = Some (envelope_json p iv tg))"

text \<open>An instance with trivial primitives, which shows that the laws can hold together.\<close>

definition enc_str :: "string \<Rightarrow> string" where
  "enc_str s = replicate (length s) CHR ''1'' @ CHR ''0'' # s"

definition dec_str :: "string \<Rightarrow> string \<times> string" where
  "dec_str t = (let n = length (takeWhile (\<lambda>c. c = CHR ''1'') t); r = drop (Suc n) t in (take n r, drop n r))"

lemma dec_enc_str [simp]: "dec_str (enc_str s @ r) = (s, r)"
proof -
  have "takeWhile (\<lambda>c. c = CHR ''1'') (replicate n CHR ''1'' @ CHR ''0'' # t) = replicate n CHR ''1''" for n t
    by (induction n) auto
  then show ?thesis by (simp add: dec_str_def enc_str_def Let_def)
qed

definition print_env :: "json \<Rightarrow> string" where
  "print_env v = (let h = unwrap_or (json_get v ''h'') JNull; f = (\<lambda>m. enc_str (unwrap_or m [])) in
     f (get_str v ''p'') @ f (get_str h ''iv'') @ f (get_str h ''at''))"

definition parse_env :: "string \<Rightarrow> json option" where
  "parse_env s = (let (p, r1) = dec_str s; (iv, r2) = dec_str r1; (tg, _) = dec_str r2
                  in Some (envelope_json p iv tg))"

definition plain_crypto :: extlib where
  "plain_crypto = \<lparr> aes_encrypt = (\<lambda>k n p. Some (p @ replicate 16 CHR ''t'')),
     aes_decrypt = (\<lambda>k n c. Some (take (length c - 16) c)),
     b64_encode = (\<lambda>x. x), b64_decode = Some, hmac_sha256 = (\<lambda>k m. take 32 (m @ replicate 32 CHR ''h'')),
     pbkdf2_hmac_sha1 = (\<lambda>s t n. replicate 32 CHR ''k''), json_print = print_env,
     json_parse = parse_env, utf8_valid = (\<lambda>_. True), hex_encode = (\<lambda>x. x), hex_decode = Some,
     uuid_text = (\<lambda>u. show_nat (unat u)), utc_text = show_nat, utc_rfc3339 = show_nat,
     date_text = show_nat \<rparr>"

lemma plain_crypto_ok: "crypto_ok plain_crypto"
proof -
  have "parse_env (print_env (envelope_json p iv tg)) = Some (envelope_json p iv tg)" for p iv tg
    by (simp add: parse_env_def print_env_def envelope_json_def get_str_def obj_get_def
        dec_enc_str [of _ "[]", simplified])
  moreover have "min n 32 + (32 - n) = 32" for n :: nat by arith
  ultimately show ?thesis by (simp add: crypto_ok_def plain_crypto_def)
qed

section \<open>Properties\<close>

text \<open>decrypting an envelope with the key it was made with gives the text back, for every
  plaintext up to four gigabytes, deterministic or not; the deterministic envelope of a text is
  always the same, whatever nonce the system offers.\<close>

theorem envelope_roundtrip:
  assumes "crypto_ok C" and "length key = 32" and "length plaintext < 2 ^ 32" and "length nonce = 12"
    and "utf8_valid C plaintext"
  shows "\<exists>env. encrypt_envelope C nonce key plaintext det = Inr env
      \<and> decrypt_envelope C key env = Inr plaintext
      \<and> (det \<longrightarrow> encrypt_envelope C nonce' key plaintext det = Inr env)"
proof -
  let ?iv = "if det then take 12 (hmac_sha256 C key plaintext) else nonce"
  have iv: "length ?iv = 12" using assms(1,4) by (auto simp: crypto_ok_def)
  then obtain c where c: "aes_encrypt C key ?iv plaintext = Some c"
    using assms(1-3) unfolding crypto_ok_def by blast
  then have d: "aes_decrypt C key ?iv c = Some plaintext" and l: "length c = length plaintext + 16"
    using assms(1) unfolding crypto_ok_def by blast+
  let ?t = "length c - 16"
  let ?env = "json_print C (envelope_json (b64_encode C (take ?t c)) (b64_encode C ?iv)
      (b64_encode C (drop ?t c)))"
  have e: "encrypt_envelope C nonce key plaintext det = Inr ?env"
    using assms(2) c l unfolding encrypt_envelope_def Let_def by simp
  have laws: "\<And>p iv tg. json_parse C (json_print C (envelope_json p iv tg)) = Some (envelope_json p iv tg)"
    "\<And>x. b64_decode C (b64_encode C x) = Some x"
    using assms(1) by (simp_all add: crypto_ok_def)
  have "decrypt_envelope C key ?env = Inr plaintext"
    unfolding decrypt_envelope_def laws
    using iv d l assms(5) by (simp add: envelope_json_def get_str_def obj_get_def laws)
  then show ?thesis using e by (auto simp: encrypt_envelope_def)
qed

theorem envelope_roundtrip_witness:
  "\<exists>env. encrypt_envelope plain_crypto (replicate 12 CHR ''n'') (replicate 32 CHR ''k'') ''Jane'' True = Inr env
     \<and> decrypt_envelope plain_crypto (replicate 32 CHR ''k'') env = Inr ''Jane''"
  using envelope_roundtrip [OF plain_crypto_ok, of "replicate 32 CHR ''k''" "''Jane''"
      "replicate 12 CHR ''n''" True]
  by (auto simp: plain_crypto_def)

text \<open>A signature made by \<open>generate_hmac\<close> verifies, and a signature that verifies is a hex
  text of the code of the message: the check accepts nothing else and never answers false.\<close>

theorem hmac_sound_complete:
  assumes "crypto_ok C"
  shows "(\<forall>sig. generate_hmac C secret message = Inr sig \<longrightarrow> verify_hmac C secret message sig = Inr True)
    \<and> (\<forall>sig r. verify_hmac C secret message sig = Inr r \<longrightarrow>
         r \<and> hex_decode C sig = Some (hmac_sha256 C secret message))"
  using assms
  by (auto simp: generate_hmac_def verify_hmac_def crypto_ok_def ok_or_def result_bind_def
      split: option.splits if_splits)

theorem hmac_sound_complete_witness:
  "verify_hmac plain_crypto ''s'' ''m'' (hmac_sha256 plain_crypto ''s'' ''m'') = Inr True"
  using hmac_sound_complete [OF plain_crypto_ok, of "''s''" "''m''"]
  by (simp add: generate_hmac_def plain_crypto_def)

text \<open>A password is accepted exactly when it has 8 to 128 bytes and contains an upper-case
  letter, a lower-case letter and a digit.\<close>

theorem password_policy:
  "validate_password pw = Inr () \<longleftrightarrow>
     8 \<le> length pw \<and> length pw \<le> 128 \<and>
     (\<exists>c \<in> set pw. is_upper c) \<and> (\<exists>c \<in> set pw. is_lower c) \<and> (\<exists>c \<in> set pw. is_digit c)"
  by (auto simp: validate_password_def list_ex_iff)

end
