(* ===== verification/WriteBehind.thy ===== *)
theory WriteBehind
  imports Database Crypto
begin

text \<open>
  Model of \<open>crates/core/src/services/write_behind_queue.rs\<close>: the background tasks, the
  batcher with its channel, and the flush of a batch into the database. The four writers that
  \<open>tokio::join!\<close> runs after lead creation are executed one after the other in the order of
  the call; they write disjoint tables, and buyer responses read only columns the others never
  change. Sleeping has no effect on the model; a failed COMMIT leaves the tables as they were
  before the transaction. Library functions are fields of \<open>extlib\<close>.
\<close>

section \<open>Tasks\<close>

record PulsarLogTuple =
  plt_lead_id :: uuid
  plt_ping_id :: "string option"
  plt_buyer_id :: uuid
  plt_accepted :: bool
  plt_final_bid_price :: decimal

record BuyerResponseTuple =
  brt_lead_id :: uuid
  brt_campaign_id :: uuid
  brt_ping_id :: "string option"
  brt_post_id :: "string option"
  brt_buyer_id :: "uuid option"
  brt_payload :: json
  brt_lead_id_str :: "string option"

record LeadUpdateTuple =
  lu_lead_id :: uuid
  lu_status :: LeadStatus
  lu_campaign_id :: "uuid option"
  lu_buyer_id :: "uuid option"
  lu_promise_id :: "string option"
  lu_ping_id :: "string option"
  lu_post_id :: "string option"
  lu_sold_at :: bool
  lu_inprog_token :: "string option"
  lu_vertical_data :: "json option"

record PayloadUpdateTuple =
  pu_lead_id :: uuid
  pu_payload_type :: string
  pu_payload :: json
  pu_post_id :: "string option"
  pu_request_payload_encrypted :: "string option"
  pu_response_payload_encrypted :: "string option"
  pu_ping_payloads_row_id :: "uuid option"
  pu_external_ping_id :: "string option"

record LeadCreationTuple =
  lc_uuid :: uuid
  lc_event_id :: string
  lc_lead_id :: "string option"
  lc_publisher_id :: uuid
  lc_vertical_id :: uuid
  lc_request_type :: string
  lc_strategy :: string
  lc_promise_id :: "string option"
  lc_buyer_id :: uuid
  lc_campaign_id :: uuid
  lc_tcpa_consent :: bool
  lc_tcpa_language :: string
  lc_is_test :: bool
  lc_session_id :: string
  lc_vertical_data :: json
  lc_first_name :: "string option"
  lc_last_name :: "string option"
  lc_email :: "string option"
  lc_cell_phone :: "string option"
  lc_street_address :: "string option"
  lc_city :: "string option"
  lc_state :: "string option"
  lc_zip :: "string option"
  lc_ip_address :: "string option"
  lc_request_payload :: json
  lc_pii_encryption_key :: "string option"

datatype BackgroundTask =
    PulsarLog PulsarLogTuple
  | LeadUpdate LeadUpdateTuple
  | BuyerResponseTask BuyerResponseTuple
  | PayloadUpdate PayloadUpdateTuple
  | LeadCreation LeadCreationTuple

section \<open>Pulsar logs\<close>

definition batch_insert_pulsar_logs :: "PulsarLogTuple list \<Rightarrow> (db, unit) io" where
  "batch_insert_pulsar_logs logs =
     (if logs = [] then io_return ()
      else db_stmt (\<lambda>d. (Inr (), d\<lparr>pulsar_decision_logs := pulsar_decision_logs d @
        map (\<lambda>l. \<lparr> pl_lead_id = plt_lead_id l, pl_ping_id = plt_ping_id l,
                    pl_buyer_id = plt_buyer_id l, pl_accepted = plt_accepted l,
                    pl_final_bid_price = plt_final_bid_price l, pl_evaluated_at = db_now d \<rparr>) logs\<rparr>)))"

section \<open>Buyer responses\<close>

fun ok_some :: "'a option result \<Rightarrow> 'a option" where
  "ok_some (Inr (Some x)) = Some x"
| "ok_some _ = None"

definition resolve_lead_uuid_for_buyer_response ::
  "uuid \<Rightarrow> string option \<Rightarrow> string option \<Rightarrow> (db, uuid option) io" where
  "resolve_lead_uuid_for_buyer_response request_uuid ping_id lead_id_str =
     io_bind (io_try (db_query_optional (\<lambda>d.
       map l_uuid (filter (\<lambda>l. l_uuid l = request_uuid) (leads d))))) (\<lambda>r1.
     case ok_some r1 of
       Some u \<Rightarrow> io_return (Some u)
     | None \<Rightarrow>
         io_bind (case ping_id of
             Some pid \<Rightarrow> io_try (db_query_optional (\<lambda>d.
               map pg_lead_id (filter (\<lambda>p. pg_ping_id p = pid) (pings d))))
           | None \<Rightarrow> io_return (Inr None)) (\<lambda>r2.
         case ok_some r2 of
           Some u \<Rightarrow> io_return (Some u)
         | None \<Rightarrow>
             io_bind (case lead_id_str of
                 Some lid \<Rightarrow> if lid = [] then io_return (Inr None)
                   else io_try (db_query_optional (\<lambda>d.
                     map l_uuid (filter (\<lambda>l. l_lead_id l = Some lid) (leads d))))
               | None \<Rightarrow> io_return (Inr None)) (\<lambda>r3. io_return (ok_some r3))))"

definition BUYER_RESPONSES_FKEY :: error where
  "BUYER_RESPONSES_FKEY = ''insert or update on table buyer_responses violates foreign key constraint buyer_responses_lead_id_fkey''"

definition insert_buyer_response :: "uuid \<Rightarrow> BuyerResponseTuple \<Rightarrow> (db, unit) io" where
  "insert_buyer_response lead r = db_stmt (\<lambda>d.
     if lead \<notin> l_uuid ` set (leads d) then (Inl BUYER_RESPONSES_FKEY, d)
     else (Inr (), d\<lparr>buyer_responses := buyer_responses d @
       [\<lparr> br_id = db_next_id d, br_lead_id = lead, br_ping_id = brt_ping_id r, br_post_id = brt_post_id r,
          br_buyer_id = brt_buyer_id r, br_campaign_id = brt_campaign_id r,
          br_payload = brt_payload r, br_created_at = db_now d \<rparr>], db_next_id := db_next_id d + 1\<rparr>))"

definition actual_lead_id :: "(uuid \<rightharpoonup> uuid) \<Rightarrow> BuyerResponseTuple \<Rightarrow> (db, uuid option) io" where
  "actual_lead_id uuid_map r =
     (case uuid_map (brt_lead_id r) of
        Some u \<Rightarrow> io_return (Some u)
      | None \<Rightarrow> resolve_lead_uuid_for_buyer_response (brt_lead_id r) (brt_ping_id r) (brt_lead_id_str r))"

text \<open>The first pass; its result is the list of the responses to retry.\<close>

fun insert_pass :: "(uuid \<rightharpoonup> uuid) \<Rightarrow> BuyerResponseTuple list \<Rightarrow> (db, BuyerResponseTuple list) io" where
  "insert_pass uuid_map [] = io_return []"
| "insert_pass uuid_map (r # rs) =
     io_bind (actual_lead_id uuid_map r) (\<lambda>m.
     io_bind (case m of
         None \<Rightarrow> io_return [r]
       | Some u \<Rightarrow> io_bind (io_try (insert_buyer_response u r)) (\<lambda>res.
           case res of
             Inr _ \<Rightarrow> io_return []
           | Inl e \<Rightarrow> io_return (if contains e ''buyer_responses_lead_id_fkey'' then [r] else [])))
       (\<lambda>retry. io_bind (insert_pass uuid_map rs) (\<lambda>retries. io_return (retry @ retries))))"

primrec insert_with_retries :: "nat \<Rightarrow> uuid \<Rightarrow> BuyerResponseTuple \<Rightarrow> (db, unit) io" where
  "insert_with_retries 0 u r = io_return ()"
| "insert_with_retries (Suc n) u r =
     io_bind (io_try (insert_buyer_response u r)) (\<lambda>res.
       case res of Inr _ \<Rightarrow> io_return () | Inl _ \<Rightarrow> insert_with_retries n u r)"

definition retry_pass :: "(uuid \<rightharpoonup> uuid) \<Rightarrow> BuyerResponseTuple list \<Rightarrow> (db, unit) io" where
  "retry_pass uuid_map = io_iter (\<lambda>r.
     io_bind (actual_lead_id uuid_map r) (\<lambda>m.
       case m of None \<Rightarrow> io_return () | Some u \<Rightarrow> insert_with_retries 3 u r))"

definition batch_insert_buyer_responses ::
  "(uuid \<rightharpoonup> uuid) \<Rightarrow> BuyerResponseTuple list \<Rightarrow> (db, unit) io" where
  "batch_insert_buyer_responses uuid_map responses =
     (if responses = [] then io_return ()
      else io_bind (insert_pass uuid_map responses) (retry_pass uuid_map))"

section \<open>Lead updates\<close>

text \<open>The operator \<open>||\<close> of PostgreSQL on \<open>jsonb\<close> values.\<close>

fun jsonb_array :: "json \<Rightarrow> json list" where
  "jsonb_array (JArr xs) = xs"
| "jsonb_array v = [v]"

fun jsonb_concat :: "json \<Rightarrow> json \<Rightarrow> json" where
  "jsonb_concat (JObj a) (JObj b) = JObj (obj_merge a b)"
| "jsonb_concat a b = JArr (jsonb_array a @ jsonb_array b)"

text \<open>The common assignments of the UPDATE statements: status, the COALESCEd columns, and the
  post id, which is bound to the empty string when the task carries none.\<close>

definition set_lead_columns :: "LeadUpdateTuple \<Rightarrow> timestamp \<Rightarrow> Lead \<Rightarrow> Lead" where
  "set_lead_columns u now l = l\<lparr>
     l_status := lu_status u,
     l_campaign_id := opt_or (lu_campaign_id u) (l_campaign_id l),
     l_buyer_id := opt_or (lu_buyer_id u) (l_buyer_id l),
     l_promise_id := opt_or (lu_promise_id u) (l_promise_id l),
     l_ping_id := opt_or (lu_ping_id u) (l_ping_id l),
     l_post_id := opt_or (Some (unwrap_or (lu_post_id u) [])) (l_post_id l),
     l_updated_at := now\<rparr>"

definition sold_lead_columns :: "LeadUpdateTuple \<Rightarrow> timestamp \<Rightarrow> Lead \<Rightarrow> Lead" where
  "sold_lead_columns u now l = (set_lead_columns u now l)\<lparr>
     l_sold_at := Some now, l_vertical_data := unwrap_or (lu_vertical_data u) (l_vertical_data l)\<rparr>"

definition should_update_as_sold :: "LeadUpdateTuple \<Rightarrow> bool" where
  "should_update_as_sold u \<longleftrightarrow>
     (lu_sold_at u \<and> lu_status u = LS_Sold)
     \<or> (is_some (lu_campaign_id u) \<and> is_some (lu_buyer_id u) \<and> lu_status u = LS_Sold)"

definition update_as_sold :: "LeadUpdateTuple \<Rightarrow> (db, nat) io" where
  "update_as_sold u =
     (case lu_inprog_token u of
        Some token \<Rightarrow> update_leads (\<lambda>l. l_uuid l = lu_lead_id u \<and> l_post_id l = Some token) (sold_lead_columns u)
      | None \<Rightarrow> update_leads (\<lambda>l. l_uuid l = lu_lead_id u) (sold_lead_columns u))"

definition standard_update :: "LeadUpdateTuple \<Rightarrow> (db, nat) io" where
  "standard_update u =
     (case lu_vertical_data u of
        Some vd \<Rightarrow> update_leads (\<lambda>l. l_uuid l = lu_lead_id u)
          (\<lambda>now l. (set_lead_columns u now l)\<lparr>l_vertical_data := jsonb_concat (l_vertical_data l) vd\<rparr>)
      | None \<Rightarrow> update_leads (\<lambda>l. l_uuid l = lu_lead_id u) (set_lead_columns u))"

definition update_one_lead :: "LeadUpdateTuple \<Rightarrow> (db, unit) io" where
  "update_one_lead u =
     io_bind (if should_update_as_sold u then io_try (update_as_sold u) else io_return (Inr 0)) (\<lambda>_.
     io_bind (case lu_inprog_token u of
         Some token \<Rightarrow> io_try (update_leads (\<lambda>l. l_uuid l = lu_lead_id u \<and> l_post_id l = Some token)
           (\<lambda>_ l. l\<lparr>l_post_id := Some []\<rparr>))
       | None \<Rightarrow> io_try (standard_update u)) (\<lambda>_. io_return ()))"

definition batch_update_leads :: "LeadUpdateTuple list \<Rightarrow> (db, unit) io" where
  "batch_update_leads updates = io_iter update_one_lead updates"


section \<open>Payloads\<close>

definition FKEY_VIOLATION :: error where
  "FKEY_VIOLATION = ''insert or update violates foreign key constraint''"

definition latest_ping_payload :: "uuid \<Rightarrow> db \<Rightarrow> int option" where
  "latest_ping_payload lead d =
     first_row (map pp_id (sort_key (\<lambda>p. - int (pp_created_at p))
       (filter (\<lambda>p. pp_lead_id p = lead) (ping_payloads d))))"

definition update_ping_payload ::
  "uuid \<Rightarrow> (PingPayloadRow \<Rightarrow> PingPayloadRow) \<Rightarrow> (db, nat) io" where
  "update_ping_payload lead f = db_stmt (\<lambda>d.
     let p = (\<lambda>r. pp_lead_id r = lead \<and> Some (pp_id r) = latest_ping_payload lead d) in
     (Inr (count_rows p (ping_payloads d)),
      d\<lparr>ping_payloads := update_rows p (\<lambda>r. (f r)\<lparr>pp_updated_at := db_now d\<rparr>) (ping_payloads d)\<rparr>))"

definition insert_ping_payload ::
  "uuid \<Rightarrow> string option \<Rightarrow> json \<Rightarrow> string \<Rightarrow> string option \<Rightarrow> string option \<Rightarrow> (db, unit) io" where
  "insert_ping_payload lead ping payload request response external = db_stmt (\<lambda>d.
     if lead \<notin> l_uuid ` set (leads d) then (Inl FKEY_VIOLATION, d)
     else if is_some ping \<and> list_ex (\<lambda>r. pp_ping_id r = ping) (ping_payloads d)
       then (Inl UNIQUE_VIOLATION, d)
     else (Inr (), d\<lparr>ping_payloads := ping_payloads d @
       [\<lparr> pp_id = db_next_id d, pp_ping_id = ping, pp_lead_id = lead, pp_payload = payload,
          pp_request_payload_encrypted = request, pp_response_payload_encrypted = response,
          pp_external_ping_id = external, pp_created_at = db_now d, pp_updated_at = db_now d \<rparr>],
       db_next_id := db_next_id d + 1\<rparr>))"

definition insert_post_payload ::
  "uuid \<Rightarrow> string option \<Rightarrow> json \<Rightarrow> string option \<Rightarrow> string option \<Rightarrow> (db, unit) io" where
  "insert_post_payload lead post payload request response = db_stmt (\<lambda>d.
     if lead \<notin> l_uuid ` set (leads d) then (Inl FKEY_VIOLATION, d)
     else if is_some post \<and> list_ex (\<lambda>r. po_post_id r = post) (post_payloads d)
       then (Inl UNIQUE_VIOLATION, d)
     else (Inr (), d\<lparr>post_payloads := post_payloads d @
       [\<lparr> po_id = db_next_id d, po_lead_id = lead, po_post_id = post, po_payload = payload,
          po_request_payload_encrypted = request, po_response_payload_encrypted = response,
          po_created_at = db_now d, po_updated_at = db_now d \<rparr>], db_next_id := db_next_id d + 1\<rparr>))"

definition upsert_ping_payload :: "PayloadUpdateTuple \<Rightarrow> (db, unit) io" where
  "upsert_ping_payload u =
     io_bind (io_try (update_ping_payload (pu_lead_id u) (\<lambda>r.
         (case pu_ping_payloads_row_id u of
            Some _ \<Rightarrow> r
          | None \<Rightarrow> r\<lparr>pp_payload := pu_payload u\<rparr>)
         \<lparr>pp_response_payload_encrypted :=
             opt_or (pu_response_payload_encrypted u) (pp_response_payload_encrypted r),
          pp_external_ping_id := opt_or (pu_external_ping_id u) (pp_external_ping_id r)\<rparr>))) (\<lambda>res.
       case res of
         Inr 0 \<Rightarrow> io_bind (io_try (insert_ping_payload (pu_lead_id u) None (pu_payload u) []
             (pu_response_payload_encrypted u) (pu_external_ping_id u))) (\<lambda>_. io_return ())
       | _ \<Rightarrow> io_return ())"

definition update_one_payload :: "PayloadUpdateTuple \<Rightarrow> (db, unit) io" where
  "update_one_payload u =
     (if pu_payload_type u = ''ping'' then upsert_ping_payload u
      else if pu_payload_type u = ''post'' then
        io_bind (io_try
          (case (pu_request_payload_encrypted u, pu_response_payload_encrypted u) of
             (Some er, Some epr) \<Rightarrow>
               insert_post_payload (pu_lead_id u) (pu_post_id u) (pu_payload u) (Some er) (Some epr)
           | _ \<Rightarrow> insert_post_payload (pu_lead_id u) (pu_post_id u) (pu_payload u) None None))
          (\<lambda>_. io_return ())
      else io_return ())"

definition batch_update_payloads :: "PayloadUpdateTuple list \<Rightarrow> (db, unit) io" where
  "batch_update_payloads updates = io_iter update_one_payload updates"

section \<open>Lead creation\<close>

definition encrypt_pii :: "extlib \<Rightarrow> string option \<Rightarrow> string option \<Rightarrow> string option" where
  "encrypt_pii X key value =
     (case (value, key) of
        (Some val, Some k) \<Rightarrow>
          if val \<noteq> [] then
            (case encrypt_envelope X [] k val True of Inr env \<Rightarrow> Some env | Inl _ \<Rightarrow> None)
          else None
      | _ \<Rightarrow> None)"

definition new_lead_row :: "extlib \<Rightarrow> LeadCreationTuple \<Rightarrow> timestamp \<Rightarrow> Lead" where
  "new_lead_row X t now =
     (let enc = encrypt_pii X (lc_pii_encryption_key t) in
      \<lparr> l_uuid = lc_uuid t, l_event_id = lc_event_id t, l_lead_id = lc_lead_id t,
        l_publisher_id = Some (lc_publisher_id t), l_vertical_id = lc_vertical_id t,
        l_campaign_id = Some (lc_campaign_id t), l_buyer_id = Some (lc_buyer_id t),
        l_request_type = lc_request_type t, l_strategy = lc_strategy t,
        l_status = (if lc_is_test t then LS_Test else LS_Processing),
        l_promise_id = lc_promise_id t, l_ping_id = None, l_post_id = Some [],
        l_session_id = Some (lc_session_id t), l_request_stage = None,
        l_first_name_encrypted = enc (lc_first_name t), l_last_name_encrypted = enc (lc_last_name t),
        l_email_encrypted = enc (lc_email t), l_cell_phone_encrypted = enc (lc_cell_phone t),
        l_street_address_encrypted = enc (lc_street_address t), l_city_encrypted = enc (lc_city t),
        l_state_encrypted = enc (lc_state t), l_zip_encrypted = enc (lc_zip t),
        l_ip_address_encrypted = enc (lc_ip_address t), l_email_sha256 = None, l_phone_sha256 = None,
        l_ip_address_hash = None, l_email_domain = None, l_tcpa_consent = lc_tcpa_consent t,
        l_tcpa_language = lc_tcpa_language t, l_is_test = lc_is_test t, l_user_agent = None,
        l_referrer = None, l_website_url = None, l_click_id = None, l_url_consent = None,
        l_best_call_time = None, l_date_of_birth = None, l_home_phone = None,
        l_jornaya_lead_id = None, l_trusted_form_url = None, l_fbp_cookie = None, l_fbc_cookie = None,
        l_utm_params = None, l_submitted_at = Some now, l_sold_at = None, l_retry_count = 0,
        l_next_retry_at = None, l_vertical_data = lc_vertical_data t, l_created_at = now,
        l_updated_at = now \<rparr>)"

text \<open>INSERT ... ON CONFLICT (lead_id) DO UPDATE SET promise_id ... RETURNING uuid.\<close>

definition upsert_lead :: "extlib \<Rightarrow> LeadCreationTuple \<Rightarrow> (db, uuid) io" where
  "upsert_lead X t = db_stmt (\<lambda>d.
     let same = (\<lambda>l. is_some (lc_lead_id t) \<and> l_lead_id l = lc_lead_id t) in
     case List.find same (leads d) of
       Some l \<Rightarrow> (Inr (l_uuid l), d\<lparr>leads := update_rows same
         (\<lambda>l. l\<lparr>l_promise_id := lc_promise_id t, l_updated_at := db_now d\<rparr>) (leads d)\<rparr>)
     | None \<Rightarrow>
         if lc_uuid t \<in> l_uuid ` set (leads d) then (Inl UNIQUE_VIOLATION, d)
         else (Inr (lc_uuid t), d\<lparr>leads := leads d @ [new_lead_row X t (db_now d)]\<rparr>))"

text \<open>A transaction body \<open>m\<close> between BEGIN and COMMIT: if a statement of the body failed or the
  commit fails, the tables are as before; sequence numbers are not rolled back.\<close>

definition restore_tables :: "db \<Rightarrow> db \<Rightarrow> db" where
  "restore_tables old new = old\<lparr>db_faults := db_faults new, db_next_id := db_next_id new\<rparr>"

definition transaction :: "(db, 'a) io \<Rightarrow> (db, 'a) io" where
  "transaction m d =
     (case db_stmt (io_return ()) d of
        (Inl e, d0) \<Rightarrow> (Inl e, d0)
      | (Inr _, d0) \<Rightarrow>
          (case m d0 of
             (Inl e, d1) \<Rightarrow> (Inl e, restore_tables d0 d1)
           | (Inr x, d1) \<Rightarrow>
               (case db_stmt (io_return ()) d1 of
                  (Inl e, d2) \<Rightarrow> (Inl e, restore_tables d0 d2)
                | (Inr _, d2) \<Rightarrow> (Inr x, d2))))"

definition request_ping_fields :: "string list" where
  "request_ping_fields = [''lead_id'', ''campaign_token'', ''zip'', ''ip_address'', ''monthly_bill'',
     ''own_home'', ''tcpa_consent'', ''tcpa_language'', ''purchase_timeframe'', ''credit_rating'',
     ''property_type'', ''roof_shade'', ''roof_type'', ''utility_provider'', ''jornaya_lead_id'',
     ''trusted_form_url'']"

definition vertical_ping_fields :: "string list" where
  "vertical_ping_fields = [''monthly_bill'', ''own_home'', ''purchase_timeframe'', ''credit_rating'',
     ''property_type'', ''roof_shade'', ''roof_type'', ''utility_provider'']"

definition copy_fields :: "string list \<Rightarrow> json \<Rightarrow> json_obj \<Rightarrow> json_obj" where
  "copy_fields field_names src obj =
     (case as_object src of
        None \<Rightarrow> obj
      | Some o1 \<Rightarrow> fold (\<lambda>field acc. obj_insert_opt field (obj_get o1 field) acc) field_names obj)"

definition ping_only_payload :: "extlib \<Rightarrow> LeadCreationTuple \<Rightarrow> json" where
  "ping_only_payload X t =
     (if lc_strategy t = ''ping_post'' then
        let vertical_slug = unwrap_or (get_str (lc_request_payload t) ''vertical'') ''solar'';
            base = obj_insert ''request_type'' (JStr ''ping'')
                     (obj_insert ''vertical'' (JStr vertical_slug)
                       (obj_insert ''publisher_id'' (JStr (uuid_text X (lc_publisher_id t))) []));
            ping_obj = copy_fields vertical_ping_fields (lc_vertical_data t)
                         (copy_fields request_ping_fields (lc_request_payload t) base)
        in JObj [(''lead'', JObj ping_obj)]
      else lc_request_payload t)"

definition ping_encrypted_request :: "extlib \<Rightarrow> LeadCreationTuple \<Rightarrow> string" where
  "ping_encrypted_request X t =
     (let text = json_print X (ping_only_payload X t) in
      case lc_pii_encryption_key t of
        Some key \<Rightarrow> (case encrypt_envelope X [] key text True of Inr env \<Rightarrow> env | Inl _ \<Rightarrow> text)
      | None \<Rightarrow> text)"

definition insert_ping :: "string \<Rightarrow> uuid \<Rightarrow> string option \<Rightarrow> (db, int) io" where
  "insert_ping ping_id lead promise = db_stmt (\<lambda>d.
     (Inr (db_next_id d), d\<lparr>pings := pings d @
        [\<lparr> pg_id = db_next_id d, pg_ping_id = ping_id, pg_lead_id = lead, pg_promise_id = promise,
           pg_state = ''processing'', pg_sent_at = db_now d, pg_created_at = db_now d \<rparr>],
        db_next_id := db_next_id d + 1\<rparr>))"

definition create_ping_records :: "extlib \<Rightarrow> uuid \<Rightarrow> LeadCreationTuple \<Rightarrow> (db, unit) io" where
  "create_ping_records X lead_uuid t =
     transaction (io_bind (io_get db_now) (\<lambda>now.
       let payload_str = uuid_text X lead_uuid @ ''|'' @ utc_text X now @ ''|pending'';
           ping_id_text = ''FP_'' @ b64_encode X payload_str
       in io_bind (insert_ping ping_id_text lead_uuid (lc_promise_id t)) (\<lambda>ping_id_val.
          if 0 < ping_id_val
          then insert_ping_payload lead_uuid (Some (show_int ping_id_val)) (ping_only_payload X t)
                 (ping_encrypted_request X t) None None
          else io_return ())))"

fun create_leads :: "extlib \<Rightarrow> LeadCreationTuple list \<Rightarrow> (uuid \<rightharpoonup> uuid) \<Rightarrow> (db, uuid \<rightharpoonup> uuid) io" where
  "create_leads X [] uuid_map = io_return uuid_map"
| "create_leads X (t # ts) uuid_map =
     io_bind (io_try (transaction (upsert_lead X t))) (\<lambda>res.
       case res of
         Inl _ \<Rightarrow> create_leads X ts uuid_map
       | Inr lead_uuid \<Rightarrow>
           io_bind (io_try (create_ping_records X lead_uuid t)) (\<lambda>_.
             create_leads X ts (uuid_map(lc_uuid t \<mapsto> lead_uuid))))"

definition batch_create_leads :: "extlib \<Rightarrow> LeadCreationTuple list \<Rightarrow> (db, uuid \<rightharpoonup> uuid) io" where
  "batch_create_leads X creations = create_leads X creations Map.empty"

section \<open>Flushing a batch\<close>

fun pulsar_of :: "BackgroundTask \<Rightarrow> PulsarLogTuple option" where
  "pulsar_of (PulsarLog x) = Some x" | "pulsar_of _ = None"

fun response_of :: "BackgroundTask \<Rightarrow> BuyerResponseTuple option" where
  "response_of (BuyerResponseTask x) = Some x" | "response_of _ = None"

fun lead_update_of :: "BackgroundTask \<Rightarrow> LeadUpdateTuple option" where
  "lead_update_of (LeadUpdate x) = Some x" | "lead_update_of _ = None"

fun payload_of :: "BackgroundTask \<Rightarrow> PayloadUpdateTuple option" where
  "payload_of (PayloadUpdate x) = Some x" | "payload_of _ = None"

fun creation_of :: "BackgroundTask \<Rightarrow> LeadCreationTuple option" where
  "creation_of (LeadCreation x) = Some x" | "creation_of _ = None"

definition flush_batch :: "extlib \<Rightarrow> BackgroundTask list \<Rightarrow> (db, unit) io" where
  "flush_batch X batch =
     (if batch = [] then io_return ()
      else
        io_bind (io_try (batch_create_leads X (List.map_filter creation_of batch))) (\<lambda>res.
        let uuid_map = (case res of Inr m \<Rightarrow> m | Inl _ \<Rightarrow> Map.empty) in
        io_bind (io_try (batch_insert_pulsar_logs (List.map_filter pulsar_of batch))) (\<lambda>_.
        io_bind (io_try (batch_insert_buyer_responses uuid_map (List.map_filter response_of batch))) (\<lambda>_.
        io_bind (io_try (batch_update_leads (List.map_filter lead_update_of batch))) (\<lambda>_.
        io_bind (io_try (batch_update_payloads (List.map_filter payload_of batch))) (\<lambda>_.
        io_return ()))))))"

section \<open>The batcher\<close>

text \<open>The channel between \<open>enqueue\<close> and the batcher, the batch being collected, the shutdown
  flag, whether all senders are gone, whether the batcher task has ended, and the database.
  \<open>wq_flushed\<close> records the tasks handed to \<open>flush_batch\<close> so far.\<close>

record WriteBehindQueue =
  wq_channel :: "BackgroundTask list"
  wq_batch :: "BackgroundTask list"
  wq_shutdown :: bool
  wq_senders_gone :: bool
  wq_finished :: bool
  wq_flushed :: "BackgroundTask list"
  wq_db :: db

definition WriteBehindQueue_new :: "db \<Rightarrow> WriteBehindQueue" where
  "WriteBehindQueue_new d = \<lparr> wq_channel = [], wq_batch = [], wq_shutdown = False,
     wq_senders_gone = False, wq_finished = False, wq_flushed = [], wq_db = d \<rparr>"

definition enqueue :: "BackgroundTask \<Rightarrow> WriteBehindQueue \<Rightarrow> WriteBehindQueue" where
  "enqueue task q =
     (if wq_finished q then q else q\<lparr>wq_channel := wq_channel q @ [task]\<rparr>)"

definition wq_flush :: "extlib \<Rightarrow> WriteBehindQueue \<Rightarrow> WriteBehindQueue" where
  "wq_flush X q = q\<lparr>wq_db := snd (flush_batch X (wq_batch q) (wq_db q)),
     wq_flushed := wq_flushed q @ wq_batch q, wq_batch := []\<rparr>"

definition wq_recv :: "extlib \<Rightarrow> WriteBehindQueue \<Rightarrow> WriteBehindQueue" where
  "wq_recv X q =
     (case wq_channel q of
        task # rest \<Rightarrow>
          let q1 = q\<lparr>wq_channel := rest, wq_batch := wq_batch q @ [task]\<rparr>
          in if 10 \<le> length (wq_batch q1) then wq_flush X q1 else q1
      | [] \<Rightarrow> if wq_senders_gone q then (wq_flush X q)\<lparr>wq_finished := True\<rparr> else q)"

definition wq_tick :: "extlib \<Rightarrow> WriteBehindQueue \<Rightarrow> WriteBehindQueue" where
  "wq_tick X q =
     (let q1 = (if wq_batch q \<noteq> [] then wq_flush X q else q)
      in if wq_shutdown q1 then (wq_flush X q1)\<lparr>wq_finished := True\<rparr> else q1)"

text \<open>\<open>flush\<close> sets the flag; dropping a clone of the sender does not close the channel. It
  returns once the batcher has ended, or times out.\<close>

definition wq_request_shutdown :: "WriteBehindQueue \<Rightarrow> WriteBehindQueue" where
  "wq_request_shutdown q = q\<lparr>wq_shutdown := True\<rparr>"

definition wq_drop :: "WriteBehindQueue \<Rightarrow> WriteBehindQueue" where
  "wq_drop q = q\<lparr>wq_shutdown := True, wq_senders_gone := True\<rparr>"

datatype wq_event = Enqueue BackgroundTask | Recv | Tick | RequestShutdown | DropQueue

fun wq_apply :: "extlib \<Rightarrow> wq_event \<Rightarrow> WriteBehindQueue \<Rightarrow> WriteBehindQueue" where
  "wq_apply X (Enqueue t) q = enqueue t q"
| "wq_apply X Recv q = wq_recv X q"
| "wq_apply X Tick q = wq_tick X q"
| "wq_apply X RequestShutdown q = wq_request_shutdown q"
| "wq_apply X DropQueue q = wq_drop q"

text \<open>Which events can happen: the batcher only runs until it has ended, and nothing is sent once
  the senders are gone.\<close>

fun wq_enabled :: "wq_event \<Rightarrow> WriteBehindQueue \<Rightarrow> bool" where
  "wq_enabled (Enqueue t) q = (\<not> wq_senders_gone q)"
| "wq_enabled Recv q = (\<not> wq_finished q)"
| "wq_enabled Tick q = (\<not> wq_finished q)"
| "wq_enabled RequestShutdown q = (\<not> wq_senders_gone q)"
| "wq_enabled DropQueue q = True"

inductive wq_step :: "extlib \<Rightarrow> WriteBehindQueue \<Rightarrow> wq_event \<Rightarrow> WriteBehindQueue \<Rightarrow> bool" for X where
  wq_stepI: "wq_enabled e q \<Longrightarrow> wq_step X q e (wq_apply X e q)"

inductive_simps wq_step_iff: "wq_step X q e q'"

inductive wq_run :: "extlib \<Rightarrow> db \<Rightarrow> wq_event list \<Rightarrow> WriteBehindQueue \<Rightarrow> bool" for X d where
  wq_init: "wq_run X d [] (WriteBehindQueue_new d)"
| wq_next: "wq_run X d es q \<Longrightarrow> wq_step X q e q' \<Longrightarrow> wq_run X d (es @ [e]) q'"

end
