(* ===== verification/WriteBehindProps.thy ===== *)
theory WriteBehindProps
  imports WriteBehind
begin

text \<open>
  Properties of the write-behind queue: the batcher hands every task to exactly one flush in the
  order of sending, until a shutdown drops what is still in the channel; a flush keeps the
  database's keys and foreign keys whatever statement fails, and persists the responses of the
  leads it creates; and what the individual writers do to a lead.
\<close>

section \<open>The batcher\<close>

definition sent :: "wq_event list \<Rightarrow> BackgroundTask list" where
  "sent es = List.map_filter (\<lambda>e. case e of Enqueue t \<Rightarrow> Some t | _ \<Rightarrow> None) es"

lemma sent_simps [simp]:
  "sent [] = []" "sent (es @ fs) = sent es @ sent fs" "sent [Enqueue t] = [t]" "sent [Recv] = []"
  "sent [Tick] = []" "sent [RequestShutdown] = []" "sent [DropQueue] = []"
  by (simp_all add: sent_def List.map_filter_def)

definition flush_all :: "extlib \<Rightarrow> BackgroundTask list list \<Rightarrow> db \<Rightarrow> db" where
  "flush_all X bs d = fold (\<lambda>b d. snd (flush_batch X b d)) bs d"

lemma flush_all_snoc [simp]: "flush_all X (bs @ [b]) d = snd (flush_batch X b (flush_all X bs d))"
  by (simp add: flush_all_def)

definition wq_inv :: "extlib \<Rightarrow> db \<Rightarrow> BackgroundTask list \<Rightarrow> WriteBehindQueue \<Rightarrow> bool" where
  "wq_inv X d ts q \<longleftrightarrow>
     length (wq_batch q) < 10 \<and> (wq_finished q \<longrightarrow> wq_batch q = []) \<and>
     (\<exists>lost. ts = wq_flushed q @ wq_batch q @ wq_channel q @ lost \<and> (lost = [] \<or> wq_finished q)) \<and>
     (\<exists>bs. wq_flushed q = concat bs \<and> wq_db q = flush_all X bs d \<and> (\<forall>b \<in> set bs. length b \<le> 10))"

lemma wq_inv_flush:
  assumes "\<exists>lost. ts = wq_flushed q @ wq_batch q @ wq_channel q @ lost \<and> (lost = [] \<or> wq_finished q)"
    and "\<exists>bs. wq_flushed q = concat bs \<and> wq_db q = flush_all X bs d \<and> (\<forall>b \<in> set bs. length b \<le> 10)"
    and "length (wq_batch q) \<le> 10"
  shows "wq_inv X d ts (wq_flush X q)" "wq_inv X d ts ((wq_flush X q)\<lparr>wq_finished := True\<rparr>)"
proof -
  obtain bs where bs: "wq_flushed q = concat bs" "wq_db q = flush_all X bs d"
    "\<forall>b \<in> set bs. length b \<le> 10" using assms(2) by blast
  then have "\<exists>bs'. wq_flushed q @ wq_batch q = concat bs'
      \<and> snd (flush_batch X (wq_batch q) (wq_db q)) = flush_all X bs' d \<and> (\<forall>b \<in> set bs'. length b \<le> 10)"
    using assms(3) by (intro exI [of _ "bs @ [wq_batch q]"]) auto
  with assms(1) show "wq_inv X d ts (wq_flush X q)" "wq_inv X d ts ((wq_flush X q)\<lparr>wq_finished := True\<rparr>)"
    by (auto simp: wq_inv_def wq_flush_def)
qed

lemma wq_inv_parts:
  assumes "wq_inv X d ts q"
  shows "\<exists>lost. ts = wq_flushed q @ wq_batch q @ wq_channel q @ lost \<and> (lost = [] \<or> wq_finished q)"
    and "\<exists>bs. wq_flushed q = concat bs \<and> wq_db q = flush_all X bs d \<and> (\<forall>b \<in> set bs. length b \<le> 10)"
    and "length (wq_batch q) < 10"
  using assms by (simp_all add: wq_inv_def)

lemma wq_inv_recv:
  assumes "wq_inv X d ts q" and "\<not> wq_finished q"
  shows "wq_inv X d ts (wq_recv X q)"
proof (cases "wq_channel q")
  case Nil
  then show ?thesis
    using wq_inv_flush(2) [OF wq_inv_parts(1,2) [OF assms(1)]] wq_inv_parts(3) [OF assms(1)] assms(1)
    by (simp add: wq_recv_def)
next
  case (Cons t rest)
  let ?q = "q\<lparr>wq_channel := rest, wq_batch := wq_batch q @ [t]\<rparr>"
  have l: "length (wq_batch ?q) \<le> 10" using wq_inv_parts(3) [OF assms(1)] by simp
  have p: "\<exists>lost. ts = wq_flushed ?q @ wq_batch ?q @ wq_channel ?q @ lost \<and> (lost = [] \<or> wq_finished ?q)"
    using wq_inv_parts(1) [OF assms(1)] Cons by simp
  have b: "\<exists>bs. wq_flushed ?q = concat bs \<and> wq_db ?q = flush_all X bs d \<and> (\<forall>b \<in> set bs. length b \<le> 10)"
    using wq_inv_parts(2) [OF assms(1)] by simp
  have "wq_inv X d ts ?q" if "\<not> 10 \<le> length (wq_batch ?q)"
    unfolding wq_inv_def using that p b assms(2) by simp
  then show ?thesis using wq_inv_flush(1) [OF p b l] Cons by (simp add: wq_recv_def Let_def)
qed

lemma wq_inv_tick:
  assumes "wq_inv X d ts q"
  shows "wq_inv X d ts (wq_tick X q)"
proof -
  have fl: "wq_inv X d ts (wq_flush X q)" "wq_inv X d ts ((wq_flush X q)\<lparr>wq_finished := True\<rparr>)"
    if "wq_inv X d ts q" for q
    using wq_inv_flush [OF wq_inv_parts(1,2) [OF that]] wq_inv_parts(3) [OF that] by simp_all
  show ?thesis using assms by (auto simp: wq_tick_def Let_def intro!: fl)
qed

lemma wq_inv_enqueue: "wq_inv X d ts q \<Longrightarrow> wq_inv X d (ts @ [t]) (enqueue t q)"
  by (auto simp: wq_inv_def enqueue_def)

lemma wq_run_inv: "wq_run X d es q \<Longrightarrow> wq_inv X d (sent es) q"
proof (induction rule: wq_run.induct)
  case wq_init
  show ?case
    unfolding wq_inv_def WriteBehindQueue_new_def
    by (auto intro!: exI [of _ "[]"] simp: flush_all_def)
next
  case (wq_next es q e q')
  then have q': "q' = wq_apply X e q" and en: "wq_enabled e q" by (auto simp: wq_step_iff)
  show ?case
  proof (cases e)
    case Recv
    then show ?thesis using wq_next.IH en q' wq_inv_recv by simp
  next
    case (Enqueue t)
    then show ?thesis using wq_next.IH q' wq_inv_enqueue by simp
  next
    case Tick
    then show ?thesis using wq_next.IH q' wq_inv_tick by simp
  qed (use wq_next.IH q' in \<open>simp_all add: wq_inv_def wq_request_shutdown_def wq_drop_def\<close>)
qed

text \<open>C5: whatever the interleaving of senders, ticks and shutdown: fewer than ten tasks wait in the
  batch between steps, the tasks sent are, in order, those flushed, those in the batch, those in
  the channel and those refused after the batcher ended, nothing is refused before it ended, and
  the database is the result of flushing consecutive batches of at most ten tasks.\<close>

theorem write_behind_fifo:
  assumes "wq_run X d es q"
  shows "length (wq_batch q) < 10
    \<and> (\<exists>lost. sent es = wq_flushed q @ wq_batch q @ wq_channel q @ lost \<and> (lost = [] \<or> wq_finished q))
    \<and> (\<exists>bs. wq_flushed q = concat bs \<and> wq_db q = flush_all X bs d \<and> (\<forall>b \<in> set bs. length b \<le> 10))"
  using wq_inv_parts [OF wq_run_inv [OF assms]] by blast

lemma wq_run_one:
  "wq_run X d [Enqueue t] ((WriteBehindQueue_new d)\<lparr>wq_channel := [t]\<rparr>)"
proof -
  have "wq_step X (WriteBehindQueue_new d) (Enqueue t) (wq_apply X (Enqueue t) (WriteBehindQueue_new d))"
    by (rule wq_stepI) (simp add: WriteBehindQueue_new_def)
  from wq_next [OF wq_init this] show ?thesis
    by (simp add: enqueue_def WriteBehindQueue_new_def)
qed

theorem write_behind_fifo_witness:
  "\<exists>q. wq_run plain_crypto empty_db [Enqueue (PulsarLog \<lparr> plt_lead_id = 1, plt_ping_id = None,
     plt_buyer_id = 2, plt_accepted = True, plt_final_bid_price = 100 \<rparr>)] q \<and> length (wq_batch q) < 10"
  using write_behind_fifo [OF wq_run_one] wq_run_one by blast

text \<open>a shutdown loses what is still in the channel: for every task there is a run that sends
  it, requests the shutdown and ends the batcher without ever flushing the task.\<close>

theorem shutdown_loses_tasks:
  "\<exists>es q. wq_run X d es q \<and> wq_finished q \<and> sent es = [t] \<and> wq_flushed q = [] \<and> wq_channel q = [t]"
proof -
  let ?q1 = "(WriteBehindQueue_new d)\<lparr>wq_channel := [t]\<rparr>"
  let ?q2 = "wq_apply X RequestShutdown ?q1" and ?es2 = "[Enqueue t] @ [RequestShutdown]"
  have "wq_step X ?q1 RequestShutdown ?q2" by (rule wq_stepI) (simp add: WriteBehindQueue_new_def)
  then have "wq_run X d ?es2 ?q2" by (rule wq_next [OF wq_run_one])
  moreover have "wq_step X ?q2 Tick (wq_apply X Tick ?q2)"
    by (rule wq_stepI) (simp add: WriteBehindQueue_new_def wq_request_shutdown_def)
  ultimately have run: "wq_run X d (?es2 @ [Tick]) (wq_apply X Tick ?q2)" by (rule wq_next)
  show ?thesis
    by (rule exI, rule exI, rule conjI [OF run])
      (simp add: wq_tick_def wq_request_shutdown_def wq_flush_def WriteBehindQueue_new_def
        sent_def List.map_filter_def)
qed

text \<open>Receiving everything and one tick.\<close>

fun drain :: "extlib \<Rightarrow> nat \<Rightarrow> WriteBehindQueue \<Rightarrow> WriteBehindQueue" where
  "drain X 0 q = wq_tick X q"
| "drain X (Suc n) q = drain X n (wq_recv X q)"

lemma drain_flushes:
  assumes "n = length (wq_channel q)"
  shows "wq_channel (drain X n q) = [] \<and> wq_batch (drain X n q) = []
    \<and> wq_flushed (drain X n q) = wq_flushed q @ wq_batch q @ wq_channel q"
  using assms
proof (induction n arbitrary: q)
  case 0
  then show ?case by (auto simp: wq_tick_def Let_def wq_flush_def)
next
  case (Suc n)
  then obtain t ts where ts: "wq_channel q = t # ts" "n = length ts" by (metis length_Suc_conv)
  then have "wq_channel (wq_recv X q) = ts"
    "wq_flushed (wq_recv X q) @ wq_batch (wq_recv X q) = wq_flushed q @ wq_batch q @ [t]"
    by (auto simp: wq_recv_def Let_def wq_flush_def)
  with Suc.IH [of "wq_recv X q"] ts show ?case by simp
qed



section \<open>Keys and foreign keys\<close>

definition keys_inv :: "db \<Rightarrow> bool" where
  "keys_inv d \<longleftrightarrow>
     distinct (map l_uuid (leads d)) \<and>
     distinct (List.map_filter l_lead_id (leads d)) \<and>
     (\<forall>r \<in> set (buyer_responses d). br_lead_id r \<in> l_uuid ` set (leads d)) \<and>
     (\<forall>r \<in> set (ping_payloads d). pp_lead_id r \<in> l_uuid ` set (leads d)) \<and>
     (\<forall>r \<in> set (post_payloads d). po_lead_id r \<in> l_uuid ` set (leads d))"

lemma keys_inv_faults [simp]: "keys_inv (d\<lparr>db_faults := fs\<rparr>) = keys_inv d"
  by (simp add: keys_inv_def)

lemma keys_inv_restore: "keys_inv old \<Longrightarrow> keys_inv (restore_tables old new)"
  by (simp add: keys_inv_def restore_tables_def)

lemma keys_stmt: "(\<And>d. keys_inv d \<Longrightarrow> keys_inv (snd (q d))) \<Longrightarrow> preserves keys_inv (db_stmt q)"
  by (intro preserves_db_stmt preservesI) simp_all

lemma keys_query [preserves_intros]:
  "preserves keys_inv (db_query f)" "preserves keys_inv (db_query_optional g)"
  unfolding db_query_optional_def by (intro preserves_db_query, simp)+

lemma preserves_transaction:
  assumes "preserves P m" and "preserves P (db_stmt (io_return ()))"
    and "\<And>old new. P old \<Longrightarrow> P (restore_tables old new)"
  shows "preserves P (transaction m)"
proof (rule preservesI)
  fix d
  assume d: "P d"
  obtain r0 d0 where b: "db_stmt (io_return ()) d = (r0, d0)" by force
  then have d0: "P d0" using preservesD [OF assms(2) d] by simp
  obtain r1 d1 where m: "m d0 = (r1, d1)" by force
  then have d1: "P d1" using preservesD [OF assms(1) d0] by simp
  obtain r2 d2 where c: "db_stmt (io_return ()) d1 = (r2, d2)" by force
  then have "P d2" using preservesD [OF assms(2) d1] by simp
  then show "P (snd (transaction m d))"
    using b m c d0 assms(3) [OF d0] by (cases r0; cases r1; cases r2) (simp_all add: transaction_def)
qed

lemma keys_transaction [preserves_intros]:
  "preserves keys_inv m \<Longrightarrow> preserves keys_inv (transaction m)"
  by (rule preserves_transaction) (auto intro: keys_stmt keys_inv_restore simp: io_simps)

lemma map_filter_map_id: "List.map_filter f xs = List.map_filter (\<lambda>x. x) (map f xs)"
  by (simp add: List.map_filter_def filter_map comp_def)

text \<open>Updates that keep the keys of a lead.\<close>

lemma keys_inv_update_rows:
  assumes "keys_inv d" and "\<And>l. l_uuid (f l) = l_uuid l" and "\<And>l. l_lead_id (f l) = l_lead_id l"
  shows "keys_inv (d\<lparr>leads := update_rows p f (leads d)\<rparr>)"
proof -
  let ?ls = "update_rows p f (leads d)"
  have u: "map l_uuid ?ls = map l_uuid (leads d)" using assms(2) by (rule map_update_rows)
  have "map l_lead_id ?ls = map l_lead_id (leads d)" using assms(3) by (rule map_update_rows)
  then have "List.map_filter l_lead_id ?ls = List.map_filter l_lead_id (leads d)"
    by (metis map_filter_map_id)
  moreover have "l_uuid ` set ?ls = l_uuid ` set (leads d)" using u by (metis list.set_map)
  ultimately show ?thesis using assms(1) u by (simp add: keys_inv_def)
qed

lemma keys_update_leads [preserves_intros]:
  assumes "\<And>now l. l_uuid (f now l) = l_uuid l" and "\<And>now l. l_lead_id (f now l) = l_lead_id l"
  shows "preserves keys_inv (update_leads p f)"
  unfolding update_leads_def using assms by (intro keys_stmt) (simp add: keys_inv_update_rows)

lemma lead_columns_keys [simp]:
  "l_uuid (set_lead_columns u now l) = l_uuid l" "l_lead_id (set_lead_columns u now l) = l_lead_id l"
  "l_uuid (sold_lead_columns u now l) = l_uuid l" "l_lead_id (sold_lead_columns u now l) = l_lead_id l"
  by (simp_all add: set_lead_columns_def sold_lead_columns_def)

lemma keys_update_one_lead [preserves_intros]: "preserves keys_inv (update_one_lead u)"
  unfolding update_one_lead_def update_as_sold_def standard_update_def
  by (intro preserves_intros) simp_all

lemma keys_insert_response [preserves_intros]: "preserves keys_inv (insert_buyer_response u r)"
  unfolding insert_buyer_response_def by (intro keys_stmt) (auto simp: keys_inv_def)

lemma keys_insert_ping_payload [preserves_intros]:
  "preserves keys_inv (insert_ping_payload lead ping payload request response external)"
  unfolding insert_ping_payload_def by (intro keys_stmt) (auto simp: keys_inv_def)

lemma keys_insert_post_payload [preserves_intros]:
  "preserves keys_inv (insert_post_payload lead post payload request response)"
  unfolding insert_post_payload_def by (intro keys_stmt) (auto simp: keys_inv_def)

lemma keys_update_ping_payload [preserves_intros]:
  "(\<And>r. pp_lead_id (f r) = pp_lead_id r) \<Longrightarrow> preserves keys_inv (update_ping_payload lead f)"
  unfolding update_ping_payload_def
  by (intro keys_stmt) (auto simp: keys_inv_def set_update_rows Let_def split: if_splits)

lemma keys_insert_ping [preserves_intros]: "preserves keys_inv (insert_ping ping lead promise)"
  unfolding insert_ping_def by (intro keys_stmt) (simp add: keys_inv_def)

lemma keys_pulsar_logs [preserves_intros]: "preserves keys_inv (batch_insert_pulsar_logs logs)"
  unfolding batch_insert_pulsar_logs_def
  by (intro preserves_intros keys_stmt) (simp add: keys_inv_def)

lemma map_filter_snoc: "List.map_filter f (xs @ [x]) = List.map_filter f xs @ (case f x of None \<Rightarrow> [] | Some y \<Rightarrow> [y])"
  by (simp add: List.map_filter_def split: option.split)

lemma new_lead_row_keys [simp]:
  "l_uuid (new_lead_row X t now) = lc_uuid t" "l_lead_id (new_lead_row X t now) = lc_lead_id t"
  by (simp_all add: new_lead_row_def Let_def)

lemma keys_inv_new_lead:
  assumes "keys_inv d" and "lc_uuid t \<notin> l_uuid ` set (leads d)"
    and "List.find (\<lambda>l. is_some (lc_lead_id t) \<and> l_lead_id l = lc_lead_id t) (leads d) = None"
  shows "keys_inv (d\<lparr>leads := leads d @ [new_lead_row X t now]\<rparr>)"
proof -
  have "x \<notin> set (List.map_filter l_lead_id (leads d))" if "lc_lead_id t = Some x" for x
    using assms(3) that by (auto simp: find_None_iff List.map_filter_def)
  then show ?thesis
    using assms(1,2) by (auto simp: keys_inv_def map_filter_snoc split: option.split)
qed

lemma keys_upsert_lead [preserves_intros]: "preserves keys_inv (upsert_lead X t)"
  unfolding upsert_lead_def
  by (intro keys_stmt)
    (auto simp: Let_def keys_inv_update_rows keys_inv_new_lead split: option.split)

lemma keys_create_leads [preserves_intros]: "preserves keys_inv (create_leads X ts m)"
  by (induction ts arbitrary: m)
    (auto intro!: preserves_intros simp: create_ping_records_def Let_def simp del: fun_upd_apply)

lemma keys_resolve [preserves_intros]:
  "preserves keys_inv (resolve_lead_uuid_for_buyer_response u p s)"
  unfolding resolve_lead_uuid_for_buyer_response_def by (intro preserves_intros)

lemma keys_actual_lead_id [preserves_intros]: "preserves keys_inv (actual_lead_id m r)"
  unfolding actual_lead_id_def by (intro preserves_intros)

lemma keys_insert_pass [preserves_intros]: "preserves keys_inv (insert_pass m rs)"
  by (induction m rs rule: insert_pass.induct) (auto intro!: preserves_intros)

lemma keys_insert_with_retries [preserves_intros]: "preserves keys_inv (insert_with_retries n u r)"
  by (induction n) (auto intro!: preserves_intros)

lemma keys_payloads [preserves_intros]: "preserves keys_inv (update_one_payload u)"
  unfolding update_one_payload_def upsert_ping_payload_def
  by (intro preserves_intros) (auto split: option.splits)


lemma keys_flush_batch: "preserves keys_inv (flush_batch X batch)"
  unfolding flush_batch_def batch_create_leads_def batch_insert_buyer_responses_def retry_pass_def
    batch_update_leads_def batch_update_payloads_def
  by (intro preserves_intros)

lemma keys_flush_all: "keys_inv d \<Longrightarrow> keys_inv (flush_all X bs d)"
  by (induction bs rule: rev_induct) (simp_all add: flush_all_def preserves_snd [OF keys_flush_batch])



section \<open>Persistence of buyer responses\<close>

text \<open>On a database without failing statements, leads and responses only grow.\<close>

definition grows :: "db \<Rightarrow> db \<Rightarrow> bool" where
  "grows d0 d \<longleftrightarrow> db_faults d = [] \<and> l_uuid ` set (leads d0) \<subseteq> l_uuid ` set (leads d)
     \<and> set (buyer_responses d0) \<subseteq> set (buyer_responses d)"

lemma grows_refl: "db_faults d = [] \<Longrightarrow> grows d d"
  by (simp add: grows_def)

lemma grows_trans: "grows a b \<Longrightarrow> grows b c \<Longrightarrow> grows a c"
  unfolding grows_def by (metis subset_trans)

lemma grows_snd: "preserves (grows d0) m \<Longrightarrow> grows d0 d \<Longrightarrow> grows d0 (snd (m d))"
  by (rule preserves_snd)

lemma grows_run: "preserves (grows d) m \<Longrightarrow> db_faults d = [] \<Longrightarrow> grows d (snd (m d))"
  by (rule grows_snd [OF _ grows_refl])

lemma grows_stmt:
  "(\<And>d. db_faults d = [] \<Longrightarrow> grows d (snd (q d))) \<Longrightarrow> preserves (grows d0) (db_stmt q)"
  by (intro preservesI) (metis db_stmt_ok grows_def grows_trans)

lemma grows_query [preserves_intros]:
  "preserves (grows d0) (db_query f)" "preserves (grows d0) (db_query_optional g)"
  unfolding db_query_optional_def db_query_def
  by (intro grows_stmt; simp add: io_simps grows_refl)+

lemma transaction_no_fault:
  assumes "\<And>d. P d \<Longrightarrow> db_faults d = []" and "preserves P m"
    and "\<And>old new. P old \<Longrightarrow> P new \<Longrightarrow> P (restore_tables old new)"
  shows "preserves P (transaction m)"
proof (rule preservesI)
  fix d
  assume d: "P d"
  obtain r d1 where m: "m d = (r, d1)" by force
  then have "P d1" using preservesD [OF assms(2) d] by blast
  then show "P (snd (transaction m d))"
    using assms(1) d m assms(3) [OF d] by (cases r) (simp_all add: transaction_def db_stmt_ok io_return_def)
qed

lemma grows_transaction [preserves_intros]:
  "preserves (grows d0) m \<Longrightarrow> preserves (grows d0) (transaction m)"
  by (rule transaction_no_fault) (auto simp: grows_def restore_tables_def)

lemma uuids_update_rows:
  "(\<And>l. l_uuid (f l) = l_uuid l) \<Longrightarrow> l_uuid ` set (update_rows p f ls) = l_uuid ` set ls"
  by (metis list.set_map map_update_rows)

lemma grows_ops [preserves_intros]:
  "(\<And>now l. l_uuid (f now l) = l_uuid l) \<Longrightarrow> preserves (grows d0) (update_leads p f)"
  "preserves (grows d0) (insert_buyer_response u r)"
  "preserves (grows d0) (insert_ping_payload lead ping payload request response external)"
  "preserves (grows d0) (insert_post_payload lead post payload request' response)"
  "preserves (grows d0) (update_ping_payload lead g)"
  "preserves (grows d0) (insert_ping ping' lead promise)"
  "preserves (grows d0) (upsert_lead X t)"
  unfolding update_leads_def insert_buyer_response_def insert_ping_payload_def
    insert_post_payload_def update_ping_payload_def insert_ping_def upsert_lead_def
  by (intro grows_stmt; auto simp: grows_def uuids_update_rows Let_def split: option.splits)+

lemma grows_writers [preserves_intros]:
  "preserves (grows d0) (update_one_lead u)"
  "preserves (grows d0) (batch_insert_pulsar_logs logs)"
  "preserves (grows d0) (update_one_payload pu)"
  "preserves (grows d0) (create_ping_records X lead t)"
  "preserves (grows d0) (resolve_lead_uuid_for_buyer_response v p s)"
proof -
  show "preserves (grows d0) (update_one_lead u)"
    unfolding update_one_lead_def update_as_sold_def standard_update_def
    by (intro preserves_intros) simp_all
  show "preserves (grows d0) (batch_insert_pulsar_logs logs)"
    unfolding batch_insert_pulsar_logs_def by (intro preserves_intros grows_stmt) (simp add: grows_def)
  show "preserves (grows d0) (update_one_payload pu)"
    unfolding update_one_payload_def upsert_ping_payload_def by (intro preserves_intros)
  show "preserves (grows d0) (create_ping_records X lead t)"
    unfolding create_ping_records_def Let_def by (intro preserves_intros)
  show "preserves (grows d0) (resolve_lead_uuid_for_buyer_response v p s)"
    unfolding resolve_lead_uuid_for_buyer_response_def by (intro preserves_intros)
qed

lemma grows_response_passes [preserves_intros]:
  "preserves (grows d0) (actual_lead_id m r)"
  "preserves (grows d0) (insert_with_retries n u r)"
  unfolding actual_lead_id_def by (intro preserves_intros) (induction n, auto intro!: preserves_intros)

lemma grows_insert_pass [preserves_intros]: "preserves (grows d0) (insert_pass m rs)"
  by (induction m rs rule: insert_pass.induct) (auto intro!: preserves_intros)


lemma grows_flush_parts [preserves_intros]:
  "preserves (grows d0) (batch_insert_buyer_responses m rs)"
  "preserves (grows d0) (batch_update_leads us)"
  "preserves (grows d0) (batch_update_payloads ps)"
  unfolding batch_insert_buyer_responses_def retry_pass_def batch_update_leads_def
    batch_update_payloads_def
  by (intro preserves_intros)+

abbreviation uuids :: "db \<Rightarrow> uuid set" where
  "uuids d \<equiv> l_uuid ` set (leads d)"

lemma transaction_ok:
  assumes "db_faults d = []" and "m d = (Inr x, d1)" and "db_faults d1 = []"
  shows "transaction m d = (Inr x, d1)"
  using assms by (simp add: transaction_def db_stmt_ok io_return_def)

lemma upsert_lead_fresh:
  assumes "db_faults d = []" and "lc_uuid t \<notin> uuids d"
  obtains v d1 where "transaction (upsert_lead X t) d = (Inr v, d1)" and "db_faults d1 = []"
    and "v \<in> uuids d1" and "uuids d1 \<subseteq> insert (lc_uuid t) (uuids d)"
proof -
  obtain v d1 where u: "upsert_lead X t d = (Inr v, d1)" "db_faults d1 = []" "v \<in> uuids d1"
    "uuids d1 \<subseteq> insert (lc_uuid t) (uuids d)"
  proof (cases "List.find (\<lambda>l. is_some (lc_lead_id t) \<and> l_lead_id l = lc_lead_id t) (leads d)")
    case None
    with assms show thesis
      by (intro that [of "lc_uuid t" "d\<lparr>leads := leads d @ [new_lead_row X t (db_now d)]\<rparr>"])
        (auto simp: upsert_lead_def db_stmt_ok Let_def)
  next
    case (Some l)
    then have "l_uuid l \<in> uuids d" by (auto simp: find_Some_iff)
    with Some assms show thesis
      by (intro that [of "l_uuid l" "d\<lparr>leads := update_rows
            (\<lambda>l. is_some (lc_lead_id t) \<and> l_lead_id l = lc_lead_id t)
            (\<lambda>l. l\<lparr>l_promise_id := lc_promise_id t, l_updated_at := db_now d\<rparr>) (leads d)\<rparr>"])
        (simp_all add: upsert_lead_def db_stmt_ok Let_def uuids_update_rows subset_insertI)
  qed
  show thesis using that [OF transaction_ok [of d "upsert_lead X t", OF assms(1) u(1,2)]] u by blast
qed

definition same_leads :: "Lead list \<Rightarrow> db \<Rightarrow> bool" where
  "same_leads ls d \<longleftrightarrow> db_faults d = [] \<and> leads d = ls"

lemma same_leads_stmt:
  "(\<And>d. same_leads ls d \<Longrightarrow> same_leads ls (snd (q d))) \<Longrightarrow> preserves (same_leads ls) (db_stmt q)"
  by (intro preservesI) (metis db_stmt_ok same_leads_def)

lemma create_ping_records_leads: "preserves (same_leads ls) (create_ping_records X v t)"
  unfolding create_ping_records_def Let_def insert_ping_def insert_ping_payload_def
  by (intro transaction_no_fault preserves_intros same_leads_stmt)
    (auto simp: same_leads_def restore_tables_def)

lemma disjoint_insert_superset: "A \<subseteq> insert x B \<Longrightarrow> x \<notin> C \<Longrightarrow> C \<inter> B = {} \<Longrightarrow> C \<inter> A = {}"
  by blast

text \<open>Every creation with a fresh id gets an entry in the map, and the entries are ids of leads.\<close>

lemma create_leads_complete:
  assumes "db_faults d = []" and "distinct (map lc_uuid ts)" and "lc_uuid ` set ts \<inter> uuids d = {}"
    and "ran m \<subseteq> uuids d"
  shows "\<exists>m' d'. create_leads X ts m d = (Inr m', d') \<and> db_faults d' = [] \<and> ran m' \<subseteq> uuids d'
    \<and> (\<forall>t \<in> set ts. m' (lc_uuid t) \<noteq> None) \<and> (\<forall>u. u \<notin> lc_uuid ` set ts \<longrightarrow> m' u = m u)"
  using assms
proof (induction ts arbitrary: m d)
  case Nil
  then show ?case by (simp add: io_return_def)
next
  case (Cons t ts)
  then have fresh: "lc_uuid t \<notin> uuids d" by auto
  obtain v d1 where up: "transaction (upsert_lead X t) d = (Inr v, d1)" "db_faults d1 = []"
    "v \<in> uuids d1" "uuids d1 \<subseteq> insert (lc_uuid t) (uuids d)"
    using upsert_lead_fresh [OF Cons.prems(1) fresh] .
  obtain r d2 where ping: "create_ping_records X v t d1 = (r, d2)" by force
  then have d2: "db_faults d2 = []" "leads d2 = leads d1"
    using preservesD [OF create_ping_records_leads, of "leads d1" d1] up(2) by (auto simp: same_leads_def)
  let ?m = "m(lc_uuid t \<mapsto> v)"
  have gr: "uuids d \<subseteq> uuids d1"
    using preservesD [OF grows_transaction [OF grows_ops(7)] grows_refl [OF Cons.prems(1)] up(1)]
    by (simp add: grows_def)
  have "create_leads X (t # ts) m d = create_leads X ts ?m d2"
    using up(1) ping by (simp add: io_bind_def io_try_def)
  moreover have ih: "\<exists>m' d'. create_leads X ts ?m d2 = (Inr m', d') \<and> db_faults d' = [] \<and> ran m' \<subseteq> uuids d'
      \<and> (\<forall>t \<in> set ts. m' (lc_uuid t) \<noteq> None) \<and> (\<forall>u. u \<notin> lc_uuid ` set ts \<longrightarrow> m' u = ?m u)"
  proof (rule Cons.IH)
    show "db_faults d2 = []" by (rule d2)
    show "distinct (map lc_uuid ts)" using Cons.prems(2) by simp
    show "lc_uuid ` set ts \<inter> uuids d2 = {}" 
    proof -
      have "lc_uuid t \<notin> lc_uuid ` set ts" using Cons.prems(2) by auto
      moreover have "lc_uuid ` set ts \<inter> uuids d = {}" using Cons.prems(3) by auto
      ultimately show ?thesis using disjoint_insert_superset [OF up(4)] d2(2) by simp
    qed
    show "ran ?m \<subseteq> uuids d2" 
    proof -
      have "ran ?m \<subseteq> insert v (ran m)" by (auto simp: ran_def split: if_splits)
      moreover have "insert v (ran m) \<subseteq> uuids d1" using up(3) subset_trans [OF Cons.prems(4) gr] by simp
      ultimately show ?thesis unfolding d2(2) by (rule subset_trans)
    qed
  qed
  ultimately have ih': "\<exists>m' d'. create_leads X (t # ts) m d = (Inr m', d') \<and> db_faults d' = [] \<and> ran m' \<subseteq> uuids d'
      \<and> (\<forall>t \<in> set ts. m' (lc_uuid t) \<noteq> None) \<and> (\<forall>u. u \<notin> lc_uuid ` set ts \<longrightarrow> m' u = ?m u)"
    by (simp only:)
  have nt: "lc_uuid t \<notin> lc_uuid ` set ts" using Cons.prems(2) by auto
  have ext: "(\<forall>t \<in> set (t # ts). m' (lc_uuid t) \<noteq> None) \<and> (\<forall>u. u \<notin> lc_uuid ` set (t # ts) \<longrightarrow> m' u = m u)"
    if "\<forall>t \<in> set ts. m' (lc_uuid t) \<noteq> None" "\<forall>u. u \<notin> lc_uuid ` set ts \<longrightarrow> m' u = ?m u" for m'
    using that nt by auto
  from ih' show ?case
    by (elim exE conjE) (rule exI, rule exI, intro conjI, assumption+, (drule (1) ext, elim conjE, assumption)+)
qed

definition persisted :: "BuyerResponseTuple \<Rightarrow> uuid \<Rightarrow> db \<Rightarrow> bool" where
  "persisted r v d \<longleftrightarrow> (\<exists>row \<in> set (buyer_responses d).
     br_lead_id row = v \<and> br_campaign_id row = brt_campaign_id r \<and> br_ping_id row = brt_ping_id r
     \<and> br_post_id row = brt_post_id r \<and> br_buyer_id row = brt_buyer_id r \<and> br_payload row = brt_payload r)"

lemma persisted_grows: "persisted r v d \<Longrightarrow> grows d d' \<Longrightarrow> persisted r v d'"
  unfolding persisted_def grows_def by blast

lemma insert_buyer_response_ok:
  assumes "db_faults d = []" and "v \<in> uuids d"
  obtains d' where "insert_buyer_response v r d = (Inr (), d')" and "persisted r v d'" and "grows d d'"
  using assms by (auto simp: insert_buyer_response_def db_stmt_ok persisted_def grows_def)

lemma never_fails_actual_lead_id: "never_fails (actual_lead_id m r)"
  unfolding actual_lead_id_def resolve_lead_uuid_for_buyer_response_def
  by (intro preserves_intros)

lemma insert_pass_persists:
  assumes "db_faults d = []" and "ran m \<subseteq> uuids d" and "r \<in> set rs" and "m (brt_lead_id r) = Some v"
  shows "persisted r v (snd (insert_pass m rs d))"
  using assms
proof (induction rs arbitrary: d)
  case (Cons r' rs)
  let ?ins = "\<lambda>mo. case mo of None \<Rightarrow> io_return [r']
       | Some u \<Rightarrow> io_bind (io_try (insert_buyer_response u r')) (\<lambda>res.
           case res of Inr _ \<Rightarrow> io_return []
           | Inl e \<Rightarrow> io_return (if contains e ''buyer_responses_lead_id_fkey'' then [r'] else []))"
  let ?rest = "\<lambda>retry. io_bind (insert_pass m rs) (\<lambda>retries. io_return (retry @ retries))"
  have gr: "grows d0 d1 \<Longrightarrow> grows d0 (snd (?rest x d1))" for d0 d1 x
    by (rule preserves_snd) (intro preserves_intros)
  show ?case
  proof (cases "r = r'")
    case True
    have v: "v \<in> uuids d" using Cons.prems(2,4) by (auto simp: ran_def)
    obtain d' where ins: "insert_buyer_response v r' d = (Inr (), d')" "persisted r' v d'" "grows d d'"
      using insert_buyer_response_ok [OF Cons.prems(1) v] .
    have "actual_lead_id m r' d = (Inr (Some v), d)"
      using Cons.prems(4) True by (simp add: actual_lead_id_def io_return_def)
    moreover have "?ins (Some v) d = (Inr [], d')"
      using ins(1) by (simp add: io_bind_def io_try_def io_return_def)
    ultimately have "insert_pass m (r' # rs) d = ?rest [] d'" by (simp add: io_bind_run)
    moreover have "grows d' (snd (?rest [] d'))" using ins(3) by (intro gr grows_refl) (simp add: grows_def)
    ultimately show ?thesis using persisted_grows [OF ins(2)] True by simp
  next
    case False
    have nf: "never_fails (?ins mo)" for mo by (intro preserves_intros)
    obtain mo d1 where a: "actual_lead_id m r' d = (Inr mo, d1)"
      using never_fails_actual_lead_id by (rule never_fails_run)
    have d1: "grows d d1" using preservesD [OF grows_response_passes(1) grows_refl [OF Cons.prems(1)] a] .
    obtain x d2 where b: "?ins mo d1 = (Inr x, d2)" using nf by (rule never_fails_run)
    have "preserves (grows d) (?ins mo)" by (intro preserves_intros)
    then have d2: "grows d d2" using grows_snd [OF _ d1, of "?ins mo"] b by simp
    have run: "insert_pass m (r' # rs) d = ?rest x d2"
      using a b by (simp add: io_bind_run)
    have "persisted r v (snd (insert_pass m rs d2))"
      using Cons.prems d2 False by (intro Cons.IH) (auto simp: grows_def)
    moreover have "snd (?rest x d2) = snd (insert_pass m rs d2)"
      by (simp add: io_bind_def io_return_def split: prod.split sum.split)
    ultimately show ?thesis using run by simp
  qed
qed simp


lemma never_fails_iter: "(\<And>x. never_fails (f x)) \<Longrightarrow> never_fails (io_iter f xs)"
  by (induction xs) (auto intro!: preserves_intros)

lemma never_fails_insert_pass: "never_fails (insert_pass m rs)"
  by (induction m rs rule: insert_pass.induct)
    (auto intro!: preserves_intros never_fails_actual_lead_id)

text \<open>The part of \<open>flush_batch\<close> after lead creation.\<close>

definition flush_rest :: "(uuid \<rightharpoonup> uuid) \<Rightarrow> BackgroundTask list \<Rightarrow> (db, unit) io" where
  "flush_rest m batch =
     io_bind (io_try (batch_insert_pulsar_logs (List.map_filter pulsar_of batch))) (\<lambda>_.
     io_bind (io_try (batch_insert_buyer_responses m (List.map_filter response_of batch))) (\<lambda>_.
     io_bind (io_try (batch_update_leads (List.map_filter lead_update_of batch))) (\<lambda>_.
     io_bind (io_try (batch_update_payloads (List.map_filter payload_of batch))) (\<lambda>_. io_return ()))))"

lemma io_try_snd: "snd (io_bind (io_try a) (\<lambda>_. b) s) = snd (b (snd (a s)))"
  by (simp add: io_bind_def io_try_def split: prod.split)

lemma flush_rest_persists:
  assumes "db_faults d = []" and "ran m \<subseteq> uuids d" and "BuyerResponseTask r \<in> set batch"
    and "m (brt_lead_id r) = Some v"
  shows "persisted r v (snd (flush_rest m batch d))"
proof -
  let ?rs = "List.map_filter response_of batch"
  have r: "r \<in> set ?rs" using assms(3) by (force simp: List.map_filter_def)
  let ?d1 = "snd (batch_insert_pulsar_logs (List.map_filter pulsar_of batch) d)"
  have d1: "grows d ?d1" using grows_writers(2) assms(1) by (rule grows_run)
  then have f1: "db_faults ?d1 = []" "ran m \<subseteq> uuids ?d1" using assms(2) by (auto simp: grows_def)
  let ?d2 = "snd (insert_pass m ?rs ?d1)"
  have p2: "persisted r v ?d2" using insert_pass_persists [OF f1 r assms(4)] .
  have g2: "grows ?d1 ?d2" using grows_insert_pass f1(1) by (rule grows_run)
  have gr: "grows ?d2 (snd (retry_pass m xs ?d2))" for xs
    unfolding retry_pass_def by (rule grows_run, intro preserves_intros) (use g2 in \<open>simp add: grows_def\<close>)
  obtain xs d' where "insert_pass m ?rs ?d1 = (Inr xs, d')"
    using never_fails_insert_pass by (rule never_fails_run)
  then have b: "snd (batch_insert_buyer_responses m ?rs ?d1) = snd (retry_pass m xs ?d2)"
    using r by (auto simp: batch_insert_buyer_responses_def io_bind_def)
  let ?d3 = "snd (batch_insert_buyer_responses m ?rs ?d1)"
  have p3: "persisted r v ?d3" using persisted_grows [OF p2 gr] b by simp
  have f3: "db_faults ?d3 = []" using gr b by (simp add: grows_def)
  let ?tail = "io_bind (io_try (batch_update_leads (List.map_filter lead_update_of batch))) (\<lambda>_.
     io_bind (io_try (batch_update_payloads (List.map_filter payload_of batch))) (\<lambda>_. io_return ()))"
  have "grows ?d3 (snd (?tail ?d3))"
    by (rule grows_run [OF _ f3]) (intro preserves_intros)
  then show ?thesis
    unfolding flush_rest_def io_try_snd using persisted_grows [OF p3] by (simp add: io_try_snd)
qed

text \<open>C6: when no statement fails, flushing a batch that creates a lead and carries a buyer response
  for it stores the response, with all its data, under a lead that exists, even if the creation was
  redirected to an older row with the same external lead id.\<close>

theorem flush_persists_responses:
  assumes "db_faults d = []" and "LeadCreation t \<in> set batch" and "BuyerResponseTask r \<in> set batch"
    and "brt_lead_id r = lc_uuid t"
    and "distinct (map lc_uuid (List.map_filter creation_of batch))"
    and "lc_uuid ` set (List.map_filter creation_of batch) \<inter> l_uuid ` set (leads d) = {}"
  shows "\<exists>v. v \<in> l_uuid ` set (leads (snd (flush_batch X batch d))) \<and>
    persisted r v (snd (flush_batch X batch d))"
proof -
  let ?cs = "List.map_filter creation_of batch"
  have t: "t \<in> set ?cs" using assms(2) by (force simp: List.map_filter_def)
  obtain m d1 where c: "create_leads X ?cs Map.empty d = (Inr m, d1)" "db_faults d1 = []"
    "ran m \<subseteq> uuids d1" "\<forall>t \<in> set ?cs. m (lc_uuid t) \<noteq> None"
    using create_leads_complete [OF assms(1,5,6), of Map.empty X] by auto
  then obtain v where v: "m (brt_lead_id r) = Some v" using t assms(4) by auto
  have run: "flush_batch X batch d = flush_rest m batch d1"
  proof -
    have "batch \<noteq> []" using assms(2) by auto
    moreover have "io_try (batch_create_leads X ?cs) d = (Inr (Inr m), d1)"
      using c(1) by (simp add: batch_create_leads_def io_try_def)
    ultimately show ?thesis by (simp add: flush_batch_def flush_rest_def io_bind_run Let_def)
  qed
  have pers: "persisted r v (snd (flush_rest m batch d1))"
    using c(2,3) assms(3) v by (rule flush_rest_persists)
  have "grows d1 (snd (flush_rest m batch d1))"
    unfolding flush_rest_def by (rule grows_run [OF _ c(2)]) (intro preserves_intros)
  then have "uuids d1 \<subseteq> uuids (snd (flush_rest m batch d1))" by (simp only: grows_def)
  moreover have "v \<in> uuids d1" using c(3) ranI [of m, OF v] by (rule subsetD)
  ultimately have "v \<in> uuids (snd (flush_rest m batch d1))" by (rule subsetD)
  with pers show ?thesis unfolding run by (intro exI [of _ v] conjI)
qed


definition sample_creation :: LeadCreationTuple where
  "sample_creation = \<lparr> lc_uuid = 7, lc_event_id = ''ev'', lc_lead_id = Some ''L1'', lc_publisher_id = 1,
     lc_vertical_id = 2, lc_request_type = ''ping'', lc_strategy = ''ping_post'', lc_promise_id = Some ''pr'',
     lc_buyer_id = 3, lc_campaign_id = 4, lc_tcpa_consent = True, lc_tcpa_language = ''I agree'',
     lc_is_test = False, lc_session_id = ''s'', lc_vertical_data = JObj [], lc_first_name = Some ''Jane'',
     lc_last_name = None, lc_email = None, lc_cell_phone = None, lc_street_address = None,
     lc_city = None, lc_state = None, lc_zip = None, lc_ip_address = None,
     lc_request_payload = JObj [(''first_name'', JStr ''Jane''), (''zip'', JStr ''90210'')],
     lc_pii_encryption_key = None \<rparr>"

definition sample_response_task :: BuyerResponseTuple where
  "sample_response_task = \<lparr> brt_lead_id = 7, brt_campaign_id = 4, brt_ping_id = None, brt_post_id = None,
     brt_buyer_id = Some 3, brt_payload = JNull, brt_lead_id_str = None \<rparr>"

theorem flush_persists_responses_witness:
  "\<exists>v. persisted sample_response_task v (snd (flush_batch plain_crypto
     [BuyerResponseTask sample_response_task, LeadCreation sample_creation] empty_db))"
proof -
  let ?b = "[BuyerResponseTask sample_response_task, LeadCreation sample_creation]"
  have "db_faults empty_db = []" by (simp add: empty_db_def)
  moreover have "brt_lead_id sample_response_task = lc_uuid sample_creation"
    by (simp add: sample_response_task_def sample_creation_def)
  moreover have "distinct (map lc_uuid (List.map_filter creation_of ?b))"
    "lc_uuid ` set (List.map_filter creation_of ?b) \<inter> l_uuid ` set (leads empty_db) = {}"
    by (simp_all add: List.map_filter_def empty_db_def)
  ultimately show ?thesis
    using flush_persists_responses [of empty_db sample_creation ?b sample_response_task] by auto
qed

section \<open>Effects on a lead\<close>

text \<open>the update guarded by an in-progress token protects a sale: when a lead holds the token,
  the first sold update stores its post id and marks the lead sold; a second update with the same
  token, whatever it says, then changes nothing.\<close>

theorem inprog_token_guards_sale:
  assumes "db_faults d = []" and "distinct (map l_uuid (leads d))" and "l \<in> set (leads d)"
    and "l_uuid l = u" and "l_post_id l = Some token"
    and "lu_lead_id u1 = u" and "lu_inprog_token u1 = Some token" and "should_update_as_sold u1"
    and "lu_post_id u1 = Some pid" and "pid \<noteq> token"
    and "lu_lead_id u2 = u" and "lu_inprog_token u2 = Some token"
  shows "\<exists>d1. update_one_lead u1 d = (Inr (), d1) \<and> sold_lead_columns u1 (db_now d) l \<in> set (leads d1)
    \<and> l_status (sold_lead_columns u1 (db_now d) l) = LS_Sold
    \<and> l_post_id (sold_lead_columns u1 (db_now d) l) = Some pid
    \<and> update_one_lead u2 d1 = (Inr (), d1)"
proof -
  let ?p = "\<lambda>l. l_uuid l = u \<and> l_post_id l = Some token"
  let ?ls = "update_rows ?p (sold_lead_columns u1 (db_now d)) (leads d)"
  have post: "l_post_id (sold_lead_columns u1 now x) = Some pid" for now x
    using assms(9) by (simp add: sold_lead_columns_def set_lead_columns_def)
  have noop: "update_rows ?p f ?ls = ?ls" for f
    using post assms(10) by (auto simp: update_rows_def)
  let ?d1 = "d\<lparr>leads := ?ls\<rparr>"
  have upd: "update_leads p f d' = (Inr (count_rows p (leads d')), d'\<lparr>leads := update_rows p (f (db_now d')) (leads d')\<rparr>)"
    if "db_faults d' = []" for p f d'
    using that by (simp add: update_leads_def db_stmt_ok)
  have one: "update_one_lead u1 d = (Inr (), ?d1)"
    using assms(1,6-8) noop
    by (simp add: update_one_lead_def update_as_sold_def upd io_simps)
  have two: "update_one_lead u2 ?d1 = (Inr (), ?d1)"
    using assms(1,11,12) noop
    by (simp add: update_one_lead_def update_as_sold_def upd io_simps)
  have "sold_lead_columns u1 (db_now d) l \<in> set ?ls"
    using assms(3-5) by (force simp: set_update_rows)
  moreover have "l_status (sold_lead_columns u1 (db_now d) l) = LS_Sold"
    using assms(8) by (auto simp: sold_lead_columns_def set_lead_columns_def should_update_as_sold_def)
  ultimately show ?thesis using one two post by (intro exI [of _ ?d1]) simp
qed

definition sample_update :: LeadUpdateTuple where
  "sample_update = \<lparr> lu_lead_id = 7, lu_status = LS_Sold, lu_campaign_id = Some 4, lu_buyer_id = Some 3,
     lu_promise_id = None, lu_ping_id = None, lu_post_id = Some ''post_1'', lu_sold_at = True,
     lu_inprog_token = Some ''inprog_x'', lu_vertical_data = None \<rparr>"

definition stored_lead :: Lead where
  "stored_lead = new_lead_row plain_crypto sample_creation 0"

theorem inprog_token_guards_sale_witness:
  "\<exists>d1. update_one_lead sample_update (empty_db\<lparr>leads := [stored_lead\<lparr>l_post_id := Some ''inprog_x''\<rparr>]\<rparr>) = (Inr (), d1)
     \<and> update_one_lead sample_update d1 = (Inr (), d1)"
  using inprog_token_guards_sale
    [where d = "empty_db\<lparr>leads := [stored_lead\<lparr>l_post_id := Some ''inprog_x''\<rparr>]\<rparr>"
       and l = "stored_lead\<lparr>l_post_id := Some ''inprog_x''\<rparr>" and u = 7 and token = "''inprog_x''"
       and ?u1.0 = sample_update and ?u2.0 = sample_update and pid = "''post_1''"]
  by (auto simp: sample_update_def empty_db_def stored_lead_def should_update_as_sold_def
      sample_creation_def)

text \<open>a standard update never removes a key of the stored vertical data and overwrites exactly the
  keys it brings; but a task without a post id erases the stored one, although the statement is
  written to keep it.\<close>

theorem standard_update_effect:
  assumes "db_faults d = []" and "l \<in> set (leads d)" and "l_uuid l = lu_lead_id u"
    and "l_vertical_data l = JObj old" and "lu_vertical_data u = Some (JObj new)"
    and "lu_inprog_token u = None" and "\<not> should_update_as_sold u"
  shows "\<exists>d' l' o1. update_one_lead u d = (Inr (), d') \<and> l' \<in> set (leads d') \<and> l_uuid l' = l_uuid l
    \<and> l_status l' = lu_status u \<and> l_vertical_data l' = JObj o1
    \<and> (\<forall>k. obj_get o1 k = opt_or (obj_get new k) (obj_get old k))
    \<and> l_post_id l' = Some (unwrap_or (lu_post_id u) [])"
proof -
  let ?f = "\<lambda>l. (set_lead_columns u (db_now d) l)\<lparr>l_vertical_data := jsonb_concat (l_vertical_data l) (JObj new)\<rparr>"
  let ?d = "d\<lparr>leads := update_rows (\<lambda>l. l_uuid l = lu_lead_id u) ?f (leads d)\<rparr>"
  have "update_one_lead u d = (Inr (), ?d)"
    using assms(1,5-7)
    by (simp add: update_one_lead_def standard_update_def update_leads_def db_stmt_ok io_simps)
  moreover have "?f l \<in> set (leads ?d)" using assms(2,3) by (force simp: set_update_rows)
  moreover have "l_vertical_data (?f l) = JObj (obj_merge old new)" using assms(4) by simp
  ultimately show ?thesis
    by (intro exI [of _ ?d] exI [of _ "?f l"] exI [of _ "obj_merge old new"])
      (simp add: set_lead_columns_def obj_get_merge)
qed

theorem standard_update_effect_witness:
  "\<exists>d' l'. update_one_lead (sample_update\<lparr>lu_status := LS_Rejected, lu_inprog_token := None, lu_post_id := None,
        lu_vertical_data := Some (JObj [])\<rparr>) (empty_db\<lparr>leads := [stored_lead\<lparr>l_post_id := Some ''post_9''\<rparr>]\<rparr>) = (Inr (), d')
     \<and> l' \<in> set (leads d') \<and> l_post_id l' = Some []"
proof -
  have vd: "l_vertical_data (new_lead_row plain_crypto sample_creation 0) = JObj []"
    by (simp add: new_lead_row_def sample_creation_def Let_def)
  show ?thesis
    using standard_update_effect
      [where d = "empty_db\<lparr>leads := [stored_lead\<lparr>l_post_id := Some ''post_9''\<rparr>]\<rparr>"
         and l = "stored_lead\<lparr>l_post_id := Some ''post_9''\<rparr>"
         and u = "sample_update\<lparr>lu_status := LS_Rejected, lu_inprog_token := None, lu_post_id := None,
           lu_vertical_data := Some (JObj [])\<rparr>" and old = "[]" and new = "[]"] vd
    by (auto simp: sample_update_def empty_db_def stored_lead_def should_update_as_sold_def
        sample_creation_def)
qed

section \<open>The stored ping payload\<close>

lemma copy_fields_keys:
  "obj_keys (copy_fields fs src obj) \<subseteq> set fs \<union> obj_keys obj"
proof -
  have "obj_keys (fold (\<lambda>field acc. obj_insert_opt field (obj_get o1 field) acc) fs obj)
      \<subseteq> set fs \<union> obj_keys obj" for o1
  proof (induction fs arbitrary: obj)
    case (Cons f fs)
    have "obj_keys (obj_insert_opt f m obj) \<subseteq> insert f (obj_keys obj)" for m
      by (simp add: obj_keys_insert_opt subset_insertI)
    then show ?case using Cons.IH [of "obj_insert_opt f (obj_get o1 f) obj"] by fastforce
  qed simp
  then show ?thesis by (auto simp: copy_fields_def split: option.split)
qed

lemma subset_chain: "A \<subseteq> V \<union> C \<Longrightarrow> C \<subseteq> R \<union> B \<Longrightarrow> V \<subseteq> R \<Longrightarrow> A \<subseteq> B \<union> R"
  by blast

lemma subset_disjoint: "A \<subseteq> U \<Longrightarrow> U \<inter> P = {} \<Longrightarrow> A \<inter> P = {}"
  by blast

text \<open>the payload stored for a ping of a ping-post lead carries no name, email, phone or street:
  its keys are the publisher, the vertical, the request type and the listed qualification fields
  (which include the zip code and the IP address).\<close>

theorem ping_payload_without_contact_data:
  assumes "lc_strategy t = ''ping_post''"
  shows "\<exists>o1. ping_only_payload X t = JObj [(''lead'', JObj o1)]
    \<and> obj_keys o1 \<subseteq> {''publisher_id'', ''vertical'', ''request_type''} \<union> set request_ping_fields
    \<and> obj_keys o1 \<inter> {''first_name'', ''last_name'', ''email'', ''cell_phone'', ''street_address'', ''city'', ''state''} = {}"
proof -
  let ?base = "obj_insert ''request_type'' (JStr ''ping'')
     (obj_insert ''vertical'' (JStr (unwrap_or (get_str (lc_request_payload t) ''vertical'') ''solar''))
        (obj_insert ''publisher_id'' (JStr (uuid_text X (lc_publisher_id t))) []))"
  let ?o = "copy_fields vertical_ping_fields (lc_vertical_data t)
     (copy_fields request_ping_fields (lc_request_payload t) ?base)"
  have vs: "set vertical_ping_fields \<subseteq> set request_ping_fields"
    by (simp add: vertical_ping_fields_def request_ping_fields_def)
  have base: "obj_keys ?base = {''request_type'', ''vertical'', ''publisher_id''}"
    by (simp only: obj_keys_insert obj_keys_Nil)
  have "obj_keys ?o \<subseteq> obj_keys ?base \<union> set request_ping_fields"
    by (rule subset_chain [OF copy_fields_keys copy_fields_keys vs])
  then have k: "obj_keys ?o \<subseteq> {''publisher_id'', ''vertical'', ''request_type''} \<union> set request_ping_fields"
    unfolding base by (simp only: insert_commute)
  have "({''publisher_id'', ''vertical'', ''request_type''} \<union> set request_ping_fields)
      \<inter> {''first_name'', ''last_name'', ''email'', ''cell_phone'', ''street_address'', ''city'', ''state''} = {}"
    by (simp add: request_ping_fields_def)
  then have "obj_keys ?o \<inter> {''first_name'', ''last_name'', ''email'', ''cell_phone'', ''street_address'', ''city'', ''state''} = {}"
    by (rule subset_disjoint [OF k])
  moreover have "ping_only_payload X t = JObj [(''lead'', JObj ?o)]"
    using assms by (simp add: ping_only_payload_def Let_def)
  ultimately show ?thesis using k by (intro exI [of _ ?o] conjI)
qed

theorem ping_payload_without_contact_data_witness:
  "\<exists>o1. ping_only_payload plain_crypto sample_creation = JObj [(''lead'', JObj o1)] \<and> ''first_name'' \<notin> obj_keys o1"
proof -
  have "lc_strategy sample_creation = ''ping_post''" by (simp add: sample_creation_def)
  from ping_payload_without_contact_data [OF this, of plain_crypto]
  obtain o1 where o1: "ping_only_payload plain_crypto sample_creation = JObj [(''lead'', JObj o1)]"
    "obj_keys o1 \<inter> {''first_name'', ''last_name'', ''email'', ''cell_phone'', ''street_address'', ''city'', ''state''} = {}"
    by (elim exE conjE) (rule that)
  have "''first_name'' \<notin> obj_keys o1" using o1(2) by (metis IntI empty_iff insertI1)
  with o1(1) show ?thesis by (intro exI [of _ o1] conjI)
qed

end
