(* ===== verification/Redis.thy ===== *)
theory Redis
  imports F64 "HOL-Library.AList"
begin

text \<open>
  Model of \<open>crates/core/src/redis.rs\<close> and of the environment names of \<open>lib.rs\<close>. The
  keys on the server are an association list from the full key to the value and, if it has one,
  the time at which it expires; \<open>rd_now\<close> is the server's clock in seconds. The outcome of
  each coming operation is prescribed by \<open>rd_faults\<close>: the connection pool fails, or the
  command fails, or (no entry) the command is carried out. Commands are those of the Redis
  documentation: GET, SET, SETEX, DEL, EXISTS, INCR, EXPIRE.
\<close>

section \<open>Environment names\<close>

definition normalize_env_for_ssm :: "string \<Rightarrow> string" where
  "normalize_env_for_ssm env =
     (if env = ''development'' then ''dev'' else if env = ''production'' then ''prod'' else env)"

definition normalize_env_for_redis :: "string \<Rightarrow> string" where
  "normalize_env_for_redis env = normalize_env_for_ssm env"

lemma normalize_env_idem:
  "normalize_env_for_redis (normalize_env_for_redis env) = normalize_env_for_redis env"
  by (simp add: normalize_env_for_redis_def normalize_env_for_ssm_def)

section \<open>The client and the server\<close>

datatype redis_fault = PoolFault error | CommandFault error

type_synonym redis_store = "(string \<times> string \<times> timestamp option) list"

record RedisClient =
  rd_env :: string
  rd_store :: redis_store
  rd_now :: timestamp
  rd_faults :: "redis_fault option list"

definition RedisClient_new :: "string \<Rightarrow> redis_store \<Rightarrow> timestamp \<Rightarrow> redis_fault option list \<Rightarrow> RedisClient" where
  "RedisClient_new env store now faults =
     \<lparr> rd_env = normalize_env_for_redis env, rd_store = store, rd_now = now, rd_faults = faults \<rparr>"

definition prefix_key :: "RedisClient \<Rightarrow> string \<Rightarrow> string" where
  "prefix_key c key = rd_env c @ '':'' @ key"

definition redis_op :: "(error \<Rightarrow> error) \<Rightarrow> (RedisClient, 'a) io \<Rightarrow> (RedisClient, 'a) io" where
  "redis_op wrap command c =
     (case rd_faults c of
        Some (PoolFault e) # fs \<Rightarrow> (Inl e, c\<lparr>rd_faults := fs\<rparr>)
      | Some (CommandFault e) # fs \<Rightarrow> (Inl (wrap e), c\<lparr>rd_faults := fs\<rparr>)
      | None # fs \<Rightarrow> command (c\<lparr>rd_faults := fs\<rparr>)
      | [] \<Rightarrow> command c)"

definition unexpired :: "timestamp \<Rightarrow> string \<times> timestamp option \<Rightarrow> bool" where
  "unexpired now e = (case snd e of None \<Rightarrow> True | Some t \<Rightarrow> now < t)"

definition live_entry :: "RedisClient \<Rightarrow> string \<Rightarrow> (string \<times> timestamp option) option" where
  "live_entry c k =
     (case map_of (rd_store c) k of
        None \<Rightarrow> None
      | Some e \<Rightarrow> if unexpired (rd_now c) e then Some e else None)"

definition live_value :: "RedisClient \<Rightarrow> string \<Rightarrow> string option" where
  "live_value c k = map_option fst (live_entry c k)"

definition put_entry :: "string \<Rightarrow> string \<Rightarrow> timestamp option \<Rightarrow> RedisClient \<Rightarrow> RedisClient" where
  "put_entry k v expiry c = c\<lparr>rd_store := AList.update k (v, expiry) (rd_store c)\<rparr>"

definition drop_entry :: "string \<Rightarrow> RedisClient \<Rightarrow> RedisClient" where
  "drop_entry k c = c\<lparr>rd_store := AList.delete k (rd_store c)\<rparr>"

section \<open>Operations\<close>

definition redis_ping :: "(RedisClient, string) io" where
  "redis_ping c =
     (case rd_faults c of
        Some (PoolFault e) # fs \<Rightarrow> (Inl (''Redis pool error: '' @ e), c\<lparr>rd_faults := fs\<rparr>)
      | Some (CommandFault e) # fs \<Rightarrow> (Inl (''Redis PING error: '' @ e), c\<lparr>rd_faults := fs\<rparr>)
      | None # fs \<Rightarrow> (Inr ''PONG'', c\<lparr>rd_faults := fs\<rparr>)
      | [] \<Rightarrow> (Inr ''PONG'', c))"

definition redis_get :: "string \<Rightarrow> (RedisClient, string option) io" where
  "redis_get key = redis_op (\<lambda>e. ''Redis error: '' @ e)
     (io_get (\<lambda>c. live_value c (prefix_key c key)))"

definition redis_set_with_ttl :: "string \<Rightarrow> string \<Rightarrow> u64 \<Rightarrow> (RedisClient, unit) io" where
  "redis_set_with_ttl key value ttl_seconds = redis_op (\<lambda>e. ''Redis SET error: '' @ e)
     (io_modify (\<lambda>c. put_entry (prefix_key c key) value
        (if 0 < ttl_seconds then Some (rd_now c + unat ttl_seconds) else None) c))"

definition redis_set :: "string \<Rightarrow> string \<Rightarrow> (RedisClient, unit) io" where
  "redis_set key value = redis_set_with_ttl key value 0"

definition redis_delete :: "string \<Rightarrow> (RedisClient, unit) io" where
  "redis_delete key = redis_op (\<lambda>e. ''Redis DELETE error: '' @ e)
     (io_modify (\<lambda>c. drop_entry (prefix_key c key) c))"

definition redis_exists :: "string \<Rightarrow> (RedisClient, bool) io" where
  "redis_exists key = redis_op (\<lambda>e. e) (io_get (\<lambda>c. is_some (live_value c (prefix_key c key))))"

text \<open>INCR reads the value as a signed 64-bit decimal number in canonical form, a missing key as 0,
  and keeps the time to live; the client reads the reply as a \<open>u64\<close>.\<close>

definition parse_nat :: "string \<Rightarrow> nat option" where
  "parse_nat s =
     (if s \<noteq> [] \<and> list_all is_digit s \<and> (length s = 1 \<or> hd s \<noteq> CHR ''0'')
      then Some (digits_val s) else None)"

definition parse_i64 :: "string \<Rightarrow> int option" where
  "parse_i64 s =
     (case s of
        [] \<Rightarrow> None
      | ch # rest \<Rightarrow>
          if ch = CHR ''-''
          then (case parse_nat rest of
                  Some n \<Rightarrow> if 0 < n \<and> n \<le> 2 ^ 63 then Some (- int n) else None
                | None \<Rightarrow> None)
          else (case parse_nat s of
                  Some n \<Rightarrow> if n < 2 ^ 63 then Some (int n) else None
                | None \<Rightarrow> None))"

definition incr_command :: "string \<Rightarrow> (RedisClient, u64) io" where
  "incr_command k c =
     (let (v, expiry) = (case live_entry c k of None \<Rightarrow> (''0'', None) | Some e \<Rightarrow> e) in
      case parse_i64 v of
        None \<Rightarrow> (Inl ''ERR value is not an integer or out of range'', c)
      | Some i \<Rightarrow>
          if 2 ^ 63 \<le> i + 1 then (Inl ''ERR increment or decrement would overflow'', c)
          else let c' = put_entry k (show_int (i + 1)) expiry c in
            if i + 1 < 0 then (Inl ''Response type not u64 compatible'', c')
            else (Inr (word_of_int (i + 1)), c'))"

definition redis_increment :: "string \<Rightarrow> (RedisClient, u64) io" where
  "redis_increment key c = redis_op (\<lambda>e. e) (incr_command (prefix_key c key)) c"

definition expire_command :: "string \<Rightarrow> u64 \<Rightarrow> RedisClient \<Rightarrow> RedisClient" where
  "expire_command k ttl_seconds c =
     (case live_entry c k of
        None \<Rightarrow> c
      | Some (v, _) \<Rightarrow>
          if sint ttl_seconds \<le> 0 then drop_entry k c
          else put_entry k v (Some (rd_now c + nat (sint ttl_seconds))) c)"

definition redis_increment_with_ttl :: "string \<Rightarrow> u64 \<Rightarrow> (RedisClient, u64) io" where
  "redis_increment_with_ttl key ttl_seconds =
     io_bind (redis_increment key) (\<lambda>result.
       if result = 1 \<and> 0 < ttl_seconds
       then io_bind (redis_op (\<lambda>e. e)
              (io_modify (\<lambda>c. expire_command (prefix_key c key) ttl_seconds c)))
              (\<lambda>_. io_return result)
       else io_return result)"

section \<open>Laws of the store\<close>

lemma redis_op_ok [simp]: "rd_faults c = [] \<Longrightarrow> redis_op wrap command c = command c"
  by (simp add: redis_op_def)

lemma redis_op_preserves:
  assumes "\<And>c fs. P c \<Longrightarrow> P (c\<lparr>rd_faults := fs\<rparr>)" and "preserves P command"
  shows "preserves P (redis_op wrap command)"
  using assms by (auto simp: preserves_def redis_op_def split: list.split option.split redis_fault.split)

lemma prefix_key_inj [simp]: "prefix_key c k = prefix_key c k' \<longleftrightarrow> k = k'"
  by (simp add: prefix_key_def)

lemma prefix_key_update [simp]:
  "prefix_key (put_entry k v e c) = prefix_key c" "prefix_key (drop_entry k c) = prefix_key c"
  "prefix_key (c\<lparr>rd_faults := fs\<rparr>) = prefix_key c"
  by (simp_all add: fun_eq_iff prefix_key_def put_entry_def drop_entry_def)

lemma entry_update_simps [simp]:
  "rd_now (put_entry k v e c) = rd_now c" "rd_faults (put_entry k v e c) = rd_faults c"
  "rd_env (put_entry k v e c) = rd_env c"
  "rd_now (drop_entry k c) = rd_now c" "rd_faults (drop_entry k c) = rd_faults c"
  "rd_env (drop_entry k c) = rd_env c"
  by (simp_all add: put_entry_def drop_entry_def)

lemma live_entry_put:
  "live_entry (put_entry k v e c) k' =
     (if k' = k then (if unexpired (rd_now c) (v, e) then Some (v, e) else None) else live_entry c k')"
  by (auto simp: live_entry_def put_entry_def update_conv' split: option.split)

lemma live_entry_drop: "live_entry (drop_entry k c) k' = (if k' = k then None else live_entry c k')"
  by (auto simp: live_entry_def drop_entry_def delete_conv' split: option.split)

lemma live_entry_faults [simp]: "live_entry (c\<lparr>rd_faults := fs\<rparr>) = live_entry c"
  by (auto simp: fun_eq_iff live_entry_def split: option.split)

text \<open>The contract a client of the store relies on.\<close>

locale expiring_store =
  fixes look :: "'c \<Rightarrow> string \<Rightarrow> string option"
    and put :: "string \<Rightarrow> string \<Rightarrow> 'c \<Rightarrow> 'c"
    and del :: "string \<Rightarrow> 'c \<Rightarrow> 'c"
  assumes look_put: "look (put k v c) k' = (if k' = k then Some v else look c k')"
    and look_del: "look (del k c) k' = (if k' = k then None else look c k')"
begin

lemma look_put_put: "look (put k v (put k w c)) = look (put k v c)"
  by (auto simp: look_put fun_eq_iff)

lemma look_del_put: "look (del k (put k v c)) = look (del k c)"
  by (auto simp: look_put look_del fun_eq_iff)

lemma look_fold_del: "look (fold del ks c) k = (if k \<in> set ks then None else look c k)"
  by (induction ks arbitrary: c) (auto simp: look_del)

end

interpretation redis: expiring_store live_value "\<lambda>k v. put_entry k v None" drop_entry
  by unfold_locales (auto simp: live_value_def live_entry_put live_entry_drop unexpired_def)

section \<open>Counters\<close>

lemma digits_val_snoc: "digits_val (ds @ [d]) = 10 * digits_val ds + digit_val d"
  by (simp add: digits_val_def)

lemma digit_char: "d < 10 \<Longrightarrow> is_digit (char_of (48 + d)) \<and> digit_val (char_of (48 + d)) = d"
  by (simp add: is_digit_def digit_val_def of_char_of)

lemma show_nat_digits:
  "list_all is_digit (show_nat n) \<and> digits_val (show_nat n) = n \<and> show_nat n \<noteq> []
   \<and> (0 < n \<longrightarrow> hd (show_nat n) \<noteq> CHR ''0'')"
proof (induction n rule: less_induct)
  case (less n)
  show ?case
  proof (cases "n < 10")
    case True
    have "digit_val CHR ''0'' = 0" by (simp add: digit_val_def)
    then have "0 < n \<longrightarrow> char_of (48 + n) \<noteq> CHR ''0''" using digit_char [OF True] by auto
    then show ?thesis
      using True digit_char [OF True] by (simp add: show_nat.simps [of n] digits_val_def)
  next
    case False
    then have "n div 10 < n" and "0 < n div 10" by auto
    with less.IH [of "n div 10"] False show ?thesis
      using digit_char [of "n mod 10"] by (simp add: show_nat.simps [of n] digits_val_snoc)
  qed
qed

lemma parse_nat_show_nat [simp]: "parse_nat (show_nat n) = Some n"
proof -
  have "length (show_nat 0) = 1" by (simp add: show_nat.simps)
  then show ?thesis using show_nat_digits [of n] by (cases "n = 0") (simp_all add: parse_nat_def)
qed

lemma parse_i64_show_nat: "n < 2 ^ 63 \<Longrightarrow> parse_i64 (show_nat n) = Some (int n)"
proof -
  assume n: "n < 2 ^ 63"
  obtain ch rest where s: "show_nat n = ch # rest" using show_nat_digits [of n] by (cases "show_nat n") auto
  then have "is_digit ch" using show_nat_digits [of n] by simp
  then have "ch \<noteq> CHR ''-''" by (auto simp: is_digit_def)
  then show ?thesis using n parse_nat_show_nat [of n] unfolding s parse_i64_def by simp
qed

text \<open>The key \<open>k\<close> holds the counter value \<open>n\<close>: it is absent when \<open>n\<close> is
  0, and otherwise holds the number in decimal.\<close>

definition counts :: "RedisClient \<Rightarrow> string \<Rightarrow> nat \<Rightarrow> bool" where
  "counts c k n \<longleftrightarrow> (if n = 0 then live_entry c k = None else live_value c k = Some (show_nat n))"

lemma incr_command_counts:
  assumes "counts c k n" and "Suc n < 2 ^ 63"
  obtains e where "incr_command k c = (Inr (of_nat (Suc n)), put_entry k (show_nat (Suc n)) e c)"
    and "n = 0 \<Longrightarrow> e = None" and "0 < n \<Longrightarrow> live_entry c k = Some (show_nat n, e)"
proof -
  obtain v e where ve: "(case live_entry c k of None \<Rightarrow> (''0'', None) | Some x \<Rightarrow> x) = (v, e)"
    by (cases "case live_entry c k of None \<Rightarrow> (''0'', None) | Some x \<Rightarrow> x")
  have zero: "show_nat 0 = ''0''" by code_simp
  have v: "v = show_nat n"
    using assms(1) ve zero by (cases "n = 0") (auto simp: counts_def live_value_def)
  have "show_int (int n + 1) = show_nat (Suc n)"
    using show_int_def [of "int n + 1"] by (simp add: nat_add_distrib)
  then have "incr_command k c = (Inr (of_nat (Suc n)), put_entry k (show_nat (Suc n)) e c)"
    using assms(2) parse_i64_show_nat [of n] by (simp add: incr_command_def ve v Let_def add.commute)
  moreover have "n = 0 \<Longrightarrow> e = None" using assms(1) ve by (simp add: counts_def)
  moreover have "0 < n \<Longrightarrow> live_entry c k = Some (show_nat n, e)"
    using assms(1) ve v by (auto simp: counts_def live_value_def)
  ultimately show thesis by (rule that)
qed

text \<open>A counter with a time to live counts: as long as its window lasts each call returns one
  more than the call before, the first call of a window sets its end, and later calls do not move
  it.\<close>

theorem redis_counter_window:
  assumes "rd_faults c = []" and "counts c (prefix_key c key) n" and "Suc n < 2 ^ 63"
    and "0 < sint ttl"
  shows "\<exists>c'. redis_increment_with_ttl key ttl c = (Inr (of_nat (Suc n)), c')
    \<and> counts c' (prefix_key c' key) (Suc n) \<and> rd_faults c' = []
    \<and> live_entry c' (prefix_key c key) = Some (show_nat (Suc n),
         if n = 0 then Some (rd_now c + nat (sint ttl)) else snd (the (live_entry c (prefix_key c key))))
    \<and> (\<forall>k. k \<noteq> prefix_key c key \<longrightarrow> live_entry c' k = live_entry c k)"
proof -
  let ?k = "prefix_key c key"
  obtain e where e: "incr_command ?k c = (Inr (of_nat (Suc n)), put_entry ?k (show_nat (Suc n)) e c)"
    "n = 0 \<Longrightarrow> e = None" "0 < n \<Longrightarrow> live_entry c ?k = Some (show_nat n, e)"
    using incr_command_counts [OF assms(2,3)] by metis
  let ?c1 = "put_entry ?k (show_nat (Suc n)) e c"
  have inc: "redis_increment key c = (Inr (of_nat (Suc n)), ?c1)"
    using assms(1) e(1) by (simp add: redis_increment_def)
  have ttl: "0 < ttl" using assms(4) word_greater_zero_iff by force
  have live: "unexpired (rd_now c) (show_nat (Suc n), e)"
    using e(2,3) by (cases "n = 0") (auto simp: unexpired_def live_entry_def split: option.splits if_splits)
  show ?thesis
  proof (cases "n = 0")
    case True
    let ?c2 = "put_entry ?k (show_nat (Suc n)) (Some (rd_now c + nat (sint ttl))) ?c1"
    have "expire_command ?k ttl ?c1 = ?c2"
      using live assms(4) True by (simp add: expire_command_def live_entry_put)
    then have run: "redis_increment_with_ttl key ttl c = (Inr (of_nat (Suc n)), ?c2)"
      using inc ttl assms(1) True by (simp add: redis_increment_with_ttl_def io_simps)
    show ?thesis
      by (intro exI conjI, rule run)
        (use True assms(1,4) in \<open>simp_all add: counts_def live_value_def live_entry_put unexpired_def\<close>)
  next
    case False
    have "unat (of_nat (Suc n) :: u64) = Suc n"
      using assms(3) by (simp add: unat_of_nat take_bit_nat_eq_self del: of_nat_Suc)
    then have "of_nat (Suc n) \<noteq> (1 :: u64)" using False by (metis One_nat_def Suc_inject unat_1)
    then have run: "redis_increment_with_ttl key ttl c = (Inr (of_nat (Suc n)), ?c1)"
      using inc by (simp add: redis_increment_with_ttl_def io_simps)
    show ?thesis
      by (intro exI conjI, rule run)
        (use False live e(3) assms(1) in \<open>simp_all add: counts_def live_value_def live_entry_put\<close>)
  qed
qed

theorem redis_counter_window_witness:
  "\<exists>c'. redis_increment_with_ttl ''k'' 60 (RedisClient_new ''dev'' [(''dev:k'', ''9'', Some 70)] 20 [])
     = (Inr 10, c') \<and> live_entry c' ''dev:k'' = Some (''10'', Some 70)"
proof -
  let ?c = "RedisClient_new ''dev'' [(''dev:k'', ''9'', Some 70)] 20 []"
  have pk: "prefix_key ?c ''k'' = ''dev:k''"
    by (simp add: prefix_key_def RedisClient_new_def normalize_env_for_redis_def normalize_env_for_ssm_def)
  have ninety: "show_nat 9 = ''9''" "show_nat (Suc 9) = ''10''" by code_simp+
  have e: "live_entry ?c ''dev:k'' = Some (''9'', Some 70)"
    by (simp add: live_entry_def RedisClient_new_def unexpired_def)
  have "counts ?c (prefix_key ?c ''k'') 9" using e ninety pk by (simp add: counts_def live_value_def)
  then show ?thesis
    using redis_counter_window [of ?c "''k''" 9 60] e ninety pk by (auto simp: RedisClient_new_def)
qed

end
