(* ===== verification/Cache.thy ===== *)
theory Cache
  imports Redis
begin

text \<open>
  Model of \<open>crates/core/src/cache.rs\<close>: the two-level cache. The in-memory level (the moka
  cache) is an association list from keys to a text and the time it was inserted; it serves an
  entry for one hour, and by its documentation it may drop an entry at any time to keep within its
  capacity: \<open>cs_evictions\<close> prescribes for each coming lookup whether it has done so. The
  second level is the Redis client, if one is configured. Values are stored as JSON texts; the
  two third-party JSON libraries are a parameter, the record \<open>codec\<close> of the value's type, and
  what the code relies on is \<open>codec_ok\<close>: a printed value reads back. The source that a miss
  is filled from is an effectful function on a state of its own.
\<close>

section \<open>State\<close>

record 'a codec =
  simd_to :: "'a \<Rightarrow> string option"
  simd_from :: "string \<Rightarrow> 'a option"
  serde_to :: "'a \<Rightarrow> string result"
  serde_from :: "string \<Rightarrow> 'a option"
  utf8_ok :: "string \<Rightarrow> bool"

record CacheService =
  cs_redis :: "RedisClient option"
  cs_l1 :: "(string \<times> string \<times> timestamp) list"
  cs_env :: string
  cs_hits :: u64
  cs_misses :: u64
  cs_now :: timestamp
  cs_evictions :: "bool list"

definition L1_TTL :: timestamp where
  "L1_TTL = 3600"

definition CacheService_new :: "RedisClient option \<Rightarrow> string \<Rightarrow> timestamp \<Rightarrow> bool list \<Rightarrow> CacheService" where
  "CacheService_new redis env now evictions = \<lparr> cs_redis = redis, cs_l1 = [], cs_env = env,
     cs_hits = 0, cs_misses = 0, cs_now = now, cs_evictions = evictions \<rparr>"

definition get_ttl :: "bool \<Rightarrow> u64" where
  "get_ttl is_dev = (if is_dev then 300 else 3600)"

definition count_hit :: "(CacheService, unit) io" where
  "count_hit = io_modify (\<lambda>c. c\<lparr>cs_hits := cs_hits c + 1\<rparr>)"

definition count_miss :: "(CacheService, unit) io" where
  "count_miss = io_modify (\<lambda>c. c\<lparr>cs_misses := cs_misses c + 1\<rparr>)"

text \<open>Running an operation of the Redis client; without a client the given value is the result.\<close>

definition on_redis :: "'a \<Rightarrow> (RedisClient, 'a) io \<Rightarrow> (CacheService, 'a) io" where
  "on_redis dflt m c =
     (case cs_redis c of
        None \<Rightarrow> (Inr dflt, c)
      | Some r \<Rightarrow> (case m r of (res, r') \<Rightarrow> (res, c\<lparr>cs_redis := Some r'\<rparr>)))"

definition cache_key :: "string \<Rightarrow> string" where
  "cache_key key = ''cache:'' @ key"

section \<open>Plain operations\<close>

definition cache_get :: "string \<Rightarrow> (CacheService, string option) io" where
  "cache_get key c =
     (case on_redis None (redis_get (cache_key key)) c of
        (Inr (Some v), c') \<Rightarrow> (Inr (Some v), c'\<lparr>cs_hits := cs_hits c' + 1\<rparr>)
      | (res, c') \<Rightarrow> (res, c'\<lparr>cs_misses := cs_misses c' + 1\<rparr>))"

definition cache_set_with_ttl :: "string \<Rightarrow> string \<Rightarrow> u64 \<Rightarrow> (CacheService, unit) io" where
  "cache_set_with_ttl key value ttl_seconds =
     on_redis () (redis_set_with_ttl (cache_key key) value ttl_seconds)"

definition cache_set :: "string \<Rightarrow> string \<Rightarrow> (CacheService, unit) io" where
  "cache_set key value c =
     (let is_dev = (cs_env c = ''dev'' \<or> cs_env c = ''development'') in
      on_redis () (redis_set_with_ttl (cache_key key) value (get_ttl is_dev)) c)"

definition cache_delete :: "string \<Rightarrow> (CacheService, unit) io" where
  "cache_delete key = on_redis () (redis_delete (cache_key key))"

text \<open>SCAN visits every live key once; the prefix has no pattern characters of its own. The keys are
  deleted in batches of 100, each a command of its own.\<close>

fun chunks :: "nat \<Rightarrow> 'a list \<Rightarrow> 'a list list" where
  "chunks n xs = (if xs = [] then [] else if n = 0 then [xs] else take n xs # chunks n (drop n xs))"

declare chunks.simps [simp del]

definition scan_keys :: "string \<Rightarrow> RedisClient \<Rightarrow> string list" where
  "scan_keys p r = filter (\<lambda>k. prefix p k \<and> is_some (live_entry r k)) (remdups (map fst (rd_store r)))"

definition delete_keys :: "string list \<Rightarrow> RedisClient \<Rightarrow> nat \<times> RedisClient" where
  "delete_keys ks r = (length (filter (\<lambda>k. is_some (live_entry r k)) ks), fold drop_entry ks r)"

fun delete_batches :: "string list list \<Rightarrow> nat \<Rightarrow> (RedisClient, nat) io" where
  "delete_batches [] n = io_return n"
| "delete_batches (ks # kss) n =
     io_bind (redis_op (\<lambda>e. e) (\<lambda>r. case delete_keys ks r of (m, r') \<Rightarrow> (Inr m, r')))
       (\<lambda>m. delete_batches kss (n + m))"

definition delete_by_prefix :: "string \<Rightarrow> (CacheService, nat) io" where
  "delete_by_prefix p = on_redis 0
     (\<lambda>r. io_bind (redis_op (\<lambda>e. e) (io_get (scan_keys (prefix_key r (cache_key p)))))
       (\<lambda>keys. delete_batches (chunks 100 keys) 0) r)"

section \<open>Get or insert\<close>

definition read_value :: "'a codec \<Rightarrow> string \<Rightarrow> 'a option" where
  "read_value cd s = opt_or (simd_from cd s) (serde_from cd s)"

definition PANIC :: error where
  "PANIC = ''panic''"

definition print_value :: "'a codec \<Rightarrow> 'a \<Rightarrow> string result" where
  "print_value cd v =
     (case simd_to cd v of
        Some bytes \<Rightarrow>
          if utf8_ok cd bytes then Inr bytes
          else (case serde_to cd v of Inr s \<Rightarrow> Inr s | Inl _ \<Rightarrow> Inl PANIC)
      | None \<Rightarrow> serde_to cd v)"

definition l1_get :: "string \<Rightarrow> (CacheService, string option) io" where
  "l1_get key c =
     (let c' = c\<lparr>cs_evictions := tl (cs_evictions c)\<rparr>;
          evicted = (cs_evictions c \<noteq> [] \<and> hd (cs_evictions c)) in
      case map_of (cs_l1 c) key of
        None \<Rightarrow> (Inr None, c')
      | Some (s, t) \<Rightarrow>
          if evicted \<or> t + L1_TTL \<le> cs_now c
          then (Inr None, c'\<lparr>cs_l1 := AList.delete key (cs_l1 c)\<rparr>)
          else (Inr (Some s), c'))"

definition l1_insert :: "string \<Rightarrow> string \<Rightarrow> (CacheService, unit) io" where
  "l1_insert key s = io_modify (\<lambda>c. c\<lparr>cs_l1 := AList.update key (s, cs_now c) (cs_l1 c)\<rparr>)"

definition l1_lookup :: "'a codec \<Rightarrow> string \<Rightarrow> (CacheService, 'a option) io" where
  "l1_lookup cd key =
     io_bind (l1_get key) (\<lambda>cached.
       case Option.bind cached (read_value cd) of
         Some v \<Rightarrow> io_bind count_hit (\<lambda>_. io_return (Some v))
       | None \<Rightarrow> io_return None)"

definition l2_lookup :: "'a codec \<Rightarrow> string \<Rightarrow> (CacheService, 'a option) io" where
  "l2_lookup cd key =
     io_bind (cache_get key) (\<lambda>cached.
       case cached of
         None \<Rightarrow> io_return None
       | Some s \<Rightarrow>
           (case read_value cd s of
              Some v \<Rightarrow>
                io_bind (l1_insert key s) (\<lambda>_. io_bind count_hit (\<lambda>_. io_return (Some v)))
            | None \<Rightarrow> io_return None))"

definition store_value :: "'a codec \<Rightarrow> string \<Rightarrow> u64 \<Rightarrow> 'a \<Rightarrow> (CacheService, unit) io" where
  "store_value cd key ttl_seconds v =
     (case print_value cd v of
        Inl e \<Rightarrow> io_err e
      | Inr s \<Rightarrow> io_bind (l1_insert key s) (\<lambda>_. cache_set_with_ttl key s ttl_seconds))"

definition on_cache :: "(CacheService, 'a) io \<Rightarrow> (CacheService \<times> 's, 'a) io" where
  "on_cache m = (\<lambda>(c, s). case m c of (res, c') \<Rightarrow> (res, (c', s)))"

definition on_source :: "('s, 'a) io \<Rightarrow> (CacheService \<times> 's, 'a) io" where
  "on_source m = (\<lambda>(c, s). case m s of (res, s') \<Rightarrow> (res, (c, s')))"

definition lookup_levels :: "'a codec \<Rightarrow> string \<Rightarrow> (CacheService, 'a option) io" where
  "lookup_levels cd key =
     io_bind (l1_lookup cd key) (\<lambda>l1. case l1 of Some v \<Rightarrow> io_return (Some v) | None \<Rightarrow> l2_lookup cd key)"

definition get_or_insert_with ::
  "'a codec \<Rightarrow> string \<Rightarrow> u64 \<Rightarrow> ('s, 'a) io \<Rightarrow> (CacheService \<times> 's, 'a) io" where
  "get_or_insert_with cd key ttl_seconds f =
     io_bind (on_cache (lookup_levels cd key)) (\<lambda>cached.
     case cached of
       Some v \<Rightarrow> io_return v
     | None \<Rightarrow>
         io_bind (on_cache count_miss) (\<lambda>_.
         io_bind (on_source f) (\<lambda>v.
         io_bind (on_cache (store_value cd key ttl_seconds v)) (\<lambda>_.
         io_return v))))"

definition get_or_insert_with_skip_none ::
  "'a codec \<Rightarrow> string \<Rightarrow> u64 \<Rightarrow> ('s, 'a option) io \<Rightarrow> (CacheService \<times> 's, 'a option) io" where
  "get_or_insert_with_skip_none cd key ttl_seconds f =
     io_bind (on_cache (lookup_levels cd key)) (\<lambda>cached.
     case cached of
       Some v \<Rightarrow> io_return (Some v)
     | None \<Rightarrow>
         io_bind (on_cache count_miss) (\<lambda>_.
         io_bind (on_source f) (\<lambda>value.
         case value of
           Some v \<Rightarrow> io_bind (on_cache (store_value cd key ttl_seconds v)) (\<lambda>_. io_return value)
         | None \<Rightarrow> io_return value)))"

section \<open>Statistics\<close>

definition get_stats :: "CacheService \<Rightarrow> u64 \<times> u64" where
  "get_stats c = (cs_hits c, cs_misses c)"

definition get_hit_rate :: "CacheService \<Rightarrow> f64" where
  "get_hit_rate c =
     (let total = cs_hits c + cs_misses c in
      if total = 0 then Fin 0
      else f64_mul (f64_div (f64_of_int (uint (cs_hits c))) (f64_of_int (uint total))) (Fin 100))"

section \<open>What the two levels hold\<close>

definition codec_ok :: "'a codec \<Rightarrow> bool" where
  "codec_ok cd \<longleftrightarrow> (\<forall>v. \<exists>s. print_value cd v = Inr s \<and> read_value cd s = Some v)"

definition l1_text :: "CacheService \<Rightarrow> string \<Rightarrow> string option" where
  "l1_text c key = map_option fst (map_of (cs_l1 c) key)"

definition l1_fresh :: "CacheService \<Rightarrow> string \<Rightarrow> string option" where
  "l1_fresh c key =
     (case map_of (cs_l1 c) key of
        Some (s, t) \<Rightarrow> if cs_now c < t + L1_TTL then Some s else None
      | None \<Rightarrow> None)"

definition l2_text :: "CacheService \<Rightarrow> string \<Rightarrow> string option" where
  "l2_text c key = Option.bind (cs_redis c) (\<lambda>r. live_value r (prefix_key r (cache_key key)))"

definition redis_healthy :: "CacheService \<Rightarrow> bool" where
  "redis_healthy c \<longleftrightarrow> (\<forall>r. cs_redis c = Some r \<longrightarrow> rd_faults r = [])"

text \<open>Every text held for a key reads as the value the source has for it, or does not read.\<close>

definition coherent :: "'a codec \<Rightarrow> (string \<Rightarrow> 'a) \<Rightarrow> CacheService \<Rightarrow> bool" where
  "coherent cd src c \<longleftrightarrow>
     (\<forall>key s. l1_text c key = Some s \<or> l2_text c key = Some s \<longrightarrow>
        read_value cd s = None \<or> read_value cd s = Some (src key))"

lemma cache_key_inj [simp]: "cache_key k = cache_key k' \<longleftrightarrow> k = k'"
  by (simp add: cache_key_def)

lemma l1_fresh_text: "l1_fresh c key = Some s \<Longrightarrow> l1_text c key = Some s"
  by (auto simp: l1_fresh_def l1_text_def split: option.splits if_splits)

lemma cache_frames [simp]:
  "l2_text (c\<lparr>cs_hits := h\<rparr>) = l2_text c" "l2_text (c\<lparr>cs_misses := m\<rparr>) = l2_text c"
  "l2_text (c\<lparr>cs_l1 := l\<rparr>) = l2_text c"
  "l1_text (c\<lparr>cs_hits := h\<rparr>) = l1_text c" "l1_text (c\<lparr>cs_misses := m\<rparr>) = l1_text c"
  "redis_healthy (c\<lparr>cs_hits := h\<rparr>) = redis_healthy c"
  "redis_healthy (c\<lparr>cs_misses := m\<rparr>) = redis_healthy c"
  "redis_healthy (c\<lparr>cs_l1 := l\<rparr>) = redis_healthy c"
  "get_stats (c\<lparr>cs_hits := h\<rparr>) = (h, cs_misses c)" "get_stats (c\<lparr>cs_misses := m\<rparr>) = (cs_hits c, m)"
  "get_stats (c\<lparr>cs_l1 := l\<rparr>) = get_stats c"
  by (simp_all add: fun_eq_iff l2_text_def l1_text_def redis_healthy_def get_stats_def)

lemma l1_get_run:
  obtains c' m where "l1_get key c = (Inr m, c')" and "m = None \<or> m = l1_fresh c key"
    and "l2_text c' = l2_text c" and "redis_healthy c' = redis_healthy c"
    and "cs_now c' = cs_now c"
    and "\<And>k s. l1_text c' k = Some s \<Longrightarrow> l1_text c k = Some s"
    and "cs_evictions c = [] \<Longrightarrow> m = l1_fresh c key"
    and "get_stats c' = get_stats c" and "cs_redis c' = cs_redis c"
  by (atomize_elim)
    (auto simp: l1_get_def Let_def l1_fresh_def l1_text_def l2_text_def redis_healthy_def
      fun_eq_iff delete_conv' get_stats_def not_le split: option.splits if_splits)

lemma l1_lookup_run:
  obtains c' r where "l1_lookup cd key c = (Inr r, c')"
    and "\<And>v. r = Some v \<Longrightarrow> Option.bind (l1_fresh c key) (read_value cd) = Some v"
    and "r = None \<Longrightarrow> cs_evictions c = [] \<Longrightarrow> Option.bind (l1_fresh c key) (read_value cd) = None"
    and "l2_text c' = l2_text c" and "redis_healthy c' = redis_healthy c" and "cs_now c' = cs_now c"
    and "\<And>k s. l1_text c' k = Some s \<Longrightarrow> l1_text c k = Some s"
    and "get_stats c' = (cs_hits c + (if r = None then 0 else 1), cs_misses c)"
    and "cs_redis c' = cs_redis c"
proof -
  obtain c1 m where get: "l1_get key c = (Inr m, c1)" by (rule l1_get_run)
  have m: "m = None \<or> m = l1_fresh c key" "cs_evictions c = [] \<Longrightarrow> m = l1_fresh c key"
    and frame: "l2_text c1 = l2_text c" "redis_healthy c1 = redis_healthy c" "cs_now c1 = cs_now c"
      "get_stats c1 = get_stats c" "cs_redis c1 = cs_redis c"
    and l1: "\<And>k s. l1_text c1 k = Some s \<Longrightarrow> l1_text c k = Some s"
    by (rule l1_get_run [of key c], use get in simp)+
  show thesis
  proof (cases "Option.bind m (read_value cd)")
    case None
    then have "l1_lookup cd key c = (Inr None, c1)"
      using get by (simp add: l1_lookup_def io_bind_run io_return_def)
    from that [OF this] m None frame l1 show thesis by (auto simp: get_stats_def)
  next
    case (Some v)
    then have b: "Option.bind (l1_fresh c key) (read_value cd) = Some v" using m(1) by auto
    let ?c2 = "c1\<lparr>cs_hits := cs_hits c1 + 1\<rparr>"
    have run: "l1_lookup cd key c = (Inr (Some v), ?c2)"
      using get Some by (simp add: l1_lookup_def io_bind_run io_return_def io_modify_def count_hit_def)
    show thesis
      by (rule that [OF run])
        (use frame l1 b in \<open>auto simp: get_stats_def\<close>)
  qed
qed

lemma cache_get_healthy:
  assumes "redis_healthy c"
  shows "cache_get key c = (Inr (l2_text c key),
    if l2_text c key = None then c\<lparr>cs_misses := cs_misses c + 1\<rparr> else c\<lparr>cs_hits := cs_hits c + 1\<rparr>)"
  using assms by (cases "cs_redis c")
    (auto simp: cache_get_def on_redis_def redis_get_def io_get_def l2_text_def redis_healthy_def
      live_value_def split: option.splits)

lemma l2_lookup_run:
  assumes "redis_healthy c"
  obtains c' r where "l2_lookup cd key c = (Inr r, c')"
    and "r = Option.bind (l2_text c key) (read_value cd)"
    and "l2_text c' = l2_text c" and "redis_healthy c'" and "cs_now c' = cs_now c"
    and "\<And>k s. l1_text c' k = Some s \<Longrightarrow> l1_text c k = Some s \<or> k = key \<and> l2_text c key = Some s"
    and "l2_text c key = None \<Longrightarrow> get_stats c' = (cs_hits c, cs_misses c + 1)"
    and "r \<noteq> None \<Longrightarrow> get_stats c' = (cs_hits c + 2, cs_misses c)"
    and "r = None \<Longrightarrow> l1_text c' = l1_text c"
proof (cases "l2_text c key")
  case None
  then have "l2_lookup cd key c = (Inr None, c\<lparr>cs_misses := cs_misses c + 1\<rparr>)"
    using cache_get_healthy [OF assms, of key] by (simp add: l2_lookup_def io_bind_run io_return_def)
  from that [OF this] None assms show thesis
    by simp
next
  case s: (Some s)
  show thesis
  proof (cases "read_value cd s")
    case None
    then have "l2_lookup cd key c = (Inr None, c\<lparr>cs_hits := cs_hits c + 1\<rparr>)"
      using cache_get_healthy [OF assms, of key] s by (simp add: l2_lookup_def io_bind_run io_return_def)
    from that [OF this] None s assms show thesis by simp
  next
    case (Some v)
    let ?c1 = "c\<lparr>cs_hits := cs_hits c + 1 + 1, cs_l1 := AList.update key (s, cs_now c) (cs_l1 c)\<rparr>"
    have run: "l2_lookup cd key c = (Inr (Some v), ?c1)"
      using cache_get_healthy [OF assms, of key] s Some
      by (simp add: l2_lookup_def io_bind_run io_return_def io_modify_def count_hit_def l1_insert_def)
    show thesis
      by (rule that [OF run])
        (use Some s assms in \<open>auto simp: l1_text_def get_stats_def update_conv' split: if_splits\<close>)
  qed
qed

lemma cache_set_healthy:
  assumes "redis_healthy c"
  shows "cache_set_with_ttl key s ttl c = (Inr (), c\<lparr>cs_redis := map_option (\<lambda>r.
    put_entry (prefix_key r (cache_key key)) s
      (if 0 < ttl then Some (rd_now r + unat ttl) else None) r) (cs_redis c)\<rparr>)"
  using assms by (cases "cs_redis c")
    (simp_all add: cache_set_with_ttl_def on_redis_def redis_set_with_ttl_def io_modify_def
      redis_healthy_def)

lemma store_value_run:
  assumes "redis_healthy c" and "codec_ok cd"
  obtains c' s where "store_value cd key ttl v c = (Inr (), c')"
    and "read_value cd s = Some v" and "print_value cd v = Inr s" and "redis_healthy c'"
    and "cs_now c' = cs_now c" and "l1_text c' = (l1_text c)(key \<mapsto> s)"
    and "l1_fresh c' key = Some s"
    and "\<And>k x. l2_text c' k = Some x \<Longrightarrow> l2_text c k = Some x \<or> k = key \<and> x = s"
    and "get_stats c' = get_stats c"
proof -
  obtain s where s: "print_value cd v = Inr s" "read_value cd s = Some v"
    using assms(2) unfolding codec_ok_def by blast
  let ?c1 = "c\<lparr>cs_l1 := AList.update key (s, cs_now c) (cs_l1 c)\<rparr>"
  let ?c' = "?c1\<lparr>cs_redis := map_option (\<lambda>r. put_entry (prefix_key r (cache_key key)) s
      (if 0 < ttl then Some (rd_now r + unat ttl) else None) r) (cs_redis c)\<rparr>"
  have "redis_healthy ?c1" using assms(1) by (simp add: redis_healthy_def)
  then have run: "store_value cd key ttl v c = (Inr (), ?c')"
    using s cache_set_healthy [of ?c1 key s ttl]
    by (simp add: store_value_def l1_insert_def io_modify_def io_bind_run)
  have l2: "l2_text c k = Some x \<or> k = key \<and> x = s" if "l2_text ?c' k = Some x" for k x
    using that by (cases "cs_redis c") (auto simp: l2_text_def live_value_def live_entry_put split: if_splits)
  show thesis
    by (rule that [OF run s(2,1)])
      (use assms(1) l2 in \<open>auto simp: redis_healthy_def get_stats_def l1_text_def l1_fresh_def L1_TTL_def
        fun_eq_iff update_conv'\<close>)
qed

section \<open>Lookups\<close>

lemma on_cache_run: "m c = (r, c') \<Longrightarrow> on_cache m (c, s) = (r, (c', s))"
  by (simp add: on_cache_def)

lemma on_source_run: "m s = (r, s') \<Longrightarrow> on_source m (c, s) = (r, (c, s'))"
  by (simp add: on_source_def)

lemmas cache_run = get_or_insert_with_def get_or_insert_with_skip_none_def io_bind_run
  on_cache_run on_source_run io_return_def

lemma count_miss_run: "count_miss c = (Inr (), c\<lparr>cs_misses := cs_misses c + 1\<rparr>)"
  by (simp add: count_miss_def io_modify_def)

text \<open>A lookup of the two levels when Redis answers: served by the memory, served by Redis, or
  nothing found. \<open>keeps key c c'\<close>: Redis holds what it held, and the memory at most gained for
  \<open>key\<close> the text Redis has for it.\<close>

definition keeps :: "string \<Rightarrow> CacheService \<Rightarrow> CacheService \<Rightarrow> bool" where
  "keeps key c c' \<longleftrightarrow> l2_text c' = l2_text c \<and> redis_healthy c' \<and> cs_now c' = cs_now c \<and>
     (\<forall>k x. l1_text c' k = Some x \<longrightarrow> l1_text c k = Some x \<or> k = key \<and> l2_text c key = Some x)"

lemma lookup_levels_cases:
  assumes "redis_healthy c"
  obtains
    (l1) v c' where "lookup_levels cd key c = (Inr (Some v), c')" and "keeps key c c'"
      and "Option.bind (l1_fresh c key) (read_value cd) = Some v"
      and "get_stats c' = (cs_hits c + 1, cs_misses c)"
  | (l2) v c' where "lookup_levels cd key c = (Inr (Some v), c')" and "keeps key c c'"
      and "Option.bind (l2_text c key) (read_value cd) = Some v"
      and "get_stats c' = (cs_hits c + 2, cs_misses c)"
  | (miss) c' where "lookup_levels cd key c = (Inr None, c')" and "keeps key c c'"
      and "Option.bind (l2_text c key) (read_value cd) = None"
      and "cs_evictions c = [] \<Longrightarrow> Option.bind (l1_fresh c key) (read_value cd) = None"
      and "l2_text c key = None \<Longrightarrow> get_stats c' = (cs_hits c, cs_misses c + 1)"
proof -
  obtain c1 r1 where run1: "l1_lookup cd key c = (Inr r1, c1)" by (rule l1_lookup_run)
  have r1: "\<And>v. r1 = Some v \<Longrightarrow> Option.bind (l1_fresh c key) (read_value cd) = Some v"
      "r1 = None \<Longrightarrow> cs_evictions c = [] \<Longrightarrow> Option.bind (l1_fresh c key) (read_value cd) = None"
    and k1: "keeps key c c1"
    and st1: "get_stats c1 = (cs_hits c + (if r1 = None then 0 else 1), cs_misses c)"
    by (rule l1_lookup_run [where cd = cd and key = key and c = c],
        use run1 assms in \<open>auto simp: keeps_def\<close>)+
  show thesis
  proof (cases r1)
    case (Some v)
    then have "lookup_levels cd key c = (Inr (Some v), c1)"
      using run1 by (simp add: lookup_levels_def io_bind_run io_return_def)
    then show thesis by (rule l1) (use k1 r1(1) st1 Some in simp_all)
  next
    case None
    have h1: "redis_healthy c1" and l2c1: "l2_text c1 = l2_text c" using k1 by (simp_all add: keeps_def)
    obtain c2 r2 where run2: "l2_lookup cd key c1 = (Inr r2, c2)" by (rule l2_lookup_run [OF h1])
    have r2: "r2 = Option.bind (l2_text c key) (read_value cd)" and k2: "keeps key c1 c2"
      and st2: "l2_text c key = None \<Longrightarrow> get_stats c2 = (cs_hits c1, cs_misses c1 + 1)"
        "r2 \<noteq> None \<Longrightarrow> get_stats c2 = (cs_hits c1 + 2, cs_misses c1)"
      by (rule l2_lookup_run [OF h1, where cd = cd and key = key],
          use run2 l2c1 in \<open>auto simp: keeps_def\<close>)+
    have k: "keeps key c c2" using k1 k2 unfolding keeps_def by metis
    have run: "lookup_levels cd key c = (Inr r2, c2)"
      using run1 run2 None by (simp add: lookup_levels_def io_bind_run)
    have counts: "cs_hits c1 = cs_hits c" "cs_misses c1 = cs_misses c"
      using st1 None by (simp_all add: get_stats_def)
    show thesis
    proof (cases r2)
      case (Some v)
      with run show thesis using l2 [of v c2] k r2 st2(2) counts by simp
    next
      case None
      with run show thesis
        using miss [of c2] k r2 r1(2) \<open>r1 = None\<close> st2(1) counts by simp
    qed
  qed
qed

lemma miss_filled:
  assumes "lookup_levels cd key c = (Inr None, c1)" and "keeps key c c1" and "codec_ok cd"
  obtains c' x where "\<And>f s s'. f s = (Inr v, s') \<Longrightarrow>
      get_or_insert_with cd key ttl f (c, s) = (Inr v, (c', s'))"
    and "\<And>f s s'. f s = (Inr (Some v), s') \<Longrightarrow>
      get_or_insert_with_skip_none cd key ttl f (c, s) = (Inr (Some v), (c', s'))"
    and "read_value cd x = Some v" and "redis_healthy c'" and "cs_now c' = cs_now c"
    and "l1_fresh c' key = Some x"
    and "\<And>k y. l1_text c' k = Some y \<or> l2_text c' k = Some y \<Longrightarrow>
       l1_text c k = Some y \<or> l2_text c k = Some y \<or> k = key \<and> y = x"
    and "get_stats c' = (cs_hits c1, cs_misses c1 + 1)"
proof -
  let ?c2 = "c1\<lparr>cs_misses := cs_misses c1 + 1\<rparr>"
  have h: "redis_healthy ?c2" using assms(2) by (simp add: keeps_def)
  obtain c' x where run: "store_value cd key ttl v ?c2 = (Inr (), c')"
    and x: "read_value cd x = Some v" "print_value cd v = Inr x"
    by (rule store_value_run [OF h assms(3)])
  have f: "redis_healthy c'" "cs_now c' = cs_now c" "l1_text c' = (l1_text c1)(key \<mapsto> x)"
      "l1_fresh c' key = Some x" "get_stats c' = (cs_hits c1, cs_misses c1 + 1)"
    and t: "\<And>k y. l2_text c' k = Some y \<Longrightarrow> l2_text c k = Some y \<or> k = key \<and> y = x"
    by (rule store_value_run [OF h assms(3), of key ttl v], use run x assms(2) in \<open>auto simp: keeps_def\<close>)+
  show thesis
  proof (rule that [OF _ _ x(1) f(1,2,4) _ f(5)])
    show "get_or_insert_with cd key ttl f (c, s) = (Inr v, (c', s'))" if "f s = (Inr v, s')" for f s s'
      using that assms(1) run by (simp add: cache_run count_miss_run)
    show "get_or_insert_with_skip_none cd key ttl f (c, s) = (Inr (Some v), (c', s'))"
      if "f s = (Inr (Some v), s')" for f s s'
      using that assms(1) run by (simp add: cache_run count_miss_run)
  qed (use f(3) t assms(2) in \<open>auto simp: keeps_def split: if_splits\<close>)
qed

section \<open>Transparency\<close>

text \<open>A lookup that returns what the source would, as long as the state is coherent with it, and
  keeps the state so.\<close>

locale read_through =
  fixes get :: "'k \<Rightarrow> ('w, 'v) io"
    and coh :: "('k \<Rightarrow> 'v) \<Rightarrow> 'w \<Rightarrow> bool"
  assumes get_coh: "coh src w \<Longrightarrow> \<exists>w'. get k w = (Inr (src k), w') \<and> coh src w'"
begin

lemma get_run:
  assumes "coh src w"
  obtains w' where "get k w = (Inr (src k), w')" and "coh src w'"
  using get_coh [OF assms] by blast

lemma lookups:
  "coh src w \<Longrightarrow> \<exists>w'. io_mapM get ks w = (Inr (map src ks), w') \<and> coh src w'"
proof (induction ks arbitrary: w)
  case Nil
  then show ?case by (simp add: io_return_def)
next
  case (Cons k ks)
  obtain w1 where w1: "get k w = (Inr (src k), w1)" "coh src w1" using Cons.prems by (rule get_run)
  with Cons.IH show ?case by (force simp: io_bind_run io_return_def)
qed

end

definition source_coherent ::
  "'a codec \<Rightarrow> (string \<Rightarrow> ('s, 'a) io) \<Rightarrow> (string \<Rightarrow> 'a) \<Rightarrow> CacheService \<times> 's \<Rightarrow> bool" where
  "source_coherent cd f src w \<longleftrightarrow>
     codec_ok cd \<and> redis_healthy (fst w) \<and> coherent cd src (fst w) \<and>
     (\<forall>k. f k (snd w) = (Inr (src k), snd w))"

lemma coherent_keeps: "coherent cd src c \<Longrightarrow> keeps key c c' \<Longrightarrow> coherent cd src c'"
  unfolding coherent_def keeps_def by metis

lemma coherent_l1:
  assumes "coherent cd src c" and "Option.bind (l1_fresh c key) (read_value cd) = Some v"
  shows "v = src key"
proof -
  obtain s where "l1_text c key = Some s" and "read_value cd s = Some v"
    using assms(2) l1_fresh_text by (cases "l1_fresh c key") auto
  then show ?thesis using assms(1) unfolding coherent_def by fastforce
qed

lemma coherent_l2:
  assumes "coherent cd src c" and "Option.bind (l2_text c key) (read_value cd) = Some v"
  shows "v = src key"
proof -
  obtain s where "l2_text c key = Some s" and "read_value cd s = Some v"
    using assms(2) by (cases "l2_text c key") auto
  then show ?thesis using assms(1) unfolding coherent_def by fastforce
qed

lemma get_or_insert_coherent:
  fixes f :: "string \<Rightarrow> ('s, 'a) io"
  assumes "source_coherent cd f src (c, s)"
  shows "\<exists>w'. get_or_insert_with cd k ttl (f k) (c, s) = (Inr (src k), w') \<and> source_coherent cd f src w'"
proof -
  have ok: "codec_ok cd" "redis_healthy c" "coherent cd src c" "\<forall>k. f k s = (Inr (src k), s)"
    using assms by (simp_all add: source_coherent_def)
  from ok(2) show ?thesis
  proof (cases rule: lookup_levels_cases [where cd = cd and key = k])
    case (l1 v c')
    then show ?thesis
      using ok coherent_l1 [OF ok(3) l1(3)] coherent_keeps [OF ok(3) l1(2)]
      by (simp add: cache_run source_coherent_def keeps_def)
  next
    case (l2 v c')
    then show ?thesis
      using ok coherent_l2 [OF ok(3) l2(3)] coherent_keeps [OF ok(3) l2(2)]
      by (simp add: cache_run source_coherent_def keeps_def)
  next
    case (miss c1)
    obtain c' x where run: "\<And>(f :: ('s, 'a) io) s s'. f s = (Inr (src k), s') \<Longrightarrow>
        get_or_insert_with cd k ttl f (c, s) = (Inr (src k), (c', s'))"
      and x: "read_value cd x = Some (src k)" and h: "redis_healthy c'"
      and t: "\<And>k' y. l1_text c' k' = Some y \<or> l2_text c' k' = Some y \<Longrightarrow>
         l1_text c k' = Some y \<or> l2_text c k' = Some y \<or> k' = k \<and> y = x"
      by (rule miss_filled [OF miss(1,2) ok(1), of "src k" ttl]) (rule that, assumption+)
    have "coherent cd src c'"
      using ok(3) x t unfolding coherent_def by metis
    then show ?thesis using run [of "f k" s s] h ok by (simp add: source_coherent_def)
  qed
qed

interpretation cached: read_through "\<lambda>k. get_or_insert_with cd k ttl (f k)" "source_coherent cd f"
  for cd ttl and f :: "string \<Rightarrow> ('s, 'a) io"
  by unfold_locales (metis get_or_insert_coherent surj_pair)

text \<open>C3: the cache is transparent: while Redis answers, the source is only read, and every text the
  two levels hold for a key reads as the source's value or not at all, any sequence of lookups
  returns what the source would have returned for each key, whatever the memory level drops, and
  leaves the cache in such a state.\<close>

theorem cache_transparent:
  assumes "source_coherent cd f src (c, s)"
  shows "\<exists>c' s'. io_mapM (\<lambda>k. get_or_insert_with cd k ttl (f k)) keys (c, s) = (Inr (map src keys), (c', s'))
    \<and> source_coherent cd f src (c', s')"
  using cached.lookups [OF assms, of ttl keys] by force

text \<open>a lookup never makes a value up: what it returns was put into the memory less than an hour
  ago, or is live in Redis, or comes from the source just now; the statistics count one hit for a
  lookup served by the memory but two for one served by Redis, and two misses for a lookup that
  finds nothing.\<close>

theorem cache_provenance:
  fixes f :: "('s, 'a) io"
  assumes "redis_healthy c" and "codec_ok cd"
    and "get_or_insert_with cd key ttl f (c, s) = (Inr v, (c', s'))"
  shows "Option.bind (l1_fresh c key) (read_value cd) = Some v \<and> s' = s
      \<and> get_stats c' = (cs_hits c + 1, cs_misses c)
    \<or> Option.bind (l2_text c key) (read_value cd) = Some v \<and> s' = s
      \<and> get_stats c' = (cs_hits c + 2, cs_misses c)
    \<or> f s = (Inr v, s') \<and> Option.bind (l1_fresh c' key) (read_value cd) = Some v
      \<and> Option.bind (l2_text c key) (read_value cd) = None
      \<and> (l2_text c key = None \<longrightarrow> get_stats c' = (cs_hits c, cs_misses c + 2))"
  using assms(1)
proof (cases rule: lookup_levels_cases [where cd = cd and key = key])
  case (miss c1)
  obtain r s1 where f: "f s = (r, s1)" by force
  then obtain v1 where r: "r = Inr v1"
    using assms(3) miss(1) by (cases r) (simp_all add: cache_run count_miss_run io_bind_def)
  obtain c2 x where run: "\<And>(f :: ('s, 'a) io) s s'. f s = (Inr v1, s') \<Longrightarrow>
      get_or_insert_with cd key ttl f (c, s) = (Inr v1, (c2, s'))"
    and c2: "read_value cd x = Some v1" "l1_fresh c2 key = Some x" "get_stats c2 = (cs_hits c1, cs_misses c1 + 1)"
    by (rule miss_filled [OF miss(1,2) assms(2), of v1 ttl]) (rule that, assumption+)
  have "v1 = v" "c2 = c'" "s1 = s'" using run [of f s s1] f r assms(3) by simp_all
  then show ?thesis using f r c2 miss by (auto simp: get_stats_def)
qed (use assms(3) in \<open>simp_all add: cache_run\<close>)

lemma lookup_levels_absent:
  assumes "redis_healthy c" and "l1_text c key = None" and "l2_text c key = None"
  obtains c' where "lookup_levels cd key c = (Inr None, c')" and "keeps key c c'"
  using assms(1)
proof (cases rule: lookup_levels_cases [where cd = cd and key = key])
  case (l1 v c')
  have "l1_fresh c key = None" using l1_fresh_text [of c key] assms(2) by (cases "l1_fresh c key") auto
  with l1(3) show ?thesis by simp
qed (use assms(3) that in simp_all)

text \<open>a missing value is not cached by the variant that skips it: after a lookup for which the
  source had none, the next lookup sees a value the source has by then.\<close>

theorem missing_value_not_cached:
  fixes g :: "('s, 'a option) io"
  assumes "redis_healthy c" and "codec_ok cd" and "l1_text c key = None" and "l2_text c key = None"
    and "f s = (Inr None, s1)" and "g s1 = (Inr (Some v), s2)"
  shows "\<exists>c1 c2. get_or_insert_with_skip_none cd key ttl f (c, s) = (Inr None, (c1, s1))
    \<and> get_or_insert_with_skip_none cd key ttl g (c1, s1) = (Inr (Some v), (c2, s2))"
proof -
  obtain c0 where c0: "lookup_levels cd key c = (Inr None, c0)" "keeps key c c0"
    using assms(1,3,4) by (rule lookup_levels_absent)
  let ?c1 = "c0\<lparr>cs_misses := cs_misses c0 + 1\<rparr>"
  have first: "get_or_insert_with_skip_none cd key ttl f (c, s) = (Inr None, (?c1, s1))"
    using c0(1) assms(5) by (simp add: cache_run count_miss_run)
  have absent: "redis_healthy ?c1" "l1_text ?c1 key = None" "l2_text ?c1 key = None"
    using c0(2) assms(3,4) unfolding keeps_def by (simp_all, cases "l1_text c0 key") auto
  obtain c2 where c2: "lookup_levels cd key ?c1 = (Inr None, c2)" "keeps key ?c1 c2"
    using absent by (rule lookup_levels_absent)
  obtain c3 where "\<And>(g :: ('s, 'a option) io) s s'. g s = (Inr (Some v), s') \<Longrightarrow>
      get_or_insert_with_skip_none cd key ttl g (?c1, s) = (Inr (Some v), (c3, s'))"
    by (rule miss_filled [OF c2 assms(2), of v ttl]) (rule that, assumption+)
  from this [of g s1 s2] assms(6) first show ?thesis by blast
qed

text \<open>deleting a key clears it in Redis but not in the memory: as long as the memory still has a
  text younger than an hour, lookups return the old value, whatever the source says now and
  whatever time to live the value was stored with.\<close>

theorem delete_leaves_memory:
  assumes "redis_healthy c" and "cs_evictions c = []" and "l1_fresh c key = Some x"
    and "read_value cd x = Some v"
  shows "\<exists>c1 c2. cache_delete key c = (Inr (), c1) \<and> l2_text c1 key = None
    \<and> get_or_insert_with cd key ttl f (c1, s) = (Inr v, (c2, s))"
proof -
  let ?c1 = "c\<lparr>cs_redis := map_option (\<lambda>r. drop_entry (prefix_key r (cache_key key)) r) (cs_redis c)\<rparr>"
  have del: "cache_delete key c = (Inr (), ?c1)"
    using assms(1) by (cases "cs_redis c")
      (simp_all add: cache_delete_def on_redis_def redis_delete_def io_modify_def redis_healthy_def)
  have l2: "l2_text ?c1 key = None"
    by (cases "cs_redis c") (simp_all add: l2_text_def live_value_def live_entry_drop)
  have h: "redis_healthy ?c1" using assms(1) by (auto simp: redis_healthy_def)
  have fresh: "l1_fresh ?c1 key = Some x" "cs_evictions ?c1 = []"
    using assms(2,3) by (simp_all add: l1_fresh_def cong: option.case_cong)
  from h show ?thesis
  proof (cases rule: lookup_levels_cases [where cd = cd and key = key])
    case (l1 w c2)
    then show ?thesis using del l2 fresh assms(4) by (auto simp: cache_run)
  next
    case (l2 w c2)
    then show ?thesis using \<open>l2_text ?c1 key = None\<close> by simp
  next
    case (miss c2)
    then show ?thesis using fresh assms(4) by simp
  qed
qed

section \<open>Witnesses\<close>

definition text_codec :: "string codec" where
  "text_codec = \<lparr> simd_to = Some, simd_from = Some, serde_to = Inr, serde_from = Some, utf8_ok = (\<lambda>_. True) \<rparr>"

definition sample_cache :: CacheService where
  "sample_cache = (CacheService_new (Some (RedisClient_new ''dev'' [(''dev:cache:a'', ''x'', Some 90)] 20 [])) ''dev'' 20 [])
     \<lparr>cs_l1 := [(''b'', ''y'', 10)]\<rparr>"

lemma text_codec_ok: "codec_ok text_codec"
  by (simp add: codec_ok_def text_codec_def print_value_def read_value_def)

lemma read_text [simp]: "read_value text_codec t = Some t"
  by (simp add: text_codec_def read_value_def)

lemma sample_cache_texts:
  "redis_healthy sample_cache" "cs_evictions sample_cache = []"
  "l1_text sample_cache k = (if k = ''b'' then Some ''y'' else None)"
  "l1_fresh sample_cache ''b'' = Some ''y''"
  "l2_text sample_cache k = (if k = ''a'' then Some ''x'' else None)"
  by (auto simp: sample_cache_def CacheService_new_def redis_healthy_def RedisClient_new_def l1_text_def
      l1_fresh_def L1_TTL_def l2_text_def live_value_def live_entry_def unexpired_def prefix_key_def
      cache_key_def normalize_env_for_redis_def normalize_env_for_ssm_def)

definition letter_source :: "string \<Rightarrow> string" where
  "letter_source k = (if k = ''a'' then ''x'' else if k = ''b'' then ''y'' else ''z'')"

theorem cache_transparent_witness:
  "\<exists>c' s'. io_mapM (\<lambda>k. get_or_insert_with text_codec k 60 (io_return (letter_source k)))
     [''a'', ''b'', ''c'', ''c''] (sample_cache, ()) = (Inr [''x'', ''y'', ''z'', ''z''], (c', s'))"
proof -
  have "source_coherent text_codec (\<lambda>k. io_return (letter_source k)) letter_source (sample_cache, ())"
    by (auto simp: source_coherent_def text_codec_ok sample_cache_texts coherent_def letter_source_def
        io_return_def split: if_splits)
  from cache_transparent [OF this, of 60 "[''a'', ''b'', ''c'', ''c'']"] show ?thesis
    by (auto simp: letter_source_def)
qed

theorem cache_provenance_witness:
  "\<exists>c'. get_or_insert_with text_codec ''a'' 60 (io_return ''new'') (sample_cache, ()) = (Inr ''x'', (c', ()))
     \<and> get_stats c' = (2, 0)"
proof -
  have "\<exists>v c'. get_or_insert_with text_codec ''a'' 60 (io_return ''new'') (sample_cache, ()) = (Inr v, (c', ()))"
    using sample_cache_texts(1)
    by (cases rule: lookup_levels_cases [where cd = text_codec and key = "''a''"])
      (auto simp: cache_run sample_cache_texts)
  then obtain v c' where r: "get_or_insert_with text_codec ''a'' 60 (io_return ''new'') (sample_cache, ()) = (Inr v, (c', ()))"
    by blast
  have "l1_fresh sample_cache ''a'' = None" "cs_hits sample_cache = 0" "cs_misses sample_cache = 0"
    by (simp_all add: sample_cache_def l1_fresh_def CacheService_new_def)
  with cache_provenance [OF sample_cache_texts(1) text_codec_ok r] r show ?thesis
    by (auto simp: sample_cache_texts)
qed

theorem missing_value_not_cached_witness:
  "\<exists>c1 c2. get_or_insert_with_skip_none text_codec ''q'' 60 (io_return None) (sample_cache, ()) = (Inr None, (c1, ()))
    \<and> get_or_insert_with_skip_none text_codec ''q'' 60 (io_return (Some ''w'')) (c1, ()) = (Inr (Some ''w''), (c2, ()))"
  by (rule missing_value_not_cached) (simp_all add: sample_cache_texts text_codec_ok io_return_def)

theorem delete_leaves_memory_witness:
  "\<exists>c1 c2. cache_delete ''b'' sample_cache = (Inr (), c1) \<and> l2_text c1 ''b'' = None
    \<and> get_or_insert_with text_codec ''b'' 60 (io_return ''new'') (c1, ()) = (Inr ''y'', (c2, ()))"
  by (rule delete_leaves_memory) (simp_all add: sample_cache_texts)

end
