(* ===== verification/World.thy ===== *)
theory World
  imports WriteBehind Cache Metrics
begin

text \<open>
  The state the routers share, and the effects of their environment. A \<open>world\<close> holds the
  write-behind queue (whose database is the database), the cache, the metrics and the timing
  record. What the environment decides is prescribed by lists that are consumed from the front:
  the random draws, the durations measured, the replies of HTTP servers, whether a task met its
  deadline, and the order in which concurrent tasks complete; when a list is used up the draw or
  duration is 0, the server cannot be reached, the deadline is met and tasks complete in the order
  they were started. Every HTTP request is recorded in \<open>w_requests\<close>.
  \<open>Utc::now()\<close> is the clock of the database. Delays injected for testing and log output have no
  effect on the state.
\<close>

section \<open>State\<close>

datatype http_reply = HttpFail error | HttpReply nat "string result"

text \<open>How the deadline of a task came out: it was met, or the task was dropped, before it had any
  effect or after it had its effects.\<close>

datatype deadline = Met | CutBefore | CutAfter

record http_request =
  hr_endpoint :: string
  hr_payload :: json

record world =
  w_queue :: WriteBehindQueue
  w_cache :: CacheService
  w_metrics :: DiagnosticMetrics
  w_timing :: AtomicAuctionTiming
  w_random :: "128 word list"
  w_elapsed :: "u64 list"
  w_http :: "http_reply list"
  w_requests :: "http_request list"
  w_deadlines :: "deadline list"
  w_orders :: "nat list list"

abbreviation w_db :: "world \<Rightarrow> db" where
  "w_db w \<equiv> wq_db (w_queue w)"

definition set_db :: "db \<Rightarrow> world \<Rightarrow> world" where
  "set_db d w = w\<lparr>w_queue := (w_queue w)\<lparr>wq_db := d\<rparr>\<rparr>"

section \<open>Effects\<close>

fun pop :: "'a \<Rightarrow> 'a list \<Rightarrow> 'a" where
  "pop d [] = d"
| "pop d (x # xs) = x"

definition draw :: "(world, 128 word) io" where
  "draw w = (Inr (pop 0 (w_random w)), w\<lparr>w_random := tl (w_random w)\<rparr>)"

definition elapsed :: "(world, u64) io" where
  "elapsed w = (Inr (pop 0 (w_elapsed w)), w\<lparr>w_elapsed := tl (w_elapsed w)\<rparr>)"

definition met_deadline :: "(world, deadline) io" where
  "met_deadline w = (Inr (pop Met (w_deadlines w)), w\<lparr>w_deadlines := tl (w_deadlines w)\<rparr>)"

definition completion_order :: "nat \<Rightarrow> (world, nat list) io" where
  "completion_order n w =
     (let order = pop [0..<n] (w_orders w) in
      (Inr (if distinct order \<and> set order = {0..<n} then order else [0..<n]),
       w\<lparr>w_orders := tl (w_orders w)\<rparr>))"

definition current_time :: "(world, timestamp) io" where
  "current_time = io_get (\<lambda>w. db_now (w_db w))"

definition http_post :: "string \<Rightarrow> json \<Rightarrow> (world, nat \<times> string result) io" where
  "http_post endpoint payload w =
     (let w' = w\<lparr>w_http := tl (w_http w),
                 w_requests := w_requests w @ [\<lparr> hr_endpoint = endpoint, hr_payload = payload \<rparr>]\<rparr> in
      case pop (HttpFail ''connection refused'') (w_http w) of
        HttpFail e \<Rightarrow> (Inl (''HTTP request failed: '' @ e), w')
      | HttpReply status body \<Rightarrow> (Inr (status, body), w'))"

definition on_db :: "(db, 'a) io \<Rightarrow> (world, 'a) io" where
  "on_db m w = (case m (w_db w) of (r, d) \<Rightarrow> (r, set_db d w))"

definition on_cached_db :: "(CacheService \<times> db, 'a) io \<Rightarrow> (world, 'a) io" where
  "on_cached_db m w =
     (case m (w_cache w, w_db w) of (r, (c, d)) \<Rightarrow> (r, set_db d (w\<lparr>w_cache := c\<rparr>)))"

definition on_metrics :: "(DiagnosticMetrics \<Rightarrow> DiagnosticMetrics) \<Rightarrow> (world, unit) io" where
  "on_metrics f = io_modify (\<lambda>w. w\<lparr>w_metrics := f (w_metrics w)\<rparr>)"

definition on_timing :: "(AtomicAuctionTiming \<Rightarrow> AtomicAuctionTiming) \<Rightarrow> (world, unit) io" where
  "on_timing f = io_modify (\<lambda>w. w\<lparr>w_timing := f (w_timing w)\<rparr>)"

definition enqueue_task :: "BackgroundTask \<Rightarrow> (world, unit) io" where
  "enqueue_task task = io_modify (\<lambda>w. w\<lparr>w_queue := enqueue task (w_queue w)\<rparr>)"

definition io_when :: "bool \<Rightarrow> ('s, unit) io \<Rightarrow> ('s, unit) io" where
  "io_when b m = (if b then m else io_return ())"

definition io_ok_or :: "'a option \<Rightarrow> error \<Rightarrow> ('s, 'a) io" where
  "io_ok_or m e = (case m of Some x \<Rightarrow> io_return x | None \<Rightarrow> io_err e)"

text \<open>The bytes of \<open>rand::random::<[u8; 6]>()\<close>, and the ids drawn by \<open>Uuid::new_v4()\<close>.\<close>

definition six_bytes :: "128 word \<Rightarrow> string" where
  "six_bytes x = map (\<lambda>i. char_of (unat (drop_bit (8 * i) x) mod 256)) [0..<6]"

definition draw_uuid :: "(world, uuid) io" where
  "draw_uuid = draw"

section \<open>Frames\<close>

text \<open>\<open>frame f m\<close>: running \<open>m\<close> leaves the part \<open>f\<close> of the state alone, whether it succeeds or
  fails.\<close>

definition frame :: "('s \<Rightarrow> 'p) \<Rightarrow> ('s, 'a) io \<Rightarrow> bool" where
  "frame f m \<longleftrightarrow> (\<forall>s. f (snd (m s)) = f s)"

named_theorems frame_intros \<open>Introduction rules for \<open>frame\<close>\<close>

lemma frameD: "frame f m \<Longrightarrow> m s = (r, s') \<Longrightarrow> f s' = f s"
  unfolding frame_def by (metis snd_conv)

lemma frame_basic [frame_intros]:
  "frame f (io_return x)" "frame f (io_err e)" "frame f (io_get g)" "frame f (io_ok_or m e)"
  by (simp_all add: frame_def io_simps io_ok_or_def split: option.split)

lemma frame_bind [frame_intros]:
  assumes "frame f m" and "\<And>x. frame f (g x)"
  shows "frame f (io_bind m g)"
  using assms by (auto simp: frame_def io_bind_def split: prod.split sum.split) (metis snd_conv)+

lemma frame_try [frame_intros]: "frame f m \<Longrightarrow> frame f (io_try m)"
  by (auto simp: frame_def io_try_def split: prod.split) (metis snd_conv)

lemma frame_map_err [frame_intros]: "frame f m \<Longrightarrow> frame f (io_map_err g m)"
  by (auto simp: frame_def io_map_err_def split: prod.split sum.split) (metis snd_conv)+

lemma frame_cases [frame_intros]:
  "frame f a \<Longrightarrow> frame f b \<Longrightarrow> frame f (if c then a else b)"
  "frame f a \<Longrightarrow> (\<And>x. frame f (g x)) \<Longrightarrow> frame f (case mo of None \<Rightarrow> a | Some x \<Rightarrow> g x)"
  "(\<And>e. frame f (h e)) \<Longrightarrow> (\<And>x. frame f (g x)) \<Longrightarrow> frame f (case r of Inl e \<Rightarrow> h e | Inr x \<Rightarrow> g x)"
  "(\<And>x y. frame f (k x y)) \<Longrightarrow> frame f (case p of (x, y) \<Rightarrow> k x y)"
  by (auto split: option.split sum.split prod.split)

lemma frame_io_when [frame_intros]: "frame f m \<Longrightarrow> frame f (io_when b m)"
  by (simp add: io_when_def frame_intros)

lemma frame_let [frame_intros]: "frame f (g x) \<Longrightarrow> frame f (let y = x in g y)"
  by simp

lemma frame_iter [frame_intros]: "(\<And>x. frame f (g x)) \<Longrightarrow> frame f (io_iter g xs)"
  by (induction xs) (auto intro: frame_intros)

lemma frame_mapM [frame_intros]: "(\<And>x. frame f (g x)) \<Longrightarrow> frame f (io_mapM g xs)"
  by (induction xs) (auto intro!: frame_intros)

lemma frame_modify: "(\<And>s. f (g s) = f s) \<Longrightarrow> frame f (io_modify g)"
  by (simp add: frame_def io_modify_def)

lemma set_db_simps [simp]:
  "w_db (set_db d w) = d" "w_cache (set_db d w) = w_cache w" "w_requests (set_db d w) = w_requests w"
  "w_metrics (set_db d w) = w_metrics w" "w_timing (set_db d w) = w_timing w"
  "w_random (set_db d w) = w_random w" "w_queue (set_db d w) = (w_queue w)\<lparr>wq_db := d\<rparr>"
  by (simp_all add: set_db_def)

lemma requests_frame [frame_intros]:
  "frame w_requests draw" "frame w_requests elapsed" "frame w_requests met_deadline"
  "frame w_requests (completion_order n)" "frame w_requests current_time"
  "frame w_requests (on_db m)" "frame w_requests (on_cached_db m')"
  "frame w_requests (on_metrics f)" "frame w_requests (on_timing g)" "frame w_requests (enqueue_task t)"
  "frame w_requests draw_uuid"
  by (simp_all add: frame_def draw_def elapsed_def met_deadline_def completion_order_def Let_def
      current_time_def io_get_def on_db_def on_cached_db_def on_metrics_def on_timing_def
      enqueue_task_def io_modify_def draw_uuid_def split: prod.split)

lemma queue_frame [frame_intros]:
  "frame w_queue draw" "frame w_queue elapsed" "frame w_queue met_deadline"
  "frame w_queue (completion_order n)" "frame w_queue current_time" "frame w_queue (http_post e p)"
  "frame w_queue (on_metrics f)" "frame w_queue (on_timing g)" "frame w_queue draw_uuid"
  by (simp_all add: frame_def draw_def elapsed_def met_deadline_def completion_order_def Let_def
      current_time_def io_get_def on_metrics_def on_timing_def http_post_def
      io_modify_def draw_uuid_def split: prod.split http_reply.split)

section \<open>Tables and queue\<close>

text \<open>The tables of a database, and the queue with the tables: what a component that only reads
  leaves alone.\<close>

definition tables :: "db \<Rightarrow> db" where
  "tables d = d\<lparr>db_faults := []\<rparr>"

definition quiet :: "world \<Rightarrow> WriteBehindQueue" where
  "quiet w = (w_queue w)\<lparr>wq_db := tables (w_db w)\<rparr>"

lemma tables_faults [simp]: "tables (d\<lparr>db_faults := fs\<rparr>) = tables d"
  by (simp add: tables_def)

lemma frame_tables [frame_intros]: "frame tables (db_query f)"
  by (auto simp: frame_def db_query_def db_stmt_def io_get_def split: list.split option.split)

lemma frame_tables_optional [frame_intros]: "frame tables (db_query_optional f)"
  by (simp add: db_query_optional_def frame_intros)

lemma frame_on_cache [frame_intros]: "frame (tables \<circ> snd) (on_cache m)"
  by (auto simp: frame_def on_cache_def split: prod.split)

lemma frame_on_source [frame_intros]: "frame tables m \<Longrightarrow> frame (tables \<circ> snd) (on_source m)"
  unfolding frame_def on_source_def by (auto split: prod.split) (metis snd_conv)

lemma frame_get_or_insert [frame_intros]:
  "frame tables f \<Longrightarrow> frame (tables \<circ> snd) (get_or_insert_with cd key ttl f)"
  "frame tables g \<Longrightarrow> frame (tables \<circ> snd) (get_or_insert_with_skip_none cd key ttl g)"
  unfolding get_or_insert_with_def get_or_insert_with_skip_none_def
  by (intro frame_intros; assumption)+

lemma quiet_on_db [frame_intros]: "frame tables m \<Longrightarrow> frame quiet (on_db m)"
  unfolding frame_def on_db_def quiet_def by (auto split: prod.split) (metis snd_conv)

lemma quiet_on_cached_db [frame_intros]:
  "frame (tables \<circ> snd) m \<Longrightarrow> frame quiet (on_cached_db m)"
  unfolding frame_def on_cached_db_def quiet_def by (auto split: prod.split) (metis snd_conv)

lemma quiet_frame [frame_intros]: "frame w_queue m \<Longrightarrow> frame quiet m"
  by (simp add: frame_def quiet_def)

section \<open>Requests sent\<close>

text \<open>\<open>sends P m\<close>: running \<open>m\<close> sends only requests that satisfy \<open>P\<close>.\<close>

named_theorems sends_intros \<open>Introduction rules for \<open>sends\<close>\<close>

definition sends :: "(http_request \<Rightarrow> bool) \<Rightarrow> (world, 'a) io \<Rightarrow> bool" where
  "sends P m \<longleftrightarrow> (\<forall>w. \<exists>reqs. w_requests (snd (m w)) = w_requests w @ reqs \<and> (\<forall>q \<in> set reqs. P q))"

lemma sends_frame: "frame w_requests m \<Longrightarrow> sends P m"
  by (simp add: frame_def sends_def)

lemma sends_http_post [sends_intros]:
  "P \<lparr> hr_endpoint = e, hr_payload = p \<rparr> \<Longrightarrow> sends P (http_post e p)"
  by (auto simp: sends_def http_post_def Let_def split: http_reply.split)

lemma sends_bind [sends_intros]:
  assumes "sends P m" and "\<And>x. sends P (f x)"
  shows "sends P (io_bind m f)"
  unfolding sends_def
proof
  fix w
  obtain r w1 where m: "m w = (r, w1)" by force
  obtain reqs where reqs: "w_requests w1 = w_requests w @ reqs" "\<forall>q \<in> set reqs. P q"
    using assms(1) m unfolding sends_def by (metis snd_conv)
  show "\<exists>reqs. w_requests (snd (io_bind m f w)) = w_requests w @ reqs \<and> (\<forall>q \<in> set reqs. P q)"
  proof (cases r)
    case (Inl e)
    then show ?thesis using m reqs by (simp add: io_bind_def)
  next
    case (Inr x)
    obtain reqs' where "w_requests (snd (f x w1)) = w_requests w1 @ reqs'" "\<forall>q \<in> set reqs'. P q"
      using assms(2) unfolding sends_def by blast
    then show ?thesis using m Inr reqs by (intro exI [of _ "reqs @ reqs'"]) (auto simp: io_bind_def)
  qed
qed

lemma sends_try [sends_intros]: "sends P m \<Longrightarrow> sends P (io_try m)"
  by (auto simp: sends_def io_try_def split: prod.split) (metis snd_conv)

lemma sends_cases [sends_intros]:
  "sends P a \<Longrightarrow> sends P b \<Longrightarrow> sends P (if c then a else b)"
  "sends P a \<Longrightarrow> (\<And>x. sends P (g x)) \<Longrightarrow> sends P (case mo of None \<Rightarrow> a | Some x \<Rightarrow> g x)"
  "(\<And>e. sends P (h e)) \<Longrightarrow> (\<And>x. sends P (g x)) \<Longrightarrow> sends P (case r of Inl e \<Rightarrow> h e | Inr x \<Rightarrow> g x)"
  by (auto split: option.split sum.split)

lemma sends_mapM [sends_intros]:
  fixes g :: "'a \<Rightarrow> (world, 'b) io"
  shows "(\<And>x. sends P (g x)) \<Longrightarrow> sends P (io_mapM g xs)"
proof (induction xs)
  case Nil
  then show ?case by (simp add: sends_frame frame_intros)
next
  case (Cons x xs)
  have "sends P (io_return y)" for y :: "'b list" by (rule sends_frame) (rule frame_intros)
  with Cons show ?case by (auto intro!: sends_bind)
qed

lemma sends_all: "sends P m \<Longrightarrow> (\<And>q. P q \<Longrightarrow> Q q) \<Longrightarrow> sends Q m"
  unfolding sends_def by blast

section \<open>A sample state\<close>

definition sample_world :: "db \<Rightarrow> world" where
  "sample_world d = \<lparr> w_queue = WriteBehindQueue_new d, w_cache = CacheService_new None ''dev'' 0 [],
     w_metrics = DiagnosticMetrics_new, w_timing = AtomicAuctionTiming_new 0, w_random = [],
     w_elapsed = [], w_http = [], w_requests = [], w_deadlines = [], w_orders = [] \<rparr>"

end
