(* ===== verification/Pulsar.thy ===== *)
theory Pulsar
  imports World Qualification Auction
begin

text \<open>
  Model of \<open>crates/core/src/services/pulsar.rs\<close>: the internal buyer, which decides with the
  qualification engine and answers with generated ids and a random bid. The asynchronous and the
  synchronous entry points are modelled side by side.
\<close>

section \<open>Generated values\<close>

definition hex_nonce :: "extlib \<Rightarrow> (world, string) io" where
  "hex_nonce X = io_bind draw (\<lambda>x. io_return (to_uppercase (hex_encode X (six_bytes x))))"

definition generate_promise_id :: "extlib \<Rightarrow> (world, string) io" where
  "generate_promise_id X = io_bind (hex_nonce X) (\<lambda>hex_str. io_return (''PROMISE_'' @ hex_str))"

definition generate_ping_id :: "extlib \<Rightarrow> string \<Rightarrow> (world, string) io" where
  "generate_ping_id X lead_id =
     io_bind current_time (\<lambda>ts_ms.
     io_bind (hex_nonce X) (\<lambda>nonce.
     io_return (''FP_'' @ b64_encode X (lead_id @ ''|'' @ show_nat ts_ms @ ''|'' @ nonce @ ''|accepted''))))"

definition generate_rejected_ping_id :: "extlib \<Rightarrow> string \<Rightarrow> (world, string) io" where
  "generate_rejected_ping_id X lead_id =
     io_bind current_time (\<lambda>ts_ms.
     io_bind (hex_nonce X) (\<lambda>nonce.
     io_return (''FP_'' @ b64_encode X (lead_id @ ''|'' @ show_nat ts_ms @ ''|'' @ nonce @ ''|rejected''))))"

definition generate_post_id :: "extlib \<Rightarrow> string \<Rightarrow> (world, string) io" where
  "generate_post_id X lead_id =
     io_bind current_time (\<lambda>now.
     io_return (''RP_'' @ b64_encode X (lead_id @ ''|'' @ utc_text X now @ ''|sold'')))"

definition random_bid :: "(world, f64) io" where
  "random_bid = io_bind draw (\<lambda>x.
     io_return (f64_of_int (uint ((ucast x :: u32) mod 200 + 100))))"

definition pulsar_lead_id :: "extlib \<Rightarrow> Lead \<Rightarrow> string" where
  "pulsar_lead_id X lead = unwrap_or (l_lead_id lead) (uuid_text X (l_uuid lead))"

definition qualifies :: "Lead \<Rightarrow> string \<Rightarrow> BuyerQualificationConfig option \<Rightarrow> bool" where
  "qualifies lead request_type config =
     q_accepted (qe_evaluate (QualificationEngine_new lead request_type config))"

section \<open>Responses\<close>

definition pulsar_rejection :: "string option \<Rightarrow> string option \<Rightarrow> BuyerResponse" where
  "pulsar_rejection ping_id promise_id = \<lparr> r_success = False, r_status = ''rejected'',
     r_error = Some ''Lead rejected by qualification rules'',
     r_message = Some ''Lead did not meet qualification requirements'',
     r_promise_id = promise_id, r_ping_id = ping_id, r_post_id = None, r_price = None, r_bid = None \<rparr>"

definition pulsar_ping_accepted :: "string \<Rightarrow> string \<Rightarrow> f64 \<Rightarrow> BuyerResponse" where
  "pulsar_ping_accepted ping_id promise_id bid = \<lparr> r_success = True, r_status = ''accepted'',
     r_error = None, r_message = Some ''Lead accepted for ping'', r_promise_id = Some promise_id,
     r_ping_id = Some ping_id, r_post_id = None, r_price = None, r_bid = Some bid \<rparr>"

definition pulsar_sold :: "string \<Rightarrow> string \<Rightarrow> f64 \<Rightarrow> BuyerResponse" where
  "pulsar_sold post_id promise_id price = \<lparr> r_success = True, r_status = ''sold'', r_error = None,
     r_message = Some ''Lead accepted and sold'', r_promise_id = Some promise_id, r_ping_id = None,
     r_post_id = Some post_id, r_price = Some price, r_bid = None \<rparr>"

section \<open>Asynchronous calls\<close>

definition route_ping_direct ::
  "extlib \<Rightarrow> Lead \<Rightarrow> BuyerQualificationConfig option \<Rightarrow> (world, BuyerResponse) io" where
  "route_ping_direct X lead config =
     (let lead_id = pulsar_lead_id X lead in
      io_bind (generate_ping_id X lead_id) (\<lambda>ping_id.
      io_bind (generate_promise_id X) (\<lambda>promise_id.
      if \<not> qualifies lead ''ping'' config
      then io_bind (generate_rejected_ping_id X lead_id) (\<lambda>rejected_ping_id.
             io_return (pulsar_rejection (Some rejected_ping_id) None))
      else io_bind random_bid (\<lambda>bid. io_return (pulsar_ping_accepted ping_id promise_id bid)))))"

definition post_price :: "f64 option \<Rightarrow> (world, f64) io" where
  "post_price ping_bid = (case ping_bid of Some bid \<Rightarrow> io_return bid | None \<Rightarrow> random_bid)"

definition route_post_direct ::
  "extlib \<Rightarrow> Lead \<Rightarrow> string \<Rightarrow> BuyerQualificationConfig option \<Rightarrow> f64 option \<Rightarrow> (world, BuyerResponse) io" where
  "route_post_direct X lead promise_id config ping_bid =
     (if \<not> qualifies lead ''post'' config then io_return (pulsar_rejection None (Some promise_id))
      else io_bind (generate_post_id X (pulsar_lead_id X lead)) (\<lambda>post_id.
           io_bind (post_price ping_bid) (\<lambda>price.
           io_return (pulsar_sold post_id promise_id price))))"

definition fullpost_response :: "BuyerResponse \<Rightarrow> BuyerResponse \<Rightarrow> BuyerResponse" where
  "fullpost_response ping post = \<lparr> r_success = r_success post, r_status = r_status post,
     r_error = r_error post, r_message = r_message post, r_promise_id = r_promise_id post,
     r_ping_id = r_ping_id ping, r_post_id = r_post_id post, r_price = r_price post, r_bid = None \<rparr>"

definition route_fullpost_direct ::
  "extlib \<Rightarrow> Lead \<Rightarrow> BuyerQualificationConfig option \<Rightarrow> (world, BuyerResponse) io" where
  "route_fullpost_direct X lead config =
     io_bind (route_ping_direct X lead config) (\<lambda>ping.
     if \<not> r_success ping then io_return ping
     else io_bind (io_ok_or (r_promise_id ping) ''Ping succeeded but no promise_id returned'') (\<lambda>promise_id.
          io_bind (route_post_direct X lead promise_id config (r_bid ping)) (\<lambda>post.
          io_return (fullpost_response ping post))))"

section \<open>Synchronous calls\<close>

definition route_ping_direct_sync ::
  "extlib \<Rightarrow> Lead \<Rightarrow> BuyerQualificationConfig option \<Rightarrow> (world, BuyerResponse) io" where
  "route_ping_direct_sync X lead config =
     (let lead_id = pulsar_lead_id X lead in
      if \<not> qualifies lead ''ping'' config
      then io_bind (generate_rejected_ping_id X lead_id) (\<lambda>rejected_ping_id.
             io_return (pulsar_rejection (Some rejected_ping_id) None))
      else io_bind (generate_ping_id X lead_id) (\<lambda>ping_id.
           io_bind (generate_promise_id X) (\<lambda>promise_id.
           io_bind random_bid (\<lambda>bid.
           io_return (pulsar_ping_accepted ping_id promise_id bid)))))"

definition route_post_direct_sync ::
  "extlib \<Rightarrow> Lead \<Rightarrow> string \<Rightarrow> BuyerQualificationConfig option \<Rightarrow> f64 option \<Rightarrow> (world, BuyerResponse) io" where
  "route_post_direct_sync X lead promise_id config ping_bid =
     (let lead_id = pulsar_lead_id X lead in
      if \<not> qualifies lead ''post'' config then io_return (pulsar_rejection None (Some promise_id))
      else io_bind (generate_post_id X lead_id) (\<lambda>post_id.
           io_bind (post_price ping_bid) (\<lambda>price.
           io_return (pulsar_sold post_id promise_id price))))"

definition route_fullpost_direct_sync ::
  "extlib \<Rightarrow> Lead \<Rightarrow> BuyerQualificationConfig option \<Rightarrow> (world, BuyerResponse) io" where
  "route_fullpost_direct_sync X lead config =
     io_bind (route_ping_direct_sync X lead config) (\<lambda>ping.
     if \<not> r_success ping then io_return ping
     else io_bind (io_ok_or (r_promise_id ping) ''Ping succeeded but no promise_id returned'') (\<lambda>promise_id.
          io_bind (route_post_direct_sync X lead promise_id config (r_bid ping)) (\<lambda>post.
          io_return (fullpost_response ping post))))"

section \<open>Frames and totality\<close>

lemma draw_run: "draw w = (Inr (pop 0 (w_random w)), w\<lparr>w_random := tl (w_random w)\<rparr>)"
  by (simp add: draw_def)

lemmas pulsar_ids = hex_nonce_def generate_promise_id_def generate_ping_id_def
  generate_rejected_ping_id_def generate_post_id_def random_bid_def post_price_def current_time_def

lemmas pulsar_calls = route_ping_direct_sync_def route_post_direct_sync_def
  route_fullpost_direct_sync_def route_ping_direct_def route_post_direct_def route_fullpost_direct_def

text \<open>The only effect of a call is on the random draws.\<close>

definition draws_only :: "(world, 'a) io \<Rightarrow> bool" where
  "draws_only m \<longleftrightarrow> (\<forall>w. \<exists>x r. m w = (Inr x, w\<lparr>w_random := r\<rparr>))"

lemma draws_only_run:
  assumes "draws_only m"
  obtains x r where "m w = (Inr x, w\<lparr>w_random := r\<rparr>)"
  using assms unfolding draws_only_def by blast

lemma draws_only_basic:
  "draws_only (io_return x)" "draws_only draw" "draws_only current_time"
proof -
  have "\<exists>r. w = w\<lparr>w_random := r\<rparr>" for w :: world by (rule exI [of _ "w_random w"]) simp
  then show "draws_only (io_return x)" "draws_only draw" "draws_only current_time"
    by (auto simp: draws_only_def io_return_def draw_def current_time_def io_get_def)
qed

lemma draws_only_bind:
  assumes "draws_only m" and "\<And>x. draws_only (f x)"
  shows "draws_only (io_bind m f)"
  unfolding draws_only_def
proof
  fix w
  obtain x r where m: "m w = (Inr x, w\<lparr>w_random := r\<rparr>)" using assms(1) by (rule draws_only_run)
  obtain y r' where f: "f x (w\<lparr>w_random := r\<rparr>) = (Inr y, w\<lparr>w_random := r\<rparr>\<lparr>w_random := r'\<rparr>)"
    using assms(2) by (rule draws_only_run)
  then show "\<exists>y r. io_bind m f w = (Inr y, w\<lparr>w_random := r\<rparr>)"
    using m by (auto simp: io_bind_run)
qed

lemma draws_only_cases:
  "draws_only a \<Longrightarrow> draws_only b \<Longrightarrow> draws_only (if c then a else b)"
  "draws_only a \<Longrightarrow> (\<And>x. draws_only (f x)) \<Longrightarrow> draws_only (case mo of None \<Rightarrow> a | Some x \<Rightarrow> f x)"
  by (auto split: option.split)

lemmas draws_only_intros = draws_only_basic draws_only_bind draws_only_cases

lemma pulsar_ids_draw [simp]:
  "draws_only (hex_nonce X)" "draws_only (generate_promise_id X)" "draws_only (generate_ping_id X l)"
  "draws_only (generate_rejected_ping_id X l)" "draws_only (generate_post_id X l)"
  "draws_only random_bid" "draws_only (post_price b)"
  unfolding pulsar_ids by (intro draws_only_intros [unfolded current_time_def])+

lemma random_bid_run:
  obtains k r where "random_bid w = (Inr (Fin (of_int k)), w\<lparr>w_random := r\<rparr>)" and "100 \<le> k" and "k < 300"
proof -
  let ?x = "(ucast (pop 0 (w_random w)) :: u32) mod 200"
  have "uint ?x = uint (ucast (pop 0 (w_random w)) :: u32) mod 200" by (simp add: uint_mod)
  then have x: "0 \<le> uint ?x" "uint ?x < 200" by simp_all
  have k: "uint (?x + 100) = uint ?x + 100"
    using x by (simp add: uint_word_ariths take_bit_int_eq_self)
  then have "round64 (of_int (uint (?x + 100))) = Fin (of_int (uint ?x + 100))"
    using x unfolding k by (intro round64_of_int) simp
  then have "random_bid w = (Inr (Fin (of_int (uint ?x + 100))), w\<lparr>w_random := tl (w_random w)\<rparr>)"
    by (simp add: random_bid_def draw_run io_bind_run io_return_def f64_of_int_def)
  from that [OF this] x show thesis by simp
qed

section \<open>Properties\<close>

lemma qualifies_post_ping: "qualifies lead ''post'' config \<Longrightarrow> qualifies lead ''ping'' config"
  using accepted_for_every_request [where qe = "QualificationEngine_new lead ''post'' config"
      and t = "''post''" and t' = "''ping''"]
  by (simp add: qualifies_def QualificationEngine_new_def)

lemma fullpost_run:
  "\<exists>resp rnd. route_fullpost_direct_sync X lead config w = (Inr resp, w\<lparr>w_random := rnd\<rparr>)
     \<and> (r_success resp \<longleftrightarrow> qualifies lead ''post'' config)
     \<and> (if r_success resp
        then r_status resp = ''sold'' \<and> r_bid resp = None \<and> r_ping_id resp \<noteq> None
          \<and> r_post_id resp \<noteq> None \<and> r_promise_id resp \<noteq> None
          \<and> (\<exists>k. r_price resp = Some (Fin (of_int k)) \<and> 100 \<le> k \<and> k < 300)
        else r_status resp = ''rejected'' \<and> r_price resp = None \<and> r_post_id resp = None
          \<and> r_error resp \<noteq> None)"
proof (cases "qualifies lead ''ping'' config")
  case False
  obtain i r where "generate_rejected_ping_id X (pulsar_lead_id X lead) w = (Inr i, w\<lparr>w_random := r\<rparr>)"
    by (rule draws_only_run [of "generate_rejected_ping_id X (pulsar_lead_id X lead)"]) simp
  then show ?thesis
    using False qualifies_post_ping [of lead config]
    by (auto simp: pulsar_calls io_bind_run io_return_def pulsar_rejection_def)
next
  case True
  obtain i r1 where i: "generate_ping_id X (pulsar_lead_id X lead) w = (Inr i, w\<lparr>w_random := r1\<rparr>)"
    by (rule draws_only_run [of "generate_ping_id X (pulsar_lead_id X lead)"]) simp
  obtain p r2 where p: "generate_promise_id X (w\<lparr>w_random := r1\<rparr>) = (Inr p, w\<lparr>w_random := r2\<rparr>)"
    by (rule draws_only_run [of "generate_promise_id X" "w\<lparr>w_random := r1\<rparr>"]) simp_all
  obtain k r3 where b: "random_bid (w\<lparr>w_random := r2\<rparr>) = (Inr (Fin (of_int k)), w\<lparr>w_random := r3\<rparr>)"
    and k: "100 \<le> k" "k < 300"
    by (rule random_bid_run [of "w\<lparr>w_random := r2\<rparr>"]) simp
  obtain q r4 where q: "generate_post_id X (pulsar_lead_id X lead) (w\<lparr>w_random := r3\<rparr>) = (Inr q, w\<lparr>w_random := r4\<rparr>)"
    by (rule draws_only_run [of "generate_post_id X (pulsar_lead_id X lead)" "w\<lparr>w_random := r3\<rparr>"]) simp_all
  have ping: "route_ping_direct_sync X lead config w
      = (Inr (pulsar_ping_accepted i p (Fin (of_int k))), w\<lparr>w_random := r3\<rparr>)"
    using True i p b by (simp add: route_ping_direct_sync_def io_bind_run io_return_def)
  show ?thesis
  proof (cases "qualifies lead ''post'' config")
    case post: True
    have "route_fullpost_direct_sync X lead config w = (Inr (fullpost_response
        (pulsar_ping_accepted i p (Fin (of_int k))) (pulsar_sold q p (Fin (of_int k)))), w\<lparr>w_random := r4\<rparr>)"
      using ping q post by (simp add: route_fullpost_direct_sync_def route_post_direct_sync_def io_bind_run
          io_return_def io_ok_or_def pulsar_ping_accepted_def post_price_def)
    then show ?thesis
      using post k by (auto simp: fullpost_response_def pulsar_sold_def pulsar_ping_accepted_def)
  next
    case post: False
    have "route_fullpost_direct_sync X lead config w = (Inr (fullpost_response
        (pulsar_ping_accepted i p (Fin (of_int k))) (pulsar_rejection None (Some p))), w\<lparr>w_random := r3\<rparr>)"
      using ping post by (simp add: route_fullpost_direct_sync_def route_post_direct_sync_def io_bind_run
          io_return_def io_ok_or_def pulsar_ping_accepted_def)
    then show ?thesis
      using post by (auto simp: fullpost_response_def pulsar_rejection_def)
  qed
qed

text \<open>a direct fullpost always answers and changes nothing but the random draws; it sells exactly
  when the lead qualifies as a post, for a whole amount from 100 to 299 that is the bid of its
  ping phase, with a ping id, a post id and a promise; otherwise it is a rejection without price
  and without post id.\<close>

theorem pulsar_fullpost_outcome:
  "\<exists>resp rnd. route_fullpost_direct_sync X lead config w = (Inr resp, w\<lparr>w_random := rnd\<rparr>)
     \<and> (r_success resp \<longleftrightarrow> qualifies lead ''post'' config)
     \<and> (if r_success resp
        then r_status resp = ''sold'' \<and> r_bid resp = None \<and> r_ping_id resp \<noteq> None
          \<and> r_post_id resp \<noteq> None \<and> r_promise_id resp \<noteq> None
          \<and> (\<exists>k. r_price resp = Some (Fin (of_int k)) \<and> 100 \<le> k \<and> k < 300)
        else r_status resp = ''rejected'' \<and> r_price resp = None \<and> r_post_id resp = None
          \<and> r_error resp \<noteq> None)"
  by (rule fullpost_run)

text \<open>the synchronous calls are the asynchronous ones: on a lead that qualifies as a ping, ping
  and fullpost give the same response and leave the same state for the same random draws, a post
  always does, and on any lead the responses agree in everything but the id of a rejected
  ping.\<close>

theorem pulsar_sync_equivalent:
  "(qualifies lead ''ping'' config \<longrightarrow>
      route_ping_direct_sync X lead config w = route_ping_direct X lead config w \<and>
      route_fullpost_direct_sync X lead config w = route_fullpost_direct X lead config w)
   \<and> route_post_direct_sync X lead promise_id config bid w = route_post_direct X lead promise_id config bid w
   \<and> map_sum id (\<lambda>r. r\<lparr>r_ping_id := None\<rparr>) (fst (route_fullpost_direct_sync X lead config w))
     = map_sum id (\<lambda>r. r\<lparr>r_ping_id := None\<rparr>) (fst (route_fullpost_direct X lead config w))"
proof (cases "qualifies lead ''ping'' config")
  case True
  then have "route_ping_direct_sync X lead config = route_ping_direct X lead config"
    by (simp add: pulsar_calls)
  moreover have "route_post_direct_sync X lead = route_post_direct X lead"
    by (simp add: fun_eq_iff pulsar_calls)
  ultimately show ?thesis
    by (simp add: route_fullpost_direct_sync_def route_fullpost_direct_def cong: if_cong)
next
  case False
  let ?l = "pulsar_lead_id X lead"
  obtain i r where 1: "generate_rejected_ping_id X ?l w = (Inr i, w\<lparr>w_random := r\<rparr>)"
    by (rule draws_only_run [of "generate_rejected_ping_id X ?l"]) simp
  obtain j r1 where 2: "generate_ping_id X ?l w = (Inr j, w\<lparr>w_random := r1\<rparr>)"
    by (rule draws_only_run [of "generate_ping_id X ?l"]) simp
  obtain p r2 where 3: "generate_promise_id X (w\<lparr>w_random := r1\<rparr>) = (Inr p, w\<lparr>w_random := r2\<rparr>)"
    by (rule draws_only_run [of "generate_promise_id X" "w\<lparr>w_random := r1\<rparr>"]) simp_all
  obtain i' r3 where 4: "generate_rejected_ping_id X ?l (w\<lparr>w_random := r2\<rparr>) = (Inr i', w\<lparr>w_random := r3\<rparr>)"
    by (rule draws_only_run [of "generate_rejected_ping_id X ?l" "w\<lparr>w_random := r2\<rparr>"]) simp_all
  show ?thesis
    using False 1 2 3 4 by (simp add: pulsar_calls Let_def io_bind_run io_return_def pulsar_rejection_def)
qed

theorem pulsar_sync_equivalent_witness:
  "route_fullpost_direct_sync plain_crypto (sample_lead []) (Some sample_qc) (sample_world empty_db)
   = route_fullpost_direct plain_crypto (sample_lead []) (Some sample_qc) (sample_world empty_db)"
  using pulsar_sync_equivalent [of "sample_lead []" "Some sample_qc" plain_crypto "sample_world empty_db"]
  by (simp add: qualifies_def QualificationEngine_new_def qe_evaluate_def sample_qc_def
      filter_rules_by_request_type_def ping_rules_def)

end
