(* ===== verification/BuyerRouter.thy ===== *)
theory BuyerRouter
  imports Pulsar
begin

text \<open>
  Model of \<open>crates/core/src/services/buyer_router.rs\<close>: the payloads sent to a buyer, the
  lookup of the buyer's integration through the cache, the calls to internal and external buyers,
  and the reading of a reply. The JSON forms in which the cache keeps buyers, integrations and
  the other cached values are the parameter \<open>codecs\<close>. A router that holds timing or metrics is
  one with the flag set; they are those of the world.
\<close>

section \<open>Data\<close>

record codecs =
  cd_buyer :: "Buyer option codec"
  cd_integration :: "BuyerIntegration option codec"
  cd_tree :: "(PingTree \<times> decimal option \<times> decimal option) codec"
  cd_tree_campaigns :: "PingTreeCampaign list codec"
  cd_buyer_id :: "uuid option codec"
  cd_campaigns :: "campaign_assoc list codec"
  cd_configs :: "(uuid \<rightharpoonup> BuyerQualificationConfig option) codec"

record BuyerRouter =
  bu_lead :: Lead
  bu_campaigns :: "Campaign list"
  bu_request_type :: string
  bu_encryption_key :: string
  bu_timing :: bool
  bu_metrics :: bool
  bu_preloaded_integration :: "BuyerIntegration option"
  bu_preloaded_qual_config :: "BuyerQualificationConfig option"
  bu_cache :: bool

definition BuyerRouter_new :: "Lead \<Rightarrow> Campaign list \<Rightarrow> string \<Rightarrow> string \<Rightarrow> BuyerRouter" where
  "BuyerRouter_new lead cs request_type key = \<lparr> bu_lead = lead, bu_campaigns = cs,
     bu_request_type = request_type, bu_encryption_key = key, bu_timing = False, bu_metrics = False,
     bu_preloaded_integration = None, bu_preloaded_qual_config = None, bu_cache = False \<rparr>"

definition with_cache :: "bool \<Rightarrow> BuyerRouter \<Rightarrow> BuyerRouter" where
  "with_cache c b = b\<lparr>bu_cache := c\<rparr>"

definition with_preloaded_integration :: "BuyerIntegration option \<Rightarrow> BuyerRouter \<Rightarrow> BuyerRouter" where
  "with_preloaded_integration i b = b\<lparr>bu_preloaded_integration := i\<rparr>"

definition with_preloaded_qual_config :: "BuyerQualificationConfig option \<Rightarrow> BuyerRouter \<Rightarrow> BuyerRouter" where
  "with_preloaded_qual_config q b = b\<lparr>bu_preloaded_qual_config := q\<rparr>"

definition with_timing_and_metrics :: "bool \<Rightarrow> bool \<Rightarrow> BuyerRouter \<Rightarrow> BuyerRouter" where
  "with_timing_and_metrics t m b = b\<lparr>bu_timing := t, bu_metrics := m\<rparr>"

section \<open>Payloads\<close>

abbreviation put :: "string \<Rightarrow> json \<Rightarrow> json_obj \<Rightarrow> json_obj" where
  "put \<equiv> obj_insert"

definition put_str :: "string \<Rightarrow> string option \<Rightarrow> json_obj \<Rightarrow> json_obj" where
  "put_str k m = obj_insert_opt k (map_option JStr m)"

definition vertical_field :: "Lead \<Rightarrow> string \<Rightarrow> json option" where
  "vertical_field lead k = Option.bind (as_object (l_vertical_data lead)) (\<lambda>o1. obj_get o1 k)"

definition put_field :: "Lead \<Rightarrow> string \<Rightarrow> json_obj \<Rightarrow> json_obj" where
  "put_field lead k = obj_insert_opt k (vertical_field lead k)"

definition build_ping_payload :: "extlib \<Rightarrow> Lead \<Rightarrow> Campaign \<Rightarrow> string \<Rightarrow> json" where
  "build_ping_payload X lead campaign vertical_slug =
     JObj [(''lead'', JObj (fold (\<lambda>f. f)
       [put_str ''publisher_id'' (map_option (uuid_text X) (l_publisher_id lead)),
        put ''vertical'' (JStr vertical_slug),
        put ''request_type'' (JStr ''ping''),
        put ''campaign_token'' (JStr (c_campaign_token campaign)),
        put_str ''lead_id'' (l_lead_id lead),
        put_str ''source'' (l_website_url lead),
        put_str ''zip'' (l_zip_encrypted lead),
        put_str ''ip_address'' (l_ip_address_encrypted lead),
        put_field lead ''monthly_bill'',
        put_field lead ''own_home'',
        put ''tcpa_consent'' (JBool (l_tcpa_consent lead)),
        put ''tcpa_language'' (JStr (l_tcpa_language lead)),
        put_field lead ''purchase_timeframe'',
        put_field lead ''credit_rating'',
        put_field lead ''property_type'',
        put_field lead ''roof_shade'',
        put_field lead ''roof_type'',
        put_field lead ''utility_provider'',
        put_str ''jornaya_lead_id'' (l_jornaya_lead_id lead),
        put_str ''trusted_form_url'' (l_trusted_form_url lead),
        put_str ''user_agent'' (l_user_agent lead)] []))]"

definition build_post_payload :: "extlib \<Rightarrow> Lead \<Rightarrow> Campaign \<Rightarrow> string \<Rightarrow> string \<Rightarrow> json" where
  "build_post_payload X lead campaign promise_id vertical_slug =
     JObj [(''lead'', JObj (fold (\<lambda>f. f)
       [put_str ''publisher_id'' (map_option (uuid_text X) (l_publisher_id lead)),
        put ''vertical'' (JStr vertical_slug),
        put ''request_type'' (JStr ''post''),
        put ''promise_id'' (JStr promise_id),
        put ''campaign_token'' (JStr (c_campaign_token campaign)),
        put_str ''lead_id'' (l_lead_id lead),
        put_str ''source'' (l_website_url lead),
        put_str ''first_name'' (l_first_name_encrypted lead),
        put_str ''last_name'' (l_last_name_encrypted lead),
        put_str ''email'' (l_email_encrypted lead),
        put_str ''mobile_phone'' (l_cell_phone_encrypted lead),
        put_str ''street_address'' (l_street_address_encrypted lead),
        put_str ''city'' (l_city_encrypted lead),
        put_str ''state'' (l_state_encrypted lead),
        put_str ''zip'' (l_zip_encrypted lead),
        put_str ''ip_address'' (l_ip_address_encrypted lead),
        put_field lead ''monthly_bill'',
        put_field lead ''own_home'',
        put_field lead ''purchase_timeframe'',
        put_field lead ''credit_rating'',
        put_field lead ''property_type'',
        put_field lead ''roof_shade'',
        put_field lead ''roof_type'',
        put_field lead ''utility_provider'',
        put ''tcpa_consent'' (JBool (l_tcpa_consent lead)),
        put ''tcpa_language'' (JStr (l_tcpa_language lead)),
        put_str ''jornaya_lead_id'' (l_jornaya_lead_id lead),
        put_str ''trusted_form_url'' (l_trusted_form_url lead),
        put_str ''user_agent'' (l_user_agent lead)] []))]"

text \<open>The derived serialization of a lead: every field under its name, an absent value as null, ids,
  dates and times as texts, the status as the name of its variant.\<close>

fun LeadStatus_variant :: "LeadStatus \<Rightarrow> string" where
  "LeadStatus_variant LS_Processing = ''Processing''"
| "LeadStatus_variant LS_PingAccepted = ''PingAccepted''"
| "LeadStatus_variant LS_Sold = ''Sold''"
| "LeadStatus_variant LS_Rejected = ''Rejected''"
| "LeadStatus_variant LS_Timeout = ''Timeout''"
| "LeadStatus_variant LS_Invalid = ''Invalid''"
| "LeadStatus_variant LS_Error = ''Error''"
| "LeadStatus_variant LS_Test = ''Test''"

definition json_of :: "('a \<Rightarrow> json) \<Rightarrow> 'a option \<Rightarrow> json" where
  "json_of f m = (case m of None \<Rightarrow> JNull | Some x \<Rightarrow> f x)"

definition lead_to_json :: "extlib \<Rightarrow> Lead \<Rightarrow> json_obj" where
  "lead_to_json X l =
     (let uuid_json = (\<lambda>u. JStr (uuid_text X u)); time_json = (\<lambda>t. JStr (utc_rfc3339 X t)) in
      [(''uuid'', uuid_json (l_uuid l)), (''event_id'', JStr (l_event_id l)),
       (''lead_id'', opt_json (l_lead_id l)), (''publisher_id'', json_of uuid_json (l_publisher_id l)),
       (''vertical_id'', uuid_json (l_vertical_id l)), (''campaign_id'', json_of uuid_json (l_campaign_id l)),
       (''buyer_id'', json_of uuid_json (l_buyer_id l)), (''request_type'', JStr (l_request_type l)),
       (''strategy'', JStr (l_strategy l)), (''status'', JStr (LeadStatus_variant (l_status l))),
       (''promise_id'', opt_json (l_promise_id l)), (''ping_id'', opt_json (l_ping_id l)),
       (''post_id'', opt_json (l_post_id l)), (''session_id'', opt_json (l_session_id l)),
       (''request_stage'', opt_json (l_request_stage l)),
       (''first_name_encrypted'', opt_json (l_first_name_encrypted l)),
       (''last_name_encrypted'', opt_json (l_last_name_encrypted l)),
       (''email_encrypted'', opt_json (l_email_encrypted l)),
       (''cell_phone_encrypted'', opt_json (l_cell_phone_encrypted l)),
       (''street_address_encrypted'', opt_json (l_street_address_encrypted l)),
       (''city_encrypted'', opt_json (l_city_encrypted l)), (''state_encrypted'', opt_json (l_state_encrypted l)),
       (''zip_encrypted'', opt_json (l_zip_encrypted l)),
       (''ip_address_encrypted'', opt_json (l_ip_address_encrypted l)),
       (''email_sha256'', opt_json (l_email_sha256 l)), (''phone_sha256'', opt_json (l_phone_sha256 l)),
       (''ip_address_hash'', opt_json (l_ip_address_hash l)), (''email_domain'', opt_json (l_email_domain l)),
       (''tcpa_consent'', JBool (l_tcpa_consent l)), (''tcpa_language'', JStr (l_tcpa_language l)),
       (''is_test'', JBool (l_is_test l)), (''user_agent'', opt_json (l_user_agent l)),
       (''referrer'', opt_json (l_referrer l)), (''website_url'', opt_json (l_website_url l)),
       (''click_id'', opt_json (l_click_id l)), (''url_consent'', opt_json (l_url_consent l)),
       (''best_call_time'', opt_json (l_best_call_time l)),
       (''date_of_birth'', json_of (\<lambda>d. JStr (date_text X d)) (l_date_of_birth l)),
       (''home_phone'', opt_json (l_home_phone l)), (''jornaya_lead_id'', opt_json (l_jornaya_lead_id l)),
       (''trusted_form_url'', opt_json (l_trusted_form_url l)), (''fbp_cookie'', opt_json (l_fbp_cookie l)),
       (''fbc_cookie'', opt_json (l_fbc_cookie l)), (''utm_params'', json_of (\<lambda>v. v) (l_utm_params l)),
       (''submitted_at'', json_of time_json (l_submitted_at l)),
       (''sold_at'', json_of time_json (l_sold_at l)), (''retry_count'', JInt (l_retry_count l)),
       (''next_retry_at'', json_of time_json (l_next_retry_at l)),
       (''vertical_data'', l_vertical_data l), (''created_at'', time_json (l_created_at l)),
       (''updated_at'', time_json (l_updated_at l))])"

definition build_fullpost_payload :: "extlib \<Rightarrow> Lead \<Rightarrow> json" where
  "build_fullpost_payload X lead =
     JObj [(''lead'', JObj (put ''request_type'' (JStr ''fullpost'') (lead_to_json X lead)))]"

section \<open>Replies\<close>

definition reply_json :: "extlib \<Rightarrow> string \<Rightarrow> json" where
  "reply_json X body =
     (case json_parse X body of
        Some v \<Rightarrow> v
      | None \<Rightarrow> JObj [(''success'', JBool False), (''status'', JStr ''error''),
                       (''error'', JStr (''Invalid JSON response: '' @ body))])"

definition is_success :: "nat \<Rightarrow> bool" where
  "is_success status \<longleftrightarrow> 200 \<le> status \<and> status < 300"

definition get_number :: "json \<Rightarrow> string \<Rightarrow> f64 option" where
  "get_number v k = opt_or (Option.bind (json_get v k) as_f64) (Option.bind (get_str v k) parse_f64)"

definition id_or_new :: "extlib \<Rightarrow> string option \<Rightarrow> bool \<Rightarrow> string \<Rightarrow> (world, string option) io" where
  "id_or_new X given generate p =
     (case given of
        Some i \<Rightarrow> io_return (Some i)
      | None \<Rightarrow>
          if generate then io_bind draw_uuid (\<lambda>u. io_return (Some (p @ uuid_text X u)))
          else io_return None)"

definition parse_buyer_response ::
  "extlib \<Rightarrow> nat \<times> string result \<Rightarrow> string \<Rightarrow> (world, BuyerResponse) io" where
  "parse_buyer_response X response request_type =
     (case snd response of
        Inl e \<Rightarrow> io_err (''Failed to read response body: '' @ e)
      | Inr body \<Rightarrow>
          let v = reply_json X body;
              success = unwrap_or (Option.bind (json_get v ''success'') as_bool) (is_success (fst response));
              status = unwrap_or (get_str v ''status'') (if success then ''accepted'' else ''rejected'')
          in io_bind (id_or_new X (get_str v ''ping_id'') (request_type = ''ping'') ''ping_'') (\<lambda>ping_id.
             io_bind (id_or_new X (get_str v ''post_id'') (request_type = ''post'') ''post_'') (\<lambda>post_id.
             io_return \<lparr> r_success = success, r_status = status, r_error = get_str v ''error'',
               r_message = get_str v ''message'', r_promise_id = get_str v ''promise_id'',
               r_ping_id = ping_id, r_post_id = post_id, r_price = get_number v ''price'',
               r_bid = get_number v ''bid'' \<rparr>)))"

section \<open>The buyer's integration\<close>

definition db_error :: "error \<Rightarrow> error" where
  "db_error e = ''Database error: '' @ e"

definition find_buyer :: "extlib \<Rightarrow> codecs \<Rightarrow> bool \<Rightarrow> uuid \<Rightarrow> (world, Buyer option) io" where
  "find_buyer X S cached i =
     (if cached
      then on_cached_db (get_or_insert_with (cd_buyer S) (''buyer:id:'' @ uuid_text X i) 3600
             (io_map_err db_error (Buyer_find_by_id i)))
      else on_db (Buyer_find_by_id i))"

definition find_integration :: "extlib \<Rightarrow> codecs \<Rightarrow> bool \<Rightarrow> uuid \<Rightarrow> (world, BuyerIntegration option) io" where
  "find_integration X S cached i =
     (if cached
      then on_cached_db (get_or_insert_with (cd_integration S) (''buyer_integration:id:'' @ uuid_text X i) 3600
             (io_map_err db_error (BuyerIntegration_find_by_id i)))
      else on_db (BuyerIntegration_find_by_id i))"

definition get_buyer_integration ::
  "extlib \<Rightarrow> codecs \<Rightarrow> BuyerRouter \<Rightarrow> Campaign \<Rightarrow> (world, BuyerIntegration) io" where
  "get_buyer_integration X S b campaign =
     (case bu_preloaded_integration b of
        Some integration \<Rightarrow> io_return integration
      | None \<Rightarrow>
          io_bind (find_buyer X S (bu_cache b) (c_buyer_id campaign)) (\<lambda>mb.
          io_bind (io_ok_or mb (''Buyer not found: '' @ uuid_text X (c_buyer_id campaign))) (\<lambda>buyer.
          if \<not> Buyer_active buyer
          then io_err (''Buyer '' @ uuid_text X (b_id buyer) @ '' is not active (status: ''
                 @ BuyerStatus_as_str (b_status buyer) @ '')'')
          else io_bind (io_ok_or (b_buyer_integration_id buyer) ''Buyer has no integration configured'')
            (\<lambda>integration_id.
             io_bind (find_integration X S (bu_cache b) integration_id) (\<lambda>mi.
             io_ok_or mi (''Buyer integration not found: '' @ uuid_text X integration_id))))))"

section \<open>Requests\<close>

definition MISSING_ENDPOINT :: error where
  "MISSING_ENDPOINT = ''Missing endpoint for external buyer integration''"

definition check_internal :: "BuyerIntegration \<Rightarrow> (world, unit) io" where
  "check_internal integration =
     (if starts_with (bi_slug integration) ''pulsar'' then io_return ()
      else io_err (''Invalid internal buyer configuration: '' @ bi_slug integration
             @ '' (must start with '' @ [CHR 39] @ ''pulsar'' @ [CHR 39] @ '')''))"

text \<open>A direct call, with the recording of its duration.\<close>

definition timed_call ::
  "BuyerRouter \<Rightarrow> (u64 \<Rightarrow> AtomicAuctionTiming \<Rightarrow> AtomicAuctionTiming) \<Rightarrow> (world, 'a) io \<Rightarrow> (world, 'a) io" where
  "timed_call b record_duration call =
     io_bind (io_try call) (\<lambda>result.
     io_bind elapsed (\<lambda>d.
     io_bind (io_when (bu_timing b) (on_timing (record_duration d))) (\<lambda>_.
     io_bind (io_when (bu_metrics b) (on_metrics (record_query d))) (\<lambda>_.
     case result of Inl e \<Rightarrow> io_err e | Inr x \<Rightarrow> io_return x))))"

definition buyer_route_ping :: "extlib \<Rightarrow> codecs \<Rightarrow> BuyerRouter \<Rightarrow> Campaign \<Rightarrow> (world, BuyerResponse) io" where
  "buyer_route_ping X S b campaign =
     io_bind (get_buyer_integration X S b campaign) (\<lambda>integration.
     if bi_is_internal integration
     then io_bind (check_internal integration) (\<lambda>_.
          timed_call b timing_record_ping_auction
            (route_ping_direct_sync X (bu_lead b) (bu_preloaded_qual_config b)))
     else io_bind (io_ok_or (bi_posting_url_template integration) MISSING_ENDPOINT) (\<lambda>endpoint.
          io_bind (http_post endpoint (build_ping_payload X (bu_lead b) campaign (c_vertical campaign))) (\<lambda>response.
          io_bind elapsed (\<lambda>d.
          io_bind (io_when (bu_metrics b) (on_metrics (record_query d))) (\<lambda>_.
          parse_buyer_response X response ''ping'')))))"

definition buyer_route_post :: "extlib \<Rightarrow> codecs \<Rightarrow> BuyerRouter \<Rightarrow> Campaign \<Rightarrow> (world, BuyerResponse) io" where
  "buyer_route_post X S b campaign =
     io_bind (io_ok_or (l_promise_id (bu_lead b)) ''Missing promise_id for post request'') (\<lambda>promise_id.
     io_bind (get_buyer_integration X S b campaign) (\<lambda>integration.
     if bi_is_internal integration
     then io_bind (check_internal integration) (\<lambda>_.
          let ping_bid = Option.bind (json_get (l_vertical_data (bu_lead b)) ''winning_bid'') as_f64 in
          timed_call b record_post_sent
            (route_post_direct_sync X (bu_lead b) promise_id (bu_preloaded_qual_config b) ping_bid))
     else io_bind (io_ok_or (bi_posting_url_template integration) MISSING_ENDPOINT) (\<lambda>endpoint.
          io_bind (http_post endpoint
                     (build_post_payload X (bu_lead b) campaign promise_id (c_vertical campaign))) (\<lambda>response.
          io_bind elapsed (\<lambda>d.
          io_bind (io_when (bu_timing b) (on_timing (record_post_sent d))) (\<lambda>_.
          io_bind (io_when (bu_metrics b) (on_metrics (record_query d))) (\<lambda>_.
          parse_buyer_response X response ''post'')))))))"

definition buyer_route_fullpost :: "extlib \<Rightarrow> codecs \<Rightarrow> BuyerRouter \<Rightarrow> Campaign \<Rightarrow> (world, BuyerResponse) io" where
  "buyer_route_fullpost X S b campaign =
     io_bind (get_buyer_integration X S b campaign) (\<lambda>integration.
     if bi_is_internal integration
     then io_bind (check_internal integration) (\<lambda>_.
          timed_call b record_post_sent
            (route_fullpost_direct_sync X (bu_lead b) (bu_preloaded_qual_config b)))
     else io_bind (io_ok_or (bi_posting_url_template integration) MISSING_ENDPOINT) (\<lambda>endpoint.
          io_bind (http_post endpoint (build_fullpost_payload X (bu_lead b))) (\<lambda>response.
          io_bind elapsed (\<lambda>d.
          io_bind (io_when (bu_timing b) (on_timing (record_post_sent d))) (\<lambda>_.
          io_bind (io_when (bu_metrics b) (on_metrics (record_query d))) (\<lambda>_.
          parse_buyer_response X response ''fullpost''))))))"

definition unknown_request_type :: "string \<Rightarrow> BuyerResponse" where
  "unknown_request_type t = \<lparr> r_success = False, r_status = ''error'',
     r_error = Some (''Unknown request_type: '' @ t), r_message = None, r_promise_id = None,
     r_ping_id = None, r_post_id = None, r_price = None, r_bid = None \<rparr>"

definition BuyerRouter_route :: "extlib \<Rightarrow> codecs \<Rightarrow> BuyerRouter \<Rightarrow> (world, BuyerResponse) io" where
  "BuyerRouter_route X S b =
     (case bu_campaigns b of
        [] \<Rightarrow> io_err ''No campaign provided to BuyerRouter''
      | campaign # _ \<Rightarrow>
          if bu_request_type b = ''ping'' then buyer_route_ping X S b campaign
          else if bu_request_type b = ''post'' then buyer_route_post X S b campaign
          else if bu_request_type b = ''fullpost'' then buyer_route_fullpost X S b campaign
          else io_return (unknown_request_type (bu_request_type b)))"

definition decrypt_key :: "extlib \<Rightarrow> BuyerRouter \<Rightarrow> string \<Rightarrow> string result" where
  "decrypt_key X b encrypted =
     (case EncryptionService_new (bu_encryption_key b) of
        Inl e \<Rightarrow> Inl (''Failed to initialize encryption service: '' @ e)
      | Inr key \<Rightarrow>
          (case decrypt X key encrypted of
             Inl e \<Rightarrow> Inl (''Failed to decrypt API key: '' @ e)
           | Inr s \<Rightarrow> Inr s))"

section \<open>What asking a buyer leaves alone\<close>

lemma draws_only_frames:
  assumes "draws_only m"
  shows "frame w_requests m" and "frame w_queue m"
proof -
  have "\<exists>x r. m w = (Inr x, w\<lparr>w_random := r\<rparr>)" for w using assms unfolding draws_only_def by blast
  then show "frame w_requests m" and "frame w_queue m"
    unfolding frame_def by (metis snd_conv world.select_convs world.surjective world.update_convs)+
qed

lemma pulsar_draws:
  "draws_only (route_ping_direct_sync X lead config)"
  "draws_only (route_post_direct_sync X lead promise config bid)"
  unfolding route_post_direct_sync_def route_ping_direct_sync_def Let_def
  by (intro draws_only_intros; simp)+

lemmas pulsar_frames [frame_intros] = pulsar_draws [THEN draws_only_frames(1)] pulsar_draws [THEN draws_only_frames(2)]

lemma fullpost_frames [frame_intros]:
  "frame w_requests (route_fullpost_direct_sync X lead config)"
  "frame w_queue (route_fullpost_direct_sync X lead config)"
  unfolding route_fullpost_direct_sync_def by (intro frame_intros)+

lemma reply_frames [frame_intros]:
  "frame w_requests (parse_buyer_response X response t)" "frame w_queue (parse_buyer_response X response t)"
  unfolding parse_buyer_response_def id_or_new_def Let_def by (intro frame_intros)+

lemma timed_call_frames [frame_intros]:
  "frame w_requests call \<Longrightarrow> frame w_requests (timed_call b f call)"
  "frame w_queue call \<Longrightarrow> frame w_queue (timed_call b f call)"
  unfolding timed_call_def by (intro frame_intros; assumption)+

lemma check_internal_frame [frame_intros]: "frame f (check_internal i)"
  unfolding check_internal_def by (intro frame_intros)

lemma lookup_frames [frame_intros]:
  "frame w_requests (get_buyer_integration X S b campaign)"
  "frame quiet (get_buyer_integration X S b campaign)"
  unfolding get_buyer_integration_def find_buyer_def find_integration_def Buyer_find_by_id_def
    BuyerIntegration_find_by_id_def
  by (intro frame_intros)+

lemma BuyerRouter_quiet [frame_intros]: "frame quiet (BuyerRouter_route X S b)"
proof -
  have "frame quiet (buyer_route_ping X S b c)" for c
    unfolding buyer_route_ping_def by (intro frame_intros)
  moreover have "frame quiet (buyer_route_post X S b c)" for c
    unfolding buyer_route_post_def Let_def by (intro frame_intros)
  moreover have "frame quiet (buyer_route_fullpost X S b c)" for c
    unfolding buyer_route_fullpost_def by (intro frame_intros)
  ultimately show ?thesis
    unfolding BuyerRouter_route_def by (cases "bu_campaigns b") (auto intro!: frame_intros)
qed

text \<open>Asking a buyer, whatever the kind of request, reads the tables and changes none of them,
  and enqueues no task.\<close>

theorem asking_a_buyer_is_quiet: "quiet (snd (BuyerRouter_route X S b w)) = quiet w"
  using BuyerRouter_quiet unfolding frame_def by blast


section \<open>What a buyer is told\<close>

definition contact_keys :: "string list" where
  "contact_keys = [''first_name'', ''last_name'', ''email'', ''mobile_phone'', ''street_address'',
     ''city'', ''state'']"

definition lead_entry :: "json \<Rightarrow> string \<Rightarrow> json option" where
  "lead_entry payload k = Option.bind (json_get payload ''lead'') (\<lambda>l. json_get l k)"

definition no_contact_data :: "http_request \<Rightarrow> bool" where
  "no_contact_data q \<longleftrightarrow> (\<forall>k \<in> set contact_keys. lead_entry (hr_payload q) k = None)"

lemma lead_entry_payload [simp]: "lead_entry (JObj [(''lead'', JObj o1)]) k = obj_get o1 k"
  by (simp add: lead_entry_def obj_get_def)

lemmas put_defs = put_str_def put_field_def

lemma ping_payload_no_contact:
  "no_contact_data \<lparr> hr_endpoint = e, hr_payload = build_ping_payload X lead campaign v \<rparr>"
  by (simp add: no_contact_data_def contact_keys_def build_ping_payload_def put_defs)

lemma post_payload_contact:
  "lead_entry (build_post_payload X lead campaign p v) ''email'' = map_option JStr (l_email_encrypted lead)"
  "lead_entry (build_post_payload X lead campaign p v) ''promise_id'' = Some (JStr p)"
  by (cases "l_email_encrypted lead"; simp add: build_post_payload_def put_defs)+

lemma route_ping_sends: "sends no_contact_data (buyer_route_ping X S b campaign)"
  unfolding buyer_route_ping_def
  by (intro sends_intros ping_payload_no_contact; rule sends_frame; intro frame_intros)

text \<open>A ping sends nothing, or one request that carries no name, email, phone, street, city or
  state of the lead; an internal buyer is never sent a request.\<close>

theorem ping_sends_no_contact_data:
  "\<exists>reqs. w_requests (snd (buyer_route_ping X S b campaign w)) = w_requests w @ reqs
     \<and> (\<forall>q \<in> set reqs. no_contact_data q)
     \<and> (\<forall>i. bu_preloaded_integration b = Some i \<and> bi_is_internal i \<longrightarrow> reqs = [])"
proof -
  obtain reqs where r: "w_requests (snd (buyer_route_ping X S b campaign w)) = w_requests w @ reqs"
    "\<forall>q \<in> set reqs. no_contact_data q"
    using route_ping_sends unfolding sends_def by blast
  have "frame w_requests (buyer_route_ping X S b campaign)"
    if "bu_preloaded_integration b = Some i" "bi_is_internal i" for i
    unfolding buyer_route_ping_def get_buyer_integration_def
    using that by (simp add: frame_intros)
  then have "\<forall>i. bu_preloaded_integration b = Some i \<and> bi_is_internal i \<longrightarrow> reqs = []"
    using r(1) by (auto simp: frame_def)
  with r show ?thesis by blast
qed

text \<open>a reply whose body could be read always gives a response: it is a success exactly when the
  body says so, or says nothing about it and the status is 2xx; a body that is not JSON is an
  error; the answer to a ping has a ping id and the answer to a post a post id, made up if need
  be; prices and bids may be given as numbers or as texts.\<close>

theorem reply_is_read:
  "\<exists>r w'. parse_buyer_response X (status, Inr body) t w = (Inr r, w')
     \<and> (r_success r \<longleftrightarrow> (case Option.bind (json_get (reply_json X body) ''success'') as_bool of
           Some ok \<Rightarrow> ok | None \<Rightarrow> 200 \<le> status \<and> status < 300))
     \<and> (json_parse X body = None \<longrightarrow> \<not> r_success r \<and> r_status r = ''error'' \<and> r_error r \<noteq> None)
     \<and> (t = ''ping'' \<longrightarrow> r_ping_id r \<noteq> None) \<and> (t = ''post'' \<longrightarrow> r_post_id r \<noteq> None)
     \<and> r_bid r = get_number (reply_json X body) ''bid'' \<and> r_price r = get_number (reply_json X body) ''price''"
proof -
  have ids: "\<exists>m w'. id_or_new X given g p w = (Inr m, w') \<and> (g \<longrightarrow> m \<noteq> None)" for given g p w
    by (cases given) (auto simp: id_or_new_def io_return_def io_bind_def draw_uuid_def draw_def)
  let ?v = "reply_json X body"
  obtain i w1 where i: "id_or_new X (get_str ?v ''ping_id'') (t = ''ping'') ''ping_'' w = (Inr i, w1)"
    "t = ''ping'' \<longrightarrow> i \<noteq> None" using ids by blast
  obtain j w2 where j: "id_or_new X (get_str ?v ''post_id'') (t = ''post'') ''post_'' w1 = (Inr j, w2)"
    "t = ''post'' \<longrightarrow> j \<noteq> None" using ids by blast
  let ?ok = "unwrap_or (Option.bind (json_get ?v ''success'') as_bool) (is_success status)"
  have ok: "?ok \<longleftrightarrow> (case Option.bind (json_get ?v ''success'') as_bool of
      Some ok \<Rightarrow> ok | None \<Rightarrow> 200 \<le> status \<and> status < 300)"
    by (simp add: unwrap_or_def is_success_def split: option.split)
  have bad: "json_parse X body = None \<Longrightarrow> \<not> ?ok \<and> get_str ?v ''status'' = Some ''error''
      \<and> get_str ?v ''error'' \<noteq> None"
    by (simp add: reply_json_def get_str_def obj_get_def)
  have "parse_buyer_response X (status, Inr body) t w = (Inr \<lparr> r_success = ?ok,
      r_status = unwrap_or (get_str ?v ''status'') (if ?ok then ''accepted'' else ''rejected''),
      r_error = get_str ?v ''error'', r_message = get_str ?v ''message'',
      r_promise_id = get_str ?v ''promise_id'', r_ping_id = i, r_post_id = j,
      r_price = get_number ?v ''price'', r_bid = get_number ?v ''bid'' \<rparr>, w2)"
    using i(1) j(1) by (simp add: parse_buyer_response_def Let_def io_bind_run io_return_def)
  then show ?thesis using i(2) j(2) bad ok by simp
qed

section \<open>Witnesses\<close>

definition no_codec :: "'a codec" where
  "no_codec = \<lparr> simd_to = (\<lambda>_. None), simd_from = (\<lambda>_. None), serde_to = (\<lambda>_. Inl ''unsupported''),
     serde_from = (\<lambda>_. None), utf8_ok = (\<lambda>_. True) \<rparr>"

definition no_codecs :: codecs where
  "no_codecs = \<lparr> cd_buyer = no_codec, cd_integration = no_codec, cd_tree = no_codec,
     cd_tree_campaigns = no_codec, cd_buyer_id = no_codec, cd_campaigns = no_codec, cd_configs = no_codec \<rparr>"

definition sample_campaign :: "uuid \<Rightarrow> uuid \<Rightarrow> Campaign" where
  "sample_campaign i buyer = \<lparr> c_id = i, c_buyer_id = buyer, c_publisher_id = 1, c_instance_id = 1,
     c_name = None, c_vertical = ''solar'', c_campaign_token = ''tok'', c_status = CS_Active,
     c_is_documentation_test = False, c_deleted_at = None, c_created_at = 0, c_updated_at = 0 \<rparr>"

definition sample_integration :: "bool \<Rightarrow> BuyerIntegration" where
  "sample_integration internal = \<lparr> bi_id = 5, bi_name = ''n'', bi_slug = ''pulsar-solar'', bi_vertical_id = 1,
     bi_description = None, bi_configuration_template = JNull, bi_default_timeout = None,
     bi_posting_url_template = Some ''https://buyer'', bi_is_internal = internal, bi_status = ''available'',
     bi_created_at = 0, bi_updated_at = 0 \<rparr>"

definition sample_router :: "string \<Rightarrow> bool \<Rightarrow> BuyerRouter" where
  "sample_router t internal = with_preloaded_integration (Some (sample_integration internal))
     (BuyerRouter_new (sample_lead []) [sample_campaign 1 2] t ''k'')"

theorem ping_sends_no_contact_data_witness:
  "\<exists>q. w_requests (snd (buyer_route_ping plain_crypto no_codecs (sample_router ''ping'' False)
     (sample_campaign 1 2) (sample_world empty_db))) = [q] \<and> no_contact_data q"
proof -
  let ?w = "sample_world empty_db"
  let ?r = "buyer_route_ping plain_crypto no_codecs (sample_router ''ping'' False) (sample_campaign 1 2) ?w"
  obtain reqs where r: "w_requests (snd ?r) = reqs" "\<forall>q \<in> set reqs. no_contact_data q"
    using ping_sends_no_contact_data [of plain_crypto no_codecs "sample_router ''ping'' False" "sample_campaign 1 2" ?w]
    by (auto simp: sample_world_def)
  have "\<exists>q. w_requests (snd ?r) = [q]"
    by (simp add: buyer_route_ping_def get_buyer_integration_def sample_router_def BuyerRouter_new_def
        with_preloaded_integration_def sample_integration_def io_ok_or_def io_simps http_post_def
        sample_world_def Let_def)
  with r show ?thesis by auto
qed

theorem reply_is_read_witness:
  "\<exists>r w'. parse_buyer_response (plain_crypto\<lparr>json_parse := \<lambda>_. None\<rparr>) (200, Inr ''oops'') ''ping'' (sample_world empty_db)
     = (Inr r, w') \<and> \<not> r_success r \<and> r_status r = ''error'' \<and> r_ping_id r \<noteq> None"
  using reply_is_read [of "plain_crypto\<lparr>json_parse := \<lambda>_. None\<rparr>" 200 "''oops''" "''ping''" "sample_world empty_db"]
  by auto

end
