(* ===== verification/PingTreeRouter.thy ===== *)
theory PingTreeRouter
  imports BuyerRouter
begin

text \<open>
  Model of \<open>crates/core/src/services/ping_tree_router.rs\<close>: the routing of a lead through the
  ping tree of its publisher. The concurrent tasks of an auction run one after the other in the
  order in which they complete; a task that misses its deadline is dropped before or after its
  effects. The two loads that \<open>tokio::join!\<close> runs together are executed in order. A router
  that was not given timing and metrics works on fresh ones and drops them. The random number for
  a tie is drawn whether or not there is one. A panic is the error \<open>PANIC\<close>.
\<close>

section \<open>Data\<close>

record PingTreeRouter =
  pr_lead :: Lead
  pr_publisher_id :: uuid
  pr_vertical :: string
  pr_request_type :: string
  pr_cache :: bool
  pr_shared :: bool
  pr_queue :: bool

definition PingTreeRouter_new :: "Lead \<Rightarrow> uuid \<Rightarrow> string \<Rightarrow> string \<Rightarrow> bool \<Rightarrow> bool \<Rightarrow> PingTreeRouter" where
  "PingTreeRouter_new lead publisher vertical request_type cache queue = \<lparr> pr_lead = lead,
     pr_publisher_id = publisher, pr_vertical = vertical, pr_request_type = request_type,
     pr_cache = cache, pr_shared = False, pr_queue = queue \<rparr>"

definition router_with_timing_and_metrics :: "PingTreeRouter \<Rightarrow> PingTreeRouter" where
  "router_with_timing_and_metrics r = r\<lparr>pr_shared := True\<rparr>"

definition failed_routing :: "string \<Rightarrow> string \<Rightarrow> json list option \<Rightarrow> RoutingResult" where
  "failed_routing status err timings = \<lparr> rr_success = False, rr_status = status, rr_error = Some err,
     rr_promise_id = None, rr_ping_id = None, rr_post_id = None, rr_price = None,
     rr_campaign_id = None, rr_buyer_id = None, rr_per_buyer_timings = timings \<rparr>"

section \<open>Updates of the lead\<close>

definition error_log :: "extlib \<Rightarrow> timestamp \<Rightarrow> string \<Rightarrow> json" where
  "error_log X now err = JObj [(''timestamp'', JStr (utc_rfc3339 X now)), (''error'', JStr err),
     (''component'', JStr ''ping_tree_router'')]"

fun with_error_log :: "json \<Rightarrow> json \<Rightarrow> json" where
  "with_error_log entry (JObj o1) = JObj (obj_insert ''error_log'' entry o1)"
| "with_error_log entry v = v"

definition update_lead_status ::
  "extlib \<Rightarrow> PingTreeRouter \<Rightarrow> LeadStatus \<Rightarrow> string option \<Rightarrow> (world, unit) io" where
  "update_lead_status X r status err =
     (let lead = pr_lead r in
      if l_status lead = LS_Processing \<or> l_status lead = LS_Test
      then io_bind current_time (\<lambda>now.
           let vertical_data = (case err of
                 Some e \<Rightarrow> with_error_log (error_log X now e) (l_vertical_data lead)
               | None \<Rightarrow> l_vertical_data lead) in
           io_bind (on_db (update_leads (\<lambda>l. l_uuid l = l_uuid lead)
             (\<lambda>now l. l\<lparr>l_status := status, l_vertical_data := vertical_data, l_updated_at := now\<rparr>)))
             (\<lambda>_. io_return ()))
      else io_return ())"

definition f64_json :: "f64 \<Rightarrow> json" where
  "f64_json x = opt_f64_json (Some x)"

definition winning_bid_json :: "f64 option \<Rightarrow> json option" where
  "winning_bid_json winning_bid = map_option (\<lambda>bid. JObj [(''winning_bid'', f64_json bid)]) winning_bid"

definition update_lead_with_winner ::
  "PingTreeRouter \<Rightarrow> Campaign \<Rightarrow> string \<Rightarrow> string option \<Rightarrow> f64 option \<Rightarrow> (world, unit) io" where
  "update_lead_with_winner r campaign promise_id ping_id winning_bid =
     io_bind (on_db (update_leads (\<lambda>l. l_uuid l = l_uuid (pr_lead r))
       (\<lambda>now l. l\<lparr>l_status := LS_PingAccepted, l_campaign_id := Some (c_id campaign),
          l_buyer_id := Some (c_buyer_id campaign), l_promise_id := Some promise_id, l_ping_id := ping_id,
          l_vertical_data := jsonb_concat (l_vertical_data l) (unwrap_or (winning_bid_json winning_bid) (JObj [])),
          l_updated_at := now\<rparr>)))
       (\<lambda>_. io_return ())"

definition update_lead_with_post :: "PingTreeRouter \<Rightarrow> string \<Rightarrow> (world, unit) io" where
  "update_lead_with_post r post_id =
     io_bind (on_db (update_leads (\<lambda>l. l_uuid l = l_uuid (pr_lead r))
       (\<lambda>now l. l\<lparr>l_status := LS_Sold, l_post_id := Some post_id, l_updated_at := now\<rparr>)))
       (\<lambda>_. io_return ())"

section \<open>Storing buyer responses\<close>

text \<open>One INSERT of all rows: it fails as a whole when a lead is missing.\<close>

definition insert_response_rows :: "BuyerResponseTuple list \<Rightarrow> (db, unit) io" where
  "insert_response_rows rows = db_stmt (\<lambda>d.
     if list_ex (\<lambda>r. brt_lead_id r \<notin> l_uuid ` set (leads d)) rows then (Inl BUYER_RESPONSES_FKEY, d)
     else (Inr (), d\<lparr>buyer_responses := buyer_responses d @
       map (\<lambda>(i, r). \<lparr> br_id = db_next_id d + int i, br_lead_id = brt_lead_id r,
              br_ping_id = brt_ping_id r, br_post_id = brt_post_id r, br_buyer_id = brt_buyer_id r,
              br_campaign_id = brt_campaign_id r, br_payload = brt_payload r, br_created_at = db_now d \<rparr>)
         (enumerate 0 rows),
       db_next_id := db_next_id d + int (length rows)\<rparr>))"

text \<open>\<open>Retry::spawn\<close> with three delays: the action is repeated after every error, at most three
  times.\<close>

primrec retry_spawn :: "nat \<Rightarrow> ('s, 'a) io \<Rightarrow> ('s, 'a) io" where
  "retry_spawn 0 m = m"
| "retry_spawn (Suc n) m = io_bind (io_try m) (\<lambda>res.
     case res of Inr x \<Rightarrow> io_return x | Inl _ \<Rightarrow> retry_spawn n m)"

definition router_batch_insert_buyer_responses :: "BuyerResponseTuple list \<Rightarrow> (world, unit) io" where
  "router_batch_insert_buyer_responses rows =
     (if rows = [] then io_return ()
      else if \<not> distinct (map brt_ping_id rows) then io_err ''Duplicate ping_ids in responses''
      else io_map_err (\<lambda>e. ''DB error after retries: '' @ e)
             (on_db (retry_spawn 3 (insert_response_rows rows))))"

section \<open>The ping auction\<close>

datatype task_outcome = Answered BuyerResponse | Failed error | TimedOut

definition response_json :: "BuyerResponse \<Rightarrow> json" where
  "response_json r = JObj [(''success'', JBool (r_success r)), (''status'', JStr (r_status r)),
     (''error'', opt_json (r_error r)), (''message'', opt_json (r_message r)),
     (''promise_id'', opt_json (r_promise_id r)), (''ping_id'', opt_json (r_ping_id r)),
     (''post_id'', opt_json (r_post_id r)), (''price'', opt_f64_json (r_price r)),
     (''bid'', opt_f64_json (r_bid r))]"

definition ask_buyer ::
  "extlib \<Rightarrow> codecs \<Rightarrow> string \<Rightarrow> PingTreeRouter \<Rightarrow> (uuid \<rightharpoonup> BuyerIntegration option)
   \<Rightarrow> (uuid \<rightharpoonup> BuyerQualificationConfig option) \<Rightarrow> Campaign \<Rightarrow> (world, task_outcome \<times> uuid \<times> u64) io" where
  "ask_buyer X S key r integrations configs campaign =
     (let integration = flatten_option (integrations (c_buyer_id campaign));
          config = flatten_option (configs (c_buyer_id campaign));
          router = with_cache (pr_cache r) (with_preloaded_qual_config config
            (with_preloaded_integration integration
              (BuyerRouter_new (pr_lead r) [campaign] (pr_request_type r) key)));
          route = io_bind (io_try (BuyerRouter_route X S router)) (\<lambda>res.
            io_return (case res of Inr resp \<Rightarrow> Answered resp | Inl e \<Rightarrow> Failed e)) in
      io_bind (if (case integration of Some i \<Rightarrow> bi_is_internal i | None \<Rightarrow> False) then route
               else io_bind met_deadline (\<lambda>deadline.
                 case deadline of
                   Met \<Rightarrow> route
                 | CutBefore \<Rightarrow> io_return TimedOut
                 | CutAfter \<Rightarrow> io_bind route (\<lambda>_. io_return TimedOut)))
        (\<lambda>outcome. io_bind elapsed (\<lambda>d. io_return (outcome, c_id campaign, d))))"

definition ask_buyers ::
  "(Campaign \<Rightarrow> (world, 'a) io) \<Rightarrow> Campaign list \<Rightarrow> (world, 'a list) io" where
  "ask_buyers ask cs =
     io_bind (completion_order (length cs)) (\<lambda>order. io_mapM (\<lambda>i. ask (cs ! i)) order)"

definition error_response :: "string \<Rightarrow> string \<Rightarrow> string option \<Rightarrow> BuyerResponse" where
  "error_response status err ping_id = \<lparr> r_success = False, r_status = status, r_error = Some err,
     r_message = None, r_promise_id = None, r_ping_id = ping_id, r_post_id = None, r_price = None,
     r_bid = None \<rparr>"

definition TIMEOUT_TEXT :: string where
  "TIMEOUT_TEXT = ''Buyer did not respond within timeout period''"

definition outcome_response ::
  "extlib \<Rightarrow> PingTreeRouter \<Rightarrow> task_outcome \<Rightarrow> (world, BuyerResponse) io" where
  "outcome_response X r outcome =
     (let ping = (pr_request_type r = ''ping'') in
      case outcome of
        Answered resp \<Rightarrow> io_return resp
      | Failed e \<Rightarrow> io_bind (id_or_new X None ping ''ping_error_'') (\<lambda>i. io_return (error_response ''error'' e i))
      | TimedOut \<Rightarrow> io_bind (id_or_new X None ping ''ping_timeout_'') (\<lambda>i.
          io_return (error_response ''timeout'' TIMEOUT_TEXT i)))"

definition find_campaign :: "Campaign list \<Rightarrow> uuid \<Rightarrow> Campaign option" where
  "find_campaign cs i = List.find (\<lambda>c. c_id c = i) cs"

definition buyer_timing ::
  "extlib \<Rightarrow> Campaign list \<Rightarrow> task_outcome \<times> uuid \<times> u64 \<Rightarrow> json option" where
  "buyer_timing X cs = (\<lambda>(outcome, i, d). map_option (\<lambda>campaign.
     let common = [(''campaign_id'', JStr (uuid_text X i)),
                   (''buyer_id'', JStr (uuid_text X (c_buyer_id campaign))),
                   (''processing_time_ms'', JInt (uint d))] in
     JObj (case outcome of
        Answered resp \<Rightarrow> common @ [(''status'', JStr (r_status resp)), (''bid'', opt_f64_json (r_bid resp)),
                                    (''success'', JBool (r_success resp))]
      | Failed e \<Rightarrow> common @ [(''status'', JStr ''error''), (''bid'', JNull), (''success'', JBool False),
                               (''error'', JStr e)]
      | TimedOut \<Rightarrow> common @ [(''status'', JStr ''timeout''), (''bid'', JNull), (''success'', JBool False),
                               (''error'', JStr TIMEOUT_TEXT)])) (find_campaign cs i))"

definition priority_in :: "(uuid \<rightharpoonup> i32 option) \<Rightarrow> uuid \<Rightarrow> i32 option" where
  "priority_in priorities i = flatten_option (priorities i)"

definition campaign_suffix :: "extlib \<Rightarrow> uuid \<Rightarrow> string" where
  "campaign_suffix X i = take 8 (filter (\<lambda>ch. ch \<noteq> CHR ''-'') (uuid_text X i))"

definition unique_ping_id :: "extlib \<Rightarrow> uuid \<Rightarrow> string \<Rightarrow> string" where
  "unique_ping_id X campaign_id ping_id =
     (if contains ping_id ''_C'' then ping_id else ping_id @ ''_C'' @ campaign_suffix X campaign_id)"

definition ping_response_row ::
  "extlib \<Rightarrow> PingTreeRouter \<Rightarrow> Campaign list \<Rightarrow> auction_entry \<Rightarrow> (world, BuyerResponseTuple) io" where
  "ping_response_row X r cs = (\<lambda>(resp, campaign_id, _).
     io_bind (id_or_new X (r_ping_id resp) (pr_request_type r = ''ping'') ''ping_'') (\<lambda>ping_id.
     io_return \<lparr> brt_lead_id = l_uuid (pr_lead r), brt_campaign_id = campaign_id,
       brt_ping_id = map_option (unique_ping_id X campaign_id) ping_id, brt_post_id = None,
       brt_buyer_id = map_option c_buyer_id (find_campaign cs campaign_id),
       brt_payload = response_json resp, brt_lead_id_str = l_lead_id (pr_lead r) \<rparr>))"

definition store_ping_responses :: "PingTreeRouter \<Rightarrow> BuyerResponseTuple list \<Rightarrow> (world, unit) io" where
  "store_ping_responses r rows =
     (if pr_queue r then io_iter (\<lambda>row. enqueue_task (BuyerResponseTask row)) rows
      else io_bind (io_try (router_batch_insert_buyer_responses rows)) (\<lambda>_. io_return ()))"

definition valid_ping_response :: "auction_entry \<Rightarrow> bool" where
  "valid_ping_response e \<longleftrightarrow>
     r_success (fst e) \<and> (is_some (r_bid (fst e)) \<and> f64_lt (Fin 0) (unwrap_or (r_bid (fst e)) (Fin 0)))
     \<and> is_some (r_promise_id (fst e)) \<and> r_status (fst e) \<noteq> ''timeout''"

definition count_status :: "string \<Rightarrow> auction_entry list \<Rightarrow> nat" where
  "count_status s es = length (filter (\<lambda>e. r_status (fst e) = s) es)"

definition no_valid_status :: "nat \<Rightarrow> nat \<Rightarrow> nat \<Rightarrow> LeadStatus" where
  "no_valid_status timeouts rejected n =
     (if timeouts = n then LS_Timeout else if 0 < rejected then LS_Rejected else LS_Error)"

definition no_valid_text :: "nat \<Rightarrow> nat \<Rightarrow> string" where
  "no_valid_text timeouts rejected =
     ''No valid buyer responses ('' @ show_nat timeouts @ '' timeouts, '' @ show_nat rejected @ '' rejected)''"

definition map_ping_status_to_lead_status :: "string \<Rightarrow> bool \<Rightarrow> string" where
  "map_ping_status_to_lead_status buyer_status success =
     (let s = to_lowercase buyer_status in
      if s \<in> {''rejected'', ''declined'', ''denied''} then ''rejected''
      else if s = ''accepted'' then (if success then ''accepted'' else ''error'')
      else if s = ''timeout'' then ''timeout''
      else if s \<in> {''invalid'', ''invalid_lead'', ''validation_error''} then ''invalid''
      else if s \<in> {''error'', ''server_error'', ''internal_error''} then ''error''
      else if success then ''ping_accepted'' else ''error'')"

definition non_empty :: "'a list \<Rightarrow> 'a list option" where
  "non_empty xs = (if xs = [] then None else Some xs)"

definition winner_update :: "PingTreeRouter \<Rightarrow> Campaign \<Rightarrow> BuyerResponse \<Rightarrow> f64 option \<Rightarrow> LeadUpdateTuple" where
  "winner_update r campaign resp winning_bid = \<lparr> lu_lead_id = l_uuid (pr_lead r),
     lu_status = LS_PingAccepted, lu_campaign_id = Some (c_id campaign),
     lu_buyer_id = Some (c_buyer_id campaign), lu_promise_id = r_promise_id resp,
     lu_ping_id = r_ping_id resp, lu_post_id = None, lu_sold_at = False, lu_inprog_token = None,
     lu_vertical_data = winning_bid_json winning_bid \<rparr>"

definition settle_ping_auction ::
  "extlib \<Rightarrow> PingTreeRouter \<Rightarrow> Campaign list \<Rightarrow> auction_entry list \<Rightarrow> json list \<Rightarrow> (world, RoutingResult) io" where
  "settle_ping_auction X r cs responses timings =
     (let valid = filter valid_ping_response responses in
      if valid = []
      then let timeouts = count_status ''timeout'' responses; rejected = count_status ''rejected'' responses;
               final = no_valid_status timeouts rejected (length responses) in
           io_bind (update_lead_status X r final (Some ''No valid buyer responses'')) (\<lambda>_.
           io_return (failed_routing (LeadStatus_as_str final) (no_valid_text timeouts rejected)
             (non_empty timings)))
      else io_bind draw (\<lambda>x.
        case select_winner (ucast x) valid of
          None \<Rightarrow> io_err PANIC
        | Some (resp, campaign_id, _) \<Rightarrow>
            io_bind (io_ok_or (find_campaign cs campaign_id) ''Winner campaign not found'') (\<lambda>campaign.
            let winning_bid = opt_or (r_price resp) (r_bid resp) in
            io_bind (if pr_queue r then enqueue_task (LeadUpdate (winner_update r campaign resp winning_bid))
                     else update_lead_with_winner r campaign (unwrap_or (r_promise_id resp) [])
                            (r_ping_id resp) winning_bid) (\<lambda>_.
            io_return \<lparr> rr_success = r_success resp,
              rr_status = map_ping_status_to_lead_status (r_status resp) (r_success resp),
              rr_error = r_error resp, rr_promise_id = r_promise_id resp, rr_ping_id = r_ping_id resp,
              rr_post_id = r_post_id resp, rr_price = winning_bid, rr_campaign_id = Some campaign_id,
              rr_buyer_id = Some (c_buyer_id campaign), rr_per_buyer_timings = non_empty timings \<rparr>))))"

definition collect_responses ::
  "extlib \<Rightarrow> PingTreeRouter \<Rightarrow> (uuid \<rightharpoonup> i32 option) \<Rightarrow> (task_outcome \<times> uuid \<times> u64) list
   \<Rightarrow> (world, auction_entry list) io" where
  "collect_responses X r priorities = io_mapM (\<lambda>(outcome, i, _).
     io_bind (outcome_response X r outcome) (\<lambda>resp. io_return (resp, i, priority_in priorities i)))"

definition route_ping_auction ::
  "extlib \<Rightarrow> codecs \<Rightarrow> string \<Rightarrow> PingTreeRouter \<Rightarrow> Campaign list \<Rightarrow> (uuid \<rightharpoonup> i32 option)
   \<Rightarrow> (uuid \<rightharpoonup> BuyerIntegration option) \<Rightarrow> (uuid \<rightharpoonup> BuyerQualificationConfig option)
   \<Rightarrow> (world, RoutingResult) io" where
  "route_ping_auction X S key r cs priorities integrations configs =
     io_bind (ask_buyers (ask_buyer X S key r integrations configs) cs) (\<lambda>results.
     io_bind elapsed (\<lambda>d.
     io_bind (on_metrics (record_ping_auction d)) (\<lambda>_.
     io_bind (on_metrics (record_stage_timing ''ping_auction'' d)) (\<lambda>_.
     io_bind (collect_responses X r priorities results) (\<lambda>responses.
     io_bind (io_mapM (ping_response_row X r cs) responses) (\<lambda>rows.
     io_bind (if rows \<noteq> [] then store_ping_responses r rows else io_return ()) (\<lambda>_.
     io_bind (on_timing (timing_record_ping_auction d)) (\<lambda>_.
     settle_ping_auction X r cs responses (List.map_filter (buyer_timing X cs) results)))))))))"

section \<open>The post\<close>

definition post_router :: "PingTreeRouter \<Rightarrow> string \<Rightarrow> Campaign \<Rightarrow> string \<Rightarrow> BuyerRouter" where
  "post_router r key campaign request_type =
     with_cache (pr_cache r) (BuyerRouter_new (pr_lead r) [campaign] request_type key)"

definition post_response_row :: "PingTreeRouter \<Rightarrow> Campaign \<Rightarrow> BuyerResponse \<Rightarrow> BuyerResponseTuple" where
  "post_response_row r campaign resp = \<lparr> brt_lead_id = l_uuid (pr_lead r),
     brt_campaign_id = c_id campaign, brt_ping_id = None, brt_post_id = r_post_id resp,
     brt_buyer_id = Some (c_buyer_id campaign), brt_payload = response_json resp,
     brt_lead_id_str = l_lead_id (pr_lead r) \<rparr>"

definition valid_post_response :: "BuyerResponse \<Rightarrow> bool" where
  "valid_post_response resp \<longleftrightarrow> r_success resp \<and> is_some (r_post_id resp) \<and> is_some (r_price resp)
     \<and> f64_lt (Fin 0) (unwrap_or (r_price resp) (Fin 0))"

definition post_final_status :: "string \<Rightarrow> LeadStatus" where
  "post_final_status s =
     (if s = ''rejected'' then LS_Rejected else if s = ''timeout'' then LS_Timeout else LS_Error)"

definition post_routing ::
  "bool \<Rightarrow> string \<Rightarrow> string option \<Rightarrow> BuyerResponse \<Rightarrow> Campaign \<Rightarrow> RoutingResult" where
  "post_routing success status err resp campaign = \<lparr> rr_success = success, rr_status = status,
     rr_error = err, rr_promise_id = r_promise_id resp, rr_ping_id = r_ping_id resp,
     rr_post_id = r_post_id resp, rr_price = r_price resp, rr_campaign_id = Some (c_id campaign),
     rr_buyer_id = Some (c_buyer_id campaign), rr_per_buyer_timings = None \<rparr>"

definition settle_post ::
  "extlib \<Rightarrow> PingTreeRouter \<Rightarrow> Campaign \<Rightarrow> BuyerResponse result \<Rightarrow> (world, RoutingResult) io" where
  "settle_post X r campaign post_result =
     (case post_result of
        Inr resp \<Rightarrow>
          io_bind (io_when (pr_queue r) (enqueue_task (BuyerResponseTask (post_response_row r campaign resp)))) (\<lambda>_.
          if valid_post_response resp
          then io_bind (update_lead_with_post r (the (r_post_id resp))) (\<lambda>_.
               io_return (post_routing True ''sold'' None resp campaign))
          else let final = post_final_status (r_status resp) in
               io_bind (update_lead_status X r final (r_error resp)) (\<lambda>_.
               io_return (post_routing False (LeadStatus_as_str final) (r_error resp) resp campaign)))
      | Inl e \<Rightarrow>
          io_bind (update_lead_status X r LS_Error (Some ''Buyer routing failed'')) (\<lambda>_.
          io_return ((failed_routing ''error'' e None)
            \<lparr>rr_campaign_id := Some (c_id campaign), rr_buyer_id := Some (c_buyer_id campaign)\<rparr>)))"

definition post_campaign :: "PingTreeRouter \<Rightarrow> Campaign list \<Rightarrow> Campaign option" where
  "post_campaign r cs =
     (case l_campaign_id (pr_lead r) of
        Some i \<Rightarrow> find_campaign cs i
      | None \<Rightarrow> first_row cs)"

definition refuse :: "extlib \<Rightarrow> PingTreeRouter \<Rightarrow> string \<Rightarrow> string \<Rightarrow> (world, RoutingResult) io" where
  "refuse X r log_text err =
     io_bind (update_lead_status X r LS_Error (Some log_text)) (\<lambda>_.
     io_return (failed_routing ''error'' err None))"

definition route_post ::
  "extlib \<Rightarrow> codecs \<Rightarrow> string \<Rightarrow> PingTreeRouter \<Rightarrow> Campaign list \<Rightarrow> (world, RoutingResult) io" where
  "route_post X S key r cs =
     (if (case l_campaign_id (pr_lead r) of Some i \<Rightarrow> \<not> list_ex (\<lambda>c. c_id c = i) cs | None \<Rightarrow> False)
      then refuse X r ''Campaign from ping not found in ping tree'' ''Campaign from ping not found in ping tree''
      else case post_campaign r cs of
        Some campaign \<Rightarrow>
          io_bind (io_try (BuyerRouter_route X S (post_router r key campaign (pr_request_type r)))) (\<lambda>post_result.
          io_bind elapsed (\<lambda>d.
          io_bind (on_metrics (record_post d)) (\<lambda>_.
          io_bind (on_metrics (record_stage_timing ''post_sent'' d)) (\<lambda>_.
          io_bind (on_timing (record_post_sent d)) (\<lambda>_.
          settle_post X r campaign post_result)))))
      | None \<Rightarrow> refuse X r ''No campaign found for post'' ''No campaign found for post'')"

section \<open>The fullpost\<close>

definition merge_results :: "RoutingResult \<Rightarrow> RoutingResult \<Rightarrow> RoutingResult" where
  "merge_results ping post = \<lparr>
     rr_success = (rr_success post \<or> rr_success ping \<and> is_some (rr_post_id post)),
     rr_status = (if rr_success post \<and> is_some (rr_post_id post) \<and> is_some (rr_price post) then ''sold''
                  else if rr_success ping then ''ping_accepted'' else rr_status post),
     rr_error = opt_or (rr_error post) (rr_error ping),
     rr_promise_id = opt_or (rr_promise_id ping) (rr_promise_id post),
     rr_ping_id = opt_or (rr_ping_id ping) (rr_ping_id post),
     rr_post_id = rr_post_id post,
     rr_price = opt_or (rr_price post) (rr_price ping),
     rr_campaign_id = opt_or (rr_campaign_id post) (rr_campaign_id ping),
     rr_buyer_id = opt_or (rr_buyer_id post) (rr_buyer_id ping),
     rr_per_buyer_timings = opt_or (rr_per_buyer_timings ping) (rr_per_buyer_timings post) \<rparr>"

definition route_fullpost_as_ping_post ::
  "extlib \<Rightarrow> codecs \<Rightarrow> string \<Rightarrow> PingTreeRouter \<Rightarrow> Campaign list \<Rightarrow> (uuid \<rightharpoonup> i32 option)
   \<Rightarrow> (uuid \<rightharpoonup> BuyerIntegration option) \<Rightarrow> (uuid \<rightharpoonup> BuyerQualificationConfig option)
   \<Rightarrow> (world, RoutingResult) io" where
  "route_fullpost_as_ping_post X S key r cs priorities integrations configs =
     (let ping_router = router_with_timing_and_metrics (PingTreeRouter_new (pr_lead r)
            (pr_publisher_id r) (pr_vertical r) ''ping'' (pr_cache r) (pr_queue r)) in
      io_bind (route_ping_auction X S key ping_router cs priorities integrations configs) (\<lambda>ping.
      if \<not> rr_success ping then io_return ping
      else let lead1 = (pr_lead r)\<lparr>l_promise_id := opt_or (rr_promise_id ping) (l_promise_id (pr_lead r)),
                         l_campaign_id := opt_or (rr_campaign_id ping) (l_campaign_id (pr_lead r))\<rparr>;
               router = PingTreeRouter_new lead1 (pr_publisher_id r) (pr_vertical r) ''post''
                 (pr_cache r) (pr_queue r) in
           io_bind (route_post X S key router cs) (\<lambda>post.
           io_return (merge_results ping post))))"

definition valid_fullpost_response :: "auction_entry \<Rightarrow> bool" where
  "valid_fullpost_response e \<longleftrightarrow>
     r_success (fst e) \<and> is_some (r_price (fst e)) \<and> f64_lt (Fin 0) (unwrap_or (r_price (fst e)) (Fin 0))
     \<and> r_status (fst e) \<noteq> ''timeout''"

definition price_order :: "auction_entry \<Rightarrow> auction_entry \<Rightarrow> ordering" where
  "price_order a b =
     (case partial_cmp (unwrap_or (r_price (fst b)) (Fin 0)) (unwrap_or (r_price (fst a)) (Fin 0)) of
        Some Equal \<Rightarrow> cmp (unwrap_or (priority_of a) i32_MAX) (unwrap_or (priority_of b) i32_MAX)
      | Some ord \<Rightarrow> ord
      | None \<Rightarrow> Equal)"

text \<open>The answers, in the order in which they came, are paired with the campaigns in the order in which
  they were asked; failed calls are dropped.\<close>

definition pair_responses ::
  "(uuid \<rightharpoonup> i32 option) \<Rightarrow> uuid list \<Rightarrow> BuyerResponse result list \<Rightarrow> auction_entry list" where
  "pair_responses priorities campaign_ids results =
     List.map_filter (\<lambda>(i, result). case result of
         Inr resp \<Rightarrow> Some (resp, i, priority_in priorities i)
       | Inl _ \<Rightarrow> None) (zip campaign_ids results)"

definition fullpost_row ::
  "PingTreeRouter \<Rightarrow> Campaign list \<Rightarrow> auction_entry \<Rightarrow> BuyerResponseTuple" where
  "fullpost_row r cs = (\<lambda>(resp, campaign_id, _). \<lparr> brt_lead_id = l_uuid (pr_lead r),
     brt_campaign_id = campaign_id, brt_ping_id = None, brt_post_id = r_post_id resp,
     brt_buyer_id = map_option c_buyer_id (find_campaign cs campaign_id),
     brt_payload = response_json resp, brt_lead_id_str = l_lead_id (pr_lead r) \<rparr>)"

definition sell_fullpost ::
  "extlib \<Rightarrow> PingTreeRouter \<Rightarrow> Campaign list \<Rightarrow> auction_entry list \<Rightarrow> BuyerResponse \<Rightarrow> Campaign
   \<Rightarrow> (world, RoutingResult) io" where
  "sell_fullpost X r cs responses resp campaign =
     io_bind (case r_promise_id resp of
         Some p \<Rightarrow> io_return p
       | None \<Rightarrow> generate_promise_id X) (\<lambda>promise_id.
     io_bind (on_db (update_leads (\<lambda>l. l_uuid l = l_uuid (pr_lead r))
       (\<lambda>now l. l\<lparr>l_campaign_id := Some (c_id campaign), l_buyer_id := Some (c_buyer_id campaign),
          l_promise_id := Some promise_id, l_post_id := Some (unwrap_or (r_post_id resp) []),
          l_status := LS_Sold, l_updated_at := now\<rparr>))) (\<lambda>_.
     io_bind (io_when (pr_queue r)
       (io_iter (\<lambda>e. enqueue_task (BuyerResponseTask (fullpost_row r cs e))) responses)) (\<lambda>_.
     io_return \<lparr> rr_success = True, rr_status = ''sold'', rr_error = None,
       rr_promise_id = Some promise_id, rr_ping_id = None, rr_post_id = r_post_id resp,
       rr_price = r_price resp, rr_campaign_id = Some (c_id campaign),
       rr_buyer_id = Some (c_buyer_id campaign), rr_per_buyer_timings = None \<rparr>)))"

definition settle_fullpost ::
  "extlib \<Rightarrow> PingTreeRouter \<Rightarrow> Campaign list \<Rightarrow> auction_entry list \<Rightarrow> (world, RoutingResult) io" where
  "settle_fullpost X r cs responses =
     (let valid = filter valid_fullpost_response responses in
      case sort_by price_order valid of
        [] \<Rightarrow>
          let timeouts = count_status ''timeout'' responses;
              rejected = length (filter (\<lambda>e. \<not> r_success (fst e) \<and> r_status (fst e) \<noteq> ''timeout'') responses);
              final = no_valid_status timeouts rejected (length responses) in
          io_bind (update_lead_status X r final (Some ''No valid buyer responses'')) (\<lambda>_.
          io_return (failed_routing (LeadStatus_as_str final) (no_valid_text timeouts rejected) None))
      | (resp, campaign_id, _) # _ \<Rightarrow>
          io_bind (io_ok_or (find_campaign cs campaign_id) ''Winner campaign not found'') (\<lambda>campaign.
          sell_fullpost X r cs responses resp campaign))"

definition route_fullpost_to_all ::
  "extlib \<Rightarrow> codecs \<Rightarrow> string \<Rightarrow> PingTreeRouter \<Rightarrow> Campaign list \<Rightarrow> (uuid \<rightharpoonup> i32 option)
   \<Rightarrow> (world, RoutingResult) io" where
  "route_fullpost_to_all X S key r cs priorities =
     io_bind (ask_buyers (\<lambda>c. io_try (BuyerRouter_route X S (post_router r key c ''fullpost''))) cs) (\<lambda>results.
     io_bind elapsed (\<lambda>d.
     io_bind (on_timing (record_post_sent d)) (\<lambda>_.
     io_bind (on_metrics (record_stage_timing ''fullpost_auction'' d)) (\<lambda>_.
     settle_fullpost X r cs (pair_responses priorities (map c_id cs) results)))))"

definition route_fullpost ::
  "extlib \<Rightarrow> codecs \<Rightarrow> string \<Rightarrow> PingTreeRouter \<Rightarrow> Campaign list \<Rightarrow> PingTree \<Rightarrow> (uuid \<rightharpoonup> i32 option)
   \<Rightarrow> (uuid \<rightharpoonup> BuyerIntegration option) \<Rightarrow> (uuid \<rightharpoonup> BuyerQualificationConfig option)
   \<Rightarrow> (world, RoutingResult) io" where
  "route_fullpost X S key r cs tree priorities integrations configs =
     (if pt_strategy tree = ''ping_post''
      then route_fullpost_as_ping_post X S key r cs priorities integrations configs
      else route_fullpost_to_all X S key r cs priorities)"

section \<open>Loading the ping tree\<close>

definition cache_stats :: "(world, u64 \<times> u64) io" where
  "cache_stats = io_get (\<lambda>w. get_stats (w_cache w))"

definition count_cache :: "bool \<Rightarrow> u64 \<Rightarrow> (world, unit) io" where
  "count_cache hit d =
     (if hit then on_metrics record_cache_hit
      else io_when (0 < d) (on_metrics record_cache_miss))"

definition load_tree ::
  "extlib \<Rightarrow> codecs \<Rightarrow> PingTreeRouter \<Rightarrow> (world, (PingTree \<times> decimal option \<times> decimal option) option) io" where
  "load_tree X S r =
     (let find = PingTree_find_for_routing (pr_publisher_id r) (pr_vertical r) in
      io_bind cache_stats (\<lambda>stats0.
      io_bind (if pr_cache r
          then on_cached_db (get_or_insert_with_skip_none (cd_tree S)
                 (''pingtree:pub:'' @ uuid_text X (pr_publisher_id r) @ '':vert:'' @ pr_vertical r) 21600
                 (io_map_err db_error find))
          else on_db find) (\<lambda>tree.
      io_bind elapsed (\<lambda>d.
      io_bind cache_stats (\<lambda>after.
      io_bind (count_cache (pr_cache r \<and> fst stats0 < fst after) d) (\<lambda>_.
      io_bind (on_timing (record_pre_checks d)) (\<lambda>_.
      io_return tree)))))))"

definition load_tree_campaigns ::
  "extlib \<Rightarrow> codecs \<Rightarrow> PingTreeRouter \<Rightarrow> PingTree \<Rightarrow> (world, PingTreeCampaign list) io" where
  "load_tree_campaigns X S r tree =
     (let find = PingTreeCampaign_find_enabled (pt_id tree);
          lookups = (\<lambda>stats :: u64 \<times> u64. if pr_cache r then fst stats + snd stats else 0) in
      io_bind cache_stats (\<lambda>stats0.
      io_bind (if pr_cache r
          then on_cached_db (get_or_insert_with (cd_tree_campaigns S)
                 (''campaigns:pingtree:'' @ uuid_text X (pt_id tree)) 21600 (io_map_err db_error find))
          else on_db find) (\<lambda>found.
      io_bind elapsed (\<lambda>d.
      io_bind cache_stats (\<lambda>after.
      io_bind (count_cache (lookups stats0 < lookups after) d) (\<lambda>_.
      io_bind (on_timing (record_pre_checks d)) (\<lambda>_.
      io_bind (on_metrics (record_query d)) (\<lambda>_.
      io_return found))))))))"

definition DB_ERROR :: "error \<Rightarrow> error" where
  "DB_ERROR e = ''DB error: '' @ e"

definition campaign_buyer :: "uuid \<Rightarrow> (db, uuid option) io" where
  "campaign_buyer i = db_query_optional (\<lambda>d.
     map c_buyer_id (filter (\<lambda>c. c_id c = i \<and> c_deleted_at c = None) (campaigns d)))"

definition distinct_buyers :: "uuid list \<Rightarrow> (db, uuid list) io" where
  "distinct_buyers ids = db_query (\<lambda>d.
     remdups (map c_buyer_id (filter (\<lambda>c. c_id c \<in> set ids \<and> c_deleted_at c = None) (campaigns d))))"

definition ok_or_default :: "'a \<Rightarrow> ('s, 'a) io \<Rightarrow> ('s, 'a) io" where
  "ok_or_default d m = io_bind (io_try m) (\<lambda>res. io_return (case res of Inr x \<Rightarrow> x | Inl _ \<Rightarrow> d))"

text \<open>The set of buyers, in no particular order in the code, here in the order of the campaigns.\<close>

definition load_buyer_ids :: "extlib \<Rightarrow> codecs \<Rightarrow> PingTreeRouter \<Rightarrow> uuid list \<Rightarrow> (world, uuid list) io" where
  "load_buyer_ids X S r ids =
     (if pr_cache r
      then io_bind (io_mapM (\<lambda>i. io_try (on_cached_db (get_or_insert_with (cd_buyer_id S)
               (''campaign:buyer_id:'' @ uuid_text X i) 3600 (io_map_err DB_ERROR (campaign_buyer i))))) ids)
             (\<lambda>found. io_return (remdups (List.map_filter ok_some found)))
      else ok_or_default [] (on_db (distinct_buyers ids)))"

definition joined_ids :: "extlib \<Rightarrow> uuid list \<Rightarrow> string" where
  "joined_ids X ids = join '','' (map (uuid_text X) (sort ids))"

definition load_associations :: "extlib \<Rightarrow> codecs \<Rightarrow> PingTreeRouter \<Rightarrow> uuid list \<Rightarrow> (world, campaign_assoc list) io" where
  "load_associations X S r ids = ok_or_default []
     (if pr_cache r
      then on_cached_db (get_or_insert_with (cd_campaigns S) (''campaigns:associations:'' @ joined_ids X ids) 3600
             (io_map_err DB_ERROR (Campaign_find_by_ids_with_associations ids)))
      else on_db (Campaign_find_by_ids_with_associations ids))"

definition load_configs ::
  "extlib \<Rightarrow> codecs \<Rightarrow> PingTreeRouter \<Rightarrow> uuid list \<Rightarrow> (world, uuid \<rightharpoonup> BuyerQualificationConfig option) io" where
  "load_configs X S r buyer_ids =
     (if buyer_ids = [] then io_return Map.empty
      else ok_or_default Map.empty
        (if pr_cache r
         then on_cached_db (get_or_insert_with (cd_configs S) (''qual:buyers:'' @ joined_ids X buyer_ids) 3600
                (io_map_err DB_ERROR (QualificationConfig_find_by_buyer_ids buyer_ids)))
         else on_db (QualificationConfig_find_by_buyer_ids buyer_ids)))"

definition integration_map :: "campaign_assoc list \<Rightarrow> (uuid \<rightharpoonup> BuyerIntegration option)" where
  "integration_map assocs = fold (\<lambda>(c, _, integration) m. m(c_buyer_id c \<mapsto> integration)) assocs Map.empty"

definition active_campaign :: "Campaign list \<Rightarrow> PingTreeCampaign \<Rightarrow> Campaign option" where
  "active_campaign all ptc =
     (case find_campaign all (ptc_campaign_id ptc) of
        Some c \<Rightarrow> if Campaign_active c then Some c else None
      | None \<Rightarrow> None)"

definition routable_campaigns :: "Campaign list \<Rightarrow> PingTreeCampaign list \<Rightarrow> Campaign list" where
  "routable_campaigns all ptcs = List.map_filter (active_campaign all) ptcs"

definition priority_map :: "Campaign list \<Rightarrow> PingTreeCampaign list \<Rightarrow> (uuid \<rightharpoonup> i32 option)" where
  "priority_map all ptcs = fold (\<lambda>ptc m.
     case active_campaign all ptc of Some c \<Rightarrow> m(c_id c \<mapsto> ptc_priority ptc) | None \<Rightarrow> m) ptcs Map.empty"

section \<open>Routing\<close>

definition dispatch ::
  "extlib \<Rightarrow> codecs \<Rightarrow> string \<Rightarrow> PingTreeRouter \<Rightarrow> PingTree \<Rightarrow> Campaign list \<Rightarrow> (uuid \<rightharpoonup> i32 option)
   \<Rightarrow> (uuid \<rightharpoonup> BuyerIntegration option) \<Rightarrow> (uuid \<rightharpoonup> BuyerQualificationConfig option)
   \<Rightarrow> (world, RoutingResult) io" where
  "dispatch X S key r tree cs priorities integrations configs =
     (if pr_request_type r = ''ping'' then route_ping_auction X S key r cs priorities integrations configs
      else if pr_request_type r = ''post'' then route_post X S key r cs
      else if pr_request_type r = ''fullpost''
      then route_fullpost X S key r cs tree priorities integrations configs
      else refuse X r (''Unknown request_type: '' @ pr_request_type r)
             (''Unknown request_type: '' @ pr_request_type r))"

definition route_tree ::
  "extlib \<Rightarrow> codecs \<Rightarrow> string \<Rightarrow> PingTreeRouter \<Rightarrow> PingTree \<Rightarrow> PingTreeCampaign list \<Rightarrow> (world, RoutingResult) io" where
  "route_tree X S key r tree ptcs =
     (let ids = map ptc_campaign_id ptcs in
      io_bind (load_buyer_ids X S r ids) (\<lambda>buyer_ids.
      io_bind (load_associations X S r ids) (\<lambda>assocs.
      io_bind (load_configs X S r buyer_ids) (\<lambda>configs.
      io_bind elapsed (\<lambda>d.
      io_bind (on_metrics (record_query d)) (\<lambda>_.
      io_bind (on_timing (record_pre_checks d)) (\<lambda>_.
      let all = map fst assocs; cs = routable_campaigns all ptcs in
      io_bind (on_metrics (record_query d)) (\<lambda>_.
      io_bind (on_timing (record_qualification d)) (\<lambda>_.
      if cs = [] then refuse X r ''No valid campaigns found'' ''No valid campaigns found''
      else dispatch X S key r tree cs (priority_map all ptcs) (integration_map assocs) configs)))))))))"

definition route_shared ::
  "extlib \<Rightarrow> codecs \<Rightarrow> string \<Rightarrow> PingTreeRouter \<Rightarrow> (world, RoutingResult) io" where
  "route_shared X S key r =
     io_bind (load_tree X S r) (\<lambda>found.
     case found of
       None \<Rightarrow> refuse X r ''Publisher not assigned to any ping tree''
         (''Publisher not assigned to any ping tree for vertical: '' @ pr_vertical r)
     | Some (tree, _, _) \<Rightarrow>
         if \<not> PingTree_is_active tree
         then refuse X r (''Ping tree is '' @ pt_status tree)
                (''Ping tree is '' @ pt_status tree @ ''. Only active ping trees accept requests.'')
         else io_bind (load_tree_campaigns X S r tree) (\<lambda>ptcs.
           if ptcs = []
           then refuse X r ''No active campaigns found in ping tree'' ''No active campaigns found in ping tree''
           else route_tree X S key r tree ptcs))"

definition PingTreeRouter_route ::
  "extlib \<Rightarrow> codecs \<Rightarrow> string \<Rightarrow> PingTreeRouter \<Rightarrow> (world, RoutingResult) io" where
  "PingTreeRouter_route X S key r w =
     (if pr_shared r then route_shared X S key r w
      else let fresh = w\<lparr>w_metrics := DiagnosticMetrics_new,
                         w_timing := AtomicAuctionTiming_new (db_now (w_db w))\<rparr> in
           case route_shared X S key r fresh of
             (res, w') \<Rightarrow> (res, w'\<lparr>w_metrics := w_metrics w, w_timing := w_timing w\<rparr>))"

end
