(* ===== verification/Ssm.thy ===== *)
theory Ssm
  imports Cache
begin

text \<open>
  Model of \<open>crates/core/src/ssm.rs\<close>: the parameters that the service reads from the AWS
  parameter store, with what it keeps of them in Redis. What the store replies to the coming
  requests is prescribed by lists: a value, no such parameter, an error or a timeout for a single
  parameter, and pages for a path (an empty list replies with nothing). The form in which a map of
  parameters is kept in Redis is a codec. The environment variables are part of the state.
\<close>

section \<open>State\<close>

datatype ssm_reply = Parameter "string option" | NoParameter | StoreError error | StoreTimeout

text \<open>A page has parameters, whose name and value may be missing, and says whether more follow.\<close>

datatype ssm_page = Page "(string option \<times> string option) list" bool | PageError error

record SsmService =
  sm_redis :: "RedisClient option"
  sm_env :: string
  sm_replies :: "ssm_reply list"
  sm_pages :: "ssm_page list"
  sm_vars :: "(string \<times> string) list"

definition SsmService_new ::
  "string \<Rightarrow> RedisClient option \<Rightarrow> ssm_reply list \<Rightarrow> ssm_page list \<Rightarrow> (string \<times> string) list \<Rightarrow> SsmService" where
  "SsmService_new env redis replies pages vars = \<lparr> sm_redis = redis, sm_env = normalize_env_for_ssm env,
     sm_replies = replies, sm_pages = pages, sm_vars = vars \<rparr>"

section \<open>One parameter\<close>

definition try_dev_encryption_fallback :: "(string \<times> string) list \<Rightarrow> string \<Rightarrow> string option" where
  "try_dev_encryption_fallback vars path =
     opt_or (if contains path ''deterministic_key'' then map_of vars ''LEADSNEBULA_DEV_DETERMINISTIC_KEY'' else None)
       (if contains path ''key_derivation_salt'' then map_of vars ''LEADSNEBULA_DEV_KEY_DERIVATION_SALT'' else None)"

definition SSM_CACHE_MISS_MARKER :: string where "SSM_CACHE_MISS_MARKER = ''__none__''"

definition SSM_CACHE_MISS_TTL :: u64 where "SSM_CACHE_MISS_TTL = 300"

definition parameter_ttl :: "string \<Rightarrow> u64" where
  "parameter_ttl path = (if contains path ''/encryption/'' then 604800 else 86400)"

definition parameter_key :: "SsmService \<Rightarrow> string \<Rightarrow> bool \<Rightarrow> string" where
  "parameter_key s path with_decryption = sm_env s @ '':ssm:'' @ path @ '':'' @ show_bool with_decryption"

text \<open>Reading and writing Redis where there is one; errors are ignored.\<close>

definition recall :: "string \<Rightarrow> (SsmService, string option) io" where
  "recall key s =
     (case sm_redis s of
        None \<Rightarrow> (Inr None, s)
      | Some c \<Rightarrow> (case redis_get key c of
            (Inr m, c') \<Rightarrow> (Inr m, s\<lparr>sm_redis := Some c'\<rparr>)
          | (Inl _, c') \<Rightarrow> (Inr None, s\<lparr>sm_redis := Some c'\<rparr>)))"

definition remember :: "string \<Rightarrow> string \<Rightarrow> u64 \<Rightarrow> (SsmService, unit) io" where
  "remember key value ttl s =
     (case sm_redis s of
        None \<Rightarrow> (Inr (), s)
      | Some c \<Rightarrow> (Inr (), s\<lparr>sm_redis := Some (snd (redis_set_with_ttl key value ttl c))\<rparr>))"

definition ask_store :: "(SsmService, ssm_reply) io" where
  "ask_store s = (Inr (case sm_replies s of [] \<Rightarrow> NoParameter | r # _ \<Rightarrow> r), s\<lparr>sm_replies := tl (sm_replies s)\<rparr>)"

definition parameter_found :: "string \<Rightarrow> bool \<Rightarrow> string \<Rightarrow> (SsmService, string option) io" where
  "parameter_found path with_decryption value =
     io_bind (io_get (\<lambda>s. parameter_key s path with_decryption)) (\<lambda>key.
     io_bind (remember key value (parameter_ttl path)) (\<lambda>_. io_return (Some value)))"

definition parameter_missing :: "string \<Rightarrow> bool \<Rightarrow> (SsmService, string option) io" where
  "parameter_missing path with_decryption =
     io_bind (io_get (\<lambda>s. parameter_key s path with_decryption)) (\<lambda>key.
     io_bind (remember key SSM_CACHE_MISS_MARKER SSM_CACHE_MISS_TTL) (\<lambda>_.
     io_get (\<lambda>s. try_dev_encryption_fallback (sm_vars s) path)))"

definition get_parameter :: "string \<Rightarrow> bool \<Rightarrow> (SsmService, string option) io" where
  "get_parameter path with_decryption =
     io_bind (io_get (\<lambda>s. parameter_key s path with_decryption)) (\<lambda>key.
     io_bind (recall key) (\<lambda>cached.
     case cached of
       Some v \<Rightarrow> io_return (if v = SSM_CACHE_MISS_MARKER then None else Some v)
     | None \<Rightarrow> io_bind ask_store (\<lambda>reply.
         case reply of
           Parameter v \<Rightarrow> parameter_found path with_decryption (unwrap_or v [])
         | NoParameter \<Rightarrow> parameter_missing path with_decryption
         | _ \<Rightarrow> io_bind ask_store (\<lambda>reply2.
             case reply2 of
               Parameter v \<Rightarrow> parameter_found path with_decryption (unwrap_or v [])
             | _ \<Rightarrow> parameter_missing path with_decryption))))"

section \<open>The parameters of a path\<close>

fun insert_parameters :: "(string option \<times> string option) list \<Rightarrow> (string \<times> string) list \<Rightarrow> (string \<times> string) list" where
  "insert_parameters [] m = m"
| "insert_parameters ((Some name, Some value) # ps) m = insert_parameters ps (AList.update name value m)"
| "insert_parameters (_ # ps) m = insert_parameters ps m"

text \<open>The loop over the pages: the parameters and the pages that are left, or the error.\<close>

fun fetch_pages :: "ssm_page list \<Rightarrow> (string \<times> string) list \<Rightarrow> (string \<times> string) list result \<times> ssm_page list" where
  "fetch_pages [] m = (Inr m, [])"
| "fetch_pages (PageError e # pages) m = (Inl (''Failed to fetch SSM parameters: '' @ e), pages)"
| "fetch_pages (Page ps more_pages # pages) m =
     (let m' = insert_parameters ps m in if more_pages then fetch_pages pages m' else (Inr m', pages))"

definition get_parameters_by_path ::
  "(string \<times> string) list codec \<Rightarrow> string \<Rightarrow> (SsmService, (string \<times> string) list) io" where
  "get_parameters_by_path cd path_prefix =
     io_bind (io_get (\<lambda>s. sm_env s @ '':ssm:path:'' @ path_prefix)) (\<lambda>key.
     io_bind (recall key) (\<lambda>cached.
     case Option.bind cached (serde_from cd) of
       Some m \<Rightarrow> io_return m
     | None \<Rightarrow>
         io_bind (\<lambda>s. case fetch_pages (sm_pages s) [] of (r, pages) \<Rightarrow> (r, s\<lparr>sm_pages := pages\<rparr>)) (\<lambda>m.
         io_bind (case serde_to cd m of Inr text \<Rightarrow> remember key text 86400 | Inl _ \<Rightarrow> io_return ()) (\<lambda>_.
         io_return m))))"

definition build_path :: "SsmService \<Rightarrow> string \<Rightarrow> string \<Rightarrow> string option \<Rightarrow> string" where
  "build_path s component category key_name =
     (let base = ''/leadsnebula/'' @ sm_env s @ ''/'' @ component @ ''/'' @ category in
      case key_name of Some key \<Rightarrow> base @ ''/'' @ key | None \<Rightarrow> base)"

section \<open>Properties\<close>

lemma ssm_never_fails:
  "never_fails (recall key)" "never_fails (remember key v ttl)" "never_fails ask_store"
  by (auto simp: never_fails_def recall_def remember_def ask_store_def split: option.split prod.split sum.split)

text \<open>However the store behaves, reading a parameter gives no error.\<close>

lemma get_parameter_never_fails: "never_fails (get_parameter path d)"
proof -
  have "never_fails (parameter_found path d v)" "never_fails (parameter_missing path d)" for v
    unfolding parameter_found_def parameter_missing_def by (intro preserves_intros ssm_never_fails)+
  then show ?thesis
    unfolding get_parameter_def
    by (auto intro!: preserves_intros ssm_never_fails split: ssm_reply.split)
qed

text \<open>Redis answers every command.\<close>

definition ssm_healthy :: "SsmService \<Rightarrow> bool" where
  "ssm_healthy s = (case sm_redis s of Some c \<Rightarrow> rd_faults c = [] | None \<Rightarrow> False)"

definition known :: "SsmService \<Rightarrow> string \<Rightarrow> string option" where
  "known s key = (case sm_redis s of Some c \<Rightarrow> live_value c (prefix_key c key) | None \<Rightarrow> None)"

lemma recall_run:
  assumes "ssm_healthy s"
  shows "recall key s = (Inr (known s key), s)"
  using assms by (cases s) (auto simp: ssm_healthy_def recall_def known_def redis_get_def redis_op_def io_simps split: option.splits)

text \<open>The service some seconds later.\<close>

definition later :: "nat \<Rightarrow> SsmService \<Rightarrow> SsmService" where
  "later t s = s\<lparr>sm_redis := map_option (\<lambda>c. c\<lparr>rd_now := rd_now c + t\<rparr>) (sm_redis s)\<rparr>"

lemma later_simps [simp]:
  "parameter_key (later t s) path d = parameter_key s path d" "ssm_healthy (later t s) = ssm_healthy s"
  "sm_vars (later t s) = sm_vars s"
  by (auto simp: later_def parameter_key_def ssm_healthy_def split: option.split)

lemma remember_run:
  assumes "ssm_healthy s" and "0 < ttl"
  shows "\<exists>s'. remember key v ttl s = (Inr (), s') \<and> ssm_healthy s' \<and> sm_vars s' = sm_vars s
    \<and> (\<forall>path d. parameter_key s' path d = parameter_key s path d)
    \<and> (\<forall>t < unat ttl. known (later t s') key = Some v)"
proof -
  obtain c where c: "sm_redis s = Some c" "rd_faults c = []"
    using assms(1) by (auto simp: ssm_healthy_def split: option.splits)
  let ?c = "put_entry (prefix_key c key) v (Some (rd_now c + unat ttl)) c"
  have set: "redis_set_with_ttl key v ttl c = (Inr (), ?c)"
    using c(2) assms(2) by (simp add: redis_set_with_ttl_def redis_op_def io_simps)
  have "live_value (?c\<lparr>rd_now := rd_now c + t\<rparr>) (prefix_key ?c key) = Some v" if "t < unat ttl" for t
    using that by (simp add: live_value_def live_entry_def put_entry_def prefix_key_def unexpired_def update_conv')
  then have "known (later t (s\<lparr>sm_redis := Some ?c\<rparr>)) key = Some v" if "t < unat ttl" for t
    using that by (simp add: known_def later_def prefix_key_def put_entry_def)
  moreover have "remember key v ttl s = (Inr (), s\<lparr>sm_redis := Some ?c\<rparr>)" using c(1) set by (simp add: remember_def)
  ultimately show ?thesis
    using c(2) by (intro exI [of _ "s\<lparr>sm_redis := Some ?c\<rparr>"]) (simp add: ssm_healthy_def parameter_key_def put_entry_def)
qed

lemma get_known:
  assumes "ssm_healthy s" and "known s (parameter_key s path d) = Some v"
  shows "get_parameter path d s = (Inr (if v = SSM_CACHE_MISS_MARKER then None else Some v), s)"
  using assms by (simp add: get_parameter_def io_bind_def io_get_def recall_run io_return_def)

lemma found_then_known:
  assumes "ssm_healthy s" and "v \<noteq> SSM_CACHE_MISS_MARKER"
  shows "\<exists>s'. parameter_found path d v s = (Inr (Some v), s')
    \<and> (\<forall>t < unat (parameter_ttl path). get_parameter path d (later t s') = (Inr (Some v), later t s'))"
proof -
  have ttl: "0 < parameter_ttl path" by (simp add: parameter_ttl_def)
  obtain s' where s': "remember (parameter_key s path d) v (parameter_ttl path) s = (Inr (), s')" "ssm_healthy s'"
    "parameter_key s' path d = parameter_key s path d"
    "\<forall>t < unat (parameter_ttl path). known (later t s') (parameter_key s path d) = Some v"
    using remember_run [OF assms(1) ttl, of "parameter_key s path d" v] by blast
  then have "parameter_found path d v s = (Inr (Some v), s')"
    by (simp add: parameter_found_def io_bind_def io_get_def io_return_def)
  moreover have "get_parameter path d (later t s') = (Inr (Some v), later t s')" if "t < unat (parameter_ttl path)" for t
    using get_known [of "later t s'" path d v] s' that assms(2) by simp
  ultimately show ?thesis by blast
qed

lemma missing_then_known:
  assumes "ssm_healthy s"
  shows "\<exists>s'. parameter_missing path d s = (Inr (try_dev_encryption_fallback (sm_vars s) path), s')
    \<and> (\<forall>t < 300. get_parameter path d (later t s') = (Inr None, later t s'))"
proof -
  have ttl: "(0 :: u64) < SSM_CACHE_MISS_TTL" "unat SSM_CACHE_MISS_TTL = 300" by (simp_all add: SSM_CACHE_MISS_TTL_def)
  obtain s' where s': "remember (parameter_key s path d) SSM_CACHE_MISS_MARKER SSM_CACHE_MISS_TTL s = (Inr (), s')"
    "ssm_healthy s'" "parameter_key s' path d = parameter_key s path d" "sm_vars s' = sm_vars s"
    "\<forall>t < 300. known (later t s') (parameter_key s path d) = Some SSM_CACHE_MISS_MARKER"
    using remember_run [OF assms ttl(1), of "parameter_key s path d" SSM_CACHE_MISS_MARKER] ttl(2) by fastforce
  then have "parameter_missing path d s = (Inr (try_dev_encryption_fallback (sm_vars s) path), s')"
    by (simp add: parameter_missing_def io_bind_def io_get_def)
  moreover have "get_parameter path d (later t s') = (Inr None, later t s')" if "t < 300" for t
    using get_known [of "later t s'" path d SSM_CACHE_MISS_MARKER] s' that by simp
  ultimately show ?thesis by blast
qed

definition attempt_fails :: "ssm_reply \<Rightarrow> bool" where
  "attempt_fails r = (case r of StoreError _ \<Rightarrow> True | StoreTimeout \<Rightarrow> True | _ \<Rightarrow> False)"

lemma first_attempts:
  assumes "ssm_healthy s" and "known s (parameter_key s path d) = None"
    and "sm_replies s = fails @ r # rest" and "list_all attempt_fails fails" and "length fails \<le> 1"
  shows "get_parameter path d s =
    (case r of Parameter v \<Rightarrow> parameter_found path d (unwrap_or v []) (s\<lparr>sm_replies := rest\<rparr>)
     | NoParameter \<Rightarrow> parameter_missing path d (s\<lparr>sm_replies := rest\<rparr>)
     | _ \<Rightarrow> if fails = [] then get_parameter path d s else parameter_missing path d (s\<lparr>sm_replies := rest\<rparr>))"
proof (cases fails)
  case Nil
  then show ?thesis
    using assms(1,2,3) by (simp add: get_parameter_def io_bind_def io_get_def recall_run ask_store_def split: ssm_reply.split)
next
  case (Cons f fs)
  then have "fs = []" "attempt_fails f" using assms(4,5) by simp_all
  then show ?thesis
    using Cons assms(1,2,3)
    by (simp add: get_parameter_def io_bind_def io_get_def recall_run ask_store_def attempt_fails_def split: ssm_reply.splits)
qed

text \<open>A parameter that the store has is returned, after at most one failed attempt, and returned
  again from Redis for as long as it is kept.\<close>

theorem parameter_kept:
  assumes "ssm_healthy s" and "known s (parameter_key s path d) = None"
    and "sm_replies s = fails @ Parameter (Some v) # rest" and "list_all attempt_fails fails" and "length fails \<le> 1"
    and "v \<noteq> SSM_CACHE_MISS_MARKER"
  shows "\<exists>s'. get_parameter path d s = (Inr (Some v), s')
    \<and> (\<forall>t < unat (parameter_ttl path). get_parameter path d (later t s') = (Inr (Some v), later t s'))"
proof -
  have "ssm_healthy (s\<lparr>sm_replies := rest\<rparr>)" using assms(1) by (simp add: ssm_healthy_def)
  from found_then_known [OF this assms(6)] show ?thesis
    using first_attempts [OF assms(1-5)] by simp
qed

text \<open>The key that is configured for development is used when the store cannot be reached, but
  only once: the service notes in Redis that the parameter is missing, and for the next five
  minutes it answers that there is no key.\<close>

theorem dev_fallback_forgotten:
  assumes "ssm_healthy s" and "known s (parameter_key s path d) = None"
    and "sm_replies s = fa # fb # rest" and "attempt_fails fa" and "attempt_fails fb"
    and "try_dev_encryption_fallback (sm_vars s) path = Some v"
  shows "\<exists>s'. get_parameter path d s = (Inr (Some v), s')
    \<and> (\<forall>t < 300. get_parameter path d (later t s') = (Inr None, later t s'))"
proof -
  have "ssm_healthy (s\<lparr>sm_replies := rest\<rparr>)" using assms(1) by (simp add: ssm_healthy_def)
  from missing_then_known [OF this, of path d]
  show ?thesis
    using first_attempts [of s path d "[fa]" fb rest] assms
    by (simp add: attempt_fails_def split: ssm_reply.splits)
qed

theorem dev_fallback_forgotten_witness:
  "let s = SsmService_new ''dev'' (Some (RedisClient_new ''dev'' [] 0 [])) [StoreTimeout, StoreTimeout] []
         [(''LEADSNEBULA_DEV_DETERMINISTIC_KEY'', ''k'')]
   in \<exists>s'. get_parameter ''deterministic_key_v1'' True s = (Inr (Some ''k''), s')
        \<and> get_parameter ''deterministic_key_v1'' True (later 7 s') = (Inr None, later 7 s')"
proof -
  let ?s = "SsmService_new ''dev'' (Some (RedisClient_new ''dev'' [] 0 [])) [StoreTimeout, StoreTimeout] []
         [(''LEADSNEBULA_DEV_DETERMINISTIC_KEY'', ''k'')]"
  have "contains ''deterministic_key_v1'' ''deterministic_key''" by code_simp
  then have "\<exists>s'. get_parameter ''deterministic_key_v1'' True ?s = (Inr (Some ''k''), s')
      \<and> (\<forall>t < 300. get_parameter ''deterministic_key_v1'' True (later t s') = (Inr None, later t s'))"
    by (intro dev_fallback_forgotten [where fa = StoreTimeout and fb = StoreTimeout and rest = "[]"])
      (simp_all add: SsmService_new_def ssm_healthy_def RedisClient_new_def known_def live_value_def live_entry_def
        attempt_fails_def try_dev_encryption_fallback_def)
  then show ?thesis unfolding Let_def by force
qed

end
