(* ===== verification/LeadIntake.thy ===== *)
theory LeadIntake
  imports PingTreeRouter Ssm
begin

text \<open>
  Model of \<open>crates/api/src/routes/leads.rs\<close>: the handlers that take in a lead, from the body of
  the request to the checks that precede routing, and of the key cache it uses
  (\<open>core/src/services/ssm_key_cache.rs\<close>). The state is the world of the routers with the rate
  buckets of the publishers, the keys in memory, the service of the parameter store and whether
  there is a file \<open>.env.local\<close>. A spawned task runs when it is spawned. A panic
  is the error \<open>PANIC\<close>; no other error leaves a handler. The clock counts milliseconds and stands
  still during a request. What third-party crates do here is the parameter \<open>apilib\<close>: the
  parsing of a UUID, and the JSON forms in which the cache keeps values.
\<close>

section \<open>Requests\<close>

record LeadData =
  ld_publisher_id :: "string option"
  ld_vertical :: string
  ld_request_type :: "string option"
  ld_campaign_token :: "string option"
  ld_promise_id :: "string option"
  ld_lead_id :: "string option"
  ld_source :: "string option"
  ld_first_name :: "string option"
  ld_last_name :: "string option"
  ld_email :: "string option"
  ld_cell_phone :: "string option"
  ld_street_address :: "string option"
  ld_city :: "string option"
  ld_state :: "string option"
  ld_zip :: "string option"
  ld_monthly_bill :: "f64 option"
  ld_credit_rating :: "string option"
  ld_own_home :: "bool option"
  ld_property_type :: "string option"
  ld_roof_shade :: "string option"
  ld_roof_type :: "string option"
  ld_utility_provider :: "string option"
  ld_purchase_timeframe :: "string option"
  ld_ip_address :: "string option"
  ld_tcpa_consent :: "bool option"
  ld_tcpa_language :: "string option"
  ld_jornaya_lead_id :: "string option"
  ld_trusted_form_url :: "string option"
  ld_is_test :: "bool option"
  ld_verbose :: "bool option"
  ld_user_agent :: "string option"

record LeadRequest =
  lq_verbose :: "bool option"
  lq_lead :: LeadData

record StatusNode =
  sn_success :: bool
  sn_status :: string
  sn_message :: "string option"
  sn_error :: "string option"

record LeadNode =
  ln_promise_id :: "string option"
  ln_lead_id :: "string option"
  ln_lead_uuid :: "string option"
  ln_ping_id :: "string option"
  ln_bid :: "f64 option"
  ln_post_id :: "string option"
  ln_price :: "f64 option"

record LeadResponse =
  lr_status :: StatusNode
  lr_lead :: LeadNode
  lr_verbose :: "json option"
  lr_http_status :: "nat option"

section \<open>Reading a body\<close>

text \<open>What the derived deserializers accept: a struct is an object, or an array with one element per
  field; an optional field may be absent or null; unknown fields are ignored.\<close>

definition fields_of :: "string list \<Rightarrow> json \<Rightarrow> (string \<Rightarrow> json option) option" where
  "fields_of keys v =
     (case v of
        JObj o1 \<Rightarrow> Some (obj_get o1)
      | JArr xs \<Rightarrow> if length xs = length keys then Some (map_of (zip keys xs)) else None
      | _ \<Rightarrow> None)"

definition opt_field :: "(json \<Rightarrow> 'a option) \<Rightarrow> (string \<Rightarrow> json option) \<Rightarrow> string \<Rightarrow> 'a option option" where
  "opt_field as f k =
     (case f k of
        None \<Rightarrow> Some None
      | Some JNull \<Rightarrow> Some None
      | Some v \<Rightarrow> map_option Some (as v))"

definition LEAD_DATA_FIELDS :: "string list" where
  "LEAD_DATA_FIELDS = [''publisher_id'', ''vertical'', ''request_type'', ''campaign_token'', ''promise_id'',
     ''lead_id'', ''source'', ''first_name'', ''last_name'', ''email'', ''cell_phone'', ''street_address'',
     ''city'', ''state'', ''zip'', ''monthly_bill'', ''credit_rating'', ''own_home'', ''property_type'',
     ''roof_shade'', ''roof_type'', ''utility_provider'', ''purchase_timeframe'', ''ip_address'',
     ''tcpa_consent'', ''tcpa_language'', ''jornaya_lead_id'', ''trusted_form_url'', ''is_test'',
     ''verbose'', ''user_agent'']"

text \<open>The struct from fields that were all readable; \<open>str\<close>, \<open>num\<close> and \<open>flag\<close> give the value of a
  field.\<close>

definition lead_data_of ::
  "string \<Rightarrow> (string \<Rightarrow> string option) \<Rightarrow> (string \<Rightarrow> f64 option) \<Rightarrow> (string \<Rightarrow> bool option) \<Rightarrow> LeadData" where
  "lead_data_of vertical str num flag = \<lparr> ld_publisher_id = str ''publisher_id'', ld_vertical = vertical,
     ld_request_type = str ''request_type'', ld_campaign_token = str ''campaign_token'',
     ld_promise_id = str ''promise_id'', ld_lead_id = str ''lead_id'', ld_source = str ''source'',
     ld_first_name = str ''first_name'', ld_last_name = str ''last_name'', ld_email = str ''email'',
     ld_cell_phone = str ''cell_phone'', ld_street_address = str ''street_address'', ld_city = str ''city'',
     ld_state = str ''state'', ld_zip = str ''zip'', ld_monthly_bill = num ''monthly_bill'',
     ld_credit_rating = str ''credit_rating'', ld_own_home = flag ''own_home'',
     ld_property_type = str ''property_type'', ld_roof_shade = str ''roof_shade'',
     ld_roof_type = str ''roof_type'', ld_utility_provider = str ''utility_provider'',
     ld_purchase_timeframe = str ''purchase_timeframe'', ld_ip_address = str ''ip_address'',
     ld_tcpa_consent = flag ''tcpa_consent'', ld_tcpa_language = str ''tcpa_language'',
     ld_jornaya_lead_id = str ''jornaya_lead_id'', ld_trusted_form_url = str ''trusted_form_url'',
     ld_is_test = flag ''is_test'', ld_verbose = flag ''verbose'', ld_user_agent = str ''user_agent'' \<rparr>"

definition NUM_FIELDS :: "string list" where "NUM_FIELDS = [''monthly_bill'']"

definition FLAG_FIELDS :: "string list" where
  "FLAG_FIELDS = [''own_home'', ''tcpa_consent'', ''is_test'', ''verbose'']"

definition field_readable :: "(string \<Rightarrow> json option) \<Rightarrow> string \<Rightarrow> bool" where
  "field_readable f k =
     (if k \<in> set NUM_FIELDS then opt_field as_f64 f k \<noteq> None
      else if k \<in> set FLAG_FIELDS then opt_field as_bool f k \<noteq> None
      else opt_field as_str f k \<noteq> None)"

definition field_value :: "(json \<Rightarrow> 'a option) \<Rightarrow> (string \<Rightarrow> json option) \<Rightarrow> string \<Rightarrow> 'a option" where
  "field_value as f k = flatten_option (opt_field as f k)"

definition LeadData_from_json :: "json \<Rightarrow> LeadData option" where
  "LeadData_from_json v =
     (case fields_of LEAD_DATA_FIELDS v of
        None \<Rightarrow> None
      | Some f \<Rightarrow>
          (case Option.bind (f ''vertical'') as_str of
             None \<Rightarrow> None
           | Some vertical \<Rightarrow>
               if list_all (field_readable f) LEAD_DATA_FIELDS
               then Some (lead_data_of vertical (field_value as_str f) (field_value as_f64 f) (field_value as_bool f))
               else None))"

definition NESTED_GROUPS :: "(string \<times> string list) list" where
  "NESTED_GROUPS =
     [(''request_properties'', [''vertical'', ''is_test'', ''request_type'']),
      (''publisher_data'', [''publisher_id'', ''campaign_token'', ''lead_id'', ''promise_id'', ''source'']),
      (''consumer_data'', [''first_name'', ''last_name'', ''email'', ''cell_phone'', ''street_address'', ''city'',
         ''state'', ''zip'', ''credit_rating'', ''ip_address'', ''user_agent'']),
      (''property_data'', [''monthly_bill'', ''own_home'', ''property_type'', ''purchase_timeframe'',
         ''roof_shade'', ''roof_type'', ''utility_provider'']),
      (''compliance'', [''tcpa_consent'', ''tcpa_language'', ''jornaya_lead_id'', ''trusted_form_url''])]"

text \<open>The fields of a group; \<open>None\<close> where the group cannot be read, and no field at all where it is
  null.\<close>

definition group_fields :: "json \<Rightarrow> string list \<Rightarrow> (string \<Rightarrow> json option) option" where
  "group_fields v keys =
     (if v = JNull then Some (\<lambda>_. None)
      else case fields_of keys v of
        None \<Rightarrow> None
      | Some f \<Rightarrow> if list_all (field_readable f) keys then Some f else None)"

fun nested_fields :: "json \<Rightarrow> (string \<times> string list) list \<Rightarrow> (string \<Rightarrow> json option) option" where
  "nested_fields v [] = Some (\<lambda>_. None)"
| "nested_fields v ((g, keys) # gs) =
     (case group_fields (unwrap_or (json_get v g) JNull) keys of
        None \<Rightarrow> None
      | Some f \<Rightarrow>
          (case nested_fields v gs of
             None \<Rightarrow> None
           | Some rest \<Rightarrow> Some (\<lambda>k. if k \<in> set keys then f k else rest k)))"

definition nested_to_lead_data :: "(string \<Rightarrow> json option) \<Rightarrow> LeadData" where
  "nested_to_lead_data f =
     (lead_data_of (unwrap_or (field_value as_str f ''vertical'') []) (field_value as_str f)
        (field_value as_f64 f) (field_value as_bool f))\<lparr>ld_verbose := None\<rparr>"

definition deserialize_lead_body :: "json \<Rightarrow> LeadData option" where
  "deserialize_lead_body v =
     (if list_all (\<lambda>(g, _). json_get v g \<noteq> None) NESTED_GROUPS
      then map_option nested_to_lead_data (nested_fields v NESTED_GROUPS)
      else LeadData_from_json v)"

definition lead_request_from_json :: "(json \<Rightarrow> LeadData option) \<Rightarrow> json \<Rightarrow> LeadRequest option" where
  "lead_request_from_json read_lead v =
     (case fields_of [''verbose'', ''lead''] v of
        None \<Rightarrow> None
      | Some f \<Rightarrow>
          (case (opt_field as_bool f ''verbose'', Option.bind (f ''lead'') read_lead) of
             (Some verbose, Some lead) \<Rightarrow> Some \<lparr> lq_verbose = verbose, lq_lead = lead \<rparr>
           | _ \<Rightarrow> None))"

definition LeadRequestIncoming_from_json :: "json \<Rightarrow> LeadRequest option" where
  "LeadRequestIncoming_from_json = lead_request_from_json deserialize_lead_body"

definition LeadRequest_from_json :: "json \<Rightarrow> LeadRequest option" where
  "LeadRequest_from_json = lead_request_from_json LeadData_from_json"

section \<open>Writing bodies\<close>

definition opt_bool_json :: "bool option \<Rightarrow> json" where
  "opt_bool_json = json_of JBool"

definition LeadData_to_json :: "LeadData \<Rightarrow> json" where
  "LeadData_to_json l = JObj
     [(''publisher_id'', opt_json (ld_publisher_id l)), (''vertical'', JStr (ld_vertical l)),
      (''request_type'', opt_json (ld_request_type l)), (''campaign_token'', opt_json (ld_campaign_token l)),
      (''promise_id'', opt_json (ld_promise_id l)), (''lead_id'', opt_json (ld_lead_id l)),
      (''source'', opt_json (ld_source l)), (''first_name'', opt_json (ld_first_name l)),
      (''last_name'', opt_json (ld_last_name l)), (''email'', opt_json (ld_email l)),
      (''cell_phone'', opt_json (ld_cell_phone l)), (''street_address'', opt_json (ld_street_address l)),
      (''city'', opt_json (ld_city l)), (''state'', opt_json (ld_state l)), (''zip'', opt_json (ld_zip l)),
      (''monthly_bill'', opt_f64_json (ld_monthly_bill l)), (''credit_rating'', opt_json (ld_credit_rating l)),
      (''own_home'', opt_bool_json (ld_own_home l)), (''property_type'', opt_json (ld_property_type l)),
      (''roof_shade'', opt_json (ld_roof_shade l)), (''roof_type'', opt_json (ld_roof_type l)),
      (''utility_provider'', opt_json (ld_utility_provider l)),
      (''purchase_timeframe'', opt_json (ld_purchase_timeframe l)),
      (''ip_address'', opt_json (ld_ip_address l)), (''tcpa_consent'', opt_bool_json (ld_tcpa_consent l)),
      (''tcpa_language'', opt_json (ld_tcpa_language l)), (''jornaya_lead_id'', opt_json (ld_jornaya_lead_id l)),
      (''trusted_form_url'', opt_json (ld_trusted_form_url l)), (''is_test'', opt_bool_json (ld_is_test l)),
      (''verbose'', opt_bool_json (ld_verbose l)), (''user_agent'', opt_json (ld_user_agent l))]"

definition LeadRequest_to_json :: "LeadRequest \<Rightarrow> json" where
  "LeadRequest_to_json q =
     JObj [(''verbose'', opt_bool_json (lq_verbose q)), (''lead'', LeadData_to_json (lq_lead q))]"

text \<open>Fields that are skipped when they are absent.\<close>

fun present :: "(string \<times> json option) list \<Rightarrow> json_obj" where
  "present [] = []"
| "present ((k, None) # fs) = present fs"
| "present ((k, Some v) # fs) = (k, v) # present fs"

definition LeadResponse_to_json :: "LeadResponse \<Rightarrow> json" where
  "LeadResponse_to_json r =
     (let s = lr_status r; l = lr_lead r; str = map_option JStr; num = map_option f64_json in
      JObj (present
        [(''status'', Some (JObj (present [(''success'', Some (JBool (sn_success s))),
            (''status'', Some (JStr (sn_status s))), (''message'', str (sn_message s)),
            (''error'', str (sn_error s))]))),
         (''lead'', Some (JObj (present [(''promise_id'', str (ln_promise_id l)), (''lead_id'', str (ln_lead_id l)),
            (''lead_uuid'', str (ln_lead_uuid l)), (''ping_id'', str (ln_ping_id l)), (''bid'', num (ln_bid l)),
            (''post_id'', str (ln_post_id l)), (''price'', num (ln_price l))]))),
         (''verbose'', lr_verbose r), (''http_status'', map_option (JInt \<circ> int) (lr_http_status r))]))"

section \<open>Messages\<close>

definition NL :: string where "NL = [CHR 0x0A]"

definition map_error_to_user :: "string \<Rightarrow> string \<times> string" where
  "map_error_to_user err_text =
     (let lower = to_lowercase err_text;
          hint = (\<lambda>b s. if b then [s] else []);
          found =
            hint (contains lower ''submitted_at'')
              ''Server misconfiguration: required lead timestamp is missing. Contact the site administrator.''
            @ hint (contains lower ''buyer_id'') ''No buyer configured for this publisher/vertical''
            @ hint (contains lower ''campaign_id'') ''No campaign configured for this publisher/vertical''
            @ hint (contains lower ''post_id'') ''Post could not be created: required post identifier missing''
            @ hint (contains lower ''permission denied'' \<or> contains lower ''permission'')
                ''Server permission error. Contact the administrator.''
            @ hint (contains lower ''column'' \<and> contains lower ''publisher_id'' \<and> contains lower ''does not exist'')
                ''Server configuration error: database schema mismatch. Contact the administrator.'';
          found1 = found @ hint ((contains lower ''violates not-null constraint'' \<or> contains lower ''null value'') \<and> found = [])
            ''Required data missing for this operation. Contact support or try again later.'';
          problems = (if found1 = []
            then [''An internal server error occurred. Contact support if the problem persists.''] else found1) in
      (join NL problems, ''error returned from database: '' @ err_text))"

definition required_fields :: "string \<Rightarrow> string list" where
  "required_fields request_type =
     (if request_type = ''post'' then
        [''promise_id'', ''publisher_id'', ''request_type'', ''first_name'', ''last_name'', ''email'', ''cell_phone'',
         ''street_address'', ''city'', ''state'', ''zip'', ''ip_address'', ''monthly_bill'', ''own_home'', ''roof_shade'',
         ''utility_provider'', ''property_type'', ''tcpa_consent'', ''tcpa_language'', ''credit_rating'',
         ''trusted_form_url'']
      else if request_type = ''fullpost'' then
        [''publisher_id'', ''request_type'', ''first_name'', ''last_name'', ''email'', ''cell_phone'',
         ''street_address'', ''city'', ''state'', ''zip'', ''ip_address'', ''monthly_bill'', ''own_home'', ''roof_shade'',
         ''utility_provider'', ''credit_rating'', ''tcpa_consent'', ''tcpa_language'', ''trusted_form_url'']
      else
        [''publisher_id'', ''request_type'', ''zip'', ''ip_address'', ''monthly_bill'', ''own_home'', ''roof_shade'',
         ''credit_rating'', ''tcpa_consent'', ''tcpa_language'', ''trusted_form_url''])"

definition has_field :: "LeadData \<Rightarrow> string \<Rightarrow> bool" where
  "has_field l k = unwrap_or (map_of
     [(''promise_id'', is_some (ld_promise_id l)), (''publisher_id'', is_some (ld_publisher_id l)),
      (''request_type'', is_some (ld_request_type l)), (''first_name'', is_some (ld_first_name l)),
      (''last_name'', is_some (ld_last_name l)), (''email'', is_some (ld_email l)),
      (''cell_phone'', is_some (ld_cell_phone l)), (''street_address'', is_some (ld_street_address l)),
      (''city'', is_some (ld_city l)), (''state'', is_some (ld_state l)), (''zip'', is_some (ld_zip l)),
      (''ip_address'', is_some (ld_ip_address l)), (''monthly_bill'', is_some (ld_monthly_bill l)),
      (''own_home'', is_some (ld_own_home l)), (''roof_shade'', is_some (ld_roof_shade l)),
      (''utility_provider'', is_some (ld_utility_provider l)), (''property_type'', is_some (ld_property_type l)),
      (''tcpa_consent'', is_some (ld_tcpa_consent l)), (''tcpa_language'', is_some (ld_tcpa_language l)),
      (''credit_rating'', is_some (ld_credit_rating l)), (''trusted_form_url'', is_some (ld_trusted_form_url l))] k) False"

definition missing_required_lead_field :: "LeadData \<Rightarrow> string \<Rightarrow> string option" where
  "missing_required_lead_field lead request_type =
     List.find (\<lambda>k. \<not> has_field lead k) (required_fields request_type)"

definition field_titles :: "(string \<times> string) list" where
  "field_titles = [(''ip_address'', ''IP Address Missing''), (''email'', ''Email Missing''),
     (''first_name'', ''First Name Missing''), (''last_name'', ''Last Name Missing''),
     (''cell_phone'', ''Cell Phone Missing''), (''street_address'', ''Street Address Missing''),
     (''city'', ''City Missing''), (''state'', ''State Missing''), (''zip'', ''Zip Missing''),
     (''monthly_bill'', ''Monthly Bill Missing''), (''own_home'', ''Own Home Missing''),
     (''roof_shade'', ''Roof Shade Missing''), (''utility_provider'', ''Utility Provider Missing''),
     (''credit_rating'', ''Credit Rating Missing''), (''tcpa_consent'', ''TCPA Consent Missing''),
     (''tcpa_language'', ''TCPA Language Missing''), (''jornaya_lead_id'', ''Jornaya Lead ID Missing''),
     (''trusted_form_url'', ''Trusted Form URL Missing''), (''property_type'', ''Property Type Missing''),
     (''promise_id'', ''Promise ID Missing''), (''publisher_id'', ''Publisher ID Missing''),
     (''request_type'', ''Request Type Missing'')]"

definition validation_error_human_message :: "string \<Rightarrow> string" where
  "validation_error_human_message field =
     unwrap_or (map_of field_titles field) (replace_char CHR ''_'' '' '' field @ '' missing'')"

definition transform_timing :: "string \<Rightarrow> bool \<Rightarrow> json \<Rightarrow> json" where
  "transform_timing main_status is_fullpost t =
     (case t of
        JObj o1 \<Rightarrow> JObj (obj_insert ''status'' (JStr main_status) (if is_fullpost then obj_remove ''bid'' o1 else o1))
      | _ \<Rightarrow> t)"

definition transform_per_buyer_timings_for_verbose :: "json list \<Rightarrow> string \<Rightarrow> bool \<Rightarrow> json list" where
  "transform_per_buyer_timings_for_verbose timings main_status is_fullpost =
     map (transform_timing main_status is_fullpost) timings"

section \<open>State\<close>

record RateBucket =
  rb_window_start :: timestamp
  rb_count :: u32

record CachedKey =
  ck_key :: string
  ck_expires_at :: timestamp

record intake =
  it_world :: world
  it_buckets :: "(string \<times> RateBucket) list"
  it_keys :: "(string \<times> CachedKey) list"
  it_ssm :: SsmService
  it_local_dev :: bool

record apilib =
  ap_uuid_parse :: "string \<Rightarrow> uuid option"
  ap_codecs :: codecs
  ap_vertical :: "Vertical option codec"
  ap_lead :: "Lead codec"
  ap_prechecks :: "(uuid option \<times> uuid option \<times> bool) option codec"
  ap_name :: "string option codec"

text \<open>What a handler gets besides the body: the authenticated publisher, the query parameters, the
  headers (\<open>None\<close> for a value that is not visible ASCII), whether there is a cache, the key and the
  environment of the configuration.\<close>

record request_info =
  ri_publisher :: Publisher
  ri_params :: "(string \<times> string) list"
  ri_headers :: "(string \<times> string option) list"
  ri_cache :: bool
  ri_encryption_key :: string
  ri_environment :: string

definition on_world :: "(world, 'a) io \<Rightarrow> (intake, 'a) io" where
  "on_world m s = (case m (it_world s) of (r, w) \<Rightarrow> (r, s\<lparr>it_world := w\<rparr>))"

text \<open>An error is handled, a panic is not.\<close>

definition io_catch :: "('s, 'a) io \<Rightarrow> ('s, 'a result) io" where
  "io_catch m = io_bind (io_try m) (\<lambda>res. if res = Inl PANIC then io_err PANIC else io_return res)"

definition spawn :: "(intake, 'a) io \<Rightarrow> (intake, unit) io" where
  "spawn m = io_bind (io_try m) (\<lambda>_. io_return ())"

section \<open>Keys from the parameter store\<close>

text \<open>The service shares the Redis client of the cache.\<close>

definition on_ssm :: "(SsmService, 'a) io \<Rightarrow> (intake, 'a) io" where
  "on_ssm m s =
     (let w = it_world s in
      case m ((it_ssm s)\<lparr>sm_redis := cs_redis (w_cache w)\<rparr>) of
        (r, service) \<Rightarrow> (r, s\<lparr>it_ssm := service, it_world := w\<lparr>w_cache := (w_cache w)\<lparr>cs_redis := sm_redis service\<rparr>\<rparr>\<rparr>))"

definition ssm_get_parameter :: "string \<Rightarrow> (intake, string option) io" where
  "ssm_get_parameter path = on_ssm (get_parameter path True)"

definition CACHE_TTL_SECONDS :: nat where "CACHE_TTL_SECONDS = 21600"

definition cached_key :: "timestamp \<Rightarrow> string \<Rightarrow> (string \<times> CachedKey) list \<Rightarrow> string option" where
  "cached_key now key cache =
     (case map_of cache key of
        Some c \<Rightarrow> if now < ck_expires_at c then Some (ck_key c) else None
      | None \<Rightarrow> None)"

definition get_ssm_parameter_cached :: "string \<Rightarrow> (intake, string option) io" where
  "get_ssm_parameter_cached path =
     (let key = path @ '':true'' in
      io_bind (on_world current_time) (\<lambda>now.
      io_bind (io_get it_keys) (\<lambda>cache.
      case cached_key now key cache of
        Some k \<Rightarrow> io_return (Some k)
      | None \<Rightarrow> io_bind (ssm_get_parameter path) (\<lambda>found.
          case found of
            None \<Rightarrow> io_return None
          | Some k \<Rightarrow> io_bind (io_modify (\<lambda>s. s\<lparr>it_keys := AList.update key
                \<lparr> ck_key = k, ck_expires_at = now + CACHE_TTL_SECONDS * 1000 \<rparr> (it_keys s)\<rparr>)) (\<lambda>_.
              io_return (Some k))))))"

section \<open>Rate limit\<close>

definition RATE_LIMIT_PER_HOUR :: u32 where "RATE_LIMIT_PER_HOUR = 360"

definition RATE_LIMIT_WINDOW_SECONDS :: nat where "RATE_LIMIT_WINDOW_SECONDS = 3600"

definition bucket_secs :: "timestamp \<Rightarrow> RateBucket \<Rightarrow> nat" where
  "bucket_secs now b = (now - rb_window_start b) div 1000"

definition current_bucket :: "timestamp \<Rightarrow> RateBucket option \<Rightarrow> RateBucket" where
  "current_bucket now m =
     (let b = unwrap_or m \<lparr> rb_window_start = now, rb_count = 0 \<rparr> in
      if RATE_LIMIT_WINDOW_SECONDS \<le> bucket_secs now b then \<lparr> rb_window_start = now, rb_count = 0 \<rparr> else b)"

text \<open>The result is the number of seconds to wait when the limit is reached.\<close>

definition rate_limit ::
  "string \<Rightarrow> timestamp \<Rightarrow> (string \<times> RateBucket) list \<Rightarrow> nat option \<times> (string \<times> RateBucket) list" where
  "rate_limit key now buckets =
     (let b = current_bucket now (map_of buckets key) in
      if RATE_LIMIT_PER_HOUR \<le> rb_count b
      then (Some (RATE_LIMIT_WINDOW_SECONDS - bucket_secs now b), AList.update key b buckets)
      else (None, AList.update key (b\<lparr>rb_count := rb_count b + 1\<rparr>) buckets))"

section \<open>Answers\<close>

type_synonym answer = "nat \<times> LeadResponse"

definition no_lead :: LeadNode where
  "no_lead = \<lparr> ln_promise_id = None, ln_lead_id = None, ln_lead_uuid = None, ln_ping_id = None,
     ln_bid = None, ln_post_id = None, ln_price = None \<rparr>"

definition verbose_error :: "extlib \<Rightarrow> nat \<Rightarrow> timestamp \<Rightarrow> json_obj" where
  "verbose_error X code now = [(''error_code'', JStr (''ERR_'' @ show_nat code)),
     (''timestamp'', JStr (utc_rfc3339 X now)), (''endpoint'', JStr ''POST /api/v1/leads''),
     (''status_code'', JInt (int code))]"

definition error_body ::
  "string option \<Rightarrow> string \<Rightarrow> LeadNode \<Rightarrow> json_obj option \<Rightarrow> nat \<Rightarrow> LeadResponse" where
  "error_body message err lead verbose code = \<lparr>
     lr_status = \<lparr> sn_success = False, sn_status = ''error'', sn_message = message, sn_error = Some err \<rparr>,
     lr_lead = lead, lr_verbose = map_option JObj verbose, lr_http_status = Some code \<rparr>"

text \<open>An error whose verbose part has only the four common entries.\<close>

definition plain_error ::
  "extlib \<Rightarrow> bool \<Rightarrow> timestamp \<Rightarrow> nat \<Rightarrow> string option \<Rightarrow> string \<Rightarrow> LeadResponse" where
  "plain_error X verbose now code message err =
     error_body message err no_lead (if verbose then Some (verbose_error X code now) else None) code"

definition server_error :: "extlib \<Rightarrow> bool \<Rightarrow> timestamp \<Rightarrow> error \<Rightarrow> LeadResponse" where
  "server_error X verbose now e =
     (case map_error_to_user e of (message, technical) \<Rightarrow> plain_error X verbose now 500 (Some message) technical)"

definition rate_limited :: "nat \<Rightarrow> answer" where
  "rate_limited retry_after = (429, \<lparr>
     lr_status = \<lparr> sn_success = False, sn_status = ''error'',
       sn_message = Some ''Rate limit exceeded: max 360 requests per hour'', sn_error = Some ''Too many requests'' \<rparr>,
     lr_lead = \<lparr> ln_promise_id = Some [], ln_lead_id = Some [], ln_lead_uuid = Some [], ln_ping_id = Some [],
       ln_bid = Some (Fin 0), ln_post_id = Some [], ln_price = Some (Fin 0) \<rparr>,
     lr_verbose = Some (JObj [(''status_code'', JInt 429), (''rate_limit_per_hour'', JInt 360), (''remaining'', JInt 0),
       (''retry_after_seconds'', JInt (int retry_after))]),
     lr_http_status = Some 429 \<rparr>)"

section \<open>Request context\<close>

definition header :: "request_info \<Rightarrow> string \<Rightarrow> string option option" where
  "header R k = map_of (ri_headers R) k"

definition header_text :: "request_info \<Rightarrow> string \<Rightarrow> string option" where
  "header_text R k = flatten_option (header R k)"

definition either_header :: "request_info \<Rightarrow> string \<Rightarrow> string \<Rightarrow> string option" where
  "either_header R k k' = flatten_option (opt_or (header R k) (header R k'))"

definition request_context_from_headers ::
  "extlib \<Rightarrow> request_info \<Rightarrow> string \<Rightarrow> string \<Rightarrow> string \<Rightarrow> string \<Rightarrow> (world, json_obj) io" where
  "request_context_from_headers X R reason outcome target_id action =
     (let ip = map_option (\<lambda>s. trim (takeWhile (\<lambda>ch. ch \<noteq> CHR '','') s)) (either_header R ''x-forwarded-for'' ''x-real-ip'');
          v4 = map_option trim (header_text R ''x-client-ipv4''); v6 = map_option trim (header_text R ''x-client-ipv6'') in
      io_bind (case either_header R ''x-request-id'' ''x-correlation-id'' of
          Some i \<Rightarrow> io_return i
        | None \<Rightarrow> io_bind draw_uuid (\<lambda>u. io_return (uuid_text X u))) (\<lambda>request_id.
      io_bind current_time (\<lambda>now.
      io_return
        [(''context'', JObj ([(''endpoint'', JStr ''/api/v1/leads''), (''method'', JStr ''POST''),
            (''reason'', JStr reason), (''source'', JStr ''carina_api''), (''request_id'', JStr request_id),
            (''ip_address'', opt_json ip)]
          @ (if is_some v4 \<or> is_some v6 then [(''ip_address_v4'', opt_json v4), (''ip_address_v6'', opt_json v6)] else [])
          @ [(''user_agent'', opt_json (header_text R ''user-agent'')), (''referer'', opt_json (header_text R ''referer'')),
             (''session_id'', opt_json (header_text R ''x-session-id''))])),
         (''compliance'', JObj [(''standard'', JStr ''ISO_27001_SOC2_NIST''), (''version'', JStr ''2024'')]),
         (''outcome'', JStr outcome), (''timestamp'', JStr (utc_rfc3339 X now)), (''target_type'', JStr ''Lead''),
         (''target_id'', JStr target_id), (''target_name'', JNull), (''action'', JStr action)])))"

section \<open>Generated values\<close>

definition ALPHANUMERIC :: string where
  "ALPHANUMERIC = ''ABCDEFGHIJKLMNOPQRSTUVWXYZabcdefghijklmnopqrstuvwxyz0123456789''"

definition random_chars :: "nat \<Rightarrow> (world, string) io" where
  "random_chars n = io_mapM (\<lambda>_. io_bind draw (\<lambda>x.
     io_return (upper_char (ALPHANUMERIC ! (unat x mod 62))))) [0..<n]"

definition generate_lead_id :: "string \<Rightarrow> (world, string) io" where
  "generate_lead_id slug = io_bind (random_chars 8) (\<lambda>cs. io_return (to_uppercase slug @ ''-'' @ cs))"

definition prefixed_uuid :: "extlib \<Rightarrow> string \<Rightarrow> (world, string) io" where
  "prefixed_uuid X p = io_bind draw_uuid (\<lambda>u. io_return (p @ uuid_text X u))"

definition strategy_of :: "string \<Rightarrow> string" where
  "strategy_of request_type = (if request_type = ''fullpost'' then ''fullPost'' else ''pingPost'')"

section \<open>Failed leads\<close>

definition DET_PATH :: "string \<Rightarrow> string" where
  "DET_PATH env = ''/leadsnebula/'' @ normalize_env_for_ssm env @ ''/carina/encryption/deterministic_key_v1''"

definition SALT_PATH :: "string \<Rightarrow> string" where
  "SALT_PATH env = ''/leadsnebula/'' @ normalize_env_for_ssm env @ ''/carina/encryption/key_derivation_salt_v1''"

definition fetch_pii_encryption_key :: "extlib \<Rightarrow> string \<Rightarrow> (intake, string option) io" where
  "fetch_pii_encryption_key X env =
     io_bind (io_try (get_ssm_parameter_cached (DET_PATH env))) (\<lambda>det.
     case ok_some det of
       None \<Rightarrow> io_return None
     | Some det_key \<Rightarrow> io_bind (io_try (get_ssm_parameter_cached (SALT_PATH env))) (\<lambda>salt.
         io_return (map_option (derive_key_from_secret X det_key) (ok_some salt))))"

definition encrypt_pii_opt :: "extlib \<Rightarrow> string option \<Rightarrow> string option \<Rightarrow> string option" where
  "encrypt_pii_opt X key value =
     (case (key, value) of
        (Some k, Some v) \<Rightarrow>
          if trim v = [] then None
          else (case encrypt_envelope X [] k (trim v) True of Inr env \<Rightarrow> Some env | Inl _ \<Rightarrow> None)
      | _ \<Rightarrow> None)"

text \<open>A row with only the columns every lead has.\<close>

definition blank_lead ::
  "uuid \<Rightarrow> string \<Rightarrow> string option \<Rightarrow> uuid \<Rightarrow> uuid \<Rightarrow> string \<Rightarrow> LeadStatus \<Rightarrow> LeadData \<Rightarrow> string \<Rightarrow> json \<Rightarrow> timestamp \<Rightarrow> Lead" where
  "blank_lead u event lead_id publisher vertical request_type status data session vertical_data now =
     \<lparr> l_uuid = u, l_event_id = event, l_lead_id = lead_id, l_publisher_id = Some publisher,
       l_vertical_id = vertical, l_campaign_id = None, l_buyer_id = None, l_request_type = request_type,
       l_strategy = strategy_of request_type, l_status = status, l_promise_id = None, l_ping_id = None,
       l_post_id = None, l_session_id = Some session, l_request_stage = None, l_first_name_encrypted = None,
       l_last_name_encrypted = None, l_email_encrypted = None, l_cell_phone_encrypted = None,
       l_street_address_encrypted = None, l_city_encrypted = None, l_state_encrypted = None,
       l_zip_encrypted = None, l_ip_address_encrypted = None, l_email_sha256 = None, l_phone_sha256 = None,
       l_ip_address_hash = None, l_email_domain = None, l_tcpa_consent = unwrap_or (ld_tcpa_consent data) False,
       l_tcpa_language = unwrap_or (ld_tcpa_language data) [], l_is_test = unwrap_or (ld_is_test data) False,
       l_user_agent = None, l_referrer = None, l_website_url = None, l_click_id = None, l_url_consent = None,
       l_best_call_time = None, l_date_of_birth = None, l_home_phone = None, l_jornaya_lead_id = None,
       l_trusted_form_url = None, l_fbp_cookie = None, l_fbc_cookie = None, l_utm_params = None,
       l_submitted_at = Some now, l_sold_at = None, l_retry_count = 0, l_next_retry_at = None,
       l_vertical_data = vertical_data, l_created_at = now, l_updated_at = now \<rparr>"

definition insert_lead :: "(timestamp \<Rightarrow> Lead) \<Rightarrow> (db, unit) io" where
  "insert_lead row = db_stmt (\<lambda>d.
     let l = row (db_now d) in
     if l_uuid l \<in> l_uuid ` set (leads d) \<or> l_event_id l \<in> l_event_id ` set (leads d)
        \<or> is_some (l_lead_id l) \<and> l_lead_id l \<in> l_lead_id ` set (leads d)
     then (Inl UNIQUE_VIOLATION, d)
     else (Inr (), d\<lparr>leads := leads d @ [l]\<rparr>))"

definition insert_error_ping :: "string \<Rightarrow> uuid \<Rightarrow> string \<Rightarrow> (db, int) io" where
  "insert_error_ping ping_id lead state = db_stmt (\<lambda>d.
     (Inr (db_next_id d), d\<lparr>pings := pings d @
        [\<lparr> pg_id = db_next_id d, pg_ping_id = ping_id, pg_lead_id = lead, pg_promise_id = None,
           pg_state = state, pg_sent_at = db_now d, pg_created_at = db_now d \<rparr>],
        db_next_id := db_next_id d + 1\<rparr>))"

definition publisher_instance :: "uuid \<Rightarrow> (db, uuid) io" where
  "publisher_instance publisher_id =
     io_bind (db_query_optional (\<lambda>d.
       map p_instance_id (filter (\<lambda>p. p_id p = publisher_id \<and> p_deleted_at p = None) (publishers d)))) (\<lambda>found.
     io_ok_or found ''no column found for name: publisher instance'')"

definition instance_campaign :: "uuid \<Rightarrow> string \<Rightarrow> (db, (uuid \<times> uuid) option) io" where
  "instance_campaign instance_id slug =
     (let row = (\<lambda>c. (c_buyer_id c, c_id c));
          live = (\<lambda>c. c_instance_id c = instance_id \<and> c_deleted_at c = None) in
      io_bind (db_query_optional (\<lambda>d. map row (filter (\<lambda>c. live c \<and> c_vertical c = slug) (campaigns d)))) (\<lambda>found.
      case found of
        Some r \<Rightarrow> io_return (Some r)
      | None \<Rightarrow> db_query_optional (\<lambda>d. map row (filter live (campaigns d)))))"

definition failed_lead_row ::
  "extlib \<Rightarrow> string option \<Rightarrow> LeadData \<Rightarrow> (uuid \<times> uuid) option \<Rightarrow> Lead \<Rightarrow> Lead" where
  "failed_lead_row X key data campaign l =
     (let enc = encrypt_pii_opt X key in
      l\<lparr>l_post_id := Some [], l_buyer_id := map_option fst campaign, l_campaign_id := map_option snd campaign,
        l_first_name_encrypted := enc (ld_first_name data), l_last_name_encrypted := enc (ld_last_name data),
        l_email_encrypted := enc (ld_email data), l_cell_phone_encrypted := enc (ld_cell_phone data),
        l_street_address_encrypted := enc (ld_street_address data), l_city_encrypted := enc (ld_city data),
        l_state_encrypted := enc (ld_state data), l_zip_encrypted := enc (ld_zip data),
        l_ip_address_encrypted := enc (ld_ip_address data)\<rparr>)"

definition persist_failed_lead ::
  "extlib \<Rightarrow> uuid \<Rightarrow> Vertical \<Rightarrow> string \<Rightarrow> LeadRequest \<Rightarrow> LeadResponse \<Rightarrow> LeadStatus \<Rightarrow> json \<Rightarrow> string
   \<Rightarrow> string option \<Rightarrow> (world, uuid) io" where
  "persist_failed_lead X publisher_id vertical request_type request response status vertical_data ping_message key =
     (let data = lq_lead request in
      io_bind (on_db (publisher_instance publisher_id)) (\<lambda>instance_id.
      io_bind (on_db (instance_campaign instance_id (v_slug vertical))) (\<lambda>campaign.
      io_bind draw_uuid (\<lambda>lead_uuid.
      io_bind (prefixed_uuid X ''evt_'') (\<lambda>event_id.
      io_bind (generate_lead_id (v_slug vertical)) (\<lambda>lead_id.
      io_bind (prefixed_uuid X ''sess_'') (\<lambda>session_id.
      on_db (transaction (
        io_bind (insert_lead (\<lambda>now. failed_lead_row X key data campaign
          (blank_lead lead_uuid event_id (Some lead_id) publisher_id (v_id vertical) request_type status data
             session_id vertical_data now))) (\<lambda>_.
        io_bind (io_get db_now) (\<lambda>now.
        io_bind (insert_error_ping (''ERR_'' @ uuid_text X lead_uuid @ ''_'' @ utc_text X now) lead_uuid
          (LeadStatus_as_str status)) (\<lambda>ping_db_id.
        io_bind (insert_ping_payload lead_uuid (Some (show_int ping_db_id))
          (JObj [(''request'', LeadRequest_to_json request), (''response'', LeadResponse_to_json response),
             (''validation_error'', JStr ping_message)]) [] None None) (\<lambda>_.
        io_return lead_uuid)))))))))))))"

definition persist_validation_error_lead ::
  "extlib \<Rightarrow> request_info \<Rightarrow> Vertical \<Rightarrow> string \<Rightarrow> string \<Rightarrow> LeadRequest \<Rightarrow> LeadResponse \<Rightarrow> (intake, uuid) io" where
  "persist_validation_error_lead X R vertical request_type missing_field request response =
     (let human_message = validation_error_human_message missing_field in
      io_bind (fetch_pii_encryption_key X (ri_environment R)) (\<lambda>key.
      on_world (persist_failed_lead X (p_id (ri_publisher R)) vertical request_type request response LS_Error
        (JObj [(''validation_error'', JStr human_message), (''missing_field'', JStr missing_field)])
        human_message key)))"

section \<open>First checks\<close>

text \<open>A lookup through the cache that falls back to the database, with its metrics.\<close>

definition cached_lookup ::
  "bool \<Rightarrow> 'a codec \<Rightarrow> string \<Rightarrow> u64 \<Rightarrow> (error \<Rightarrow> error) \<Rightarrow> (db, 'a) io \<Rightarrow> (world, 'a result) io" where
  "cached_lookup cached cd key ttl wrap fetch =
     (let direct = io_bind (io_try (on_db fetch)) (\<lambda>res. io_bind elapsed (\<lambda>d.
            io_bind (on_metrics (record_query d)) (\<lambda>_. io_return res))) in
      if cached
      then io_bind (io_catch (on_cached_db (get_or_insert_with cd key ttl (io_map_err wrap fetch)))) (\<lambda>res.
        case res of
          Inr v \<Rightarrow> io_bind elapsed (\<lambda>d.
            io_bind (on_metrics (if d < 10 then record_cache_hit else record_cache_miss)) (\<lambda>_.
            io_return (Inr v)))
        | Inl _ \<Rightarrow> io_bind (on_metrics record_cache_miss) (\<lambda>_. direct))
      else direct)"

definition find_vertical :: "apilib \<Rightarrow> request_info \<Rightarrow> string \<Rightarrow> (world, Vertical option result) io" where
  "find_vertical A R slug =
     io_bind (cached_lookup (ri_cache R) (ap_vertical A) (''vertical:slug:'' @ slug) 86400 (\<lambda>e. e)
       (Vertical_find_by_slug slug)) (\<lambda>res.
     io_bind elapsed (\<lambda>d. io_bind (on_timing (record_pre_checks d)) (\<lambda>_. io_return res)))"

definition request_type_of :: "LeadData \<Rightarrow> string" where
  "request_type_of data = to_lowercase (unwrap_or (ld_request_type data) ''ping'')"

definition param_true :: "request_info \<Rightarrow> string \<Rightarrow> bool" where
  "param_true R k \<longleftrightarrow> map_of (ri_params R) k = Some ''true''"

definition verbose_requested :: "request_info \<Rightarrow> LeadRequest \<Rightarrow> bool" where
  "verbose_requested R q =
     (case lq_verbose q of
        Some v \<Rightarrow> \<not> param_true R ''minimal'' \<and> v
      | None \<Rightarrow> unwrap_or (ld_verbose (lq_lead q)) False)"

definition report_failed ::
  "extlib \<Rightarrow> request_info \<Rightarrow> Vertical \<Rightarrow> LeadRequest \<Rightarrow> LeadResponse \<Rightarrow> string \<Rightarrow> string \<Rightarrow> (intake, unit) io" where
  "report_failed X R vertical q response kind msg =
     spawn (on_world (persist_failed_lead X (p_id (ri_publisher R)) vertical (request_type_of (lq_lead q)) q response
       LS_Error (JObj [(''error_kind'', JStr kind), (''message'', JStr msg)]) msg None))"

definition check_publisher ::
  "extlib \<Rightarrow> apilib \<Rightarrow> request_info \<Rightarrow> Vertical \<Rightarrow> LeadRequest \<Rightarrow> timestamp \<Rightarrow> (intake, answer option) io" where
  "check_publisher X A R vertical q now =
     (let verbose = verbose_requested R q; authenticated = p_id (ri_publisher R) in
      case ld_publisher_id (lq_lead q) of
        None \<Rightarrow> io_return None
      | Some provided \<Rightarrow>
          (case ap_uuid_parse A provided of
             None \<Rightarrow>
               let response = plain_error X verbose now 400
                     (Some (''Invalid publisher_id format: '' @ provided))
                     (''Invalid UUID format for publisher_id: '' @ provided) in
               io_bind (report_failed X R vertical q response ''invalid_publisher_id_format''
                 (''Invalid publisher_id format: '' @ provided)) (\<lambda>_.
               io_return (Some (400, response)))
           | Some provided_uuid \<Rightarrow>
               if provided_uuid = authenticated then io_return None
               else
                 let response = error_body
                       (Some ''Publisher ID mismatch. Your API key is associated with a different publisher.'')
                       (''Publisher ID mismatch: provided='' @ provided @ '', authenticated='' @ uuid_text X authenticated)
                       no_lead
                       (if verbose then Some (verbose_error X 401 now @ [(''provided_publisher_id'', JStr provided),
                          (''authenticated_publisher_id'', JStr (uuid_text X authenticated))]) else None) 401 in
                 io_bind (report_failed X R vertical q response ''publisher_mismatch'' ''Publisher ID mismatch'') (\<lambda>_.
                 io_return (Some (400, response)))))"

definition check_fields ::
  "extlib \<Rightarrow> request_info \<Rightarrow> Vertical \<Rightarrow> LeadRequest \<Rightarrow> timestamp \<Rightarrow> (intake, answer option) io" where
  "check_fields X R vertical q now =
     (let request_type = request_type_of (lq_lead q) in
      case missing_required_lead_field (lq_lead q) request_type of
        None \<Rightarrow> io_return None
      | Some field \<Rightarrow>
          let msg = ''Missing required field: '' @ field;
              response = plain_error X (verbose_requested R q) now 400 (Some msg) msg in
          io_bind (spawn (persist_validation_error_lead X R vertical request_type field q response)) (\<lambda>_.
          io_return (Some (400, response))))"

end
