(* ===== verification/LeadHandler.thy ===== *)
theory LeadHandler
  imports LeadIntake
begin

text \<open>
  Model of the handlers of \<open>crates/api/src/routes/leads.rs\<close>: a post, which claims the promise of
  an earlier ping and routes the stored lead; the creation of a lead by a ping or a fullpost; and
  \<open>create_lead\<close> with its three entry points. Tasks that are joined run one after the other. Log
  output has no effect.
\<close>

section \<open>Prices\<close>

fun f64_round :: "f64 \<Rightarrow> f64" where
  "f64_round (Fin x) = Fin (if x < 0 then - of_int \<lfloor>- x + 1 / 2\<rfloor> else of_int \<lfloor>x + 1 / 2\<rfloor>)"
| "f64_round a = a"

definition round2 :: "f64 option \<Rightarrow> f64 option" where
  "round2 v = map_option (\<lambda>p. f64_div (f64_round (f64_mul p (Fin 100))) (Fin 100)) v"

text \<open>The format \<open>{:.2}\<close>.\<close>

definition format_fixed2 :: "f64 \<Rightarrow> string" where
  "format_fixed2 a =
     (case a of
        Fin x \<Rightarrow> let n = round_even (\<bar>x\<bar> * 100) in
          (if x < 0 then ''-'' else []) @ show_nat (nat (n div 100)) @ ''.''
          @ show_nat (nat (n div 10 mod 10)) @ show_nat (nat (n mod 10))
      | _ \<Rightarrow> f64_to_string a)"

section \<open>Names\<close>

definition COLUMN_DECODE :: error where
  "COLUMN_DECODE = ''error occurred while decoding column 0: unexpected null; try decoding as an Option''"

definition buyer_name_of :: "uuid \<Rightarrow> (db, string option) io" where
  "buyer_name_of i = db_query_optional (\<lambda>d.
     map b_name (filter (\<lambda>b. b_id b = i \<and> b_deleted_at b = None) (buyers d)))"

definition campaign_name_of :: "uuid \<Rightarrow> (db, string option) io" where
  "campaign_name_of i =
     io_bind (db_query_optional (\<lambda>d.
       map c_name (filter (\<lambda>c. c_id c = i \<and> c_deleted_at c = None) (campaigns d)))) (\<lambda>row.
     case row of
       None \<Rightarrow> io_return None
     | Some (Some n) \<Rightarrow> io_return (Some n)
     | Some None \<Rightarrow> io_err COLUMN_DECODE)"

definition cached_name :: "apilib \<Rightarrow> request_info \<Rightarrow> string \<Rightarrow> (db, string option) io \<Rightarrow> (world, string option) io" where
  "cached_name A R key fetch = io_bind (io_catch
     (if ri_cache R then on_cached_db (get_or_insert_with (ap_name A) key 3600 (io_map_err db_error fetch))
      else on_db fetch)) (\<lambda>res. io_return (ok_some res))"

definition routing_names ::
  "extlib \<Rightarrow> apilib \<Rightarrow> request_info \<Rightarrow> RoutingResult \<Rightarrow> (world, string option \<times> string option) io" where
  "routing_names X A R r =
     io_bind (case rr_buyer_id r of
         Some i \<Rightarrow> cached_name A R (''buyer:name:'' @ uuid_text X i) (buyer_name_of i)
       | None \<Rightarrow> io_return None) (\<lambda>buyer.
     io_bind (case rr_campaign_id r of
         Some i \<Rightarrow> cached_name A R (''campaign:name:'' @ uuid_text X i) (campaign_name_of i)
       | None \<Rightarrow> io_return None) (\<lambda>campaign.
     io_return (buyer, campaign)))"

section \<open>Payloads\<close>

definition u64_json :: "u64 \<Rightarrow> json" where
  "u64_json x = JInt (uint x)"

definition number_or_zero :: "f64 \<Rightarrow> json" where
  "number_or_zero p = (case p of Fin _ \<Rightarrow> JFloat p | _ \<Rightarrow> JInt 0)"

definition opt_uuid_json :: "extlib \<Rightarrow> uuid option \<Rightarrow> json" where
  "opt_uuid_json X u = opt_json (map_option (uuid_text X) u)"

definition routing_result_json :: "extlib \<Rightarrow> RoutingResult \<Rightarrow> json" where
  "routing_result_json X r = JObj [(''routing_result'', JObj
     [(''status'', JStr (rr_status r)), (''success'', JBool (rr_success r)), (''error'', opt_json (rr_error r)),
      (''price'', json_of number_or_zero (rr_price r)), (''buyer_id'', opt_uuid_json X (rr_buyer_id r)),
      (''campaign_id'', opt_uuid_json X (rr_campaign_id r)), (''ping_id'', opt_json (rr_ping_id r)),
      (''post_id'', opt_json (rr_post_id r)), (''promise_id'', opt_json (rr_promise_id r))])]"

definition sealed :: "extlib \<Rightarrow> string option \<Rightarrow> json \<Rightarrow> string option" where
  "sealed X key v =
     (case key of
        None \<Rightarrow> None
      | Some k \<Rightarrow> (case encrypt_envelope X [] k (json_print X v) True of Inr env \<Rightarrow> Some env | Inl _ \<Rightarrow> None))"

text \<open>The payload task of a post, with the request of the publisher.\<close>

definition enqueue_post_payload ::
  "extlib \<Rightarrow> request_info \<Rightarrow> uuid \<Rightarrow> LeadData \<Rightarrow> RoutingResult \<Rightarrow> (intake, unit) io" where
  "enqueue_post_payload X R lead data r =
     io_bind (fetch_pii_encryption_key X (ri_environment R)) (\<lambda>key.
     on_world (enqueue_task (PayloadUpdate \<lparr> pu_lead_id = lead, pu_payload_type = ''post'',
       pu_payload = LeadData_to_json data, pu_post_id = rr_post_id r,
       pu_request_payload_encrypted = sealed X key (LeadData_to_json data),
       pu_response_payload_encrypted = sealed X key (routing_result_json X r),
       pu_ping_payloads_row_id = None, pu_external_ping_id = None \<rparr>)))"

section \<open>Posts\<close>

definition LEAD_NOT_FOUND :: string where "LEAD_NOT_FOUND = ''Lead not found''"

definition find_promised :: "apilib \<Rightarrow> request_info \<Rightarrow> string \<Rightarrow> (world, Lead option) io" where
  "find_promised A R promise_id =
     (let fetch = io_map_err db_error (Lead_find_by_promise_id promise_id) in
      if ri_cache R
      then on_cached_db (get_or_insert_with_skip_none (ap_lead A) (''lead:promise_id:'' @ promise_id) 300 fetch)
      else on_db fetch)"

definition find_posted_lead :: "apilib \<Rightarrow> request_info \<Rightarrow> string \<Rightarrow> LeadData \<Rightarrow> (world, Lead option) io" where
  "find_posted_lead A R promise_id data =
     io_bind (find_promised A R promise_id) (\<lambda>found.
     case found of
       Some l \<Rightarrow> io_return (Some l)
     | None \<Rightarrow>
         (case ld_lead_id data of
            None \<Rightarrow> io_return None
          | Some lid \<Rightarrow> if lid = [] then io_return None else ok_or_default None (on_db (Lead_find_by_lead_id lid))))"

definition PROMISE_TTL :: nat where "PROMISE_TTL = 600000"

definition claimable :: "timestamp \<Rightarrow> uuid \<Rightarrow> string \<Rightarrow> Lead \<Rightarrow> bool" where
  "claimable now u promise_id l \<longleftrightarrow> l_uuid l = u \<and> (l_post_id l = None \<or> l_post_id l = Some [])
     \<and> l_promise_id l = Some promise_id \<and> now \<le> l_created_at l + PROMISE_TTL"

definition claim_promise :: "string \<Rightarrow> uuid \<Rightarrow> string \<Rightarrow> (db, uuid option) io" where
  "claim_promise token u promise_id = db_stmt (\<lambda>d.
     let p = claimable (db_now d) u promise_id in
     (Inr (first_row (map l_uuid (filter p (leads d)))),
      d\<lparr>leads := update_rows p (\<lambda>l. l\<lparr>l_post_id := Some token\<rparr>) (leads d)\<rparr>))"

definition duplicate_post :: "extlib \<Rightarrow> bool \<Rightarrow> timestamp \<Rightarrow> Lead \<Rightarrow> answer" where
  "duplicate_post X verbose now lead = (400, error_body
     (Some ''The lead_id or promise_id have already been posted, or do not match your ping response. Use the lead_id and promise_id from your ping response.'')
     ''duplicate_or_expired_promise''
     (no_lead\<lparr>ln_lead_id := l_lead_id lead, ln_lead_uuid := Some (uuid_text X (l_uuid lead)),
        ln_ping_id := l_ping_id lead, ln_post_id := l_post_id lead\<rparr>)
     (if verbose then Some (verbose_error X 400 now @ [(''note'',
        JStr ''lead_id or promise_id already posted or mismatch; use lead_id and promise_id from ping response'')])
      else None) 400)"

definition post_message :: "RoutingResult \<Rightarrow> string option \<Rightarrow> f64 option \<Rightarrow> string option" where
  "post_message r buyer_name price =
     (if rr_status r = ''sold'' then
        Some (case (buyer_name, price) of
            (Some name, Some p) \<Rightarrow> ''Lead sold to '' @ name @ '' for $'' @ f64_to_string p
          | (Some name, None) \<Rightarrow> ''Lead sold to '' @ name
          | (None, Some p) \<Rightarrow> ''Lead sold for $'' @ f64_to_string p
          | (None, None) \<Rightarrow> ''Lead sold'')
      else opt_or (rr_error r) (Some (rr_status r)))"

definition post_times :: "world \<Rightarrow> Lead \<Rightarrow> json_obj" where
  "post_times w lead =
     [(''pre_checks_ms'', u64_json (pre_checks_ms (w_timing w))), (''post_ms'', u64_json (post_sent_ms (w_timing w))),
      (''db_operations_ms'', u64_json (db_query_time_ms (w_metrics w))),
      (''total_ms'', JInt (int (db_now (w_db w) - l_created_at lead)))]"

definition with_timing_data :: "json \<Rightarrow> json \<Rightarrow> json \<Rightarrow> json" where
  "with_timing_data stored timing verbose =
     (case as_object stored of
        Some o1 \<Rightarrow> JObj (obj_insert ''verbose'' verbose (obj_insert ''auction_timing'' timing o1))
      | None \<Rightarrow> JObj [(''auction_timing'', timing), (''verbose'', verbose)])"

definition is_sold :: "RoutingResult \<Rightarrow> bool" where
  "is_sold r \<longleftrightarrow> rr_success r \<and> rr_status r = ''sold''"

definition post_update :: "Lead \<Rightarrow> string \<Rightarrow> RoutingResult \<Rightarrow> json \<Rightarrow> LeadUpdateTuple" where
  "post_update lead token r stored =
     (if is_sold r
      then \<lparr> lu_lead_id = l_uuid lead, lu_status = LS_Sold, lu_campaign_id = rr_campaign_id r,
             lu_buyer_id = rr_buyer_id r, lu_promise_id = None, lu_ping_id = None, lu_post_id = rr_post_id r,
             lu_sold_at = True, lu_inprog_token = Some token, lu_vertical_data = Some stored \<rparr>
      else \<lparr> lu_lead_id = l_uuid lead, lu_status = l_status lead, lu_campaign_id = None, lu_buyer_id = None,
             lu_promise_id = None, lu_ping_id = None, lu_post_id = Some [], lu_sold_at = False,
             lu_inprog_token = Some token, lu_vertical_data = Some stored \<rparr>)"

definition routing_node :: "extlib \<Rightarrow> RoutingResult \<Rightarrow> json \<Rightarrow> json \<Rightarrow> json" where
  "routing_node X r buyer campaign = JObj [(''buyer_name'', buyer), (''buyer_id'', opt_uuid_json X (rr_buyer_id r)),
     (''campaign_name'', campaign), (''campaign_id'', opt_uuid_json X (rr_campaign_id r))]"

definition post_answer ::
  "extlib \<Rightarrow> bool \<Rightarrow> timestamp \<Rightarrow> Lead \<Rightarrow> RoutingResult \<Rightarrow> string option \<Rightarrow> string option \<Rightarrow> answer" where
  "post_answer X verbose now lead r buyer_name campaign_name =
     (let code = (if rr_success r then 200 else 500); price = round2 (rr_price r) in
      (400, \<lparr> lr_status = \<lparr> sn_success = rr_success r, sn_status = rr_status r,
                sn_message = post_message r buyer_name price, sn_error = rr_error r \<rparr>,
              lr_lead = no_lead\<lparr>ln_lead_id := l_lead_id lead, ln_lead_uuid := Some (uuid_text X (l_uuid lead)),
                ln_post_id := rr_post_id r, ln_price := price\<rparr>,
              lr_verbose = (if verbose then Some (JObj (verbose_error X code now
                @ [(''routing'', routing_node X r (opt_json buyer_name) (opt_json campaign_name))])) else None),
              lr_http_status = Some code \<rparr>))"

definition settle_posted ::
  "extlib \<Rightarrow> apilib \<Rightarrow> request_info \<Rightarrow> LeadRequest \<Rightarrow> Lead \<Rightarrow> string \<Rightarrow> RoutingResult \<Rightarrow> (intake, answer) io" where
  "settle_posted X A R q lead token r =
     io_bind (on_world (routing_names X A R r)) (\<lambda>(buyer_name, campaign_name).
     io_bind (enqueue_post_payload X R (l_uuid lead) (lq_lead q) r) (\<lambda>_.
     io_bind (on_world (io_get (\<lambda>w. post_times w lead))) (\<lambda>times1.
     io_bind (on_world (request_context_from_headers X R ''Lead post (buyer post)''
       (if is_sold r then ''success'' else ''failure'') (uuid_text X (l_uuid lead)) ''post'')) (\<lambda>context.
     io_bind (on_world (enqueue_task (LeadUpdate (post_update lead token r
       (with_timing_data (l_vertical_data lead) (JObj ((''request_type'', JStr ''post'') # times1))
          (JObj (obj_insert ''processing_times'' (JObj times1) context))))))) (\<lambda>_.
     io_bind (on_world current_time) (\<lambda>now.
     io_return (post_answer X (verbose_requested R q) now lead r buyer_name campaign_name)))))))"

definition route_posted ::
  "extlib \<Rightarrow> apilib \<Rightarrow> request_info \<Rightarrow> Vertical \<Rightarrow> LeadRequest \<Rightarrow> Lead \<Rightarrow> string \<Rightarrow> timestamp \<Rightarrow> (intake, answer) io" where
  "route_posted X A R vertical q lead token now =
     io_bind (io_catch (on_world (PingTreeRouter_route X (ap_codecs A) (ri_encryption_key R)
       (router_with_timing_and_metrics (PingTreeRouter_new lead (p_id (ri_publisher R)) (v_slug vertical) ''post''
          (ri_cache R) True))))) (\<lambda>res.
     case res of
       Inr r \<Rightarrow> settle_posted X A R q lead token r
     | Inl e \<Rightarrow> io_return (500, server_error X (verbose_requested R q) now e))"

definition handle_post ::
  "extlib \<Rightarrow> apilib \<Rightarrow> request_info \<Rightarrow> Vertical \<Rightarrow> LeadRequest \<Rightarrow> timestamp \<Rightarrow> (intake, answer) io" where
  "handle_post X A R vertical q now =
     (let verbose = verbose_requested R q in
      io_bind (io_ok_or (ld_promise_id (lq_lead q)) PANIC) (\<lambda>promise_id.
      io_bind (io_catch (on_world (find_posted_lead A R promise_id (lq_lead q)))) (\<lambda>found.
      case found of
        Inl e \<Rightarrow> io_return (400, server_error X verbose now e)
      | Inr None \<Rightarrow> io_return (404, plain_error X verbose now 404 None LEAD_NOT_FOUND)
      | Inr (Some lead) \<Rightarrow>
          io_bind (on_world (prefixed_uuid X ''INPROG_'')) (\<lambda>token.
          io_bind (io_try (on_world (on_db (retry_spawn 3 (claim_promise token (l_uuid lead) promise_id))))) (\<lambda>claim.
          case claim of
            Inl e \<Rightarrow> io_return (400, server_error X verbose now e)
          | Inr None \<Rightarrow> io_return (duplicate_post X verbose now lead)
          | Inr (Some _) \<Rightarrow> route_posted X A R vertical q lead token now)))))"

section \<open>Configuration checks\<close>

text \<open>The combined query. A publisher's campaign is found by its token, or by its vertical when its
  buyer serves the vertical; the buyer is the campaign's, or one of an active ping tree of the
  publisher, or one of the vertical. A query without ORDER BY takes the rows in the order of the
  table.\<close>

definition active_vertical :: "db \<Rightarrow> string \<Rightarrow> uuid option" where
  "active_vertical d slug = first_row (map v_id (filter (\<lambda>v. v_slug v = slug \<and> v_is_active v) (verticals d)))"

definition vertical_buyers :: "db \<Rightarrow> string \<Rightarrow> Buyer list" where
  "vertical_buyers d slug =
     (case active_vertical d slug of
        None \<Rightarrow> []
      | Some v \<Rightarrow> filter (\<lambda>b. b_vertical_id b = Some v \<and> b_deleted_at b = None) (buyers d))"

definition publisher_campaign :: "db \<Rightarrow> uuid \<Rightarrow> string \<Rightarrow> string \<Rightarrow> Campaign option" where
  "publisher_campaign d publisher slug token = first_row (filter (\<lambda>c.
     (c_campaign_token c = token \<and> token \<noteq> [] \<and> c_publisher_id c = publisher
      \<or> c_vertical c = slug \<and> c_publisher_id c = publisher \<and> c_buyer_id c \<in> set (map b_id (vertical_buyers d slug)))
     \<and> c_deleted_at c = None) (campaigns d))"

definition active_trees :: "db \<Rightarrow> uuid \<Rightarrow> string \<Rightarrow> PingTree list" where
  "active_trees d publisher slug = concat (map (\<lambda>a.
     filter (\<lambda>t. pt_id t = ptp_ping_tree_id a \<and> pt_status t = ''active'' \<and> pt_deleted_at t = None) (ping_trees d))
     (filter (\<lambda>a. ptp_publisher_id a = publisher \<and> ptp_vertical a = slug) (ping_tree_publishers d)))"

definition tree_buyers :: "db \<Rightarrow> PingTree \<Rightarrow> uuid list" where
  "tree_buyers d t = concat (map (\<lambda>ptc.
     map c_buyer_id (filter (\<lambda>c. c_id c = ptc_campaign_id ptc \<and> Campaign_active c) (campaigns d)))
     (filter (\<lambda>ptc. ptc_ping_tree_id ptc = pt_id t \<and> ptc_enabled ptc) (ping_tree_campaigns d)))"

definition prechecks_row :: "uuid \<Rightarrow> string \<Rightarrow> string \<Rightarrow> db \<Rightarrow> uuid option \<times> uuid option \<times> bool" where
  "prechecks_row publisher slug token d =
     (let c = publisher_campaign d publisher slug token;
          trees = active_trees d publisher slug;
          via_tree = first_row (concat (map (tree_buyers d) trees));
          via_vertical = first_row (map b_id (vertical_buyers d slug)) in
      (map_option c_id c, opt_or (map_option c_buyer_id c) (opt_or via_tree via_vertical), trees \<noteq> []))"

definition prechecks_query ::
  "uuid \<Rightarrow> string \<Rightarrow> string \<Rightarrow> (db, (uuid option \<times> uuid option \<times> bool) option) io" where
  "prechecks_query publisher slug token = db_query (\<lambda>d. Some (prechecks_row publisher slug token d))"

definition missing_key :: "string option result \<Rightarrow> bool" where
  "missing_key res \<longleftrightarrow> ok_some res = None"

definition pre_warm_ssm_keys :: "string \<Rightarrow> (intake, nat) io" where
  "pre_warm_ssm_keys env =
     io_bind (io_try (ssm_get_parameter (DET_PATH env))) (\<lambda>det.
     io_bind (io_try (ssm_get_parameter (SALT_PATH env))) (\<lambda>salt.
     io_return (of_bool (\<not> missing_key det) + of_bool (\<not> missing_key salt))))"

definition retry_key :: "string \<Rightarrow> string option result \<Rightarrow> (intake, string option result) io" where
  "retry_key path res = (if missing_key res then io_try (get_ssm_parameter_cached path) else io_return res)"

definition load_keys :: "string \<Rightarrow> (intake, string option result \<times> string option result) io" where
  "load_keys env =
     io_bind (io_try (get_ssm_parameter_cached (DET_PATH env))) (\<lambda>det.
     io_bind (io_try (get_ssm_parameter_cached (SALT_PATH env))) (\<lambda>salt.
     io_bind (io_get it_local_dev) (\<lambda>local_dev.
     if \<not> local_dev \<and> (missing_key det \<or> missing_key salt)
     then io_bind (pre_warm_ssm_keys env) (\<lambda>_.
       io_bind (retry_key (DET_PATH env) det) (\<lambda>det1.
       io_bind (retry_key (SALT_PATH env) salt) (\<lambda>salt1.
       io_return (det1, salt1))))
     else io_return (det, salt))))"

definition derived_key :: "extlib \<Rightarrow> string option result \<Rightarrow> string option result \<Rightarrow> string option" where
  "derived_key X det salt =
     (case (det, salt) of
        (Inr (Some d), Inr (Some s)) \<Rightarrow> Some (derive_key_from_secret X d s)
      | _ \<Rightarrow> None)"

definition RONIN_PROBLEM :: string where
  "RONIN_PROBLEM = ''This campaign is not in a ping tree (ronin). campaign_token is required when submitting leads to a ronin campaign.''"

definition NO_CAMPAIGN :: string where
  "NO_CAMPAIGN = ''No campaign configured for this publisher/vertical''"

definition NO_BUYER :: string where
  "NO_BUYER = ''No buyer configured for this publisher/vertical''"

definition row_problems :: "string option \<Rightarrow> uuid option \<times> uuid option \<times> bool \<Rightarrow> string list" where
  "row_problems token row = (case row of (campaign, buyer, has_ping_tree) \<Rightarrow>
     (if \<not> has_ping_tree \<and> is_some campaign \<and> trim (unwrap_or token []) = [] then [RONIN_PROBLEM] else [])
     @ (if campaign = None \<and> is_some token then [NO_CAMPAIGN] else [])
     @ (if buyer = None then [NO_BUYER] else []))"

text \<open>What was found of campaign and buyer, with the problems. The branch where the query gives no
  row can only be reached by a cached null.\<close>

definition judge_prechecks ::
  "string \<Rightarrow> string option \<Rightarrow> (uuid option \<times> uuid option \<times> bool) option result
   \<Rightarrow> (db, uuid option \<times> uuid option \<times> string list) io" where
  "judge_prechecks slug token res =
     (case res of
        Inr (Some row) \<Rightarrow> io_return (fst row, fst (snd row), row_problems token row)
      | Inr None \<Rightarrow>
          io_bind (io_try (db_query_optional (\<lambda>d. map b_id (vertical_buyers d slug)))) (\<lambda>found.
          io_return (None, ok_some found,
            (case found of
               Inr (Some _) \<Rightarrow> []
             | Inr None \<Rightarrow> [NO_BUYER]
             | Inl _ \<Rightarrow> [''Failed to verify buyers due to server error''])
            @ (if is_some token then [NO_CAMPAIGN] else [])))
      | Inl _ \<Rightarrow> io_return (None, None, [''Failed to verify configuration due to server error'']))"

definition prechecks_failed :: "extlib \<Rightarrow> bool \<Rightarrow> timestamp \<Rightarrow> string list \<Rightarrow> answer" where
  "prechecks_failed X verbose now problems =
     (let message = join NL problems in
      (400, plain_error X verbose now 400 (Some message)
         (''pre-check failures: '' @ replace_char (hd NL) '', '' message)))"

section \<open>New leads\<close>

definition lead_object ::
  "uuid \<Rightarrow> string \<Rightarrow> string \<Rightarrow> string option \<Rightarrow> string \<Rightarrow> uuid option \<Rightarrow> uuid option \<Rightarrow> request_info \<Rightarrow> Vertical
   \<Rightarrow> LeadData \<Rightarrow> timestamp \<Rightarrow> Lead" where
  "lead_object u event lead_id promise session campaign buyer R vertical data now =
     (blank_lead u event (Some lead_id) (p_id (ri_publisher R)) (v_id vertical) (request_type_of data)
        (if unwrap_or (ld_is_test data) False then LS_Test else LS_Processing) data session (JObj []) now)
     \<lparr>l_campaign_id := campaign, l_buyer_id := buyer, l_promise_id := promise,
      l_user_agent := opt_or (ld_user_agent data) (header_text R ''user-agent''), l_website_url := ld_source data\<rparr>"

definition lead_creation ::
  "uuid \<Rightarrow> string \<Rightarrow> string \<Rightarrow> string option \<Rightarrow> string \<Rightarrow> uuid \<Rightarrow> uuid \<Rightarrow> request_info \<Rightarrow> Vertical \<Rightarrow> LeadData
   \<Rightarrow> string option \<Rightarrow> LeadCreationTuple" where
  "lead_creation u event lead_id promise session campaign buyer R vertical data key = \<lparr> lc_uuid = u,
     lc_event_id = event, lc_lead_id = Some lead_id, lc_publisher_id = p_id (ri_publisher R),
     lc_vertical_id = v_id vertical, lc_request_type = request_type_of data,
     lc_strategy = strategy_of (request_type_of data), lc_promise_id = promise, lc_buyer_id = buyer,
     lc_campaign_id = campaign, lc_tcpa_consent = unwrap_or (ld_tcpa_consent data) False,
     lc_tcpa_language = unwrap_or (ld_tcpa_language data) [], lc_is_test = unwrap_or (ld_is_test data) False,
     lc_session_id = session, lc_vertical_data = JObj [], lc_first_name = ld_first_name data,
     lc_last_name = ld_last_name data, lc_email = ld_email data, lc_cell_phone = ld_cell_phone data,
     lc_street_address = ld_street_address data, lc_city = ld_city data, lc_state = ld_state data,
     lc_zip = ld_zip data, lc_ip_address = ld_ip_address data, lc_request_payload = LeadData_to_json data,
     lc_pii_encryption_key = key \<rparr>"

definition new_promise :: "extlib \<Rightarrow> string \<Rightarrow> (world, string option) io" where
  "new_promise X request_type =
     (if request_type = ''ping'' \<or> request_type = ''fullpost''
      then io_bind (generate_promise_id X) (\<lambda>p. io_return (Some p)) else io_return None)"

definition has_price :: "RoutingResult \<Rightarrow> bool" where
  "has_price r = (case rr_price r of Some p \<Rightarrow> f64_lt (Fin 0) p | None \<Rightarrow> False)"

definition final_status :: "RoutingResult \<Rightarrow> LeadStatus" where
  "final_status r =
     (if rr_success r \<and> rr_status r = ''sold'' \<and> has_price r then LS_Sold
      else if rr_success r \<and> is_some (rr_post_id r) \<and> has_price r then LS_Sold
      else if rr_success r \<and> is_some (rr_campaign_id r) \<and> is_some (rr_buyer_id r) \<and> has_price r then LS_Sold
      else if rr_success r \<and> (rr_status r = ''accepted'' \<or> rr_status r = ''ping_accepted'') then LS_PingAccepted
      else if is_some (rr_campaign_id r) \<and> is_some (rr_buyer_id r) then LS_PingAccepted
      else LS_Processing)"

definition routed_message :: "RoutingResult \<Rightarrow> string option" where
  "routed_message r =
     (if rr_status r = ''accepted'' then
        Some ((case round2 (rr_price r) of
                 Some b \<Rightarrow> ''Ping Accepted with a bid of $'' @ format_fixed2 b
               | None \<Rightarrow> ''Ping Accepted'')
          @ '' Include the same lead_id and promise_id from this response in your POST request to complete the lead.'')
      else if rr_status r = ''sold'' then
        Some (case round2 (rr_price r) of Some p \<Rightarrow> ''Lead Sold for $'' @ f64_to_string p | None \<Rightarrow> ''Lead Sold'')
      else if rr_success r then Some ''Lead routed successfully''
      else None)"

definition routed_verbose ::
  "extlib \<Rightarrow> timestamp \<Rightarrow> string \<Rightarrow> RoutingResult \<Rightarrow> string option \<Rightarrow> string option \<Rightarrow> json" where
  "routed_verbose X now request_type r buyer_name campaign_name =
     JObj (verbose_error X 200 now
       @ [(''routing'', routing_node X r (JStr (unwrap_or buyer_name [])) (JStr (unwrap_or campaign_name [])))]
       @ (case rr_per_buyer_timings r of
            Some timings \<Rightarrow> [(''per_buyer_timings'', JArr (transform_per_buyer_timings_for_verbose timings
              (rr_status r) (request_type = ''fullpost'')))]
          | None \<Rightarrow> []))"

definition report_routing ::
  "extlib \<Rightarrow> apilib \<Rightarrow> request_info \<Rightarrow> LeadRequest \<Rightarrow> RoutingResult \<Rightarrow> (world, json option) io" where
  "report_routing X A R q r =
     (if param_true R ''minimal'' \<or> \<not> verbose_requested R q then io_return None
      else io_bind (routing_names X A R r) (\<lambda>(buyer_name, campaign_name).
        io_bind current_time (\<lambda>now.
        io_return (Some (routed_verbose X now (request_type_of (lq_lead q)) r buyer_name campaign_name)))))"

definition uncached_key :: "extlib \<Rightarrow> string \<Rightarrow> (intake, string option) io" where
  "uncached_key X env =
     io_bind (io_try (ssm_get_parameter (DET_PATH env))) (\<lambda>det.
     case ok_some det of
       None \<Rightarrow> io_return None
     | Some det_key \<Rightarrow> io_bind (io_try (ssm_get_parameter (SALT_PATH env))) (\<lambda>salt.
         io_return (map_option (derive_key_from_secret X det_key) (ok_some salt))))"

definition enqueue_ping_payload ::
  "extlib \<Rightarrow> request_info \<Rightarrow> uuid \<Rightarrow> RoutingResult \<Rightarrow> (intake, unit) io" where
  "enqueue_ping_payload X R lead r =
     io_bind (uncached_key X (ri_environment R)) (\<lambda>key.
     on_world (enqueue_task (PayloadUpdate \<lparr> pu_lead_id = lead, pu_payload_type = ''ping'',
       pu_payload = routing_result_json X r, pu_post_id = None, pu_request_payload_encrypted = None,
       pu_response_payload_encrypted = sealed X key (routing_result_json X r),
       pu_ping_payloads_row_id = Some lead, pu_external_ping_id = rr_ping_id r \<rparr>)))"

definition enqueue_payloads ::
  "extlib \<Rightarrow> request_info \<Rightarrow> uuid \<Rightarrow> LeadData \<Rightarrow> RoutingResult \<Rightarrow> (intake, unit) io" where
  "enqueue_payloads X R lead data r =
     (let fullpost = (request_type_of data = ''fullpost'') in
      io_bind (io_when (fullpost \<and> is_some (rr_ping_id r)) (enqueue_ping_payload X R lead r)) (\<lambda>_.
      io_when (fullpost \<and> is_some (rr_post_id r)) (enqueue_post_payload X R lead data r)))"

definition auction_times :: "world \<Rightarrow> RoutingResult \<Rightarrow> json_obj" where
  "auction_times w r =
     (let t = w_timing w in
      [(''pre_checks_ms'', u64_json (pre_checks_ms t)), (''ping_auction_ms'', u64_json (ping_auction_ms t)),
       (''qualification_ms'', u64_json (qualification_ms t)), (''post_ms'', u64_json (post_sent_ms t)),
       (''db_operations_ms'', u64_json (db_query_time_ms (w_metrics w))), (''total_ms'', u64_json (total_ms t))]
      @ (case rr_per_buyer_timings r of Some ts \<Rightarrow> [(''per_buyer_timings'', JArr ts)] | None \<Rightarrow> []))"

definition auction_timing_data ::
  "extlib \<Rightarrow> request_info \<Rightarrow> uuid \<Rightarrow> string \<Rightarrow> RoutingResult \<Rightarrow> (world, json) io" where
  "auction_timing_data X R lead request_type r =
     io_bind (io_get (\<lambda>w. auction_times w r)) (\<lambda>times1.
     io_bind (request_context_from_headers X R ''Lead submission (auction processing)''
       (if rr_success r then ''success'' else ''failure'') (uuid_text X lead) request_type) (\<lambda>context.
     io_return (JObj [(''auction_timing'', JObj ((''request_type'', JStr request_type) # times1)),
       (''verbose'', JObj (obj_insert ''processing_times'' (JObj times1) context))])))"

definition update_sold_lead :: "uuid \<Rightarrow> RoutingResult \<Rightarrow> json \<Rightarrow> (db, nat) io" where
  "update_sold_lead lead r stored = update_leads (\<lambda>l. l_uuid l = lead) (\<lambda>now l.
     l\<lparr>l_status := final_status r, l_campaign_id := opt_or (rr_campaign_id r) (l_campaign_id l),
       l_buyer_id := opt_or (rr_buyer_id r) (l_buyer_id l), l_promise_id := opt_or (rr_promise_id r) (l_promise_id l),
       l_ping_id := opt_or (rr_ping_id r) (l_ping_id l), l_post_id := Some (unwrap_or (rr_post_id r) []),
       l_sold_at := Some now, l_vertical_data := stored, l_updated_at := now\<rparr>)"

text \<open>The update is given two seconds; when it is cut off it may have been carried out.\<close>

definition sold_safety_net :: "uuid \<Rightarrow> RoutingResult \<Rightarrow> json \<Rightarrow> (world, unit) io" where
  "sold_safety_net lead r stored =
     io_bind met_deadline (\<lambda>deadline.
     if deadline = CutBefore then io_return ()
     else io_bind (io_try (on_db (update_sold_lead lead r stored))) (\<lambda>_. io_return ()))"

definition routed_update :: "uuid \<Rightarrow> RoutingResult \<Rightarrow> json \<Rightarrow> LeadUpdateTuple" where
  "routed_update lead r stored = \<lparr> lu_lead_id = lead, lu_status = final_status r,
     lu_campaign_id = rr_campaign_id r, lu_buyer_id = rr_buyer_id r, lu_promise_id = rr_promise_id r,
     lu_ping_id = rr_ping_id r, lu_post_id = rr_post_id r, lu_sold_at = (final_status r = LS_Sold),
     lu_inprog_token = None, lu_vertical_data = Some stored \<rparr>"

definition routed_answer ::
  "extlib \<Rightarrow> string \<Rightarrow> uuid \<Rightarrow> string \<Rightarrow> RoutingResult \<Rightarrow> json option \<Rightarrow> answer" where
  "routed_answer X request_type lead lead_id r verbose =
     (let fullpost = (request_type = ''fullpost'') in
      (200, \<lparr> lr_status = \<lparr> sn_success = rr_success r, sn_status = rr_status r,
                sn_message = routed_message r, sn_error = rr_error r \<rparr>,
              lr_lead = \<lparr> ln_promise_id = (if fullpost then None else rr_promise_id r), ln_lead_id = Some lead_id,
                ln_lead_uuid = Some (uuid_text X lead), ln_ping_id = None,
                ln_bid = (if fullpost \<or> rr_status r \<noteq> ''accepted'' then None else round2 (rr_price r)),
                ln_post_id = rr_post_id r,
                ln_price = (if rr_status r = ''sold'' then round2 (rr_price r) else None) \<rparr>,
              lr_verbose = verbose, lr_http_status = Some 200 \<rparr>))"

definition settle_routed ::
  "extlib \<Rightarrow> apilib \<Rightarrow> request_info \<Rightarrow> LeadRequest \<Rightarrow> uuid \<Rightarrow> string \<Rightarrow> RoutingResult \<Rightarrow> (intake, answer) io" where
  "settle_routed X A R q lead lead_id r =
     (let request_type = request_type_of (lq_lead q) in
      io_bind (on_world (report_routing X A R q r)) (\<lambda>verbose.
      io_bind (enqueue_payloads X R lead (lq_lead q) r) (\<lambda>_.
      io_bind (on_world (auction_timing_data X R lead request_type r)) (\<lambda>stored.
      io_bind (io_when (final_status r = LS_Sold) (spawn (on_world (sold_safety_net lead r stored)))) (\<lambda>_.
      io_bind (on_world (enqueue_task (LeadUpdate (routed_update lead r stored)))) (\<lambda>_.
      io_return (routed_answer X request_type lead lead_id r verbose)))))))"

definition route_new ::
  "extlib \<Rightarrow> apilib \<Rightarrow> request_info \<Rightarrow> Vertical \<Rightarrow> LeadRequest \<Rightarrow> Lead \<Rightarrow> (world, RoutingResult) io" where
  "route_new X A R vertical q lead =
     PingTreeRouter_route X (ap_codecs A) (ri_encryption_key R)
       (router_with_timing_and_metrics (PingTreeRouter_new lead (p_id (ri_publisher R)) (v_slug vertical)
          (request_type_of (lq_lead q)) (ri_cache R) True))"

definition route_created ::
  "extlib \<Rightarrow> apilib \<Rightarrow> request_info \<Rightarrow> Vertical \<Rightarrow> LeadRequest \<Rightarrow> Lead \<Rightarrow> string \<Rightarrow> timestamp \<Rightarrow> (intake, answer) io" where
  "route_created X A R vertical q lead lead_id now =
     io_bind (io_catch (on_world (route_new X A R vertical q lead))) (\<lambda>res.
     io_bind (on_world (on_timing (record_total now))) (\<lambda>_.
     case res of
       Inr r \<Rightarrow> settle_routed X A R q (l_uuid lead) lead_id r
     | Inl e \<Rightarrow> io_return (500, server_error X (verbose_requested R q) now e)))"

definition async_answer ::
  "extlib \<Rightarrow> bool \<Rightarrow> timestamp \<Rightarrow> string \<Rightarrow> uuid \<Rightarrow> string \<Rightarrow> string option \<Rightarrow> answer" where
  "async_answer X verbose now request_type lead lead_id promise =
     (202, \<lparr> lr_status = \<lparr> sn_success = True, sn_status = ''processing'',
              sn_message = Some ''Lead accepted for processing. Routing in progress.'', sn_error = None \<rparr>,
            lr_lead = no_lead\<lparr>ln_promise_id := (if request_type = ''fullpost'' then None else promise),
              ln_lead_id := Some lead_id, ln_lead_uuid := Some (uuid_text X lead)\<rparr>,
            lr_verbose = (if verbose then Some (JObj [(''async_mode'', JBool True),
              (''message'', JStr ''Lead accepted for asynchronous processing. Use lead_uuid to check status.''),
              (''lead_uuid'', JStr (uuid_text X lead)), (''timestamp'', JStr (utc_rfc3339 X now))]) else None),
            lr_http_status = Some 202 \<rparr>)"

definition admit_lead ::
  "extlib \<Rightarrow> apilib \<Rightarrow> request_info \<Rightarrow> Vertical \<Rightarrow> LeadRequest \<Rightarrow> timestamp \<Rightarrow> uuid option \<Rightarrow> uuid option
   \<Rightarrow> string option \<Rightarrow> (intake, answer) io" where
  "admit_lead X A R vertical q now campaign buyer key =
     (let data = lq_lead q; request_type = request_type_of data in
      io_bind (on_world (generate_lead_id (v_slug vertical))) (\<lambda>lead_id.
      io_bind (on_world draw_uuid) (\<lambda>lead_uuid.
      io_bind (on_world (prefixed_uuid X ''evt_'')) (\<lambda>event_id.
      io_bind (on_world (new_promise X request_type)) (\<lambda>promise.
      io_bind (on_world (prefixed_uuid X ''sess_'')) (\<lambda>session_id.
      io_bind (io_ok_or buyer PANIC) (\<lambda>buyer_id.
      io_bind (io_ok_or campaign PANIC) (\<lambda>campaign_id.
      io_bind (on_world (enqueue_task (LeadCreation
        (lead_creation lead_uuid event_id lead_id promise session_id campaign_id buyer_id R vertical data key)))) (\<lambda>_.
      let lead = lead_object lead_uuid event_id lead_id promise session_id campaign buyer R vertical data now in
      if param_true R ''async''
      then io_bind (spawn (on_world (route_new X A R vertical q lead))) (\<lambda>_.
        io_return (async_answer X (verbose_requested R q) now request_type lead_uuid lead_id promise))
      else route_created X A R vertical q lead lead_id now)))))))))"

definition create_new ::
  "extlib \<Rightarrow> apilib \<Rightarrow> request_info \<Rightarrow> Vertical \<Rightarrow> LeadRequest \<Rightarrow> timestamp \<Rightarrow> (intake, answer) io" where
  "create_new X A R vertical q now =
     (let token = ld_campaign_token (lq_lead q); publisher = p_id (ri_publisher R); slug = v_slug vertical in
      io_bind (on_world (cached_lookup (ri_cache R) (ap_prechecks A)
        (''prechecks:publisher:'' @ uuid_text X publisher @ '':vertical:'' @ slug @ '':token:'' @ unwrap_or token [])
        300 db_error (prechecks_query publisher slug (unwrap_or token [])))) (\<lambda>res.
      io_bind (load_keys (ri_environment R)) (\<lambda>(det, salt).
      io_bind (on_world (io_bind elapsed (\<lambda>d. on_timing (record_pre_checks d)))) (\<lambda>_.
      io_bind (on_world (on_db (judge_prechecks slug token res))) (\<lambda>(campaign, buyer, problems).
      if problems \<noteq> [] then io_return (prechecks_failed X (verbose_requested R q) now problems)
      else admit_lead X A R vertical q now campaign buyer (derived_key X det salt))))))"

section \<open>The handler\<close>

definition check_rate :: "extlib \<Rightarrow> request_info \<Rightarrow> (intake, nat option) io" where
  "check_rate X R =
     io_bind (on_world current_time) (\<lambda>now. \<lambda>s.
       case rate_limit (''publisher:'' @ uuid_text X (p_id (ri_publisher R))) now (it_buckets s) of
         (wait, buckets) \<Rightarrow> (Inr wait, s\<lparr>it_buckets := buckets\<rparr>))"

definition start_request :: "timestamp \<Rightarrow> (world, unit) io" where
  "start_request now = io_modify (\<lambda>w. w\<lparr>w_metrics := DiagnosticMetrics_new, w_timing := AtomicAuctionTiming_new now\<rparr>)"

text \<open>The first answer that a check gives, or else what follows.\<close>

definition or_else :: "('s, 'a option) io \<Rightarrow> ('s, 'a) io \<Rightarrow> ('s, 'a) io" where
  "or_else check m = io_bind check (\<lambda>a. case a of Some x \<Rightarrow> io_return x | None \<Rightarrow> m)"

definition handle_lead ::
  "extlib \<Rightarrow> apilib \<Rightarrow> request_info \<Rightarrow> LeadRequest \<Rightarrow> timestamp \<Rightarrow> Vertical \<Rightarrow> (intake, answer) io" where
  "handle_lead X A R q now vertical =
     or_else (check_publisher X A R vertical q now)
     (or_else (check_fields X R vertical q now)
     (if request_type_of (lq_lead q) = ''post'' then handle_post X A R vertical q now
      else create_new X A R vertical q now))"

definition create_lead ::
  "extlib \<Rightarrow> apilib \<Rightarrow> request_info \<Rightarrow> LeadRequest \<Rightarrow> (intake, answer) io" where
  "create_lead X A R q =
     io_bind (check_rate X R) (\<lambda>wait.
     case wait of
       Some retry_after \<Rightarrow> io_return (rate_limited retry_after)
     | None \<Rightarrow>
         io_bind (on_world current_time) (\<lambda>now.
         io_bind (on_world (start_request now)) (\<lambda>_.
         io_bind (on_world (find_vertical A R (ld_vertical (lq_lead q)))) (\<lambda>res.
         let verbose = verbose_requested R q; slug = ld_vertical (lq_lead q) in
         case res of
           Inr (Some vertical) \<Rightarrow> handle_lead X A R q now vertical
         | Inr None \<Rightarrow> io_return (400, plain_error X verbose now 400
             (Some (''Invalid vertical: '' @ slug)) (''Invalid vertical slug: '' @ slug))
         | Inl e \<Rightarrow> io_return (500, server_error X verbose now e)))))"

definition create_lead_as ::
  "string \<Rightarrow> extlib \<Rightarrow> apilib \<Rightarrow> request_info \<Rightarrow> LeadRequest \<Rightarrow> (intake, answer) io" where
  "create_lead_as request_type X A R q =
     create_lead X A R (q\<lparr>lq_lead := (lq_lead q)\<lparr>ld_request_type := Some request_type\<rparr>\<rparr>)"

definition create_lead_ping :: "extlib \<Rightarrow> apilib \<Rightarrow> request_info \<Rightarrow> LeadRequest \<Rightarrow> (intake, answer) io" where
  "create_lead_ping = create_lead_as ''ping''"

definition create_lead_post :: "extlib \<Rightarrow> apilib \<Rightarrow> request_info \<Rightarrow> LeadRequest \<Rightarrow> (intake, answer) io" where
  "create_lead_post = create_lead_as ''post''"

definition create_lead_fullpost :: "extlib \<Rightarrow> apilib \<Rightarrow> request_info \<Rightarrow> LeadRequest \<Rightarrow> (intake, answer) io" where
  "create_lead_fullpost = create_lead_as ''fullpost''"

end
