(* ===== verification/PingTreeRouterProps.thy ===== *)
theory PingTreeRouterProps
  imports PingTreeRouter WriteBehindProps
begin

text \<open>
  Properties of the ping tree router: the keys of the database it keeps, the requests it sends,
  the outcome of an auction, and the composition with the internal buyer, the write-behind queue
  and the qualification engine.
\<close>

section \<open>Consistency of the database\<close>

abbreviation world_keys :: "world \<Rightarrow> bool" where
  "world_keys \<equiv> \<lambda>w. keys_inv (w_db w)"

lemma keys_tables [simp]: "keys_inv (tables d) = keys_inv d"
  by (simp add: tables_def)

lemma quiet_keys: "frame quiet m \<Longrightarrow> preserves world_keys m"
proof (rule preservesI)
  fix w
  assume "frame quiet m" and "keys_inv (w_db w)"
  then have "tables (wq_db (w_queue (snd (m w)))) = tables (w_db w)"
    unfolding frame_def quiet_def by (metis WriteBehindQueue.select_convs(7) WriteBehindQueue.surjective
        WriteBehindQueue.update_convs(7))
  then show "keys_inv (w_db (snd (m w)))" using \<open>keys_inv (w_db w)\<close> keys_tables by metis
qed

lemma keys_on_db [preserves_intros]: "preserves keys_inv m \<Longrightarrow> preserves world_keys (on_db m)"
  by (auto simp: preserves_def on_db_def split: prod.split)

lemma keys_enqueue [preserves_intros]: "preserves world_keys (enqueue_task t)"
  by (simp add: preserves_def enqueue_task_def io_modify_def enqueue_def)

lemma preserves_io_when [preserves_intros]: "preserves P m \<Longrightarrow> preserves P (io_when b m)"
  by (simp add: io_when_def preserves_intros)

lemma preserves_io_ok_or [preserves_intros]: "preserves P (io_ok_or m e)"
  by (simp add: io_ok_or_def preserves_intros split: option.split)

lemma preserves_list [preserves_intros]:
  "preserves P a \<Longrightarrow> (\<And>x xs. preserves P (f x xs)) \<Longrightarrow>
     preserves P (case l of [] \<Rightarrow> a | x # xs \<Rightarrow> f x xs)"
  by (cases l) auto

lemma keys_environment [preserves_intros]:
  "preserves world_keys draw" "preserves world_keys elapsed" "preserves world_keys met_deadline"
  "preserves world_keys (completion_order n)" "preserves world_keys current_time"
  "preserves world_keys (on_metrics f)" "preserves world_keys (on_timing g)"
  "preserves world_keys cache_stats" "preserves world_keys (id_or_new X given gen p)"
  "preserves world_keys (generate_promise_id X)"
  unfolding cache_stats_def id_or_new_def generate_promise_id_def hex_nonce_def
  by (intro quiet_keys frame_intros)+

lemma keys_ask [preserves_intros]: "preserves world_keys (BuyerRouter_route X S b)"
  by (intro quiet_keys frame_intros)

lemma keys_updates [preserves_intros]:
  "preserves world_keys (update_lead_status X r status e)"
  "preserves world_keys (update_lead_with_winner r campaign promise ping bid)"
  "preserves world_keys (update_lead_with_post r post_id)"
  unfolding update_lead_status_def update_lead_with_winner_def update_lead_with_post_def Let_def
  by (intro preserves_intros; simp)+

lemma keys_insert_rows [preserves_intros]: "preserves keys_inv (insert_response_rows rows)"
  unfolding insert_response_rows_def
  by (intro keys_stmt) (auto simp: keys_inv_def list_ex_iff in_set_enumerate_eq)

lemma keys_retry [preserves_intros]: "preserves P m \<Longrightarrow> preserves P (retry_spawn n m)"
  by (induction n) (auto intro!: preserves_intros)

lemma keys_store [preserves_intros]: "preserves world_keys (store_ping_responses r rows)"
  unfolding store_ping_responses_def router_batch_insert_buyer_responses_def
  by (intro preserves_intros)

lemma keys_settle [preserves_intros]:
  "preserves world_keys (settle_ping_auction X r cs responses timings)"
  "preserves world_keys (settle_post X r campaign res)"
  "preserves world_keys (refuse X r log_text err)"
  unfolding settle_ping_auction_def settle_post_def refuse_def Let_def by (intro preserves_intros)+

lemma keys_settle_fullpost [preserves_intros]: "preserves world_keys (settle_fullpost X r cs responses)"
  unfolding settle_fullpost_def sell_fullpost_def Let_def by (intro preserves_intros; simp)

lemma keys_ask_buyer [preserves_intros]:
  "preserves world_keys (ask_buyer X S key r integrations configs campaign)"
  unfolding ask_buyer_def Let_def
  by (intro preserves_intros) (auto split: deadline.split intro!: preserves_intros)

lemma keys_auction [preserves_intros]:
  "preserves world_keys (route_ping_auction X S key r cs priorities integrations configs)"
  unfolding route_ping_auction_def ask_buyers_def collect_responses_def ping_response_row_def
    outcome_response_def Let_def
  by (intro preserves_intros) (auto split: task_outcome.split intro!: preserves_intros)

lemma keys_post [preserves_intros]: "preserves world_keys (route_post X S key r cs)"
  unfolding route_post_def by (intro preserves_intros)

lemma keys_fullpost [preserves_intros]:
  "preserves world_keys (route_fullpost X S key r cs tree priorities integrations configs)"
  unfolding route_fullpost_def route_fullpost_as_ping_post_def route_fullpost_to_all_def ask_buyers_def Let_def
  by (intro preserves_intros)

lemma loads_quiet [frame_intros]:
  "frame quiet (load_tree X S r)" "frame quiet (load_tree_campaigns X S r tree)"
  "frame quiet (load_buyer_ids X S r ids)" "frame quiet (load_associations X S r ids)"
  "frame quiet (load_configs X S r ids)"
  unfolding load_tree_def load_tree_campaigns_def load_buyer_ids_def load_associations_def load_configs_def
    cache_stats_def count_cache_def campaign_buyer_def distinct_buyers_def ok_or_default_def Let_def
    PingTree_find_for_routing_def PingTreeCampaign_find_enabled_def
    Campaign_find_by_ids_with_associations_def QualificationConfig_find_by_buyer_ids_def
  by (intro frame_intros)+

lemma keys_loads [preserves_intros]:
  "preserves world_keys (load_tree X S r)" "preserves world_keys (load_tree_campaigns X S r tree)"
  "preserves world_keys (load_buyer_ids X S r ids)" "preserves world_keys (load_associations X S r ids)"
  "preserves world_keys (load_configs X S r ids)"
  by (intro quiet_keys frame_intros)+

lemma keys_dispatch [preserves_intros]:
  "preserves world_keys (dispatch X S key r tree cs priorities integrations configs)"
  unfolding dispatch_def by (intro preserves_if keys_auction keys_post keys_fullpost keys_settle)

lemma keys_route_tree [preserves_intros]: "preserves world_keys (route_tree X S key r tree ptcs)"
  unfolding route_tree_def Let_def by (intro preserves_bind preserves_if preserves_basic keys_loads
      keys_environment keys_dispatch keys_settle)

lemma keys_route: "preserves world_keys (route_shared X S key r)"
  unfolding route_shared_def by (intro preserves_bind preserves_if preserves_option preserves_prod
      keys_loads keys_settle keys_route_tree)



section \<open>Total computations\<close>

text \<open>\<open>answers m P\<close>: \<open>m\<close> never fails, its value satisfies \<open>P\<close>, and it leaves the queue and the
  tables alone.\<close>

definition answers :: "(world, 'a) io \<Rightarrow> ('a \<Rightarrow> bool) \<Rightarrow> bool" where
  "answers m P \<longleftrightarrow> (\<forall>w. \<exists>x w'. m w = (Inr x, w') \<and> P x \<and> quiet w' = quiet w)"

named_theorems answers_intros \<open>Introduction rules for \<open>answers\<close>\<close>

lemma answers_run:
  assumes "answers m P"
  obtains x w' where "m w = (Inr x, w')" and "P x" and "quiet w' = quiet w"
  using assms unfolding answers_def by blast

lemma answers_return [answers_intros]: "P x \<Longrightarrow> answers (io_return x) P"
  by (simp add: answers_def io_return_def)

lemma answers_bind:
  assumes "answers m P" and "\<And>x. P x \<Longrightarrow> answers (f x) Q"
  shows "answers (io_bind m f) Q"
  unfolding answers_def
proof
  fix w
  obtain x w1 where 1: "m w = (Inr x, w1)" "P x" "quiet w1 = quiet w"
    using assms(1) by (rule answers_run)
  obtain y w2 where "f x w1 = (Inr y, w2)" "Q y" "quiet w2 = quiet w1"
    using assms(2) [OF 1(2)] by (rule answers_run)
  then show "\<exists>y w'. io_bind m f w = (Inr y, w') \<and> Q y \<and> quiet w' = quiet w"
    using 1 by (simp add: io_bind_run)
qed

lemma answers_try [answers_intros]:
  assumes "frame quiet m"
  shows "answers (io_try m) (\<lambda>_. True)"
  unfolding answers_def
proof
  fix w
  obtain x w' where "m w = (x, w')" by force
  then show "\<exists>y w'. io_try m w = (Inr y, w') \<and> True \<and> quiet w' = quiet w"
    using frameD [OF assms] by (auto simp: io_try_run)
qed

lemma answers_mono: "answers m P \<Longrightarrow> (\<And>x. P x \<Longrightarrow> Q x) \<Longrightarrow> answers m Q"
  unfolding answers_def by blast

lemma answers_environment [answers_intros]:
  "answers draw (\<lambda>_. True)" "answers draw_uuid (\<lambda>_. True)" "answers elapsed (\<lambda>_. True)"
  "answers met_deadline (\<lambda>_. True)" "answers (on_metrics f) (\<lambda>_. True)" "answers (on_timing g) (\<lambda>_. True)"
  by (simp_all add: answers_def draw_uuid_def draw_def elapsed_def met_deadline_def on_metrics_def
      on_timing_def io_modify_def quiet_def)

lemma answers_order:
  "answers (completion_order n) (\<lambda>order. distinct order \<and> set order = {0..<n})"
  by (auto simp: answers_def completion_order_def Let_def quiet_def)

lemma answers_mapM:
  assumes "\<And>x. x \<in> set xs \<Longrightarrow> answers (f x) (R x)"
  shows "answers (io_mapM f xs) (list_all2 R xs)"
  using assms
proof (induction xs)
  case Nil
  show ?case by (simp add: answers_intros)
next
  case (Cons x xs)
  have "answers (f x) (R x)" "answers (io_mapM f xs) (list_all2 R xs)"
    using Cons by simp_all
  then show ?case unfolding io_mapM.simps
    by (elim answers_bind) (rule answers_return, simp)
qed

section \<open>The ping auction\<close>

abbreviation entry_campaign :: "'a \<times> uuid \<times> 'b \<Rightarrow> uuid" where
  "entry_campaign e \<equiv> fst (snd e)"

text \<open>\<open>asked Q cs es\<close>: the entries are those of the campaigns, in some order, each made from an
  outcome that satisfies \<open>Q\<close>.\<close>

definition outcome_of :: "(Campaign \<Rightarrow> task_outcome \<Rightarrow> bool) \<Rightarrow> Campaign \<Rightarrow> task_outcome \<times> uuid \<times> u64 \<Rightarrow> bool" where
  "outcome_of Q c e \<longleftrightarrow> entry_campaign e = c_id c \<and> Q c (fst e)"

definition entry_of :: "(Campaign \<Rightarrow> task_outcome \<Rightarrow> bool) \<Rightarrow> Campaign \<Rightarrow> auction_entry \<Rightarrow> bool" where
  "entry_of Q c e \<longleftrightarrow> entry_campaign e = c_id c \<and>
     (\<exists>oc. Q c oc \<and> (\<forall>resp. oc = Answered resp \<longrightarrow> fst e = resp))"

definition asked :: "(Campaign \<Rightarrow> 'e \<Rightarrow> bool) \<Rightarrow> Campaign list \<Rightarrow> 'e list \<Rightarrow> bool" where
  "asked R cs es \<longleftrightarrow> (\<exists>cs'. mset cs' = mset cs \<and> list_all2 R cs' es)"

lemma asked_campaigns: "asked (entry_of Q) cs es \<Longrightarrow> mset (map entry_campaign es) = mset (map c_id cs)"
proof -
  assume "asked (entry_of Q) cs es"
  then obtain cs' where cs': "mset cs' = mset cs" "list_all2 (entry_of Q) cs' es" unfolding asked_def by blast
  from cs'(2) have "map entry_campaign es = map c_id cs'" by induction (simp_all add: entry_of_def)
  with cs'(1) show ?thesis by (metis mset_map)
qed

lemma asked_entry: "asked R cs es \<Longrightarrow> e \<in> set es \<Longrightarrow> \<exists>c \<in> set cs. R c e"
  unfolding asked_def by (metis in_set_conv_nth list_all2_conv_all_nth mset_eq_setD nth_mem)

lemma asked_campaign: "asked R cs es \<Longrightarrow> c \<in> set cs \<Longrightarrow> \<exists>e \<in> set es. R c e"
  unfolding asked_def by (metis in_set_conv_nth list_all2_conv_all_nth mset_eq_setD nth_mem)

lemma answers_ask_buyer:
  "answers (ask_buyer X S key r integrations configs c) (outcome_of (\<lambda>_ _. True) c)"
proof -
  have route: "answers (io_bind (io_try (BuyerRouter_route X S b)) (\<lambda>res. io_return (g res))) (\<lambda>_. True)"
    for b and g :: "BuyerResponse result \<Rightarrow> task_outcome"
    by (rule answers_bind) (rule answers_intros frame_intros | simp)+
  have "answers (io_bind met_deadline (\<lambda>d. case d of Met \<Rightarrow> m | CutBefore \<Rightarrow> io_return TimedOut
      | CutAfter \<Rightarrow> io_bind m (\<lambda>_. io_return TimedOut))) (\<lambda>_. True)"
    if "answers m (\<lambda>_. True)" for m :: "(world, task_outcome) io"
    by (rule answers_bind, rule answers_environment)
      (auto split: deadline.split intro!: that answers_return answers_bind [OF that])
  note cut = this [OF route]
  have "answers (io_bind elapsed (\<lambda>d. io_return (x, c_id c, d))) (outcome_of (\<lambda>_ _. True) c)"
    for x :: task_outcome
    by (rule answers_bind, rule answers_environment, rule answers_return) (simp add: outcome_of_def)
  then show ?thesis
    unfolding ask_buyer_def Let_def
    by (rule answers_bind [where P = "\<lambda>_. True", rotated]) (simp only: split: if_split, auto intro: route cut)
qed

lemma answers_ask_buyers:
  assumes "\<And>c. c \<in> set cs \<Longrightarrow> answers (ask c) (R c)"
  shows "answers (ask_buyers ask cs) (asked R cs)"
  unfolding ask_buyers_def
proof (rule answers_bind [OF answers_order])
  fix order
  assume o: "distinct order \<and> set order = {0..<length cs}"
  then have "mset order = mset [0..<length cs]"
    by (metis atLeastLessThan_upt distinct_upt set_eq_iff_mset_eq_distinct)
  then have "mset (map ((!) cs) order) = mset (map ((!) cs) [0..<length cs])" by simp
  then have m: "mset (map ((!) cs) order) = mset cs" by (simp only: map_nth)
  have "asked R cs es" if "list_all2 (\<lambda>i. R (cs ! i)) order es" for es
    unfolding asked_def using m that
    by (intro exI [of _ "map ((!) cs) order"]) (simp add: list_all2_map1)
  moreover have "answers (io_mapM (\<lambda>i. ask (cs ! i)) order) (list_all2 (\<lambda>i. R (cs ! i)) order)"
    by (rule answers_mapM) (use o assms in simp)
  ultimately show "answers (io_mapM (\<lambda>i. ask (cs ! i)) order) (asked R cs)"
    by (rule answers_mono [rotated])
qed

lemma answers_id: "answers (id_or_new X given g p) (\<lambda>_. True)"
  unfolding id_or_new_def
  by (auto split: option.split intro!: answers_intros answers_bind [OF answers_environment(2)])

lemma answers_outcome:
  "answers (outcome_response X r oc) (\<lambda>resp. \<forall>given. oc = Answered given \<longrightarrow> resp = given)"
  unfolding outcome_response_def Let_def
  by (cases oc) (auto intro!: answers_return answers_bind [OF answers_id])

lemma answers_collect:
  assumes "asked (outcome_of Q) cs results"
  shows "answers (collect_responses X r priorities results) (asked (entry_of Q) cs)"
proof -
  let ?R = "\<lambda>e e'. \<forall>c. outcome_of Q c e \<longrightarrow> entry_of Q c e'"
  have "answers ((\<lambda>(oc, i, _ :: u64). io_bind (outcome_response X r oc)
      (\<lambda>resp. io_return (resp, i, priority_in priorities i))) e) (?R e)" for e
    by (cases e) (auto simp: outcome_of_def entry_of_def intro!: answers_bind [OF answers_outcome] answers_return)
  then have "answers (collect_responses X r priorities results) (list_all2 ?R results)"
    unfolding collect_responses_def by (rule answers_mapM)
  moreover obtain cs' where "mset cs' = mset cs" "list_all2 (outcome_of Q) cs' results"
    using assms unfolding asked_def by blast
  then have "asked (entry_of Q) cs es" if "list_all2 ?R results es" for es
    unfolding asked_def using that by (intro exI [of _ cs']) (auto simp: list_all2_conv_all_nth)
  ultimately show ?thesis by (rule answers_mono)
qed

definition row_of :: "PingTreeRouter \<Rightarrow> auction_entry \<Rightarrow> BuyerResponseTuple \<Rightarrow> bool" where
  "row_of r e row \<longleftrightarrow> brt_lead_id row = l_uuid (pr_lead r) \<and> brt_campaign_id row = entry_campaign e
     \<and> brt_payload row = response_json (fst e)"

lemma answers_rows: "answers (io_mapM (ping_response_row X r cs) es) (list_all2 (row_of r) es)"
proof (rule answers_mapM)
  fix e :: auction_entry
  show "answers (ping_response_row X r cs e) (row_of r e)"
    by (cases e) (auto simp: ping_response_row_def row_of_def intro!: answers_return answers_bind [OF answers_id])
qed

text \<open>The winner of a list of answers: a valid one whose bid is within the tolerance of every other
  valid bid.\<close>

definition best_valid :: "auction_entry list \<Rightarrow> auction_entry \<Rightarrow> bool" where
  "best_valid es e \<longleftrightarrow> e \<in> set es \<and> valid_ping_response e \<and>
     (\<exists>x. bid_of e = Fin x \<and>
       (\<forall>e' \<in> set es. valid_ping_response e' \<longrightarrow> (\<exists>y. bid_of e' = Fin y \<and> y < x + eps)))"

lemma valid_ping_bid: "valid_ping_response e \<Longrightarrow> valid_bid e"
  by (simp add: valid_ping_response_def valid_bid_def)

lemma filter_valid_bid [simp]: "filter (\<lambda>e. valid_ping_response e \<and> valid_bid e) es = filter valid_ping_response es"
  using valid_ping_bid by (metis (no_types))

lemma select_winner_best:
  assumes "select_winner rand (filter valid_ping_response es) = Some e"
    and "filter valid_ping_response es \<noteq> []"
  shows "best_valid es e"
proof -
  let ?es = "filter valid_ping_response es"
  have c: "e \<in> set (contenders ?es)" using select_winner_contender [OF assms(1)] assms(2) by simp
  then have e: "e \<in> set es" "valid_ping_response e" "near (highest ?es) e" by (auto simp: set_contenders)
  obtain x h where x: "bid_of e = Fin x" "highest ?es = Fin h"
    using near_Fin [OF valid_ping_bid [OF e(2)] e(3)] .
  have d: "\<bar>x - h\<bar> < eps" using near_exact e(3) x by blast
  have "\<exists>y. bid_of e' = Fin y \<and> y < x + eps" if e': "e' \<in> set es" "valid_ping_response e'" for e'
  proof -
    have "bid_of e' \<le> Fin h" using highest_is_max [of e' ?es] e' valid_ping_bid x(2) by simp
    moreover have "f64_lt (Fin 0) (bid_of e')" using valid_ping_bid [OF e'(2)] by (simp add: valid_bid_def)
    ultimately obtain y where "bid_of e' = Fin y" "y \<le> h"
      by (cases "bid_of e'") (auto simp: less_eq_f64_def)
    then show ?thesis using d by auto
  qed
  with e x(1) show ?thesis unfolding best_valid_def by blast
qed

lemma select_winner_some:
  assumes "rs \<noteq> []" and "\<And>e. e \<in> set rs \<Longrightarrow> valid_ping_response e \<and> r_bid (fst e) \<noteq> Some PosInf"
  shows "\<exists>e. select_winner rand rs = Some e"
proof -
  have v: "filter valid_bid rs = rs" using assms(2) valid_ping_bid by (simp add: filter_id_conv)
  then have "contenders rs \<noteq> []" using contenders_nonempty assms by simp
  then have "select_winner rand rs \<noteq> None" by (simp add: select_winner_alt v assms(1) del: not_None_eq)
  then show ?thesis by blast
qed

lemma find_campaign_Some:
  assumes "i \<in> c_id ` set cs"
  obtains c where "find_campaign cs i = Some c" and "c \<in> set cs" and "c_id c = i"
proof (cases "find_campaign cs i")
  case None
  then show ?thesis using assms by (auto simp: find_campaign_def find_None_iff)
next
  case (Some c)
  then have "c \<in> set cs \<and> c_id c = i" by (auto simp: find_campaign_def find_Some_iff)
  with Some show ?thesis using that by blast
qed

definition named_winner :: "BuyerResponse \<Rightarrow> Campaign \<Rightarrow> RoutingResult \<Rightarrow> bool" where
  "named_winner resp c res \<longleftrightarrow> rr_success res \<and> rr_campaign_id res = Some (c_id c)
     \<and> rr_buyer_id res = Some (c_buyer_id c) \<and> rr_promise_id res = r_promise_id resp
     \<and> rr_promise_id res \<noteq> None \<and> rr_price res = opt_or (r_price resp) (r_bid resp)"

lemma settle_ping_auction_sold:
  assumes "pr_queue r" and cs: "entry_campaign ` set es \<subseteq> c_id ` set cs"
    and ne: "filter valid_ping_response es \<noteq> []"
    and fin: "\<forall>e \<in> set es. valid_ping_response e \<longrightarrow> r_bid (fst e) \<noteq> Some PosInf"
  shows "\<exists>e c res w'. settle_ping_auction X r cs es timings w = (Inr res, w') \<and> best_valid es e
     \<and> c \<in> set cs \<and> c_id c = entry_campaign e \<and> named_winner (fst e) c res
     \<and> w_queue w' = enqueue (LeadUpdate (winner_update r c (fst e) (opt_or (r_price (fst e)) (r_bid (fst e)))))
         (w_queue w)"
proof -
  let ?rand = "ucast (pop 0 (w_random w)) :: u64"
  have "\<exists>e. select_winner ?rand (filter valid_ping_response es) = Some e"
    by (rule select_winner_some [OF ne]) (use fin in simp)
  then obtain e where e: "select_winner ?rand (filter valid_ping_response es) = Some e" by blast
  then have best: "best_valid es e" using ne by (rule select_winner_best)
  then have v: "e \<in> set es" "r_success (fst e)" "r_promise_id (fst e) \<noteq> None"
    by (auto simp: best_valid_def valid_ping_response_def is_some_iff)
  obtain c where c: "find_campaign cs (entry_campaign e) = Some c" "c \<in> set cs" "c_id c = entry_campaign e"
    using find_campaign_Some cs v(1) by blast
  show ?thesis
    using assms(1) ne e c(1) best v
    apply (intro exI [of _ e] exI [of _ c])
    apply (cases e)
    apply (simp add: c settle_ping_auction_def Let_def draw_def io_bind_def io_ok_or_def io_return_def
        enqueue_task_def io_modify_def named_winner_def )
    done
qed

lemma settle_ping_auction_panic:
  assumes "e \<in> set es" and "valid_ping_response e" and "r_bid (fst e) = Some PosInf"
  shows "\<exists>w'. settle_ping_auction X r cs es timings w = (Inl PANIC, w') \<and> w_queue w' = w_queue w"
proof -
  let ?v = "filter valid_ping_response es"
  have "contenders ?v = []" "filter valid_bid ?v \<noteq> []"
    using contenders_PosInf [of e ?v] assms by auto
  then have "select_winner rand ?v = None" for rand
    by (simp add: select_winner_alt)
  then show ?thesis using assms
    by (auto simp: settle_ping_auction_def Let_def draw_def io_bind_def io_err_def filter_empty_conv)
qed

lemma settle_ping_auction_refused:
  assumes "filter valid_ping_response es = []" and "settle_ping_auction X r cs es timings w = (res, w')"
  shows "wq_channel (w_queue w') = wq_channel (w_queue w)" and "\<forall>x. res = Inr x \<longrightarrow> \<not> rr_success x"
proof -
  have f: "frame (\<lambda>w. wq_channel (w_queue w)) (update_lead_status X r status e)" for status e
    unfolding update_lead_status_def Let_def
    by (intro frame_intros) (auto simp: frame_def current_time_def io_get_def on_db_def split: prod.split)
  then show "wq_channel (w_queue w') = wq_channel (w_queue w)"
    using assms unfolding settle_ping_auction_def Let_def
    by (auto simp: io_bind_def io_return_def split: prod.splits sum.splits dest!: frameD [OF f])
  show "\<forall>x. res = Inr x \<longrightarrow> \<not> rr_success x"
    using assms unfolding settle_ping_auction_def Let_def
    by (auto simp: io_bind_def io_return_def failed_routing_def split: prod.splits sum.splits)
qed

lemma enqueue_all:
  "\<not> wq_finished (w_queue w) \<Longrightarrow>
     \<exists>w'. io_iter (\<lambda>x. enqueue_task (f x)) xs w = (Inr (), w')
       \<and> w_queue w' = (w_queue w)\<lparr>wq_channel := wq_channel (w_queue w) @ map f xs\<rparr>"
proof (induction xs arbitrary: w)
  case Nil
  show ?case by (simp add: io_return_def)
next
  case (Cons x xs)
  let ?w = "w\<lparr>w_queue := enqueue (f x) (w_queue w)\<rparr>"
  have "enqueue_task (f x) w = (Inr (), ?w)" by (simp add: enqueue_task_def io_modify_def)
  moreover have "w_queue ?w = (w_queue w)\<lparr>wq_channel := wq_channel (w_queue w) @ [f x]\<rparr>"
    using Cons.prems by (simp add: enqueue_def)
  ultimately show ?case using Cons.IH [of ?w] Cons.prems by (simp add: io_bind_run)
qed

lemma quiet_channel: "quiet w' = quiet w \<Longrightarrow>
    wq_channel (w_queue w') = wq_channel (w_queue w) \<and> wq_finished (w_queue w') = wq_finished (w_queue w)"
  unfolding quiet_def by (metis WriteBehindQueue.select_convs WriteBehindQueue.surjective WriteBehindQueue.update_convs(7))

text \<open>The part of an auction before it is settled: one answer per campaign, and one row per answer in
  the queue.\<close>

lemma auction_answers:
  assumes "pr_queue r" and "\<not> wq_finished (w_queue w)"
    and ask: "\<And>c. c \<in> set cs \<Longrightarrow> answers (ask_buyer X S key r integrations configs c) (outcome_of Q c)"
  obtains es rows timings w1 where
    "route_ping_auction X S key r cs priorities integrations configs w = settle_ping_auction X r cs es timings w1"
    and "asked (entry_of Q) cs es" and "list_all2 (row_of r) es rows"
    and "wq_channel (w_queue w1) = wq_channel (w_queue w) @ map BuyerResponseTask rows"
    and "\<not> wq_finished (w_queue w1)"
proof -
  obtain results v1 where 1: "ask_buyers (ask_buyer X S key r integrations configs) cs w = (Inr results, v1)"
    "asked (outcome_of Q) cs results" "quiet v1 = quiet w"
    using answers_ask_buyers [OF ask] by (rule answers_run)
  obtain d v2 where 2: "elapsed v1 = (Inr d, v2)" "quiet v2 = quiet v1"
    by (rule answers_run [OF answers_environment(3)])
  obtain u3 v3 where 3: "on_metrics (record_ping_auction d) v2 = (Inr u3, v3)" "quiet v3 = quiet v2"
    by (rule answers_run [OF answers_environment(5)])
  obtain u4 v4 where 4: "on_metrics (record_stage_timing ''ping_auction'' d) v3 = (Inr u4, v4)" "quiet v4 = quiet v3"
    by (rule answers_run [OF answers_environment(5)])
  obtain es v5 where 5: "collect_responses X r priorities results v4 = (Inr es, v5)"
    "asked (entry_of Q) cs es" "quiet v5 = quiet v4"
    using answers_collect [OF 1(2)] by (rule answers_run)
  obtain rows v6 where 6: "io_mapM (ping_response_row X r cs) es v5 = (Inr rows, v6)"
    "list_all2 (row_of r) es rows" "quiet v6 = quiet v5"
    using answers_rows by (rule answers_run)
  have "quiet v6 = quiet w" using 1 2 3 4 5 6 by simp
  note q = quiet_channel [OF this]
  obtain v7 where 7: "(if rows \<noteq> [] then store_ping_responses r rows else io_return ()) v6 = (Inr (), v7)"
    "w_queue v7 = (w_queue v6)\<lparr>wq_channel := wq_channel (w_queue v6) @ map BuyerResponseTask rows\<rparr>"
    using enqueue_all [of v6 BuyerResponseTask rows] assms q
    by (cases "rows = []") (auto simp: store_ping_responses_def io_return_def)
  obtain u8 v8 where 8: "on_timing (timing_record_ping_auction d) v7 = (Inr u8, v8)" "quiet v8 = quiet v7"
    by (rule answers_run [OF answers_environment(6)])
  show thesis
  proof (rule that)
    show "route_ping_auction X S key r cs priorities integrations configs w
        = settle_ping_auction X r cs es (List.map_filter (buyer_timing X cs) results) v8"
      using 1 2 3 4 5 6 7 8 unfolding route_ping_auction_def by (simp only: io_bind_run)
    show "asked (entry_of Q) cs es" by (rule 5)
    show "list_all2 (row_of r) es rows" by (rule 6)
    show "wq_channel (w_queue v8) = wq_channel (w_queue w) @ map BuyerResponseTask rows"
      "\<not> wq_finished (w_queue v8)"
      using quiet_channel [OF 8(2)] 7(2) q assms(2) by simp_all
  qed
qed

text \<open>What settling does with the answers: nothing valid, a panic, or a winner.\<close>

definition verdict ::
  "PingTreeRouter \<Rightarrow> Campaign list \<Rightarrow> auction_entry list \<Rightarrow> RoutingResult result \<Rightarrow> BackgroundTask list \<Rightarrow> bool" where
  "verdict r cs es res updates \<longleftrightarrow>
     (if \<forall>e \<in> set es. \<not> valid_ping_response e
      then updates = [] \<and> (\<forall>x. res = Inr x \<longrightarrow> \<not> rr_success x)
      else if \<exists>e \<in> set es. valid_ping_response e \<and> r_bid (fst e) = Some PosInf
      then updates = [] \<and> res = Inl PANIC
      else \<exists>e c x. res = Inr x \<and> best_valid es e \<and> c \<in> set cs \<and> c_id c = entry_campaign e
        \<and> named_winner (fst e) c x
        \<and> updates = [LeadUpdate (winner_update r c (fst e) (opt_or (r_price (fst e)) (r_bid (fst e))))])"

lemma settle_ping_auction_verdict:
  assumes "pr_queue r" and running: "\<not> wq_finished (w_queue w)"
    and sub: "entry_campaign ` set es \<subseteq> c_id ` set cs"
    and s: "settle_ping_auction X r cs es timings w = (res, w')"
  shows "\<exists>updates. wq_channel (w_queue w') = wq_channel (w_queue w) @ updates \<and> verdict r cs es res updates"
proof -
  consider "filter valid_ping_response es = []"
    | e where "e \<in> set es" "valid_ping_response e" "r_bid (fst e) = Some PosInf"
    | "filter valid_ping_response es \<noteq> []" "\<forall>e \<in> set es. valid_ping_response e \<longrightarrow> r_bid (fst e) \<noteq> Some PosInf"
    by blast
  then show ?thesis
  proof cases
    case 1
    from settle_ping_auction_refused [OF this s] 1 show ?thesis
      by (intro exI [of _ "[]"]) (simp add: verdict_def filter_empty_conv)
  next
    case 2
    from settle_ping_auction_panic [OF this, of X r cs timings w] s 2 show ?thesis
      by (intro exI [of _ "[]"]) (auto simp: verdict_def)
  next
    case 3
    from settle_ping_auction_sold [OF assms(1) sub this, of X timings w] s running
    obtain e c x where "res = Inr x" "best_valid es e" "c \<in> set cs" "c_id c = entry_campaign e"
      "named_winner (fst e) c x" "wq_channel (w_queue w') = wq_channel (w_queue w) @
        [LeadUpdate (winner_update r c (fst e) (opt_or (r_price (fst e)) (r_bid (fst e))))]"
      by (fastforce simp: enqueue_def)
    moreover have "\<not> (\<forall>e \<in> set es. \<not> valid_ping_response e)"
      "\<not> (\<exists>e \<in> set es. valid_ping_response e \<and> r_bid (fst e) = Some PosInf)"
      using 3 by (auto simp: filter_empty_conv)
    ultimately show ?thesis unfolding verdict_def by (simp only: if_False) blast
  qed
qed

lemma ping_auction_verdict:
  assumes "pr_queue r" and "\<not> wq_finished (w_queue w)"
    and ask: "\<And>c. c \<in> set cs \<Longrightarrow> answers (ask_buyer X S key r integrations configs c) (outcome_of Q c)"
  shows "\<exists>es rows updates res w'.
     route_ping_auction X S key r cs priorities integrations configs w = (res, w')
     \<and> asked (entry_of Q) cs es \<and> list_all2 (row_of r) es rows
     \<and> wq_channel (w_queue w') = wq_channel (w_queue w) @ map BuyerResponseTask rows @ updates
     \<and> verdict r cs es res updates"
proof -
  obtain es rows timings w1 where run:
    "route_ping_auction X S key r cs priorities integrations configs w = settle_ping_auction X r cs es timings w1"
    and es: "asked (entry_of Q) cs es" and rows: "list_all2 (row_of r) es rows"
    and channel: "wq_channel (w_queue w1) = wq_channel (w_queue w) @ map BuyerResponseTask rows"
    and running: "\<not> wq_finished (w_queue w1)"
    using auction_answers [OF assms] .
  obtain res w' where s: "settle_ping_auction X r cs es timings w1 = (res, w')" by force
  have "entry_campaign ` set es \<subseteq> c_id ` set cs"
    using mset_eq_setD [OF asked_campaigns [OF es]] by simp
  from settle_ping_auction_verdict [OF assms(1) running this s] show ?thesis
    unfolding run s using es rows channel by auto
qed

text \<open>C2: a ping auction that runs on the write-behind queue collects exactly one answer per campaign
  (failed and timed-out calls included) and enqueues exactly one buyer response for each. If no
  answer is valid the routing is not a success and no update of the lead is enqueued. If a valid
  answer bids infinity the auction panics. Otherwise it succeeds: the winner is a valid
  answer whose bid is less than the price tolerance below any other, its campaign and buyer, its
  promise and its price are the ones returned, and the one update enqueued marks the lead as
  accepted by that campaign.\<close>

theorem ping_auction_outcome:
  assumes "pr_queue r" and "\<not> wq_finished (w_queue w)"
  shows "\<exists>es rows updates res w'.
     route_ping_auction X S key r cs priorities integrations configs w = (res, w')
     \<and> mset (map entry_campaign es) = mset (map c_id cs) \<and> list_all2 (row_of r) es rows
     \<and> wq_channel (w_queue w') = wq_channel (w_queue w) @ map BuyerResponseTask rows @ updates
     \<and> (if \<forall>e \<in> set es. \<not> valid_ping_response e
        then updates = [] \<and> (\<forall>x. res = Inr x \<longrightarrow> \<not> rr_success x)
        else if \<exists>e \<in> set es. valid_ping_response e \<and> r_bid (fst e) = Some PosInf
        then updates = [] \<and> res = Inl PANIC
        else \<exists>e c x. res = Inr x \<and> best_valid es e \<and> c \<in> set cs \<and> c_id c = entry_campaign e
          \<and> named_winner (fst e) c x
          \<and> updates = [LeadUpdate (winner_update r c (fst e) (opt_or (r_price (fst e)) (r_bid (fst e))))])"
proof -
  obtain es rows updates res w' where
    "route_ping_auction X S key r cs priorities integrations configs w = (res, w')"
    "asked (entry_of (\<lambda>_ _. True)) cs es" "list_all2 (row_of r) es rows"
    "wq_channel (w_queue w') = wq_channel (w_queue w) @ map BuyerResponseTask rows @ updates"
    "verdict r cs es res updates"
    using ping_auction_verdict [where X = X and S = S and key = key and cs = cs and priorities = priorities
        and integrations = integrations and configs = configs, OF assms answers_ask_buyer] by (elim exE conjE)
  then show ?thesis
    by (intro exI [of _ es] exI [of _ rows] exI [of _ updates] exI [of _ res] exI [of _ w'])
      (simp only: asked_campaigns verdict_def simp_thms)
qed

section \<open>Auctions among internal buyers\<close>

lemma answers_try_value:
  assumes "answers m P"
  shows "answers (io_try m) (\<lambda>res. \<exists>x. res = Inr x \<and> P x)"
  using assms unfolding answers_def by (metis io_try_run)

lemma answers_timed:
  assumes "answers m P"
  shows "answers (timed_call b f m) P"
  unfolding timed_call_def io_when_def
  by (rule answers_bind [OF answers_try_value [OF assms]], rule answers_bind [OF answers_environment(3)],
      rule answers_bind [where P = "\<lambda>_. True"], force intro: answers_intros,
      rule answers_bind [where P = "\<lambda>_. True"], force intro: answers_intros, force intro: answers_intros)

text \<open>What an internal buyer answers to a ping.\<close>

definition pulsar_answer :: "Lead \<Rightarrow> BuyerQualificationConfig option \<Rightarrow> BuyerResponse \<Rightarrow> bool" where
  "pulsar_answer lead config resp \<longleftrightarrow>
     (if qualifies lead ''ping'' config
      then r_success resp \<and> r_status resp = ''accepted'' \<and> r_promise_id resp \<noteq> None \<and> r_price resp = None
        \<and> (\<exists>k. r_bid resp = Some (Fin (of_int k)) \<and> 100 \<le> k \<and> k < 300)
      else \<not> r_success resp)"

lemma pulsar_answers:
  "\<exists>x w'. route_ping_direct_sync X lead config w = (Inr x, w') \<and> pulsar_answer lead config x \<and> quiet w' = quiet w"
proof (cases "qualifies lead ''ping'' config")
  case False
  obtain i r where "generate_rejected_ping_id X (pulsar_lead_id X lead) w = (Inr i, w\<lparr>w_random := r\<rparr>)"
    by (rule draws_only_run [of "generate_rejected_ping_id X (pulsar_lead_id X lead)"]) simp
  then show ?thesis using False
    by (simp add: route_ping_direct_sync_def io_bind_run io_return_def pulsar_answer_def pulsar_rejection_def quiet_def)
next
  case True
  obtain i r1 where i: "generate_ping_id X (pulsar_lead_id X lead) w = (Inr i, w\<lparr>w_random := r1\<rparr>)"
    by (rule draws_only_run [of "generate_ping_id X (pulsar_lead_id X lead)"]) simp
  obtain p r2 where p: "generate_promise_id X (w\<lparr>w_random := r1\<rparr>) = (Inr p, w\<lparr>w_random := r2\<rparr>)"
    by (rule draws_only_run [of "generate_promise_id X" "w\<lparr>w_random := r1\<rparr>"]) simp_all
  obtain k r3 where "random_bid (w\<lparr>w_random := r2\<rparr>) = (Inr (Fin (of_int k)), w\<lparr>w_random := r3\<rparr>)"
    and "100 \<le> k" "k < 300"
    by (rule random_bid_run [of "w\<lparr>w_random := r2\<rparr>"]) simp
  with True i p show ?thesis
    by (simp add: route_ping_direct_sync_def io_bind_run io_return_def pulsar_answer_def
        pulsar_ping_accepted_def quiet_def)
qed

lemma answers_pulsar: "answers (route_ping_direct_sync X lead config) (pulsar_answer lead config)"
  using pulsar_answers unfolding answers_def by blast

definition internal_buyer :: "(uuid \<rightharpoonup> BuyerIntegration option) \<Rightarrow> Campaign \<Rightarrow> bool" where
  "internal_buyer integrations c \<longleftrightarrow> (\<exists>i. integrations (c_buyer_id c) = Some (Some i)
     \<and> bi_is_internal i \<and> starts_with (bi_slug i) ''pulsar'')"

definition campaign_config :: "(uuid \<rightharpoonup> BuyerQualificationConfig option) \<Rightarrow> Campaign \<Rightarrow> BuyerQualificationConfig option" where
  "campaign_config configs c = flatten_option (configs (c_buyer_id c))"

definition pulsar_outcome ::
  "PingTreeRouter \<Rightarrow> (uuid \<rightharpoonup> BuyerQualificationConfig option) \<Rightarrow> Campaign \<Rightarrow> task_outcome \<Rightarrow> bool" where
  "pulsar_outcome r configs c oc \<longleftrightarrow>
     (\<exists>resp. oc = Answered resp \<and> pulsar_answer (pr_lead r) (campaign_config configs c) resp)"

lemma answers_ask_internal:
  assumes "internal_buyer integrations c" and "pr_request_type r = ''ping''"
  shows "answers (ask_buyer X S key r integrations configs c) (outcome_of (pulsar_outcome r configs) c)"
proof -
  obtain i where i: "integrations (c_buyer_id c) = Some (Some i)" "bi_is_internal i"
    "starts_with (bi_slug i) ''pulsar''" using assms(1) unfolding internal_buyer_def by blast
  define b where "b = with_cache (pr_cache r) (with_preloaded_qual_config (campaign_config configs c)
      (with_preloaded_integration (Some i) (BuyerRouter_new (pr_lead r) [c] (pr_request_type r) key)))"
  have b: "bu_campaigns b = [c]" "bu_request_type b = ''ping''" "bu_preloaded_integration b = Some i"
    "bu_lead b = pr_lead r" "bu_preloaded_qual_config b = campaign_config configs c"
    by (simp_all add: b_def assms(2) with_cache_def with_preloaded_qual_config_def
        with_preloaded_integration_def BuyerRouter_new_def)
  have "BuyerRouter_route X S b = timed_call b timing_record_ping_auction
      (route_ping_direct_sync X (pr_lead r) (campaign_config configs c))"
    by (simp add: BuyerRouter_route_def b buyer_route_ping_def get_buyer_integration_def i check_internal_def)
  then have route: "answers (BuyerRouter_route X S b) (pulsar_answer (pr_lead r) (campaign_config configs c))"
    using answers_timed [OF answers_pulsar] by metis
  have "answers (io_bind (io_try (BuyerRouter_route X S b)) (\<lambda>res. io_return (case res of
      Inr resp \<Rightarrow> Answered resp | Inl e \<Rightarrow> Failed e))) (pulsar_outcome r configs c)"
    by (rule answers_bind [OF answers_try_value [OF route]])
      (auto simp: pulsar_outcome_def intro!: answers_return)
  then have "answers (io_bind (io_bind (io_try (BuyerRouter_route X S b)) (\<lambda>res. io_return (case res of
      Inr resp \<Rightarrow> Answered resp | Inl e \<Rightarrow> Failed e)))
      (\<lambda>outcome. io_bind elapsed (\<lambda>d. io_return (outcome, c_id c, d)))) (outcome_of (pulsar_outcome r configs) c)"
    by (rule answers_bind) (rule answers_bind [OF answers_environment(3)],
        rule answers_return, simp add: outcome_of_def)
  then show ?thesis
    unfolding ask_buyer_def Let_def using i by (simp add: b_def campaign_config_def flatten_option_def)
qed

text \<open>C1: in an auction among internal buyers the qualification rules decide: it succeeds exactly when
  the lead qualifies, as a ping, under the configuration of the buyer of some campaign; the winner
  is such a campaign, its price a whole amount from 100 to 299, and the update enqueued accepts
  the lead at that price.\<close>

theorem internal_auction:
  assumes "pr_queue r" and "\<not> wq_finished (w_queue w)" and "pr_request_type r = ''ping''"
    and internal: "\<forall>c \<in> set cs. internal_buyer integrations c"
  shows "\<exists>res w'. route_ping_auction X S key r cs priorities integrations configs w = (res, w')
     \<and> (if \<exists>c \<in> set cs. qualifies (pr_lead r) ''ping'' (campaign_config configs c)
        then \<exists>c \<in> set cs. \<exists>x k u. res = Inr x \<and> rr_success x
          \<and> qualifies (pr_lead r) ''ping'' (campaign_config configs c)
          \<and> rr_campaign_id x = Some (c_id c) \<and> rr_promise_id x \<noteq> None
          \<and> rr_price x = Some (Fin (of_int k)) \<and> 100 \<le> k \<and> k < 300
          \<and> last (wq_channel (w_queue w')) = LeadUpdate u \<and> lu_lead_id u = l_uuid (pr_lead r)
          \<and> lu_status u = LS_PingAccepted \<and> lu_campaign_id u = Some (c_id c)
          \<and> lu_vertical_data u = winning_bid_json (rr_price x)
        else \<forall>x. res = Inr x \<longrightarrow> \<not> rr_success x)"
proof -
  let ?Q = "pulsar_outcome r configs" and ?ok = "\<lambda>c. qualifies (pr_lead r) ''ping'' (campaign_config configs c)"
  obtain es rows updates res w' where
    run: "route_ping_auction X S key r cs priorities integrations configs w = (res, w')"
    and es: "asked (entry_of ?Q) cs es"
    and channel: "wq_channel (w_queue w') = wq_channel (w_queue w) @ map BuyerResponseTask rows @ updates"
    and verdict: "verdict r cs es res updates"
    using ping_auction_verdict [where X = X and S = S and key = key and cs = cs and priorities = priorities
        and integrations = integrations and configs = configs, OF assms(1,2) answers_ask_internal [OF bspec [OF internal] assms(3)], simplified]
    by (elim exE conjE)
  have entry: "pulsar_answer (pr_lead r) (campaign_config configs c) (fst e)" if "entry_of ?Q c e" for c e
    using that by (auto simp: entry_of_def pulsar_outcome_def)
  have valid: "valid_ping_response e \<longleftrightarrow> ?ok c" if "entry_of ?Q c e" for c e
    using entry [OF that] by (auto simp: pulsar_answer_def valid_ping_response_def is_some_iff split: if_splits)
  show ?thesis
  proof (cases "\<exists>c \<in> set cs. ?ok c")
    case True
    then have "\<not> (\<forall>e \<in> set es. \<not> valid_ping_response e)"
      using asked_campaign [OF es] valid by metis
    moreover have "\<not> (\<exists>e \<in> set es. valid_ping_response e \<and> r_bid (fst e) = Some PosInf)"
    proof
      assume "\<exists>e \<in> set es. valid_ping_response e \<and> r_bid (fst e) = Some PosInf"
      then obtain e c where e: "r_bid (fst e) = Some PosInf" "valid_ping_response e" "entry_of ?Q c e"
        using asked_entry [OF es] by metis
      then show False using entry [OF e(3)] valid [OF e(3)] by (auto simp: pulsar_answer_def)
    qed
    ultimately obtain e c x where e: "res = Inr x" "best_valid es e" "c_id c = entry_campaign e"
      "named_winner (fst e) c x"
      "updates = [LeadUpdate (winner_update r c (fst e) (opt_or (r_price (fst e)) (r_bid (fst e))))]"
      using verdict unfolding verdict_def by (simp only: if_False) blast
    then obtain c' where c': "c' \<in> set cs" "entry_of ?Q c' e" "valid_ping_response e"
      using asked_entry [OF es] unfolding best_valid_def by blast
    have "?ok c'" using valid c' by blast
    moreover obtain k where "r_bid (fst e) = Some (Fin (of_int k))" "r_price (fst e) = None" "100 \<le> k" "k < 300"
      using entry [OF c'(2)] calculation by (auto simp: pulsar_answer_def)
    moreover have "c_id c = c_id c'" using e(3) c'(2) by (simp add: entry_of_def)
    ultimately show ?thesis
      using True e c'(1) channel unfolding run
      by (auto simp: named_winner_def winner_update_def intro!: bexI [of _ c'] dest: sym)
  next
    case False
    then have "\<forall>e \<in> set es. \<not> valid_ping_response e" using asked_entry [OF es] valid by blast
    then show ?thesis using verdict False unfolding run verdict_def by simp
  qed
qed

section \<open>What a ping tells the buyers\<close>

lemma requests_cases [frame_intros]:
  "(\<And>x xs. frame f (g x xs)) \<Longrightarrow> frame f a \<Longrightarrow> frame f (case l of [] \<Rightarrow> a | x # xs \<Rightarrow> g x xs)"
  by (cases l) auto

lemma requests_updates [frame_intros]:
  "frame w_requests (update_lead_status X r status e)"
  "frame w_requests (update_lead_with_winner r campaign promise ping bid)"
  unfolding update_lead_status_def update_lead_with_winner_def Let_def by (intro frame_intros)+

lemma requests_settle [frame_intros]:
  "frame w_requests (settle_ping_auction X r cs responses timings)"
  "frame w_requests (refuse X r log_text err)"
  unfolding settle_ping_auction_def refuse_def Let_def by (intro frame_intros)+

lemma requests_store [frame_intros]:
  "frame w_requests (store_ping_responses r rows)"
  unfolding store_ping_responses_def router_batch_insert_buyer_responses_def by (intro frame_intros)

lemma requests_id [frame_intros]: "frame w_requests (id_or_new X given g p)"
  unfolding id_or_new_def by (intro frame_intros)

lemma requests_rows [frame_intros]:
  "frame w_requests (collect_responses X r priorities results)"
  "frame w_requests (ping_response_row X r cs e)"
proof -
  have "frame w_requests (outcome_response X r oc)" for oc
    unfolding outcome_response_def Let_def by (cases oc) (auto intro!: frame_intros)
  then show "frame w_requests (collect_responses X r priorities results)"
    unfolding collect_responses_def by (intro frame_intros)
  show "frame w_requests (ping_response_row X r cs e)"
    unfolding ping_response_row_def by (cases e) (auto intro!: frame_intros)
qed

lemma requests_loads [frame_intros]:
  "frame w_requests (load_tree X S r)" "frame w_requests (load_tree_campaigns X S r tree)"
  "frame w_requests (load_buyer_ids X S r ids)" "frame w_requests (load_associations X S r ids)"
  "frame w_requests (load_configs X S r ids)"
  unfolding load_tree_def load_tree_campaigns_def load_buyer_ids_def load_associations_def load_configs_def
    cache_stats_def count_cache_def ok_or_default_def Let_def
  by (intro frame_intros)+

lemma sends_silent [sends_intros]:
  "sends P (io_return x)" "sends P elapsed" "sends P met_deadline" "sends P (completion_order n)"
  "sends P (on_metrics f)" "sends P (on_timing g)" "sends P (refuse X r log_text err)"
  "sends P (load_tree X S r)" "sends P (load_tree_campaigns X S r tree)"
  "sends P (load_buyer_ids X S r ids)" "sends P (load_associations X S r ids)" "sends P (load_configs X S r ids)"
  "sends P (collect_responses X r priorities results)" "sends P (ping_response_row X r cs e)"
  "sends P (store_ping_responses r rows)" "sends P (settle_ping_auction X r cs responses timings)"
  by (rule sends_frame, intro frame_intros)+

lemma sends_split [sends_intros]:
  "(\<And>x y. sends P (k x y)) \<Longrightarrow> sends P (case p of (x, y) \<Rightarrow> k x y)"
  "sends P a \<Longrightarrow> sends P b \<Longrightarrow> sends P c \<Longrightarrow> sends P (case d of Met \<Rightarrow> a | CutBefore \<Rightarrow> b | CutAfter \<Rightarrow> c)"
  by (auto split: prod.split deadline.split)

lemma sends_ask_buyer:
  assumes "pr_request_type r = ''ping''"
  shows "sends no_contact_data (ask_buyer X S key r integrations configs c)"
proof -
  have "sends no_contact_data (BuyerRouter_route X S b)"
    if "bu_request_type b = ''ping''" "bu_campaigns b = [c]" for b
    using that route_ping_sends by (simp add: BuyerRouter_route_def)
  then have route: "sends no_contact_data (BuyerRouter_route X S (with_cache (pr_cache r)
      (with_preloaded_qual_config q (with_preloaded_integration i
        (BuyerRouter_new (pr_lead r) [c] (pr_request_type r) key)))))" for q i
    using assms by (simp add: with_cache_def with_preloaded_qual_config_def
        with_preloaded_integration_def BuyerRouter_new_def)
  show ?thesis unfolding ask_buyer_def Let_def by (intro sends_intros route)
qed

lemma sends_auction:
  assumes "pr_request_type r = ''ping''"
  shows "sends no_contact_data (route_ping_auction X S key r cs priorities integrations configs)"
  unfolding route_ping_auction_def ask_buyers_def by (intro sends_intros sends_ask_buyer [OF assms])

lemma sends_ping:
  assumes "pr_request_type r = ''ping''"
  shows "sends no_contact_data (route_shared X S key r)"
proof -
  have "sends no_contact_data (dispatch X S key r tree cs priorities integrations configs)"
    for tree cs priorities integrations configs
    using assms sends_auction by (simp add: dispatch_def)
  then have "sends no_contact_data (route_tree X S key r tree ptcs)" for tree ptcs
    unfolding route_tree_def Let_def by (intro sends_intros)
  then show ?thesis unfolding route_shared_def by (intro sends_intros)
qed

text \<open>C38: routing a ping through the tree, whatever the campaigns, sends the buyers no name, email,
  phone, street, city or state of the lead.\<close>

theorem ping_routing_sends_no_contact_data:
  assumes "pr_request_type r = ''ping''"
  shows "\<exists>reqs. w_requests (snd (PingTreeRouter_route X S key r w)) = w_requests w @ reqs
     \<and> (\<forall>q \<in> set reqs. no_contact_data q)"
proof -
  let ?w = "w\<lparr>w_metrics := DiagnosticMetrics_new, w_timing := AtomicAuctionTiming_new (db_now (w_db w))\<rparr>"
  have "\<exists>reqs. w_requests (snd (route_shared X S key r v)) = w_requests v @ reqs \<and> (\<forall>q \<in> set reqs. no_contact_data q)"
    for v using sends_ping [OF assms] unfolding sends_def by blast
  from this [of w] this [of ?w] show ?thesis
    by (cases "route_shared X S key r ?w") (simp add: PingTreeRouter_route_def Let_def)
qed

section \<open>Posts and fullposts\<close>

lemma qualifies_without_config: "qualifies lead t None"
  by (simp add: qualifies_def qe_evaluate_def QualificationEngine_new_def)

lemma post_router_simps [simp]:
  "bu_lead (post_router r key c t) = pr_lead r" "bu_campaigns (post_router r key c t) = [c]"
  "bu_request_type (post_router r key c t) = t" "bu_preloaded_qual_config (post_router r key c t) = None"
  "bu_preloaded_integration (post_router r key c t) = None" "bu_cache (post_router r key c t) = pr_cache r"
  by (simp_all add: post_router_def with_cache_def BuyerRouter_new_def)

definition sold_response :: "BuyerResponse \<Rightarrow> bool" where
  "sold_response resp \<longleftrightarrow> r_success resp \<and> r_status resp = ''sold'' \<and> r_post_id resp \<noteq> None \<and> r_price resp \<noteq> None"

lemma answers_post:
  "answers (route_post_direct_sync X lead p None bid) sold_response"
  unfolding answers_def
proof
  fix w
  obtain q r1 where 1: "generate_post_id X (pulsar_lead_id X lead) w = (Inr q, w\<lparr>w_random := r1\<rparr>)"
    by (rule draws_only_run [of "generate_post_id X (pulsar_lead_id X lead)"]) simp
  obtain b r2 where 2: "post_price bid (w\<lparr>w_random := r1\<rparr>) = (Inr b, w\<lparr>w_random := r2\<rparr>)"
    by (rule draws_only_run [of "post_price bid" "w\<lparr>w_random := r1\<rparr>"]) simp_all
  from 1 2 show "\<exists>x w'. route_post_direct_sync X lead p None bid w = (Inr x, w') \<and> sold_response x
      \<and> quiet w' = quiet w"
    by (simp add: route_post_direct_sync_def qualifies_without_config io_bind_run io_return_def
        sold_response_def pulsar_sold_def quiet_def)
qed

text \<open>C40: the router posts to an internal buyer without the buyer's qualification configuration: once
  the integration is found, the post of any lead that carries a promise is answered as sold, also
  where the rules of the buyer, its rules on property and roof type for a post among them, reject
  the lead.\<close>

theorem internal_post_skips_rules:
  assumes "get_buyer_integration X S (post_router r key c ''post'') c w = (Inr i, w1)"
    and "bi_is_internal i" and "starts_with (bi_slug i) ''pulsar''" and "l_promise_id (pr_lead r) = Some p"
  shows "\<exists>resp w'. BuyerRouter_route X S (post_router r key c ''post'') w = (Inr resp, w')
     \<and> r_success resp \<and> r_status resp = ''sold'' \<and> r_post_id resp \<noteq> None \<and> r_price resp \<noteq> None"
proof -
  let ?b = "post_router r key c ''post''"
  let ?bid = "Option.bind (json_get (l_vertical_data (pr_lead r)) ''winning_bid'') as_f64"
  have "BuyerRouter_route X S ?b w = timed_call ?b record_post_sent
      (route_post_direct_sync X (pr_lead r) p None ?bid) w1"
    using assms by (simp add: BuyerRouter_route_def buyer_route_post_def io_ok_or_def io_bind_run
        check_internal_def)
  then show ?thesis
    using answers_run [OF answers_timed [OF answers_post]] unfolding sold_response_def by metis
qed

text \<open>C39: the answers to a fullpost are credited to the wrong campaigns when the buyers do not
  answer in the order in which they were asked: of two campaigns, the second answers first
  with a sale and the call of the first fails; the lead is sold to the first, at the price of
  the second.\<close>

theorem fullpost_misattribution:
  assumes "w_orders w = [1, 0] # orders"
    and "BuyerRouter_route X S (post_router r key c2 ''fullpost'') (w\<lparr>w_orders := orders\<rparr>) = (Inr resp, w1)"
    and "BuyerRouter_route X S (post_router r key c1 ''fullpost'') w1 = (Inl e, w2)"
    and "valid_fullpost_response (resp, i, prio)" and "db_faults (w_db w2) = []" and "r_promise_id resp = Some p"
  shows "\<exists>x w'. route_fullpost_to_all X S key r [c1, c2] priorities w = (Inr x, w') \<and> rr_status x = ''sold''
     \<and> rr_campaign_id x = Some (c_id c1) \<and> rr_buyer_id x = Some (c_buyer_id c1) \<and> rr_price x = r_price resp"
proof -
  have order: "completion_order (length [c1, c2]) w = (Inr [1, 0], w\<lparr>w_orders := orders\<rparr>)"
    using assms(1) by (auto simp: completion_order_def)
  have "ask_buyers (\<lambda>c. io_try (BuyerRouter_route X S (post_router r key c ''fullpost''))) [c1, c2] w
      = (Inr [Inr resp, Inl e], w2)"
    using assms(2,3) order unfolding ask_buyers_def by (simp add: io_bind_run io_try_run io_return_def)
  moreover obtain d w3 where "elapsed w2 = (Inr d, w3)" "w_db w3 = w_db w2"
    by (simp add: elapsed_def)
  moreover obtain w4 where "on_timing (record_post_sent d) w3 = (Inr (), w4)" "w_db w4 = w_db w3"
    by (simp add: on_timing_def io_modify_def)
  moreover obtain w5 where "on_metrics (record_stage_timing ''fullpost_auction'' d) w4 = (Inr (), w5)" "w_db w5 = w_db w4"
    by (simp add: on_metrics_def io_modify_def)
  moreover have "pair_responses priorities (map c_id [c1, c2]) [Inr resp, Inl e]
      = [(resp, c_id c1, priority_in priorities (c_id c1))]"
    by (simp add: pair_responses_def map_filter_simps)
  ultimately have run: "route_fullpost_to_all X S key r [c1, c2] priorities w
      = settle_fullpost X r [c1, c2] [(resp, c_id c1, priority_in priorities (c_id c1))] w5"
    and db: "w_db w5 = w_db w2"
    unfolding route_fullpost_to_all_def by (simp_all add: io_bind_run)
  have "valid_fullpost_response (resp, c_id c1, priority_in priorities (c_id c1))"
    using assms(4) by (simp add: valid_fullpost_response_def)
  then have settle: "settle_fullpost X r [c1, c2] [(resp, c_id c1, priority_in priorities (c_id c1))] w5
      = sell_fullpost X r [c1, c2] [(resp, c_id c1, priority_in priorities (c_id c1))] resp c1 w5"
    by (simp add: settle_fullpost_def sort_by_def find_campaign_def io_ok_or_def)
  show ?thesis unfolding run settle
    using assms(5,6) db
    by (auto simp: sell_fullpost_def io_bind_def on_db_def update_leads_def db_stmt_def io_when_def io_return_def
        enqueue_task_def io_modify_def split: prod.split sum.split)
qed

section \<open>Witnesses\<close>

definition sample_ptr :: "string \<Rightarrow> PingTreeRouter" where
  "sample_ptr t = PingTreeRouter_new ((sample_lead [])\<lparr>l_promise_id := Some ''p''\<rparr>) 1 ''solar'' t False True"

definition sample_integrations :: "uuid \<rightharpoonup> BuyerIntegration option" where
  "sample_integrations = [2 \<mapsto> Some (sample_integration True)]"

definition sample_buyer :: "uuid \<Rightarrow> Buyer" where
  "sample_buyer i = \<lparr> b_id = i, b_name = ''b'', b_instance_id = 1, b_instance_user_id = None,
     b_vertical_id = None, b_buyer_integration_id = Some 5, b_status = BS_Active, b_deleted_at = None,
     b_created_at = 0, b_updated_at = 0, b_contact_info = JNull, b_ein_tin = None, b_address_street = None,
     b_address_city = None, b_address_state = None, b_address_zip = None,
     b_email_address = None, b_representative_first_name = None, b_representative_last_name = None,
     b_documents = JNull, b_post_type = None, b_buyer_type = None \<rparr>"

definition sample_db :: db where
  "sample_db = empty_db\<lparr>buyers := [sample_buyer 2], buyer_integrations := [sample_integration True]\<rparr>"

lemma sample_running: "\<not> wq_finished (w_queue (sample_world d))"
  by (simp add: sample_world_def WriteBehindQueue_new_def)

theorem ping_auction_outcome_witness:
  "\<exists>rows updates. wq_channel (w_queue (snd (route_ping_auction plain_crypto no_codecs ''k'' (sample_ptr ''ping'')
      [sample_campaign 1 2, sample_campaign 3 4] Map.empty Map.empty Map.empty (sample_world empty_db))))
     = map BuyerResponseTask rows @ updates \<and> length rows = 2"
proof -
  let ?cs = "[sample_campaign 1 2, sample_campaign 3 4]" and ?r = "sample_ptr ''ping''"
  have r: "pr_queue ?r" by (simp add: sample_ptr_def PingTreeRouter_new_def)
  obtain es rows updates res w' where
    "route_ping_auction plain_crypto no_codecs ''k'' ?r ?cs Map.empty Map.empty Map.empty (sample_world empty_db)
      = (res, w')"
    "mset (map entry_campaign es) = mset (map c_id ?cs)" "list_all2 (row_of ?r) es rows"
    "wq_channel (w_queue w') = wq_channel (w_queue (sample_world empty_db)) @ map BuyerResponseTask rows @ updates"
    using ping_auction_outcome [where X = plain_crypto and S = no_codecs and key = "''k''"
        and cs = ?cs and priorities = Map.empty and integrations = Map.empty and configs = Map.empty,
        OF r sample_running [of empty_db]]
    by (elim exE conjE) (rule that; assumption)
  moreover from mset_eq_length [OF this(2)] have "length es = 2" by simp
  moreover have "wq_channel (w_queue (sample_world empty_db)) = []"
    by (simp add: sample_world_def WriteBehindQueue_new_def)
  ultimately show ?thesis by (intro exI [of _ rows] exI [of _ updates]) (auto dest: list_all2_lengthD)
qed

theorem internal_auction_witness:
  "\<exists>x k. fst (route_ping_auction plain_crypto no_codecs ''k'' (sample_ptr ''ping'') [sample_campaign 1 2]
      Map.empty sample_integrations Map.empty (sample_world empty_db)) = Inr x
     \<and> rr_success x \<and> rr_campaign_id x = Some 1 \<and> rr_price x = Some (Fin (of_int k)) \<and> 100 \<le> k"
proof -
  let ?c = "sample_campaign 1 2"
  have "\<forall>c \<in> set [?c]. internal_buyer sample_integrations c"
    by (simp add: internal_buyer_def sample_integrations_def sample_campaign_def sample_integration_def starts_with_def)
  moreover have "pr_queue (sample_ptr ''ping'')" "pr_request_type (sample_ptr ''ping'') = ''ping''"
    by (simp_all add: sample_ptr_def PingTreeRouter_new_def)
  moreover have "qualifies (pr_lead (sample_ptr ''ping'')) ''ping'' (campaign_config Map.empty ?c)"
    by (simp add: campaign_config_def flatten_option_def qualifies_without_config)
  ultimately show ?thesis
    using internal_auction [of "sample_ptr ''ping''" "sample_world empty_db" "[?c]" sample_integrations plain_crypto
        no_codecs "''k''" Map.empty Map.empty] sample_running [of empty_db]
    by (auto simp: sample_campaign_def)
qed

theorem ping_routing_sends_no_contact_data_witness:
  "list_all no_contact_data (w_requests (snd
     (PingTreeRouter_route plain_crypto no_codecs ''k'' (sample_ptr ''ping'') (sample_world sample_db))))"
  using ping_routing_sends_no_contact_data [of "sample_ptr ''ping''" plain_crypto no_codecs "''k''" "sample_world sample_db"]
  by (auto simp: sample_ptr_def PingTreeRouter_new_def sample_world_def list_all_iff)

lemma sample_lookup:
  assumes "w_db w = sample_db"
  shows "get_buyer_integration X S (post_router (sample_ptr t) key (sample_campaign 1 2) u) (sample_campaign 1 2) w
      = (Inr (sample_integration True), w)"
    and "\<exists>e. get_buyer_integration X S (post_router (sample_ptr t) key (sample_campaign 3 4) u) (sample_campaign 3 4) w
      = (Inl e, w)"
proof -
  have "set_db sample_db w = w" using assms by (simp add: set_db_def)
  then show "get_buyer_integration X S (post_router (sample_ptr t) key (sample_campaign 1 2) u) (sample_campaign 1 2) w
      = (Inr (sample_integration True), w)"
    and "\<exists>e. get_buyer_integration X S (post_router (sample_ptr t) key (sample_campaign 3 4) u) (sample_campaign 3 4) w
      = (Inl e, w)"
    using assms by (simp_all add: get_buyer_integration_def find_buyer_def find_integration_def on_db_def
        Buyer_find_by_id_def BuyerIntegration_find_by_id_def db_query_optional_def db_query_def db_stmt_def
        io_simps io_ok_or_def sample_db_def empty_db_def sample_ptr_def PingTreeRouter_new_def first_row_def
        sample_campaign_def sample_buyer_def sample_integration_def Buyer_active_def)
qed

theorem internal_post_skips_rules_witness:
  "\<exists>resp w'. BuyerRouter_route plain_crypto no_codecs
      (post_router (sample_ptr ''post'') ''k'' (sample_campaign 1 2) ''post'') (sample_world sample_db) = (Inr resp, w')
     \<and> r_status resp = ''sold''"
proof -
  have "w_db (sample_world sample_db) = sample_db" by (simp add: sample_world_def WriteBehindQueue_new_def)
  note look = sample_lookup(1) [OF this, of plain_crypto no_codecs "''post''" "''k''" "''post''"]
  show ?thesis
    using internal_post_skips_rules [OF look, of "''p''"]
    by (auto simp: sample_integration_def starts_with_def sample_ptr_def PingTreeRouter_new_def)
qed

lemma sample_fullpost:
  assumes "w_db w = sample_db"
  shows "\<exists>resp rnd es. BuyerRouter_route X S (post_router (sample_ptr t) key (sample_campaign 1 2) ''fullpost'') w
       = (Inr resp, w\<lparr>w_random := rnd, w_elapsed := es\<rparr>)
     \<and> valid_fullpost_response (resp, i, prio) \<and> r_promise_id resp \<noteq> None"
proof -
  let ?b = "post_router (sample_ptr t) key (sample_campaign 1 2) ''fullpost''"
  obtain resp rnd k where f: "route_fullpost_direct_sync X (pr_lead (sample_ptr t)) None w = (Inr resp, w\<lparr>w_random := rnd\<rparr>)"
    and resp: "r_success resp" "r_status resp = ''sold''" "r_promise_id resp \<noteq> None"
      "r_price resp = Some (Fin (of_int k))" "100 \<le> k"
    using fullpost_run [of X "pr_lead (sample_ptr t)" None w] qualifies_without_config by auto
  have "buyer_route_fullpost X S ?b (sample_campaign 1 2) w
      = (Inr resp, w\<lparr>w_random := rnd, w_elapsed := tl (w_elapsed w)\<rparr>)"
    using f sample_lookup(1) [OF assms, of X S t key "''fullpost''"]
    by (simp add: buyer_route_fullpost_def io_bind_run check_internal_def sample_integration_def starts_with_def
        timed_call_def io_try_run elapsed_def io_when_def post_router_def with_cache_def BuyerRouter_new_def io_return_def)
  then show ?thesis using resp
    by (auto simp: BuyerRouter_route_def valid_fullpost_response_def)
qed

theorem fullpost_misattribution_witness:
  "\<exists>x w'. route_fullpost_to_all plain_crypto no_codecs ''k'' (sample_ptr ''fullpost'')
       [sample_campaign 3 4, sample_campaign 1 2] Map.empty ((sample_world sample_db)\<lparr>w_orders := [[1, 0]]\<rparr>) = (Inr x, w')
     \<and> rr_status x = ''sold'' \<and> rr_campaign_id x = Some 3"
proof -
  let ?w = "(sample_world sample_db)\<lparr>w_orders := [[1, 0]]\<rparr>" and ?X = plain_crypto and ?S = no_codecs
  let ?b = "\<lambda>c. post_router (sample_ptr ''fullpost'') ''k'' c ''fullpost''"
  have db: "w_db (?w\<lparr>w_orders := []\<rparr>) = sample_db" by (simp add: sample_world_def WriteBehindQueue_new_def)
  obtain resp rnd es where r: "BuyerRouter_route ?X ?S (?b (sample_campaign 1 2)) (?w\<lparr>w_orders := []\<rparr>)
      = (Inr resp, ?w\<lparr>w_orders := [], w_random := rnd, w_elapsed := es\<rparr>)"
    and v: "valid_fullpost_response (resp, 0, None)" "r_promise_id resp \<noteq> None"
    using sample_fullpost [OF db] by blast
  let ?w1 = "?w\<lparr>w_orders := [], w_random := rnd, w_elapsed := es\<rparr>"
  have db1: "w_db ?w1 = sample_db" using db by simp
  obtain e where e: "BuyerRouter_route ?X ?S (?b (sample_campaign 3 4)) ?w1 = (Inl e, ?w1)"
    using sample_lookup(2) [OF db1, of ?X ?S "''fullpost''" "''k''" "''fullpost''"]
    by (auto simp: BuyerRouter_route_def buyer_route_fullpost_def io_bind_def)
  have "db_faults (w_db ?w1) = []" unfolding db1 by (simp add: sample_db_def empty_db_def)
  moreover obtain p where "r_promise_id resp = Some p" using v(2) by blast
  ultimately obtain x w' where "route_fullpost_to_all ?X ?S ''k'' (sample_ptr ''fullpost'')
      [sample_campaign 3 4, sample_campaign 1 2] Map.empty ?w = (Inr x, w')"
    "rr_status x = ''sold''" "rr_campaign_id x = Some (c_id (sample_campaign 3 4))"
    using fullpost_misattribution [OF _ r e v(1), where priorities = Map.empty] by force
  then show ?thesis by (simp add: sample_campaign_def)
qed

end
