(* ===== verification/LeadHandlerProps.thy ===== *)
theory LeadHandlerProps
  imports LeadHandler PingTreeRouterProps
begin

text \<open>
  Properties of the lead handlers: a promise is claimed once and refused afterwards without any
  buyer being asked, the rate limit, what is answered and recorded for pings and posts, what a
  body means, and which requests end in a panic.
\<close>

section \<open>Frames of the handler state\<close>

text \<open>The requests sent, and the queue with the tables.\<close>

definition contacted :: "intake \<Rightarrow> http_request list" where
  "contacted s = w_requests (it_world s)"

definition stored :: "intake \<Rightarrow> WriteBehindQueue" where
  "stored s = quiet (it_world s)"

lemma frame_on_world [frame_intros]:
  "frame w_requests m \<Longrightarrow> frame contacted (on_world m)" "frame quiet m \<Longrightarrow> frame stored (on_world m)"
  unfolding frame_def contacted_def stored_def on_world_def by (auto split: prod.split) (metis snd_conv)+

lemma frame_catch [frame_intros]: "frame f m \<Longrightarrow> frame f (io_catch m)"
  unfolding io_catch_def by (intro frame_intros)

lemma frame_spawn [frame_intros]: "frame f m \<Longrightarrow> frame f (spawn m)"
  unfolding spawn_def by (intro frame_intros)

lemma frame_ok_or_default [frame_intros]: "frame f m \<Longrightarrow> frame f (ok_or_default d m)"
  unfolding ok_or_default_def by (intro frame_intros)

lemma requests_prefixed [frame_intros]: "frame f draw_uuid \<Longrightarrow> frame f (prefixed_uuid X p)"
  unfolding prefixed_uuid_def by (intro frame_intros)

lemma promise_lookup_frames [frame_intros]:
  "frame w_requests (find_posted_lead A R p data)" "frame quiet (find_posted_lead A R p data)"
  unfolding find_posted_lead_def find_promised_def Lead_find_by_promise_id_def Lead_find_by_lead_id_def Let_def
  by (intro frame_intros)+

lemma quiet_parts:
  assumes "quiet w' = quiet w"
  shows "tables (w_db w') = tables (w_db w)" and "leads (w_db w') = leads (w_db w)"
    and "db_now (w_db w') = db_now (w_db w)" and "wq_channel (w_queue w') = wq_channel (w_queue w)"
proof -
  show t: "tables (w_db w') = tables (w_db w)" using arg_cong [OF assms, of wq_db] by (simp add: quiet_def)
  show "leads (w_db w') = leads (w_db w)" using arg_cong [OF t, of leads] by (simp add: tables_def)
  show "db_now (w_db w') = db_now (w_db w)" using arg_cong [OF t, of db_now] by (simp add: tables_def)
  show "wq_channel (w_queue w') = wq_channel (w_queue w)"
    using arg_cong [OF assms, of wq_channel] by (simp add: quiet_def)
qed

section \<open>Claims\<close>

lemma db_stmt_elim:
  assumes "db_stmt q d = (res, d')"
  obtains (fault) e fs where "res = Inl e" "d' = d\<lparr>db_faults := fs\<rparr>"
        | (run) fs where "q (d\<lparr>db_faults := fs\<rparr>) = (res, d')"
  using assms by (cases rule: db_stmt_cases [of q d]) auto

definition open_promise :: "string \<Rightarrow> uuid \<Rightarrow> db \<Rightarrow> bool" where
  "open_promise promise u d \<longleftrightarrow> list_ex (claimable (db_now d) u promise) (leads d)"

lemma open_promise_faults [simp]: "open_promise p u (d\<lparr>db_faults := fs\<rparr>) = open_promise p u d"
  by (simp add: open_promise_def)

lemma claim_closed:
  assumes "\<not> open_promise p u d" and "claim_promise token u p d = (res, d')"
  shows "(res = Inr None \<or> (\<exists>e. res = Inl e)) \<and> tables d' = tables d"
proof -
  have none: "filter (claimable (db_now d) u p) (leads d) = []"
    using assms(1) by (auto simp: open_promise_def list_ex_iff filter_empty_conv)
  then have "update_rows (claimable (db_now d) u p) f (leads d) = leads d" for f
    by (auto simp: update_rows_def filter_empty_conv map_idI)
  with none show ?thesis
    using assms(2) unfolding claim_promise_def
    by (elim db_stmt_elim) (auto simp: Let_def first_row_def)
qed

lemma retry_spawn_invariant:
  assumes "\<And>s res s'. I s \<Longrightarrow> m s = (res, s') \<Longrightarrow> Q res \<and> I s'"
  shows "I s \<Longrightarrow> retry_spawn n m s = (res, s') \<Longrightarrow> Q res \<and> I s'"
proof (induction n arbitrary: s)
  case 0
  then show ?case using assms by simp
next
  case (Suc n)
  obtain r s1 where m: "m s = (r, s1)" by force
  show ?case
  proof (cases r)
    case (Inl e)
    then have "retry_spawn n m s1 = (res, s')" using Suc.prems(2) m by (simp add: io_bind_def io_try_def)
    then show ?thesis using Suc.IH [of s1] assms [OF Suc.prems(1) m] by blast
  next
    case (Inr x)
    then show ?thesis using Suc.prems m assms [OF Suc.prems(1) m] by (simp add: io_bind_def io_try_def io_return_def)
  qed
qed

lemma open_promise_tables: "open_promise p u (tables d) = open_promise p u d"
  by (simp add: tables_def)

lemma retried_claim_closed:
  assumes "\<not> open_promise p u d" and "retry_spawn n (claim_promise token u p) d = (res, d')"
  shows "(res = Inr None \<or> (\<exists>e. res = Inl e)) \<and> tables d' = tables d"
proof -
  have step: "(r = Inr None \<or> (\<exists>e. r = Inl e)) \<and> tables s' = tables d"
    if "tables s = tables d" and "claim_promise token u p s = (r, s')" for s r s'
  proof -
    have "\<not> open_promise p u s" using that(1) assms(1) by (metis open_promise_tables)
    then show ?thesis using claim_closed that by simp
  qed
  show ?thesis
    by (rule retry_spawn_invariant [where I = "\<lambda>s. tables s = tables d", OF step _ assms(2)]) simp_all
qed

lemma claim_stays_closed:
  assumes "\<not> open_promise p u d" and "claim_promise token u p d = (res, d')"
  shows "ok_some res = None" and "\<not> open_promise p u d'"
proof -
  show "ok_some res = None" using claim_closed [OF assms] by auto
  have "tables d' = tables d" using claim_closed [OF assms] by blast
  then show "\<not> open_promise p u d'" using assms(1) by (metis open_promise_tables)
qed

lemma claim_effect:
  assumes "claim_promise token u p d = (Inr (Some v), d')" and "token \<noteq> []"
  shows "\<not> open_promise p u d'"
proof -
  obtain fs where "d' = d\<lparr>db_faults := fs,
      leads := update_rows (claimable (db_now d) u p) (\<lambda>l. l\<lparr>l_post_id := Some token\<rparr>) (leads d)\<rparr>"
    using assms(1) unfolding claim_promise_def by (elim db_stmt_elim) (auto simp: Let_def)
  moreover have "\<not> claimable (db_now d) u p (l\<lparr>l_post_id := Some token\<rparr>)" for l
    using assms(2) by (simp add: claimable_def)
  ultimately show ?thesis by (auto simp: open_promise_def list_ex_iff update_rows_def)
qed

lemma claim_open:
  assumes "open_promise p u d" and "db_faults d = []"
  shows "\<exists>d'. claim_promise token u p d = (Inr (Some u), d') \<and> db_faults d' = []"
proof -
  obtain l ls where "filter (claimable (db_now d) u p) (leads d) = l # ls"
    using assms(1) by (cases "filter (claimable (db_now d) u p) (leads d)")
      (auto simp: open_promise_def list_ex_iff filter_empty_conv)
  moreover from this have "l_uuid l = u"
    by (metis claimable_def filter_eq_ConsD)
  ultimately show ?thesis using assms(2) by (simp add: claim_promise_def db_stmt_def Let_def first_row_def)
qed

lemma closed_later: "\<not> open_promise p u d \<Longrightarrow> \<not> open_promise p u (d\<lparr>db_now := db_now d + t\<rparr>)"
  by (auto simp: open_promise_def list_ex_iff claimable_def)

text \<open>One attempt to claim a promise some time after the last: the time that has passed, and the
  token.\<close>

definition claim_at :: "uuid \<Rightarrow> string \<Rightarrow> nat \<times> string \<Rightarrow> (db, uuid option result) io" where
  "claim_at u promise a = io_bind (io_modify (\<lambda>d. d\<lparr>db_now := db_now d + fst a\<rparr>))
     (\<lambda>_. io_try (claim_promise (snd a) u promise))"

abbreviation claims_won :: "uuid option result list \<Rightarrow> uuid option list" where
  "claims_won results \<equiv> filter (\<lambda>m. m \<noteq> None) (map ok_some results)"

lemma claim_at_run:
  "claim_at u p a d = (case claim_promise (snd a) u p (d\<lparr>db_now := db_now d + fst a\<rparr>) of (r, d') \<Rightarrow> (Inr r, d'))"
  by (simp add: claim_at_def io_bind_def io_modify_def io_try_def split: prod.split)

lemma mapM_claims_Cons:
  assumes "claim_promise (snd a) u p (d\<lparr>db_now := db_now d + fst a\<rparr>) = (r, d1)"
    and "io_mapM (claim_at u p) as d1 = (Inr rs, d2)"
  shows "io_mapM (claim_at u p) (a # as) d = (Inr (r # rs), d2)"
  using assms by (simp add: io_bind_def claim_at_run io_return_def)

lemma claims_closed:
  "\<not> open_promise p u d \<Longrightarrow> \<exists>results d'. io_mapM (claim_at u p) as d = (Inr results, d') \<and> claims_won results = []"
proof (induction as arbitrary: d)
  case Nil
  then show ?case by (simp add: io_return_def)
next
  case (Cons a as)
  let ?d = "d\<lparr>db_now := db_now d + fst a\<rparr>"
  obtain r d1 where r: "claim_promise (snd a) u p ?d = (r, d1)" by force
  note none = claim_stays_closed [OF closed_later [OF Cons.prems] r]
  from Cons.IH [OF none(2)] obtain rs d2 where "io_mapM (claim_at u p) as d1 = (Inr rs, d2)" "claims_won rs = []"
    by blast
  then show ?case using mapM_claims_Cons [OF r] none(1) by (intro exI [of _ "r # rs"] exI [of _ d2]) simp
qed

lemma claims_at_most_one:
  "list_all (\<lambda>a. snd a \<noteq> []) as \<Longrightarrow>
     \<exists>results d'. io_mapM (claim_at u p) as d = (Inr results, d') \<and> length (claims_won results) \<le> 1"
proof (induction as arbitrary: d)
  case Nil
  then show ?case by (simp add: io_return_def)
next
  case (Cons a as)
  let ?d = "d\<lparr>db_now := db_now d + fst a\<rparr>"
  obtain r d1 where r: "claim_promise (snd a) u p ?d = (r, d1)" by force
  show ?case
  proof (cases "ok_some r")
    case None
    obtain rs d2 where "io_mapM (claim_at u p) as d1 = (Inr rs, d2)" "length (claims_won rs) \<le> 1"
      using Cons.IH [of d1] Cons.prems by auto
    then show ?thesis using mapM_claims_Cons [OF r] None by (intro exI [of _ "r # rs"] exI [of _ d2]) simp
  next
    case (Some v)
    then have "\<not> open_promise p u d1" using claim_effect r Cons.prems by (cases r rule: ok_some.cases) auto
    from claims_closed [OF this] obtain rs d2
      where "io_mapM (claim_at u p) as d1 = (Inr rs, d2)" "claims_won rs = []" by blast
    then show ?thesis using mapM_claims_Cons [OF r] Some by (intro exI [of _ "r # rs"] exI [of _ d2]) simp
  qed
qed

text \<open>C8: However often a promise is claimed, in any time and whatever statements fail, at most one
  claim succeeds; when no statement fails one succeeds exactly if the first claim comes while the
  lead is unposted and not older than ten minutes.\<close>

theorem promise_claimed_once:
  assumes "list_all (\<lambda>a. snd a \<noteq> []) (a # as)"
  shows "\<exists>results d'. io_mapM (claim_at u p) (a # as) d = (Inr results, d') \<and> length (claims_won results) \<le> 1
    \<and> (db_faults d = [] \<longrightarrow> claims_won results =
         (if open_promise p u (d\<lparr>db_now := db_now d + fst a\<rparr>) then [Some u] else []))"
proof (cases "open_promise p u (d\<lparr>db_now := db_now d + fst a\<rparr>) \<and> db_faults d = []")
  case True
  then obtain d1 where r: "claim_promise (snd a) u p (d\<lparr>db_now := db_now d + fst a\<rparr>) = (Inr (Some u), d1)"
    using claim_open by fastforce
  then have "\<not> open_promise p u d1" using claim_effect assms by auto
  from claims_closed [OF this] obtain rs d2
    where "io_mapM (claim_at u p) as d1 = (Inr rs, d2)" "claims_won rs = []" by blast
  then show ?thesis using mapM_claims_Cons [OF r] True by (intro exI [of _ "Inr (Some u) # rs"] exI [of _ d2]) simp
next
  case False
  obtain results d' where run: "io_mapM (claim_at u p) (a # as) d = (Inr results, d')" "length (claims_won results) \<le> 1"
    using claims_at_most_one [OF assms] by blast
  moreover have "claims_won results = []" if "\<not> open_promise p u (d\<lparr>db_now := db_now d + fst a\<rparr>)"
  proof -
    let ?d = "d\<lparr>db_now := db_now d + fst a\<rparr>"
    obtain r d1 where r: "claim_promise (snd a) u p ?d = (r, d1)" by force
    note none = claim_stays_closed [OF that r]
    from claims_closed [OF none(2)] obtain rs d2
      where "io_mapM (claim_at u p) as d1 = (Inr rs, d2)" "claims_won rs = []" by blast
    then show ?thesis using mapM_claims_Cons [OF r] run(1) none(1) by auto
  qed
  ultimately show ?thesis using False by auto
qed

definition promised_lead :: "Lead" where
  "promised_lead = (blank_lead 1 ''e'' None 1 1 ''ping'' LS_PingAccepted
     (lead_data_of [] (\<lambda>_. None) (\<lambda>_. None) (\<lambda>_. None)) [] JNull 0)\<lparr>l_promise_id := Some ''P''\<rparr>"

theorem promise_claimed_once_witness:
  "\<exists>results d'. io_mapM (claim_at 1 ''P'') [(5, ''A''), (7, ''B'')] (empty_db\<lparr>leads := [promised_lead]\<rparr>) = (Inr results, d')
     \<and> claims_won results = [Some 1]"
proof -
  have "list_all (\<lambda>a. snd a \<noteq> []) [(5 :: nat, ''A''), (7, ''B'')]" by simp
  moreover have "db_faults (empty_db\<lparr>leads := [promised_lead]\<rparr>) = []" by (simp add: empty_db_def)
  moreover have "open_promise ''P'' 1 (empty_db\<lparr>leads := [promised_lead], db_now := 5\<rparr>)"
    by (simp add: open_promise_def claimable_def promised_lead_def blank_lead_def PROMISE_TTL_def)
  ultimately show ?thesis
    using promise_claimed_once [of "(5, ''A'')" "[(7, ''B'')]" 1 "''P''" "empty_db\<lparr>leads := [promised_lead]\<rparr>"]
    by (auto simp: empty_db_def)
qed

section \<open>Posts that are refused\<close>

lemma on_world_run: "on_world m s = (case m (it_world s) of (r, w) \<Rightarrow> (r, s\<lparr>it_world := w\<rparr>))"
  by (simp add: on_world_def)

lemma claim_refused:
  assumes "\<not> open_promise p u (w_db (it_world s))"
    and "io_try (on_world (on_db (retry_spawn n (claim_promise token u p)))) s = (res, s')"
  shows "(res = Inr (Inr None) \<or> (\<exists>e. res = Inr (Inl e))) \<and> contacted s' = contacted s \<and> stored s' = stored s"
proof -
  obtain r d' where run: "retry_spawn n (claim_promise token u p) (w_db (it_world s)) = (r, d')" by force
  from retried_claim_closed [OF assms(1) run] show ?thesis
    using assms(2) run by (auto simp: io_try_def on_world_def on_db_def contacted_def stored_def quiet_def)
qed

definition refused :: "answer \<Rightarrow> bool" where
  "refused a \<longleftrightarrow> 400 \<le> fst a \<and> \<not> sn_success (lr_status (snd a))"

lemma refused_answers [simp]:
  "refused (c, plain_error X b now c' m e) \<longleftrightarrow> 400 \<le> c" "refused (c, server_error X b now e) \<longleftrightarrow> 400 \<le> c"
  "refused (duplicate_post X b now lead)" "refused (rate_limited n)" "refused (prechecks_failed X b now ps)"
  by (simp_all add: refused_def plain_error_def server_error_def error_body_def duplicate_post_def
      rate_limited_def prechecks_failed_def Let_def split: prod.split)

text \<open>C26: A post whose promise cannot be claimed (the lead was posted, its claim is in progress, the
  promise has expired or belongs to no lead) is answered with an error, and no buyer is contacted,
  no row changed and no task queued, whatever the cache says of the lead.\<close>

theorem spent_promise_refused:
  assumes promise: "ld_promise_id (lq_lead q) = Some p"
    and spent: "\<forall>u. \<not> open_promise p u (w_db (it_world s))"
    and run: "handle_post X A R vertical q now s = (res, s')"
  shows "contacted s' = contacted s \<and> stored s' = stored s
    \<and> (res = Inl PANIC \<or> (\<exists>a. res = Inr a \<and> refused a))"
proof -
  let ?find = "io_catch (on_world (find_posted_lead A R p (lq_lead q)))"
  obtain found s1 where found: "?find s = (found, s1)" by force
  have "frame contacted ?find" and "frame stored ?find" by (intro frame_intros)+
  then have same: "contacted s1 = contacted s" "stored s1 = stored s" using found by (auto dest: frameD)
  show ?thesis
  proof (cases "\<exists>lead. found = Inr (Inr (Some lead))")
    case True
    then obtain lead where lead: "found = Inr (Inr (Some lead))" by blast
    obtain token s2 where token: "on_world (prefixed_uuid X ''INPROG_'') s1 = (Inr token, s2)"
      by (auto simp: on_world_def prefixed_uuid_def draw_uuid_def draw_def io_bind_def io_return_def)
    have "frame contacted (on_world (prefixed_uuid X t))" and "frame stored (on_world (prefixed_uuid X t))" for t
      by (intro frame_intros)+
    then have same2: "contacted s2 = contacted s1" "stored s2 = stored s1" using token by (auto dest: frameD)
    obtain claim s3 where claim: "io_try (on_world (on_db (retry_spawn 3 (claim_promise token (l_uuid lead) p)))) s2 = (claim, s3)"
      by force
    have "quiet (it_world s2) = quiet (it_world s)" using same(2) same2(2) by (simp add: stored_def)
    then have "tables (w_db (it_world s2)) = tables (w_db (it_world s))" by (rule quiet_parts(1))
    then have "\<not> open_promise p (l_uuid lead) (w_db (it_world s2))" using spent by (metis open_promise_tables)
    from claim_refused [OF this claim] show ?thesis
      using run found lead token claim promise same same2
      by (auto simp del: split_paired_Ex simp: handle_post_def io_bind_def io_ok_or_def io_return_def Let_def)
  next
    case False
    have "(\<exists>e. found = Inr (Inl e)) \<or> found = Inr (Inr None) \<or> found = Inl PANIC"
      using False found by (auto simp: io_catch_def io_bind_def io_try_def io_return_def io_err_def split: prod.splits if_splits)
        (metis old.sum.exhaust option.exhaust)
    then show ?thesis
      using run found promise same by (auto simp del: split_paired_Ex simp: handle_post_def io_bind_def io_ok_or_def io_return_def Let_def)
  qed
qed

definition sample_publisher :: Publisher where
  "sample_publisher = \<lparr> p_id = 9, p_name = [], p_email = [], p_api_key_hash = [], p_api_key_prefix = [],
     p_api_key_encrypted = None, p_status = PS_Active, p_total_requests = 0, p_last_request_at = None,
     p_instance_id = 1, p_instance_user_id = None, p_is_documentation_test = False, p_hmac_secret_hash = None,
     p_hmac_secret_prefix = None, p_hmac_required = False, p_hmac_secret_encrypted = None, p_deleted_at = None,
     p_created_at = 0, p_updated_at = 0, p_representative_first_name = None, p_representative_last_name = None,
     p_address_street = None, p_address_city = None, p_address_state = None, p_address_zip = None,
     p_timezone = None, p_ein_tin = None \<rparr>"

definition sample_api :: apilib where
  "sample_api = \<lparr> ap_uuid_parse = (\<lambda>_. None), ap_codecs = no_codecs, ap_vertical = no_codec, ap_lead = no_codec,
     ap_prechecks = no_codec, ap_name = no_codec \<rparr>"

definition sample_info :: request_info where
  "sample_info = \<lparr> ri_publisher = sample_publisher, ri_params = [], ri_headers = [], ri_cache = False,
     ri_encryption_key = ''k'', ri_environment = ''dev'' \<rparr>"

definition sample_vertical :: Vertical where
  "sample_vertical = \<lparr> v_id = 1, v_name = ''Solar'', v_slug = ''solar'', v_is_active = True,
     v_created_at = 0, v_updated_at = 0 \<rparr>"

definition sample_data :: LeadData where
  "sample_data = (lead_data_of ''solar'' (\<lambda>_. None) (\<lambda>_. None) (\<lambda>_. None))"

definition sample_request :: "LeadData \<Rightarrow> LeadRequest" where
  "sample_request data = \<lparr> lq_verbose = None, lq_lead = data \<rparr>"

definition no_store :: SsmService where
  "no_store = SsmService_new [] None [] [] []"

definition sample_intake :: "db \<Rightarrow> intake" where
  "sample_intake d = \<lparr> it_world = sample_world d, it_buckets = [], it_keys = [], it_ssm = no_store, it_local_dev = True \<rparr>"

theorem spent_promise_refused_witness:
  "let d = empty_db\<lparr>leads := [promised_lead\<lparr>l_post_id := Some ''RP''\<rparr>]\<rparr>;
       s = sample_intake d; q = sample_request (sample_data\<lparr>ld_promise_id := Some ''P''\<rparr>);
       s' = snd (handle_post plain_crypto sample_api sample_info sample_vertical q 0 s)
   in contacted s' = [] \<and> stored s' = stored s"
proof -
  let ?d = "empty_db\<lparr>leads := [promised_lead\<lparr>l_post_id := Some ''RP''\<rparr>]\<rparr>"
  let ?s = "sample_intake ?d" and ?q = "sample_request (sample_data\<lparr>ld_promise_id := Some ''P''\<rparr>)"
  have "ld_promise_id (lq_lead ?q) = Some ''P''" by (simp add: sample_request_def)
  moreover have "\<forall>u. \<not> open_promise ''P'' u (w_db (it_world ?s))"
    by (simp add: open_promise_def claimable_def sample_intake_def sample_world_def WriteBehindQueue_new_def)
  moreover have "handle_post plain_crypto sample_api sample_info sample_vertical ?q 0 ?s
    = (fst (handle_post plain_crypto sample_api sample_info sample_vertical ?q 0 ?s),
       snd (handle_post plain_crypto sample_api sample_info sample_vertical ?q 0 ?s))" by simp
  ultimately have "contacted (snd (handle_post plain_crypto sample_api sample_info sample_vertical ?q 0 ?s)) = contacted ?s
      \<and> stored (snd (handle_post plain_crypto sample_api sample_info sample_vertical ?q 0 ?s)) = stored ?s"
    using spent_promise_refused by blast
  then show ?thesis by (simp add: Let_def contacted_def sample_intake_def sample_world_def)
qed

section \<open>Answers to posts\<close>

text \<open>\<open>yields P m\<close>: a value that \<open>m\<close> returns satisfies \<open>P\<close>.\<close>

definition yields :: "('a \<Rightarrow> bool) \<Rightarrow> ('s, 'a) io \<Rightarrow> bool" where
  "yields P m \<longleftrightarrow> (\<forall>s x s'. m s = (Inr x, s') \<longrightarrow> P x)"

lemma yields_return: "P x \<Longrightarrow> yields P (io_return x)" and yields_err: "yields P (io_err e)"
  by (simp_all add: yields_def io_return_def io_err_def)

lemma yields_bind: "(\<And>x. yields P (f x)) \<Longrightarrow> yields P (io_bind m f)"
  by (auto simp: yields_def io_bind_def split: prod.splits sum.splits)

lemma yields_cases:
  "yields P a \<Longrightarrow> yields P b \<Longrightarrow> yields P (if c then a else b)"
  "yields P a \<Longrightarrow> (\<And>x. yields P (g x)) \<Longrightarrow> yields P (case mo of None \<Rightarrow> a | Some x \<Rightarrow> g x)"
  "(\<And>e. yields P (h e)) \<Longrightarrow> (\<And>x. yields P (g x)) \<Longrightarrow> yields P (case r of Inl e \<Rightarrow> h e | Inr x \<Rightarrow> g x)"
  "(\<And>x y. yields P (k x y)) \<Longrightarrow> yields P (case p of (x, y) \<Rightarrow> k x y)"
  by (auto split: option.split sum.split prod.split)

lemma yields_let: "yields P (g x) \<Longrightarrow> yields P (let y = x in g y)"
  by simp

lemmas yields_intros = yields_return yields_err yields_bind yields_cases yields_let

lemma yields_or_else: "yields (pred_option P) c \<Longrightarrow> yields P m \<Longrightarrow> yields P (or_else c m)"
  unfolding yields_def or_else_def
  by (fastforce simp: io_bind_def io_return_def split: prod.splits sum.splits option.splits)

text \<open>The codes with which a post is answered.\<close>

definition post_code :: "answer \<Rightarrow> bool" where
  "post_code a \<longleftrightarrow> fst a \<in> {400, 404, 429, 500} \<and> (sn_status (lr_status (snd a)) = ''sold'' \<longrightarrow> fst a = 400)"

lemma error_statuses [simp]:
  "sn_status (lr_status (plain_error X b now c m e)) = ''error''" "sn_status (lr_status (server_error X b now e')) = ''error''"
  "sn_status (lr_status (error_body m e lead v c)) = ''error''"
  by (simp_all add: plain_error_def server_error_def error_body_def split: prod.split)

lemma post_codes:
  "post_code (404, plain_error X b now c m e)" "post_code (400, r)" "post_code (500, server_error X b now e)"
  "post_code (rate_limited n)" "post_code (duplicate_post X b now lead)" "post_code (post_answer X b now lead rr bn cn)"
  by (simp_all add: post_code_def rate_limited_def duplicate_post_def post_answer_def Let_def)

lemma handle_post_codes: "yields post_code (handle_post X A R vertical q now)"
  unfolding handle_post_def route_posted_def settle_posted_def by (intro yields_intros post_codes)

lemma check_codes:
  "yields (pred_option post_code) (check_publisher X A R vertical q now)"
  "yields (pred_option post_code) (check_fields X R vertical q now)"
  unfolding check_publisher_def check_fields_def
  by (intro yields_intros; simp add: post_codes)+

lemma handle_lead_codes:
  assumes "request_type_of (lq_lead q) = ''post''"
  shows "yields post_code (handle_lead X A R q now vertical)"
proof -
  have "handle_lead X A R q now vertical = or_else (check_publisher X A R vertical q now)
    (or_else (check_fields X R vertical q now) (handle_post X A R vertical q now))"
    by (simp add: handle_lead_def assms)
  then show ?thesis by (simp add: yields_or_else check_codes handle_post_codes)
qed

text \<open>C28: No post is ever answered with a success code: a lead that is sold is answered
  400 Bad Request, with the code 200 only in the body.\<close>

theorem post_never_succeeds:
  assumes "create_lead_post X A R q s = (Inr (code, resp), s')"
  shows "code \<in> {400, 404, 429, 500} \<and> (sn_status (lr_status resp) = ''sold'' \<longrightarrow> code = 400)"
proof -
  have "request_type_of (lq_lead q\<lparr>ld_request_type := Some ''post''\<rparr>) = ''post''"
    by (simp add: request_type_of_def unwrap_or_def to_lowercase_def lower_char_def is_upper_def)
  then have "yields post_code (create_lead_post X A R q)"
    unfolding create_lead_post_def create_lead_as_def create_lead_def Let_def
    by (intro yields_intros post_codes handle_lead_codes) simp
  then show ?thesis using assms unfolding yields_def post_code_def by fastforce
qed

lemma sample_rate: "rate_limit k now [] = (None, [(k, \<lparr> rb_window_start = now, rb_count = 1 \<rparr>)])"
  by (simp add: rate_limit_def current_bucket_def bucket_secs_def unwrap_or_def RATE_LIMIT_WINDOW_SECONDS_def
      RATE_LIMIT_PER_HOUR_def Let_def)

lemma sample_parts [simp]:
  "w_db (sample_world d) = d" "it_world (sample_intake d) = sample_world d" "it_buckets (sample_intake d) = []"
  "ri_cache sample_info = False" "p_id (ri_publisher sample_info) = 9" "lq_lead (sample_request data) = data"
  "ld_vertical sample_data = ''solar''"
  by (simp_all add: sample_world_def WriteBehindQueue_new_def sample_intake_def sample_info_def sample_publisher_def
      sample_request_def sample_data_def lead_data_of_def)

theorem post_never_succeeds_witness:
  "\<exists>code resp s'. create_lead_post plain_crypto sample_api sample_info (sample_request sample_data) (sample_intake empty_db)
     = (Inr (code, resp), s') \<and> code \<in> {400, 404, 429, 500}"
proof -
  have "\<exists>code resp s'. create_lead_post plain_crypto sample_api sample_info (sample_request sample_data)
      (sample_intake empty_db) = (Inr (code, resp), s')"
    by (simp add: create_lead_post_def create_lead_as_def create_lead_def check_rate_def sample_rate io_simps
        on_world_def current_time_def start_request_def find_vertical_def cached_lookup_def Vertical_find_by_slug_def
        db_query_optional_def db_query_def db_stmt_def first_row_def on_db_def elapsed_def on_metrics_def
        on_timing_def empty_db_def Let_def)
  then show ?thesis using post_never_succeeds by (metis (no_types))
qed

section \<open>What is recorded for a ping\<close>

lemma round2_positive:
  assumes "round2 (Some p) = Some b" and "f64_lt (Fin 0) b"
  shows "f64_lt (Fin 0) p"
proof -
  have nonpos: "f64_le (round64 x) (Fin 0)" if "x \<le> 0" for x
    using round64_mono [OF that] by simp
  have mul: "f64_le (f64_mul a (Fin 100)) (Fin 0)" if "f64_le a (Fin 0)" for a
    using that nonpos by (cases a) (auto simp: signed_inf_def)
  have rnd: "f64_le (f64_round a) (Fin 0)" if "f64_le a (Fin 0)" for a
    using that by (cases a) auto
  have dvd: "f64_le (f64_div a (Fin 100)) (Fin 0)" if "f64_le a (Fin 0)" for a
    using that nonpos by (cases a) (auto simp: signed_inf_def)
  have "\<not> f64_le p (Fin 0)"
  proof
    assume "f64_le p (Fin 0)"
    from dvd [OF rnd [OF mul [OF this]]] have "f64_le b (Fin 0)" using assms(1) by (simp add: round2_def)
    moreover have "b \<noteq> NaN" using assms(2) by auto
    ultimately show False using assms(2) f64_lt_not_le [of "Fin 0" b] by simp
  qed
  moreover have "p \<noteq> NaN" using assms by (auto simp: round2_def)
  ultimately show ?thesis by (simp add: f64_lt_not_le)
qed

text \<open>\<open>ends P m\<close>: whenever \<open>m\<close> returns, its value and its final state satisfy \<open>P\<close>.\<close>

definition ends :: "('a \<Rightarrow> 's \<Rightarrow> bool) \<Rightarrow> ('s, 'a) io \<Rightarrow> bool" where
  "ends P m \<longleftrightarrow> (\<forall>s x s'. m s = (Inr x, s') \<longrightarrow> P x s')"

lemma ends_return: "(\<And>s. P x s) \<Longrightarrow> ends P (io_return x)" and ends_err: "ends P (io_err e)"
  by (simp_all add: ends_def io_return_def io_err_def)

lemma ends_bind: "(\<And>x. ends P (f x)) \<Longrightarrow> ends P (io_bind m f)"
  by (auto simp: ends_def io_bind_def split: prod.splits sum.splits)

lemma ends_after:
  assumes "yields Q m" and "\<And>x. Q x \<Longrightarrow> ends P (f x)"
  shows "ends P (io_bind m f)"
  using assms unfolding ends_def yields_def by (fastforce simp: io_bind_def split: prod.splits sum.splits)

lemma ends_cases:
  "ends P a \<Longrightarrow> ends P b \<Longrightarrow> ends P (if c then a else b)"
  "ends P a \<Longrightarrow> (\<And>x. ends P (g x)) \<Longrightarrow> ends P (case mo of None \<Rightarrow> a | Some x \<Rightarrow> g x)"
  "(\<And>e. ends P (h e)) \<Longrightarrow> (\<And>x. ends P (g x)) \<Longrightarrow> ends P (case r of Inl e \<Rightarrow> h e | Inr x \<Rightarrow> g x)"
  "(\<And>x y. ends P (k x y)) \<Longrightarrow> ends P (case p of (x, y) \<Rightarrow> k x y)"
  by (auto split: option.split sum.split prod.split)

lemmas ends_intros = ends_return ends_err ends_bind ends_cases

lemma ends_or_else:
  "yields (pred_option (\<lambda>a. \<forall>s. P a s)) c \<Longrightarrow> ends P m \<Longrightarrow> ends P (or_else c m)"
  unfolding ends_def yields_def or_else_def
  by (fastforce simp: io_bind_def io_return_def split: prod.splits sum.splits option.splits)

text \<open>What the router reports when a ping is accepted.\<close>

definition sound_accept :: "RoutingResult \<Rightarrow> bool" where
  "sound_accept r \<longleftrightarrow> (rr_status r = ''accepted'' \<longrightarrow>
     rr_success r \<and> is_some (rr_campaign_id r) \<and> is_some (rr_buyer_id r))"

lemma failed_sound: "st \<noteq> ''accepted'' \<Longrightarrow> sound_accept (failed_routing st e ts)"
  by (simp add: sound_accept_def failed_routing_def)

lemma mapped_accepted: "map_ping_status_to_lead_status st ok = ''accepted'' \<Longrightarrow> ok"
  by (cases ok) (simp_all add: map_ping_status_to_lead_status_def Let_def split: if_splits)

lemma no_valid_not_accepted: "LeadStatus_as_str (no_valid_status a b n) \<noteq> ''accepted''"
  by (simp add: no_valid_status_def)

lemma settle_sound: "yields sound_accept (settle_ping_auction X r cs es ts)"
  unfolding settle_ping_auction_def Let_def
  by (intro yields_intros failed_sound no_valid_not_accepted)
    (auto simp: sound_accept_def is_some_def intro: mapped_accepted)

lemma ping_routing_sound:
  assumes "pr_request_type r = ''ping''"
  shows "yields sound_accept (route_shared X S key r)"
proof -
  have dispatch: "dispatch X S key r tree cs ps is qs = route_ping_auction X S key r cs ps is qs" for tree cs ps "is" qs
    by (simp add: dispatch_def assms)
  show ?thesis
    unfolding route_shared_def route_tree_def dispatch route_ping_auction_def refuse_def Let_def
    by (intro yields_intros failed_sound settle_sound) simp_all
qed

text \<open>The last task queued records a sale.\<close>

definition records_sale :: "WriteBehindQueue \<Rightarrow> bool" where
  "records_sale wq \<longleftrightarrow> wq_channel wq \<noteq> [] \<and>
     (case last (wq_channel wq) of LeadUpdate u \<Rightarrow> lu_status u = LS_Sold \<and> lu_sold_at u | _ \<Rightarrow> False)"

definition bid_positive :: "LeadResponse \<Rightarrow> bool" where
  "bid_positive resp = (case ln_bid (lr_lead resp) of Some b \<Rightarrow> f64_lt (Fin 0) b | None \<Rightarrow> False)"

definition ping_recorded :: "answer \<Rightarrow> intake \<Rightarrow> bool" where
  "ping_recorded a s \<longleftrightarrow>
     (sn_status (lr_status (snd a)) = ''accepted'' \<and> bid_positive (snd a) \<and> \<not> wq_finished (w_queue (it_world s))
      \<longrightarrow> records_sale (w_queue (it_world s)))"

lemma accepted_is_sold:
  assumes "sound_accept r" and "rr_status r = ''accepted''" and "bid_positive (snd (routed_answer X ty u i r v))"
  shows "final_status r = LS_Sold"
proof -
  obtain b where "round2 (rr_price r) = Some b" "f64_lt (Fin 0) b"
    using assms(3) by (auto simp: bid_positive_def routed_answer_def Let_def split: option.splits if_splits)
  then have "has_price r"
    by (auto simp: has_price_def round2_def intro: round2_positive [unfolded round2_def] split: option.splits)
  then show ?thesis using assms by (simp add: final_status_def sound_accept_def)
qed

lemma enqueue_then_return:
  assumes "\<not> wq_finished (w_queue (it_world s'))"
    and "io_bind (on_world (enqueue_task t)) (\<lambda>_. io_return a) s = (Inr x, s')"
  shows "x = a \<and> wq_channel (w_queue (it_world s')) = wq_channel (w_queue (it_world s)) @ [t]"
  using assms by (auto simp: io_bind_def on_world_def enqueue_task_def io_modify_def io_return_def enqueue_def split: if_splits)

lemma settle_routed_records:
  assumes "sound_accept r"
  shows "ends ping_recorded (settle_routed X A R q u i r)"
proof -
  have "ends ping_recorded (io_bind (on_world (enqueue_task (LeadUpdate (routed_update u r stored))))
     (\<lambda>_. io_return (routed_answer X ty u i r v)))" for ty v stored
    unfolding ends_def ping_recorded_def
  proof (intro allI impI, elim conjE)
    fix s a s'
    assume run: "io_bind (on_world (enqueue_task (LeadUpdate (routed_update u r stored))))
        (\<lambda>_. io_return (routed_answer X ty u i r v)) s = (Inr a, s')"
      and a: "sn_status (lr_status (snd a)) = ''accepted''" "bid_positive (snd a)" "\<not> wq_finished (w_queue (it_world s'))"
    note e = enqueue_then_return [OF a(3) run]
    then have "rr_status r = ''accepted''" using a(1) by (simp add: routed_answer_def Let_def)
    then have "final_status r = LS_Sold" using accepted_is_sold [OF assms] e a(2) by blast
    then show "records_sale (w_queue (it_world s'))" using e by (simp add: records_sale_def routed_update_def)
  qed
  note last = this
  show ?thesis unfolding settle_routed_def Let_def
    by (rule ends_bind, rule ends_bind, rule ends_bind, rule ends_bind, rule last)
qed

lemma not_accepted:
  "ping_recorded (c, plain_error X b now c' m e) s" "ping_recorded (c, server_error X b now e) s"
  "ping_recorded (rate_limited n) s" "ping_recorded (prechecks_failed X b now ps) s"
  "ping_recorded (async_answer X b now ty u i p) s" "ping_recorded (c, error_body m e l v c') s"
  by (simp_all add: ping_recorded_def rate_limited_def prechecks_failed_def async_answer_def Let_def)

lemma route_created_records:
  assumes "request_type_of (lq_lead q) = ''ping''"
  shows "ends ping_recorded (route_created X A R vertical q lead lead_id now)"
proof -
  have "pr_request_type (router_with_timing_and_metrics (PingTreeRouter_new lead p slug ''ping'' cached True)) = ''ping''"
    "pr_shared (router_with_timing_and_metrics (PingTreeRouter_new lead p slug ty cached True))" for p slug cached ty
    by (simp_all add: router_with_timing_and_metrics_def PingTreeRouter_new_def)
  then have "yields sound_accept (route_new X A R vertical q lead)"
    using ping_routing_sound unfolding yields_def route_new_def PingTreeRouter_route_def assms by simp blast
  then have routed: "yields (\<lambda>res. \<forall>r. res = Inr r \<longrightarrow> sound_accept r) (io_catch (on_world (route_new X A R vertical q lead)))"
    unfolding yields_def io_catch_def on_world_def
    by (fastforce simp: io_bind_def io_try_def io_return_def io_err_def split: prod.splits if_splits)
  show ?thesis
    unfolding route_created_def
    by (rule ends_after [OF routed], rule ends_bind)
      (auto split: sum.split intro!: ends_return settle_routed_records not_accepted)
qed

text \<open>C25: A ping that is answered as accepted with a positive bid is recorded as sold: the last task
  that its request queues sets the status of the lead to sold and its time of sale, although the
  lead was only offered.\<close>

theorem accepted_ping_recorded_sold:
  assumes "create_lead_ping X A R q s = (Inr (code, resp), s')"
    and "sn_status (lr_status resp) = ''accepted''" and "bid_positive resp"
    and "\<not> wq_finished (w_queue (it_world s'))"
  shows "records_sale (w_queue (it_world s'))"
proof -
  let ?q = "q\<lparr>lq_lead := lq_lead q\<lparr>ld_request_type := Some ''ping''\<rparr>\<rparr>"
  have ty: "request_type_of (lq_lead ?q) = ''ping''"
    by (simp add: request_type_of_def unwrap_or_def to_lowercase_def lower_char_def is_upper_def)
  have "ends ping_recorded (admit_lead X A R v ?q now campaign buyer key)" for v now campaign buyer key
    unfolding admit_lead_def Let_def
    by (intro ends_intros route_created_records ty not_accepted)
  then have new: "ends ping_recorded (create_new X A R v ?q now)" for v now
    unfolding create_new_def Let_def by (intro ends_intros not_accepted)
  have checks: "yields (pred_option (\<lambda>a. \<forall>s. ping_recorded a s)) (check_publisher X A R v ?q now)"
    "yields (pred_option (\<lambda>a. \<forall>s. ping_recorded a s)) (check_fields X R v ?q now)" for v now
    unfolding check_publisher_def check_fields_def
    by (intro yields_intros; simp only: option.pred_inject; intro TrueI allI not_accepted)+
  have "ends ping_recorded (handle_lead X A R ?q now v)" for now v
  proof -
    have "handle_lead X A R ?q now v = or_else (check_publisher X A R v ?q now)
      (or_else (check_fields X R v ?q now) (create_new X A R v ?q now))" unfolding handle_lead_def ty by simp
    then show ?thesis using checks new by (simp add: ends_or_else)
  qed
  then have "ends ping_recorded (create_lead_ping X A R q)"
    unfolding create_lead_ping_def create_lead_as_def create_lead_def Let_def
    by (intro ends_intros not_accepted)
  then show ?thesis using assms unfolding ends_def ping_recorded_def by fastforce
qed

text \<open>A publisher with a campaign of an internal buyer, in an active ping tree.\<close>

definition market_db :: db where
  "market_db = empty_db\<lparr>verticals := [sample_vertical], publishers := [sample_publisher],
     buyers := [(sample_buyer 2)\<lparr>b_vertical_id := Some 1\<rparr>], buyer_integrations := [sample_integration True],
     campaigns := [(sample_campaign 1 2)\<lparr>c_publisher_id := 9\<rparr>], ping_trees := [sample_tree],
     ping_tree_publishers := [\<lparr> ptp_id = 1, ptp_ping_tree_id = 5, ptp_publisher_id = 9, ptp_vertical = ''solar'',
       ptp_revshare_percentage = None, ptp_revshare_flat_amount = None, ptp_created_at = 0, ptp_updated_at = 0 \<rparr>],
     ping_tree_campaigns := [\<lparr> ptc_id = 1, ptc_ping_tree_id = 5, ptc_campaign_id = 1, ptc_priority = None,
       ptc_min_price = None, ptc_max_price = None, ptc_enabled = True, ptc_created_at = 0, ptc_updated_at = 0 \<rparr>]\<rparr>"

definition full_data :: LeadData where
  "full_data = sample_data\<lparr>ld_publisher_id := Some ''9'', ld_zip := Some ''90210'', ld_ip_address := Some ''1.2.3.4'',
     ld_monthly_bill := Some (Fin 150), ld_own_home := Some True, ld_roof_shade := Some ''none'',
     ld_credit_rating := Some ''good'', ld_tcpa_consent := Some True, ld_tcpa_language := Some ''yes'',
     ld_trusted_form_url := Some ''u''\<rparr>"

definition market_api :: apilib where
  "market_api = sample_api\<lparr>ap_uuid_parse := (\<lambda>_. Some 9)\<rparr>"

section \<open>The rate limit\<close>

text \<open>How many requests of a publisher are admitted in a sequence of requests.\<close>

fun admitted :: "string \<Rightarrow> (string \<times> timestamp) list \<Rightarrow> (string \<times> RateBucket) list \<Rightarrow> nat" where
  "admitted k [] buckets = 0"
| "admitted k ((k', t) # rs) buckets =
     (case rate_limit k' t buckets of (wait, buckets') \<Rightarrow>
        (if k' = k \<and> wait = None then 1 else 0) + admitted k rs buckets')"

lemma rate_limit_other: "k' \<noteq> k \<Longrightarrow> map_of (snd (rate_limit k' t buckets)) k = map_of buckets k"
  by (simp add: rate_limit_def Let_def AList.update_conv')

lemma count_small:
  assumes "c \<le> 360"
  shows "RATE_LIMIT_PER_HOUR \<le> (of_nat c :: u32) \<longleftrightarrow> c = 360"
  using assms by (simp add: RATE_LIMIT_PER_HOUR_def word_le_nat_alt unat_of_nat)

lemma rate_limit_within:
  assumes "map_of buckets k = Some \<lparr> rb_window_start = t0, rb_count = of_nat c \<rparr>" and "c \<le> 360"
    and "t < t0 + 3600000"
  shows "\<exists>buckets'. rate_limit k t buckets = (if c = 360 then Some (3600 - (t - t0) div 1000) else None, buckets')
    \<and> map_of buckets' k = Some \<lparr> rb_window_start = t0, rb_count = of_nat (min 360 (c + 1)) \<rparr>"
proof -
  have "(t - t0) div 1000 < 3600" using assms(3) by (simp add: less_mult_imp_div_less)
  moreover have "min 360 (c + 1) = (if c = 360 then c else c + 1)" using assms(2) by simp
  ultimately show ?thesis using assms
    by (auto simp: rate_limit_def current_bucket_def unwrap_or_def bucket_secs_def RATE_LIMIT_WINDOW_SECONDS_def
        count_small Let_def AList.update_conv')
qed

lemma admitted_within:
  assumes "map_of buckets k = Some \<lparr> rb_window_start = t0, rb_count = of_nat c \<rparr>" and "c \<le> 360"
    and "list_all (\<lambda>(k', t). k' = k \<longrightarrow> t < t0 + 3600000) rs"
  shows "admitted k rs buckets = min (length (filter (\<lambda>r. fst r = k) rs)) (360 - c)"
  using assms
proof (induction rs arbitrary: buckets c)
  case Nil
  then show ?case by simp
next
  case (Cons r rs)
  obtain k' t where r: "r = (k', t)" by force
  show ?case
  proof (cases "k' = k")
    case True
    then obtain buckets' where b: "rate_limit k t buckets = (if c = 360 then Some (3600 - (t - t0) div 1000) else None, buckets')"
      "map_of buckets' k = Some \<lparr> rb_window_start = t0, rb_count = of_nat (min 360 (c + 1)) \<rparr>"
      using rate_limit_within [OF Cons.prems(1,2)] Cons.prems(3) r by auto
    have "admitted k rs buckets' = min (length (filter (\<lambda>r. fst r = k) rs)) (360 - min 360 (c + 1))"
      using Cons.IH [OF b(2)] Cons.prems(3) by simp
    moreover have "(if c = 360 then 0 else 1) + min n (360 - min 360 (c + 1)) = min (Suc n) (360 - c)" for n
    proof (cases "c = 360")
      case False
      then have "360 - c = Suc (360 - (c + 1))" "min 360 (c + 1) = c + 1" using Cons.prems(2) by linarith+
      then show ?thesis using False by simp
    qed simp
    ultimately show ?thesis using r True b(1) by (auto split: if_splits)
  next
    case False
    have "map_of (snd (rate_limit k' t buckets)) k = Some \<lparr> rb_window_start = t0, rb_count = of_nat c \<rparr>"
      using rate_limit_other [OF False] Cons.prems(1) by simp
    then have "admitted k rs (snd (rate_limit k' t buckets)) = min (length (filter (\<lambda>r. fst r = k) rs)) (360 - c)"
      using Cons.IH Cons.prems(2,3) by simp
    then show ?thesis using r False by (auto split: prod.split)
  qed
qed

text \<open>C27: Of the requests that a publisher makes within an hour of its first one, exactly the first
  360 are admitted, whatever other publishers send in between.\<close>

theorem rate_limit_exact:
  assumes "map_of buckets k = None"
    and "list_all (\<lambda>(k', t). k' = k \<longrightarrow> t < t0 + 3600000) rs"
  shows "admitted k ((k, t0) # rs) buckets = min (length (filter (\<lambda>r. fst r = k) ((k, t0) # rs))) 360"
proof -
  have "\<exists>buckets'. rate_limit k t0 buckets = (None, buckets')
      \<and> map_of buckets' k = Some \<lparr> rb_window_start = t0, rb_count = of_nat 1 \<rparr>"
    using assms(1) by (simp add: rate_limit_def current_bucket_def unwrap_or_def bucket_secs_def
        RATE_LIMIT_WINDOW_SECONDS_def RATE_LIMIT_PER_HOUR_def Let_def AList.update_conv')
  then obtain buckets' where b: "rate_limit k t0 buckets = (None, buckets')"
    "map_of buckets' k = Some \<lparr> rb_window_start = t0, rb_count = of_nat 1 \<rparr>" by blast
  from admitted_within [OF b(2) _ assms(2)] show ?thesis using b(1) by simp
qed

theorem rate_limit_exact_witness:
  "admitted ''a'' ((''a'', 5) # replicate 400 (''b'', 6) @ replicate 500 (''a'', 7)) [] = 360"
  using rate_limit_exact [of "[]" "''a''" 5 "replicate 400 (''b'', 6) @ replicate 500 (''a'', 7)"]
  by (simp add: list_all_iff)

section \<open>A lead without a campaign\<close>

lemma never_fails_on_world [preserves_intros]: "never_fails m \<Longrightarrow> never_fails (on_world m)"
  unfolding never_fails_def on_world_def by (auto split: prod.split) (metis fst_conv)

lemma keys_never_fail [preserves_intros]:
  "never_fails (retry_key p r)" "never_fails (pre_warm_ssm_keys env)"
  unfolding retry_key_def pre_warm_ssm_keys_def by (intro preserves_intros)+

lemma load_keys_never_fails: "never_fails (load_keys env)"
  unfolding load_keys_def by (intro preserves_intros)

lemma frame_ssm [frame_intros]:
  "frame stored (ssm_get_parameter p)" "frame stored (io_modify (\<lambda>s. s\<lparr>it_keys := g s\<rparr>))"
  by (simp_all add: frame_def ssm_get_parameter_def on_ssm_def io_modify_def stored_def quiet_def Let_def split: prod.split)

lemma frame_load_keys [frame_intros]:
  "frame stored (get_ssm_parameter_cached p)" "frame stored (load_keys env)"
proof -
  show c: "frame stored (get_ssm_parameter_cached p)" for p
    unfolding get_ssm_parameter_cached_def Let_def by (intro frame_intros)
  show "frame stored (load_keys env)"
    unfolding load_keys_def retry_key_def pre_warm_ssm_keys_def by (intro frame_intros c)
qed

text \<open>\<open>panics m\<close>: running \<open>m\<close> panics and leaves queue and tables alone.\<close>

definition panics :: "(intake, 'a) io \<Rightarrow> bool" where
  "panics m \<longleftrightarrow> (\<forall>s. fst (m s) = Inl PANIC \<and> stored (snd (m s)) = stored s)"

lemma panics_bind:
  assumes "never_fails m" and "frame stored m" and "\<And>x. panics (f x)"
  shows "panics (io_bind m f)"
  unfolding panics_def
proof
  fix s
  obtain x s' where "m s = (Inr x, s')" using assms(1) by (rule never_fails_run)
  then show "fst (io_bind m f s) = Inl PANIC \<and> stored (snd (io_bind m f s)) = stored s"
    using assms(2,3) by (auto simp: io_bind_def panics_def dest: frameD)
qed

lemma draws_never_fail [preserves_intros]: "never_fails draw" "never_fails draw_uuid" "never_fails elapsed" "never_fails (on_timing g)"
  by (simp_all add: never_fails_def draw_def draw_uuid_def elapsed_def on_timing_def io_modify_def)

lemma never_fails_mapM [preserves_intros]: "(\<And>x. never_fails (g x)) \<Longrightarrow> never_fails (io_mapM g xs)"
  by (induction xs) (auto intro!: preserves_intros)

lemma ids_never_fail [preserves_intros]:
  "never_fails (generate_lead_id slug)" "never_fails (prefixed_uuid X p)" "never_fails (new_promise X ty)"
  unfolding generate_lead_id_def random_chars_def prefixed_uuid_def new_promise_def generate_promise_id_def hex_nonce_def
  by (intro preserves_intros)+

lemma ids_quiet [frame_intros]:
  "frame w_queue (generate_lead_id slug)" "frame w_queue (new_promise X ty)"
  unfolding generate_lead_id_def random_chars_def new_promise_def generate_promise_id_def hex_nonce_def
  by (intro frame_intros)+

lemma panics_cases:
  "panics (io_err PANIC)" "(\<And>x y. panics (k x y)) \<Longrightarrow> panics (case p of (x, y) \<Rightarrow> k x y)"
  by (simp_all add: panics_def io_err_def split: prod.split)

lemma on_world_return: "on_world (on_db (io_return x)) = io_return x"
proof -
  have "set_db (w_db w) w = w" for w by (simp add: set_db_def)
  then show ?thesis by (simp add: on_world_def on_db_def io_return_def fun_eq_iff)
qed

lemma admit_without_campaign: "panics (admit_lead X A R vertical q now None (Some b) key)"
  unfolding admit_lead_def Let_def io_ok_or_def option.case io_bind_return io_bind_err
  by (intro panics_bind panics_cases preserves_intros frame_intros)

text \<open>A ping or fullpost without campaign token, of a publisher that has no campaign of its own
  but a ping tree with a buyer, panics: the request gets no answer and the lead is lost.\<close>

theorem campaignless_lead_panics:
  assumes "ri_cache R = False" and "ld_campaign_token (lq_lead q) = None"
    and "db_faults (w_db (it_world s)) = []"
    and "prechecks_row (p_id (ri_publisher R)) (v_slug vertical) [] (w_db (it_world s)) = (None, Some b, True)"
  shows "fst (create_new X A R vertical q now s) = Inl PANIC \<and> stored (snd (create_new X A R vertical q now s)) = stored s"
proof -
  let ?row = "(None, Some b, True) :: uuid option \<times> uuid option \<times> bool"
  obtain s1 where lookup: "on_world (cached_lookup False (ap_prechecks A) key 300 db_error
      (prechecks_query (p_id (ri_publisher R)) (v_slug vertical) [])) s = (Inr (Inr (Some ?row)), s1) \<and> stored s1 = stored s" for key
    using assms(3,4)
    by (simp add: on_world_def cached_lookup_def io_bind_def io_try_def on_db_def prechecks_query_def db_query_def db_stmt_def
        io_get_def elapsed_def on_metrics_def io_modify_def io_return_def stored_def quiet_def Let_def)
  have judged: "judge_prechecks slug None (Inr (Some ?row)) = io_return (None, Some b, [])" for slug
    by (simp add: judge_prechecks_def row_problems_def is_some_def)
  have admit: "(if ([] :: string list) \<noteq> [] then m else m') = m'" for m m' :: "(intake, answer) io" by simp
  have "panics (io_bind (load_keys (ri_environment R)) (\<lambda>(det, salt).
      io_bind (on_world (io_bind elapsed (\<lambda>d. on_timing (record_pre_checks d)))) (\<lambda>_.
      io_bind (on_world (on_db (judge_prechecks (v_slug vertical) None (Inr (Some ?row))))) (\<lambda>(campaign, buyer, problems).
      if problems \<noteq> [] then io_return (prechecks_failed X v now problems)
      else admit_lead X A R vertical q now campaign buyer (derived_key X det salt)))))" for v
    unfolding judged on_world_return io_bind_return prod.case admit
    by (intro panics_bind panics_cases admit_without_campaign load_keys_never_fails preserves_intros frame_intros)
  then show ?thesis
    unfolding create_new_def Let_def assms(1,2) panics_def
    using lookup by (simp add: io_bind_def unwrap_or_def)
qed

section \<open>A run of a ping\<close>

text \<open>How the handler is evaluated: a computation is unfolded where it is applied to a state.\<close>

lemma io_apply:
  "io_bind m f s = (case m s of (r, s') \<Rightarrow> case r of Inl e \<Rightarrow> (Inl e, s') | Inr x \<Rightarrow> f x s')"
  "io_return x s = (Inr x, s)" "io_try m s = (case m s of (r, s') \<Rightarrow> (Inr r, s'))"
  by (simp_all add: io_bind_def io_return_def io_try_def split: prod.split sum.split)

lemma io_bind_weak: "m = m' \<Longrightarrow> io_bind m f = io_bind m' f"
  by simp

lemma market_parts [simp]:
  "leads market_db = []" "campaigns market_db = [(sample_campaign 1 2)\<lparr>c_publisher_id := 9\<rparr>]"
  "buyers market_db = [(sample_buyer 2)\<lparr>b_vertical_id := Some 1\<rparr>]"
  "buyer_integrations market_db = [sample_integration True]" "buyer_qualification_configs market_db = []"
  "verticals market_db = [sample_vertical]" "ping_trees market_db = [sample_tree]" "db_faults market_db = []"
  "db_now market_db = 0" "buyer_integration_credentials market_db = []"
  "ping_tree_publishers market_db = [\<lparr> ptp_id = 1, ptp_ping_tree_id = 5, ptp_publisher_id = 9, ptp_vertical = ''solar'',
       ptp_revshare_percentage = None, ptp_revshare_flat_amount = None, ptp_created_at = 0, ptp_updated_at = 0 \<rparr>]"
  "ping_tree_campaigns market_db = [\<lparr> ptc_id = 1, ptc_ping_tree_id = 5, ptc_campaign_id = 1, ptc_priority = None,
       ptc_min_price = None, ptc_max_price = None, ptc_enabled = True, ptc_created_at = 0, ptc_updated_at = 0 \<rparr>]"
  by (simp_all add: market_db_def empty_db_def)

definition market_request :: LeadRequest where
  "market_request = sample_request (full_data\<lparr>ld_request_type := Some ''ping''\<rparr>)"

lemma request_parts [simp]:
  "ld_vertical full_data = ''solar''" "ld_campaign_token full_data = None" "ld_publisher_id full_data = Some ''9''"
  "lq_verbose market_request = None" "lq_lead market_request = full_data\<lparr>ld_request_type := Some ''ping''\<rparr>"
  "missing_required_lead_field (full_data\<lparr>ld_request_type := Some ''ping''\<rparr>) ''ping'' = None"
  "ri_params sample_info = []" "ri_headers sample_info = []" "ap_uuid_parse market_api u = Some 9"
  "v_slug sample_vertical = ''solar''" "v_is_active sample_vertical" "v_id sample_vertical = 1" "ap_codecs market_api = no_codecs"
  "pt_id sample_tree = 5" "pt_status sample_tree = ''active''" "pt_deleted_at sample_tree = None"
  "pt_vertical sample_tree = ''solar''" "pt_priority sample_tree = Some 1" "pt_created_at sample_tree = 0"
  by (simp_all add: full_data_def sample_data_def lead_data_of_def market_request_def sample_request_def
      missing_required_lead_field_def required_fields_def has_field_def is_some_def unwrap_or_def
      sample_info_def sample_vertical_def market_api_def sample_api_def sample_tree_def)

text \<open>The states of the run: nothing prescribed is left, and the database is the market.\<close>

abbreviation market_world :: "BackgroundTask list \<Rightarrow> CacheService \<Rightarrow> DiagnosticMetrics \<Rightarrow> AtomicAuctionTiming \<Rightarrow> world" where
  "market_world ch c m t \<equiv> \<lparr>w_queue = \<lparr>wq_channel = ch, wq_batch = [], wq_shutdown = False, wq_senders_gone = False,
       wq_finished = False, wq_flushed = [], wq_db = market_db\<rparr>,
     w_cache = c, w_metrics = m, w_timing = t, w_random = [], w_elapsed = [], w_http = [], w_requests = [],
     w_deadlines = [], w_orders = []\<rparr>"

lemmas router_eval = io_apply io_get_def io_modify_def io_err_def io_ok_or_def Let_def
  current_time_def db_query_optional_def db_query_def db_stmt_def first_row_def on_db_def elapsed_def
  on_metrics_def on_timing_def set_db_def route_shared_def load_tree_def cache_stats_def count_cache_def
  PingTree_find_for_routing_def routing_rows_def nulls_last_def PingTree_is_active_def load_tree_campaigns_def
  PingTreeCampaign_find_enabled_def route_tree_def load_buyer_ids_def ok_or_default_def distinct_buyers_def
  load_associations_def Campaign_find_by_ids_with_associations_def join_buyer_def join_integration_def
  load_configs_def QualificationConfig_find_by_buyer_ids_def active_configs_def group_configs_def
  routable_campaigns_def active_campaign_def find_campaign_def Campaign_active_def map_filter_def
  integration_map_def priority_map_def dispatch_def route_ping_auction_def ask_buyers_def ask_buyer_def
  completion_order_def get_stats_def sample_campaign_def sample_buyer_def sample_integration_def io_catch_def
  is_some_def unwrap_or_def io_when_def BuyerRouter_route_def buyer_route_ping_def
  with_preloaded_integration_def with_preloaded_qual_config_def with_timing_and_metrics_def with_cache_def
  BuyerRouter_new_def get_buyer_integration_def check_internal_def timed_call_def route_ping_direct_sync_def
  qualifies_without_config random_bid_def draw_def pulsar_ping_accepted_def generate_promise_id_def
  hex_nonce_def generate_ping_id_def collect_responses_def outcome_response_def ping_response_row_def
  store_ping_responses_def settle_ping_auction_def valid_ping_response_def select_winner_def valid_bid_def
  sort_by_def near_def map_ping_status_to_lead_status_def enqueue_task_def enqueue_def priority_in_def
  unique_ping_id_def flatten_option_def to_lowercase_def lower_char_def is_upper_def upt_rec
  Buyer_find_by_id_def BuyerIntegration_find_by_id_def find_buyer_def find_integration_def starts_with_def
  id_or_new_def f64_of_int_def auction_eval non_empty_def winner_update_def

lemma market_route:
  "\<exists>r w'. route_shared X no_codecs k \<lparr>pr_lead = l, pr_publisher_id = 9, pr_vertical = ''solar'', pr_request_type = ''ping'',
       pr_cache = False, pr_shared = True, pr_queue = True\<rparr> (market_world ch c m t) = (Inr r, w')
     \<and> rr_status r = ''accepted'' \<and> rr_price r = Some (Fin 100) \<and> \<not> wq_finished (w_queue w')"
  by (simp add: router_eval del: io_bind_return cong: io_bind_weak)

lemma no_store_empty:
  assumes "it_ssm s = no_store" and "cs_redis (w_cache (it_world s)) = None"
  shows "ssm_get_parameter path s = (Inr None, s)"
proof -
  have a: "get_parameter path True no_store = (Inr None, no_store)"
    by (simp add: get_parameter_def recall_def ask_store_def parameter_missing_def remember_def
        try_dev_encryption_fallback_def no_store_def SsmService_new_def io_simps)
  have b: "no_store\<lparr>sm_redis := None\<rparr> = no_store" "sm_redis no_store = None"
    by (simp_all add: no_store_def SsmService_new_def)
  have c: "s\<lparr>it_ssm := no_store, it_world := it_world s\<lparr>w_cache := (w_cache (it_world s))\<lparr>cs_redis := None\<rparr>\<rparr>\<rparr> = s"
    using assms by (cases s; cases "it_world s"; cases "w_cache (it_world s)") simp
  show ?thesis by (simp only: ssm_get_parameter_def on_ssm_def Let_def assms a b c prod.case)
qed

lemma new_cache_redis: "cs_redis (CacheService_new r env now evictions) = r"
  by (simp add: CacheService_new_def)

lemmas intake_eval = io_apply io_get_def io_modify_def io_err_def Let_def
  create_lead_def check_rate_def sample_rate on_world_def current_time_def start_request_def find_vertical_def
  cached_lookup_def Vertical_find_by_slug_def db_query_optional_def db_query_def db_stmt_def first_row_def
  on_db_def elapsed_def on_metrics_def on_timing_def handle_lead_def or_else_def check_publisher_def
  check_fields_def request_type_of_def unwrap_or_def to_lowercase_def lower_char_def is_upper_def
  create_new_def prechecks_query_def prechecks_row_def publisher_campaign_def vertical_buyers_def
  active_vertical_def sample_campaign_def sample_buyer_def active_trees_def tree_buyers_def
  judge_prechecks_def row_problems_def is_some_def load_keys_def missing_key_def get_ssm_parameter_cached_def
  no_store_empty new_cache_redis cached_key_def Collect_conv_if sample_intake_def sample_world_def
  WriteBehindQueue_new_def set_db_def Campaign_active_def admit_lead_def generate_lead_id_def random_chars_def
  prefixed_uuid_def draw_uuid_def draw_def new_promise_def generate_promise_id_def hex_nonce_def io_ok_or_def
  enqueue_task_def enqueue_def upt_rec param_true_def

lemma market_intake:
  "\<exists>l i s ch c m t. create_lead X market_api sample_info market_request (sample_intake market_db)
     = route_created X market_api sample_info sample_vertical market_request l i 0 s \<and> it_world s = market_world ch c m t"
  apply (simp add: intake_eval del: io_bind_return cong: io_bind_weak)
  apply (intro exI conjI, rule refl, simp)
  done

text \<open>Whether the batcher has ended.\<close>

definition ended :: "intake \<Rightarrow> bool" where
  "ended s = wq_finished (w_queue (it_world s))"

lemma frame_ended [frame_intros]:
  "frame ended (on_world (enqueue_task t))" "frame ended (on_world (on_db m))" "frame w_queue m' \<Longrightarrow> frame ended (on_world m')"
  "frame ended (ssm_get_parameter p)" "frame ended (io_modify (\<lambda>s. s\<lparr>it_keys := g s\<rparr>))"
  by (simp_all add: frame_def ended_def on_world_def enqueue_task_def enqueue_def io_modify_def on_db_def
      ssm_get_parameter_def on_ssm_def Let_def split: prod.split)
    (metis snd_conv)

lemma frame_ended_keys [frame_intros]:
  "frame ended (get_ssm_parameter_cached p)" "frame ended (fetch_pii_encryption_key X env)" "frame ended (uncached_key X env)"
proof -
  show c: "frame ended (get_ssm_parameter_cached p)" for p
    unfolding get_ssm_parameter_cached_def Let_def by (intro frame_intros)
  show "frame ended (fetch_pii_encryption_key X env)" "frame ended (uncached_key X env)"
    unfolding fetch_pii_encryption_key_def uncached_key_def by (intro frame_intros c)+
qed

lemma never_fails_io_when [preserves_intros]: "never_fails m \<Longrightarrow> never_fails (io_when b m)"
  by (simp add: io_when_def preserves_intros)

lemma keys_return [preserves_intros]:
  "never_fails (fetch_pii_encryption_key X env)" "never_fails (uncached_key X env)" "never_fails (enqueue_task t)"
  "never_fails current_time" "never_fails (spawn m)"
  unfolding fetch_pii_encryption_key_def uncached_key_def enqueue_task_def current_time_def spawn_def
  by (intro preserves_intros)+

lemma context_returns [preserves_intros]: "never_fails (request_context_from_headers X R a b c d)"
  unfolding request_context_from_headers_def Let_def by (intro preserves_intros)

lemma context_frame [frame_intros]: "frame w_queue (request_context_from_headers X R a b c d)"
  unfolding request_context_from_headers_def Let_def by (intro frame_intros)

lemma run_then:
  assumes "never_fails m" and "frame ended m" and "\<And>x s. \<exists>s'. f x s = (Inr a, s') \<and> ended s' = ended s"
  shows "\<exists>s'. io_bind m f s = (Inr a, s') \<and> ended s' = ended s"
proof -
  obtain x s1 where "m s = (Inr x, s1)" using assms(1) by (rule never_fails_run)
  moreover from this have "ended s1 = ended s" using assms(2) by (auto dest: frameD)
  ultimately show ?thesis using assms(3) [of x s1] by (simp add: io_bind_def)
qed

lemma settle_routed_returns:
  assumes "\<not> verbose_requested R q"
  shows "\<exists>s'. settle_routed X A R q u i r s = (Inr (routed_answer X (request_type_of (lq_lead q)) u i r None), s') \<and> ended s' = ended s"
proof -
  have "report_routing X A R q r = io_return None" by (simp add: report_routing_def assms)
  moreover have "on_world (io_return x) = io_return x" for x :: "json option"
    by (simp add: on_world_def io_return_def fun_eq_iff)
  ultimately have eq: "settle_routed X A R q u i r =
      io_bind (enqueue_payloads X R u (lq_lead q) r) (\<lambda>_.
      io_bind (on_world (auction_timing_data X R u (request_type_of (lq_lead q)) r)) (\<lambda>stored.
      io_bind (io_when (final_status r = LS_Sold) (spawn (on_world (sold_safety_net u r stored)))) (\<lambda>_.
      io_bind (on_world (enqueue_task (LeadUpdate (routed_update u r stored)))) (\<lambda>_.
      io_return (routed_answer X (request_type_of (lq_lead q)) u i r None)))))"
    by (simp add: settle_routed_def Let_def)
  have p: "never_fails (enqueue_payloads X R u (lq_lead q) r)" "frame ended (enqueue_payloads X R u (lq_lead q) r)"
    unfolding enqueue_payloads_def enqueue_ping_payload_def enqueue_post_payload_def Let_def
    by (intro preserves_intros frame_intros)+
  have t: "never_fails (on_world (auction_timing_data X R u ty r))" "frame ended (on_world (auction_timing_data X R u ty r))" for ty
    unfolding auction_timing_data_def by (intro preserves_intros frame_intros)+
  have n: "frame ended (on_world (sold_safety_net u r stored))" for stored
    unfolding frame_def ended_def sold_safety_net_def
    by (simp add: on_world_def io_bind_def met_deadline_def io_try_def on_db_def io_return_def split: prod.split)
  show ?thesis unfolding eq
    by (intro run_then p t preserves_intros frame_intros n) (simp add: io_return_def)
qed

lemma market_run:
  "\<exists>resp s'. create_lead X market_api sample_info market_request (sample_intake market_db) = (Inr (200, resp), s')
     \<and> sn_status (lr_status resp) = ''accepted'' \<and> bid_positive resp \<and> \<not> ended s'"
proof -
  obtain l i s ch c m t where start: "create_lead X market_api sample_info market_request (sample_intake market_db)
      = route_created X market_api sample_info sample_vertical market_request l i 0 s" and w: "it_world s = market_world ch c m t"
    using market_intake by blast
  obtain r w' where routed: "route_new X market_api sample_info sample_vertical market_request l (it_world s) = (Inr r, w')"
    and r: "rr_status r = ''accepted''" "rr_price r = Some (Fin 100)" and fin: "\<not> wq_finished (w_queue w')"
    using market_route [of X "ri_encryption_key sample_info" l ch c m t]
    by (auto simp: w route_new_def PingTreeRouter_route_def router_with_timing_and_metrics_def PingTreeRouter_new_def
        request_type_of_def unwrap_or_def to_lowercase_def lower_char_def is_upper_def)
  have quiet: "\<not> verbose_requested sample_info market_request"
    by (simp add: verbose_requested_def unwrap_or_def full_data_def sample_data_def lead_data_of_def)
  have "\<lfloor>20001 / 2 :: rat\<rfloor> = 10000" by (simp add: floor_eq_iff)
  then have bid: "round2 (Some (Fin 100)) = Some (Fin 100)" by (simp add: round2_def)
  let ?s = "s\<lparr>it_world := w'\<lparr>w_timing := record_total 0 (w_timing w')\<rparr>\<rparr>"
  have "route_created X market_api sample_info sample_vertical market_request l i 0 s
      = settle_routed X market_api sample_info market_request (l_uuid l) i r ?s"
    by (simp add: route_created_def io_catch_def io_bind_def io_try_def on_world_def routed io_return_def
        on_timing_def io_modify_def)
  then show ?thesis
    using settle_routed_returns [OF quiet, of X market_api "l_uuid l" i r ?s] start r fin
    by (auto simp: ended_def routed_answer_def bid_positive_def bid Let_def request_type_of_def unwrap_or_def
        to_lowercase_def lower_char_def is_upper_def)
qed

theorem accepted_ping_recorded_sold_witness:
  "\<exists>resp s'. create_lead_ping plain_crypto market_api sample_info (sample_request full_data) (sample_intake market_db)
     = (Inr (200, resp), s') \<and> sn_status (lr_status resp) = ''accepted'' \<and> records_sale (w_queue (it_world s'))"
proof -
  obtain resp s' where run: "create_lead plain_crypto market_api sample_info market_request (sample_intake market_db) = (Inr (200, resp), s')"
    and a: "sn_status (lr_status resp) = ''accepted''" "bid_positive resp" "\<not> wq_finished (w_queue (it_world s'))"
    using market_run [of plain_crypto] unfolding ended_def by (elim exE conjE) (rule that; assumption)
  have "create_lead_ping plain_crypto market_api sample_info (sample_request full_data) (sample_intake market_db) = (Inr (200, resp), s')"
    using run by (simp add: create_lead_ping_def create_lead_as_def market_request_def sample_request_def)
  with accepted_ping_recorded_sold [OF this a] a(1) show ?thesis by blast
qed

theorem campaignless_lead_panics_witness:
  "let s = sample_intake (market_db\<lparr>campaigns := [sample_campaign 1 2]\<rparr>) in
   fst (create_new plain_crypto market_api sample_info sample_vertical market_request 0 s) = Inl PANIC"
proof -
  let ?d = "market_db\<lparr>campaigns := [sample_campaign 1 2]\<rparr>"
  have "prechecks_row 9 ''solar'' [] ?d = (None, Some 2, True)"
    by (simp add: prechecks_row_def publisher_campaign_def active_trees_def tree_buyers_def first_row_def Let_def
        sample_campaign_def Campaign_active_def)
  then show ?thesis
    using campaignless_lead_panics [of sample_info market_request "sample_intake ?d" sample_vertical 2 plain_crypto market_api 0]
    by (simp add: Let_def)
qed

end
