(* ===== verification/LeadBodyProps.thy ===== *)
theory LeadBodyProps
  imports LeadHandler
begin

text \<open>
  Properties of the bodies that publishers send: both shapes of a body are read back as the lead
  that was written, and what the queue stores as the payload of a ping.
\<close>

section \<open>Reading what was written\<close>

text \<open>The nested shape of a body: the fields of the flat one, by group.\<close>

definition nested_body :: "LeadData \<Rightarrow> json" where
  "nested_body l = JObj (map (\<lambda>(g, keys).
     (g, JObj (map (\<lambda>k. (k, unwrap_or (json_get (LeadData_to_json l) k) JNull)) keys))) NESTED_GROUPS)"

definition nested_request :: "LeadRequest \<Rightarrow> json" where
  "nested_request q = JObj [(''verbose'', opt_bool_json (lq_verbose q)), (''lead'', nested_body (lq_lead q))]"

text \<open>JSON has no form for infinities and NaN.\<close>

definition writable :: "LeadData \<Rightarrow> bool" where
  "writable l = (case ld_monthly_bill l of Some (Fin _) \<Rightarrow> True | None \<Rightarrow> True | _ \<Rightarrow> False)"

lemma opt_field_written:
  "f k = Some (opt_json m) \<Longrightarrow> opt_field as_str f k = Some m"
  "f k = Some (opt_bool_json b) \<Longrightarrow> opt_field as_bool f k = Some b"
  "f k = Some (JStr s) \<Longrightarrow> opt_field as_str f k = Some (Some s)"
  "f k = Some (opt_f64_json x) \<Longrightarrow> (case x of Some (Fin _) \<Rightarrow> True | None \<Rightarrow> True | _ \<Rightarrow> False)
     \<Longrightarrow> opt_field as_f64 f k = Some x"
  by (cases m, auto simp: opt_field_def)
    (cases b, auto simp: opt_field_def opt_bool_json_def json_of_def split: option.splits f64.splits)

text \<open>The entries of a written lead.\<close>

definition written :: "LeadData \<Rightarrow> string \<Rightarrow> json option" where
  "written l = json_get (LeadData_to_json l)"

lemma written_str:
  "opt_field as_str (written l) ''publisher_id'' = Some (ld_publisher_id l)"
  "opt_field as_str (written l) ''vertical'' = Some (Some (ld_vertical l))"
  "opt_field as_str (written l) ''request_type'' = Some (ld_request_type l)"
  "opt_field as_str (written l) ''campaign_token'' = Some (ld_campaign_token l)"
  "opt_field as_str (written l) ''promise_id'' = Some (ld_promise_id l)"
  "opt_field as_str (written l) ''lead_id'' = Some (ld_lead_id l)"
  "opt_field as_str (written l) ''source'' = Some (ld_source l)"
  "opt_field as_str (written l) ''first_name'' = Some (ld_first_name l)"
  "opt_field as_str (written l) ''last_name'' = Some (ld_last_name l)"
  "opt_field as_str (written l) ''email'' = Some (ld_email l)"
  "opt_field as_str (written l) ''cell_phone'' = Some (ld_cell_phone l)"
  "opt_field as_str (written l) ''street_address'' = Some (ld_street_address l)"
  "opt_field as_str (written l) ''city'' = Some (ld_city l)"
  "opt_field as_str (written l) ''state'' = Some (ld_state l)"
  "opt_field as_str (written l) ''zip'' = Some (ld_zip l)"
  "opt_field as_str (written l) ''credit_rating'' = Some (ld_credit_rating l)"
  "opt_field as_str (written l) ''property_type'' = Some (ld_property_type l)"
  "opt_field as_str (written l) ''roof_shade'' = Some (ld_roof_shade l)"
  "opt_field as_str (written l) ''roof_type'' = Some (ld_roof_type l)"
  "opt_field as_str (written l) ''utility_provider'' = Some (ld_utility_provider l)"
  "opt_field as_str (written l) ''purchase_timeframe'' = Some (ld_purchase_timeframe l)"
  "opt_field as_str (written l) ''ip_address'' = Some (ld_ip_address l)"
  "opt_field as_str (written l) ''tcpa_language'' = Some (ld_tcpa_language l)"
  "opt_field as_str (written l) ''jornaya_lead_id'' = Some (ld_jornaya_lead_id l)"
  "opt_field as_str (written l) ''trusted_form_url'' = Some (ld_trusted_form_url l)"
  "opt_field as_str (written l) ''user_agent'' = Some (ld_user_agent l)"
  by (rule opt_field_written; simp add: written_def LeadData_to_json_def obj_get_Cons)+

lemma written_flag:
  "opt_field as_bool (written l) ''own_home'' = Some (ld_own_home l)"
  "opt_field as_bool (written l) ''tcpa_consent'' = Some (ld_tcpa_consent l)"
  "opt_field as_bool (written l) ''is_test'' = Some (ld_is_test l)"
  "opt_field as_bool (written l) ''verbose'' = Some (ld_verbose l)"
  by (rule opt_field_written; simp add: written_def LeadData_to_json_def obj_get_Cons)+

lemma written_num: "writable l \<Longrightarrow> opt_field as_f64 (written l) ''monthly_bill'' = Some (ld_monthly_bill l)"
  by (rule opt_field_written) (simp_all add: written_def LeadData_to_json_def obj_get_Cons writable_def)

lemmas written_fields = written_str written_flag written_num

lemma written_readable: "writable l \<Longrightarrow> list_all (field_readable (written l)) LEAD_DATA_FIELDS"
  by (simp add: LEAD_DATA_FIELDS_def field_readable_def NUM_FIELDS_def FLAG_FIELDS_def written_fields)

lemma written_data:
  "writable l \<Longrightarrow> lead_data_of (ld_vertical l) (field_value as_str (written l)) (field_value as_f64 (written l))
     (field_value as_bool (written l)) = l"
  by (cases l) (simp add: lead_data_of_def field_value_def flatten_option_def written_fields)

lemma flat_read:
  assumes "writable l"
  shows "LeadData_from_json (LeadData_to_json l) = Some l"
proof -
  have "fields_of LEAD_DATA_FIELDS (LeadData_to_json l) = Some (written l)"
    by (simp add: fields_of_def LeadData_to_json_def written_def json_get_def fun_eq_iff)
  moreover have "Option.bind (written l ''vertical'') as_str = Some (ld_vertical l)"
    by (simp add: written_def LeadData_to_json_def obj_get_Cons)
  ultimately show ?thesis
    using assms by (simp add: LeadData_from_json_def written_readable written_data)
qed

lemma flat_not_nested: "deserialize_lead_body (LeadData_to_json l) = LeadData_from_json (LeadData_to_json l)"
  by (simp add: deserialize_lead_body_def NESTED_GROUPS_def LeadData_to_json_def obj_get_Cons)

lemma obj_get_map: "obj_get (map (\<lambda>k. (k, g k)) keys) k = (if k \<in> set keys then Some (g k) else None)"
  by (induction keys) (auto simp: obj_get_Cons)

lemma field_readable_cong: "f k = g k \<Longrightarrow> field_readable f k = field_readable g k"
  by (simp add: field_readable_def opt_field_def)

lemma field_value_cong: "f k = g k \<Longrightarrow> field_value as f k = field_value as g k"
  by (simp add: field_value_def opt_field_def)

definition group_of :: "(string \<Rightarrow> json option) \<Rightarrow> string list \<Rightarrow> json" where
  "group_of w keys = JObj (map (\<lambda>k. (k, unwrap_or (w k) JNull)) keys)"

lemma group_read:
  assumes "list_all (\<lambda>k. w k \<noteq> None \<and> field_readable w k) keys"
  shows "\<exists>f. group_fields (group_of w keys) keys = Some f \<and> (\<forall>k\<in>set keys. f k = w k)"
proof -
  let ?f = "obj_get (map (\<lambda>k. (k, unwrap_or (w k) JNull)) keys)"
  have eq: "?f k = w k" if "k \<in> set keys" for k
    using assms that by (auto simp: obj_get_map list_all_iff)
  then have "list_all (field_readable ?f) keys"
    using assms by (simp add: list_all_iff field_readable_cong [OF eq])
  then have "group_fields (group_of w keys) keys = Some ?f"
    by (simp add: group_fields_def group_of_def fields_of_def)
  then show ?thesis using eq by blast
qed

lemma groups_read:
  assumes "list_all (\<lambda>(g, keys). json_get v g = Some (group_of w keys)
      \<and> list_all (\<lambda>k. w k \<noteq> None \<and> field_readable w k) keys) gs"
  shows "\<exists>f. nested_fields v gs = Some f \<and> (\<forall>(g, keys)\<in>set gs. \<forall>k\<in>set keys. f k = w k)"
  using assms
proof (induction gs)
  case Nil
  then show ?case by simp
next
  case (Cons h gs)
  obtain g keys where h: "h = (g, keys)" by force
  obtain f where f: "group_fields (group_of w keys) keys = Some f" "\<forall>k\<in>set keys. f k = w k"
    using group_read [of w keys] Cons.prems h by auto
  obtain rest where rest: "nested_fields v gs = Some rest" "\<forall>(g, keys)\<in>set gs. \<forall>k\<in>set keys. rest k = w k"
    using Cons by auto
  have "json_get v g = Some (group_of w keys)" using Cons.prems h by simp
  then have "nested_fields v (h # gs) = Some (\<lambda>k. if k \<in> set keys then f k else rest k)"
    by (simp add: h f rest)
  then show ?case using f(2) rest(2) h by fastforce
qed

lemma written_groups:
  assumes "writable l"
  shows "list_all (\<lambda>(g, keys). json_get (nested_body l) g = Some (group_of (written l) keys)
      \<and> list_all (\<lambda>k. written l k \<noteq> None \<and> field_readable (written l) k) keys) NESTED_GROUPS"
proof -
  have present: "written l k \<noteq> None" if "k \<in> set LEAD_DATA_FIELDS" for k
    using that by (auto simp: LEAD_DATA_FIELDS_def written_def LeadData_to_json_def obj_get_Cons)
  have keys: "list_all (\<lambda>(g, keys). list_all (\<lambda>k. k \<in> set LEAD_DATA_FIELDS) keys) NESTED_GROUPS"
    by (simp add: NESTED_GROUPS_def LEAD_DATA_FIELDS_def)
  have "list_all (\<lambda>(g, keys). json_get (nested_body l) g = Some (group_of (written l) keys)) NESTED_GROUPS"
    by (simp add: nested_body_def NESTED_GROUPS_def obj_get_Cons group_of_def written_def)
  with keys written_readable [OF assms] present show ?thesis
    by (fastforce simp: list_all_iff)
qed

lemma nested_to_lead_data_cong:
  "list_all (\<lambda>k. f k = g k) (concat (map snd NESTED_GROUPS)) \<Longrightarrow> nested_to_lead_data f = nested_to_lead_data g"
  by (simp add: NESTED_GROUPS_def nested_to_lead_data_def lead_data_of_def field_value_def opt_field_def)

lemma nested_read:
  assumes "writable l"
  shows "deserialize_lead_body (nested_body l) = Some (l\<lparr>ld_verbose := None\<rparr>)"
proof -
  obtain f where f: "nested_fields (nested_body l) NESTED_GROUPS = Some f"
    and same: "\<forall>(g, keys)\<in>set NESTED_GROUPS. \<forall>k\<in>set keys. f k = written l k"
    using groups_read [OF written_groups [OF assms]] by blast
  have "list_all (\<lambda>(g, _). json_get (nested_body l) g \<noteq> None) NESTED_GROUPS"
    by (simp add: nested_body_def NESTED_GROUPS_def obj_get_Cons)
  then have "deserialize_lead_body (nested_body l) = Some (nested_to_lead_data f)"
    using f by (simp add: deserialize_lead_body_def)
  moreover have "list_all (\<lambda>k. f k = written l k) (concat (map snd NESTED_GROUPS))"
    using same by (fastforce simp: list_all_iff)
  then have "nested_to_lead_data f = nested_to_lead_data (written l)" by (rule nested_to_lead_data_cong)
  moreover have "field_value as_str (written l) ''vertical'' = Some (ld_vertical l)"
    by (simp add: field_value_def written_fields flatten_option_def)
  then have "nested_to_lead_data (written l) = l\<lparr>ld_verbose := None\<rparr>"
    using written_data [OF assms] by (simp add: nested_to_lead_data_def)
  ultimately show ?thesis by simp
qed

text \<open>C31: A body that was written from a request is read back as that request, in the flat shape and
  in the nested one, which has no place for the verbose flag of the lead.\<close>

theorem lead_body_roundtrip:
  assumes "writable (lq_lead q)"
  shows "LeadRequestIncoming_from_json (LeadRequest_to_json q) = Some q
    \<and> LeadRequestIncoming_from_json (nested_request q) = Some (q\<lparr>lq_lead := (lq_lead q)\<lparr>ld_verbose := None\<rparr>\<rparr>)"
proof -
  have read: "lead_request_from_json g (JObj [(''verbose'', opt_bool_json b), (''lead'', v)])
      = map_option (\<lambda>l. \<lparr> lq_verbose = b, lq_lead = l \<rparr>) (g v)" for g b v
  proof -
    let ?f = "obj_get [(''verbose'', opt_bool_json b), (''lead'', v)]"
    have "opt_field as_bool ?f ''verbose'' = Some b" by (rule opt_field_written) (simp add: obj_get_Cons)
    then show ?thesis by (simp add: lead_request_from_json_def fields_of_def obj_get_Cons split: option.split)
  qed
  show ?thesis
    using flat_read [OF assms] nested_read [OF assms]
    by (cases q) (simp add: LeadRequestIncoming_from_json_def LeadRequest_to_json_def nested_request_def read flat_not_nested)
qed

theorem lead_body_roundtrip_witness:
  "let q = \<lparr> lq_verbose = Some True, lq_lead = (lead_data_of ''solar'' (\<lambda>_. Some ''x'') (\<lambda>_. Some (Fin 120)) (\<lambda>_. None)) \<rparr>
   in LeadRequestIncoming_from_json (LeadRequest_to_json q) = Some q"
  using lead_body_roundtrip [of "\<lparr> lq_verbose = Some True, lq_lead = (lead_data_of ''solar'' (\<lambda>_. Some ''x'') (\<lambda>_. Some (Fin 120)) (\<lambda>_. None)) \<rparr>"]
  by (simp add: writable_def lead_data_of_def Let_def)

section \<open>The payload of a ping\<close>

text \<open>The queue reduces the payload of a ping to fields without contact data only for leads of the
  strategy \<open>ping_post\<close>, a name the handler never uses: the payload it stores for a new lead is the
  whole body, with the name, email, phone number and address of the consumer.\<close>

theorem stored_ping_has_contact_data:
  "let t = lead_creation u event lead_id promise session campaign buyer R vertical data key;
       stored = ping_only_payload X t
   in stored = LeadData_to_json data
      \<and> get_str stored ''first_name'' = ld_first_name data \<and> get_str stored ''last_name'' = ld_last_name data
      \<and> get_str stored ''email'' = ld_email data \<and> get_str stored ''cell_phone'' = ld_cell_phone data
      \<and> get_str stored ''street_address'' = ld_street_address data"
proof -
  have str: "Option.bind (Some (opt_json m)) as_str = m" for m by (cases m) simp_all
  have "ping_only_payload X (lead_creation u event lead_id promise session campaign buyer R vertical data key)
      = LeadData_to_json data"
    by (simp add: ping_only_payload_def lead_creation_def strategy_of_def)
  moreover have "get_str (LeadData_to_json data) ''first_name'' = ld_first_name data"
    "get_str (LeadData_to_json data) ''last_name'' = ld_last_name data"
    "get_str (LeadData_to_json data) ''email'' = ld_email data"
    "get_str (LeadData_to_json data) ''cell_phone'' = ld_cell_phone data"
    "get_str (LeadData_to_json data) ''street_address'' = ld_street_address data"
    using str by (simp_all add: get_str_def LeadData_to_json_def obj_get_Cons)
  ultimately show ?thesis by (simp add: Let_def)
qed

end
