(* ===== verification/AppConfig.thy ===== *)
theory AppConfig
  imports Ssm Crypto
begin

text \<open>
  Model of \<open>crates/api/src/config.rs\<close> (the configuration that the service loads when it starts,
  and the connection to Redis) and of the reader of \<open>.env.local\<close> in \<open>main.rs\<close>. The environment
  variables are an association list, part of the state of the parameter store service; whether
  there is a file \<open>.env.local\<close> is an argument. In the text of an error the detail of a third-party
  decoder is left out, and the names of the parameters are listed in the order of their arrival.
\<close>

section \<open>Texts\<close>

text \<open>\<open>str::split\<close> at a character, and \<open>str::split_once\<close>.\<close>

fun split_on :: "char \<Rightarrow> string \<Rightarrow> string list" where
  "split_on ch [] = [[]]"
| "split_on ch (x # xs) =
     (if x = ch then [] # split_on ch xs
      else case split_on ch xs of [] \<Rightarrow> [[x]] | p # ps \<Rightarrow> (x # p) # ps)"

definition split_once :: "char \<Rightarrow> string \<Rightarrow> (string \<times> string) option" where
  "split_once ch s =
     (case dropWhile (\<lambda>x. x \<noteq> ch) s of
        [] \<Rightarrow> None
      | _ # rest \<Rightarrow> Some (takeWhile (\<lambda>x. x \<noteq> ch) s, rest))"

definition parse_u32 :: "string \<Rightarrow> u32 option" where
  "parse_u32 s =
     (let ds = (case s of c # cs \<Rightarrow> if c = CHR ''+'' then cs else s | [] \<Rightarrow> s) in
      if ds = [] \<or> \<not> list_all is_digit ds \<or> 2 ^ 32 \<le> digits_val ds then None
      else Some (of_nat (digits_val ds)))"

definition is_hexdigit :: "char \<Rightarrow> bool" where
  "is_hexdigit c \<longleftrightarrow> is_digit c \<or> of_char (lower_char c) \<in> {97..102 :: nat}"

section \<open>The file of local variables\<close>

definition is_name_start :: "char \<Rightarrow> bool" where
  "is_name_start c \<longleftrightarrow> is_upper c \<or> is_lower c \<or> c = CHR ''_''"

definition is_name_char :: "char \<Rightarrow> bool" where
  "is_name_char c \<longleftrightarrow> is_name_start c \<or> is_digit c"

definition valid_name :: "string \<Rightarrow> bool" where
  "valid_name key \<longleftrightarrow> key \<noteq> [] \<and> is_name_start (hd key) \<and> list_all is_name_char key"

definition strip_both :: "char \<Rightarrow> string \<Rightarrow> string option" where
  "strip_both q s =
     (case s of
        [] \<Rightarrow> None
      | c # cs \<Rightarrow> if c = q \<and> cs \<noteq> [] \<and> last cs = q then Some (butlast cs) else None)"

definition unquote :: "string \<Rightarrow> string" where
  "unquote s = unwrap_or (opt_or (strip_both (CHR 0x22) s) (strip_both (CHR 0x27) s)) s"

definition clean_value :: "string \<Rightarrow> string \<Rightarrow> string" where
  "clean_value key value =
     (let v = unquote value in
      if key = ''DATABASE_URL'' \<and> starts_with v ''psql '' then unquote (drop 5 v) else v)"

text \<open>The variable that a line sets.\<close>

definition env_line :: "string \<Rightarrow> (string \<times> string) option" where
  "env_line l =
     (let line = trim l in
      if line = [] \<or> starts_with line ''#'' then None
      else case split_once CHR ''='' line of
          None \<Rightarrow> None
        | Some (k, v) \<Rightarrow> if valid_name (trim k) then Some (trim k, clean_value (trim k) (trim v)) else None)"

text \<open>The number of variables set, and the environment. Setting a variable to a value with a null
  character panics.\<close>

fun set_env_lines :: "string list \<Rightarrow> nat \<Rightarrow> (string \<times> string) list \<Rightarrow> (nat \<times> (string \<times> string) list) result" where
  "set_env_lines [] n vars = Inr (n, vars)"
| "set_env_lines (l # ls) n vars =
     (case env_line l of
        None \<Rightarrow> set_env_lines ls n vars
      | Some (k, v) \<Rightarrow> if CHR 0x00 \<in> set v then Inl PANIC else set_env_lines ls (n + 1) (AList.update k v vars))"

definition load_env_local_tolerant :: "string \<Rightarrow> (string \<times> string) list \<Rightarrow> (nat \<times> (string \<times> string) list) result" where
  "load_env_local_tolerant contents vars = set_env_lines (split_on (CHR 0x0A) contents) 0 vars"

section \<open>The configuration\<close>

record AppConfig =
  cf_database_url :: string
  cf_redis_url :: "string option"
  cf_redis_pool_size :: u32
  cf_redis_min_idle :: u32
  cf_jwt_secret :: string
  cf_encryption_key :: string
  cf_sentry_dsn :: "string option"
  cf_environment :: string
  cf_from_email :: string
  cf_password_reset_base_url :: string

definition sanitize_database_url :: "string \<Rightarrow> string" where
  "sanitize_database_url url =
     (case split_once CHR ''?'' url of
        None \<Rightarrow> url
      | Some (base, query) \<Rightarrow>
          let params = filter (\<lambda>p. takeWhile (\<lambda>x. x \<noteq> CHR ''='') p \<noteq> ''channel_binding'') (split_on CHR ''&'' query) in
          if params = [] then base else base @ ''?'' @ join ''&'' params)"

definition extend_params :: "(string \<times> string) list \<Rightarrow> (string \<times> string) list \<Rightarrow> (string \<times> string) list" where
  "extend_params new m = fold (\<lambda>(k, v). AList.update k v) new m"

definition PROD_PATH :: string where "PROD_PATH = ''/leadsnebula/prod/rust/''"

definition config_path :: "string \<Rightarrow> string" where
  "config_path env = ''/leadsnebula/'' @ env @ ''/rust/''"

text \<open>The parameters of a deployed service; every error ends the start.\<close>

definition deployed_params :: "(string \<times> string) list codec \<Rightarrow> string \<Rightarrow> (SsmService, (string \<times> string) list) io" where
  "deployed_params cd env =
     io_bind (get_parameters_by_path cd (config_path env)) (\<lambda>m.
     if env = ''dev'' then io_bind (get_parameters_by_path cd PROD_PATH) (\<lambda>prod. io_return (extend_params prod m))
     else io_return m)"

text \<open>Local development: only when a variable is missing, and errors are ignored.\<close>

definition local_params :: "(string \<times> string) list codec \<Rightarrow> string \<Rightarrow> (SsmService, (string \<times> string) list) io" where
  "local_params cd env =
     io_bind (io_get sm_vars) (\<lambda>vars.
     if is_some (map_of vars ''DATABASE_URL'') \<and> is_some (map_of vars ''JWT_SECRET'') \<and> is_some (map_of vars ''ENCRYPTION_KEY'')
     then io_return []
     else io_bind (io_try (get_parameters_by_path cd (config_path env))) (\<lambda>res.
       case res of
         Inl _ \<Rightarrow> io_return []
       | Inr m \<Rightarrow>
           if env = ''dev''
           then io_bind (io_try (get_parameters_by_path cd PROD_PATH)) (\<lambda>prod.
             io_return (case prod of Inr p \<Rightarrow> extend_params p m | Inl _ \<Rightarrow> m))
           else io_return m))"

definition param :: "(string \<times> string) list \<Rightarrow> string \<Rightarrow> string \<Rightarrow> string option" where
  "param params env key = map_of params (config_path env @ key)"

definition database_url_of ::
  "bool \<Rightarrow> string \<Rightarrow> string \<Rightarrow> (string \<times> string) list \<Rightarrow> (string \<times> string) list \<Rightarrow> string result" where
  "database_url_of is_local environment env params vars =
     (let stored = param params env ''db/connection_url''; var = map_of vars ''DATABASE_URL'' in
      if is_local then ok_or (opt_or var stored)
        ''DATABASE_URL not found in environment or SSM. For local development, set DATABASE_URL in .env.local''
      else ok_or (opt_or stored var)
        (''DATABASE_URL not found in SSM at '' @ config_path env @ ''db/connection_url. Environment: '' @ [CHR 0x27] @ environment
         @ [CHR 0x27] @ '' (normalized: '' @ [CHR 0x27] @ env @ [CHR 0x27] @ ''). Production environments must use SSM Parameter Store. Available SSM paths: ['' @ join '', '' (map fst params) @ '']''))"

definition redis_url_of :: "bool \<Rightarrow> (string \<times> string) list \<Rightarrow> (string \<times> string) list \<Rightarrow> string option" where
  "redis_url_of is_local params vars =
     (let stored = map_of params (PROD_PATH @ ''redis/connection_url'') in
      if is_some (map_of vars ''SKIP_REDIS'') then None
      else if is_local then opt_or (map_of vars ''REDIS_URL'') stored
      else stored)"

definition stored_jwt_secret :: "string \<Rightarrow> (string \<times> string) list \<Rightarrow> string option" where
  "stored_jwt_secret env params =
     opt_or (param params env ''auth/jwt_secret'') (opt_or (param params env ''jwt/secret_key'')
       (opt_or (param params env ''jwt_secret'')
         (if env = ''dev''
          then opt_or (map_of params (PROD_PATH @ ''jwt/secret_key'')) (opt_or (map_of params (PROD_PATH @ ''auth/jwt_secret''))
                 (map_of params (PROD_PATH @ ''jwt_secret'')))
          else None)))"

definition jwt_secret_of ::
  "bool \<Rightarrow> string \<Rightarrow> (string \<times> string) list \<Rightarrow> (string \<times> string) list \<Rightarrow> string result" where
  "jwt_secret_of is_local env params vars =
     (let stored = stored_jwt_secret env params; var = map_of vars ''JWT_SECRET''; base = config_path env in
      if is_local then ok_or (opt_or var stored)
        ''JWT_SECRET not found in environment or SSM. For local development, set JWT_SECRET in .env.local''
      else ok_or (opt_or stored var)
        (''JWT_SECRET not found in SSM. Tried paths: '' @ base @ ''auth/jwt_secret, '' @ base @ ''jwt/secret_key, ''
         @ base @ ''jwt_secret'' @ (if env = ''dev''
             then '', /leadsnebula/prod/rust/jwt/secret_key, /leadsnebula/prod/rust/auth/jwt_secret'' else [])))"

definition encryption_key_text ::
  "bool \<Rightarrow> string \<Rightarrow> (string \<times> string) list \<Rightarrow> (string \<times> string) list \<Rightarrow> string result" where
  "encryption_key_text is_local env params vars =
     (let path = config_path env @ ''encryption/api_key_key''; stored = map_of params path in
      if is_local then ok_or (opt_or (map_of vars ''ENCRYPTION_KEY'') stored)
        (''Encryption key not found in environment or SSM at '' @ path
         @ ''. For local development, set ENCRYPTION_KEY (base64 encoded, 32 bytes) in .env.local'')
      else ok_or stored
        (''Encryption key not found in SSM at '' @ path
         @ ''. This key is required for encrypting publisher API keys. Please create it in SSM Parameter Store.''))"

definition decode_encryption_key :: "extlib \<Rightarrow> string \<Rightarrow> string result" where
  "decode_encryption_key X text =
     result_bind (if length text = 64 \<and> list_all is_hexdigit text
        then ok_or (hex_decode X text) ''Failed to decode encryption key from hex: ''
        else ok_or (b64_decode X text) ''Failed to decode encryption key from base64: '') (\<lambda>key.
     if length key \<noteq> 32
     then Inl (''Encryption key must be 32 bytes (256 bits) for AES-256-GCM, got '' @ show_nat (length key) @ '' bytes'')
     else Inr key)"

definition number_or :: "string option \<Rightarrow> string option \<Rightarrow> u32 \<Rightarrow> u32" where
  "number_or stored var n =
     unwrap_or (opt_or (Option.bind stored parse_u32) (Option.bind var parse_u32)) n"

definition environment_of :: "(string \<times> string) list \<Rightarrow> string" where
  "environment_of vars = unwrap_or (opt_or (map_of vars ''ENVIRONMENT'') (map_of vars ''ENV'')) ''development''"

text \<open>The configuration from the parameters that were read.\<close>

definition assemble_config ::
  "extlib \<Rightarrow> bool \<Rightarrow> (string \<times> string) list \<Rightarrow> (string \<times> string) list \<Rightarrow> AppConfig result" where
  "assemble_config X is_local params vars =
     (let environment = environment_of vars; env = normalize_env_for_ssm environment; var = map_of vars in
      result_bind (database_url_of is_local environment env params vars) (\<lambda>database_url.
      result_bind (jwt_secret_of is_local env params vars) (\<lambda>jwt_secret.
      result_bind (encryption_key_text is_local env params vars) (\<lambda>text.
      result_bind (decode_encryption_key X text) (\<lambda>key.
      Inr \<lparr> cf_database_url = sanitize_database_url database_url, cf_redis_url = redis_url_of is_local params vars,
        cf_redis_pool_size = number_or (param params env ''redis/pool_size'') (var ''REDIS_POOL_SIZE'') 25,
        cf_redis_min_idle = number_or (param params env ''redis/min_idle'') (var ''REDIS_MIN_IDLE'') 5,
        cf_jwt_secret = jwt_secret, cf_encryption_key = key,
        cf_sentry_dsn = opt_or (param params env ''monitoring/sentry_dsn'') (var ''SENTRY_DSN''),
        cf_environment = environment,
        cf_from_email = unwrap_or (opt_or (param params env ''email/from_address'') (var ''FROM_EMAIL''))
          ''noreply@leadsnebula.com'',
        cf_password_reset_base_url =
          unwrap_or (opt_or (param params env ''email/password_reset_base_url'') (var ''PASSWORD_RESET_BASE_URL''))
            (if env = ''dev'' then ''http://localhost:3000'' else ''https://dashboard.leadsnebula.com'') \<rparr>)))))"

definition AppConfig_load ::
  "extlib \<Rightarrow> (string \<times> string) list codec \<Rightarrow> bool \<Rightarrow> (SsmService, AppConfig) io" where
  "AppConfig_load X cd is_local =
     io_bind (io_get sm_vars) (\<lambda>vars.
     let env = normalize_env_for_ssm (environment_of vars) in
     io_bind (if is_local then local_params cd env else deployed_params cd env) (\<lambda>params.
     \<lambda>s. (assemble_config X is_local params vars, s)))"

section \<open>Connecting to Redis\<close>

text \<open>An attempt to connect ends in a client, whose ping then succeeds or not, in an error, or with
  the timeout. The attempts to come are prescribed; without one there is an error.\<close>

datatype connect_attempt = Connected bool | ConnectError | ConnectTimeout

definition connection_works :: "connect_attempt \<Rightarrow> bool" where
  "connection_works a \<longleftrightarrow> a = Connected True"

definition next_attempt :: "connect_attempt list \<Rightarrow> connect_attempt" where
  "next_attempt as = (case as of [] \<Rightarrow> ConnectError | a # _ \<Rightarrow> a)"

text \<open>Whether there is a client, and the attempts that are left.\<close>

definition init_redis ::
  "string \<Rightarrow> (string \<times> string) list \<Rightarrow> connect_attempt list \<Rightarrow> bool \<times> connect_attempt list" where
  "init_redis environment vars attempts =
     (let is_local = (environment = ''development'' \<or> environment = ''dev''
            \<or> unwrap_or (map_of vars ''ENVIRONMENT'') [] = ''development'');
          a = next_attempt attempts in
      case a of
        Connected ok \<Rightarrow> (ok, tl attempts)
      | _ \<Rightarrow> if is_local then (False, tl attempts)
             else (connection_works (next_attempt (tl attempts)), tl (tl attempts)))"

section \<open>Properties\<close>

lemma split_on_not_Nil [simp]: "split_on ch s \<noteq> []"
  by (induction s) (auto split: list.split)

lemma join_split: "join [ch] (split_on ch s) = s"
proof (induction s)
  case (Cons x xs)
  obtain p ps where ps: "split_on ch xs = p # ps" by (cases "split_on ch xs") auto
  then show ?case using Cons by (cases ps) auto
qed simp

lemma split_on_pieces: "p \<in> set (split_on ch s) \<Longrightarrow> ch \<notin> set p"
proof (induction s arbitrary: p)
  case (Cons x xs)
  obtain q qs where "split_on ch xs = q # qs" by (cases "split_on ch xs") auto
  then show ?case using Cons by (auto split: if_splits)
qed simp

lemma split_on_append: "ch \<notin> set p \<Longrightarrow> split_on ch (p @ s) = (p @ hd (split_on ch s)) # tl (split_on ch s)"
  by (induction p) (auto split: list.split)

lemma split_join: "ps \<noteq> [] \<Longrightarrow> (\<forall>p\<in>set ps. ch \<notin> set p) \<Longrightarrow> split_on ch (join [ch] ps) = ps"
proof (induction ps rule: induct_list012)
  case (2 p)
  then show ?case using split_on_append [of ch p "[]"] by simp
next
  case (3 p q ps)
  then show ?case using split_on_append [of ch p "ch # join [ch] (q # ps)"] by simp
qed simp

text \<open>The parameters of a URL.\<close>

definition url_params :: "string \<Rightarrow> string list" where
  "url_params url = (case split_once CHR ''?'' url of None \<Rightarrow> [] | Some (_, query) \<Rightarrow> split_on CHR ''&'' query)"

definition url_base :: "string \<Rightarrow> string" where
  "url_base url = takeWhile (\<lambda>x. x \<noteq> CHR ''?'') url"

lemma split_once_Some:
  "split_once ch s = Some (a, b) \<longleftrightarrow> s = a @ ch # b \<and> ch \<notin> set a"
proof
  assume "split_once ch s = Some (a, b)"
  then obtain x where d: "dropWhile (\<lambda>x. x \<noteq> ch) s = x # b" and a: "a = takeWhile (\<lambda>x. x \<noteq> ch) s"
    by (auto simp: split_once_def split: list.splits)
  then have "x = ch" using hd_dropWhile [of "\<lambda>x. x \<noteq> ch" s] by auto
  moreover have "s = a @ x # b" using takeWhile_dropWhile_id [of "\<lambda>x. x \<noteq> ch" s] d a by simp
  moreover have "ch \<notin> set a" unfolding a by (auto dest: set_takeWhileD)
  ultimately show "s = a @ ch # b \<and> ch \<notin> set a" by simp
next
  assume "s = a @ ch # b \<and> ch \<notin> set a"
  moreover from this have "takeWhile (\<lambda>x. x \<noteq> ch) s = a" "dropWhile (\<lambda>x. x \<noteq> ch) s = ch # b"
    by (auto simp: takeWhile_append dropWhile_append)
  ultimately show "split_once ch s = Some (a, b)" by (simp add: split_once_def)
qed

lemma split_once_None: "split_once ch s = None \<longleftrightarrow> ch \<notin> set s"
proof -
  have "split_once ch s = None \<longleftrightarrow> dropWhile (\<lambda>x. x \<noteq> ch) s = []"
    by (simp only: split_once_def list.case_eq_if option.distinct if_split) simp
  then show ?thesis by auto
qed

text \<open>The URL of the database loses exactly the parameters named \<open>channel_binding\<close>.\<close>

theorem sanitized_url_params:
  "url_base (sanitize_database_url url) = url_base url
   \<and> url_params (sanitize_database_url url) =
       filter (\<lambda>p. takeWhile (\<lambda>x. x \<noteq> CHR ''='') p \<noteq> ''channel_binding'') (url_params url)"
proof (cases "split_once CHR ''?'' url")
  case None
  then show ?thesis by (simp add: sanitize_database_url_def url_params_def)
next
  case (Some bq)
  obtain base query where bq: "bq = (base, query)" by force
  then have url: "url = base @ CHR ''?'' # query" "CHR ''?'' \<notin> set base" using Some split_once_Some by auto
  let ?ps = "filter (\<lambda>p. takeWhile (\<lambda>x. x \<noteq> CHR ''='') p \<noteq> ''channel_binding'') (split_on CHR ''&'' query)"
  have base: "url_base (base @ CHR ''?'' # r) = base" "url_base base = base" for r
    using url(2) by (auto simp: url_base_def takeWhile_append)
  have s: "sanitize_database_url url = (if ?ps = [] then base else base @ ''?'' @ join ''&'' ?ps)"
    using Some bq by (simp add: sanitize_database_url_def Let_def)
  have p: "url_params (base @ CHR ''?'' # r) = split_on CHR ''&'' r" for r
    using split_once_Some [of "CHR ''?''" "base @ CHR ''?'' # r" base r] url(2) by (simp add: url_params_def)
  show ?thesis
  proof (cases "?ps = []")
    case True
    then have "url_params (sanitize_database_url url) = []"
      using s split_once_None [of "CHR ''?''" base] url(2) by (simp add: url_params_def)
    then show ?thesis using s True base url(1) p by simp
  next
    case False
    have "split_on CHR ''&'' (join ''&'' ?ps) = ?ps" using False by (intro split_join) (auto dest: split_on_pieces)
    then show ?thesis using s False base url(1) p by simp
  qed
qed

lemma by_path_vars:
  "get_parameters_by_path cd p (s\<lparr>sm_vars := vs\<rparr>) =
     (case get_parameters_by_path cd p s of (r, s') \<Rightarrow> (r, s'\<lparr>sm_vars := vs\<rparr>))"
  by (simp add: get_parameters_by_path_def recall_def remember_def io_simps split: option.split prod.split sum.split)

lemma deployed_vars:
  "fst (deployed_params cd env (s\<lparr>sm_vars := vs\<rparr>)) = fst (deployed_params cd env s)"
  by (simp add: deployed_params_def io_bind_def io_return_def by_path_vars split: prod.split sum.split)

lemma decoded_key_length: "decode_encryption_key X text = Inr key \<Longrightarrow> length key = 32"
  by (auto simp: decode_encryption_key_def result_bind_def split: sum.splits if_splits)

text \<open>A deployed service takes its key from the parameter store alone, whatever the environment
  variable for keys says, and the key has 32 bytes.\<close>

theorem deployed_key_from_store:
  "fst (AppConfig_load X cd False (s\<lparr>sm_vars := AList.update ''ENCRYPTION_KEY'' v (sm_vars s)\<rparr>)) =
     fst (AppConfig_load X cd False s)
   \<and> (case fst (AppConfig_load X cd False s) of Inr cfg \<Rightarrow> length (cf_encryption_key cfg) = 32 | Inl _ \<Rightarrow> True)"
proof -
  have load: "fst (AppConfig_load X cd False s) =
      result_bind (fst (deployed_params cd (normalize_env_for_ssm (environment_of (sm_vars s))) s))
        (\<lambda>params. assemble_config X False params (sm_vars s))" for s
    by (simp add: AppConfig_load_def Let_def io_bind_def io_get_def result_bind_def split: prod.split sum.split)
  have same: "assemble_config X False params (AList.update ''ENCRYPTION_KEY'' v vars) = assemble_config X False params vars"
    for params vars
    by (simp add: assemble_config_def update_conv' environment_of_def database_url_of_def jwt_secret_of_def
        encryption_key_text_def redis_url_of_def Let_def)
  have "length (cf_encryption_key cfg) = 32" if "assemble_config X False params vars = Inr cfg" for params vars cfg
    using that by (auto simp: assemble_config_def Let_def result_bind_def dest: decoded_key_length split: sum.splits)
  then show ?thesis
    unfolding load by (auto simp: same deployed_vars environment_of_def update_conv' result_bind_def split: sum.split)
qed

lemma set_env_lines_result:
  "set_env_lines ls n vars = Inr (n', vars') \<Longrightarrow>
     n' = n + length (List.map_filter env_line ls)
     \<and> map_of vars' k = opt_or (map_of (rev (List.map_filter env_line ls)) k) (map_of vars k)"
proof (induction ls arbitrary: n vars)
  case (Cons l ls)
  show ?case
  proof (cases "env_line l")
    case None
    then show ?thesis using Cons by (simp add: map_filter_simps)
  next
    case (Some kv)
    obtain k' v where kv: "kv = (k', v)" by force
    then have "set_env_lines ls (n + 1) (AList.update k' v vars) = Inr (n', vars')"
      using Cons.prems Some by (auto split: if_splits)
    from Cons.IH [OF this] show ?thesis
      using Some kv by (auto simp: map_filter_simps update_conv' map_add_def split: option.splits)
  qed
qed (simp add: map_filter_simps)

text \<open>Of the lines of \<open>.env.local\<close> that set a variable the last one counts, and they override the
  environment.\<close>

theorem env_file_last_wins:
  assumes "load_env_local_tolerant contents vars = Inr (n, vars')"
  shows "map_of vars' k = opt_or (map_of (rev (List.map_filter env_line (split_on (CHR 0x0A) contents))) k) (map_of vars k)"
  using assms set_env_lines_result unfolding load_env_local_tolerant_def by blast

end
