(* ===== verification/Auth.thy ===== *)
theory Auth
  imports AppConfig World
begin

text \<open>
  Model of users and their sessions: \<open>crates/core/src/auth.rs\<close>, \<open>otp.rs\<close>,
  \<open>password_reset.rs\<close>, \<open>email.rs\<close> and the handlers of \<open>crates/api/src/routes/auth.rs\<close>. The
  state is the world of the routers (of which they use the database, the clock and the random
  numbers), the mails sent and the outcomes prescribed for the coming ones. What third-party crates
  do is the parameter \<open>authlib\<close>: signing and checking tokens (the clock is an argument), password
  hashes, one-time passwords, text forms. An answer is a status code with an optional body. The
  letter case of emails is that of ASCII.
\<close>

section \<open>State and parameters\<close>

record mail =
  ml_to :: string
  ml_subject :: string
  ml_body_text :: string
  ml_body_html :: "string option"

record portal =
  px_world :: world
  px_mails :: "mail list"
  px_mail_faults :: "error option list"

datatype argon2_error = WrongPassword | Argon2Error error

record Totp =
  tp_digits :: nat
  tp_skew :: nat
  tp_step :: nat
  tp_secret :: string

record authlib =
  al_jwt_encode :: "string \<Rightarrow> json \<Rightarrow> string result"
  al_jwt_decode :: "string \<Rightarrow> nat \<Rightarrow> string \<Rightarrow> json result"
  al_argon2_hash :: "128 word \<Rightarrow> string \<Rightarrow> string result"
  al_argon2_parse :: "string \<Rightarrow> string result"
  al_argon2_verify :: "string \<Rightarrow> string \<Rightarrow> argon2_error option"
  al_b32_decode :: "string \<Rightarrow> string result"
  al_totp_new :: "Totp \<Rightarrow> unit result"
  al_totp_check :: "Totp \<Rightarrow> nat \<Rightarrow> string \<Rightarrow> bool result"
  al_uuid_parse :: "string \<Rightarrow> uuid option"
  al_b64_url :: "string \<Rightarrow> string"
  al_b32 :: "string \<Rightarrow> string"
  al_url_encode :: "string \<Rightarrow> string"
  al_codes_from :: "string \<Rightarrow> string list option"
  al_codes_to :: "string list \<Rightarrow> string result"

definition in_world :: "(world, 'a) io \<Rightarrow> (portal, 'a) io" where
  "in_world m s = (case m (px_world s) of (r, w) \<Rightarrow> (r, s\<lparr>px_world := w\<rparr>))"

definition in_db :: "(db, 'a) io \<Rightarrow> (portal, 'a) io" where
  "in_db m = in_world (on_db m)"

definition unix_seconds :: "(portal, nat) io" where
  "unix_seconds = in_world (io_bind current_time (\<lambda>now. io_return (now div 1000)))"

section \<open>Tokens\<close>

definition JWT_EXPIRATION_HOURS :: nat where "JWT_EXPIRATION_HOURS = 24"

record Claims =
  cl_user_id :: string
  cl_email :: string
  cl_iat :: nat
  cl_exp :: nat

definition Claims_to_json :: "Claims \<Rightarrow> json" where
  "Claims_to_json c = JObj [(''user_id'', JStr (cl_user_id c)), (''email'', JStr (cl_email c)),
     (''iat'', JInt (int (cl_iat c))), (''exp'', JInt (int (cl_exp c)))]"

fun as_u64 :: "json \<Rightarrow> nat option" where
  "as_u64 (JInt i) = (if 0 \<le> i \<and> i < 2 ^ 64 then Some (nat i) else None)"
| "as_u64 _ = None"

text \<open>The derived deserializer: every field is required, others are ignored.\<close>

definition Claims_from_json :: "json \<Rightarrow> Claims option" where
  "Claims_from_json v =
     (case (Option.bind (json_get v ''user_id'') as_str, Option.bind (json_get v ''email'') as_str,
            Option.bind (json_get v ''iat'') as_u64, Option.bind (json_get v ''exp'') as_u64) of
        (Some u, Some e, Some i, Some x) \<Rightarrow> Some \<lparr> cl_user_id = u, cl_email = e, cl_iat = i, cl_exp = x \<rparr>
      | _ \<Rightarrow> None)"

definition jwt_encode :: "authlib \<Rightarrow> string \<Rightarrow> string \<Rightarrow> string \<Rightarrow> (portal, string) io" where
  "jwt_encode L secret user_id email =
     io_bind unix_seconds (\<lambda>now. \<lambda>s.
       (al_jwt_encode L secret (Claims_to_json \<lparr> cl_user_id = user_id, cl_email = email, cl_iat = now,
          cl_exp = now + JWT_EXPIRATION_HOURS * 3600 \<rparr>), s))"

definition jwt_decode :: "authlib \<Rightarrow> string \<Rightarrow> string \<Rightarrow> (portal, Claims) io" where
  "jwt_decode L secret token =
     io_bind unix_seconds (\<lambda>now. \<lambda>s.
       (result_bind (al_jwt_decode L secret now token) (\<lambda>v. ok_or (Claims_from_json v) ''JSON error''), s))"

section \<open>Passwords and one-time passwords\<close>

definition hash_password :: "authlib \<Rightarrow> string \<Rightarrow> (portal, string) io" where
  "hash_password L password =
     io_bind (in_world draw) (\<lambda>salt. \<lambda>s.
       (case al_argon2_hash L salt password of
          Inr h \<Rightarrow> Inr h
        | Inl e \<Rightarrow> Inl (''Argon2 hashing error: '' @ e), s))"

definition verify_password :: "authlib \<Rightarrow> string \<Rightarrow> string \<Rightarrow> bool result" where
  "verify_password L password hash =
     (case al_argon2_parse L hash of
        Inl e \<Rightarrow> Inl (''Invalid Argon2 hash format: '' @ e)
      | Inr parsed \<Rightarrow>
          (case al_argon2_verify L password parsed of
             None \<Rightarrow> Inr True
           | Some WrongPassword \<Rightarrow> Inr False
           | Some (Argon2Error e) \<Rightarrow> Inl (''Argon2 verification error: '' @ e)))"

definition OtpService_new :: "authlib \<Rightarrow> string \<Rightarrow> Totp result" where
  "OtpService_new L secret =
     result_bind (al_b32_decode L secret) (\<lambda>bytes.
     let totp = \<lparr> tp_digits = 6, tp_skew = 1, tp_step = 30, tp_secret = bytes \<rparr> in
     result_bind (al_totp_new L totp) (\<lambda>_. Inr totp))"

definition otp_verify :: "authlib \<Rightarrow> Totp \<Rightarrow> string \<Rightarrow> (portal, bool) io" where
  "otp_verify L totp code = io_bind unix_seconds (\<lambda>now. io_return (al_totp_check L totp now code = Inr True))"

section \<open>Mail\<close>

definition send_email :: "string \<Rightarrow> string \<Rightarrow> string \<Rightarrow> string option \<Rightarrow> (portal, unit) io" where
  "send_email to subject body_text body_html s =
     (let s' = s\<lparr>px_mail_faults := tl (px_mail_faults s)\<rparr> in
      case pop None (px_mail_faults s) of
        Some e \<Rightarrow> (Inl (''Email send failed: '' @ e), s')
      | None \<Rightarrow> (Inr (), s'\<lparr>px_mails := px_mails s @ [\<lparr> ml_to = to, ml_subject = subject,
            ml_body_text = body_text, ml_body_html = body_html \<rparr>]\<rparr>))"

definition trim_end_slashes :: "string \<Rightarrow> string" where
  "trim_end_slashes s = rev (dropWhile (\<lambda>c. c = CHR ''/'') (rev s))"

definition reset_url :: "string \<Rightarrow> string \<Rightarrow> string" where
  "reset_url base token = trim_end_slashes base @ ''/reset-password?token='' @ token"

definition send_reset_email :: "string \<Rightarrow> User \<Rightarrow> string \<Rightarrow> (portal, unit) io" where
  "send_reset_email base user token =
     (let url = reset_url base token in
      send_email (u_email user) ''Reset your password''
        (''Click the following link to reset your password: '' @ url)
        (Some (''<p>Click the following link to reset your password:</p><p><a href='' @ [CHR 0x22] @ url @ [CHR 0x22]
           @ ''>'' @ url @ ''</a></p>'')))"

section \<open>Answers\<close>

record UserResponse =
  ur_id :: string
  ur_email :: string
  ur_first_name :: "string option"
  ur_last_name :: "string option"

record LoginResponse =
  lp_success :: bool
  lp_token :: "string option"
  lp_user :: "UserResponse option"
  lp_error :: "string option"
  lp_requires_otp :: "bool option"
  lp_login_token :: "string option"
  lp_message :: "string option"

type_synonym 'a reply = "nat \<times> 'a option"

definition login_failed :: "string \<Rightarrow> LoginResponse" where
  "login_failed err = \<lparr> lp_success = False, lp_token = None, lp_user = None, lp_error = Some err,
     lp_requires_otp = None, lp_login_token = None, lp_message = None \<rparr>"

definition bad_request_login_response :: "string \<Rightarrow> LoginResponse reply" where
  "bad_request_login_response message = (400, Some (login_failed message))"

definition server_error_login_response :: "LoginResponse reply" where
  "server_error_login_response = (500, Some (login_failed ''Server error. Please try again.''))"

definition login_succeeded :: "extlib \<Rightarrow> User \<Rightarrow> string \<Rightarrow> LoginResponse" where
  "login_succeeded X user token = \<lparr> lp_success = True, lp_token = Some token,
     lp_user = Some \<lparr> ur_id = uuid_text X (u_id user), ur_email = u_email user, ur_first_name = u_first_name user,
       ur_last_name = u_last_name user \<rparr>,
     lp_error = None, lp_requires_otp = None, lp_login_token = None, lp_message = None \<rparr>"

definition otp_required :: "string \<Rightarrow> LoginResponse" where
  "otp_required login_token = \<lparr> lp_success = False, lp_token = None, lp_user = None, lp_error = None,
     lp_requires_otp = Some True, lp_login_token = Some login_token,
     lp_message = Some ''Please enter your OTP code to complete login'' \<rparr>"

text \<open>What follows a step whose error is answered by \<open>answer\<close>.\<close>

definition or_answer :: "'r \<Rightarrow> ('s, 'a) io \<Rightarrow> ('a \<Rightarrow> ('s, 'r) io) \<Rightarrow> ('s, 'r) io" where
  "or_answer answer m f =
     io_bind (io_try m) (\<lambda>res. case res of Inl _ \<Rightarrow> io_return answer | Inr x \<Rightarrow> f x)"

definition some_or_answer :: "'r \<Rightarrow> 'a option \<Rightarrow> ('a \<Rightarrow> ('s, 'r) io) \<Rightarrow> ('s, 'r) io" where
  "some_or_answer answer m f = (case m of None \<Rightarrow> io_return answer | Some x \<Rightarrow> f x)"

section \<open>Queries\<close>

definition find_user_by_email :: "string \<Rightarrow> (db, User option) io" where
  "find_user_by_email email = db_query_optional (\<lambda>d.
     map iu_user (filter (\<lambda>r. to_lowercase (u_email (iu_user r)) = to_lowercase email) (instance_users d)))"

definition find_active_user :: "uuid \<Rightarrow> (db, User option) io" where
  "find_active_user i = db_query_optional (\<lambda>d.
     map iu_user (filter (\<lambda>r. u_id (iu_user r) = i \<and> u_status (iu_user r) = IU_Active) (instance_users d)))"

definition otp_enabled_of :: "uuid \<Rightarrow> (db, bool option) io" where
  "otp_enabled_of i = db_query_optional (\<lambda>d.
     map uo_enabled (filter (\<lambda>r. uo_instance_user_id r = i) (user_otp_settings d)))"

section \<open>Login\<close>

definition login_claims :: "extlib \<Rightarrow> User \<Rightarrow> nat \<Rightarrow> json" where
  "login_claims X user now = JObj [(''user_id'', JStr (uuid_text X (u_id user))), (''email'', JStr (u_email user)),
     (''password_verified'', JBool True), (''exp'', JInt (int (now + 300))), (''iat'', JInt (int now))]"

definition password_valid :: "authlib \<Rightarrow> string \<Rightarrow> User \<Rightarrow> bool" where
  "password_valid L password user = (verify_password L password (u_encrypted_password user) = Inr True)"

definition complete_login ::
  "extlib \<Rightarrow> authlib \<Rightarrow> AppConfig \<Rightarrow> LoginResponse reply \<Rightarrow> User \<Rightarrow> (portal, LoginResponse reply) io" where
  "complete_login X L cfg failure user =
     or_answer failure (jwt_encode L (cf_jwt_secret cfg) (uuid_text X (u_id user)) (u_email user)) (\<lambda>token.
     io_return (200, Some (login_succeeded X user token)))"

definition login_user ::
  "extlib \<Rightarrow> authlib \<Rightarrow> AppConfig \<Rightarrow> string \<Rightarrow> User \<Rightarrow> (portal, LoginResponse reply) io" where
  "login_user X L cfg password user =
     (if \<not> User_is_confirmed user
      then io_return (200, Some (login_failed ''Please confirm your email address before signing in''))
      else if \<not> User_is_active user
      then io_return (200, Some (login_failed ''Your account has been suspended''))
      else if \<not> password_valid L password user
      then io_return (200, Some (login_failed ''Invalid email or password''))
      else or_answer server_error_login_response (in_db (otp_enabled_of (u_id user))) (\<lambda>otp.
        if unwrap_or otp False
        then io_bind unix_seconds (\<lambda>now.
          or_answer server_error_login_response
            (\<lambda>s. (al_jwt_encode L (cf_jwt_secret cfg) (login_claims X user now), s)) (\<lambda>login_token.
          io_return (200, Some (otp_required login_token))))
        else complete_login X L cfg server_error_login_response user))"

text \<open>The body is \<open>None\<close> when it could not be read.\<close>

definition login ::
  "extlib \<Rightarrow> authlib \<Rightarrow> AppConfig \<Rightarrow> (string \<times> string) option \<Rightarrow> (portal, LoginResponse reply) io" where
  "login X L cfg payload =
     (case payload of
        None \<Rightarrow> io_return (bad_request_login_response ''Invalid request. Send JSON with email and password.'')
      | Some (email0, password) \<Rightarrow>
          let email = trim email0 in
          if email = [] \<or> password = []
          then io_return (bad_request_login_response ''Email and password are required.'')
          else or_answer server_error_login_response (in_db (find_user_by_email (to_lowercase email))) (\<lambda>found.
            some_or_answer (200, Some (login_failed ''Invalid email or password'')) found
              (login_user X L cfg password)))"

section \<open>Completing a login with a second factor\<close>

record VerifyOtpLoginRequest =
  vo_login_token :: string
  vo_otp_code :: "string option"
  vo_backup_code :: "string option"

definition otp_settings_of :: "uuid \<Rightarrow> (db, UserOtpRow option) io" where
  "otp_settings_of i = db_query_optional (\<lambda>d. filter (\<lambda>r. uo_instance_user_id r = i) (user_otp_settings d))"

definition save_backup_codes :: "string \<Rightarrow> uuid \<Rightarrow> (db, unit) io" where
  "save_backup_codes codes i = db_stmt (\<lambda>d. (Inr (), d\<lparr>user_otp_settings :=
     update_rows (\<lambda>r. uo_instance_user_id r = i)
       (\<lambda>r. r\<lparr>uo_backup_codes_encrypted := Some codes, uo_updated_at := db_now d\<rparr>) (user_otp_settings d)\<rparr>))"

text \<open>The position of the first backup code that equals \<open>code\<close> up to letter case, with the list
  without it.\<close>

definition take_code :: "string \<Rightarrow> string list \<Rightarrow> string list option" where
  "take_code code codes =
     (let differs = (\<lambda>c. to_uppercase c \<noteq> to_uppercase code) in
      case dropWhile differs codes of
        [] \<Rightarrow> None
      | _ # rest \<Rightarrow> Some (takeWhile differs codes @ rest))"

abbreviation STATUS :: "nat \<Rightarrow> 'a reply" where
  "STATUS code \<equiv> (code, None)"

text \<open>Whether the code is right; \<open>None\<close> answers 500.\<close>

definition check_backup_code :: "authlib \<Rightarrow> uuid \<Rightarrow> string \<Rightarrow> string option \<Rightarrow> (portal, bool) io" where
  "check_backup_code L user_id code stored =
     (case stored of
        None \<Rightarrow> io_return False
      | Some text \<Rightarrow>
          (case take_code code (unwrap_or (al_codes_from L text) []) of
             None \<Rightarrow> io_return False
           | Some rest \<Rightarrow>
               (case al_codes_to L rest of
                  Inl e \<Rightarrow> io_err e
                | Inr updated \<Rightarrow> io_bind (in_db (save_backup_codes updated user_id)) (\<lambda>_. io_return True))))"

definition check_second_factor ::
  "authlib \<Rightarrow> VerifyOtpLoginRequest \<Rightarrow> uuid \<Rightarrow> UserOtpRow \<Rightarrow> (portal, bool) io" where
  "check_second_factor L payload user_id row =
     (case vo_backup_code payload of
        Some code \<Rightarrow> check_backup_code L user_id code (uo_backup_codes_encrypted row)
      | None \<Rightarrow>
          (case vo_otp_code payload of
             None \<Rightarrow> io_return False
           | Some code \<Rightarrow>
               (case OtpService_new L (uo_secret_encrypted row) of
                  Inl e \<Rightarrow> io_err e
                | Inr totp \<Rightarrow> otp_verify L totp code)))"

definition second_factor ::
  "extlib \<Rightarrow> authlib \<Rightarrow> AppConfig \<Rightarrow> VerifyOtpLoginRequest \<Rightarrow> User \<Rightarrow> (portal, LoginResponse reply) io" where
  "second_factor X L cfg payload user =
     or_answer (STATUS 500) (in_db (otp_enabled_of (u_id user))) (\<lambda>otp.
     if \<not> unwrap_or otp False
     then io_return (200, Some (login_failed ''OTP is not enabled for this account''))
     else or_answer (STATUS 500) (in_db (otp_settings_of (u_id user))) (\<lambda>settings.
       some_or_answer (STATUS 500) settings (\<lambda>row.
       or_answer (STATUS 500) (check_second_factor L payload (u_id user) row) (\<lambda>verified.
       if \<not> verified then io_return (200, Some (login_failed ''Invalid OTP code or backup code''))
       else complete_login X L cfg (STATUS 500) user))))"

definition verify_otp_login ::
  "extlib \<Rightarrow> authlib \<Rightarrow> AppConfig \<Rightarrow> VerifyOtpLoginRequest \<Rightarrow> (portal, LoginResponse reply) io" where
  "verify_otp_login X L cfg payload =
     (if vo_otp_code payload = None \<and> vo_backup_code payload = None
      then io_return (200, Some (login_failed ''OTP code or backup code is required''))
      else io_bind unix_seconds (\<lambda>now.
        or_answer (STATUS 401) (\<lambda>s. (al_jwt_decode L (cf_jwt_secret cfg) now (vo_login_token payload), s)) (\<lambda>claims.
        some_or_answer (STATUS 401) (Option.bind (json_get claims ''user_id'') as_str) (\<lambda>user_id_str.
        if (case Option.bind (json_get claims ''exp'') as_u64 of Some x \<Rightarrow> x < now | None \<Rightarrow> False)
        then io_return (200, Some (login_failed ''Login session expired. Please log in again.''))
        else some_or_answer (STATUS 401) (al_uuid_parse L user_id_str) (\<lambda>user_id.
          or_answer (STATUS 500) (in_db (find_active_user user_id)) (\<lambda>found.
          some_or_answer (STATUS 401) found (second_factor X L cfg payload)))))))"

section \<open>Resetting a password\<close>

record PasswordResponse =
  pw_success :: bool
  pw_message :: "string option"
  pw_error :: "string option"

definition pw_ok :: "string option \<Rightarrow> PasswordResponse reply" where
  "pw_ok message = (200, Some \<lparr> pw_success = True, pw_message = message, pw_error = None \<rparr>)"

definition pw_failed :: "nat \<Rightarrow> string \<Rightarrow> PasswordResponse reply" where
  "pw_failed code err = (code, Some \<lparr> pw_success = False, pw_message = None, pw_error = Some err \<rparr>)"

definition SERVER_ERROR :: "PasswordResponse reply" where
  "SERVER_ERROR = pw_failed 500 ''Server error. Please try again.''"

definition RESET_SENT :: string where
  "RESET_SENT = ''If an account with that email exists, a password reset link has been sent.''"

definition RESET_ALREADY_SENT :: string where
  "RESET_ALREADY_SENT = ''If an account with that email exists, a reset link was already sent. Please check your inbox or try again later.''"

definition find_active_by_email :: "string \<Rightarrow> (db, User option) io" where
  "find_active_by_email email = db_query_optional (\<lambda>d.
     map iu_user (filter (\<lambda>r. u_email (iu_user r) = email \<and> u_status (iu_user r) = IU_Active) (instance_users d)))"

definition last_reset_sent :: "uuid \<Rightarrow> (db, timestamp option option) io" where
  "last_reset_sent i = db_query_optional (\<lambda>d.
     map iu_reset_password_sent_at (filter (\<lambda>r. u_id (iu_user r) = i) (instance_users d)))"

text \<open>The token of a row is unique among those that are set.\<close>

definition save_reset_token :: "string \<Rightarrow> uuid \<Rightarrow> (db, unit) io" where
  "save_reset_token token i = db_stmt (\<lambda>d.
     if list_ex (\<lambda>r. u_id (iu_user r) \<noteq> i \<and> iu_reset_password_token r = Some token) (instance_users d)
        \<and> list_ex (\<lambda>r. u_id (iu_user r) = i) (instance_users d)
     then (Inl ''duplicate key value violates unique constraint'', d)
     else (Inr (), d\<lparr>instance_users := update_rows (\<lambda>r. u_id (iu_user r) = i)
       (\<lambda>r. r\<lparr>iu_user := (iu_user r)\<lparr>u_updated_at := db_now d\<rparr>, iu_reset_password_token := Some token,
          iu_reset_password_sent_at := Some (db_now d)\<rparr>) (instance_users d)\<rparr>))"

definition word_bytes :: "128 word \<Rightarrow> string" where
  "word_bytes x = map (\<lambda>i. char_of (unat (drop_bit (8 * i) x) mod 256)) [0..<16]"

definition draw_reset_token :: "authlib \<Rightarrow> (portal, string) io" where
  "draw_reset_token L =
     in_world (io_bind draw (\<lambda>a. io_bind draw (\<lambda>b. io_return (al_b64_url L (word_bytes a @ word_bytes b)))))"

text \<open>Scheme and host of a URL.\<close>

fun find_scheme_end :: "string \<Rightarrow> nat option" where
  "find_scheme_end s =
     (case s of
        [] \<Rightarrow> None
      | c # cs \<Rightarrow> if starts_with s ''://'' then Some 0 else map_option Suc (find_scheme_end cs))"

declare find_scheme_end.simps [simp del]

definition origin_of :: "string \<Rightarrow> string" where
  "origin_of s0 =
     (let s = trim_end_slashes s0 in
      case find_scheme_end s of
        None \<Rightarrow> s
      | Some i \<Rightarrow> take (i + 3) s @ takeWhile (\<lambda>c. c \<noteq> CHR ''/'') (drop (i + 3) s))"

definition reset_base_url :: "AppConfig \<Rightarrow> (string \<times> string option) list \<Rightarrow> string" where
  "reset_base_url cfg headers =
     (if to_lowercase (cf_environment cfg) = ''development''
      then unwrap_or (map_option (\<lambda>s. origin_of (trim s))
             (flatten_option (opt_or (map_of headers ''origin'') (map_of headers ''referer''))))
           (cf_password_reset_base_url cfg)
      else cf_password_reset_base_url cfg)"

definition mail_reset_link ::
  "authlib \<Rightarrow> AppConfig \<Rightarrow> (string \<times> string option) list \<Rightarrow> User \<Rightarrow> (portal, PasswordResponse reply) io" where
  "mail_reset_link L cfg headers user =
     io_bind (draw_reset_token L) (\<lambda>token.
     or_answer SERVER_ERROR (in_db (save_reset_token token (u_id user))) (\<lambda>_.
     or_answer SERVER_ERROR (send_reset_email (reset_base_url cfg headers) user token) (\<lambda>_.
     io_return (pw_ok (Some RESET_SENT)))))"

definition forgot_password ::
  "authlib \<Rightarrow> AppConfig \<Rightarrow> (string \<times> string option) list \<Rightarrow> string option \<Rightarrow> (portal, PasswordResponse reply) io" where
  "forgot_password L cfg headers payload =
     (case payload of
        None \<Rightarrow> io_return (pw_failed 400 ''Invalid request. Send JSON with email.'')
      | Some email0 \<Rightarrow>
          let email = to_lowercase (trim email0) in
          if email = [] then io_return (pw_failed 400 ''Email is required.'')
          else or_answer SERVER_ERROR (in_db (find_active_by_email email)) (\<lambda>found.
            case found of
              None \<Rightarrow> io_return (pw_ok (Some RESET_SENT))
            | Some user \<Rightarrow>
                or_answer SERVER_ERROR (in_db (last_reset_sent (u_id user))) (\<lambda>last_sent.
                io_bind (in_world current_time) (\<lambda>now.
                if (case flatten_option last_sent of Some ts \<Rightarrow> (now - ts) div 1000 < 300 | None \<Rightarrow> False)
                then io_return (pw_ok (Some RESET_ALREADY_SENT))
                else mail_reset_link L cfg headers user))))"

definition set_password :: "string \<Rightarrow> string \<Rightarrow> (db, nat) io" where
  "set_password encrypted token = db_stmt (\<lambda>d.
     let p = (\<lambda>r. iu_reset_password_token r = Some token \<and> u_status (iu_user r) = IU_Active) in
     (Inr (length (filter p (instance_users d))),
      d\<lparr>instance_users := update_rows p (\<lambda>r. r\<lparr>
         iu_user := (iu_user r)\<lparr>u_encrypted_password := encrypted, u_updated_at := db_now d\<rparr>,
         iu_reset_password_token := None, iu_reset_password_sent_at := None\<rparr>) (instance_users d)\<rparr>))"

definition reset_password :: "authlib \<Rightarrow> (string \<times> string) option \<Rightarrow> (portal, PasswordResponse reply) io" where
  "reset_password L payload =
     (case payload of
        None \<Rightarrow> io_return (pw_failed 400 ''Invalid request. Send JSON with token and new_password.'')
      | Some (token0, new_password) \<Rightarrow>
          let token = trim token0 in
          if token = [] \<or> new_password = []
          then io_return (pw_failed 400 ''Token and new password are required.'')
          else case validate_password new_password of
              Inl e \<Rightarrow> io_return (pw_failed 400 e)
            | Inr _ \<Rightarrow>
                or_answer SERVER_ERROR (hash_password L new_password) (\<lambda>encrypted.
                or_answer SERVER_ERROR (in_db (set_password encrypted token)) (\<lambda>n.
                io_return (if n = 0
                  then pw_failed 200 ''Invalid or expired reset link. Please request a new password reset.''
                  else pw_ok None))))"

end
