(* ===== verification/Middleware.thy ===== *)
theory Middleware
  imports LeadHandler Auth
begin

unbundle bit_operations_syntax

text \<open>
  Model of \<open>crates/api/src/middleware\<close> (\<open>api_auth.rs\<close>, \<open>hmac.rs\<close>, \<open>jwt_auth.rs\<close>) and of the
  layers that \<open>main.rs\<close> puts around the lead routes. A middleware gets the request and what comes
  next; it answers itself or runs that. Header names are in lower case, as the framework compares
  them; a value is \<open>None\<close> when it is not visible ASCII. The hash of an API key (hexadecimal SHA-256)
  and the JSON form in which the cache keeps a publisher are parameters.
\<close>

section \<open>Requests and answers\<close>

text \<open>An answer of a middleware is a bare status or a status with an error text.\<close>

datatype 'a response = Status nat | Unauthorized string | Handled 'a

record http_call =
  hc_headers :: "(string \<times> string option) list"
  hc_body :: "string result"

definition text_header :: "http_call \<Rightarrow> string \<Rightarrow> string option" where
  "text_header q name = flatten_option (map_of (hc_headers q) name)"

section \<open>API keys\<close>

definition Publisher_require_hmac :: "Publisher \<Rightarrow> bool" where
  "Publisher_require_hmac p = p_hmac_required p"

definition find_publisher ::
  "(string \<Rightarrow> string) \<Rightarrow> Publisher option codec \<Rightarrow> bool \<Rightarrow> string \<Rightarrow> (world, Publisher option) io" where
  "find_publisher sha256_hex cd cached api_key =
     (let fetch = Publisher_find_by_api_key sha256_hex api_key in
      if cached
      then on_cached_db (get_or_insert_with cd (''publisher:api_key:'' @ sha256_hex (trim api_key)) 3600
             (io_map_err db_error fetch))
      else on_db fetch)"

definition api_key_auth_middleware ::
  "(string \<Rightarrow> string) \<Rightarrow> Publisher option codec \<Rightarrow> bool \<Rightarrow> http_call
   \<Rightarrow> (Publisher \<Rightarrow> (intake, 'a response) io) \<Rightarrow> (intake, 'a response) io" where
  "api_key_auth_middleware sha256_hex cd cached q next_layer =
     (case text_header q ''x-api-key'' of
        None \<Rightarrow> io_return (Unauthorized ''Missing X-API-Key header'')
      | Some api_key \<Rightarrow>
          io_bind (io_catch (on_world (find_publisher sha256_hex cd cached api_key))) (\<lambda>res.
          case res of
            Inl _ \<Rightarrow> io_return (Status 500)
          | Inr None \<Rightarrow> io_return (Unauthorized ''Invalid or unknown API key'')
          | Inr (Some p) \<Rightarrow>
              if \<not> Publisher_active p then io_return (Unauthorized ''Publisher account is not active'')
              else io_bind (io_try (on_world (on_db (Publisher_record_request p)))) (\<lambda>_. next_layer p)))"

section \<open>Signatures\<close>

definition byte_of :: "char \<Rightarrow> 8 word" where
  "byte_of c = of_nat (of_char c)"

text \<open>The comparison in constant time: the bits in which the bytes differ are collected.\<close>

definition constant_time_eq :: "string \<Rightarrow> string \<Rightarrow> bool" where
  "constant_time_eq expected provided \<longleftrightarrow> length expected = length provided
     \<and> foldl (\<lambda>acc (a, b). acc OR (byte_of a XOR byte_of b)) 0 (zip expected provided) = 0"

definition provided_signature :: "string \<Rightarrow> string" where
  "provided_signature header_value =
     trim (if starts_with header_value ''sha256='' then drop 7 header_value else header_value)"

definition hmac_secret :: "(string \<times> string) list \<Rightarrow> string option" where
  "hmac_secret vars = opt_or (map_of vars ''HMAC_SECRET'') (map_of vars ''CARINA_HMAC_SECRET'')"

definition hmac_verification_middleware ::
  "extlib \<Rightarrow> http_call \<Rightarrow> Publisher option \<Rightarrow> (intake, 'a response) io \<Rightarrow> (intake, 'a response) io" where
  "hmac_verification_middleware X q publisher next_layer =
     (if is_some (map_of (hc_headers q) ''x-internal-buyer-id'') then next_layer
      else case publisher of
          None \<Rightarrow> io_return (Status 500)
        | Some p \<Rightarrow>
            (case text_header q ''x-hmac-signature'' of
               None \<Rightarrow> if Publisher_require_hmac p then io_return (Status 401) else next_layer
             | Some hmac_header \<Rightarrow>
                 io_bind (io_get (\<lambda>s. hmac_secret (sm_vars (it_ssm s)))) (\<lambda>secret.
                 case secret of
                   None \<Rightarrow> if Publisher_require_hmac p then io_return (Status 500) else next_layer
                 | Some k \<Rightarrow>
                     (case hc_body q of
                        Inl _ \<Rightarrow> io_return (Status 400)
                      | Inr body \<Rightarrow>
                          if constant_time_eq (hex_encode X (hmac_sha256 X k body)) (provided_signature hmac_header)
                          then next_layer else io_return (Status 401)))))"

section \<open>Sessions\<close>

definition bearer_token :: "http_call \<Rightarrow> string option" where
  "bearer_token q =
     Option.bind (text_header q ''authorization'') (\<lambda>s. if starts_with s ''Bearer '' then Some (drop 7 s) else None)"

definition jwt_auth_middleware ::
  "authlib \<Rightarrow> AppConfig \<Rightarrow> http_call \<Rightarrow> (User \<Rightarrow> (portal, 'a response) io) \<Rightarrow> (portal, 'a response) io" where
  "jwt_auth_middleware L cfg q next_layer =
     (case bearer_token q of
        None \<Rightarrow> io_return (Status 401)
      | Some token \<Rightarrow>
          or_answer (Status 401) (jwt_decode L (cf_jwt_secret cfg) token) (\<lambda>claims.
          some_or_answer (Status 401) (al_uuid_parse L (cl_user_id claims)) (\<lambda>user_id.
          or_answer (Status 500) (in_db (find_active_user user_id)) (\<lambda>found.
          some_or_answer (Status 401) found (\<lambda>user.
          if \<not> User_is_active user then io_return (Status 401) else next_layer user)))))"

section \<open>The lead routes\<close>

datatype lead_route = LeadsRoute | PingRoute | PostRoute | FullpostRoute

text \<open>The extractor of the body answers 400 to a body that is not JSON and 422 to JSON of another
  shape; only the three routes with a fixed request type accept the nested shape.\<close>

definition lead_handler ::
  "extlib \<Rightarrow> apilib \<Rightarrow> lead_route \<Rightarrow> request_info \<Rightarrow> http_call \<Rightarrow> (intake, answer response) io" where
  "lead_handler X A route R q =
     (case hc_body q of
        Inl _ \<Rightarrow> io_return (Status 400)
      | Inr body \<Rightarrow>
          (case json_parse X body of
             None \<Rightarrow> io_return (Status 400)
           | Some v \<Rightarrow>
               (case (if route = LeadsRoute then LeadRequest_from_json v else LeadRequestIncoming_from_json v) of
                  None \<Rightarrow> io_return (Status 422)
                | Some request \<Rightarrow>
                    io_bind (case route of
                        LeadsRoute \<Rightarrow> create_lead X A R request
                      | PingRoute \<Rightarrow> create_lead_ping X A R request
                      | PostRoute \<Rightarrow> create_lead_post X A R request
                      | FullpostRoute \<Rightarrow> create_lead_fullpost X A R request) (\<lambda>a. io_return (Handled a)))))"

text \<open>A request to a lead route, through its layers.\<close>

definition leads_service ::
  "extlib \<Rightarrow> apilib \<Rightarrow> (string \<Rightarrow> string) \<Rightarrow> Publisher option codec \<Rightarrow> lead_route \<Rightarrow> request_info \<Rightarrow> http_call
   \<Rightarrow> (intake, answer response) io" where
  "leads_service X A sha256_hex cd route R q =
     api_key_auth_middleware sha256_hex cd (ri_cache R) q (\<lambda>p.
     hmac_verification_middleware X q (Some p)
       (lead_handler X A route (R\<lparr>ri_publisher := p, ri_headers := hc_headers q\<rparr>) q))"

end
