(* ===== verification/MiddlewareProps.thy ===== *)
theory MiddlewareProps
  imports Middleware LeadHandlerProps
begin

text \<open>
  Properties of the middleware: which lead requests reach their handler, and what a session token
  stands for.
\<close>

section \<open>Signatures\<close>

lemma byte_of_inject: "byte_of a = byte_of b \<longleftrightarrow> a = b"
proof
  assume "byte_of a = byte_of b"
  then have "unat (byte_of a) = unat (byte_of b)" by simp
  then have "(of_char a :: nat) mod 256 = of_char b mod 256"
    by (simp add: byte_of_def unat_of_nat take_bit_eq_mod)
  moreover have "(of_char a :: nat) < 256" "(of_char b :: nat) < 256" by simp_all
  ultimately have "(of_char a :: nat) = of_char b" by simp
  then show "a = b" by simp
qed simp

lemma word_xor_zero: "(a :: 8 word) XOR b = 0 \<longleftrightarrow> a = b"
  by (auto simp: bit_eq_iff bit_xor_iff)

lemma differing_bits:
  "foldl (\<lambda>acc (a, b). acc OR (byte_of a XOR byte_of b)) acc ps = 0 \<longleftrightarrow> acc = 0 \<and> (\<forall>(a, b)\<in>set ps. a = b)"
proof (induction ps arbitrary: acc)
  case (Cons p ps)
  obtain a b where p: "p = (a, b)" by force
  have "acc OR (byte_of a XOR byte_of b) = 0 \<longleftrightarrow> acc = 0 \<and> a = b"
    by (simp add: or_eq_0_iff word_xor_zero byte_of_inject)
  then show ?case using Cons p by auto
qed simp

lemma constant_time_eq_iff: "constant_time_eq a b \<longleftrightarrow> a = b"
proof -
  have "constant_time_eq a b \<longleftrightarrow> list_all2 (=) a b"
    using differing_bits [of 0 "zip a b"] by (simp add: constant_time_eq_def list_all2_iff)
  then show ?thesis by (simp add: list_all2_eq)
qed

text \<open>Whether a request is signed with the secret of the service.\<close>

definition signed :: "extlib \<Rightarrow> (string \<times> string) list \<Rightarrow> http_call \<Rightarrow> bool" where
  "signed X vars q =
     (case (text_header q ''x-hmac-signature'', hmac_secret vars, hc_body q) of
        (Some h, Some k, Inr body) \<Rightarrow> provided_signature h = hex_encode X (hmac_sha256 X k body)
      | _ \<Rightarrow> False)"

text \<open>C10: A request of a publisher that requires signatures is passed on exactly when it is signed or
  carries a header with the name of the internal buyer, whatever its value: everybody can skip the
  check by sending that header. A request that is not passed on changes nothing.\<close>

theorem signature_check:
  assumes "Publisher_require_hmac p"
  shows "if signed X (sm_vars (it_ssm s)) q \<or> is_some (map_of (hc_headers q) ''x-internal-buyer-id'')
    then hmac_verification_middleware X q (Some p) next_layer s = next_layer s
    else \<exists>code. hmac_verification_middleware X q (Some p) next_layer s = (Inr (Status code), s) \<and> code \<in> {400, 401, 500}"
  using assms
  by (auto simp: hmac_verification_middleware_def signed_def constant_time_eq_iff io_bind_def io_get_def io_return_def
      split: option.split sum.split)


theorem signature_check_witness:
  "hmac_verification_middleware plain_crypto \<lparr> hc_headers = [(''x-internal-buyer-id'', None)], hc_body = Inr ''{}'' \<rparr>
     (Some (sample_publisher\<lparr>p_hmac_required := True\<rparr>)) (io_return (Handled (7 :: nat))) (sample_intake empty_db)
   = (Inr (Handled 7), sample_intake empty_db)"
  using signature_check [of "sample_publisher\<lparr>p_hmac_required := True\<rparr>" plain_crypto "sample_intake empty_db"
      "\<lparr> hc_headers = [(''x-internal-buyer-id'', None)], hc_body = Inr ''{}'' \<rparr>" "io_return (Handled 7)"]
  by (simp add: Publisher_require_hmac_def io_return_def)

section \<open>API keys\<close>

text \<open>The publishers that an API key names.\<close>

definition key_owners :: "(string \<Rightarrow> string) \<Rightarrow> http_call \<Rightarrow> intake \<Rightarrow> Publisher list" where
  "key_owners sha256_hex q s =
     (case text_header q ''x-api-key'' of
        None \<Rightarrow> []
      | Some key \<Rightarrow> filter (\<lambda>p. p_api_key_hash p = sha256_hex (trim key) \<and> Publisher_active p) (publishers (w_db (it_world s))))"

lemma find_publisher_run:
  assumes "on_world (find_publisher sha256_hex cd False key) s = (res, s')"
  shows "contacted s' = contacted s \<and> stored s' = stored s \<and> (\<forall>p. res = Inr (Some p) \<longrightarrow> p \<in> set (publishers (w_db (it_world s)))
    \<and> p_api_key_hash p = sha256_hex (trim key) \<and> p_deleted_at p = None)"
  using assms
  by (auto simp: find_publisher_def Publisher_find_by_api_key_def on_world_def on_db_def db_query_optional_def db_query_def
      db_stmt_def io_simps Let_def contacted_def stored_def quiet_def first_row_def set_db_def
      dest!: filter_eq_ConsD split: if_splits prod.splits list.splits option.splits)



end
