(* ===== verification/Security.thy ===== *)
theory Security
  imports Middleware
begin

text \<open>
  Model of the security part of \<open>crates/api/src/routes/dashboard.rs\<close>: the second factor of a user is
  set up, confirmed and switched off, a link to reset the password is mailed, and these actions are
  logged and listed; with the helpers on instances and audit logs. The handlers stand behind
  \<open>jwt_auth_middleware\<close> and read the session token again. Passkeys are not modelled.
\<close>

section \<open>Helpers\<close>

definition is_user_admin :: "uuid \<Rightarrow> uuid option \<Rightarrow> (db, bool) io" where
  "is_user_admin user_id instance_id = db_query (\<lambda>d. list_ex (\<lambda>i.
     ins_instance_user_id i = Some user_id \<and> ins_deleted_at i = None
     \<and> (case instance_id of Some inst \<Rightarrow> ins_id i = inst | None \<Rightarrow> True)) (instances d))"

definition get_instance_id_for_user :: "uuid \<Rightarrow> (db, uuid option) io" where
  "get_instance_id_for_user user_id = db_query_optional (\<lambda>d. map ins_id
     (filter (\<lambda>i. ins_instance_user_id i = Some user_id \<and> ins_deleted_at i = None) (instances d)))"

text \<open>The database generates the id of a log.\<close>

definition create_audit_log ::
  "uuid option \<Rightarrow> uuid option \<Rightarrow> string \<Rightarrow> string option \<Rightarrow> uuid option \<Rightarrow> json \<Rightarrow> json \<Rightarrow> string option
   \<Rightarrow> string option \<Rightarrow> (db, unit) io" where
  "create_audit_log instance_id user_id action_type resource_type resource_id details affected ip agent = db_stmt (\<lambda>d.
     (Inr (), d\<lparr>audit_logs := audit_logs d @ [\<lparr> au_id = of_int (db_next_id d), au_instance_id = instance_id,
        au_instance_user_id = user_id, au_action_type = action_type, au_resource_type = resource_type,
        au_resource_id = resource_id, au_details = details, au_affected_resources = affected,
        au_ip_address = ip, au_user_agent = agent, au_created_at = db_now d, au_updated_at = db_now d \<rparr>],
        db_next_id := db_next_id d + 1\<rparr>))"

definition first_text_header :: "http_call \<Rightarrow> string \<Rightarrow> string \<Rightarrow> string option" where
  "first_text_header q k k' = flatten_option (opt_or (map_of (hc_headers q) k) (map_of (hc_headers q) k'))"

definition request_ip :: "http_call \<Rightarrow> string option" where
  "request_ip q = map_option (\<lambda>s. trim (takeWhile (\<lambda>c. c \<noteq> CHR '','') s)) (first_text_header q ''x-forwarded-for'' ''x-real-ip'')"

text \<open>The user of the session, whose loss answers 401.\<close>

definition with_user ::
  "authlib \<Rightarrow> AppConfig \<Rightarrow> http_call \<Rightarrow> (User \<Rightarrow> (portal, 'a reply) io) \<Rightarrow> (portal, 'a reply) io" where
  "with_user L cfg q f =
     some_or_answer (STATUS 401) (bearer_token q) (\<lambda>token.
     or_answer (STATUS 401) (jwt_decode L (cf_jwt_secret cfg) token) (\<lambda>claims.
     some_or_answer (STATUS 401) (al_uuid_parse L (cl_user_id claims)) (\<lambda>user_id.
     or_answer (STATUS 500) (in_db (find_active_user user_id)) (\<lambda>found.
     some_or_answer (STATUS 401) found f))))"

definition refused_json :: "string \<Rightarrow> json reply" where
  "refused_json err = (200, Some (JObj [(''success'', JBool False), (''error'', JStr err)]))"

text \<open>The log of a security action, where the user has an instance; errors are ignored.\<close>

definition security_details ::
  "extlib \<Rightarrow> string \<Rightarrow> string \<Rightarrow> string \<Rightarrow> User \<Rightarrow> string \<Rightarrow> http_call \<Rightarrow> timestamp \<Rightarrow> json" where
  "security_details X action reason endpoint user request_id q now = JObj
     [(''action'', JStr action), (''target_type'', JStr ''Security''), (''target_id'', JStr (uuid_text X (u_id user))),
      (''target_name'', JStr (u_email user)),
      (''context'', JObj [(''reason'', JStr reason), (''request_id'', JStr request_id), (''ip_address'', opt_json (request_ip q)),
         (''user_agent'', opt_json (text_header q ''user-agent'')), (''method'', JStr ''POST''), (''endpoint'', JStr endpoint),
         (''source'', JStr ''dashboard_web_ui'')]),
      (''compliance'', JObj [(''standard'', JStr ''ISO_27001_SOC2_NIST''), (''version'', JStr ''2024'')]),
      (''outcome'', JStr ''success''), (''timestamp'', JStr (utc_rfc3339 X now))]"

definition log_security ::
  "extlib \<Rightarrow> string \<Rightarrow> string \<Rightarrow> string \<Rightarrow> User \<Rightarrow> http_call \<Rightarrow> (portal, unit) io" where
  "log_security X action reason endpoint user q =
     io_bind (io_try (in_db (get_instance_id_for_user (u_id user)))) (\<lambda>inst.
     case ok_some inst of
       None \<Rightarrow> io_return ()
     | Some instance_id \<Rightarrow>
         io_bind (case first_text_header q ''x-request-id'' ''x-correlation-id'' of
             Some i \<Rightarrow> io_return i
           | None \<Rightarrow> in_world (io_bind draw_uuid (\<lambda>u. io_return (uuid_text X u)))) (\<lambda>request_id.
         io_bind (in_world current_time) (\<lambda>now.
         io_bind (io_try (in_db (create_audit_log (Some instance_id) (Some (u_id user)) action (Some ''Security'')
           (Some (u_id user)) (security_details X action reason endpoint user request_id q now) (JObj []) (request_ip q)
           (text_header q ''user-agent'')))) (\<lambda>_. io_return ()))))"

section \<open>The second factor\<close>

definition upsert_otp_secret :: "uuid \<Rightarrow> string \<Rightarrow> (db, unit) io" where
  "upsert_otp_secret user_id secret = db_stmt (\<lambda>d.
     (Inr (), if list_ex (\<lambda>r. uo_instance_user_id r = user_id) (user_otp_settings d)
       then d\<lparr>user_otp_settings := update_rows (\<lambda>r. uo_instance_user_id r = user_id)
         (\<lambda>r. r\<lparr>uo_secret_encrypted := secret, uo_enabled := False, uo_updated_at := db_now d\<rparr>) (user_otp_settings d)\<rparr>
       else d\<lparr>user_otp_settings := user_otp_settings d @ [\<lparr> uo_instance_user_id = user_id, uo_enabled = False,
         uo_secret_encrypted = secret, uo_backup_codes_encrypted = None, uo_last_verified_at = None,
         uo_created_at = db_now d, uo_updated_at = db_now d \<rparr>]\<rparr>))"

definition draw_otp_secret :: "authlib \<Rightarrow> (portal, string) io" where
  "draw_otp_secret L = in_world (io_bind draw (\<lambda>a. io_bind draw (\<lambda>b.
     io_return (al_b32 L (word_bytes a @ take 4 (word_bytes b))))))"

definition setup_otp :: "authlib \<Rightarrow> AppConfig \<Rightarrow> http_call \<Rightarrow> (portal, json reply) io" where
  "setup_otp L cfg q =
     with_user L cfg q (\<lambda>user.
     or_answer (STATUS 500) (in_db (otp_enabled_of (u_id user))) (\<lambda>existing.
     if existing = Some True
     then io_return (refused_json ''OTP is already enabled. Please disable it first to set up a new one.'')
     else io_bind (draw_otp_secret L) (\<lambda>secret.
       or_answer (STATUS 500) (in_db (upsert_otp_secret (u_id user) secret)) (\<lambda>_.
       io_return (200, Some (JObj [(''success'', JBool True), (''secret'', JStr secret),
         (''secret_encrypted'', JStr secret), (''provisioning_uri'', JStr (''otpauth://totp/LeadsNebula:''
            @ al_url_encode L (u_email user) @ ''?secret='' @ secret @ ''&issuer=LeadsNebula''))])))))) "

definition CODE_CHARS :: string where
  "CODE_CHARS = ''ABCDEFGHJKLMNPQRSTUVWXYZ23456789''"

definition draw_backup_code :: "(portal, string) io" where
  "draw_backup_code = in_world (io_mapM (\<lambda>_. io_bind draw (\<lambda>x.
     io_return (CODE_CHARS ! (unat x mod 256 mod length CODE_CHARS)))) [0..<8])"

definition enable_otp :: "string \<Rightarrow> uuid \<Rightarrow> (db, unit) io" where
  "enable_otp codes user_id = db_stmt (\<lambda>d. (Inr (), d\<lparr>user_otp_settings :=
     update_rows (\<lambda>r. uo_instance_user_id r = user_id)
       (\<lambda>r. r\<lparr>uo_enabled := True, uo_backup_codes_encrypted := Some codes, uo_last_verified_at := Some (db_now d),
          uo_updated_at := db_now d\<rparr>) (user_otp_settings d)\<rparr>))"

definition otp_secret_of :: "uuid \<Rightarrow> (db, string option) io" where
  "otp_secret_of user_id = db_query_optional (\<lambda>d.
     map uo_secret_encrypted (filter (\<lambda>r. uo_instance_user_id r = user_id) (user_otp_settings d)))"

definition confirm_otp :: "extlib \<Rightarrow> authlib \<Rightarrow> http_call \<Rightarrow> User \<Rightarrow> (portal, json reply) io" where
  "confirm_otp X L q user =
     io_bind (io_mapM (\<lambda>_. draw_backup_code) [0..<8]) (\<lambda>codes.
     case al_codes_to L codes of
       Inl _ \<Rightarrow> io_return (STATUS 500)
     | Inr text \<Rightarrow>
         or_answer (STATUS 500) (in_db (enable_otp text (u_id user))) (\<lambda>_.
         io_bind (log_security X ''otp_enabled'' ''User enabled OTP 2FA'' ''/api/security/otp/verify'' user q) (\<lambda>_.
         io_return (200, Some (JObj [(''success'', JBool True), (''backup_codes_encrypted'', JArr (map JStr codes))])))))"

definition verify_otp ::
  "extlib \<Rightarrow> authlib \<Rightarrow> AppConfig \<Rightarrow> http_call \<Rightarrow> string \<Rightarrow> string option \<Rightarrow> (portal, json reply) io" where
  "verify_otp X L cfg q code payload_secret =
     with_user L cfg q (\<lambda>user.
     or_answer (STATUS 500) (in_db (otp_secret_of (u_id user))) (\<lambda>stored.
     some_or_answer (STATUS 400) (opt_or stored payload_secret) (\<lambda>secret.
     case OtpService_new L secret of
       Inl _ \<Rightarrow> io_return (STATUS 500)
     | Inr totp \<Rightarrow>
         io_bind (otp_verify L totp code) (\<lambda>is_valid.
         if \<not> is_valid then io_return (refused_json ''Invalid OTP code. Please try again.'')
         else confirm_otp X L q user))))"

definition switch_off_otp :: "uuid \<Rightarrow> (db, unit) io" where
  "switch_off_otp user_id = db_stmt (\<lambda>d. (Inr (), d\<lparr>user_otp_settings :=
     update_rows (\<lambda>r. uo_instance_user_id r = user_id) (\<lambda>r. r\<lparr>uo_enabled := False, uo_updated_at := db_now d\<rparr>)
       (user_otp_settings d)\<rparr>))"

definition disable_otp :: "extlib \<Rightarrow> authlib \<Rightarrow> AppConfig \<Rightarrow> http_call \<Rightarrow> (portal, json reply) io" where
  "disable_otp X L cfg q =
     with_user L cfg q (\<lambda>user.
     or_answer (STATUS 500) (in_db (otp_enabled_of (u_id user))) (\<lambda>enabled.
     if \<not> unwrap_or enabled False then io_return (refused_json ''OTP is not enabled.'')
     else or_answer (STATUS 500) (in_db (switch_off_otp (u_id user))) (\<lambda>_.
       io_bind (log_security X ''otp_disabled'' ''User disabled OTP 2FA'' ''/api/security/otp/disable'' user q) (\<lambda>_.
       io_return (200, Some (JObj [(''success'', JBool True), (''message'', JStr ''OTP disabled successfully.'')]))))))"

text \<open>A request to the dashboard passes the middleware first.\<close>

definition dashboard_service ::
  "authlib \<Rightarrow> AppConfig \<Rightarrow> http_call \<Rightarrow> (portal, 'a) io \<Rightarrow> (portal, 'a response) io" where
  "dashboard_service L cfg q handler =
     jwt_auth_middleware L cfg q (\<lambda>_. io_bind handler (\<lambda>a. io_return (Handled a)))"

section \<open>Mail and logs\<close>

definition ALREADY_SENT :: string where
  "ALREADY_SENT = ''If an account exists for this email, a reset link was already sent. Please check your inbox or try again later.''"

definition send_password_reset_email :: "authlib \<Rightarrow> AppConfig \<Rightarrow> http_call \<Rightarrow> (portal, json reply) io" where
  "send_password_reset_email L cfg q =
     with_user L cfg q (\<lambda>user.
     or_answer (STATUS 500) (in_db (last_reset_sent (u_id user))) (\<lambda>last_sent.
     io_bind (in_world current_time) (\<lambda>now.
     if (case flatten_option last_sent of Some ts \<Rightarrow> (now - ts) div 1000 < 300 | None \<Rightarrow> False)
     then io_return (200, Some (JObj [(''success'', JBool True), (''message'', JStr ALREADY_SENT)]))
     else io_bind (draw_reset_token L) (\<lambda>token.
       or_answer (STATUS 500) (in_db (save_reset_token token (u_id user))) (\<lambda>_.
       or_answer (STATUS 500) (send_reset_email (reset_base_url cfg (hc_headers q)) user token) (\<lambda>_.
       io_return (200, Some (JObj [(''success'', JBool True)]))))))))"

definition SECURITY_ACTIONS :: "string list" where
  "SECURITY_ACTIONS = [''otp_enabled'', ''otp_disabled'', ''passkey_registered'', ''passkey_deleted'']"

text \<open>The logs of a user, latest first, at most a hundred.\<close>

definition security_logs :: "uuid \<Rightarrow> (db, (AuditLog \<times> User option) list) io" where
  "security_logs user_id = db_query (\<lambda>d.
     map (\<lambda>l. (l, first_row (map iu_user (filter (\<lambda>r. au_instance_user_id l = Some (u_id (iu_user r))) (instance_users d)))))
       (take 100 (sort_by (\<lambda>a b. cmp (au_created_at b) (au_created_at a))
         (filter (\<lambda>l. au_instance_user_id l = Some user_id \<and> au_action_type l \<in> set SECURITY_ACTIONS) (audit_logs d)))))"

definition log_user_name :: "User option \<Rightarrow> string" where
  "log_user_name user =
     (let email = unwrap_or (map_option u_email user) ''Unknown'' in
      case (Option.bind user u_first_name, Option.bind user u_last_name) of
        (Some f, Some l) \<Rightarrow> if f \<noteq> [] \<or> l \<noteq> [] then trim (f @ '' '' @ l) else email
      | _ \<Rightarrow> email)"

definition security_log_json :: "extlib \<Rightarrow> AuditLog \<times> User option \<Rightarrow> json" where
  "security_log_json X lu = (case lu of (l, user) \<Rightarrow> JObj
     [(''id'', JStr (uuid_text X (au_id l))), (''action_type'', JStr (au_action_type l)),
      (''user'', JStr (log_user_name user)), (''details'', au_details l),
      (''created_at'', JStr (utc_rfc3339 X (au_created_at l)))])"

definition list_security_audit_logs :: "extlib \<Rightarrow> authlib \<Rightarrow> AppConfig \<Rightarrow> http_call \<Rightarrow> (portal, json reply) io" where
  "list_security_audit_logs X L cfg q =
     some_or_answer (STATUS 401) (bearer_token q) (\<lambda>token.
     or_answer (STATUS 401) (jwt_decode L (cf_jwt_secret cfg) token) (\<lambda>claims.
     some_or_answer (STATUS 401) (al_uuid_parse L (cl_user_id claims)) (\<lambda>user_id.
     or_answer (STATUS 500) (in_db (security_logs user_id)) (\<lambda>logs.
     io_return (200, Some (JObj [(''success'', JBool True), (''audit_logs'', JArr (map (security_log_json X) logs))]))))))"

end
