(* ===== verification/SecurityProps.thy ===== *)
theory SecurityProps
  imports Security
begin

text \<open>
  Properties of logins, second factors and password resets: who gets a session, what the token
  of an unfinished login allows, that codes and reset links are used once, and what the answers
  give away.
\<close>

section \<open>Runs\<close>

abbreviation p_db :: "portal \<Rightarrow> db" where
  "p_db s \<equiv> w_db (px_world s)"

abbreviation p_secs :: "portal \<Rightarrow> nat" where
  "p_secs s \<equiv> db_now (p_db s) div 1000"

lemma set_db_same [simp]: "set_db (w_db w) w = w"
  by (simp add: set_db_def)

lemma px_world_same [simp]: "s\<lparr>px_world := px_world s\<rparr> = s"
  by simp

lemma in_db_run: "m (p_db s) = (r, d) \<Longrightarrow> in_db m s = (r, s\<lparr>px_world := set_db d (px_world s)\<rparr>)"
  by (simp add: in_db_def in_world_def on_db_def)

lemma query_run:
  "db_faults (p_db s) = [] \<Longrightarrow> in_db (db_query_optional f) s = (Inr (first_row (f (p_db s))), s)"
  by (simp add: in_db_def in_world_def on_db_def db_query_optional_def db_query_def db_stmt_def io_simps)

lemma unix_seconds_run [simp]: "unix_seconds s = (Inr (p_secs s), s)"
  by (simp add: unix_seconds_def in_world_def current_time_def io_simps)

lemma current_time_run [simp]: "in_world current_time s = (Inr (db_now (p_db s)), s)"
  by (simp add: in_world_def current_time_def io_simps)

text \<open>Queries change no table, whatever fails.\<close>

definition p_tables :: "portal \<Rightarrow> db" where
  "p_tables s = tables (p_db s)"

lemma query_cases:
  assumes "in_db (db_query_optional f) s = (res, s')" and "\<And>d fs. f (d\<lparr>db_faults := fs\<rparr>) = f d"
  shows "((\<exists>e. res = Inl e) \<or> res = Inr (first_row (f (p_db s)))) \<and> p_tables s' = p_tables s"
  using assms
  by (auto simp: in_db_def in_world_def on_db_def db_query_optional_def db_query_def db_stmt_def io_simps p_tables_def
      tables_def set_db_def split: prod.splits list.splits option.splits)

lemma or_answer_cases:
  assumes "or_answer a m f s = (res, s')"
  obtains (failed) e where "m s = (Inl e, s')" and "res = Inr a"
        | (ran) x s1 where "m s = (Inr x, s1)" and "f x s1 = (res, s')"
  using assms by (cases "m s") (auto simp: or_answer_def io_bind_def io_try_def io_return_def split: sum.splits)

lemma or_answer_run: "m s = (Inr x, s1) \<Longrightarrow> or_answer a m f s = f x s1"
  by (simp add: or_answer_def io_bind_def io_try_def)

lemma some_or_answer_simps [simp]:
  "some_or_answer a (Some x) f = f x" "some_or_answer a None f = io_return a"
  by (simp_all add: some_or_answer_def)

section \<open>Logins\<close>

definition otp_on :: "db \<Rightarrow> uuid \<Rightarrow> bool" where
  "otp_on d i \<longleftrightarrow> first_row (map uo_enabled (filter (\<lambda>r. uo_instance_user_id r = i) (user_otp_settings d))) = Some True"

definition account :: "db \<Rightarrow> string \<Rightarrow> User option" where
  "account d email =
     first_row (map iu_user (filter (\<lambda>r. to_lowercase (u_email (iu_user r)) = to_lowercase email) (instance_users d)))"

lemma unwrap_otp: "unwrap_or m False \<longleftrightarrow> m = Some True"
  by (cases m) simp_all

lemma p_tables_parts:
  assumes "p_tables s' = p_tables s"
  shows "user_otp_settings (p_db s') = user_otp_settings (p_db s)" and "db_now (p_db s') = db_now (p_db s)"
    and "instance_users (p_db s') = instance_users (p_db s)"
  using arg_cong [OF assms, of user_otp_settings] arg_cong [OF assms, of db_now] arg_cong [OF assms, of instance_users]
  by (simp_all add: p_tables_def tables_def)

lemma login_user_success:
  assumes "login_user X L cfg password user s = (Inr (code, Some r), s')" and "lp_success r"
  shows "User_is_confirmed user \<and> User_is_active user \<and> password_valid L password user
    \<and> \<not> otp_on (p_db s) (u_id user) \<and> p_tables s' = p_tables s
    \<and> (\<exists>token. lp_token r = Some token \<and> al_jwt_encode L (cf_jwt_secret cfg)
         (Claims_to_json \<lparr> cl_user_id = uuid_text X (u_id user), cl_email = u_email user, cl_iat = p_secs s,
            cl_exp = p_secs s + 86400 \<rparr>) = Inr token)"
proof -
  have ok: "User_is_confirmed user" "User_is_active user" "password_valid L password user"
    using assms by (auto simp: login_user_def io_return_def login_failed_def split: if_splits)
  let ?q = "in_db (otp_enabled_of (u_id user))"
  let ?rest = "\<lambda>otp. if unwrap_or otp False
        then io_bind unix_seconds (\<lambda>now.
          or_answer server_error_login_response
            (\<lambda>s. (al_jwt_encode L (cf_jwt_secret cfg) (login_claims X user now), s)) (\<lambda>login_token.
          io_return (200, Some (otp_required login_token))))
        else complete_login X L cfg server_error_login_response user"
  have "or_answer server_error_login_response ?q ?rest s = (Inr (code, Some r), s')"
    using assms(1) ok by (simp add: login_user_def)
  then show ?thesis
  proof (cases rule: or_answer_cases)
    case (failed e)
    then show ?thesis using assms(2) by (auto simp: server_error_login_response_def login_failed_def)
  next
    case (ran otp s1)
    have q: "otp = first_row (map uo_enabled (filter (\<lambda>r. uo_instance_user_id r = u_id user) (user_otp_settings (p_db s))))"
      "p_tables s1 = p_tables s"
      using query_cases [OF ran(1) [unfolded otp_enabled_of_def]] by auto
    have "\<not> unwrap_or otp False"
      using ran(2) assms(2)
      by (auto simp: io_bind_def or_answer_def io_try_def io_return_def otp_required_def server_error_login_response_def
          login_failed_def split: sum.splits)
    then have off: "\<not> otp_on (p_db s) (u_id user)" using q(1) by (simp add: otp_on_def unwrap_otp)
    have "complete_login X L cfg server_error_login_response user s1 = (Inr (code, Some r), s')"
      using ran(2) \<open>\<not> unwrap_or otp False\<close> by simp
    then obtain token where t: "al_jwt_encode L (cf_jwt_secret cfg)
         (Claims_to_json \<lparr> cl_user_id = uuid_text X (u_id user), cl_email = u_email user, cl_iat = p_secs s1,
            cl_exp = p_secs s1 + 86400 \<rparr>) = Inr token" "lp_token r = Some token" "s' = s1"
      using assms(2) by (auto simp: complete_login_def jwt_encode_def or_answer_def io_bind_def io_try_def io_return_def
          JWT_EXPIRATION_HOURS_def login_succeeded_def server_error_login_response_def login_failed_def split: sum.splits)
    then show ?thesis using ok off q(2) p_tables_parts(2) [OF q(2)] by auto
  qed
qed


section \<open>The token of an unfinished login\<close>

text \<open>What the code relies on: a token that was signed with a secret and has not expired is read back
  with that secret, and the text of an id is parsed as that id.\<close>

definition jwt_ok :: "authlib \<Rightarrow> bool" where
  "jwt_ok L \<longleftrightarrow> (\<forall>secret claims token now x.
     al_jwt_encode L secret claims = Inr token \<and> Option.bind (json_get claims ''exp'') as_u64 = Some x \<and> now < x
     \<longrightarrow> al_jwt_decode L secret now token = Inr claims)"

definition uuid_ok :: "extlib \<Rightarrow> authlib \<Rightarrow> bool" where
  "uuid_ok X L \<longleftrightarrow> (\<forall>u. al_uuid_parse L (uuid_text X u) = Some u)"

definition accounts_ok :: "db \<Rightarrow> bool" where
  "accounts_ok d \<longleftrightarrow> distinct (map (\<lambda>r. u_id (iu_user r)) (instance_users d)) \<and> db_now d < 2 ^ 63"

definition bearer :: "string \<Rightarrow> http_call" where
  "bearer token = \<lparr> hc_headers = [(''authorization'', Some (''Bearer '' @ token))], hc_body = Inr [] \<rparr>"

lemma bearer_token_bearer [simp]: "bearer_token (bearer token) = Some token"
  by (simp add: bearer_token_def bearer_def text_header_def flatten_option_def starts_with_def)

lemma first_row_unique:
  assumes "distinct (map k rs)" and "r \<in> set rs" and "P r"
  shows "first_row (map g (filter (\<lambda>x. k x = k r \<and> P x) rs)) = Some (g r)"
proof -
  have "filter (\<lambda>x. k x = k r \<and> P x) rs = [r]"
    using assms
  proof (induction rs)
    case (Cons x rs)
    show ?case
    proof (cases "x = r")
      case True
      then have "\<forall>y\<in>set rs. k y \<noteq> k r" using Cons.prems(1) by (metis distinct.simps(2) image_eqI list.set_map list.simps(9))
      then show ?thesis using True Cons.prems(3) by (auto simp: filter_empty_conv)
    next
      case False
      then have "r \<in> set rs" using Cons.prems(2) by simp
      moreover from this have "k x \<noteq> k r" using Cons.prems(1) by force
      ultimately show ?thesis using Cons by simp
    qed
  qed simp
  then show ?thesis by (simp add: first_row_def)
qed

lemma first_row_in: "first_row (map g (filter P rs)) = Some y \<Longrightarrow> \<exists>r\<in>set rs. P r \<and> y = g r"
  by (cases "filter P rs") (auto simp: first_row_def dest: filter_eq_ConsD)

lemma session_of_claims:
  assumes "jwt_ok L" and "uuid_ok X L" and "accounts_ok (p_db s)" and "db_faults (p_db s) = []"
    and "al_jwt_encode L secret claims = Inr token"
    and "Claims_from_json claims = Some c" and "p_secs s < cl_exp c"
    and "cl_user_id c = uuid_text X (u_id user)"
    and "user \<in> iu_user ` set (instance_users (p_db s))" and "User_is_active user"
  shows "jwt_decode L secret token s = (Inr c, s)" and "in_db (find_active_user (u_id user)) s = (Inr (Some user), s)"
proof -
  have "Option.bind (json_get claims ''exp'') as_u64 = Some (cl_exp c)"
    using assms(6) by (auto simp: Claims_from_json_def split: option.splits)
  then have "al_jwt_decode L secret (p_secs s) token = Inr claims"
    using assms(1,5,7) unfolding jwt_ok_def by blast
  then show "jwt_decode L secret token s = (Inr c, s)"
    using assms(6) by (simp add: jwt_decode_def io_bind_def)
  obtain r where r: "r \<in> set (instance_users (p_db s))" "user = iu_user r" using assms(9) by blast
  have "first_row (map iu_user (filter (\<lambda>x. u_id (iu_user x) = u_id (iu_user r) \<and> u_status (iu_user x) = IU_Active)
      (instance_users (p_db s)))) = Some (iu_user r)"
    using assms(3,10) r by (intro first_row_unique [where k = "\<lambda>x. u_id (iu_user x)"]) (auto simp: accounts_ok_def User_is_active_def)
  then show "in_db (find_active_user (u_id user)) s = (Inr (Some user), s)"
    unfolding find_active_user_def by (simp add: query_run [OF assms(4)] r(2))
qed

lemma login_claims_read:
  "db_now d < 2 ^ 63 \<Longrightarrow> Claims_from_json (login_claims X user (db_now d div 1000)) = Some \<lparr> cl_user_id = uuid_text X (u_id user),
     cl_email = u_email user, cl_iat = db_now d div 1000, cl_exp = db_now d div 1000 + 300 \<rparr>"
  using div_le_dividend [of "db_now d" 1000]
  by (auto simp: Claims_from_json_def login_claims_def obj_get_Cons nat_add_distrib)

lemma login_otp_required:
  assumes "db_faults (p_db s) = []"
    and "login X L cfg (Some (email, password)) s = (Inr (code, Some r), s')" and "lp_login_token r = Some token"
  shows "s' = s \<and> (\<exists>user. account (p_db s) (trim email) = Some user \<and> User_is_confirmed user \<and> User_is_active user
    \<and> password_valid L password user \<and> otp_on (p_db s) (u_id user)
    \<and> al_jwt_encode L (cf_jwt_secret cfg) (login_claims X user (p_secs s)) = Inr token)"
proof -
  have nonempty: "trim email \<noteq> []" "password \<noteq> []"
    using assms(2,3) by (auto simp: login_def Let_def io_return_def bad_request_login_response_def login_failed_def split: if_splits)
  have found: "in_db (find_user_by_email (to_lowercase (trim email))) s = (Inr (account (p_db s) (trim email)), s)"
    unfolding find_user_by_email_def by (simp add: query_run [OF assms(1)] account_def)
  then have run: "some_or_answer (200, Some (login_failed ''Invalid email or password'')) (account (p_db s) (trim email))
      (login_user X L cfg password) s = (Inr (code, Some r), s')"
    using assms(2) nonempty by (simp add: login_def Let_def or_answer_run)
  then obtain user where user: "account (p_db s) (trim email) = Some user"
    using assms(3) by (cases "account (p_db s) (trim email)") (auto simp: io_return_def login_failed_def)
  have otp: "in_db (otp_enabled_of (u_id user)) s =
      (Inr (first_row (map uo_enabled (filter (\<lambda>r. uo_instance_user_id r = u_id user) (user_otp_settings (p_db s))))), s)"
    unfolding otp_enabled_of_def by (simp add: query_run [OF assms(1)])
  have u: "login_user X L cfg password user s = (Inr (code, Some r), s')" using run user by simp
  then have ok: "User_is_confirmed user" "User_is_active user" "password_valid L password user"
    using assms(3) by (auto simp: login_user_def io_return_def login_failed_def split: if_splits)
  have "\<not> \<not> otp_on (p_db s) (u_id user)"
  proof
    assume "\<not> otp_on (p_db s) (u_id user)"
    then have "complete_login X L cfg server_error_login_response user s = (Inr (code, Some r), s')"
      using u ok otp by (simp add: login_user_def or_answer_run otp_on_def unwrap_otp)
    then show False
      using assms(3) by (auto simp: complete_login_def or_answer_def io_bind_def io_try_def io_return_def
          login_succeeded_def server_error_login_response_def login_failed_def split: prod.splits sum.splits)
  qed
  then have on: "otp_on (p_db s) (u_id user)" by simp
  have "or_answer server_error_login_response (\<lambda>s. (al_jwt_encode L (cf_jwt_secret cfg) (login_claims X user (p_secs s)), s))
      (\<lambda>login_token. io_return (200, Some (otp_required login_token))) s = (Inr (code, Some r), s')"
    using u ok otp on by (simp add: login_user_def or_answer_def otp_on_def unwrap_otp io_bind_def io_try_def)
  then show ?thesis
    using ok on user assms(3) by (auto simp: or_answer_def io_bind_def io_try_def io_return_def otp_required_def
        server_error_login_response_def login_failed_def split: sum.splits)
qed

lemma preserves_in_db: "preserves P m \<Longrightarrow> preserves (\<lambda>s. P (p_db s)) (in_db m)"
  by (auto simp: preserves_def in_db_def in_world_def on_db_def set_db_def split: prod.split)

lemma preserves_in_world: "frame w_queue m \<Longrightarrow> preserves (\<lambda>s. P (p_db s)) (in_world m)"
  by (auto simp: preserves_def frame_def in_world_def split: prod.split) (metis snd_conv)

lemma never_fails_in_world: "never_fails m \<Longrightarrow> never_fails (in_world m)"
  unfolding never_fails_def in_world_def by (auto split: prod.split) (metis fst_conv)

text \<open>Without faults, and with given accounts and settings.\<close>

definition db_is :: "InstanceUserRow list \<Rightarrow> UserOtpRow list \<Rightarrow> timestamp \<Rightarrow> db \<Rightarrow> bool" where
  "db_is us os t d \<longleftrightarrow> db_faults d = [] \<and> instance_users d = us \<and> user_otp_settings d = os \<and> db_now d = t"

lemma log_security_run:
  assumes "db_is us os t (p_db s)"
  shows "\<exists>s'. log_security X a b c user q s = (Inr (), s') \<and> db_is us os t (p_db s')"
proof -
  have audit: "preserves (db_is us os t) (create_audit_log i1 i2 a1 a2 i3 j1 j2 a3 a4)" for i1 i2 a1 a2 i3 j1 j2 a3 a4
    by (auto simp: preserves_def create_audit_log_def db_is_def db_stmt_def)
  have inst: "preserves (db_is us os t) (get_instance_id_for_user i)" for i
    by (auto simp: preserves_def get_instance_id_for_user_def db_query_optional_def db_query_def db_stmt_def db_is_def io_simps)
  have p: "preserves (\<lambda>s. db_is us os t (p_db s)) (log_security X a b c user q)"
    unfolding log_security_def by (intro preserves_intros preserves_in_db preserves_in_world audit inst frame_intros)
  have "never_fails (log_security X a b c user q)"
    unfolding log_security_def draw_uuid_def draw_def current_time_def
    by (intro preserves_intros never_fails_in_world) (simp add: never_fails_def)
  then obtain x s' where "log_security X a b c user q s = (Inr x, s')" by (rule never_fails_run)
  then show ?thesis using preservesD [OF p assms] by auto
qed

lemma disable_otp_run:
  assumes "jwt_ok L" and "uuid_ok X L" and "accounts_ok (p_db s)" and "db_faults (p_db s) = []"
    and "al_jwt_encode L (cf_jwt_secret cfg) claims = Inr token"
    and "Claims_from_json claims = Some c" and "p_secs s < cl_exp c"
    and "cl_user_id c = uuid_text X (u_id user)"
    and "user \<in> iu_user ` set (instance_users (p_db s))" and "User_is_active user" and "otp_on (p_db s) (u_id user)"
  shows "\<exists>s' v. dashboard_service L cfg (bearer token) (disable_otp X L cfg (bearer token)) s
      = (Inr (Handled (200, Some (JObj [(''success'', JBool True), v]))), s')
    \<and> db_is (instance_users (p_db s)) (update_rows (\<lambda>r. uo_instance_user_id r = u_id user)
        (\<lambda>r. r\<lparr>uo_enabled := False, uo_updated_at := db_now (p_db s)\<rparr>) (user_otp_settings (p_db s))) (db_now (p_db s)) (p_db s')"
proof -
  note session = session_of_claims [OF assms(1-10)]
  have id: "al_uuid_parse L (cl_user_id c) = Some (u_id user)" using assms(2,8) by (simp add: uuid_ok_def)
  have otp: "in_db (otp_enabled_of (u_id user)) s = (Inr (Some True), s)"
    using assms(11) unfolding otp_enabled_of_def by (simp add: query_run [OF assms(4)] otp_on_def)
  let ?os = "update_rows (\<lambda>r. uo_instance_user_id r = u_id user)
        (\<lambda>r. r\<lparr>uo_enabled := False, uo_updated_at := db_now (p_db s)\<rparr>) (user_otp_settings (p_db s))"
  let ?s = "s\<lparr>px_world := set_db (p_db s\<lparr>user_otp_settings := ?os\<rparr>) (px_world s)\<rparr>"
  have off: "in_db (switch_off_otp (u_id user)) s = (Inr (), ?s)"
    by (rule in_db_run) (simp add: switch_off_otp_def db_stmt_def assms(4))
  have "db_is (instance_users (p_db s)) ?os (db_now (p_db s)) (p_db ?s)"
    using assms(4) by (simp add: db_is_def set_db_def)
  from log_security_run [OF this] obtain s' where
    log: "log_security X ''otp_disabled'' ''User disabled OTP 2FA'' ''/api/security/otp/disable'' user (bearer token) ?s = (Inr (), s')"
    and s': "db_is (instance_users (p_db s)) ?os (db_now (p_db s)) (p_db s')" by blast
  have "disable_otp X L cfg (bearer token) s
      = (Inr (200, Some (JObj [(''success'', JBool True), (''message'', JStr ''OTP disabled successfully.'')])), s')"
    using session id otp off log by (simp add: disable_otp_def with_user_def or_answer_run io_bind_run io_return_def)
  then have "dashboard_service L cfg (bearer token) (disable_otp X L cfg (bearer token)) s
      = (Inr (Handled (200, Some (JObj [(''success'', JBool True), (''message'', JStr ''OTP disabled successfully.'')]))), s')"
    using session id assms(10)
    by (simp add: dashboard_service_def jwt_auth_middleware_def or_answer_run io_bind_def io_return_def)
  then show ?thesis using s' by blast
qed

text \<open>C9: The second factor protects nothing. When a login with the right password asks for the second
  factor, the token in that answer is a session token: with it the dashboard switches the second
  factor off, and then the password alone completes the login.\<close>

theorem second_factor_bypassed:
  assumes "jwt_ok L" and "uuid_ok X L" and "accounts_ok (p_db s)" and "db_faults (p_db s) = []"
    and "login X L cfg (Some (email, password)) s = (Inr (code, Some r), s1)" and "lp_requires_otp r = Some True"
  shows "\<exists>token user s2 v. lp_login_token r = Some token
    \<and> dashboard_service L cfg (bearer token) (disable_otp X L cfg (bearer token)) s1
        = (Inr (Handled (200, Some (JObj [(''success'', JBool True), v]))), s2)
    \<and> account (p_db s) (trim email) = Some user
    \<and> login X L cfg (Some (email, password)) s2 = complete_login X L cfg server_error_login_response user s2"
proof -
  obtain token where token: "lp_login_token r = Some token"
    using assms(5,6) by (auto simp: login_def login_user_def complete_login_def or_answer_def some_or_answer_def io_bind_def
        io_try_def io_return_def Let_def bad_request_login_response_def login_failed_def server_error_login_response_def
        otp_required_def login_succeeded_def split: prod.splits sum.splits option.splits if_splits)
  obtain user where s1: "s1 = s" and user: "account (p_db s) (trim email) = Some user"
    and ok: "User_is_confirmed user" "User_is_active user" "password_valid L password user" "otp_on (p_db s) (u_id user)"
    and t: "al_jwt_encode L (cf_jwt_secret cfg) (login_claims X user (p_secs s)) = Inr token"
    using login_otp_required [OF assms(4,5) token] by blast
  have row: "user \<in> iu_user ` set (instance_users (p_db s))"
    using user by (auto simp: account_def dest!: first_row_in)
  have claims: "Claims_from_json (login_claims X user (p_secs s)) = Some \<lparr> cl_user_id = uuid_text X (u_id user),
      cl_email = u_email user, cl_iat = p_secs s, cl_exp = p_secs s + 300 \<rparr>"
    using assms(3) by (intro login_claims_read) (simp add: accounts_ok_def)
  obtain s2 v where s2: "dashboard_service L cfg (bearer token) (disable_otp X L cfg (bearer token)) s
      = (Inr (Handled (200, Some (JObj [(''success'', JBool True), v]))), s2)"
    and d: "db_is (instance_users (p_db s)) (update_rows (\<lambda>r. uo_instance_user_id r = u_id user)
        (\<lambda>r. r\<lparr>uo_enabled := False, uo_updated_at := db_now (p_db s)\<rparr>) (user_otp_settings (p_db s))) (db_now (p_db s)) (p_db s2)"
    using disable_otp_run [OF assms(1-4) t claims _ _ row ok(2,4)] by auto
  have f: "db_faults (p_db s2) = []" and acc: "account (p_db s2) (trim email) = Some user"
    using d user by (simp_all add: db_is_def account_def)
  have "\<not> otp_on (p_db s2) (u_id user)"
    using d by (auto simp: db_is_def otp_on_def update_rows_def dest!: first_row_in)
  then have otp: "\<exists>m. in_db (otp_enabled_of (u_id user)) s2 = (Inr m, s2) \<and> m \<noteq> Some True"
    unfolding otp_enabled_of_def otp_on_def by (simp add: query_run [OF f])
  have found: "in_db (find_user_by_email (to_lowercase (trim email))) s2 = (Inr (Some user), s2)"
    using acc unfolding find_user_by_email_def account_def by (simp add: query_run [OF f])
  have nonempty: "trim email \<noteq> [] \<and> password \<noteq> []"
    using assms(5) token by (auto simp: login_def Let_def io_return_def bad_request_login_response_def login_failed_def split: if_splits)
  have "login X L cfg (Some (email, password)) s2 = complete_login X L cfg server_error_login_response user s2"
    using otp found nonempty ok by (auto simp: login_def login_user_def Let_def or_answer_run unwrap_otp)
  then show ?thesis using token s1 s2 user by blast
qed

text \<open>An account with a second factor, and libraries that can issue the two tokens of its logins.\<close>

definition sample_user :: User where
  "sample_user = \<lparr> u_id = 7, u_email = ''a@b.c'', u_encrypted_password = ''Secret1'', u_first_name = None,
     u_last_name = None, u_status = IU_Active, u_confirmed_at = Some 0, u_created_at = 0, u_updated_at = 0 \<rparr>"

definition session_claims :: json where
  "session_claims = Claims_to_json \<lparr> cl_user_id = uuid_text plain_crypto 7, cl_email = ''a@b.c'', cl_iat = 0, cl_exp = 86400 \<rparr>"

definition sample_authlib :: authlib where
  "sample_authlib = \<lparr>
     al_jwt_encode = (\<lambda>secret claims. if claims = login_claims plain_crypto sample_user 0 then Inr ''L''
        else if claims = session_claims then Inr ''S'' else Inl ''claims''),
     al_jwt_decode = (\<lambda>secret now token. if token = ''L'' then Inr (login_claims plain_crypto sample_user 0)
        else if token = ''S'' then Inr session_claims else Inl ''InvalidToken''),
     al_argon2_hash = (\<lambda>salt password. Inr password), al_argon2_parse = Inr,
     al_argon2_verify = (\<lambda>password hash. if password = hash then None else Some WrongPassword),
     al_b32_decode = Inr, al_totp_new = (\<lambda>_. Inr ()), al_totp_check = (\<lambda>totp now code. Inr (code = tp_secret totp)),
     al_uuid_parse = (\<lambda>t. map_option of_nat (parse_nat t)), al_b64_url = (\<lambda>x. x), al_b32 = (\<lambda>x. x),
     al_url_encode = (\<lambda>x. x), al_codes_from = (\<lambda>t. Some (if t = [] then [] else [t])), al_codes_to = (\<lambda>cs. if cs = [] then Inr [] else if tl cs = [] \<and> hd cs \<noteq> [] then Inr (hd cs) else Inl ''codes'') \<rparr>"

definition sample_config :: AppConfig where
  "sample_config = \<lparr> cf_database_url = [], cf_redis_url = None, cf_redis_pool_size = 25, cf_redis_min_idle = 5,
     cf_jwt_secret = ''secret'', cf_encryption_key = [], cf_sentry_dsn = None, cf_environment = ''production'',
     cf_from_email = [], cf_password_reset_base_url = ''https://d'' \<rparr>"

definition sample_otp :: UserOtpRow where
  "sample_otp = \<lparr> uo_instance_user_id = 7, uo_enabled = True, uo_secret_encrypted = ''123456'',
     uo_backup_codes_encrypted = Some ''ABCD2345'', uo_last_verified_at = None, uo_created_at = 0, uo_updated_at = 0 \<rparr>"

definition sample_portal :: "UserOtpRow list \<Rightarrow> portal" where
  "sample_portal settings = \<lparr> px_world = sample_world (empty_db\<lparr>instance_users := [\<lparr> iu_user = sample_user,
       iu_reset_password_token = None, iu_reset_password_sent_at = None \<rparr>], user_otp_settings := settings\<rparr>),
     px_mails = [], px_mail_faults = [] \<rparr>"

lemma sample_laws: "jwt_ok sample_authlib" "uuid_ok plain_crypto sample_authlib"
  by (auto simp: jwt_ok_def uuid_ok_def sample_authlib_def plain_crypto_def split: if_splits)

lemma sample_portal_parts [simp]:
  "db_faults (p_db (sample_portal os)) = []" "db_now (p_db (sample_portal os)) = 0"
  "user_otp_settings (p_db (sample_portal os)) = os"
  "instance_users (p_db (sample_portal os)) = [\<lparr> iu_user = sample_user, iu_reset_password_token = None, iu_reset_password_sent_at = None \<rparr>]"
  by (simp_all add: sample_portal_def sample_world_def WriteBehindQueue_new_def empty_db_def)

lemma sample_login:
  "login plain_crypto sample_authlib sample_config (Some (''a@b.c'', ''Secret1'')) (sample_portal os)
   = login_user plain_crypto sample_authlib sample_config ''Secret1'' sample_user (sample_portal os)"
proof -
  have "trim ''a@b.c'' = ''a@b.c''" by code_simp
  moreover have "account (p_db (sample_portal os)) ''a@b.c'' = Some sample_user"
    by (simp add: account_def first_row_def sample_user_def)
  then have "in_db (find_user_by_email (to_lowercase ''a@b.c'')) (sample_portal os) = (Inr (Some sample_user), sample_portal os)"
    unfolding find_user_by_email_def account_def by (simp add: query_run)
  ultimately show ?thesis by (simp add: login_def Let_def or_answer_run)
qed

lemma sample_user_ok: "User_is_confirmed sample_user" "User_is_active sample_user" "password_valid sample_authlib ''Secret1'' sample_user"
  by (simp_all add: sample_user_def User_is_confirmed_def User_is_active_def password_valid_def verify_password_def sample_authlib_def)

theorem second_factor_bypassed_witness:
  "\<exists>s2 v. dashboard_service sample_authlib sample_config (bearer ''L'') (disable_otp plain_crypto sample_authlib sample_config (bearer ''L''))
       (sample_portal [sample_otp]) = (Inr (Handled (200, Some (JObj [(''success'', JBool True), v]))), s2)"
proof -
  have otp: "in_db (otp_enabled_of (u_id sample_user)) (sample_portal [sample_otp]) = (Inr (Some True), sample_portal [sample_otp])"
    unfolding otp_enabled_of_def by (simp add: query_run first_row_def sample_otp_def sample_user_def)
  have "login plain_crypto sample_authlib sample_config (Some (''a@b.c'', ''Secret1'')) (sample_portal [sample_otp])
      = (Inr (200, Some (otp_required ''L'')), sample_portal [sample_otp])"
    using otp sample_user_ok unfolding sample_login
    by (simp add: login_user_def or_answer_def io_bind_def io_try_def io_return_def sample_authlib_def)
  moreover have "accounts_ok (p_db (sample_portal [sample_otp]))" by (simp add: accounts_ok_def)
  ultimately show ?thesis
    using second_factor_bypassed [OF sample_laws, of "sample_portal [sample_otp]" sample_config "''a@b.c''" "''Secret1''" 200
        "otp_required ''L''" "sample_portal [sample_otp]"]
    by (simp add: otp_required_def) blast
qed


section \<open>Backup codes\<close>

text \<open>The list of codes that is written reads back.\<close>

definition codes_ok :: "authlib \<Rightarrow> bool" where
  "codes_ok L \<longleftrightarrow> (\<forall>cs t. al_codes_to L cs = Inr t \<longrightarrow> al_codes_from L t = Some cs)"

definition stored_codes :: "authlib \<Rightarrow> db \<Rightarrow> uuid \<Rightarrow> string list" where
  "stored_codes L d i =
     (case first_row (filter (\<lambda>r. uo_instance_user_id r = i) (user_otp_settings d)) of
        Some r \<Rightarrow> (case uo_backup_codes_encrypted r of Some t \<Rightarrow> unwrap_or (al_codes_from L t) [] | None \<Rightarrow> [])
      | None \<Rightarrow> [])"

lemma take_code_Some:
  assumes "take_code code cs = Some cs'"
  obtains before x after where "cs = before @ x # after" and "cs' = before @ after" and "to_uppercase x = to_uppercase code"
proof -
  let ?d = "\<lambda>c. to_uppercase c \<noteq> to_uppercase code"
  obtain x after where d: "dropWhile ?d cs = x # after" and cs': "cs' = takeWhile ?d cs @ after"
    using assms by (auto simp: take_code_def Let_def split: list.splits)
  have "to_uppercase x = to_uppercase code" using d hd_dropWhile [of ?d cs] by auto
  moreover have "cs = takeWhile ?d cs @ x # after" using takeWhile_dropWhile_id [of ?d cs] d by simp
  ultimately show thesis using cs' that by blast
qed

lemma or_answer_success:
  assumes "or_answer (c, None) m f s = (Inr (code, Some r), s')"
  obtains x s1 where "m s = (Inr x, s1)" and "f x s1 = (Inr (code, Some r), s')"
  using assms by (cases rule: or_answer_cases) auto

lemma complete_login_tables:
  assumes "complete_login X L cfg a user s = (res, s')"
  shows "s' = s"
  using assms by (auto simp: complete_login_def jwt_encode_def or_answer_def io_bind_def io_try_def io_return_def split: sum.splits)

lemma first_row_map: "first_row (map g xs) = map_option g (first_row xs)"
  by (cases xs) (simp_all add: first_row_def)

lemma save_backup_codes_run:
  assumes "in_db (save_backup_codes t i) s = (Inr (), s')"
  shows "user_otp_settings (p_db s') = update_rows (\<lambda>r. uo_instance_user_id r = i)
    (\<lambda>r. r\<lparr>uo_backup_codes_encrypted := Some t, uo_updated_at := db_now (p_db s)\<rparr>) (user_otp_settings (p_db s))"
  using assms by (auto simp: save_backup_codes_def in_db_def in_world_def on_db_def db_stmt_def set_db_def
      split: prod.splits list.splits option.splits)

lemma spent_code:
  assumes "codes_ok L" and "check_backup_code L i code (uo_backup_codes_encrypted row) s = (Inr True, s')"
    and "first_row (filter (\<lambda>r. uo_instance_user_id r = i) (user_otp_settings (p_db s))) = Some row"
  shows "take_code code (stored_codes L (p_db s) i) = Some (stored_codes L (p_db s') i)"
proof -
  obtain t cs' t' where t: "uo_backup_codes_encrypted row = Some t" "take_code code (unwrap_or (al_codes_from L t) []) = Some cs'"
    "al_codes_to L cs' = Inr t'" "in_db (save_backup_codes t' i) s = (Inr (), s')"
    using assms(2) by (auto simp: check_backup_code_def io_return_def io_err_def io_bind_def split: option.splits sum.splits prod.splits)
  have "filter (\<lambda>r. uo_instance_user_id r = i) (user_otp_settings (p_db s'))
      = map (\<lambda>r. r\<lparr>uo_backup_codes_encrypted := Some t', uo_updated_at := db_now (p_db s)\<rparr>)
          (filter (\<lambda>r. uo_instance_user_id r = i) (user_otp_settings (p_db s)))"
    unfolding save_backup_codes_run [OF t(4)] by (induction "user_otp_settings (p_db s)") (auto simp: update_rows_def filter_map o_def)
  then have "stored_codes L (p_db s') i = cs'"
    using assms(1,3) t(3) by (simp add: stored_codes_def first_row_map codes_ok_def)
  moreover have "stored_codes L (p_db s) i = unwrap_or (al_codes_from L t) []"
    using assms(3) t(1) by (simp add: stored_codes_def)
  ultimately show ?thesis using t(2) by simp
qed

lemma second_factor_code:
  assumes "codes_ok L" and "vo_backup_code payload = Some code"
    and "second_factor X L cfg payload user s = (Inr (c, Some r), s')" and "lp_success r"
  shows "take_code code (stored_codes L (p_db s) (u_id user)) = Some (stored_codes L (p_db s') (u_id user))"
proof -
  let ?i = "u_id user" and ?ok = "(Inr (c, Some r), s')"
  let ?k3 = "\<lambda>verified. if \<not> verified then io_return (200, Some (login_failed ''Invalid OTP code or backup code''))
       else complete_login X L cfg (STATUS 500) user"
  let ?k2 = "\<lambda>settings. some_or_answer (STATUS 500) settings
       (\<lambda>row. or_answer (STATUS 500) (check_second_factor L payload ?i row) ?k3)"
  let ?k1 = "\<lambda>otp. if \<not> unwrap_or otp False then io_return (200, Some (login_failed ''OTP is not enabled for this account''))
       else or_answer (STATUS 500) (in_db (otp_settings_of ?i)) ?k2"
  have "or_answer (STATUS 500) (in_db (otp_enabled_of ?i)) ?k1 s = ?ok"
    using assms(3) unfolding second_factor_def .
  then obtain otp s1 where q1: "in_db (otp_enabled_of ?i) s = (Inr otp, s1)" and run1: "?k1 otp s1 = ?ok"
    by (rule or_answer_success)
  have t1: "p_tables s1 = p_tables s" using query_cases [OF q1 [unfolded otp_enabled_of_def]] by auto
  have "unwrap_or otp False" using run1 assms(4) by (auto simp: io_return_def login_failed_def split: if_splits)
  then have "or_answer (STATUS 500) (in_db (otp_settings_of ?i)) ?k2 s1 = ?ok" using run1 by simp
  then obtain settings s2 where q2: "in_db (otp_settings_of ?i) s1 = (Inr settings, s2)" and run2: "?k2 settings s2 = ?ok"
    by (rule or_answer_success)
  have t2: "settings = first_row (filter (\<lambda>r. uo_instance_user_id r = ?i) (user_otp_settings (p_db s1)))" "p_tables s2 = p_tables s1"
    using query_cases [OF q2 [unfolded otp_settings_of_def]] by auto
  obtain row where row: "settings = Some row" using run2 by (cases settings) (auto simp: io_return_def)
  then have "or_answer (STATUS 500) (check_second_factor L payload ?i row) ?k3 s2 = ?ok" using run2 by simp
  then obtain v s3 where q3: "check_second_factor L payload ?i row s2 = (Inr v, s3)" and run3: "?k3 v s3 = ?ok"
    by (rule or_answer_success)
  have v: "v" using run3 assms(4) by (auto simp: io_return_def login_failed_def split: if_splits)
  have s3: "s' = s3" using run3 v complete_login_tables [of X L cfg "STATUS 500" user s3] by simp
  note same = p_tables_parts(1) [OF t1] p_tables_parts(1) [OF t2(2)]
  have "take_code code (stored_codes L (p_db s2) ?i) = Some (stored_codes L (p_db s3) ?i)"
  proof (rule spent_code [OF assms(1)])
    show "check_backup_code L ?i code (uo_backup_codes_encrypted row) s2 = (Inr True, s3)"
      using q3 v assms(2) by (simp add: check_second_factor_def)
    show "first_row (filter (\<lambda>r. uo_instance_user_id r = ?i) (user_otp_settings (p_db s2))) = Some row"
      using t2(1) row same(2) by simp
  qed
  then show ?thesis using same s3 by (simp add: stored_codes_def)
qed

text \<open>C24: A login that is completed with a backup code spends it: the code was one of the stored codes
  of the account that the login token names, up to letter case, and is not stored any more, while
  the others are.\<close>

theorem backup_code_spent:
  assumes "codes_ok L" and "vo_backup_code payload = Some code"
    and "verify_otp_login X L cfg payload s = (Inr (c, Some r), s')" and "lp_success r"
  shows "\<exists>claims t i before x after. al_jwt_decode L (cf_jwt_secret cfg) (p_secs s) (vo_login_token payload) = Inr claims
    \<and> Option.bind (json_get claims ''user_id'') as_str = Some t \<and> al_uuid_parse L t = Some i
    \<and> stored_codes L (p_db s) i = before @ x # after \<and> to_uppercase x = to_uppercase code
    \<and> stored_codes L (p_db s') i = before @ after"
proof -
  obtain claims where claims: "al_jwt_decode L (cf_jwt_secret cfg) (p_secs s) (vo_login_token payload) = Inr claims"
    using assms by (cases "al_jwt_decode L (cf_jwt_secret cfg) (p_secs s) (vo_login_token payload)")
      (auto simp: verify_otp_login_def io_bind_def or_answer_def io_try_def io_return_def)
  obtain t where t: "Option.bind (json_get claims ''user_id'') as_str = Some t"
    using assms claims by (cases "Option.bind (json_get claims ''user_id'') as_str")
      (auto simp: verify_otp_login_def io_bind_def or_answer_def io_try_def io_return_def)
  have open_session: "\<not> (case Option.bind (json_get claims ''exp'') as_u64 of Some x \<Rightarrow> x < p_secs s | None \<Rightarrow> False)"
    using assms claims t
    by (auto simp: verify_otp_login_def io_bind_def or_answer_def io_try_def io_return_def login_failed_def split: if_splits)
  obtain i where i: "al_uuid_parse L t = Some i"
    using assms claims t open_session by (cases "al_uuid_parse L t")
      (auto simp: verify_otp_login_def io_bind_def or_answer_def io_try_def io_return_def)
  have "or_answer (STATUS 500) (in_db (find_active_user i)) (\<lambda>found.
      some_or_answer (STATUS 401) found (second_factor X L cfg payload)) s = (Inr (c, Some r), s')"
    using assms claims t open_session i
    by (simp add: verify_otp_login_def io_bind_def or_answer_def io_try_def io_return_def)
  then obtain found s1 where q: "in_db (find_active_user i) s = (Inr found, s1)"
    and run: "some_or_answer (STATUS 401) found (second_factor X L cfg payload) s1 = (Inr (c, Some r), s')"
    by (rule or_answer_success)
  have f: "found = first_row (map iu_user (filter (\<lambda>r. u_id (iu_user r) = i \<and> u_status (iu_user r) = IU_Active)
      (instance_users (p_db s))))" and tb: "p_tables s1 = p_tables s"
    using query_cases [OF q [unfolded find_active_user_def]] by auto
  obtain user where user: "found = Some user" using run by (cases found) (auto simp: io_return_def)
  then have "u_id user = i" using f user by (auto dest!: first_row_in)
  then have "take_code code (stored_codes L (p_db s1) i) = Some (stored_codes L (p_db s') i)"
    using second_factor_code [OF assms(1,2), of X cfg user s1 c r s'] run user assms(4) by simp
  moreover have "stored_codes L (p_db s1) i = stored_codes L (p_db s) i"
    using p_tables_parts(1) [OF tb] by (simp add: stored_codes_def)
  ultimately have "take_code code (stored_codes L (p_db s) i) = Some (stored_codes L (p_db s') i)" by simp
  then obtain before x after where "stored_codes L (p_db s) i = before @ x # after"
    and "stored_codes L (p_db s') i = before @ after" and "to_uppercase x = to_uppercase code"
    by (rule take_code_Some)
  with claims t i show ?thesis by (intro exI conjI)
qed

text \<open>The state after that login of the sample account.\<close>

lemma sample_save:
  "in_db (save_backup_codes t 7) (sample_portal [sample_otp])
   = (Inr (), sample_portal [sample_otp\<lparr>uo_backup_codes_encrypted := Some t, uo_updated_at := 0\<rparr>])"
  by (simp add: in_db_def in_world_def on_db_def save_backup_codes_def db_stmt_def sample_portal_def sample_world_def
      WriteBehindQueue_new_def empty_db_def set_db_def update_rows_def sample_otp_def)

lemma sample_take: "take_code ''abcd2345'' [''ABCD2345''] = Some []"
  by code_simp

theorem backup_code_spent_witness:
  "\<exists>s'. verify_otp_login plain_crypto sample_authlib sample_config
      \<lparr> vo_login_token = ''L'', vo_otp_code = None, vo_backup_code = Some ''abcd2345'' \<rparr> (sample_portal [sample_otp])
      = (Inr (200, Some (login_succeeded plain_crypto sample_user ''S'')), s')
    \<and> stored_codes sample_authlib (p_db s') 7 = []"
proof -
  let ?s = "sample_portal [sample_otp]" and ?s' = "sample_portal [sample_otp\<lparr>uo_backup_codes_encrypted := Some [], uo_updated_at := 0\<rparr>]"
  let ?p = "\<lparr> vo_login_token = ''L'', vo_otp_code = None, vo_backup_code = Some ''abcd2345'' \<rparr>"
  let ?r = "login_succeeded plain_crypto sample_user ''S''"
  have laws: "codes_ok sample_authlib" by (auto simp: codes_ok_def sample_authlib_def neq_Nil_conv split: if_splits)
  have claims: "al_jwt_decode sample_authlib (cf_jwt_secret sample_config) 0 ''L'' = Inr (login_claims plain_crypto sample_user 0)"
    by (simp add: sample_authlib_def)
  have names: "Option.bind (json_get (login_claims plain_crypto sample_user 0) ''user_id'') as_str = Some (uuid_text plain_crypto 7)"
    "Option.bind (json_get (login_claims plain_crypto sample_user 0) ''exp'') as_u64 = Some 300"
    by (simp_all add: login_claims_def obj_get_Cons sample_user_def)
  have i: "al_uuid_parse sample_authlib (uuid_text plain_crypto 7) = Some 7" using sample_laws(2) by (simp add: uuid_ok_def)
  have found: "in_db (find_active_user 7) ?s = (Inr (Some sample_user), ?s)"
    unfolding find_active_user_def by (simp add: query_run first_row_def sample_user_def)
  have otp: "in_db (otp_enabled_of (u_id sample_user)) ?s = (Inr (Some True), ?s)"
    "in_db (otp_settings_of (u_id sample_user)) ?s = (Inr (Some sample_otp), ?s)"
    unfolding otp_enabled_of_def otp_settings_of_def by (simp_all add: query_run first_row_def sample_otp_def sample_user_def)
  have code: "check_second_factor sample_authlib ?p (u_id sample_user) sample_otp ?s = (Inr True, ?s')"
    using sample_take sample_save [of "[]"]
    by (simp add: check_second_factor_def check_backup_code_def io_bind_def io_return_def sample_authlib_def sample_otp_def sample_user_def)
  have token: "jwt_encode sample_authlib (cf_jwt_secret sample_config) (uuid_text plain_crypto (u_id sample_user)) (u_email sample_user)
      ?s' = (Inr ''S'', ?s')"
    by (simp add: jwt_encode_def io_bind_def sample_authlib_def session_claims_def sample_user_def JWT_EXPIRATION_HOURS_def
        login_claims_def Claims_to_json_def)
  have "second_factor plain_crypto sample_authlib sample_config ?p sample_user ?s = (Inr (200, Some ?r), ?s')"
    using otp code token by (simp add: second_factor_def complete_login_def or_answer_run io_return_def)
  then have run: "verify_otp_login plain_crypto sample_authlib sample_config ?p ?s = (Inr (200, Some ?r), ?s')"
    using claims names i found by (simp add: verify_otp_login_def io_bind_def or_answer_run)
  have "stored_codes sample_authlib (p_db ?s) 7 = [''ABCD2345'']"
    by (simp add: stored_codes_def first_row_def sample_otp_def sample_authlib_def)
  then have "stored_codes sample_authlib (p_db ?s') 7 = []"
    using backup_code_spent [OF laws _ run] claims names i by (auto simp: login_succeeded_def append_eq_Cons_conv Cons_eq_append_conv)
  then show ?thesis using run by blast
qed

section \<open>Resetting a password\<close>

lemma save_reset_token_run:
  assumes "in_db (save_reset_token token i) s = (Inr (), s')" and "db_faults (p_db s) = []"
  shows "instance_users (p_db s') = update_rows (\<lambda>r. u_id (iu_user r) = i)
      (\<lambda>r. r\<lparr>iu_user := (iu_user r)\<lparr>u_updated_at := db_now (p_db s)\<rparr>, iu_reset_password_token := Some token,
         iu_reset_password_sent_at := Some (db_now (p_db s))\<rparr>) (instance_users (p_db s))
    \<and> db_now (p_db s') = db_now (p_db s) \<and> db_faults (p_db s') = []"
  using assms by (auto simp: save_reset_token_def in_db_def in_world_def on_db_def db_stmt_def set_db_def
      split: prod.splits if_splits)

lemma draw_reset_token_run:
  obtains token s' where "draw_reset_token L s = (Inr token, s')" and "p_db s' = p_db s"
proof -
  obtain token s' where "draw_reset_token L s = (Inr token, s') \<and> p_db s' = p_db s"
    by (cases "draw_reset_token L s") (auto simp: draw_reset_token_def in_world_def draw_def io_simps set_db_def split: prod.splits)
  then show thesis using that by blast
qed

lemma send_reset_email_db: "send_reset_email base user token s = (res, s') \<Longrightarrow> p_db s' = p_db s"
  by (auto simp: send_reset_email_def send_email_def Let_def split: option.splits)

lemma mail_reset_link_run:
  assumes "mail_reset_link L cfg h user s = (Inr (pw_ok m), s')" and "db_faults (p_db s) = []"
  shows "\<exists>token. instance_users (p_db s') = update_rows (\<lambda>r. u_id (iu_user r) = u_id user)
      (\<lambda>r. r\<lparr>iu_user := (iu_user r)\<lparr>u_updated_at := db_now (p_db s)\<rparr>, iu_reset_password_token := Some token,
         iu_reset_password_sent_at := Some (db_now (p_db s))\<rparr>) (instance_users (p_db s))
    \<and> db_now (p_db s') = db_now (p_db s) \<and> db_faults (p_db s') = []"
proof -
  obtain token s1 where token: "draw_reset_token L s = (Inr token, s1)" and s1: "p_db s1 = p_db s"
    by (rule draw_reset_token_run)
  have err: "SERVER_ERROR \<noteq> pw_ok m" by (simp add: SERVER_ERROR_def pw_failed_def pw_ok_def)
  have "or_answer SERVER_ERROR (in_db (save_reset_token token (u_id user))) (\<lambda>_.
     or_answer SERVER_ERROR (send_reset_email (reset_base_url cfg h) user token) (\<lambda>_.
     io_return (pw_ok (Some RESET_SENT)))) s1 = (Inr (pw_ok m), s')"
    using assms(1) token by (simp add: mail_reset_link_def io_bind_def)
  then obtain s2 where save: "in_db (save_reset_token token (u_id user)) s1 = (Inr (), s2)"
    and mail: "or_answer SERVER_ERROR (send_reset_email (reset_base_url cfg h) user token) (\<lambda>_.
     io_return (pw_ok (Some RESET_SENT))) s2 = (Inr (pw_ok m), s')"
    using err by (cases rule: or_answer_cases) auto
  have "p_db s' = p_db s2" using mail by (cases rule: or_answer_cases) (auto simp: io_return_def dest: send_reset_email_db)
  then show ?thesis using save_reset_token_run [OF save] assms(2) s1 by auto
qed

lemma first_row_update:
  assumes "i \<in> key ` set rows" and "\<And>r. key (g r) = key r" and "\<And>r. h (g r) = c"
  shows "first_row (map h (filter (\<lambda>r. key r = i) (update_rows (\<lambda>r. key r = i) g rows))) = Some c"
  using assms by (induction rows) (auto simp: update_rows_def first_row_def)

text \<open>The active account of an email, as a request for a reset link finds it.\<close>

definition active_account :: "db \<Rightarrow> string \<Rightarrow> User option" where
  "active_account d email =
     first_row (map iu_user (filter (\<lambda>r. u_email (iu_user r) = email \<and> u_status (iu_user r) = IU_Active) (instance_users d)))"

lemma find_active_run:
  "db_faults (p_db s) = [] \<Longrightarrow> in_db (find_active_by_email email) s = (Inr (active_account (p_db s) email), s)"
  unfolding find_active_by_email_def active_account_def by (simp add: query_run)

lemma last_sent_run:
  "db_faults (p_db s) = [] \<Longrightarrow> in_db (last_reset_sent i) s
     = (Inr (first_row (map iu_reset_password_sent_at (filter (\<lambda>r. u_id (iu_user r) = i) (instance_users (p_db s))))), s)"
  unfolding last_reset_sent_def by (simp add: query_run)

lemma active_account_updated:
  assumes "\<And>r. u_email (iu_user (g r)) = u_email (iu_user r)" and "\<And>r. u_status (iu_user (g r)) = u_status (iu_user r)"
    and "\<And>r. u_id (iu_user (g r)) = u_id (iu_user r)" and "instance_users d' = update_rows P g (instance_users d)"
  shows "map_option u_id (active_account d' email) = map_option u_id (active_account d email)"
proof -
  have "map u_id (map iu_user (filter (\<lambda>r. u_email (iu_user r) = email \<and> u_status (iu_user r) = IU_Active) (update_rows P g rs)))
      = map u_id (map iu_user (filter (\<lambda>r. u_email (iu_user r) = email \<and> u_status (iu_user r) = IU_Active) rs))" for rs
    using assms(1-3) by (induction rs) (auto simp: update_rows_def)
  then show ?thesis unfolding active_account_def assms(4) first_row_map [symmetric] by simp
qed

text \<open>The answers to requests for a reset link tell whether an account exists, although their texts
  are meant not to: after a first request that was answered with success, a second one is answered
  differently exactly when there is an active account with that email.\<close>

theorem reset_answers_reveal_accounts:
  assumes "db_faults (p_db s) = []" and "trim email \<noteq> []"
    and "forgot_password L cfg h (Some email) s = (Inr (pw_ok (Some RESET_SENT)), s1)"
  shows "fst (forgot_password L cfg h (Some email) s1)
    = Inr (pw_ok (Some (if active_account (p_db s) (to_lowercase (trim email)) = None then RESET_SENT else RESET_ALREADY_SENT)))"
proof -
  let ?e = "to_lowercase (trim email)"
  have e: "?e \<noteq> []" using assms(2) by (simp add: to_lowercase_def)
  show ?thesis
  proof (cases "active_account (p_db s) ?e")
    case None
    then have "s1 = s"
      using assms(3) e by (simp add: forgot_password_def Let_def or_answer_run find_active_run [OF assms(1)] io_return_def)
    then show ?thesis
      using None e by (simp add: forgot_password_def Let_def or_answer_run find_active_run [OF assms(1)] io_return_def)
  next
    case (Some user)
    have diff: "RESET_ALREADY_SENT \<noteq> RESET_SENT" by (simp add: RESET_ALREADY_SENT_def RESET_SENT_def)
    have "mail_reset_link L cfg h user s = (Inr (pw_ok (Some RESET_SENT)), s1)"
      using assms(3) e Some diff
      by (auto simp: forgot_password_def Let_def or_answer_run find_active_run [OF assms(1)] last_sent_run [OF assms(1)] io_bind_def io_return_def pw_ok_def split: if_splits)
    then obtain token where s1: "instance_users (p_db s1) = update_rows (\<lambda>r. u_id (iu_user r) = u_id user)
      (\<lambda>r. r\<lparr>iu_user := (iu_user r)\<lparr>u_updated_at := db_now (p_db s)\<rparr>, iu_reset_password_token := Some token,
         iu_reset_password_sent_at := Some (db_now (p_db s))\<rparr>) (instance_users (p_db s))"
      "db_now (p_db s1) = db_now (p_db s)" "db_faults (p_db s1) = []"
      using mail_reset_link_run [OF _ assms(1)] by blast
    have "map_option u_id (active_account (p_db s1) ?e) = Some (u_id user)"
      using active_account_updated [OF _ _ _ s1(1), of ?e] Some by simp
    then obtain user' where user': "active_account (p_db s1) ?e = Some user'" "u_id user' = u_id user" by auto
    have "u_id user \<in> (\<lambda>r. u_id (iu_user r)) ` set (instance_users (p_db s))"
      using Some by (auto simp: active_account_def dest!: first_row_in)
    then have "first_row (map iu_reset_password_sent_at (filter (\<lambda>r. u_id (iu_user r) = u_id user) (instance_users (p_db s1))))
        = Some (Some (db_now (p_db s)))"
      unfolding s1(1) by (intro first_row_update) simp_all
    then show ?thesis
      using user' s1(2) e Some
      by (simp add: forgot_password_def Let_def or_answer_run find_active_run [OF s1(3)] last_sent_run [OF s1(3)] io_bind_def io_return_def flatten_option_def)
  qed
qed

lemma sample_reset_mail:
  "\<exists>s1. mail_reset_link sample_authlib sample_config [] sample_user (sample_portal []) = (Inr (pw_ok (Some RESET_SENT)), s1)"
proof -
  obtain token s1 where token: "draw_reset_token sample_authlib (sample_portal []) = (Inr token, s1)"
    and s1: "p_db s1 = p_db (sample_portal [])" "px_mail_faults s1 = []"
    by (simp add: draw_reset_token_def in_world_def draw_def io_simps sample_portal_def)
  obtain s2 where save: "in_db (save_reset_token token (u_id sample_user)) s1 = (Inr (), s2)" "px_mail_faults s2 = []"
    using s1 by (simp add: in_db_def in_world_def on_db_def save_reset_token_def db_stmt_def)
  obtain s3 where "send_reset_email (reset_base_url sample_config []) sample_user token s2 = (Inr (), s3)"
    using save(2) by (simp add: send_reset_email_def send_email_def Let_def)
  then show ?thesis
    using token save(1) by (simp add: mail_reset_link_def io_bind_def or_answer_run io_return_def)
qed

theorem reset_answers_reveal_accounts_witness:
  "\<exists>s1. fst (forgot_password sample_authlib sample_config [] (Some ''a@b.c'') s1) = Inr (pw_ok (Some RESET_ALREADY_SENT))"
proof -
  have e: "trim ''a@b.c'' = ''a@b.c''" "to_lowercase ''a@b.c'' = ''a@b.c''" by code_simp+
  have account: "active_account (p_db (sample_portal [])) ''a@b.c'' = Some sample_user"
    by (simp add: active_account_def first_row_def sample_user_def)
  obtain s1 where "forgot_password sample_authlib sample_config [] (Some ''a@b.c'') (sample_portal [])
      = (Inr (pw_ok (Some RESET_SENT)), s1)"
    using sample_reset_mail e account
    by (auto simp: forgot_password_def Let_def or_answer_run find_active_run last_sent_run io_bind_def flatten_option_def
        first_row_def split: option.split)
  then have "fst (forgot_password sample_authlib sample_config [] (Some ''a@b.c'') s1) = Inr (pw_ok (Some RESET_ALREADY_SENT))"
    using reset_answers_reveal_accounts [of "sample_portal []" "''a@b.c''" sample_authlib sample_config "[]" s1] e account by simp
  then show ?thesis by blast
qed

definition valid_link :: "string \<Rightarrow> InstanceUserRow \<Rightarrow> bool" where
  "valid_link token r \<longleftrightarrow> iu_reset_password_token r = Some token \<and> u_status (iu_user r) = IU_Active"

lemma set_password_run:
  assumes "in_db (set_password encrypted token) s = (Inr n, s')"
  shows "n = length (filter (valid_link token) (instance_users (p_db s)))
    \<and> instance_users (p_db s') = update_rows (valid_link token) (\<lambda>r. r\<lparr>
         iu_user := (iu_user r)\<lparr>u_encrypted_password := encrypted, u_updated_at := db_now (p_db s)\<rparr>,
         iu_reset_password_token := None, iu_reset_password_sent_at := None\<rparr>) (instance_users (p_db s))"
  using assms by (auto simp: valid_link_def [abs_def] set_password_def Let_def in_db_def in_world_def on_db_def db_stmt_def set_db_def
      split: prod.splits list.splits option.splits)

lemma hash_password_run:
  assumes "hash_password L pw s = (res, s')"
  shows "p_db s' = p_db s \<and> (\<forall>h. res = Inr h \<longrightarrow> (\<exists>salt. al_argon2_hash L salt pw = Inr h))"
  using assms by (auto simp: hash_password_def io_bind_def in_world_def draw_def split: sum.splits)

lemma reset_password_success:
  assumes "reset_password L (Some (token, pw)) s = (Inr (c, Some r), s')" and "pw_success r"
  shows "\<exists>encrypted salt. al_argon2_hash L salt pw = Inr encrypted
    \<and> list_ex (valid_link (trim token)) (instance_users (p_db s))
    \<and> instance_users (p_db s') = update_rows (valid_link (trim token)) (\<lambda>r. r\<lparr>
         iu_user := (iu_user r)\<lparr>u_encrypted_password := encrypted, u_updated_at := db_now (p_db s)\<rparr>,
         iu_reset_password_token := None, iu_reset_password_sent_at := None\<rparr>) (instance_users (p_db s))"
proof -
  note failed = SERVER_ERROR_def pw_failed_def
  let ?k = "\<lambda>n :: nat. io_return (if n = 0
                  then pw_failed 200 ''Invalid or expired reset link. Please request a new password reset.''
                  else pw_ok None)"
  have "or_answer SERVER_ERROR (hash_password L pw) (\<lambda>encrypted.
      or_answer SERVER_ERROR (in_db (set_password encrypted (trim token))) ?k) s = (Inr (c, Some r), s')"
    using assms by (auto simp: reset_password_def Let_def io_return_def failed split: if_splits sum.splits)
  then obtain encrypted s1 where h: "hash_password L pw s = (Inr encrypted, s1)"
    and run: "or_answer SERVER_ERROR (in_db (set_password encrypted (trim token))) ?k s1 = (Inr (c, Some r), s')"
    using assms(2) by (cases rule: or_answer_cases) (auto simp: failed)
  from run obtain n where n: "in_db (set_password encrypted (trim token)) s1 = (Inr n, s')" "n \<noteq> 0"
    using assms(2) by (cases rule: or_answer_cases) (auto simp: failed io_return_def split: if_splits)
  have "list_ex (valid_link (trim token)) (instance_users (p_db s1))"
    using set_password_run [OF n(1)] n(2) by (auto simp: list_ex_iff filter_empty_conv)
  then show ?thesis using set_password_run [OF n(1)] hash_password_run [OF h] by auto
qed

text \<open>C30: A reset link works once: after a reset with it, every other reset with it fails.\<close>

theorem reset_link_used_once:
  assumes "reset_password L (Some (token, pw)) s = (Inr (c, Some r), s1)" and "pw_success r"
    and "reset_password L (Some (token, pw2)) s1 = (Inr (c2, Some r2), s2)"
  shows "\<not> pw_success r2"
proof
  assume "pw_success r2"
  then have "list_ex (valid_link (trim token)) (instance_users (p_db s1))" using reset_password_success [OF assms(3)] by auto
  then show False using reset_password_success [OF assms(1,2)] by (auto simp: list_ex_iff update_rows_def valid_link_def)
qed

text \<open>The hash of a password is accepted for that password.\<close>

definition argon2_ok :: "authlib \<Rightarrow> bool" where
  "argon2_ok L \<longleftrightarrow> (\<forall>salt password. \<exists>h. al_argon2_hash L salt password = Inr h
     \<and> (\<exists>parsed. al_argon2_parse L h = Inr parsed \<and> al_argon2_verify L password parsed = None))"

definition after :: "nat \<Rightarrow> portal \<Rightarrow> portal" where
  "after ms s = s\<lparr>px_world := set_db ((p_db s)\<lparr>db_now := db_now (p_db s) + ms\<rparr>) (px_world s)\<rparr>"

lemma after_simps [simp]:
  "instance_users (p_db (after ms s)) = instance_users (p_db s)" "db_faults (p_db (after ms s)) = db_faults (p_db s)"
  by (simp_all add: after_def set_db_def)

lemma reset_password_run:
  assumes "trim token \<noteq> []" and "pw \<noteq> []" and "validate_password pw = Inr ()" and "argon2_ok L" and "db_faults (p_db s) = []"
    and "list_ex (valid_link (trim token)) (instance_users (p_db s))"
  shows "\<exists>s'. reset_password L (Some (token, pw)) s = (Inr (pw_ok None), s')"
proof -
  obtain h where "al_argon2_hash L (pop 0 (w_random (px_world s))) pw = Inr h" using assms(4) unfolding argon2_ok_def by blast
  then obtain s1 where h: "hash_password L pw s = (Inr h, s1)" "p_db s1 = p_db s"
    by (simp add: hash_password_def io_bind_def in_world_def draw_def)
  have "filter (valid_link (trim token)) (instance_users (p_db s1)) \<noteq> []"
    using assms(6) h(2) by (auto simp: list_ex_iff filter_empty_conv)
  then obtain n s2 where n: "in_db (set_password h (trim token)) s1 = (Inr n, s2)" "n \<noteq> 0"
    using h(2) assms(5) by (auto simp: set_password_def Let_def in_db_def in_world_def on_db_def db_stmt_def valid_link_def [abs_def])
  show ?thesis
    using assms(1-3) h(1) n by (simp add: reset_password_def Let_def or_answer_run io_return_def)
qed

text \<open>A reset link never expires, although a refused link is said to be "invalid or expired": however much
  time has passed, the link of an active account sets its password, and the new password is the one
  that a login accepts.\<close>

theorem reset_link_never_expires:
  assumes "trim token \<noteq> []" and "pw \<noteq> []" and "validate_password pw = Inr ()" and "argon2_ok L" and "db_faults (p_db s) = []"
    and "row \<in> set (instance_users (p_db s))" and "valid_link (trim token) row"
  shows "\<exists>s' row'. reset_password L (Some (token, pw)) (after ms s) = (Inr (pw_ok None), s')
    \<and> row' \<in> set (instance_users (p_db s')) \<and> u_id (iu_user row') = u_id (iu_user row) \<and> password_valid L pw (iu_user row')"
proof -
  have "list_ex (valid_link (trim token)) (instance_users (p_db (after ms s)))" using assms(6,7) by (auto simp: list_ex_iff)
  then obtain s' where run: "reset_password L (Some (token, pw)) (after ms s) = (Inr (pw_ok None), s')"
    using reset_password_run [OF assms(1-4), of "after ms s"] assms(5) by auto
  obtain h salt where h: "al_argon2_hash L salt pw = Inr h"
    and s': "instance_users (p_db s') = update_rows (valid_link (trim token)) (\<lambda>r. r\<lparr>
         iu_user := (iu_user r)\<lparr>u_encrypted_password := h, u_updated_at := db_now (p_db (after ms s))\<rparr>,
         iu_reset_password_token := None, iu_reset_password_sent_at := None\<rparr>) (instance_users (p_db s))"
    using reset_password_success [OF run [unfolded pw_ok_def]] by auto
  let ?row = "row\<lparr>iu_user := (iu_user row)\<lparr>u_encrypted_password := h, u_updated_at := db_now (p_db (after ms s))\<rparr>,
         iu_reset_password_token := None, iu_reset_password_sent_at := None\<rparr>"
  have "?row \<in> set (instance_users (p_db s'))"
    unfolding s' set_update_rows using assms(6,7) by (intro image_eqI [of _ _ row]) simp_all
  moreover have "password_valid L pw (iu_user ?row)"
  proof -
    obtain parsed where "al_argon2_parse L h = Inr parsed" "al_argon2_verify L pw parsed = None"
      using assms(4) h unfolding argon2_ok_def by (metis sum.inject(2))
    then show ?thesis by (simp add: password_valid_def verify_password_def)
  qed
  moreover have "u_id (iu_user ?row) = u_id (iu_user row)" by simp
  ultimately show ?thesis using run by blast
qed

definition link_portal :: portal where
  "link_portal = \<lparr> px_world = sample_world (empty_db\<lparr>instance_users := [\<lparr> iu_user = sample_user,
       iu_reset_password_token = Some ''T'', iu_reset_password_sent_at = Some 0 \<rparr>]\<rparr>),
     px_mails = [], px_mail_faults = [] \<rparr>"

lemma link_portal_parts [simp]:
  "db_faults (p_db link_portal) = []"
  "instance_users (p_db link_portal) = [\<lparr> iu_user = sample_user, iu_reset_password_token = Some ''T'', iu_reset_password_sent_at = Some 0 \<rparr>]"
  by (simp_all add: link_portal_def sample_world_def WriteBehindQueue_new_def empty_db_def)

lemma sample_link: "trim ''T'' = ''T''" "validate_password ''Passw0rd!'' = Inr ()"
  by code_simp+

lemma sample_argon2: "argon2_ok sample_authlib"
  by (simp add: argon2_ok_def sample_authlib_def)

lemma sample_link_valid: "valid_link ''T'' \<lparr> iu_user = sample_user, iu_reset_password_token = Some ''T'', iu_reset_password_sent_at = Some 0 \<rparr>"
  by (simp add: valid_link_def sample_user_def)

theorem reset_link_never_expires_witness:
  "\<exists>s'. reset_password sample_authlib (Some (''T'', ''Passw0rd!'')) (after 31536000000 link_portal) = (Inr (pw_ok None), s')"
  using reset_link_never_expires [of "''T''" "''Passw0rd!''" sample_authlib link_portal
      "\<lparr> iu_user = sample_user, iu_reset_password_token = Some ''T'', iu_reset_password_sent_at = Some 0 \<rparr>" 31536000000]
    sample_link sample_argon2 sample_link_valid by auto

theorem reset_link_used_once_witness:
  "\<exists>s1. reset_password sample_authlib (Some (''T'', ''Passw0rd!'')) link_portal = (Inr (pw_ok None), s1)
    \<and> (\<forall>c s2. reset_password sample_authlib (Some (''T'', ''Passw0rd!'')) s1 \<noteq> (Inr (c, Some \<lparr> pw_success = True, pw_message = None, pw_error = None \<rparr>), s2))"
proof -
  obtain s1 where run: "reset_password sample_authlib (Some (''T'', ''Passw0rd!'')) link_portal = (Inr (pw_ok None), s1)"
    using reset_password_run [of "''T''" "''Passw0rd!''" sample_authlib link_portal] sample_link sample_argon2 sample_link_valid by auto
  have "\<not> pw_success r" if "reset_password sample_authlib (Some (''T'', ''Passw0rd!'')) s1 = (Inr (c, Some r), s2)" for c r s2
    using reset_link_used_once [OF run [unfolded pw_ok_def] _ that] by simp
  then show ?thesis using run by fastforce
qed

end
