(* ===== verification/PulsarEndpoint.thy ===== *)
theory PulsarEndpoint
  imports Pulsar Middleware
begin

text \<open>
  Model of \<open>crates/api/src/routes/pulsar.rs\<close>: the internal buyer as an HTTP endpoint, which no layer
  guards. The statement that logs a decision binds a text to the column \<open>lead_id\<close>, whose type is
  \<open>uuid\<close>; the database refuses it, and the handlers ignore the error. The body has been read when a
  handler runs.
\<close>

section \<open>Requests and answers\<close>

record PulsarLeadData =
  pd_request_type :: "string option"
  pd_publisher_id :: "string option"
  pd_vertical :: "string option"
  pd_campaign_token :: "string option"
  pd_lead_id :: "string option"
  pd_promise_id :: "string option"
  pd_is_test :: "bool option"
  pd_zip :: "string option"
  pd_ip_address :: "string option"
  pd_monthly_bill :: "f64 option"
  pd_own_home :: "bool option"
  pd_purchase_timeframe :: "string option"
  pd_credit_rating :: "string option"
  pd_property_type :: "string option"
  pd_roof_shade :: "string option"
  pd_roof_type :: "string option"
  pd_utility_provider :: "string option"
  pd_trusted_form_url :: "string option"
  pd_jornaya_lead_id :: "string option"
  pd_tcpa_consent :: "bool option"
  pd_tcpa_language :: "string option"
  pd_first_name :: "string option"
  pd_last_name :: "string option"
  pd_email :: "string option"
  pd_cell_phone :: "string option"
  pd_state :: "string option"
  pd_city :: "string option"
  pd_street_address :: "string option"

record PulsarResponse =
  pp_success :: bool
  pp_status :: string
  pp_ping_id :: "string option"
  pp_post_id :: "string option"
  pp_promise_id :: "string option"
  pp_price :: "u32 option"
  pp_bid :: "u32 option"
  pp_message :: "string option"
  pp_error :: "string option"
  pp_reason :: "string option"

definition pulsar_refused :: "string option \<Rightarrow> string option \<Rightarrow> string \<Rightarrow> PulsarResponse" where
  "pulsar_refused promise_id message err = \<lparr> pp_success = False, pp_status = ''rejected'', pp_ping_id = None,
     pp_post_id = None, pp_promise_id = promise_id, pp_price = None, pp_bid = None, pp_message = message,
     pp_error = Some err, pp_reason = None \<rparr>"

section \<open>Handlers\<close>

definition random_price :: "(world, u32) io" where
  "random_price = io_bind draw (\<lambda>x. io_return ((ucast x :: u32) mod 200 + 100))"

definition lead_id_or_new :: "extlib \<Rightarrow> PulsarLeadData \<Rightarrow> (world, string) io" where
  "lead_id_or_new X data =
     (case pd_lead_id data of Some i \<Rightarrow> io_return i | None \<Rightarrow> io_bind draw_uuid (\<lambda>u. io_return (uuid_text X u)))"

definition TYPE_MISMATCH :: error where
  "TYPE_MISMATCH = ''column lead_id is of type uuid but expression is of type text''"

definition log_decision :: "string option \<Rightarrow> string option \<Rightarrow> uuid \<Rightarrow> u32 \<Rightarrow> (db, unit) io" where
  "log_decision lead_id ping_id buyer_id price = db_stmt (io_err TYPE_MISMATCH)"

definition pulsar_handle_ping :: "extlib \<Rightarrow> uuid \<Rightarrow> PulsarLeadData \<Rightarrow> (world, PulsarResponse reply) io" where
  "pulsar_handle_ping X buyer_id data =
     io_bind (lead_id_or_new X data) (\<lambda>lead_id.
     io_bind (generate_ping_id X lead_id) (\<lambda>ping_id.
     io_bind (generate_promise_id X) (\<lambda>promise_id.
     io_bind random_price (\<lambda>logged.
     io_bind (io_try (on_db (log_decision (pd_lead_id data) (Some ping_id) buyer_id logged))) (\<lambda>_.
     io_bind random_price (\<lambda>bid.
     io_return (200, Some \<lparr> pp_success = True, pp_status = ''accepted'', pp_ping_id = Some ping_id, pp_post_id = None,
       pp_promise_id = Some promise_id, pp_price = None, pp_bid = Some bid, pp_message = Some ''Lead accepted for ping'',
       pp_error = None, pp_reason = None \<rparr>)))))))"

definition sold_with_promise :: "string \<Rightarrow> (db, string option option) io" where
  "sold_with_promise promise_id = db_query_optional (\<lambda>d.
     map l_post_id (filter (\<lambda>l. l_promise_id l = Some promise_id \<and> l_status l = LS_Sold) (leads d)))"

definition promise_used :: "string \<Rightarrow> PulsarResponse" where
  "promise_used promise_id = pulsar_refused (Some promise_id)
     (Some (''The promise_id '' @ [CHR 0x27] @ promise_id @ [CHR 0x27] @ '' was already used for a sold lead and cannot be reused.''))
     ''This promise_id has already been used''"

definition pulsar_handle_post :: "extlib \<Rightarrow> uuid \<Rightarrow> PulsarLeadData \<Rightarrow> (world, PulsarResponse reply) io" where
  "pulsar_handle_post X buyer_id data =
     some_or_answer (STATUS 400) (pd_promise_id data) (\<lambda>promise_id.
     io_bind (lead_id_or_new X data) (\<lambda>lead_id.
     or_answer (STATUS 500) (on_db (sold_with_promise promise_id)) (\<lambda>existing.
     if is_some existing then io_return (200, Some (promise_used promise_id))
     else io_bind (generate_post_id X lead_id) (\<lambda>post_id.
       io_bind random_price (\<lambda>logged.
       io_bind (io_try (on_db (log_decision (Some lead_id) None buyer_id logged))) (\<lambda>_.
       io_bind random_price (\<lambda>price.
       io_return (200, Some \<lparr> pp_success = True, pp_status = ''sold'', pp_ping_id = None, pp_post_id = Some post_id,
         pp_promise_id = Some promise_id, pp_price = Some price, pp_bid = None,
         pp_message = Some ''Lead accepted and sold'', pp_error = None, pp_reason = None \<rparr>))))))))"

text \<open>The ids of a lead without one are drawn twice; the first is not used.\<close>

definition pulsar_handle_fullpost :: "extlib \<Rightarrow> PulsarLeadData \<Rightarrow> (world, PulsarResponse reply) io" where
  "pulsar_handle_fullpost X data =
     io_bind (lead_id_or_new X data) (\<lambda>_.
     io_bind draw (\<lambda>x.
     let ping_id = ''PING_'' @ to_uppercase (hex_encode X (take 8 (word_bytes x))) in
     io_bind (lead_id_or_new X data) (\<lambda>lead_id.
     io_bind (generate_post_id X lead_id) (\<lambda>post_id.
     io_bind (generate_promise_id X) (\<lambda>promise_id.
     io_bind random_price (\<lambda>price.
     io_return (200, Some \<lparr> pp_success = True, pp_status = ''sold'', pp_ping_id = Some ping_id, pp_post_id = Some post_id,
       pp_promise_id = Some promise_id, pp_price = Some price, pp_bid = None,
       pp_message = Some ''Lead accepted and sold via fullpost'', pp_error = None, pp_reason = None \<rparr>)))))))"

definition handle_pulsar_lead ::
  "extlib \<Rightarrow> (string \<Rightarrow> uuid option) \<Rightarrow> http_call \<Rightarrow> PulsarLeadData \<Rightarrow> (world, PulsarResponse reply) io" where
  "handle_pulsar_lead X uuid_parse q data =
     some_or_answer (STATUS 400) (Option.bind (text_header q ''x-internal-buyer-id'') uuid_parse) (\<lambda>buyer_id.
     let request_type = to_lowercase (unwrap_or (pd_request_type data) ''ping'') in
     if request_type = ''ping'' then pulsar_handle_ping X buyer_id data
     else if request_type = ''post'' then pulsar_handle_post X buyer_id data
     else if request_type = ''fullpost'' then pulsar_handle_fullpost X data
     else io_return (200, Some (pulsar_refused None None
       (''Invalid request_type. Must be '' @ [CHR 0x27] @ ''ping'' @ [CHR 0x27] @ '', '' @ [CHR 0x27] @ ''post'' @ [CHR 0x27]
        @ '', or '' @ [CHR 0x27] @ ''fullpost'' @ [CHR 0x27]))))"

section \<open>Properties\<close>

text \<open>\<open>gives P m\<close>: running \<open>m\<close> gives no error and a result that satisfies \<open>P\<close>.\<close>

definition gives :: "('a \<Rightarrow> bool) \<Rightarrow> ('s, 'a) io \<Rightarrow> bool" where
  "gives P m \<longleftrightarrow> (\<forall>s. \<exists>x s'. m s = (Inr x, s') \<and> P x)"

lemma gives_bind:
  assumes "gives (\<lambda>_. True) m" and "\<And>x. gives P (f x)"
  shows "gives P (io_bind m f)"
  unfolding gives_def
proof
  fix s
  obtain x s1 where "m s = (Inr x, s1)" using assms(1) unfolding gives_def by blast
  then show "\<exists>y s'. io_bind m f s = (Inr y, s') \<and> P y" using assms(2) [of x] by (simp add: gives_def io_bind_run)
qed

lemma gives_return: "P x \<Longrightarrow> gives P (io_return x)"
  by (simp add: gives_def io_return_def)

lemma gives_draws: "draws_only m \<Longrightarrow> gives (\<lambda>_. True) m"
  unfolding gives_def draws_only_def by blast

lemma gives_try: "gives (\<lambda>_. True) (io_try m)"
  by (simp add: gives_def io_try_def split: prod.split)

lemma endpoint_draws:
  "draws_only random_price" "draws_only (lead_id_or_new X data)"
  unfolding random_price_def lead_id_or_new_def draw_uuid_def by (intro draws_only_intros)+

lemmas gives_intros = gives_bind gives_return gives_try
  gives_draws [OF endpoint_draws(1)] gives_draws [OF endpoint_draws(2)] gives_draws [OF draws_only_basic(2)]
  gives_draws [OF pulsar_ids_draw(2)] gives_draws [OF pulsar_ids_draw(3)] gives_draws [OF pulsar_ids_draw(5)]

abbreviation accepted_reply :: "PulsarResponse reply \<Rightarrow> bool" where
  "accepted_reply a \<equiv> (case a of (code, Some r) \<Rightarrow> code = 200 \<and> pp_success r | _ \<Rightarrow> False)"

lemma ping_accepted: "gives accepted_reply (pulsar_handle_ping X b data)"
  unfolding pulsar_handle_ping_def by (intro gives_intros) simp

lemma fullpost_accepted: "gives accepted_reply (pulsar_handle_fullpost X data)"
  unfolding pulsar_handle_fullpost_def Let_def by (intro gives_intros) simp

lemma draws_quiet: "draws_only m \<Longrightarrow> frame quiet m"
  unfolding frame_def
proof
  fix w assume "draws_only m"
  then obtain x r where "m w = (Inr x, w\<lparr>w_random := r\<rparr>)" by (rule draws_only_run)
  then show "quiet (snd (m w)) = quiet w" by (simp add: quiet_def)
qed

lemma frame_log [frame_intros]: "frame tables (log_decision l p b x)"
  by (auto simp: frame_def log_decision_def db_stmt_def io_err_def split: list.split option.split)

lemma frame_or_answer [frame_intros]: "frame f m \<Longrightarrow> (\<And>x. frame f (g x)) \<Longrightarrow> frame f (or_answer a m g)"
  unfolding or_answer_def by (intro frame_intros)

lemma frame_some_or [frame_intros]: "(\<And>x. frame f (g x)) \<Longrightarrow> frame f (some_or_answer a m g)"
  unfolding some_or_answer_def by (intro frame_intros)

lemmas endpoint_quiet = draws_quiet [OF endpoint_draws(1)] draws_quiet [OF endpoint_draws(2)] draws_quiet [OF draws_only_basic(2)]
  draws_quiet [OF pulsar_ids_draw(2)] draws_quiet [OF pulsar_ids_draw(3)] draws_quiet [OF pulsar_ids_draw(5)]

lemmas quiet_intros = endpoint_quiet frame_bind frame_try frame_or_answer frame_some_or quiet_on_db frame_tables_optional
  frame_log frame_cases(1)

lemma quiet_return: "frame quiet (io_return x)"
  by (simp add: frame_def io_return_def)

lemma handlers_quiet:
  "frame quiet (pulsar_handle_ping X b data)" "frame quiet (pulsar_handle_post X b data)" "frame quiet (pulsar_handle_fullpost X data)"
  unfolding pulsar_handle_ping_def pulsar_handle_post_def pulsar_handle_fullpost_def sold_with_promise_def Let_def
  by (intro quiet_intros quiet_return)+

lemma endpoint_changes_nothing: "frame quiet (handle_pulsar_lead X up q data)"
  unfolding handle_pulsar_lead_def Let_def by (intro frame_some_or frame_cases(1) handlers_quiet quiet_return)

text \<open>Posts look up the promise first.\<close>

definition promise_sold :: "db \<Rightarrow> string \<Rightarrow> bool" where
  "promise_sold d p \<longleftrightarrow> list_ex (\<lambda>l. l_promise_id l = Some p \<and> l_status l = LS_Sold) (leads d)"

lemma post_outcome:
  assumes "pd_promise_id data = Some p"
    and "pulsar_handle_post X b data w = (Inr (200, Some r), w')"
  shows "pp_success r \<longleftrightarrow> \<not> promise_sold (w_db w) p"
proof -
  obtain i rs where draws: "lead_id_or_new X data w = (Inr i, w\<lparr>w_random := rs\<rparr>)"
    using endpoint_draws(2) by (rule draws_only_run)
  let ?w = "w\<lparr>w_random := rs\<rparr>"
  let ?k = "\<lambda>existing. if is_some existing then io_return (200 :: nat, Some (promise_used p))
     else io_bind (generate_post_id X i) (\<lambda>post_id.
       io_bind random_price (\<lambda>logged.
       io_bind (io_try (on_db (log_decision (Some i) None b logged))) (\<lambda>_.
       io_bind random_price (\<lambda>price.
       io_return (200, Some \<lparr> pp_success = True, pp_status = ''sold'', pp_ping_id = None, pp_post_id = Some post_id,
         pp_promise_id = Some p, pp_price = Some price, pp_bid = None,
         pp_message = Some ''Lead accepted and sold'', pp_error = None, pp_reason = None \<rparr>)))))"
  have run: "or_answer (STATUS 500) (on_db (sold_with_promise p)) ?k ?w = (Inr (200, Some r), w')"
    using assms draws by (simp add: pulsar_handle_post_def some_or_answer_def io_bind_run)
  obtain res w1 where q: "on_db (sold_with_promise p) ?w = (res, w1)" by force
  then obtain existing where existing: "res = Inr existing" and k: "?k existing w1 = (Inr (200, Some r), w')"
    using run by (cases res) (auto simp: or_answer_def io_bind_def io_try_def io_return_def)
  have "is_some existing \<longleftrightarrow> promise_sold (w_db w) p"
    using q existing
    by (auto simp: sold_with_promise_def on_db_def db_query_optional_def db_query_def db_stmt_def io_get_def first_row_def
        promise_sold_def list_ex_iff filter_empty_conv is_some_def dest!: filter_eq_ConsD
        split: prod.splits list.splits option.splits)
  moreover have "pp_success r \<longleftrightarrow> \<not> is_some existing"
  proof (cases "is_some existing")
    case True
    then show ?thesis using k by (simp add: io_return_def promise_used_def pulsar_refused_def) (auto simp: pulsar_refused_def)
  next
    case False
    have "gives accepted_reply (?k existing)" using False by simp (intro gives_intros, simp)
    then show ?thesis using k False unfolding gives_def by (metis (no_types, lifting) case_prod_conv option.simps(5) prod.inject sum.inject(2))
  qed
  ultimately show ?thesis by simp
qed

text \<open>the endpoint of the internal buyer decides nothing and keeps nothing. Whoever names a buyer in
  the header gets a ping accepted and a fullpost sold, whatever the lead; a post is refused exactly
  when its promise belongs to a sold lead; and no request changes a table: the decision that is to be
  logged never is.\<close>

theorem pulsar_endpoint_outcome:
  assumes "Option.bind (text_header q ''x-internal-buyer-id'') up = Some b"
    and "handle_pulsar_lead X up q data w = (res, w')"
  shows "quiet w' = quiet w
    \<and> (to_lowercase (unwrap_or (pd_request_type data) ''ping'') \<in> {''ping'', ''fullpost''} \<longrightarrow> (\<exists>r. res = Inr (200, Some r) \<and> pp_success r))
    \<and> (to_lowercase (unwrap_or (pd_request_type data) ''ping'') = ''post'' \<longrightarrow>
        (\<forall>p r. pd_promise_id data = Some p \<longrightarrow> res = Inr (200, Some r) \<longrightarrow> (pp_success r \<longleftrightarrow> \<not> promise_sold (w_db w) p)))"
proof (intro conjI impI allI)
  let ?ty = "to_lowercase (unwrap_or (pd_request_type data) ''ping'')"
  show "quiet w' = quiet w" using endpoint_changes_nothing assms(2) unfolding frame_def by (metis snd_conv)
  show "\<exists>r. res = Inr (200, Some r) \<and> pp_success r" if "?ty \<in> {''ping'', ''fullpost''}"
  proof -
    have "gives accepted_reply (handle_pulsar_lead X up q data)"
      using that assms(1) by (auto simp: handle_pulsar_lead_def some_or_answer_def ping_accepted fullpost_accepted)
    then obtain a where "res = Inr a" "accepted_reply a" using assms(2) unfolding gives_def by (metis prod.inject)
    then show ?thesis by (auto split: option.splits)
  qed
  show "pp_success r \<longleftrightarrow> \<not> promise_sold (w_db w) p"
    if "?ty = ''post''" "pd_promise_id data = Some p" "res = Inr (200, Some r)" for p r
    using post_outcome [of data p X b w r w'] assms that by (simp add: handle_pulsar_lead_def some_or_answer_def)
qed

definition no_lead_data :: PulsarLeadData where
  "no_lead_data = \<lparr> pd_request_type = None, pd_publisher_id = None, pd_vertical = None, pd_campaign_token = None,
     pd_lead_id = None, pd_promise_id = None, pd_is_test = None, pd_zip = None, pd_ip_address = None,
     pd_monthly_bill = None, pd_own_home = None, pd_purchase_timeframe = None, pd_credit_rating = None,
     pd_property_type = None, pd_roof_shade = None, pd_roof_type = None, pd_utility_provider = None,
     pd_trusted_form_url = None, pd_jornaya_lead_id = None, pd_tcpa_consent = None, pd_tcpa_language = None,
     pd_first_name = None, pd_last_name = None, pd_email = None, pd_cell_phone = None, pd_state = None,
     pd_city = None, pd_street_address = None \<rparr>"

theorem pulsar_endpoint_outcome_witness:
  "\<exists>r. fst (handle_pulsar_lead plain_crypto (\<lambda>_. Some 1) \<lparr> hc_headers = [(''x-internal-buyer-id'', Some ''b'')], hc_body = Inr [] \<rparr>
     no_lead_data (sample_world empty_db)) = Inr (200, Some r) \<and> pp_success r"
proof -
  let ?q = "\<lparr> hc_headers = [(''x-internal-buyer-id'', Some ''b'')], hc_body = Inr [] \<rparr>"
  let ?run = "handle_pulsar_lead plain_crypto (\<lambda>_. Some 1) ?q no_lead_data (sample_world empty_db)"
  have "Option.bind (text_header ?q ''x-internal-buyer-id'') (\<lambda>_. Some 1) = Some (1 :: uuid)"
    by (simp add: text_header_def flatten_option_def)
  moreover have "to_lowercase (unwrap_or (pd_request_type no_lead_data) ''ping'') = ''ping''" by code_simp
  ultimately show ?thesis
    using pulsar_endpoint_outcome [of ?q "\<lambda>_. Some 1" 1 plain_crypto no_lead_data "sample_world empty_db" "fst ?run" "snd ?run"] by simp
qed

end
