(* ===== verification/Health.thy ===== *)
theory Health
  imports Auth
begin

text \<open>
  Model of \<open>crates/api/src/routes/health.rs\<close>: the probes of the service. What a ping of the database
  or of Redis comes to within its time limit is an argument, as are the sizes of the connection pool.
\<close>

datatype probe = ProbeOk | ProbeError error | ProbeTimeout

definition poke_endpoint :: "probe \<Rightarrow> json reply" where
  "poke_endpoint db = (if db = ProbeOk then (200, Some (JObj [(''ok'', JBool True)])) else (503, Some (JObj [(''ok'', JBool False)])))"

definition liveness_check :: "extlib \<Rightarrow> timestamp \<Rightarrow> json reply" where
  "liveness_check X now = (200, Some (JObj [(''status'', JStr ''alive''), (''timestamp'', JStr (utc_rfc3339 X now))]))"

definition database_check :: "probe \<Rightarrow> string" where
  "database_check db = (case db of
     ProbeOk \<Rightarrow> ''ok'' | ProbeError e \<Rightarrow> ''error: '' @ e | ProbeTimeout \<Rightarrow> ''error: connection timeout'')"

definition redis_check :: "probe option \<Rightarrow> string" where
  "redis_check redis = (case redis of
     None \<Rightarrow> ''not configured''
   | Some ProbeOk \<Rightarrow> ''ok''
   | Some (ProbeError e) \<Rightarrow> ''warning: '' @ e
   | Some ProbeTimeout \<Rightarrow> ''warning: connection timeout'')"

definition health_check :: "extlib \<Rightarrow> timestamp \<Rightarrow> probe \<Rightarrow> probe option \<Rightarrow> json reply" where
  "health_check X now db redis =
     (let status = (if db = ProbeOk then ''healthy'' else ''unhealthy'') in
      (if status = ''healthy'' then 200 else 503,
       Some (JObj [(''status'', JStr status), (''timestamp'', JStr (utc_rfc3339 X now)),
         (''checks'', JObj [(''database'', JStr (database_check db)), (''redis'', JStr (redis_check redis))])])))"

text \<open>The note on request-level metrics is a fixed text.\<close>

definition PERFORMANCE_NOTE :: string where
  "PERFORMANCE_NOTE = ''Request-level metrics (ping_auction_time, post_time, cache_hit_rate) are tracked per-request via DiagnosticMetrics. Aggregate metrics can be collected from logs or by storing DiagnosticMetrics in AppState.''"

definition redis_status :: "probe option \<Rightarrow> string" where
  "redis_status redis = (case redis of
     None \<Rightarrow> ''not_configured'' | Some p \<Rightarrow> if p = ProbeOk then ''connected'' else ''disconnected'')"

definition metrics_endpoint :: "extlib \<Rightarrow> timestamp \<Rightarrow> nat \<Rightarrow> nat \<Rightarrow> probe option \<Rightarrow> json reply" where
  "metrics_endpoint X now pool_size num_idle redis =
     (200, Some (JObj [(''timestamp'', JStr (utc_rfc3339 X now)),
        (''metrics'', JObj [
          (''database'', JObj [(''pool_size'', JInt (int pool_size)), (''idle_connections'', JInt (int num_idle)),
             (''active_connections'', JInt (int (pool_size - num_idle)))]),
          (''cache'', JObj [(''configured'', JBool (is_some redis)), (''status'', JStr (redis_status redis))]),
          (''performance'', JObj [(''note'', JStr PERFORMANCE_NOTE)])]),
        (''format'', JStr ''json''), (''version'', JStr ''1.0''),
        (''monitoring'', JObj [(''health_endpoint'', JStr ''/health''), (''metrics_endpoint'', JStr ''/metrics''),
          (''alerting_thresholds'', JObj [(''auction_time_ms'', JInt 200), (''cache_hit_rate_percent'', JFloat (Fin 90)),
             (''db_query_time_ms'', JInt 100)]),
          (''alerts'', JObj [(''auction_time_high'', JBool (0 < pool_size \<and> num_idle < pool_size div 10)),
             (''cache_miss_rate_high'', JBool (redis = None \<or> redis_status redis \<noteq> ''connected'')),
             (''db_pool_exhausted'', JBool (num_idle = 0 \<and> 0 < pool_size))])])]))"

section \<open>Properties\<close>

text \<open>The service is reported healthy exactly when the database answers in time; Redis only changes the
  text of its check. The alert on cache misses is raised exactly when Redis does not answer.\<close>

lemma health_follows_database:
  "fst (health_check X now db redis) = (if db = ProbeOk then 200 else 503)"
  "\<exists>checks. snd (health_check X now db redis) = Some (JObj [(''status'', JStr (if db = ProbeOk then ''healthy'' else ''unhealthy'')),
     (''timestamp'', JStr (utc_rfc3339 X now)), (''checks'', JObj ((''database'', JStr (database_check db)) # checks))])"
  by (simp_all add: health_check_def)

lemma cache_alert: "(redis = None \<or> redis_status redis \<noteq> ''connected'') \<longleftrightarrow> redis \<noteq> Some ProbeOk"
  by (auto simp: redis_status_def split: option.split)

end
