(* ===== verification/Dashboard.thy ===== *)
theory Dashboard
  imports Security "HOL-Library.List_Lexorder"
begin

text \<open>
  Model of the publisher part of \<open>crates/api/src/routes/dashboard.rs\<close>. A handler gets the user whom
  the middleware found; every change is written to the audit log, whose errors are ignored. Texts
  are ordered by their bytes; length limits of text columns are not modelled. The column \<open>status\<close> of
  a publisher has an enumeration type, to which the statement built by \<open>update_publisher\<close> binds a text:
  the database refuses it. Random bytes are taken from draws of sixteen.
\<close>

section \<open>Helpers\<close>

text \<open>The instance of the user; without one the request is bad.\<close>

definition with_instance :: "User \<Rightarrow> (uuid \<Rightarrow> (portal, json reply) io) \<Rightarrow> (portal, json reply) io" where
  "with_instance user f =
     or_answer (STATUS 500) (in_db (get_instance_id_for_user (u_id user))) (\<lambda>inst.
     some_or_answer (STATUS 400) inst f)"

text \<open>The instance for a new row: one that the request names is taken unchecked.\<close>

definition target_instance :: "uuid option \<Rightarrow> User \<Rightarrow> (uuid \<Rightarrow> (portal, json reply) io) \<Rightarrow> (portal, json reply) io" where
  "target_instance named user f = (case named of Some i \<Rightarrow> f i | None \<Rightarrow> with_instance user f)"

definition succeeded :: "(string \<times> json) list \<Rightarrow> json reply" where
  "succeeded members = (200, Some (JObj ((''success'', JBool True) # members)))"

definition COMPLIANCE :: "string \<times> json" where
  "COMPLIANCE = (''compliance'', JObj [(''standard'', JStr ''ISO_27001_SOC2_NIST''), (''version'', JStr ''2024'')])"

text \<open>The context of a change, with what the headers tell about the caller.\<close>

definition caller_context :: "http_call \<Rightarrow> string \<Rightarrow> string \<Rightarrow> string \<Rightarrow> string \<Rightarrow> string \<times> json" where
  "caller_context q reason request_id verb endpoint = (''context'', JObj
     [(''reason'', JStr reason), (''request_id'', JStr request_id), (''ip_address'', opt_json (request_ip q)),
      (''user_agent'', opt_json (text_header q ''user-agent'')), (''method'', JStr verb), (''endpoint'', JStr endpoint),
      (''source'', JStr ''dashboard_web_ui'')])"

text \<open>A change of a publisher is logged under the instance of the user, if there is one.\<close>

definition log_change ::
  "extlib \<Rightarrow> http_call \<Rightarrow> User \<Rightarrow> string \<Rightarrow> string \<Rightarrow> uuid \<Rightarrow> (string \<Rightarrow> timestamp \<Rightarrow> json) \<Rightarrow> (portal, unit) io" where
  "log_change X q user action_type resource i details =
     io_bind (io_try (in_db (get_instance_id_for_user (u_id user)))) (\<lambda>inst.
     io_bind (case first_text_header q ''x-request-id'' ''x-correlation-id'' of
         Some r \<Rightarrow> io_return r
       | None \<Rightarrow> in_world (io_bind draw_uuid (\<lambda>u. io_return (uuid_text X u)))) (\<lambda>request_id.
     io_bind (in_world current_time) (\<lambda>now.
     io_bind (io_try (in_db (create_audit_log (ok_some inst) (Some (u_id user)) action_type (Some resource) (Some i)
       (details request_id now) (JObj []) (request_ip q) (text_header q ''user-agent'')))) (\<lambda>_.
     io_return ()))))"

definition draw_bytes :: "nat \<Rightarrow> (portal, string) io" where
  "draw_bytes n = in_world (io_bind (io_mapM (\<lambda>_. draw) [0..<(n + 15) div 16]) (\<lambda>ws.
     io_return (take n (concat (map word_bytes ws)))))"

section \<open>Listing publishers\<close>

definition instance_publishers :: "uuid \<Rightarrow> (db, Publisher list) io" where
  "instance_publishers inst = db_query (\<lambda>d. sort_by (\<lambda>a b. cmp (p_created_at b) (p_created_at a))
     (filter (\<lambda>p. p_instance_id p = inst \<and> p_deleted_at p = None) (publishers d)))"

definition name_key :: "Vertical \<Rightarrow> nat list" where
  "name_key v = map of_char (v_name v)"

text \<open>The verticals of the publishers with the ids, by name.\<close>

definition vertical_rows :: "uuid list \<Rightarrow> (db, (uuid \<times> Vertical) list) io" where
  "vertical_rows ids = db_query (\<lambda>d. sort_key (\<lambda>(_, v). name_key v)
     (concat (map (\<lambda>(p, i). if p \<in> set ids then map (Pair p) (filter (\<lambda>v. v_id v = i) (verticals d)) else [])
       (publisher_verticals d))))"

definition vertical_info :: "extlib \<Rightarrow> Vertical \<Rightarrow> json" where
  "vertical_info X v = JObj [(''id'', JStr (uuid_text X (v_id v))), (''name'', JStr (v_name v)), (''slug'', JStr (v_slug v))]"

definition opt_time :: "extlib \<Rightarrow> timestamp option \<Rightarrow> json" where
  "opt_time X t = opt_json (map_option (utc_rfc3339 X) t)"

definition publisher_response :: "extlib \<Rightarrow> (uuid \<times> Vertical) list \<Rightarrow> Publisher \<Rightarrow> json" where
  "publisher_response X rows p = JObj
     [(''id'', JStr (uuid_text X (p_id p))), (''name'', JStr (p_name p)), (''email'', JStr (p_email p)),
      (''status'', JStr (PublisherStatus_as_str (p_status p))), (''api_key_prefix'', JStr (p_api_key_prefix p)),
      (''hmac_required'', JBool (p_hmac_required p)), (''created_at'', JStr (utc_rfc3339 X (p_created_at p))),
      (''deleted_at'', opt_time X (p_deleted_at p)),
      (''verticals'', JArr (map (\<lambda>(_, v). vertical_info X v) (filter (\<lambda>(i, _). i = p_id p) rows)))]"

definition list_publishers :: "extlib \<Rightarrow> User \<Rightarrow> (portal, json reply) io" where
  "list_publishers X user =
     with_instance user (\<lambda>inst.
     or_answer (STATUS 500) (in_db (instance_publishers inst)) (\<lambda>ps.
     or_answer (STATUS 500) (if ps = [] then io_return [] else in_db (vertical_rows (map p_id ps))) (\<lambda>rows.
     io_return (succeeded [(''publishers'', JArr (map (publisher_response X rows) ps))]))))"

section \<open>Creating publishers\<close>

record CreatePublisherRequest =
  cp_name :: string
  cp_email :: string
  cp_instance_id :: "uuid option"
  cp_representative_first_name :: "string option"
  cp_representative_last_name :: "string option"
  cp_address_street :: "string option"
  cp_address_city :: "string option"
  cp_address_state :: "string option"
  cp_address_zip :: "string option"
  cp_timezone :: "string option"
  cp_ein_tin :: "string option"
  cp_vertical_ids :: "uuid list option"

definition new_api_key :: "extlib \<Rightarrow> (portal, string) io" where
  "new_api_key X = io_bind (draw_bytes 32) (\<lambda>bytes. io_return (''pk_live_'' @ hex_encode X bytes))"

text \<open>A key and its encrypted form, for the column that shows it again.\<close>

definition encrypt_key :: "extlib \<Rightarrow> AppConfig \<Rightarrow> string \<Rightarrow> (portal, string) io" where
  "encrypt_key X cfg api_key =
     (case EncryptionService_new (cf_encryption_key cfg) of
        Inl e \<Rightarrow> io_err e
      | Inr key \<Rightarrow> io_bind (draw_bytes 12) (\<lambda>nonce. \<lambda>s. (encrypt X key nonce api_key, s)))"

definition email_taken :: "string \<Rightarrow> (db, bool) io" where
  "email_taken email = db_query (\<lambda>d. list_ex (\<lambda>p. p_email p = email \<and> p_deleted_at p = None) (publishers d))"

definition email_exists :: "string \<Rightarrow> json reply" where
  "email_exists email = refused_json (''A publisher with the email '' @ [CHR 0x27] @ email @ [CHR 0x27]
     @ '' already exists. Please use a different email address.'')"

definition HASH_COLLISION :: error where
  "HASH_COLLISION = ''duplicate key value violates unique constraint publishers_api_key_hash_key''"

definition insert_publisher :: "Publisher \<Rightarrow> (db, unit) io" where
  "insert_publisher p = db_stmt (\<lambda>d.
     if list_ex (\<lambda>r. p_id r = p_id p) (publishers d) then (Inl UNIQUE_VIOLATION, d)
     else if list_ex (\<lambda>r. p_api_key_hash r = p_api_key_hash p) (publishers d) then (Inl HASH_COLLISION, d)
     else (Inr (), d\<lparr>publishers := publishers d @ [p\<lparr>p_created_at := db_now d, p_updated_at := db_now d\<rparr>]\<rparr>))"

definition insert_vertical :: "uuid \<Rightarrow> uuid \<Rightarrow> (db, unit) io" where
  "insert_vertical publisher vertical = db_stmt (\<lambda>d.
     if (publisher, vertical) \<in> set (publisher_verticals d) then (Inr (), d)
     else if vertical \<notin> v_id ` set (verticals d) \<or> publisher \<notin> p_id ` set (publishers d)
     then (Inl ''insert or update on table publisher_verticals violates foreign key constraint'', d)
     else (Inr (), d\<lparr>publisher_verticals := publisher_verticals d @ [(publisher, vertical)]\<rparr>))"

definition new_publisher :: "uuid \<Rightarrow> uuid \<Rightarrow> string \<Rightarrow> string \<Rightarrow> CreatePublisherRequest \<Rightarrow> Publisher" where
  "new_publisher i inst hash encrypted c = \<lparr> p_id = i, p_name = cp_name c, p_email = cp_email c, p_api_key_hash = hash,
     p_api_key_prefix = ''pk_live_'', p_api_key_encrypted = Some encrypted, p_status = PS_Active, p_total_requests = 0,
     p_last_request_at = None, p_instance_id = inst, p_instance_user_id = None, p_is_documentation_test = False,
     p_hmac_secret_hash = None, p_hmac_secret_prefix = None, p_hmac_required = False, p_hmac_secret_encrypted = None,
     p_deleted_at = None, p_created_at = 0, p_updated_at = 0,
     p_representative_first_name = cp_representative_first_name c, p_representative_last_name = cp_representative_last_name c,
     p_address_street = cp_address_street c, p_address_city = cp_address_city c, p_address_state = cp_address_state c,
     p_address_zip = cp_address_zip c, p_timezone = cp_timezone c, p_ein_tin = cp_ein_tin c \<rparr>"

text \<open>What an error of the insertion is answered with.\<close>

definition insert_failed :: "string \<Rightarrow> error \<Rightarrow> json reply" where
  "insert_failed email e =
     (if contains e ''duplicate key'' \<and> (contains e ''publishers_email_key'' \<or> contains e ''publishers_email_unique_not_deleted'')
      then email_exists email
      else if contains e ''duplicate key'' \<and> contains e ''publishers_api_key_hash''
      then refused_json ''An internal error occurred while generating the API key. Please try again.''
      else STATUS 500)"

definition created_details :: "extlib \<Rightarrow> http_call \<Rightarrow> uuid \<Rightarrow> CreatePublisherRequest \<Rightarrow> string \<Rightarrow> timestamp \<Rightarrow> json" where
  "created_details X q i c request_id now = JObj
     [(''action'', JStr ''create''), (''target_type'', JStr ''Publisher''), (''target_id'', JStr (uuid_text X i)),
      (''target_name'', JStr (cp_name c)),
      caller_context q ''User created publisher via dashboard'' request_id ''POST'' ''/api/v1/dashboard/publishers'',
      COMPLIANCE, (''outcome'', JStr ''success''), (''timestamp'', JStr (utc_rfc3339 X now)),
      (''after'', JObj [(''name'', JStr (cp_name c)), (''email'', JStr (cp_email c)), (''status'', JStr ''active'')])]"

definition create_publisher ::
  "extlib \<Rightarrow> (string \<Rightarrow> string) \<Rightarrow> AppConfig \<Rightarrow> User \<Rightarrow> http_call \<Rightarrow> CreatePublisherRequest \<Rightarrow> (portal, json reply) io" where
  "create_publisher X sha256_hex cfg user q c =
     target_instance (cp_instance_id c) user (\<lambda>inst.
     io_bind (new_api_key X) (\<lambda>api_key.
     or_answer (STATUS 500) (encrypt_key X cfg api_key) (\<lambda>encrypted.
     or_answer (STATUS 500) (in_db (email_taken (cp_email c))) (\<lambda>taken.
     if taken then io_return (email_exists (cp_email c))
     else io_bind (in_world draw_uuid) (\<lambda>i.
       io_bind (io_try (in_db (insert_publisher (new_publisher i inst (sha256_hex api_key) encrypted c)))) (\<lambda>res.
       case res of
         Inl e \<Rightarrow> io_return (insert_failed (cp_email c) e)
       | Inr _ \<Rightarrow>
           io_bind (io_iter (\<lambda>v. io_bind (io_try (in_db (insert_vertical i v))) (\<lambda>_. io_return ()))
             (unwrap_or (cp_vertical_ids c) [])) (\<lambda>_.
           io_bind (log_change X q user ''publisher_created'' ''Publisher'' i (created_details X q i c)) (\<lambda>_.
           io_return (succeeded [(''publisher'', JObj [(''id'', JStr (uuid_text X i)), (''name'', JStr (cp_name c)),
               (''email'', JStr (cp_email c)), (''status'', JStr ''active''), (''api_key_prefix'', JStr ''pk_live_'')]),
             (''api_key'', JStr api_key),
             (''message'', JStr ''Publisher created successfully. Save your API key - it will not be shown again!'')])))))))))"

section \<open>Reading a publisher\<close>

definition publisher_by_id :: "uuid \<Rightarrow> (db, Publisher option) io" where
  "publisher_by_id i = db_query_optional (\<lambda>d. filter (\<lambda>p. p_id p = i) (publishers d))"

definition live_publisher :: "uuid \<Rightarrow> (db, Publisher option) io" where
  "live_publisher i = db_query_optional (\<lambda>d. filter (\<lambda>p. p_id p = i \<and> p_deleted_at p = None) (publishers d))"

text \<open>The derived serializer writes the name of the variant.\<close>

fun PublisherStatus_json :: "PublisherStatus \<Rightarrow> json" where
  "PublisherStatus_json PS_Active = JStr ''Active''"
| "PublisherStatus_json PS_Inactive = JStr ''Inactive''"
| "PublisherStatus_json PS_Suspended = JStr ''Suspended''"

definition publisher_json :: "extlib \<Rightarrow> Vertical list \<Rightarrow> Publisher \<Rightarrow> json" where
  "publisher_json X vs p = JObj
     [(''id'', JStr (uuid_text X (p_id p))), (''name'', JStr (p_name p)), (''email'', JStr (p_email p)),
      (''status'', PublisherStatus_json (p_status p)), (''api_key_prefix'', JStr (p_api_key_prefix p)),
      (''hmac_required'', JBool (p_hmac_required p)), (''hmac_secret_encrypted_prefix'', opt_json (p_hmac_secret_prefix p)),
      (''hmac_secret_encrypted_generated'', JBool (is_some (p_hmac_secret_hash p))),
      (''total_requests'', JInt (p_total_requests p)), (''last_request_at'', opt_time X (p_last_request_at p)),
      (''representative_first_name'', opt_json (p_representative_first_name p)),
      (''representative_last_name'', opt_json (p_representative_last_name p)),
      (''address_street'', opt_json (p_address_street p)), (''address_city'', opt_json (p_address_city p)),
      (''address_state'', opt_json (p_address_state p)), (''address_zip'', opt_json (p_address_zip p)),
      (''timezone'', opt_json (p_timezone p)), (''ein_tin'', opt_json (p_ein_tin p)),
      (''created_at'', JStr (utc_rfc3339 X (p_created_at p))), (''deleted_at'', opt_time X (p_deleted_at p)),
      (''verticals'', JArr (map (vertical_info X) vs))]"

definition get_publisher :: "extlib \<Rightarrow> uuid \<Rightarrow> (portal, json reply) io" where
  "get_publisher X i =
     or_answer (STATUS 500) (in_db (publisher_by_id i)) (\<lambda>found.
     some_or_answer (STATUS 404) found (\<lambda>p.
     io_bind (io_try (in_db (vertical_rows [i]))) (\<lambda>rows.
     io_return (succeeded [(''publisher'', publisher_json X (case rows of Inr r \<Rightarrow> map snd r | Inl _ \<Rightarrow> []) p)]))))"

section \<open>Changing a publisher\<close>

record UpdatePublisherRequest =
  up_name :: "string option"
  up_email :: "string option"
  up_status :: "string option"
  up_hmac_required :: "bool option"
  up_representative_first_name :: "string option"
  up_representative_last_name :: "string option"
  up_address_street :: "string option"
  up_address_city :: "string option"
  up_address_state :: "string option"
  up_address_zip :: "string option"
  up_timezone :: "string option"
  up_ein_tin :: "string option"

definition has_updates :: "UpdatePublisherRequest \<Rightarrow> bool" where
  "has_updates u \<longleftrightarrow> up_status u \<noteq> None \<or> up_hmac_required u \<noteq> None
     \<or> list_ex is_some [up_name u, up_email u, up_representative_first_name u, up_representative_last_name u,
          up_address_street u, up_address_city u, up_address_state u, up_address_zip u, up_timezone u, up_ein_tin u]"

definition set_publisher :: "UpdatePublisherRequest \<Rightarrow> timestamp \<Rightarrow> Publisher \<Rightarrow> Publisher" where
  "set_publisher u now p = p\<lparr>
     p_name := unwrap_or (up_name u) (p_name p), p_email := unwrap_or (up_email u) (p_email p),
     p_hmac_required := unwrap_or (up_hmac_required u) (p_hmac_required p),
     p_representative_first_name := opt_or (up_representative_first_name u) (p_representative_first_name p),
     p_representative_last_name := opt_or (up_representative_last_name u) (p_representative_last_name p),
     p_address_street := opt_or (up_address_street u) (p_address_street p),
     p_address_city := opt_or (up_address_city u) (p_address_city p),
     p_address_state := opt_or (up_address_state u) (p_address_state p),
     p_address_zip := opt_or (up_address_zip u) (p_address_zip p),
     p_timezone := opt_or (up_timezone u) (p_timezone p), p_ein_tin := opt_or (up_ein_tin u) (p_ein_tin p),
     p_updated_at := now\<rparr>"

definition ENUM_MISMATCH :: error where
  "ENUM_MISMATCH = ''column status is of type publisher_status_enum but expression is of type text''"

definition update_publisher_row :: "uuid \<Rightarrow> UpdatePublisherRequest \<Rightarrow> (db, unit) io" where
  "update_publisher_row i u = db_stmt (\<lambda>d.
     if is_some (up_status u) then (Inl ENUM_MISMATCH, d)
     else (Inr (), d\<lparr>publishers := update_rows (\<lambda>p. p_id p = i \<and> p_deleted_at p = None) (set_publisher u (db_now d)) (publishers d)\<rparr>))"

definition publisher_fields :: "Publisher \<Rightarrow> (string \<times> json) list" where
  "publisher_fields p =
     [(''name'', JStr (p_name p)), (''email'', JStr (p_email p)), (''status'', PublisherStatus_json (p_status p)),
      (''representative_first_name'', opt_json (p_representative_first_name p)),
      (''representative_last_name'', opt_json (p_representative_last_name p)),
      (''address_street'', opt_json (p_address_street p)), (''address_city'', opt_json (p_address_city p)),
      (''address_state'', opt_json (p_address_state p)), (''address_zip'', opt_json (p_address_zip p)),
      (''timezone'', opt_json (p_timezone p)), (''ein_tin'', opt_json (p_ein_tin p)),
      (''hmac_required'', JBool (p_hmac_required p))]"

definition changed_fields :: "(string \<times> json) list \<Rightarrow> (string \<times> json) list \<Rightarrow> (string \<times> json) list" where
  "changed_fields before_fields after_fields =
     concat (map (\<lambda>(k, b). case map_of after_fields k of
         Some a \<Rightarrow> if b \<noteq> a then [(k, JObj [(''before'', b), (''after'', a)])] else []
       | None \<Rightarrow> []) before_fields)"

definition updated_details ::
  "extlib \<Rightarrow> http_call \<Rightarrow> User \<Rightarrow> uuid \<Rightarrow> Publisher \<Rightarrow> Publisher \<Rightarrow> string \<Rightarrow> timestamp \<Rightarrow> json" where
  "updated_details X q user i old new request_id now = JObj
     [(''action'', JStr ''update''), (''target_type'', JStr ''Publisher''), (''target_id'', JStr (uuid_text X i)),
      (''target_name'', JStr (p_name new)),
      (''actor'', JObj [(''id'', JStr (uuid_text X (u_id user))), (''email'', JStr (u_email user))]),
      (''changes'', JObj (changed_fields (publisher_fields old) (publisher_fields new))),
      (''before'', JObj (publisher_fields old)), (''after'', JObj (publisher_fields new)),
      caller_context q ''User updated publisher via dashboard'' request_id ''POST'' (''/api/v1/dashboard/publishers/'' @ uuid_text X i),
      COMPLIANCE, (''outcome'', JStr ''success''), (''timestamp'', JStr (utc_rfc3339 X now))]"

definition update_publisher ::
  "extlib \<Rightarrow> User \<Rightarrow> http_call \<Rightarrow> uuid \<Rightarrow> UpdatePublisherRequest \<Rightarrow> (portal, json reply) io" where
  "update_publisher X user q i u =
     or_answer (STATUS 500) (in_db (live_publisher i)) (\<lambda>found.
     some_or_answer (STATUS 404) found (\<lambda>old.
     if \<not> has_updates u then io_return (STATUS 400)
     else or_answer (STATUS 500) (in_db (update_publisher_row i u)) (\<lambda>_.
       io_bind (io_try (in_db (live_publisher i))) (\<lambda>res.
       io_bind (case ok_some res of
           None \<Rightarrow> io_return ()
         | Some new \<Rightarrow> log_change X q user ''publisher_updated'' ''Publisher'' i (updated_details X q user i old new)) (\<lambda>_.
       io_return (succeeded [(''message'', JStr ''Publisher updated successfully'')]))))))"

definition soft_delete_publisher :: "uuid \<Rightarrow> (db, unit) io" where
  "soft_delete_publisher i = db_stmt (\<lambda>d.
     (Inr (), d\<lparr>publishers := update_rows (\<lambda>p. p_id p = i) (\<lambda>p. p\<lparr>p_deleted_at := Some (db_now d)\<rparr>) (publishers d)\<rparr>))"

definition deleted_details :: "extlib \<Rightarrow> http_call \<Rightarrow> uuid \<Rightarrow> Publisher \<Rightarrow> string \<Rightarrow> timestamp \<Rightarrow> json" where
  "deleted_details X q i p request_id now = JObj
     [(''action'', JStr ''delete''), (''target_type'', JStr ''Publisher''), (''target_id'', JStr (uuid_text X i)),
      (''target_name'', JStr (p_name p)),
      caller_context q ''User deleted publisher via dashboard'' request_id ''DELETE'' (''/api/v1/dashboard/publishers/'' @ uuid_text X i),
      COMPLIANCE, (''outcome'', JStr ''success''), (''timestamp'', JStr (utc_rfc3339 X now)),
      (''before'', JObj [(''name'', JStr (p_name p)), (''email'', JStr (p_email p))])]"

definition delete_publisher :: "extlib \<Rightarrow> User \<Rightarrow> http_call \<Rightarrow> uuid \<Rightarrow> (portal, json reply) io" where
  "delete_publisher X user q i =
     or_answer (STATUS 500) (in_db (live_publisher i)) (\<lambda>found.
     or_answer (STATUS 500) (in_db (soft_delete_publisher i)) (\<lambda>_.
     io_bind (case found of
         None \<Rightarrow> io_return ()
       | Some p \<Rightarrow> log_change X q user ''publisher_deleted'' ''Publisher'' i (deleted_details X q i p)) (\<lambda>_.
     io_return (succeeded [(''message'', JStr ''Publisher deleted successfully'')]))))"

section \<open>Keys and secrets\<close>

text \<open>The log of a new key or secret.\<close>

definition rotated_details ::
  "extlib \<Rightarrow> http_call \<Rightarrow> string \<Rightarrow> string \<Rightarrow> string \<Rightarrow> uuid \<Rightarrow> Publisher \<Rightarrow> string \<Rightarrow> timestamp \<Rightarrow> json" where
  "rotated_details X q action reason path i p request_id now = JObj
     [(''action'', JStr action), (''target_type'', JStr ''Publisher''), (''target_id'', JStr (uuid_text X i)),
      (''target_name'', JStr (p_name p)),
      caller_context q reason request_id ''POST'' (''/api/v1/dashboard/publishers/'' @ uuid_text X i @ path),
      COMPLIANCE, (''outcome'', JStr ''success''), (''timestamp'', JStr (utc_rfc3339 X now))]"

text \<open>The hash of a key is unique.\<close>

definition set_api_key :: "uuid \<Rightarrow> string \<Rightarrow> string \<Rightarrow> (db, unit) io" where
  "set_api_key i hash encrypted = db_stmt (\<lambda>d.
     if list_ex (\<lambda>p. p_id p \<noteq> i \<and> p_api_key_hash p = hash) (publishers d)
        \<and> list_ex (\<lambda>p. p_id p = i \<and> p_deleted_at p = None) (publishers d)
     then (Inl HASH_COLLISION, d)
     else (Inr (), d\<lparr>publishers := update_rows (\<lambda>p. p_id p = i \<and> p_deleted_at p = None)
       (\<lambda>p. p\<lparr>p_api_key_hash := hash, p_api_key_prefix := ''pk_live_'', p_api_key_encrypted := Some encrypted,
          p_updated_at := db_now d\<rparr>) (publishers d)\<rparr>))"

definition regenerate_publisher_api_key ::
  "extlib \<Rightarrow> (string \<Rightarrow> string) \<Rightarrow> AppConfig \<Rightarrow> User \<Rightarrow> http_call \<Rightarrow> uuid \<Rightarrow> (portal, json reply) io" where
  "regenerate_publisher_api_key X sha256_hex cfg user q i =
     or_answer (STATUS 500) (in_db (live_publisher i)) (\<lambda>found.
     some_or_answer (STATUS 404) found (\<lambda>p.
     io_bind (new_api_key X) (\<lambda>api_key.
     or_answer (STATUS 500) (encrypt_key X cfg api_key) (\<lambda>encrypted.
     or_answer (STATUS 500) (in_db (set_api_key i (sha256_hex api_key) encrypted)) (\<lambda>_.
     io_bind (log_change X q user ''publisher_api_key_rotated'' ''Publisher'' i
       (rotated_details X q ''api_key_rotated'' ''User regenerated API key via dashboard'' ''/regenerate-api-key'' i p)) (\<lambda>_.
     io_return (succeeded [(''api_key'', JStr api_key), (''message'', JStr ''API key regenerated successfully'')])))))))"

definition KEY_NOT_ENCRYPTED :: "json reply" where
  "KEY_NOT_ENCRYPTED = (200, Some (JObj [(''success'', JBool False),
     (''error'', JStr ''API key was not encrypted when created. Please regenerate the API key to enable encryption and retrieval.''),
     (''requires_regeneration'', JBool True)]))"

definition get_publisher_api_key :: "extlib \<Rightarrow> AppConfig \<Rightarrow> User \<Rightarrow> uuid \<Rightarrow> (portal, json reply) io" where
  "get_publisher_api_key X cfg user i =
     or_answer (STATUS 500) (in_db (live_publisher i)) (\<lambda>found.
     some_or_answer (STATUS 404) found (\<lambda>p.
     or_answer (STATUS 500) (in_db (is_user_admin (u_id user) (Some (p_instance_id p)))) (\<lambda>is_admin.
     if \<not> is_admin then io_return (STATUS 403)
     else case p_api_key_encrypted p of
         None \<Rightarrow> io_return KEY_NOT_ENCRYPTED
       | Some encrypted \<Rightarrow>
           if encrypted = [] then io_return KEY_NOT_ENCRYPTED
           else case result_bind (EncryptionService_new (cf_encryption_key cfg)) (\<lambda>key. decrypt X key encrypted) of
               Inl _ \<Rightarrow> io_return (STATUS 500)
             | Inr api_key \<Rightarrow> io_return (succeeded [(''api_key'', JStr api_key)]))))"

definition set_hmac_secret :: "uuid \<Rightarrow> string \<Rightarrow> string \<Rightarrow> (db, unit) io" where
  "set_hmac_secret i hash prefix0 = db_stmt (\<lambda>d. (Inr (), d\<lparr>publishers :=
     update_rows (\<lambda>p. p_id p = i \<and> p_deleted_at p = None)
       (\<lambda>p. p\<lparr>p_hmac_secret_hash := Some hash, p_hmac_secret_prefix := Some prefix0, p_updated_at := db_now d\<rparr>) (publishers d)\<rparr>))"

definition generate_publisher_hmac_secret_encrypted ::
  "extlib \<Rightarrow> (string \<Rightarrow> string) \<Rightarrow> User \<Rightarrow> http_call \<Rightarrow> uuid \<Rightarrow> (portal, json reply) io" where
  "generate_publisher_hmac_secret_encrypted X sha256_hex user q i =
     or_answer (STATUS 500) (in_db (live_publisher i)) (\<lambda>found.
     some_or_answer (STATUS 404) found (\<lambda>p.
     io_bind (io_bind (draw_bytes 64) (\<lambda>bytes. io_return (hex_encode X bytes))) (\<lambda>secret.
     or_answer (STATUS 500) (in_db (set_hmac_secret i (sha256_hex secret) (take 20 secret))) (\<lambda>_.
     io_bind (log_change X q user ''publisher_hmac_secret_generated'' ''Publisher'' i
       (rotated_details X q ''hmac_secret_generated'' ''User generated HMAC secret via dashboard''
          ''/generate-hmac-secret_encrypted'' i p)) (\<lambda>_.
     io_return (succeeded [(''hmac_secret_encrypted'', JStr secret),
       (''message'', JStr ''HMAC secret_encrypted generated successfully'')]))))))"

end
