(* ===== verification/DashboardCampaigns.thy ===== *)
theory DashboardCampaigns
  imports Dashboard
begin

text \<open>
  Model of the campaign part of \<open>crates/api/src/routes/dashboard.rs\<close>. The SET clause of
  an UPDATE that a handler puts together is a list of assignments and commas, which the database
  accepts when they alternate.
\<close>

section \<open>Statements put together\<close>

datatype 'r set_item = Assign "'r \<Rightarrow> 'r" | Comma

fun set_clause :: "'r set_item list \<Rightarrow> ('r \<Rightarrow> 'r) option" where
  "set_clause [Assign f] = Some f"
| "set_clause (Assign f # Comma # items) = map_option (\<lambda>g. g \<circ> f) (set_clause items)"
| "set_clause _ = None"

definition SYNTAX_ERROR :: error where "SYNTAX_ERROR = ''syntax error''"

section \<open>Campaigns\<close>

definition instance_campaigns :: "uuid \<Rightarrow> (db, Campaign list) io" where
  "instance_campaigns inst = db_query (\<lambda>d. sort_by (\<lambda>a b. cmp (c_created_at b) (c_created_at a))
     (filter (\<lambda>c. c_instance_id c = inst \<and> c_deleted_at c = None) (campaigns d)))"

definition tree_members :: "(db, uuid list) io" where
  "tree_members = db_query (\<lambda>d. remdups (map ptc_campaign_id (ping_tree_campaigns d)))"

definition campaign_json :: "extlib \<Rightarrow> bool \<Rightarrow> Campaign \<Rightarrow> json" where
  "campaign_json X member c = JObj
     [(''id'', JStr (uuid_text X (c_id c))), (''name'', opt_json (c_name c)), (''vertical'', JStr (c_vertical c)),
      (''campaign_token'', JStr (c_campaign_token c)), (''status'', JStr (CampaignStatus_as_str (c_status c))),
      (''publisher_id'', JStr (uuid_text X (c_publisher_id c))), (''buyer_id'', JStr (uuid_text X (c_buyer_id c))),
      (''created_at'', JStr (utc_rfc3339 X (c_created_at c))), (''deleted_at'', opt_time X (c_deleted_at c)),
      (''in_ping_tree'', JBool member)]"

definition list_campaigns :: "extlib \<Rightarrow> User \<Rightarrow> (portal, json reply) io" where
  "list_campaigns X user =
     with_instance user (\<lambda>inst.
     or_answer (STATUS 500) (in_db (instance_campaigns inst)) (\<lambda>cs.
     io_bind (if cs = [] then io_return (Inr []) else io_try (in_db tree_members)) (\<lambda>members.
     let ids = (case members of Inr xs \<Rightarrow> xs | Inl _ \<Rightarrow> []) in
     io_return (succeeded [(''campaigns'', JArr (map (\<lambda>c. campaign_json X (c_id c \<in> set ids) c) cs))]))))"

record CreateCampaignRequest =
  cc_name :: "string option"
  cc_vertical :: string
  cc_publisher_id :: uuid
  cc_buyer_id :: uuid
  cc_instance_id :: "uuid option"
  cc_ping_tree_id :: "uuid option"

definition insert_campaign :: "Campaign \<Rightarrow> (db, unit) io" where
  "insert_campaign c = db_stmt (\<lambda>d.
     if list_ex (\<lambda>r. c_id r = c_id c \<or> c_campaign_token r = c_campaign_token c) (campaigns d) then (Inl UNIQUE_VIOLATION, d)
     else (Inr (), d\<lparr>campaigns := campaigns d @ [c\<lparr>c_created_at := db_now d, c_updated_at := db_now d\<rparr>]\<rparr>))"

definition tree_member_exists :: "db \<Rightarrow> uuid \<Rightarrow> uuid \<Rightarrow> bool" where
  "tree_member_exists d tree campaign =
     list_ex (\<lambda>m. ptc_ping_tree_id m = tree \<and> ptc_campaign_id m = campaign) (ping_tree_campaigns d)"

text \<open>The insertion of a member of a tree; \<open>conflict\<close> is what happens to the one that is there.\<close>

definition insert_tree_member ::
  "uuid \<Rightarrow> uuid \<Rightarrow> i32 option \<Rightarrow> (timestamp \<Rightarrow> PingTreeCampaign \<Rightarrow> PingTreeCampaign) \<Rightarrow> (db, unit) io" where
  "insert_tree_member tree campaign priority conflict = db_stmt (\<lambda>d.
     if tree_member_exists d tree campaign
     then (Inr (), d\<lparr>ping_tree_campaigns := update_rows (\<lambda>m. ptc_ping_tree_id m = tree \<and> ptc_campaign_id m = campaign)
       (conflict (db_now d)) (ping_tree_campaigns d)\<rparr>)
     else if tree \<notin> pt_id ` set (ping_trees d) \<or> campaign \<notin> c_id ` set (campaigns d)
     then (Inl ''insert or update on table ping_tree_campaigns violates foreign key constraint'', d)
     else (Inr (), d\<lparr>ping_tree_campaigns := ping_tree_campaigns d @ [\<lparr> ptc_id = of_int (db_next_id d),
        ptc_ping_tree_id = tree, ptc_campaign_id = campaign, ptc_priority = priority, ptc_min_price = None,
        ptc_max_price = None, ptc_enabled = True, ptc_created_at = db_now d, ptc_updated_at = db_now d \<rparr>],
        db_next_id := db_next_id d + 1\<rparr>))"

definition new_campaign :: "uuid \<Rightarrow> uuid \<Rightarrow> string \<Rightarrow> CreateCampaignRequest \<Rightarrow> Campaign" where
  "new_campaign i inst token c = \<lparr> c_id = i, c_buyer_id = cc_buyer_id c, c_publisher_id = cc_publisher_id c,
     c_instance_id = inst, c_name = cc_name c, c_vertical = cc_vertical c, c_campaign_token = token, c_status = CS_Active,
     c_is_documentation_test = False, c_deleted_at = None, c_created_at = 0, c_updated_at = 0 \<rparr>"

definition create_campaign :: "extlib \<Rightarrow> User \<Rightarrow> CreateCampaignRequest \<Rightarrow> (portal, json reply) io" where
  "create_campaign X user c =
     target_instance (cc_instance_id c) user (\<lambda>inst.
     io_bind (draw_bytes 20) (\<lambda>bytes.
     let token = hex_encode X bytes in
     io_bind (in_world draw_uuid) (\<lambda>i.
     or_answer (STATUS 500) (in_db (insert_campaign (new_campaign i inst token c))) (\<lambda>_.
     or_answer (STATUS 500) (case cc_ping_tree_id c of
         None \<Rightarrow> io_return ()
       | Some tree \<Rightarrow> in_db (insert_tree_member tree i (Some 1) (\<lambda>_ m. m))) (\<lambda>_.
     io_return (succeeded [(''campaign'', JObj [(''id'', JStr (uuid_text X i)), (''name'', opt_json (cc_name c)),
         (''vertical'', JStr (cc_vertical c)), (''campaign_token'', JStr token), (''status'', JStr ''active''),
         (''publisher_id'', JStr (uuid_text X (cc_publisher_id c))), (''buyer_id'', JStr (uuid_text X (cc_buyer_id c)))]),
       (''message'', JStr ''Campaign created successfully'')]))))))"

definition own_campaign :: "uuid \<Rightarrow> uuid \<Rightarrow> (db, Campaign option) io" where
  "own_campaign i inst = db_query_optional (\<lambda>d.
     filter (\<lambda>c. c_id c = i \<and> c_instance_id c = inst \<and> c_deleted_at c = None) (campaigns d))"

definition live_campaign :: "uuid \<Rightarrow> (db, Campaign option) io" where
  "live_campaign i = db_query_optional (\<lambda>d. filter (\<lambda>c. c_id c = i \<and> c_deleted_at c = None) (campaigns d))"

text \<open>Whether a campaign is in a tree; an error counts as no.\<close>

definition in_ping_tree :: "uuid \<Rightarrow> (portal, bool) io" where
  "in_ping_tree i =
     io_bind (io_try (in_db (db_query (\<lambda>d. list_ex (\<lambda>m. ptc_campaign_id m = i) (ping_tree_campaigns d))))) (\<lambda>res.
     io_return (res = Inr True))"

definition get_campaign :: "extlib \<Rightarrow> User \<Rightarrow> uuid \<Rightarrow> (portal, json reply) io" where
  "get_campaign X user i =
     with_instance user (\<lambda>inst.
     or_answer (STATUS 500) (in_db (own_campaign i inst)) (\<lambda>found.
     some_or_answer (STATUS 404) found (\<lambda>c.
     io_bind (in_ping_tree i) (\<lambda>member.
     io_return (succeeded [(''campaign'', JObj
       [(''id'', JStr (uuid_text X (c_id c))), (''name'', opt_json (c_name c)), (''vertical'', JStr (c_vertical c)),
        (''campaign_token'', JStr (c_campaign_token c)), (''status'', JStr (CampaignStatus_as_str (c_status c))),
        (''publisher_id'', JStr (uuid_text X (c_publisher_id c))), (''buyer_id'', JStr (uuid_text X (c_buyer_id c))),
        (''created_at'', JStr (utc_rfc3339 X (c_created_at c))), (''in_ping_tree'', JBool member)])])))))"

text \<open>A change that the request asks for: what to log of it, when it is one, and its assignment.\<close>

type_synonym 'r change = "(string \<times> json) list \<times> 'r set_item list"

definition changed :: "string \<Rightarrow> json \<Rightarrow> json \<Rightarrow> (string \<times> json) list" where
  "changed k old new = [(k, JObj [(''before'', old), (''after'', new)])]"

definition name_change :: "Campaign \<Rightarrow> json \<Rightarrow> Campaign change" where
  "name_change c payload =
     (case Option.bind (json_get payload ''name'') as_str of
        None \<Rightarrow> ([], [])
      | Some n \<Rightarrow> (if unwrap_or (c_name c) [] \<noteq> n then changed ''name'' (opt_json (c_name c)) (JStr n) else [],
          [Assign (\<lambda>r. r\<lparr>c_name := Some n\<rparr>), Comma]))"

definition id_change ::
  "extlib \<Rightarrow> (string \<Rightarrow> uuid option) \<Rightarrow> string \<Rightarrow> uuid \<Rightarrow> (uuid \<Rightarrow> Campaign \<Rightarrow> Campaign) \<Rightarrow> json \<Rightarrow> Campaign change" where
  "id_change X parse key old assign payload =
     (case Option.bind (Option.bind (json_get payload key) as_str) parse of
        None \<Rightarrow> ([], [])
      | Some i \<Rightarrow> (if old \<noteq> i then changed key (JStr (uuid_text X old)) (JStr (uuid_text X i)) else [],
          [Assign (assign i), Comma]))"

fun requested_status :: "string \<Rightarrow> bool \<Rightarrow> CampaignStatus option" where
  "requested_status s member =
     (if s = ''active'' then Some (if member then CS_Active else CS_Inactive)
      else if s = ''paused'' then Some CS_Paused
      else if s = ''inactive'' then Some CS_Inactive
      else None)"

definition status_change :: "Campaign \<Rightarrow> CampaignStatus \<Rightarrow> Campaign change" where
  "status_change c st =
     (if c_status c \<noteq> st
      then (changed ''status'' (JStr (CampaignStatus_as_str (c_status c))) (JStr (CampaignStatus_as_str st)),
            [Assign (\<lambda>r. r\<lparr>c_status := st\<rparr>), Comma])
      else ([], []))"

definition update_campaign_row :: "uuid \<Rightarrow> Campaign set_item list \<Rightarrow> (db, unit) io" where
  "update_campaign_row i items = db_stmt (\<lambda>d.
     case set_clause (items @ [Assign (\<lambda>c. c\<lparr>c_updated_at := db_now d\<rparr>)]) of
       None \<Rightarrow> (Inl SYNTAX_ERROR, d)
     | Some f \<Rightarrow> (Inr (), d\<lparr>campaigns := update_rows (\<lambda>c. c_id c = i \<and> c_deleted_at c = None) f (campaigns d)\<rparr>))"

definition campaign_full :: "extlib \<Rightarrow> Campaign \<Rightarrow> json" where
  "campaign_full X c = JObj
     [(''id'', JStr (uuid_text X (c_id c))), (''name'', opt_json (c_name c)), (''vertical'', JStr (c_vertical c)),
      (''campaign_token'', JStr (c_campaign_token c)), (''status'', JStr (CampaignStatus_as_str (c_status c))),
      (''publisher_id'', JStr (uuid_text X (c_publisher_id c))), (''buyer_id'', JStr (uuid_text X (c_buyer_id c))),
      (''instance_id'', JStr (uuid_text X (c_instance_id c)))]"

definition campaign_action :: "(string \<times> json) list \<Rightarrow> string" where
  "campaign_action changes =
     (if map fst changes = [''name''] then ''campaign_name_changed''
      else if map fst changes = [''publisher_id''] then ''campaign_publisher_changed''
      else if map fst changes = [''buyer_id''] then ''campaign_buyer_changed''
      else ''campaign_updated'')"

text \<open>The context of the changes below does not name the caller.\<close>

definition plain_context :: "string \<Rightarrow> string \<Rightarrow> string \<Rightarrow> string \<times> json" where
  "plain_context reason verb endpoint = (''context'', JObj
     [(''reason'', JStr reason), (''method'', JStr verb), (''endpoint'', JStr endpoint), (''source'', JStr ''dashboard_web_ui'')])"

definition log_anonymous :: "uuid \<Rightarrow> string \<Rightarrow> string \<Rightarrow> uuid \<Rightarrow> (timestamp \<Rightarrow> json) \<Rightarrow> json \<Rightarrow> (portal, unit) io" where
  "log_anonymous inst action resource i details affected =
     io_bind (in_world current_time) (\<lambda>now.
     io_bind (io_try (in_db (create_audit_log (Some inst) None action (Some resource) (Some i) (details now) affected None None)))
       (\<lambda>_. io_return ()))"

definition change_details ::
  "extlib \<Rightarrow> string \<Rightarrow> string \<Rightarrow> string \<Rightarrow> uuid \<Rightarrow> (string \<times> json) list \<Rightarrow> json \<Rightarrow> json option \<Rightarrow> string \<Rightarrow> timestamp \<Rightarrow> json" where
  "change_details X resource reason path i changes old new name now = JObj
     [(''action'', JStr ''update''), (''target_type'', JStr resource), (''target_id'', JStr (uuid_text X i)),
      (''target_name'', JStr name), (''changes'', JObj changes), (''before'', old), (''after'', unwrap_or new JNull),
      plain_context reason ''POST'' (path @ uuid_text X i), (''outcome'', JStr ''success''),
      (''timestamp'', JStr (utc_rfc3339 X now)), COMPLIANCE]"

definition apply_campaign_changes ::
  "extlib \<Rightarrow> uuid \<Rightarrow> Campaign \<Rightarrow> Campaign change \<Rightarrow> (portal, json reply) io" where
  "apply_campaign_changes X i old chg =
     (if snd chg = [] then io_return (succeeded [(''message'', JStr ''No changes to update'')])
      else or_answer (STATUS 500) (in_db (update_campaign_row i (snd chg))) (\<lambda>_.
        io_bind (io_try (in_db (live_campaign i))) (\<lambda>res.
        let new = ok_some res in
        io_bind (log_anonymous (c_instance_id old) (campaign_action (fst chg)) ''Campaign'' i
          (change_details X ''Campaign'' ''User updated campaign via dashboard'' ''/api/v1/dashboard/campaigns/'' i (fst chg)
             (campaign_full X old) (map_option (campaign_full X) new) (unwrap_or (Option.bind new c_name) [])) (JObj [])) (\<lambda>_.
        io_return (succeeded [(''message'', JStr ''Campaign updated successfully'')])))))"

definition update_campaign :: "extlib \<Rightarrow> (string \<Rightarrow> uuid option) \<Rightarrow> uuid \<Rightarrow> json \<Rightarrow> (portal, json reply) io" where
  "update_campaign X parse i payload =
     or_answer (STATUS 500) (in_db (live_campaign i)) (\<lambda>found.
     some_or_answer (STATUS 404) found (\<lambda>c.
     let chs = [name_change c payload,
          id_change X parse ''publisher_id'' (c_publisher_id c) (\<lambda>p r. r\<lparr>c_publisher_id := p\<rparr>) payload,
          id_change X parse ''buyer_id'' (c_buyer_id c) (\<lambda>b r. r\<lparr>c_buyer_id := b\<rparr>) payload];
         base = (concat (map fst chs), concat (map snd chs)) in
     case Option.bind (json_get payload ''status'') as_str of
       None \<Rightarrow> apply_campaign_changes X i c base
     | Some s \<Rightarrow>
         io_bind (in_ping_tree i) (\<lambda>member.
         case requested_status s member of
           None \<Rightarrow> io_return (refused_json (''Invalid status value: '' @ s @ ''. Must be one of: active, paused, inactive''))
         | Some st \<Rightarrow> apply_campaign_changes X i c
             (fst base @ fst (status_change c st), snd base @ snd (status_change c st)))))"

definition delete_campaign :: "uuid \<Rightarrow> (portal, json reply) io" where
  "delete_campaign i =
     or_answer (STATUS 500) (in_db (db_stmt (\<lambda>d. (Inr (), d\<lparr>campaigns :=
         update_rows (\<lambda>c. c_id c = i) (\<lambda>c. c\<lparr>c_deleted_at := Some (db_now d)\<rparr>) (campaigns d)\<rparr>)))) (\<lambda>_.
     io_return (succeeded [(''message'', JStr ''Campaign deleted successfully'')]))"

end
