(* ===== verification/DashboardTrees.thy ===== *)
theory DashboardTrees
  imports DashboardCampaigns
begin

text \<open>
  Model of the ping tree part of \<open>crates/api/src/routes/dashboard.rs\<close>: the trees, the campaigns and
  the publishers in them, and the list of verticals. The conversions between floating point numbers
  and decimals of the crate \<open>rust_decimal\<close>, by way of their texts, and the text form of a decimal are
  parameters.
\<close>

section \<open>Numbers\<close>

record declib =
  dl_of_f64 :: "f64 \<Rightarrow> decimal option"
  dl_to_f64 :: "decimal \<Rightarrow> f64 option"
  dl_text :: "decimal \<Rightarrow> string"

fun as_i64 :: "json \<Rightarrow> int option" where
  "as_i64 (JInt v) = (if - (2 ^ 63) \<le> v \<and> v < 2 ^ 63 then Some v else None)"
| "as_i64 _ = None"

definition wrap_i32 :: "int \<Rightarrow> i32" where
  "wrap_i32 v = (v + 2 ^ 31) mod 2 ^ 32 - 2 ^ 31"

definition opt_int_json :: "int option \<Rightarrow> json" where
  "opt_int_json v = (case v of Some n \<Rightarrow> JInt n | None \<Rightarrow> JNull)"

definition decimal_json :: "declib \<Rightarrow> decimal option \<Rightarrow> json" where
  "decimal_json D v = opt_f64_json (map_option (\<lambda>d. unwrap_or (dl_to_f64 D d) (Fin 0)) v)"

section \<open>Ping trees\<close>

definition instance_trees :: "uuid \<Rightarrow> (db, PingTree list) io" where
  "instance_trees inst = db_query (\<lambda>d. sort_by (\<lambda>a b. cmp (pt_created_at b) (pt_created_at a))
     (filter (\<lambda>t. pt_instance_id t = inst \<and> pt_deleted_at t = None) (ping_trees d)))"

text \<open>The number of publishers of a tree; an error counts as none.\<close>

definition publisher_count :: "uuid \<Rightarrow> (portal, int) io" where
  "publisher_count tree =
     io_bind (io_try (in_db (db_query (\<lambda>d. int (length (filter (\<lambda>a. ptp_ping_tree_id a = tree) (ping_tree_publishers d)))))))
       (\<lambda>res. io_return (case res of Inr n \<Rightarrow> n | Inl _ \<Rightarrow> 0))"

definition tree_json :: "extlib \<Rightarrow> PingTree \<Rightarrow> int \<Rightarrow> json" where
  "tree_json X t n = JObj
     [(''id'', JStr (uuid_text X (pt_id t))), (''name'', JStr (pt_name t)), (''vertical'', JStr (pt_vertical t)),
      (''strategy'', JStr (pt_strategy t)), (''status'', JStr (pt_status t)), (''publisher_count'', JInt n),
      (''priority'', opt_int_json (pt_priority t)), (''created_at'', JStr (utc_rfc3339 X (pt_created_at t))),
      (''deleted_at'', opt_time X (pt_deleted_at t))]"

definition list_ping_trees :: "extlib \<Rightarrow> User \<Rightarrow> (portal, json reply) io" where
  "list_ping_trees X user =
     with_instance user (\<lambda>inst.
     or_answer (STATUS 500) (in_db (instance_trees inst)) (\<lambda>ts.
     io_bind (io_mapM (\<lambda>t. io_bind (publisher_count (pt_id t)) (\<lambda>n. io_return (tree_json X t n))) ts) (\<lambda>response.
     io_return (succeeded [(''ping_trees'', JArr response)]))))"

record CreatePingTreeRequest =
  ct_name :: string
  ct_vertical :: string
  ct_strategy :: string
  ct_instance_id :: "uuid option"
  ct_priority :: "i32 option"

text \<open>The name of a tree is unique in its instance and vertical, also among the deleted ones.\<close>

definition tree_name :: "PingTree \<Rightarrow> uuid \<times> string \<times> string" where
  "tree_name t = (pt_instance_id t, pt_vertical t, pt_name t)"

definition insert_tree :: "PingTree \<Rightarrow> (db, unit) io" where
  "insert_tree t = db_stmt (\<lambda>d.
     if list_ex (\<lambda>r. pt_id r = pt_id t \<or> tree_name r = tree_name t) (ping_trees d) then (Inl UNIQUE_VIOLATION, d)
     else if pt_instance_id t \<notin> ins_id ` set (instances d)
     then (Inl ''insert or update on table ping_trees violates foreign key constraint fk_ping_trees_instance'', d)
     else (Inr (), d\<lparr>ping_trees := ping_trees d @ [t\<lparr>pt_created_at := db_now d, pt_updated_at := db_now d\<rparr>]\<rparr>))"

definition new_tree :: "uuid \<Rightarrow> uuid \<Rightarrow> CreatePingTreeRequest \<Rightarrow> PingTree" where
  "new_tree i inst c = \<lparr> pt_id = i, pt_instance_id = inst, pt_name = ct_name c, pt_vertical = ct_vertical c,
     pt_strategy = ct_strategy c, pt_status = ''active'', pt_priority = ct_priority c, pt_deleted_at = None,
     pt_created_at = 0, pt_updated_at = 0 \<rparr>"

definition create_ping_tree :: "extlib \<Rightarrow> User \<Rightarrow> CreatePingTreeRequest \<Rightarrow> (portal, json reply) io" where
  "create_ping_tree X user c =
     (if ct_strategy c \<noteq> ''ping_post'' \<and> ct_strategy c \<noteq> ''fullpost'' then io_return (STATUS 400)
      else target_instance (ct_instance_id c) user (\<lambda>inst.
        io_bind (in_world draw_uuid) (\<lambda>i.
        or_answer (STATUS 500) (in_db (insert_tree (new_tree i inst c))) (\<lambda>_.
        io_return (succeeded [(''ping_tree'', JObj [(''id'', JStr (uuid_text X i)), (''name'', JStr (ct_name c)),
            (''vertical'', JStr (ct_vertical c)), (''strategy'', JStr (ct_strategy c)), (''status'', JStr ''active''),
            (''priority'', opt_int_json (ct_priority c))]),
          (''message'', JStr ''Ping tree created successfully'')])))))"

definition own_tree :: "uuid \<Rightarrow> uuid \<Rightarrow> (db, PingTree option) io" where
  "own_tree i inst = db_query_optional (\<lambda>d.
     filter (\<lambda>t. pt_id t = i \<and> pt_instance_id t = inst \<and> pt_deleted_at t = None) (ping_trees d))"

definition members_of_tree :: "uuid \<Rightarrow> (db, PingTreeCampaign list) io" where
  "members_of_tree i = db_query (\<lambda>d. sort_key (\<lambda>m. nulls_last (ptc_priority m))
     (filter (\<lambda>m. ptc_ping_tree_id m = i) (ping_tree_campaigns d)))"

definition get_ping_tree :: "extlib \<Rightarrow> declib \<Rightarrow> User \<Rightarrow> uuid \<Rightarrow> (portal, json reply) io" where
  "get_ping_tree X D user i =
     with_instance user (\<lambda>inst.
     or_answer (STATUS 500) (in_db (own_tree i inst)) (\<lambda>found.
     some_or_answer (STATUS 404) found (\<lambda>t.
     or_answer (STATUS 500) (in_db (members_of_tree i)) (\<lambda>ms.
     or_answer (STATUS 500) (in_db (PingTreePublisher_find_by_ping_tree i)) (\<lambda>ps.
     io_return (succeeded
       [(''ping_tree'', JObj [(''id'', JStr (uuid_text X (pt_id t))), (''name'', JStr (pt_name t)),
          (''vertical'', JStr (pt_vertical t)), (''strategy'', JStr (pt_strategy t)), (''status'', JStr (pt_status t)),
          (''priority'', opt_int_json (pt_priority t)), (''created_at'', JStr (utc_rfc3339 X (pt_created_at t)))]),
        (''publishers'', JArr (map (\<lambda>p. JObj [(''id'', JStr (uuid_text X (ptp_id p))),
          (''publisher_id'', JStr (uuid_text X (ptp_publisher_id p))),
          (''revshare_percentage'', decimal_json D (ptp_revshare_percentage p)),
          (''revshare_flat_amount'', decimal_json D (ptp_revshare_flat_amount p))]) ps)),
        (''campaigns'', JArr (map (\<lambda>m. JObj [(''id'', JStr (uuid_text X (ptc_id m))),
          (''campaign_id'', JStr (uuid_text X (ptc_campaign_id m))), (''priority'', opt_int_json (ptc_priority m)),
          (''enabled'', JBool (ptc_enabled m))]) ms))]))))))"

section \<open>Changing a ping tree\<close>

definition tree_name_change :: "PingTree \<Rightarrow> json \<Rightarrow> PingTree change" where
  "tree_name_change t payload =
     (case Option.bind (json_get payload ''name'') as_str of
        None \<Rightarrow> ([], [])
      | Some n \<Rightarrow> (if pt_name t \<noteq> n then changed ''name'' (JStr (pt_name t)) (JStr n) else [],
          [Assign (\<lambda>r. r\<lparr>pt_name := n\<rparr>), Comma]))"

definition tree_priority_change :: "PingTree \<Rightarrow> json \<Rightarrow> PingTree change" where
  "tree_priority_change t payload =
     (case Option.bind (json_get payload ''priority'') as_i64 of
        None \<Rightarrow> ([], [])
      | Some v \<Rightarrow>
          let priority = wrap_i32 v in
          (if pt_priority t \<noteq> Some priority then changed ''priority'' (opt_int_json (pt_priority t)) (JInt priority) else [],
           [Assign (\<lambda>r. r\<lparr>pt_priority := Some priority\<rparr>), Comma]))"

text \<open>The comma is put before the assignment of the status, not after it.\<close>

definition tree_status_change :: "PingTree \<Rightarrow> json \<Rightarrow> bool \<Rightarrow> PingTree change" where
  "tree_status_change t payload updates =
     (case Option.bind (json_get payload ''status'') as_str of
        None \<Rightarrow> ([], [])
      | Some s \<Rightarrow> (if pt_status t \<noteq> s then changed ''status'' (JStr (pt_status t)) (JStr s) else [],
          (if updates then [Comma] else []) @ [Assign (\<lambda>r. r\<lparr>pt_status := s\<rparr>)]))"

definition tree_changes :: "PingTree \<Rightarrow> json \<Rightarrow> PingTree change" where
  "tree_changes t payload =
     (let n = tree_name_change t payload; p = tree_priority_change t payload;
          s = tree_status_change t payload (snd n @ snd p \<noteq> []) in
      (fst n @ fst p @ fst s, snd n @ snd p @ snd s))"

text \<open>A row that takes the name of another one is refused.\<close>

definition update_tree_row :: "uuid \<Rightarrow> PingTree set_item list \<Rightarrow> (db, unit) io" where
  "update_tree_row i items = db_stmt (\<lambda>d.
     case set_clause (items @ [Assign (\<lambda>t. t\<lparr>pt_updated_at := db_now d\<rparr>)]) of
       None \<Rightarrow> (Inl SYNTAX_ERROR, d)
     | Some f \<Rightarrow>
         if list_ex (\<lambda>t. pt_id t = i \<and> pt_deleted_at t = None \<and>
              list_ex (\<lambda>r. pt_id r \<noteq> i \<and> tree_name r = tree_name (f t)) (ping_trees d)) (ping_trees d)
         then (Inl UNIQUE_VIOLATION, d)
         else (Inr (), d\<lparr>ping_trees := update_rows (\<lambda>t. pt_id t = i \<and> pt_deleted_at t = None) f (ping_trees d)\<rparr>))"

definition tree_full :: "extlib \<Rightarrow> PingTree \<Rightarrow> json" where
  "tree_full X t = JObj
     [(''id'', JStr (uuid_text X (pt_id t))), (''name'', JStr (pt_name t)), (''vertical'', JStr (pt_vertical t)),
      (''strategy'', JStr (pt_strategy t)), (''status'', JStr (pt_status t)), (''priority'', opt_int_json (pt_priority t)),
      (''instance_id'', JStr (uuid_text X (pt_instance_id t)))]"

definition update_ping_tree :: "extlib \<Rightarrow> uuid \<Rightarrow> json \<Rightarrow> (portal, json reply) io" where
  "update_ping_tree X i payload =
     or_answer (STATUS 500) (in_db (PingTree_find_by_id i)) (\<lambda>found.
     some_or_answer (STATUS 404) found (\<lambda>old.
     let chg = tree_changes old payload in
     if snd chg = [] then io_return (succeeded [(''message'', JStr ''No changes to update'')])
     else or_answer (STATUS 500) (in_db (update_tree_row i (snd chg))) (\<lambda>_.
       io_bind (io_try (in_db (PingTree_find_by_id i))) (\<lambda>res.
       let new = ok_some res in
       io_bind (log_anonymous (pt_instance_id old) ''ping_tree_updated'' ''PingTree'' i
         (change_details X ''PingTree'' ''User updated ping tree via dashboard'' ''/api/v1/dashboard/ping_trees/'' i (fst chg)
            (tree_full X old) (map_option (tree_full X) new) (unwrap_or (map_option pt_name new) [])) (JObj [])) (\<lambda>_.
       io_return (succeeded [(''message'', JStr ''Ping tree updated successfully'')]))))))"

definition affected_campaigns :: "extlib \<Rightarrow> uuid \<Rightarrow> db \<Rightarrow> json list" where
  "affected_campaigns X tree d =
     map (\<lambda>(c, _). JObj [(''id'', JStr (uuid_text X (c_id c))), (''name'', JStr (unwrap_or (c_name c) [])),
          (''campaign_token'', JStr (c_campaign_token c))])
       (filter (\<lambda>(c, m). c_id c = ptc_campaign_id m \<and> ptc_ping_tree_id m = tree)
         (List.product (campaigns d) (ping_tree_campaigns d)))"

definition delete_ping_tree :: "extlib \<Rightarrow> uuid \<Rightarrow> (portal, json reply) io" where
  "delete_ping_tree X i =
     or_answer (STATUS 500) (in_db (PingTree_find_by_id i)) (\<lambda>found.
     some_or_answer (STATUS 404) found (\<lambda>t.
     io_bind (io_try (in_db (db_query (affected_campaigns X i)))) (\<lambda>res.
     or_answer (STATUS 500) (in_db (db_stmt (\<lambda>d. (Inr (), d\<lparr>ping_trees :=
         update_rows (\<lambda>t. pt_id t = i) (\<lambda>t. t\<lparr>pt_deleted_at := Some (db_now d)\<rparr>) (ping_trees d)\<rparr>)))) (\<lambda>_.
     io_bind (log_anonymous (pt_instance_id t) ''ping_tree_deleted'' ''PingTree'' i
       (\<lambda>_. JObj [(''ping_tree_name'', JStr (pt_name t)), (''ping_tree_vertical'', JStr (pt_vertical t)),
              (''ping_tree_strategy'', JStr (pt_strategy t))])
       (JObj [(''campaigns'', JArr (case res of Inr cs \<Rightarrow> cs | Inl _ \<Rightarrow> []))])) (\<lambda>_.
     io_return (succeeded [(''message'', JStr ''Ping tree deleted successfully'')]))))))"

section \<open>Campaigns in a ping tree\<close>

record AddCampaignToPingTreeRequest =
  ac_campaign_id :: uuid
  ac_priority :: "i32 option"

definition member_details ::
  "extlib \<Rightarrow> string \<Rightarrow> PingTree \<Rightarrow> uuid \<Rightarrow> uuid \<Rightarrow> Campaign option \<Rightarrow> (string \<times> json) list \<Rightarrow> string \<times> json \<Rightarrow> timestamp \<Rightarrow> json" where
  "member_details X action t tree campaign c extra context now = JObj
     ([(''action'', JStr action), (''target_type'', JStr ''PingTree''), (''target_id'', JStr (uuid_text X tree)),
       (''target_name'', JStr (pt_name t)), (''campaign_id'', JStr (uuid_text X campaign)),
       (''campaign_name'', opt_json (Option.bind c c_name))] @ extra @
      [context, (''outcome'', JStr ''success''), (''timestamp'', JStr (utc_rfc3339 X now)), COMPLIANCE])"

definition member_affected :: "extlib \<Rightarrow> Campaign option \<Rightarrow> json" where
  "member_affected X c = JObj [(''campaign'', case c of
       None \<Rightarrow> JNull
     | Some c' \<Rightarrow> JObj [(''id'', JStr (uuid_text X (c_id c'))), (''name'', opt_json (c_name c')),
         (''campaign_token'', JStr (c_campaign_token c'))])]"

definition add_campaign_to_ping_tree ::
  "extlib \<Rightarrow> uuid \<Rightarrow> AddCampaignToPingTreeRequest \<Rightarrow> (portal, json reply) io" where
  "add_campaign_to_ping_tree X tree r =
     or_answer (STATUS 500) (in_db (PingTree_find_by_id tree)) (\<lambda>found.
     some_or_answer (STATUS 404) found (\<lambda>t.
     io_bind (io_try (in_db (live_campaign (ac_campaign_id r)))) (\<lambda>res.
     or_answer (STATUS 500) (in_db (insert_tree_member tree (ac_campaign_id r) (ac_priority r)
         (\<lambda>now m. m\<lparr>ptc_priority := ac_priority r, ptc_enabled := True, ptc_updated_at := now\<rparr>))) (\<lambda>_.
     io_bind (log_anonymous (pt_instance_id t) ''ping_tree_campaign_added'' ''PingTree'' tree
       (member_details X ''add_campaign'' t tree (ac_campaign_id r) (ok_some res) [(''priority'', opt_int_json (ac_priority r))]
          (plain_context ''User added campaign to ping tree via dashboard'' ''POST''
             (''/api/v1/dashboard/ping_trees/'' @ uuid_text X tree @ ''/campaigns'')))
       (member_affected X (ok_some res))) (\<lambda>_.
     io_return (succeeded [(''message'', JStr ''Campaign added to ping tree successfully'')]))))))"

definition delete_tree_member :: "uuid \<Rightarrow> uuid \<Rightarrow> (db, unit) io" where
  "delete_tree_member tree campaign = db_stmt (\<lambda>d. (Inr (), d\<lparr>ping_tree_campaigns :=
     filter (\<lambda>m. \<not> (ptc_ping_tree_id m = tree \<and> ptc_campaign_id m = campaign)) (ping_tree_campaigns d)\<rparr>))"

definition in_other_tree :: "uuid \<Rightarrow> uuid \<Rightarrow> (db, bool) io" where
  "in_other_tree tree campaign =
     db_query (\<lambda>d. list_ex (\<lambda>m. ptc_campaign_id m = campaign \<and> ptc_ping_tree_id m \<noteq> tree) (ping_tree_campaigns d))"

definition deactivate_campaign :: "uuid \<Rightarrow> (db, unit) io" where
  "deactivate_campaign i = db_stmt (\<lambda>d. (Inr (), d\<lparr>campaigns :=
     update_rows (\<lambda>c. c_id c = i \<and> c_deleted_at c = None) (\<lambda>c. c\<lparr>c_status := CS_Inactive\<rparr>) (campaigns d)\<rparr>))"

definition remove_campaign_from_ping_tree :: "extlib \<Rightarrow> uuid \<Rightarrow> uuid \<Rightarrow> (portal, json reply) io" where
  "remove_campaign_from_ping_tree X tree campaign =
     or_answer (STATUS 500) (in_db (PingTree_find_by_id tree)) (\<lambda>found.
     some_or_answer (STATUS 404) found (\<lambda>t.
     io_bind (io_try (in_db (live_campaign campaign))) (\<lambda>res.
     or_answer (STATUS 500) (in_db (delete_tree_member tree campaign)) (\<lambda>_.
     io_bind (io_try (in_db (in_other_tree tree campaign))) (\<lambda>others.
     io_bind (if others = Inr True then io_return (Inr ()) else io_try (in_db (deactivate_campaign campaign))) (\<lambda>_.
     io_bind (log_anonymous (pt_instance_id t) ''ping_tree_campaign_removed'' ''PingTree'' tree
       (member_details X ''remove_campaign'' t tree campaign (ok_some res) []
          (plain_context ''User removed campaign from ping tree via dashboard'' ''DELETE''
             (''/api/v1/dashboard/ping_trees/'' @ uuid_text X tree @ ''/campaigns/'' @ uuid_text X campaign)))
       (member_affected X (ok_some res))) (\<lambda>_.
     io_return (succeeded [(''message'', JStr ''Campaign removed from ping tree successfully'')]))))))))"

section \<open>Publishers in a ping tree\<close>

record AddPublisherToPingTreeRequest =
  ap_publisher_id :: uuid
  ap_revshare_percentage :: "f64 option"
  ap_revshare_flat_amount :: "f64 option"

record UpdatePingTreePublisherRevshareRequest =
  ur_revshare_percentage :: "f64 option"
  ur_revshare_flat_amount :: "f64 option"

definition assignment_json :: "extlib \<Rightarrow> declib \<Rightarrow> PingTreePublisher \<Rightarrow> string option \<Rightarrow> json" where
  "assignment_json X D a name = JObj
     [(''id'', JStr (uuid_text X (ptp_id a))), (''publisher_id'', JStr (uuid_text X (ptp_publisher_id a))),
      (''publisher_name'', opt_json name), (''vertical'', JStr (ptp_vertical a)),
      (''revshare_percentage'', decimal_json D (ptp_revshare_percentage a)),
      (''revshare_flat_amount'', decimal_json D (ptp_revshare_flat_amount a)),
      (''created_at'', JStr (utc_rfc3339 X (ptp_created_at a)))]"

definition list_ping_tree_publishers :: "extlib \<Rightarrow> declib \<Rightarrow> uuid \<Rightarrow> (portal, json reply) io" where
  "list_ping_tree_publishers X D i =
     or_answer (STATUS 500) (in_db (PingTree_find_by_id i)) (\<lambda>found.
     some_or_answer (STATUS 404) found (\<lambda>_.
     or_answer (STATUS 500) (in_db (PingTreePublisher_find_by_ping_tree i)) (\<lambda>assignments.
     io_bind (io_mapM (\<lambda>a. io_bind (io_try (in_db (live_publisher (ptp_publisher_id a)))) (\<lambda>res.
         io_return (assignment_json X D a (map_option p_name (ok_some res))))) assignments) (\<lambda>details.
     io_return (succeeded [(''publishers'', JArr details)])))))"

definition to_decimal :: "declib \<Rightarrow> f64 option \<Rightarrow> decimal option" where
  "to_decimal D v = Option.bind v (dl_of_f64 D)"

definition add_publisher_to_ping_tree ::
  "extlib \<Rightarrow> declib \<Rightarrow> uuid \<Rightarrow> AddPublisherToPingTreeRequest \<Rightarrow> (portal, json reply) io" where
  "add_publisher_to_ping_tree X D i r =
     or_answer (STATUS 500) (in_db (PingTree_find_by_id i)) (\<lambda>found.
     some_or_answer (STATUS 404) found (\<lambda>t.
     or_answer (STATUS 500) (in_db (live_publisher (ap_publisher_id r))) (\<lambda>publisher.
     some_or_answer (STATUS 400) publisher (\<lambda>_.
     io_bind (in_world draw_uuid) (\<lambda>new_id.
     or_answer (STATUS 500) (in_db (PingTreePublisher_create new_id i (ap_publisher_id r) (pt_vertical t)
         (to_decimal D (ap_revshare_percentage r)) (to_decimal D (ap_revshare_flat_amount r)))) (\<lambda>a.
     io_return (succeeded
       [(''assignment'', JObj [(''id'', JStr (uuid_text X (ptp_id a))), (''publisher_id'', JStr (uuid_text X (ptp_publisher_id a))),
           (''revshare_percentage'', decimal_json D (ptp_revshare_percentage a)),
           (''revshare_flat_amount'', decimal_json D (ptp_revshare_flat_amount a))]),
        (''message'', JStr ''Publisher added to ping tree successfully'')])))))))"

definition remove_publisher_from_ping_tree :: "uuid \<Rightarrow> uuid \<Rightarrow> (portal, json reply) io" where
  "remove_publisher_from_ping_tree i publisher =
     or_answer (STATUS 500) (in_db (PingTree_find_by_id i)) (\<lambda>found.
     some_or_answer (STATUS 404) found (\<lambda>_.
     or_answer (STATUS 500) (in_db (PingTreePublisher_delete i publisher)) (\<lambda>_.
     io_return (succeeded [(''message'', JStr ''Publisher removed from ping tree successfully'')]))))"

definition update_ping_tree_publisher_revshare ::
  "extlib \<Rightarrow> declib \<Rightarrow> uuid \<Rightarrow> uuid \<Rightarrow> UpdatePingTreePublisherRevshareRequest \<Rightarrow> (portal, json reply) io" where
  "update_ping_tree_publisher_revshare X D i publisher r =
     or_answer (STATUS 500) (in_db (PingTreePublisher_find_by_ping_tree_and_publisher i publisher)) (\<lambda>found.
     some_or_answer (STATUS 404) found (\<lambda>a.
     or_answer (STATUS 500) (in_db (PingTreePublisher_update_revshare (ptp_id a)
         (to_decimal D (ur_revshare_percentage r)) (to_decimal D (ur_revshare_flat_amount r)))) (\<lambda>b.
     io_return (succeeded
       [(''assignment'', JObj [(''id'', JStr (uuid_text X (ptp_id b))), (''publisher_id'', JStr (uuid_text X (ptp_publisher_id b))),
           (''revshare_percentage'', opt_json (map_option (dl_text D) (ptp_revshare_percentage b))),
           (''revshare_flat_amount'', opt_json (map_option (dl_text D) (ptp_revshare_flat_amount b)))]),
        (''message'', JStr ''Revshare updated successfully'')]))))"

definition publisher_assignments :: "uuid \<Rightarrow> (db, PingTreePublisher list) io" where
  "publisher_assignments i = db_query (\<lambda>d. sort_key (\<lambda>a. map of_char (ptp_vertical a) :: nat list)
     (sort_key ptp_created_at (filter (\<lambda>a. ptp_publisher_id a = i) (ping_tree_publishers d))))"

definition get_publisher_revenue_share :: "extlib \<Rightarrow> declib \<Rightarrow> uuid \<Rightarrow> (portal, json reply) io" where
  "get_publisher_revenue_share X D i =
     or_answer (STATUS 500) (in_db (live_publisher i)) (\<lambda>found.
     some_or_answer (STATUS 404) found (\<lambda>_.
     or_answer (STATUS 500) (in_db (publisher_assignments i)) (\<lambda>assignments.
     io_bind (io_mapM (\<lambda>a. io_bind (io_try (in_db (PingTree_find_by_id (ptp_ping_tree_id a)))) (\<lambda>res.
         io_return (JObj [(''ping_tree_id'', JStr (uuid_text X (ptp_ping_tree_id a))),
           (''ping_tree_name'', opt_json (map_option pt_name (ok_some res))), (''vertical'', JStr (ptp_vertical a)),
           (''revshare_percentage'', decimal_json D (ptp_revshare_percentage a)),
           (''revshare_flat_amount'', decimal_json D (ptp_revshare_flat_amount a)),
           (''created_at'', JStr (utc_rfc3339 X (ptp_created_at a)))]))) assignments) (\<lambda>configs.
     io_return (succeeded [(''publisher_id'', JStr (uuid_text X i)), (''revenue_share_configs'', JArr configs)])))))"

section \<open>Verticals\<close>

definition list_verticals :: "extlib \<Rightarrow> (portal, json reply) io" where
  "list_verticals X =
     or_answer (STATUS 500) (in_db (db_query (\<lambda>d. sort_key name_key (filter v_is_active (verticals d))))) (\<lambda>vs.
     io_return (succeeded [(''verticals'', JArr (map (\<lambda>v. JObj [(''id'', JStr (uuid_text X (v_id v))),
        (''name'', JStr (v_name v)), (''slug'', JStr (v_slug v)), (''is_active'', JBool (v_is_active v))]) vs))]))"

end
