(* ===== verification/DashboardRules.thy ===== *)
theory DashboardRules
  imports DashboardTrees
begin

text \<open>
  Model of the part of \<open>crates/api/src/routes/dashboard.rs\<close> on the rule sets of buyers: the
  qualification configurations, of which the active one decides what an internal buyer takes, the ZIP
  codes, which are kept in tables of their own, and the list of buyer integrations. Except for a
  change of a rule set the handlers do not look at the user. What the database makes of a floating
  point number in a column with two decimals and five digits is a parameter; \<open>None\<close> is an overflow.
  Columns other than such decimals have the types that the row structs of the core crate give them.
\<close>

section \<open>Buyer integrations\<close>

text \<open>The default timeout is read as a text and then as a floating point number; the column is a
  decimal, which the driver converts to neither.\<close>

definition integration_json :: "extlib \<Rightarrow> BuyerIntegration \<Rightarrow> json" where
  "integration_json X b = JObj
     [(''id'', JStr (uuid_text X (bi_id b))), (''name'', JStr (bi_name b)), (''slug'', JStr (bi_slug b)),
      (''vertical_id'', JStr (uuid_text X (bi_vertical_id b))), (''description'', opt_json (bi_description b)),
      (''is_internal'', JBool (bi_is_internal b)), (''status'', JStr (bi_status b)), (''default_timeout'', JNull)]"

definition list_buyer_integrations :: "extlib \<Rightarrow> (string \<Rightarrow> uuid option) \<Rightarrow> string option \<Rightarrow> (portal, json reply) io" where
  "list_buyer_integrations X parse vertical =
     (let named = Option.bind vertical parse in
      or_answer (STATUS 500) (in_db (db_query (\<lambda>d. sort_key (\<lambda>b. map of_char (bi_name b) :: nat list)
        (filter (\<lambda>b. bi_status b = ''available'' \<and> (named = None \<or> named = Some (bi_vertical_id b))) (buyer_integrations d))))) (\<lambda>bs.
      io_return (succeeded [(''integrations'', JArr (map (integration_json X) bs))])))"

section \<open>ZIP codes\<close>

text \<open>The list of a buyer that is the oldest of its type, or a new one.\<close>

definition find_zip_list :: "uuid \<Rightarrow> string \<Rightarrow> (db, ZipListRow option) io" where
  "find_zip_list buyer list_type = db_query_optional (\<lambda>d. sort_key zl_created_at
     (filter (\<lambda>l. zl_buyer_id l = buyer \<and> zl_list_type l = list_type) (buyer_zip_lists d)))"

definition insert_zip_list :: "uuid \<Rightarrow> uuid \<Rightarrow> string \<Rightarrow> string \<Rightarrow> (db, unit) io" where
  "insert_zip_list i buyer name list_type = db_stmt (\<lambda>d.
     if i \<in> zl_id ` set (buyer_zip_lists d) then (Inl UNIQUE_VIOLATION, d)
     else if buyer \<notin> b_id ` set (buyers d)
     then (Inl ''insert or update on table buyer_zip_lists violates foreign key constraint'', d)
     else if list_type \<noteq> ''blacklist'' \<and> list_type \<noteq> ''whitelist''
     then (Inl ''new row for relation buyer_zip_lists violates check constraint check_list_type'', d)
     else (Inr (), d\<lparr>buyer_zip_lists := buyer_zip_lists d @ [\<lparr> zl_id = i, zl_buyer_id = buyer, zl_name = name,
        zl_list_type = list_type, zl_created_at = db_now d, zl_updated_at = db_now d \<rparr>]\<rparr>))"

definition find_or_create_zip_list :: "uuid \<Rightarrow> string \<Rightarrow> (portal, uuid) io" where
  "find_or_create_zip_list buyer list_type =
     io_bind (in_db (find_zip_list buyer list_type)) (\<lambda>found.
     case found of
       Some l \<Rightarrow> io_return (zl_id l)
     | None \<Rightarrow>
         io_bind (in_world draw_uuid) (\<lambda>list_id.
         io_bind (in_db (insert_zip_list list_id buyer
           (''Default '' @ (if list_type = ''blacklist'' then ''Blacklist'' else ''Whitelist'')) list_type)) (\<lambda>_.
         io_return list_id)))"

definition zips_of_list :: "uuid \<Rightarrow> (db, string list) io" where
  "zips_of_list list_id = db_query (\<lambda>d. map zc_zip (filter (\<lambda>c. zc_list_id c = list_id) (buyer_zip_codes d)))"

text \<open>A code that is there stays as it is.\<close>

definition insert_zip :: "uuid \<Rightarrow> string \<Rightarrow> (db, unit) io" where
  "insert_zip list_id zip_code = db_stmt (\<lambda>d.
     if list_ex (\<lambda>c. zc_list_id c = list_id \<and> zc_zip c = zip_code) (buyer_zip_codes d) then (Inr (), d)
     else if list_id \<notin> zl_id ` set (buyer_zip_lists d)
     then (Inl ''insert or update on table buyer_zip_codes violates foreign key constraint'', d)
     else (Inr (), d\<lparr>buyer_zip_codes := buyer_zip_codes d @ [\<lparr> zc_id = of_int (db_next_id d), zc_list_id = list_id,
        zc_zip = zip_code, zc_created_at = db_now d, zc_updated_at = db_now d \<rparr>], db_next_id := db_next_id d + 1\<rparr>))"

definition valid_zip :: "string \<Rightarrow> bool" where
  "valid_zip z \<longleftrightarrow> length z = 5 \<and> list_all is_digit z"

definition store_zip :: "uuid \<Rightarrow> string list \<Rightarrow> json \<Rightarrow> (portal, unit) io" where
  "store_zip list_id existing v =
     (case as_str v of
        None \<Rightarrow> io_return ()
      | Some s \<Rightarrow>
          let z = trim s in
          if valid_zip z \<and> z \<notin> set existing
          then io_bind (io_try (in_db (insert_zip list_id z))) (\<lambda>_. io_return ())
          else io_return ())"

fun json_remove :: "string \<Rightarrow> json \<Rightarrow> json" where
  "json_remove k (JObj o1) = JObj (obj_remove k o1)"
| "json_remove k v = v"

text \<open>The codes under one key of a configuration are added to the list and taken out of it.\<close>

definition extract_list :: "uuid \<Rightarrow> string \<Rightarrow> string \<Rightarrow> json \<Rightarrow> (portal, json) io" where
  "extract_list buyer list_type key config =
     (case Option.bind (json_get config key) as_array of
        None \<Rightarrow> io_return config
      | Some zips \<Rightarrow>
          io_bind (find_or_create_zip_list buyer list_type) (\<lambda>list_id.
          io_bind (in_db (zips_of_list list_id)) (\<lambda>existing.
          io_bind (io_iter (store_zip list_id existing) zips) (\<lambda>_.
          io_return (json_remove key config)))))"

text \<open>The callers log an error and go on with the configuration as far as it was changed.\<close>

definition extract_and_store_zip_codes :: "uuid \<Rightarrow> json \<Rightarrow> (portal, json) io" where
  "extract_and_store_zip_codes buyer config =
     io_bind (io_try (extract_list buyer ''blacklist'' ''zip_blacklist'' config)) (\<lambda>first.
     case first of
       Inl _ \<Rightarrow> io_return config
     | Inr config' \<Rightarrow>
         io_bind (io_try (extract_list buyer ''whitelist'' ''zip_whitelist'' config')) (\<lambda>second.
         io_return (case second of Inl _ \<Rightarrow> config' | Inr config'' \<Rightarrow> config'')))"

definition buyer_zips :: "uuid \<Rightarrow> string \<Rightarrow> db \<Rightarrow> string list" where
  "buyer_zips buyer list_type d = sort_key (map of_char :: string \<Rightarrow> nat list) (remdups
     (map (\<lambda>(c, _). zc_zip c) (filter (\<lambda>(c, l). zc_list_id c = zl_id l \<and> zl_buyer_id l = buyer \<and> zl_list_type l = list_type)
       (List.product (buyer_zip_codes d) (buyer_zip_lists d)))))"

definition load_zip_codes_from_tables :: "uuid \<Rightarrow> (portal, string list \<times> string list) io" where
  "load_zip_codes_from_tables buyer =
     io_bind (in_db (db_query (buyer_zips buyer ''blacklist''))) (\<lambda>blacklist.
     io_bind (in_db (db_query (buyer_zips buyer ''whitelist''))) (\<lambda>whitelist.
     io_return (blacklist, whitelist)))"

definition put_zips :: "string \<Rightarrow> string list \<Rightarrow> json_obj \<Rightarrow> json_obj" where
  "put_zips k zips o1 = (if zips \<noteq> [] then obj_insert k (JArr (map JStr zips)) o1 else obj_remove k o1)"

fun with_zips :: "string list \<times> string list \<Rightarrow> json \<Rightarrow> json" where
  "with_zips (blacklist, whitelist) (JObj o1) = JObj (put_zips ''zip_whitelist'' whitelist (put_zips ''zip_blacklist'' blacklist o1))"
| "with_zips _ v = v"

section \<open>Reading rule sets\<close>

definition rule_set_json :: "extlib \<Rightarrow> BuyerQualificationConfig \<Rightarrow> json \<Rightarrow> json" where
  "rule_set_json X r config = JObj
     [(''id'', JStr (uuid_text X (qc_id r))), (''buyer_id'', JStr (uuid_text X (qc_buyer_id r))),
      (''vertical_id'', JStr (uuid_text X (qc_vertical_id r))),
      (''buyer_integration_id'', opt_json (map_option (uuid_text X) (qc_buyer_integration_id r))),
      (''rule_set_name'', JStr (qc_rule_set_name r)), (''config'', config),
      (''rules_order'', JArr (map JStr (qc_rules_order r))), (''enabled'', JBool (qc_enabled r)),
      (''is_active'', JBool (qc_is_active r)), (''timeout_seconds'', opt_f64_json (qc_timeout_seconds r)),
      (''created_at'', JStr (utc_rfc3339 X (qc_created_at r))), (''updated_at'', JStr (utc_rfc3339 X (qc_updated_at r)))]"

text \<open>An error in reading the ZIP codes counts as none in the list, and leaves the configuration of a
  single rule set as it is.\<close>

definition list_buyer_rule_sets :: "extlib \<Rightarrow> uuid \<Rightarrow> (portal, json reply) io" where
  "list_buyer_rule_sets X buyer =
     or_answer (STATUS 500) (in_db (db_query (\<lambda>d. sort_by (\<lambda>a b. cmp (qc_created_at b) (qc_created_at a))
       (filter (\<lambda>r. qc_buyer_id r = buyer) (buyer_qualification_configs d))))) (\<lambda>rs.
     io_bind (io_try (load_zip_codes_from_tables buyer)) (\<lambda>res.
     let zips = (case res of Inr z \<Rightarrow> z | Inl _ \<Rightarrow> ([], [])) in
     io_return (succeeded [(''rule_sets'', JArr (map (\<lambda>r. rule_set_json X r (with_zips zips (qc_config r))) rs))])))"

definition rule_set_of :: "uuid \<Rightarrow> uuid \<Rightarrow> (db, BuyerQualificationConfig option) io" where
  "rule_set_of buyer i = db_query_optional (\<lambda>d.
     filter (\<lambda>r. qc_id r = i \<and> qc_buyer_id r = buyer) (buyer_qualification_configs d))"

definition get_buyer_rule_set :: "extlib \<Rightarrow> uuid \<Rightarrow> uuid \<Rightarrow> (portal, json reply) io" where
  "get_buyer_rule_set X buyer i =
     or_answer (STATUS 500) (in_db (rule_set_of buyer i)) (\<lambda>found.
     some_or_answer (STATUS 404) found (\<lambda>r.
     io_bind (io_try (load_zip_codes_from_tables buyer)) (\<lambda>res.
     io_return (succeeded [(''rule_set'', rule_set_json X r
       (case res of Inr zips \<Rightarrow> with_zips zips (qc_config r) | Inl _ \<Rightarrow> qc_config r))]))))"

section \<open>Creating rule sets\<close>

record CreateRuleSetRequest =
  rs_rule_set_name :: string
  rs_timeout_seconds :: "f64 option"
  rs_enabled :: "bool option"
  rs_is_active :: "bool option"
  rs_config :: "json option"
  rs_rules_order :: "string list option"

definition DEFAULT_RULES_ORDER :: "string list" where
  "DEFAULT_RULES_ORDER = [''zip_blacklist'', ''zip_whitelist'', ''own_home'', ''roof_shade'', ''credit_rating'', ''monthly_bill'',
     ''property_type'', ''roof_type'', ''purchase_timeframe'']"

definition DEFAULT_TIMEOUT :: f64 where
  "DEFAULT_TIMEOUT = round64 (12 / 10)"

definition live_buyer :: "uuid \<Rightarrow> (db, Buyer option) io" where
  "live_buyer i = db_query_optional (\<lambda>d. filter (\<lambda>b. b_id b = i \<and> b_deleted_at b = None) (buyers d))"

definition deactivate_rule_sets :: "(BuyerQualificationConfig \<Rightarrow> bool) \<Rightarrow> (db, unit) io" where
  "deactivate_rule_sets p = db_stmt (\<lambda>d. (Inr (), d\<lparr>buyer_qualification_configs :=
     update_rows p (\<lambda>r. r\<lparr>qc_is_active := False\<rparr>) (buyer_qualification_configs d)\<rparr>))"

text \<open>The name of a rule set is unique for its buyer and vertical.\<close>

definition rule_set_name :: "BuyerQualificationConfig \<Rightarrow> uuid \<times> uuid \<times> string" where
  "rule_set_name r = (qc_buyer_id r, qc_vertical_id r, qc_rule_set_name r)"

definition NUMERIC_OVERFLOW :: error where
  "NUMERIC_OVERFLOW = ''numeric field overflow''"

definition insert_rule_set :: "(f64 \<Rightarrow> f64 option) \<Rightarrow> f64 \<Rightarrow> BuyerQualificationConfig \<Rightarrow> (db, unit) io" where
  "insert_rule_set numeric timeout r = db_stmt (\<lambda>d.
     case numeric timeout of
       None \<Rightarrow> (Inl NUMERIC_OVERFLOW, d)
     | Some t \<Rightarrow>
         if list_ex (\<lambda>r'. qc_id r' = qc_id r \<or> rule_set_name r' = rule_set_name r) (buyer_qualification_configs d)
         then (Inl UNIQUE_VIOLATION, d)
         else if qc_buyer_id r \<notin> b_id ` set (buyers d) \<or> qc_vertical_id r \<notin> v_id ` set (verticals d)
         then (Inl ''insert or update on table buyer_qualification_configs violates foreign key constraint'', d)
         else (Inr (), d\<lparr>buyer_qualification_configs := buyer_qualification_configs d
            @ [r\<lparr>qc_timeout_seconds := Some t, qc_created_at := db_now d, qc_updated_at := db_now d\<rparr>]\<rparr>))"

definition new_rule_set :: "uuid \<Rightarrow> uuid \<Rightarrow> uuid \<Rightarrow> json \<Rightarrow> CreateRuleSetRequest \<Rightarrow> BuyerQualificationConfig" where
  "new_rule_set i buyer vertical config c = \<lparr> qc_id = i, qc_buyer_id = buyer, qc_vertical_id = vertical,
     qc_buyer_integration_id = None, qc_rule_set_name = rs_rule_set_name c, qc_config = config,
     qc_rules_order = unwrap_or (rs_rules_order c) DEFAULT_RULES_ORDER, qc_enabled = unwrap_or (rs_enabled c) True,
     qc_is_active = unwrap_or (rs_is_active c) False, qc_timeout_seconds = None, qc_created_at = 0, qc_updated_at = 0 \<rparr>"

definition buyer_instance :: "uuid \<Rightarrow> (portal, uuid option) io" where
  "buyer_instance buyer =
     io_bind (io_try (in_db (db_query_optional (\<lambda>d. map b_instance_id (filter (\<lambda>b. b_id b = buyer) (buyers d)))))) (\<lambda>res.
     io_return (ok_some res))"

text \<open>The creation and the deletion are logged without the user.\<close>

definition log_rule_set :: "uuid \<Rightarrow> string \<Rightarrow> json \<Rightarrow> (portal, unit) io" where
  "log_rule_set buyer action details =
     io_bind (buyer_instance buyer) (\<lambda>inst.
     io_bind (io_try (in_db (create_audit_log inst None action (Some ''Buyer'') (Some buyer) details (JObj []) None None))) (\<lambda>_.
     io_return ()))"

definition rule_set_created :: "extlib \<Rightarrow> uuid \<Rightarrow> CreateRuleSetRequest \<Rightarrow> json" where
  "rule_set_created X i c = JObj
     [(''rule_set_id'', JStr (uuid_text X i)), (''rule_set_name'', JStr (rs_rule_set_name c)),
      (''is_active'', JBool (unwrap_or (rs_is_active c) False)), (''enabled'', JBool (unwrap_or (rs_enabled c) True)),
      (''timeout_seconds'', opt_f64_json (Some (unwrap_or (rs_timeout_seconds c) DEFAULT_TIMEOUT)))]"

definition create_buyer_rule_set ::
  "extlib \<Rightarrow> (f64 \<Rightarrow> f64 option) \<Rightarrow> uuid \<Rightarrow> CreateRuleSetRequest \<Rightarrow> (portal, json reply) io" where
  "create_buyer_rule_set X numeric buyer c =
     or_answer (STATUS 500) (in_db (live_buyer buyer)) (\<lambda>found.
     some_or_answer (STATUS 404) found (\<lambda>b.
     some_or_answer (STATUS 400) (b_vertical_id b) (\<lambda>vertical.
     io_bind (in_world draw_uuid) (\<lambda>i.
     or_answer (STATUS 500) (if unwrap_or (rs_is_active c) False
         then in_db (deactivate_rule_sets (\<lambda>r. qc_buyer_id r = buyer)) else io_return ()) (\<lambda>_.
     io_bind (extract_and_store_zip_codes buyer (unwrap_or (rs_config c) (JObj []))) (\<lambda>config.
     or_answer (STATUS 500) (in_db (insert_rule_set numeric (unwrap_or (rs_timeout_seconds c) DEFAULT_TIMEOUT)
         (new_rule_set i buyer vertical config c))) (\<lambda>_.
     io_bind (log_rule_set buyer ''buyer_rule_set_created'' (rule_set_created X i c)) (\<lambda>_.
     io_return (succeeded [(''rule_set'', JObj [(''id'', JStr (uuid_text X i)), (''rule_set_name'', JStr (rs_rule_set_name c)),
         (''is_active'', JBool (unwrap_or (rs_is_active c) False))]),
       (''message'', JStr ''Rule set created successfully'')])))))))))"

section \<open>Changing rule sets\<close>

text \<open>The assignments that a request asks for; each is followed by a comma and the last one sets the
  time of the change, so that they always make up a statement.\<close>

type_synonym rule_set_change = "BuyerQualificationConfig \<Rightarrow> BuyerQualificationConfig"

definition member_change :: "json \<Rightarrow> string \<Rightarrow> (json \<Rightarrow> 'a option) \<Rightarrow> ('a \<Rightarrow> rule_set_change) \<Rightarrow> rule_set_change list" where
  "member_change payload k read assign =
     (case Option.bind (json_get payload k) read of None \<Rightarrow> [] | Some v \<Rightarrow> [assign v])"

definition config_change :: "uuid \<Rightarrow> json \<Rightarrow> (portal, rule_set_change list) io" where
  "config_change buyer payload =
     (case json_get payload ''config'' of
        None \<Rightarrow> io_return []
      | Some config \<Rightarrow> io_bind (extract_and_store_zip_codes buyer config) (\<lambda>config'.
          io_return [\<lambda>r. r\<lparr>qc_config := config'\<rparr>]))"

definition rule_set_changes :: "json \<Rightarrow> rule_set_change list \<Rightarrow> rule_set_change list" where
  "rule_set_changes payload config =
     member_change payload ''rule_set_name'' as_str (\<lambda>n r. r\<lparr>qc_rule_set_name := n\<rparr>)
     @ config
     @ member_change payload ''rules_order'' as_array (\<lambda>xs r. r\<lparr>qc_rules_order := List.map_filter as_str xs\<rparr>)
     @ member_change payload ''enabled'' as_bool (\<lambda>b r. r\<lparr>qc_enabled := b\<rparr>)
     @ member_change payload ''is_active'' as_bool (\<lambda>b r. r\<lparr>qc_is_active := b\<rparr>)"

definition new_timeout :: "json \<Rightarrow> f64 option" where
  "new_timeout payload = Option.bind (json_get payload ''timeout_seconds'') as_f64"

definition set_timeout :: "(f64 \<Rightarrow> f64 option) \<Rightarrow> f64 option \<Rightarrow> rule_set_change option" where
  "set_timeout numeric timeout =
     (case timeout of
        None \<Rightarrow> Some (\<lambda>r. r)
      | Some t \<Rightarrow> map_option (\<lambda>t' r. r\<lparr>qc_timeout_seconds := Some t'\<rparr>) (numeric t))"

definition update_rule_set_row ::
  "(f64 \<Rightarrow> f64 option) \<Rightarrow> uuid \<Rightarrow> uuid \<Rightarrow> rule_set_change list \<Rightarrow> f64 option \<Rightarrow> (db, unit) io" where
  "update_rule_set_row numeric buyer i items timeout = db_stmt (\<lambda>d.
     case set_timeout numeric timeout of
       None \<Rightarrow> (Inl NUMERIC_OVERFLOW, d)
     | Some g \<Rightarrow>
         let f = (\<lambda>r. (g (fold (\<lambda>h. h) items r))\<lparr>qc_updated_at := db_now d\<rparr>);
             hit = (\<lambda>r. qc_id r = i \<and> qc_buyer_id r = buyer) in
         if list_ex (\<lambda>r. hit r \<and> list_ex (\<lambda>r'. qc_id r' \<noteq> i \<and> rule_set_name r' = rule_set_name (f r)) (buyer_qualification_configs d))
              (buyer_qualification_configs d)
         then (Inl UNIQUE_VIOLATION, d)
         else (Inr (), d\<lparr>buyer_qualification_configs := update_rows hit f (buyer_qualification_configs d)\<rparr>))"

definition logged_timeout :: "BuyerQualificationConfig \<Rightarrow> f64" where
  "logged_timeout r = unwrap_or (qc_timeout_seconds r) (Fin 0)"

definition rule_set_full :: "BuyerQualificationConfig \<Rightarrow> json" where
  "rule_set_full r = JObj
     [(''rule_set_name'', JStr (qc_rule_set_name r)), (''is_active'', JBool (qc_is_active r)), (''enabled'', JBool (qc_enabled r)),
      (''timeout_seconds'', opt_f64_json (Some (logged_timeout r))), (''config'', qc_config r)]"

definition logged_changes :: "BuyerQualificationConfig \<Rightarrow> BuyerQualificationConfig \<Rightarrow> (string \<times> json) list" where
  "logged_changes old new =
     (if qc_rule_set_name old \<noteq> qc_rule_set_name new
      then changed ''rule_set_name'' (JStr (qc_rule_set_name old)) (JStr (qc_rule_set_name new)) else [])
     @ changed ''config'' (qc_config old) (qc_config new)
     @ (if qc_is_active old \<noteq> qc_is_active new
        then changed ''is_active'' (JBool (qc_is_active old)) (JBool (qc_is_active new)) else [])
     @ (if qc_enabled old \<noteq> qc_enabled new then changed ''enabled'' (JBool (qc_enabled old)) (JBool (qc_enabled new)) else [])
     @ (if f64_lt (round64 (1 / 1000)) (f64_abs (f64_sub (logged_timeout old) (logged_timeout new)))
        then changed ''timeout_seconds'' (opt_f64_json (Some (logged_timeout old))) (opt_f64_json (Some (logged_timeout new))) else [])"

definition rule_set_action :: "(string \<times> json) list \<Rightarrow> string" where
  "rule_set_action changes =
     (case map_of changes ''is_active'' of
        Some v \<Rightarrow> if Option.bind (json_get v ''after'') as_bool = Some True then ''buyer_rule_set_activated''
                  else ''buyer_rule_set_deactivated''
      | None \<Rightarrow> if length changes = 1 \<and> map_of changes ''timeout_seconds'' \<noteq> None then ''buyer_rule_set_timeout_updated''
                else ''buyer_rule_set_updated'')"

definition actor_name :: "User \<Rightarrow> string" where
  "actor_name user =
     (let name = trim (unwrap_or (u_first_name user) [] @ '' '' @ unwrap_or (u_last_name user) []) in
      if name = [] then u_email user else name)"

definition opt_rule_set_json :: "BuyerQualificationConfig option \<Rightarrow> json" where
  "opt_rule_set_json r = (case r of None \<Rightarrow> JNull | Some r' \<Rightarrow> rule_set_full r')"

definition rule_set_details ::
  "extlib \<Rightarrow> User \<Rightarrow> http_call \<Rightarrow> uuid option \<Rightarrow> uuid \<Rightarrow> uuid \<Rightarrow> (string \<times> json) list \<Rightarrow> BuyerQualificationConfig
   \<Rightarrow> BuyerQualificationConfig option \<Rightarrow> string \<Rightarrow> timestamp \<Rightarrow> json" where
  "rule_set_details X user q inst buyer i changes old new request_id now = JObj
     [(''action'', JStr ''update''), (''target_type'', JStr ''BuyerRuleSet''), (''target_id'', JStr (uuid_text X i)),
      (''target_name'', JStr (unwrap_or (map_option qc_rule_set_name new) [])),
      (''actor'', JObj [(''id'', JStr (uuid_text X (u_id user))), (''name'', JStr (actor_name user)),
         (''email'', JStr (u_email user)), (''role'', JStr ''instance_admin''),
         (''instance_id'', opt_json (map_option (uuid_text X) inst))]),
      (''changes'', JObj changes), (''before'', rule_set_full old), (''after'', opt_rule_set_json new),
      (''context'', JObj [(''reason'', JStr ''User updated rule set via dashboard''), (''request_id'', JStr request_id),
         (''session_id'', opt_json (text_header q ''x-session-id'')), (''ip_address'', opt_json (request_ip q)),
         (''user_agent'', opt_json (text_header q ''user-agent'')), (''referer'', opt_json (text_header q ''referer'')),
         (''method'', JStr ''POST''),
         (''endpoint'', JStr (''/api/v1/dashboard/buyers/'' @ uuid_text X buyer @ ''/rule_sets/'' @ uuid_text X i)),
         (''source'', JStr ''dashboard_web_ui'')]),
      (''outcome'', JStr ''success''), (''timestamp'', JStr (utc_rfc3339 X now)), COMPLIANCE]"

definition log_rule_set_update ::
  "extlib \<Rightarrow> User \<Rightarrow> http_call \<Rightarrow> uuid \<Rightarrow> uuid \<Rightarrow> BuyerQualificationConfig \<Rightarrow> (portal, unit) io" where
  "log_rule_set_update X user q buyer i old =
     io_bind (buyer_instance buyer) (\<lambda>inst.
     io_bind (io_try (in_db (rule_set_of buyer i))) (\<lambda>res.
     let new = ok_some res; changes = (case new of None \<Rightarrow> [] | Some r \<Rightarrow> logged_changes old r) in
     io_bind (case first_text_header q ''x-request-id'' ''x-correlation-id'' of
         Some r \<Rightarrow> io_return r
       | None \<Rightarrow> in_world (io_bind draw_uuid (\<lambda>u. io_return (uuid_text X u)))) (\<lambda>request_id.
     io_bind (in_world current_time) (\<lambda>now.
     io_bind (io_try (in_db (create_audit_log inst (Some (u_id user)) (rule_set_action changes) (Some ''Buyer'') (Some buyer)
       (rule_set_details X user q inst buyer i changes old new request_id now) (JObj []) (request_ip q)
       (text_header q ''user-agent'')))) (\<lambda>_.
     io_return ())))))"

definition update_buyer_rule_set ::
  "extlib \<Rightarrow> (f64 \<Rightarrow> f64 option) \<Rightarrow> User \<Rightarrow> http_call \<Rightarrow> uuid \<Rightarrow> uuid \<Rightarrow> json \<Rightarrow> (portal, json reply) io" where
  "update_buyer_rule_set X numeric user q buyer i payload =
     or_answer (STATUS 500) (in_db (rule_set_of buyer i)) (\<lambda>found.
     some_or_answer (STATUS 404) found (\<lambda>old.
     io_bind (config_change buyer payload) (\<lambda>config.
     or_answer (STATUS 500) (if Option.bind (json_get payload ''is_active'') as_bool = Some True
         then in_db (deactivate_rule_sets (\<lambda>r. qc_buyer_id r = buyer \<and> qc_id r \<noteq> i)) else io_return ()) (\<lambda>_.
     let items = rule_set_changes payload config; timeout = new_timeout payload in
     if items = [] \<and> timeout = None then io_return (succeeded [(''message'', JStr ''No updates provided'')])
     else or_answer (STATUS 500) (in_db (update_rule_set_row numeric buyer i items timeout)) (\<lambda>_.
       io_bind (log_rule_set_update X user q buyer i old) (\<lambda>_.
       io_return (succeeded [(''message'', JStr ''Rule set updated successfully'')])))))))"

section \<open>Deleting rule sets\<close>

definition delete_rule_set_row :: "uuid \<Rightarrow> uuid \<Rightarrow> (db, nat) io" where
  "delete_rule_set_row buyer i = db_stmt (\<lambda>d.
     let hit = (\<lambda>r. qc_id r = i \<and> qc_buyer_id r = buyer) in
     (Inr (count_rows hit (buyer_qualification_configs d)),
      d\<lparr>buyer_qualification_configs := filter (\<lambda>r. \<not> hit r) (buyer_qualification_configs d)\<rparr>))"

definition rule_set_deleted :: "extlib \<Rightarrow> uuid \<Rightarrow> BuyerQualificationConfig option \<Rightarrow> json" where
  "rule_set_deleted X i old = JObj
     [(''rule_set_id'', JStr (uuid_text X i)),
      (''rule_set_name'', JStr (unwrap_or (map_option qc_rule_set_name old) ''Unknown'')),
      (''was_active'', JBool (unwrap_or (map_option qc_is_active old) False))]"

definition delete_buyer_rule_set :: "extlib \<Rightarrow> uuid \<Rightarrow> uuid \<Rightarrow> (portal, json reply) io" where
  "delete_buyer_rule_set X buyer i =
     or_answer (STATUS 500) (in_db (rule_set_of buyer i)) (\<lambda>old.
     or_answer (STATUS 500) (in_db (delete_rule_set_row buyer i)) (\<lambda>n.
     if n = 0 then io_return (STATUS 404)
     else io_bind (log_rule_set buyer ''buyer_rule_set_deleted'' (rule_set_deleted X i old)) (\<lambda>_.
       io_return (succeeded [(''message'', JStr ''Rule set deleted successfully'')]))))"

end
