(* ===== verification/DashboardProps.thy ===== *)
theory DashboardProps
  imports SecurityProps DashboardRules "HOL-Library.Sublist"
begin

text \<open>
  The requests to the dashboard on publishers, campaigns, ping trees and rule sets, one after another, and what
  they keep: the keys of the tables and the columns that no request changes.
\<close>

section \<open>Requests\<close>

datatype dash_request =
    ListPublishers
  | CreatePublisher CreatePublisherRequest
  | GetPublisher uuid
  | UpdatePublisher uuid UpdatePublisherRequest
  | DeletePublisher uuid
  | RegenerateKey uuid
  | GetKey uuid
  | GenerateSecret uuid
  | ListCampaigns
  | CreateCampaign CreateCampaignRequest
  | GetCampaign uuid
  | UpdateCampaign uuid json
  | DeleteCampaign uuid
  | ListPingTrees
  | CreatePingTree CreatePingTreeRequest
  | GetPingTree uuid
  | UpdatePingTree uuid json
  | DeletePingTree uuid
  | AddCampaign uuid AddCampaignToPingTreeRequest
  | RemoveCampaign uuid uuid
  | ListTreePublishers uuid
  | AddPublisher uuid AddPublisherToPingTreeRequest
  | RemovePublisher uuid uuid
  | UpdateRevshare uuid uuid UpdatePingTreePublisherRevshareRequest
  | GetRevenueShare uuid
  | ListVerticals
  | ListIntegrations "string option"
  | ListRuleSets uuid
  | CreateRuleSet uuid CreateRuleSetRequest
  | GetRuleSet uuid uuid
  | UpdateRuleSet uuid uuid json
  | DeleteRuleSet uuid uuid

text \<open>The routes behind the session check, with what the extractors read from a call.\<close>

record dashlib =
  dx_ext :: extlib
  dx_dec :: declib
  dx_sha :: "string \<Rightarrow> string"
  dx_parse :: "string \<Rightarrow> uuid option"
  dx_numeric :: "f64 \<Rightarrow> f64 option"
  dx_cfg :: AppConfig

fun dashboard_routes :: "dashlib \<Rightarrow> User \<Rightarrow> http_call \<Rightarrow> dash_request \<Rightarrow> (portal, json reply) io" where
  "dashboard_routes E user q ListPublishers = list_publishers (dx_ext E) user"
| "dashboard_routes E user q (CreatePublisher c) = create_publisher (dx_ext E) (dx_sha E) (dx_cfg E) user q c"
| "dashboard_routes E user q (GetPublisher i) = get_publisher (dx_ext E) i"
| "dashboard_routes E user q (UpdatePublisher i u) = update_publisher (dx_ext E) user q i u"
| "dashboard_routes E user q (DeletePublisher i) = delete_publisher (dx_ext E) user q i"
| "dashboard_routes E user q (RegenerateKey i) = regenerate_publisher_api_key (dx_ext E) (dx_sha E) (dx_cfg E) user q i"
| "dashboard_routes E user q (GetKey i) = get_publisher_api_key (dx_ext E) (dx_cfg E) user i"
| "dashboard_routes E user q (GenerateSecret i) = generate_publisher_hmac_secret_encrypted (dx_ext E) (dx_sha E) user q i"
| "dashboard_routes E user q ListCampaigns = list_campaigns (dx_ext E) user"
| "dashboard_routes E user q (CreateCampaign c) = create_campaign (dx_ext E) user c"
| "dashboard_routes E user q (GetCampaign i) = get_campaign (dx_ext E) user i"
| "dashboard_routes E user q (UpdateCampaign i v) = update_campaign (dx_ext E) (dx_parse E) i v"
| "dashboard_routes E user q (DeleteCampaign i) = delete_campaign i"
| "dashboard_routes E user q ListPingTrees = list_ping_trees (dx_ext E) user"
| "dashboard_routes E user q (CreatePingTree c) = create_ping_tree (dx_ext E) user c"
| "dashboard_routes E user q (GetPingTree i) = get_ping_tree (dx_ext E) (dx_dec E) user i"
| "dashboard_routes E user q (UpdatePingTree i v) = update_ping_tree (dx_ext E) i v"
| "dashboard_routes E user q (DeletePingTree i) = delete_ping_tree (dx_ext E) i"
| "dashboard_routes E user q (AddCampaign i r) = add_campaign_to_ping_tree (dx_ext E) i r"
| "dashboard_routes E user q (RemoveCampaign i c) = remove_campaign_from_ping_tree (dx_ext E) i c"
| "dashboard_routes E user q (ListTreePublishers i) = list_ping_tree_publishers (dx_ext E) (dx_dec E) i"
| "dashboard_routes E user q (AddPublisher i r) = add_publisher_to_ping_tree (dx_ext E) (dx_dec E) i r"
| "dashboard_routes E user q (RemovePublisher i p) = remove_publisher_from_ping_tree i p"
| "dashboard_routes E user q (UpdateRevshare i p r) = update_ping_tree_publisher_revshare (dx_ext E) (dx_dec E) i p r"
| "dashboard_routes E user q (GetRevenueShare i) = get_publisher_revenue_share (dx_ext E) (dx_dec E) i"
| "dashboard_routes E user q ListVerticals = list_verticals (dx_ext E)"
| "dashboard_routes E user q (ListIntegrations v) = list_buyer_integrations (dx_ext E) (dx_parse E) v"
| "dashboard_routes E user q (ListRuleSets b) = list_buyer_rule_sets (dx_ext E) b"
| "dashboard_routes E user q (CreateRuleSet b c) = create_buyer_rule_set (dx_ext E) (dx_numeric E) b c"
| "dashboard_routes E user q (GetRuleSet b i) = get_buyer_rule_set (dx_ext E) b i"
| "dashboard_routes E user q (UpdateRuleSet b i v) = update_buyer_rule_set (dx_ext E) (dx_numeric E) user q b i v"
| "dashboard_routes E user q (DeleteRuleSet b i) = delete_buyer_rule_set (dx_ext E) b i"

text \<open>Requests one after another; in between the clock moves and statements may start to fail.\<close>

inductive dash_steps :: "dashlib \<Rightarrow> portal \<Rightarrow> portal \<Rightarrow> bool" for E :: dashlib where
  none: "dash_steps E s s"
| request: "dash_steps E s s1 \<Longrightarrow> dashboard_routes E user q r s1 = (res, s2) \<Longrightarrow> dash_steps E s s2"
| passing: "dash_steps E s s1 \<Longrightarrow>
    dash_steps E s (s1\<lparr>px_world := set_db ((p_db s1)\<lparr>db_now := t, db_faults := fs\<rparr>) (px_world s1)\<rparr>)"

section \<open>Invariants of the tables\<close>

lemma preserves_or_answer:
  "preserves P m \<Longrightarrow> (\<And>x. preserves P (f x)) \<Longrightarrow> preserves P (or_answer a m f)"
  unfolding or_answer_def by (intro preserves_intros)

lemma preserves_some_or_answer: "(\<And>x. m = Some x \<Longrightarrow> preserves P (f x)) \<Longrightarrow> preserves P (some_or_answer a m f)"
  by (cases m) (simp_all add: preserves_intros)

text \<open>A predicate on the tables that survives the next fault and does not depend on the log is kept by
  what every handler does beside its own statements: queries, draws, the log.\<close>

locale table_invariant =
  fixes P :: "db \<Rightarrow> bool"
  assumes next_fault: "P d \<Longrightarrow> P (d\<lparr>db_faults := tl (db_faults d)\<rparr>)"
    and ignores_log: "P (d\<lparr>audit_logs := ls, db_next_id := n\<rparr>) = P d"
begin

lemma stmt:
  assumes "\<And>d. P d \<Longrightarrow> P (snd (q d))"
  shows "preserves P (db_stmt q)"
proof (rule preservesI)
  fix d
  assume "P d"
  then show "P (snd (db_stmt q d))"
    using assms next_fault [OF \<open>P d\<close>] by (cases "db_faults d") (auto simp: db_stmt_def split: option.split)
qed

lemma queries: "preserves P (db_query f)" "preserves P (db_query_optional g)"
  unfolding db_query_optional_def db_query_def by (intro preserves_intros stmt; simp add: io_simps)+

lemma audit: "preserves P (create_audit_log i1 i2 a1 a2 i3 j1 j2 a3 a4)"
  unfolding create_audit_log_def by (rule stmt) (simp add: ignores_log)

lemma at_db: "preserves P m \<Longrightarrow> preserves (\<lambda>s. P (p_db s)) (in_db m)"
  by (rule preserves_in_db)

lemma at_world: "frame w_queue m \<Longrightarrow> preserves (\<lambda>s. P (p_db s)) (in_world m)"
  by (rule preserves_in_world)

lemma instances:
  "(\<And>i. preserves (\<lambda>s. P (p_db s)) (f i)) \<Longrightarrow> preserves (\<lambda>s. P (p_db s)) (with_instance user f)"
  "(\<And>i. preserves (\<lambda>s. P (p_db s)) (f i)) \<Longrightarrow> preserves (\<lambda>s. P (p_db s)) (target_instance named user f)"
  unfolding target_instance_def with_instance_def get_instance_id_for_user_def
  by (intro preserves_intros preserves_or_answer preserves_some_or_answer at_db queries; simp)+

lemma draws:
  "preserves (\<lambda>s. P (p_db s)) (draw_bytes n)" "preserves (\<lambda>s. P (p_db s)) (in_world draw_uuid)"
  "preserves (\<lambda>s. P (p_db s)) (in_world current_time)"
  unfolding draw_bytes_def by (intro at_world frame_intros)+

lemma logs:
  "preserves (\<lambda>s. P (p_db s)) (log_change X q user a r i f)"
  "preserves (\<lambda>s. P (p_db s)) (log_anonymous inst a r i g j)"
  "preserves (\<lambda>s. P (p_db s)) (log_rule_set b a v)"
  "preserves (\<lambda>s. P (p_db s)) (log_rule_set_update X user q b i old)"
  unfolding log_change_def log_anonymous_def log_rule_set_def log_rule_set_update_def buyer_instance_def rule_set_of_def
    get_instance_id_for_user_def Let_def
  by (intro preserves_intros at_db queries draws at_world frame_intros audit)+

lemma encryption: "preserves (\<lambda>s. P (p_db s)) (encrypt_key X cfg k)"
  unfolding encrypt_key_def by (intro preserves_intros draws) (simp add: preserves_def)

lemmas handlers = preserves_or_answer preserves_some_or_answer instances draws logs encryption at_db queries preserves_intros

end

text \<open>The usual case: it does not depend on the faults at all.\<close>

locale steady_invariant = table_invariant +
  assumes ignores_faults: "P (d\<lparr>db_faults := fs\<rparr>) = P d"
begin

lemma stmt_leads:
  assumes "P d" and "\<And>d. P d \<Longrightarrow> Q (snd (q d))" and "\<And>d. P d \<Longrightarrow> Q d"
  shows "Q (snd (db_stmt q d))"
  using assms by (cases rule: db_stmt_cases [of q d]) (simp_all add: ignores_faults)

end

section \<open>Keys and columns that stay\<close>

text \<open>The keys and foreign keys of the tables, and the values their constraints allow.\<close>

definition member_key :: "PingTreeCampaign \<Rightarrow> uuid \<times> uuid" where
  "member_key m = (ptc_ping_tree_id m, ptc_campaign_id m)"

definition tree_ok :: "InstanceRow list \<Rightarrow> PingTree \<Rightarrow> bool" where
  "tree_ok insts t \<longleftrightarrow> pt_instance_id t \<in> ins_id ` set insts \<and> pt_strategy t \<in> {''ping_post'', ''fullpost''}
     \<and> pt_status t \<in> {''active'', ''paused''}"

definition keys_ok :: "db \<Rightarrow> bool" where
  "keys_ok d \<longleftrightarrow>
     distinct (map p_id (publishers d)) \<and> distinct (map p_api_key_hash (publishers d))
     \<and> distinct (map c_id (campaigns d)) \<and> distinct (map c_campaign_token (campaigns d))
     \<and> distinct (map pt_id (ping_trees d)) \<and> distinct (map tree_name (ping_trees d)) \<and> list_all (tree_ok (instances d)) (ping_trees d)
     \<and> distinct (map member_key (ping_tree_campaigns d))
     \<and> set (map member_key (ping_tree_campaigns d)) \<subseteq> set (map pt_id (ping_trees d)) \<times> set (map c_id (campaigns d))
     \<and> distinct (publisher_verticals d)
     \<and> set (publisher_verticals d) \<subseteq> set (map p_id (publishers d)) \<times> set (map v_id (verticals d))
     \<and> ptp_inv d"

text \<open>What identifies a row and what no request changes: the instance, the status of a publisher or
  tree, the vertical, the strategy, the token.\<close>

definition publisher_fixed :: "Publisher \<Rightarrow> uuid \<times> uuid \<times> PublisherStatus" where
  "publisher_fixed p = (p_id p, p_instance_id p, p_status p)"

definition campaign_fixed :: "Campaign \<Rightarrow> uuid \<times> uuid \<times> string \<times> string" where
  "campaign_fixed c = (c_id c, c_instance_id c, c_vertical c, c_campaign_token c)"

definition tree_fixed :: "PingTree \<Rightarrow> uuid \<times> uuid \<times> string \<times> string \<times> string" where
  "tree_fixed t = (pt_id t, pt_instance_id t, pt_vertical t, pt_strategy t, pt_status t)"

definition grown :: "db \<Rightarrow> db \<Rightarrow> bool" where
  "grown old d \<longleftrightarrow> prefix (map publisher_fixed (publishers old)) (map publisher_fixed (publishers d))
     \<and> prefix (map campaign_fixed (campaigns old)) (map campaign_fixed (campaigns d))
     \<and> prefix (map tree_fixed (ping_trees old)) (map tree_fixed (ping_trees d))"

definition dash_inv :: "db \<Rightarrow> db \<Rightarrow> bool" where
  "dash_inv old d \<longleftrightarrow> keys_ok d \<and> grown old d"

lemma dash_inv_env [simp]: "dash_inv old (d\<lparr>db_faults := fs\<rparr>) = dash_inv old d" "dash_inv old (d\<lparr>db_now := t\<rparr>) = dash_inv old d"
  by (simp_all add: dash_inv_def keys_ok_def grown_def ptp_inv_def)

interpretation tabs: steady_invariant "dash_inv old" for old
  by unfold_locales (simp_all add: dash_inv_def keys_ok_def grown_def ptp_inv_def)

lemmas inv_stmt = tabs.stmt

text \<open>An update of rows retains what its assignment retains.\<close>

definition retains :: "('r \<Rightarrow> 'k) \<Rightarrow> ('r \<Rightarrow> 'r) \<Rightarrow> bool" where
  "retains k f \<longleftrightarrow> (\<forall>r. k (f r) = k r)"

lemma retains_set_clause:
  "set_clause items = Some f \<Longrightarrow> (\<And>g. Assign g \<in> set items \<Longrightarrow> retains k g) \<Longrightarrow> retains k f"
  by (induction items arbitrary: f rule: set_clause.induct) (auto simp: retains_def)

lemma map_update_retains: "retains k f \<Longrightarrow> map k (update_rows p f rows) = map k rows"
  by (simp add: retains_def map_update_rows)

lemma fixed_parts:
  "map publisher_fixed xs = map publisher_fixed ys \<Longrightarrow> map p_id xs = map p_id ys"
  "map campaign_fixed cs = map campaign_fixed cs' \<Longrightarrow> map c_id cs = map c_id cs' \<and> map c_campaign_token cs = map c_campaign_token cs'"
  "map tree_fixed ts = map tree_fixed ts' \<Longrightarrow> map pt_id ts = map pt_id ts'"
  by (auto simp: publisher_fixed_def campaign_fixed_def tree_fixed_def list_eq_iff_nth_eq)

lemma inv_publishers:
  assumes "dash_inv old d" and "map publisher_fixed ps = map publisher_fixed (publishers d)" and "distinct (map p_api_key_hash ps)"
  shows "dash_inv old (d\<lparr>publishers := ps\<rparr>)"
proof -
  have "map p_id ps = map p_id (publishers d)" by (rule fixed_parts(1)) (rule assms(2))
  then show ?thesis using assms by (simp add: dash_inv_def keys_ok_def grown_def ptp_inv_def del: set_map)
qed

lemma inv_campaigns:
  assumes "dash_inv old d" and "map campaign_fixed cs = map campaign_fixed (campaigns d)"
  shows "dash_inv old (d\<lparr>campaigns := cs\<rparr>)"
proof -
  have "map c_id cs = map c_id (campaigns d) \<and> map c_campaign_token cs = map c_campaign_token (campaigns d)"
    by (rule fixed_parts(2)) (rule assms(2))
  then show ?thesis using assms by (simp add: dash_inv_def keys_ok_def grown_def ptp_inv_def del: set_map)
qed

lemma inv_trees:
  assumes "dash_inv old d" and same: "map tree_fixed ts = map tree_fixed (ping_trees d)" and "distinct (map tree_name ts)"
  shows "dash_inv old (d\<lparr>ping_trees := ts\<rparr>)"
proof -
  have ids: "map pt_id ts = map pt_id (ping_trees d)" by (rule fixed_parts(3)) (rule same)
  have img: "tree_fixed ` set ts = tree_fixed ` set (ping_trees d)" using arg_cong [OF same, of set] by simp
  have ok: "list_all (tree_ok (instances d)) ts"
    unfolding list_all_iff
  proof
    fix t
    assume "t \<in> set ts"
    then obtain t' where "t' \<in> set (ping_trees d)" "tree_fixed t' = tree_fixed t" using img by (metis (no_types, lifting) image_iff)
    moreover from this have "tree_ok (instances d) t'" using assms(1) by (simp add: dash_inv_def keys_ok_def list_all_iff)
    ultimately show "tree_ok (instances d) t" by (simp add: tree_ok_def tree_fixed_def)
  qed
  have "ptp_inv (d\<lparr>ping_trees := ts\<rparr>)"
    unfolding ptp_inv_def
  proof (intro conjI ballI)
    fix a
    assume "a \<in> set (ping_tree_publishers (d\<lparr>ping_trees := ts\<rparr>))"
    then obtain t where "t \<in> set (ping_trees d)" "pt_id t = ptp_ping_tree_id a" "pt_vertical t = ptp_vertical a"
      using assms(1) by (auto simp: dash_inv_def keys_ok_def ptp_inv_def)
    moreover obtain t' where "t' \<in> set ts" "tree_fixed t' = tree_fixed t" using img calculation(1) by (metis (no_types, lifting) image_iff)
    ultimately show "\<exists>t\<in>set (ping_trees (d\<lparr>ping_trees := ts\<rparr>)). pt_id t = ptp_ping_tree_id a \<and> pt_vertical t = ptp_vertical a"
      by (auto simp: tree_fixed_def)
  qed (use assms(1) in \<open>auto simp: dash_inv_def keys_ok_def ptp_inv_def\<close>)
  then show ?thesis using assms ids ok by (simp add: dash_inv_def keys_ok_def grown_def del: set_map)
qed

text \<open>New rows.\<close>

lemma inv_new_publisher:
  "dash_inv old d \<Longrightarrow> p_id p \<notin> p_id ` set (publishers d) \<Longrightarrow> p_api_key_hash p \<notin> p_api_key_hash ` set (publishers d)
     \<Longrightarrow> dash_inv old (d\<lparr>publishers := publishers d @ [p]\<rparr>)"
  by (auto simp: dash_inv_def keys_ok_def grown_def ptp_inv_def list_all_iff)

lemma inv_new_campaign:
  "dash_inv old d \<Longrightarrow> c_id c \<notin> c_id ` set (campaigns d) \<Longrightarrow> c_campaign_token c \<notin> c_campaign_token ` set (campaigns d)
     \<Longrightarrow> dash_inv old (d\<lparr>campaigns := campaigns d @ [c]\<rparr>)"
  by (auto simp: dash_inv_def keys_ok_def grown_def ptp_inv_def list_all_iff)

lemma inv_new_tree:
  assumes "dash_inv old d" and "pt_id t \<notin> pt_id ` set (ping_trees d)" and "tree_name t \<notin> tree_name ` set (ping_trees d)"
    and "tree_ok (instances d) t"
  shows "dash_inv old (d\<lparr>ping_trees := ping_trees d @ [t]\<rparr>)"
proof -
  have "ptp_inv d" using assms(1) by (simp add: dash_inv_def keys_ok_def)
  then have "ptp_inv (d\<lparr>ping_trees := ping_trees d @ [t]\<rparr>)" unfolding ptp_inv_def by auto
  then show ?thesis using assms by (auto simp: dash_inv_def keys_ok_def grown_def)
qed

lemma inv_members:
  "dash_inv old d \<Longrightarrow> distinct (map member_key ms) \<Longrightarrow> set (map member_key ms) \<subseteq> pt_id ` set (ping_trees d) \<times> c_id ` set (campaigns d)
     \<Longrightarrow> dash_inv old (d\<lparr>ping_tree_campaigns := ms\<rparr>)"
  by (auto simp: dash_inv_def keys_ok_def grown_def ptp_inv_def list_all_iff)

lemma inv_log [simp]: "dash_inv old (d\<lparr>audit_logs := ls\<rparr>) = dash_inv old d"
  "dash_inv old (d\<lparr>db_next_id := n\<rparr>) = dash_inv old d"
  "dash_inv old (d\<lparr>buyer_qualification_configs := rs\<rparr>) = dash_inv old d"
  "dash_inv old (d\<lparr>buyer_zip_lists := zl\<rparr>) = dash_inv old d" "dash_inv old (d\<lparr>buyer_zip_codes := zc\<rparr>) = dash_inv old d"
  by (simp_all add: dash_inv_def keys_ok_def grown_def ptp_inv_def)

section \<open>Statements\<close>

lemma inv_update_publishers:
  assumes "dash_inv old d" and "retains publisher_fixed f" and "retains p_api_key_hash f"
  shows "dash_inv old (d\<lparr>publishers := update_rows p f (publishers d)\<rparr>)"
  using assms by (intro inv_publishers) (simp_all add: map_update_retains dash_inv_def keys_ok_def)

lemma inv_update_campaigns:
  assumes "dash_inv old d" and "retains campaign_fixed f"
  shows "dash_inv old (d\<lparr>campaigns := update_rows p f (campaigns d)\<rparr>)"
  using assms by (intro inv_campaigns) (simp_all add: map_update_retains)

lemma inv_publisher_stmts:
  "preserves (dash_inv old) (insert_publisher p)"
  "preserves (dash_inv old) (soft_delete_publisher i)"
  "preserves (dash_inv old) (set_hmac_secret i h pre)"
  "preserves (dash_inv old) (update_publisher_row i u)"
  unfolding insert_publisher_def soft_delete_publisher_def set_hmac_secret_def update_publisher_row_def
  by (rule inv_stmt; auto simp: list_ex_iff retains_def publisher_fixed_def set_publisher_def
        intro!: inv_new_publisher inv_update_publishers)+

lemma inv_insert_vertical: "preserves (dash_inv old) (insert_vertical p v)"
  unfolding insert_vertical_def
  by (rule inv_stmt) (auto simp: dash_inv_def keys_ok_def grown_def ptp_inv_def)

text \<open>Rows that get another key: it is no one else's.\<close>

lemma distinct_update_rows:
  assumes "distinct (map k rs)" and "distinct (map h rs)"
    and clash: "\<And>r r'. r \<in> set rs \<Longrightarrow> r' \<in> set rs \<Longrightarrow> p r \<Longrightarrow> h r' = h (f r) \<Longrightarrow> k r' = k r"
    and one: "\<And>r r'. p r \<Longrightarrow> p r' \<Longrightarrow> k r = k r'"
  shows "distinct (map h (update_rows p f rs))"
proof -
  define g where "g r = h (if p r then f r else r)" for r
  have "inj_on g (set rs)"
  proof (rule inj_onI)
    fix r r'
    assume rs: "r \<in> set rs" "r' \<in> set rs" and eq: "g r = g r'"
    have inj: "inj_on h (set rs)" "inj_on k (set rs)" using assms(1,2) by (simp_all add: distinct_map)
    have "k r = k r' \<or> h r = h r'"
      using eq one [of r r'] clash [OF rs] clash [OF rs(2,1)] by (auto simp: g_def split: if_splits)
    then show "r = r'" using inj rs by (auto dest: inj_onD)
  qed
  then show ?thesis using assms(1) by (simp add: update_rows_def g_def [abs_def] distinct_map comp_def)
qed

lemma inv_set_api_key: "preserves (dash_inv old) (set_api_key i h e)"
  unfolding set_api_key_def
proof (rule inv_stmt)
  fix d
  assume inv: "dash_inv old d"
  define f where "f p = p\<lparr>p_api_key_hash := h, p_api_key_prefix := ''pk_live_'', p_api_key_encrypted := Some e,
    p_updated_at := db_now d\<rparr>" for p :: Publisher
  let ?hit = "\<lambda>p. p_id p = i \<and> p_deleted_at p = None"
  have "dash_inv old (d\<lparr>publishers := update_rows ?hit f (publishers d)\<rparr>)"
    if "\<not> (list_ex (\<lambda>p. p_id p \<noteq> i \<and> p_api_key_hash p = h) (publishers d) \<and> list_ex ?hit (publishers d))"
  proof (rule inv_publishers [OF inv])
    show "map publisher_fixed (update_rows ?hit f (publishers d)) = map publisher_fixed (publishers d)"
      by (rule map_update_retains) (simp add: retains_def publisher_fixed_def f_def)
    show "distinct (map p_api_key_hash (update_rows ?hit f (publishers d)))"
      by (rule distinct_update_rows [where k = p_id])
        (use inv that in \<open>auto simp: dash_inv_def keys_ok_def f_def list_ex_iff\<close>)
  qed
  then show "dash_inv old (snd (if list_ex (\<lambda>p. p_id p \<noteq> i \<and> p_api_key_hash p = h) (publishers d) \<and> list_ex ?hit (publishers d)
      then (Inl HASH_COLLISION, d)
      else (Inr (), d\<lparr>publishers := update_rows ?hit (\<lambda>p. p\<lparr>p_api_key_hash := h, p_api_key_prefix := ''pk_live_'',
        p_api_key_encrypted := Some e, p_updated_at := db_now d\<rparr>) (publishers d)\<rparr>)))"
    using inv by (simp add: f_def [abs_def])
qed

lemma inv_insert_campaign: "preserves (dash_inv old) (insert_campaign c)"
  unfolding insert_campaign_def by (rule inv_stmt) (auto simp: list_ex_iff intro!: inv_new_campaign)

lemma campaign_touch: "retains campaign_fixed (\<lambda>c. c\<lparr>c_updated_at := t\<rparr>)"
  by (simp add: retains_def campaign_fixed_def)

lemma inv_campaign_row: "(\<And>g. Assign g \<in> set items \<Longrightarrow> retains campaign_fixed g) \<Longrightarrow> preserves (dash_inv old) (update_campaign_row i items)"
  unfolding update_campaign_row_def
proof (rule inv_stmt)
  fix d
  assume items: "\<And>g. Assign g \<in> set items \<Longrightarrow> retains campaign_fixed g" and inv: "dash_inv old d"
  have "retains campaign_fixed f" if "set_clause (items @ [Assign (\<lambda>c. c\<lparr>c_updated_at := db_now d\<rparr>)]) = Some f" for f
    by (rule retains_set_clause [OF that]) (auto intro: items simp: campaign_touch)
  then show "dash_inv old (snd (case set_clause (items @ [Assign (\<lambda>c. c\<lparr>c_updated_at := db_now d\<rparr>)]) of
      None \<Rightarrow> (Inl SYNTAX_ERROR, d)
    | Some f \<Rightarrow> (Inr (), d\<lparr>campaigns := update_rows (\<lambda>c. c_id c = i \<and> c_deleted_at c = None) f (campaigns d)\<rparr>)))"
    using inv by (auto split: option.split intro: inv_update_campaigns)
qed

lemma inv_campaign_updates:
  assumes "\<And>d. retains campaign_fixed (f d)"
  shows "preserves (dash_inv old) (db_stmt (\<lambda>d. (Inr (), d\<lparr>campaigns := update_rows p (f d) (campaigns d)\<rparr>)))"
  by (rule inv_stmt) (simp add: inv_update_campaigns assms)

text \<open>Trees: a change with a status has no statement, the others keep what is fixed.\<close>

lemma inv_update_trees:
  assumes "dash_inv old d" and "retains tree_fixed f" and "retains pt_name f"
  shows "dash_inv old (d\<lparr>ping_trees := update_rows p f (ping_trees d)\<rparr>)"
proof (rule inv_trees [OF assms(1)])
  show "map tree_fixed (update_rows p f (ping_trees d)) = map tree_fixed (ping_trees d)" using assms(2) by (rule map_update_retains)
  have "retains tree_name f" using assms(2,3) by (simp add: retains_def tree_fixed_def tree_name_def)
  then show "distinct (map tree_name (update_rows p f (ping_trees d)))"
    using assms(1) by (simp add: map_update_retains dash_inv_def keys_ok_def)
qed

lemma set_clause_bad: "set_clause [Assign f, Assign g] = None" "set_clause (Comma # items) = None"
  by simp_all

lemma tree_items:
  "snd (tree_name_change t v) = [] \<or> (\<exists>f. snd (tree_name_change t v) = [Assign f, Comma] \<and> retains tree_fixed f)"
  "snd (tree_priority_change t v) = [] \<or> (\<exists>f. snd (tree_priority_change t v) = [Assign f, Comma] \<and> retains tree_fixed f)"
  by (auto simp: tree_name_change_def tree_priority_change_def Let_def retains_def tree_fixed_def split: option.split)

lemma status_clause:
  assumes "Option.bind (json_get v ''status'') as_str = Some st"
  shows "set_clause (snd (tree_changes t v) @ [Assign g]) = None" and "snd (tree_changes t v) \<noteq> []"
  using tree_items [of t v] assms by (auto simp: tree_changes_def tree_status_change_def Let_def)

lemma other_items:
  assumes "Option.bind (json_get v ''status'') as_str = None" and "Assign f \<in> set (snd (tree_changes t v))"
  shows "retains tree_fixed f"
  using tree_items [of t v] assms by (auto simp: tree_changes_def tree_status_change_def Let_def)

lemma tree_clause:
  assumes "set_clause (snd (tree_changes t v) @ [Assign (\<lambda>t. t\<lparr>pt_updated_at := now\<rparr>)]) = Some f"
  shows "retains tree_fixed f"
proof (cases "Option.bind (json_get v ''status'') as_str")
  case None
  have touch: "retains tree_fixed (\<lambda>t. t\<lparr>pt_updated_at := now\<rparr>)" by (simp add: retains_def tree_fixed_def)
  show ?thesis by (rule retains_set_clause [OF assms]) (auto intro: other_items [OF None] simp: touch)
qed (use assms status_clause(1) in auto)

lemma inv_tree_row: "preserves (dash_inv old) (update_tree_row i (snd (tree_changes t v)))"
  unfolding update_tree_row_def
proof (rule inv_stmt)
  fix d
  assume inv: "dash_inv old d"
  let ?hit = "\<lambda>t. pt_id t = i \<and> pt_deleted_at t = None"
  let ?clash = "\<lambda>f. list_ex (\<lambda>t. pt_id t = i \<and> pt_deleted_at t = None \<and>
       list_ex (\<lambda>r. pt_id r \<noteq> i \<and> tree_name r = tree_name (f t)) (ping_trees d)) (ping_trees d)"
  have ids: "distinct (map pt_id (ping_trees d))" "distinct (map tree_name (ping_trees d))"
    using inv by (simp_all add: dash_inv_def keys_ok_def)
  have "dash_inv old (d\<lparr>ping_trees := update_rows ?hit f (ping_trees d)\<rparr>)"
    if f: "retains tree_fixed f" and ok: "\<not> ?clash f" for f
  proof (rule inv_trees [OF inv map_update_retains [OF f]])
    show "distinct (map tree_name (update_rows ?hit f (ping_trees d)))"
      by (rule distinct_update_rows [OF ids]) (use ok in \<open>auto simp: list_ex_iff\<close>)
  qed
  then show "dash_inv old (snd (case set_clause (snd (tree_changes t v) @ [Assign (\<lambda>t. t\<lparr>pt_updated_at := db_now d\<rparr>)]) of
       None \<Rightarrow> (Inl SYNTAX_ERROR, d)
     | Some f \<Rightarrow> if ?clash f then (Inl UNIQUE_VIOLATION, d)
         else (Inr (), d\<lparr>ping_trees := update_rows ?hit f (ping_trees d)\<rparr>)))"
    using inv tree_clause by (auto split: option.split)
qed

lemma inv_insert_tree:
  assumes "ct_strategy c = ''ping_post'' \<or> ct_strategy c = ''fullpost''"
  shows "preserves (dash_inv old) (insert_tree (new_tree i inst c))"
  unfolding insert_tree_def using assms
  by (intro inv_stmt) (auto simp: list_ex_iff tree_ok_def tree_name_def new_tree_def intro!: inv_new_tree)

lemma inv_delete_tree:
  "preserves (dash_inv old) (db_stmt (\<lambda>d. (Inr (), d\<lparr>ping_trees :=
     update_rows (\<lambda>t. pt_id t = i) (\<lambda>t. t\<lparr>pt_deleted_at := Some (db_now d)\<rparr>) (ping_trees d)\<rparr>)))"
  by (rule inv_stmt) (simp add: inv_update_trees retains_def tree_fixed_def)

text \<open>Members and assignments.\<close>

lemma inv_member_insert:
  assumes "\<And>now. retains member_key (g now)"
  shows "preserves (dash_inv old) (insert_tree_member tree c prio g)"
  unfolding insert_tree_member_def
proof (rule inv_stmt)
  fix d
  assume inv: "dash_inv old d"
  have keys: "distinct (map member_key (ping_tree_campaigns d))"
    "set (map member_key (ping_tree_campaigns d)) \<subseteq> pt_id ` set (ping_trees d) \<times> c_id ` set (campaigns d)"
    using inv by (simp_all add: dash_inv_def keys_ok_def)
  have upd: "dash_inv old (d\<lparr>ping_tree_campaigns := update_rows p (g (db_now d)) (ping_tree_campaigns d)\<rparr>)" for p
    using keys map_update_retains [OF assms] by (intro inv_members inv) simp_all
  have ins: "dash_inv old (d\<lparr>ping_tree_campaigns := ping_tree_campaigns d @ [m]\<rparr>)"
    if "\<not> tree_member_exists d tree c" "tree \<in> pt_id ` set (ping_trees d)" "c \<in> c_id ` set (campaigns d)"
      "member_key m = (tree, c)" for m
    using keys that by (intro inv_members inv) (auto simp: tree_member_exists_def list_ex_iff member_key_def)
  show "dash_inv old (snd (if tree_member_exists d tree c
     then (Inr (), d\<lparr>ping_tree_campaigns := update_rows (\<lambda>m. ptc_ping_tree_id m = tree \<and> ptc_campaign_id m = c)
       (g (db_now d)) (ping_tree_campaigns d)\<rparr>)
     else if tree \<notin> pt_id ` set (ping_trees d) \<or> c \<notin> c_id ` set (campaigns d)
     then (Inl ''insert or update on table ping_tree_campaigns violates foreign key constraint'', d)
     else (Inr (), d\<lparr>ping_tree_campaigns := ping_tree_campaigns d @ [\<lparr> ptc_id = of_int (db_next_id d),
        ptc_ping_tree_id = tree, ptc_campaign_id = c, ptc_priority = prio, ptc_min_price = None,
        ptc_max_price = None, ptc_enabled = True, ptc_created_at = db_now d, ptc_updated_at = db_now d \<rparr>],
        db_next_id := db_next_id d + 1\<rparr>)))"
    using inv upd by (auto simp: member_key_def intro!: ins)
qed

lemma inv_member_delete: "preserves (dash_inv old) (delete_tree_member tree c)"
  unfolding delete_tree_member_def
proof (rule inv_stmt)
  fix d
  assume inv: "dash_inv old d"
  then have "distinct (map member_key (ping_tree_campaigns d))"
    "member_key ` set (ping_tree_campaigns d) \<subseteq> pt_id ` set (ping_trees d) \<times> c_id ` set (campaigns d)"
    by (simp_all add: dash_inv_def keys_ok_def)
  then have "dash_inv old (d\<lparr>ping_tree_campaigns := filter P (ping_tree_campaigns d)\<rparr>)" for P
    by (intro inv_members inv) (auto simp: distinct_map_filter)
  then show "dash_inv old (snd (Inr (), d\<lparr>ping_tree_campaigns :=
     filter (\<lambda>m. \<not> (ptc_ping_tree_id m = tree \<and> ptc_campaign_id m = c)) (ping_tree_campaigns d)\<rparr>))" by simp
qed

text \<open>Only the assignments change.\<close>

definition other_tables where
  "other_tables d = (publishers d, campaigns d, ping_trees d, ping_tree_campaigns d, publisher_verticals d, verticals d, instances d)"

lemma inv_assignments:
  assumes "preserves ptp_inv m" and "frame other_tables m"
  shows "preserves (dash_inv old) m"
proof (rule preservesI)
  fix d
  assume inv: "dash_inv old d"
  have "ptp_inv (snd (m d))" using preserves_snd [OF assms(1)] inv by (simp add: dash_inv_def keys_ok_def)
  moreover have "other_tables (snd (m d)) = other_tables d" using assms(2) by (simp add: frame_def)
  ultimately show "dash_inv old (snd (m d))" using inv by (simp add: dash_inv_def keys_ok_def grown_def other_tables_def)
qed

lemma other_tables_stmt: "frame other_tables q \<Longrightarrow> frame other_tables (db_stmt q)"
  by (auto simp: frame_def db_stmt_def other_tables_def split: list.split option.split)

lemma ptp_inv_insert': "valid_revshare (ptp_revshare_percentage a) (ptp_revshare_flat_amount a) \<Longrightarrow>
    \<exists>t \<in> set (ping_trees d). pt_id t = ptp_ping_tree_id a \<and> pt_vertical t = ptp_vertical a \<Longrightarrow> ptp_inv d \<Longrightarrow>
    ptp_inv (snd (insert_ptp a d))"
  using ptp_conflict_sym
  by (auto simp: insert_ptp_def db_stmt_def ptp_inv_def sorted_wrt_append list_ex_iff split: list.split option.split)

lemma other_tables_basic: "frame other_tables (insert_ptp a)" "frame other_tables (db_query_one f)" "frame other_tables (validated_revshare x y)"
  unfolding insert_ptp_def db_query_one_def validated_revshare_def
  by (rule other_tables_stmt, simp add: frame_def other_tables_def, rule other_tables_stmt, simp add: frame_def,
      intro frame_intros)

lemma query_one_run:
  assumes "\<And>fs. f (d\<lparr>db_faults := fs\<rparr>) = f d"
  shows "\<exists>r fs. db_query_one f d = (r, d\<lparr>db_faults := fs\<rparr>) \<and> (r = Inr v \<longrightarrow> v \<in> set (f d))"
proof (cases rule: db_stmt_cases [of "\<lambda>d. (fetch_one (f d), d)" d])
  case (fault e fs)
  then show ?thesis unfolding db_query_one_def by (intro exI [of _ "Inl e"] exI [of _ fs]) simp
next
  case (run fs)
  then show ?thesis using assms [of fs] unfolding db_query_one_def
    by (intro exI [of _ "fetch_one (f d)"] exI [of _ fs]) (auto simp: fetch_one_def split: list.splits)
qed

lemma ptp_inv_create: "preserves ptp_inv (PingTreePublisher_create i tree p v pct flat)"
proof (rule preservesI)
  fix d
  assume inv: "ptp_inv d"
  obtain pct' flat' where pf: "apply_defaults pct flat = (pct', flat')" by force
  define row where "row d = \<lparr> ptp_id = i, ptp_ping_tree_id = tree, ptp_publisher_id = p, ptp_vertical = v,
      ptp_revshare_percentage = pct', ptp_revshare_flat_amount = flat', ptp_created_at = db_now d, ptp_updated_at = db_now d \<rparr>" for d :: db
  define verts where "verts d = map pt_vertical (filter (\<lambda>t. pt_id t = tree \<and> pt_deleted_at t = None) (ping_trees d))" for d :: db
  have run: "PingTreePublisher_create i tree p v pct flat d =
      io_bind (validated_revshare pct' flat') (\<lambda>_. io_bind (db_query_one verts) (\<lambda>v'.
        if v \<noteq> v' then io_err ROW_NOT_FOUND else (\<lambda>d. insert_ptp (row d) d))) d"
    by (simp add: PingTreePublisher_create_def pf row_def verts_def [abs_def] io_bind_def io_get_def cong: if_cong)
  show "ptp_inv (snd (PingTreePublisher_create i tree p v pct flat d))"
  proof (cases "validate_revshare pct' flat'")
    case (Inl e)
    then show ?thesis using inv unfolding run by (simp add: validated_revshare_def io_simps)
  next
    case (Inr u)
    then have ok: "valid_revshare pct' flat'" using validate_after_defaults [of pct flat] pf by simp
    obtain r fs where q: "db_query_one verts d = (r, d\<lparr>db_faults := fs\<rparr>)" and r: "r = Inr v \<Longrightarrow> v \<in> set (verts d)"
      using query_one_run [of verts d v] by (auto simp: verts_def)
    have "ptp_inv (snd (insert_ptp (row d') d'))" if "v \<in> set (verts d)" "d' = d\<lparr>db_faults := fs\<rparr>" for d'
      using that inv ok by (intro ptp_inv_insert') (auto simp: row_def verts_def)
    then show ?thesis using Inr q r inv unfolding run by (auto simp: validated_revshare_def io_simps split: sum.split)
  qed
qed

lemma inv_assignment_stmts:
  "preserves (dash_inv old) (PingTreePublisher_create i tree p v pct flat)"
  "preserves (dash_inv old) (PingTreePublisher_delete tree p)"
  "preserves (dash_inv old) (PingTreePublisher_update_revshare i pct flat)"
proof -
  have "frame other_tables (PingTreePublisher_create i tree p v pct flat)"
    unfolding PingTreePublisher_create_def by (intro frame_intros other_tables_basic)
  then show "preserves (dash_inv old) (PingTreePublisher_create i tree p v pct flat)"
    by (intro inv_assignments ptp_inv_create)
  have "frame other_tables (PingTreePublisher_delete tree p)"
    unfolding PingTreePublisher_delete_def by (rule other_tables_stmt) (simp add: frame_def other_tables_def)
  then show "preserves (dash_inv old) (PingTreePublisher_delete tree p)" by (intro inv_assignments ptp_inv_delete)
  have "frame other_tables (PingTreePublisher_update_revshare i pct flat)"
    unfolding PingTreePublisher_update_revshare_def
    by (intro frame_intros other_tables_basic other_tables_stmt) (simp add: frame_def other_tables_def Let_def)
  then show "preserves (dash_inv old) (PingTreePublisher_update_revshare i pct flat)"
    by (intro inv_assignments ptp_inv_update)
qed

section \<open>Handlers\<close>

lemmas handler_intros = tabs.handlers
  inv_publisher_stmts inv_insert_vertical inv_set_api_key inv_insert_campaign inv_tree_row inv_delete_tree
  inv_member_insert inv_member_delete inv_assignment_stmts

lemma inv_publisher_handlers:
  "preserves (\<lambda>s. dash_inv old (p_db s)) (list_publishers X user)"
  "preserves (\<lambda>s. dash_inv old (p_db s)) (create_publisher X sha cfg user q c)"
  "preserves (\<lambda>s. dash_inv old (p_db s)) (get_publisher X i)"
  "preserves (\<lambda>s. dash_inv old (p_db s)) (update_publisher X user q i u)"
  "preserves (\<lambda>s. dash_inv old (p_db s)) (delete_publisher X user q i)"
  "preserves (\<lambda>s. dash_inv old (p_db s)) (regenerate_publisher_api_key X sha cfg user q i)"
  "preserves (\<lambda>s. dash_inv old (p_db s)) (get_publisher_api_key X cfg user i)"
  "preserves (\<lambda>s. dash_inv old (p_db s)) (generate_publisher_hmac_secret_encrypted X sha user q i)"
  unfolding list_publishers_def create_publisher_def get_publisher_def update_publisher_def delete_publisher_def
    regenerate_publisher_api_key_def get_publisher_api_key_def generate_publisher_hmac_secret_encrypted_def
    instance_publishers_def vertical_rows_def new_api_key_def email_taken_def publisher_by_id_def live_publisher_def
    is_user_admin_def
  by (intro handler_intros)+

lemma campaign_items:
  "Assign f \<in> set (snd (name_change c v)) \<Longrightarrow> retains campaign_fixed f"
  "Assign f \<in> set (snd (status_change c st)) \<Longrightarrow> retains campaign_fixed f"
  "(\<And>u. retains campaign_fixed (g u)) \<Longrightarrow> Assign f \<in> set (snd (id_change X parse k i g v)) \<Longrightarrow> retains campaign_fixed f"
  by (auto simp: name_change_def status_change_def id_change_def retains_def campaign_fixed_def split: option.splits if_splits)

lemma inv_apply_campaign:
  assumes "\<And>g. Assign g \<in> set (snd chg) \<Longrightarrow> retains campaign_fixed g"
  shows "preserves (\<lambda>s. dash_inv old (p_db s)) (apply_campaign_changes X i c chg)"
  unfolding apply_campaign_changes_def Let_def live_campaign_def
  by (intro handler_intros inv_campaign_row assms)

lemma inv_update_campaign: "preserves (\<lambda>s. dash_inv old (p_db s)) (update_campaign X parse i v)"
proof -
  have ids: "retains campaign_fixed (\<lambda>r. r\<lparr>c_publisher_id := p\<rparr>)" "retains campaign_fixed (\<lambda>r. r\<lparr>c_buyer_id := p\<rparr>)" for p
    by (simp_all add: retains_def campaign_fixed_def)
  note items = campaign_items(1,2) campaign_items(3) [OF ids(1)] campaign_items(3) [OF ids(2)]
  show ?thesis
    unfolding update_campaign_def Let_def live_campaign_def in_ping_tree_def
    by (intro handler_intros inv_apply_campaign) (auto dest: items)
qed

lemma inv_campaign_handlers:
  "preserves (\<lambda>s. dash_inv old (p_db s)) (list_campaigns X user)"
  "preserves (\<lambda>s. dash_inv old (p_db s)) (create_campaign X user r)"
  "preserves (\<lambda>s. dash_inv old (p_db s)) (get_campaign X user i)"
  "preserves (\<lambda>s. dash_inv old (p_db s)) (delete_campaign i)"
  unfolding list_campaigns_def create_campaign_def get_campaign_def delete_campaign_def instance_campaigns_def tree_members_def
    own_campaign_def in_ping_tree_def Let_def
  by (intro handler_intros inv_campaign_updates; simp add: retains_def campaign_fixed_def member_key_def)+

lemma inv_create_tree: "preserves (\<lambda>s. dash_inv old (p_db s)) (create_ping_tree X user c)"
proof (cases "ct_strategy c = ''ping_post'' \<or> ct_strategy c = ''fullpost''")
  case True
  then show ?thesis unfolding create_ping_tree_def by (intro handler_intros inv_insert_tree)
qed (simp add: create_ping_tree_def preserves_basic)

lemma inv_tree_handlers:
  "preserves (\<lambda>s. dash_inv old (p_db s)) (list_ping_trees X user)"
  "preserves (\<lambda>s. dash_inv old (p_db s)) (get_ping_tree X D user i)"
  "preserves (\<lambda>s. dash_inv old (p_db s)) (update_ping_tree X i v)"
  "preserves (\<lambda>s. dash_inv old (p_db s)) (delete_ping_tree X i)"
  "preserves (\<lambda>s. dash_inv old (p_db s)) (list_ping_tree_publishers X D i)"
  "preserves (\<lambda>s. dash_inv old (p_db s)) (add_publisher_to_ping_tree X D i a)"
  "preserves (\<lambda>s. dash_inv old (p_db s)) (remove_publisher_from_ping_tree i j)"
  "preserves (\<lambda>s. dash_inv old (p_db s)) (update_ping_tree_publisher_revshare X D i j u)"
  "preserves (\<lambda>s. dash_inv old (p_db s)) (get_publisher_revenue_share X D i)"
  "preserves (\<lambda>s. dash_inv old (p_db s)) (list_verticals X)"
  unfolding list_ping_trees_def get_ping_tree_def update_ping_tree_def delete_ping_tree_def list_ping_tree_publishers_def
    add_publisher_to_ping_tree_def remove_publisher_from_ping_tree_def update_ping_tree_publisher_revshare_def
    get_publisher_revenue_share_def list_verticals_def instance_trees_def publisher_count_def own_tree_def members_of_tree_def
    PingTree_find_by_id_def PingTreePublisher_find_by_ping_tree_def live_publisher_def publisher_assignments_def
    PingTreePublisher_find_by_ping_tree_and_publisher_def Let_def
  by (intro handler_intros)+

lemma inv_member_handlers:
  "preserves (\<lambda>s. dash_inv old (p_db s)) (add_campaign_to_ping_tree X i r)"
  "preserves (\<lambda>s. dash_inv old (p_db s)) (remove_campaign_from_ping_tree X i c)"
  unfolding add_campaign_to_ping_tree_def remove_campaign_from_ping_tree_def PingTree_find_by_id_def live_campaign_def
    in_other_tree_def deactivate_campaign_def
  by (intro handler_intros inv_campaign_updates; simp add: retains_def campaign_fixed_def member_key_def)+

lemma inv_rule_stmts:
  "preserves (dash_inv old) (insert_zip_list i b n ty)"
  "preserves (dash_inv old) (insert_zip i z)"
  "preserves (dash_inv old) (deactivate_rule_sets p)"
  "preserves (dash_inv old) (insert_rule_set num t0 r)"
  "preserves (dash_inv old) (update_rule_set_row num b i items t)"
  "preserves (dash_inv old) (delete_rule_set_row b i)"
  unfolding insert_zip_list_def insert_zip_def deactivate_rule_sets_def insert_rule_set_def update_rule_set_row_def
    delete_rule_set_row_def Let_def
  by (rule inv_stmt; simp split: option.split)+

lemma inv_extract: "preserves (\<lambda>s. dash_inv old (p_db s)) (extract_and_store_zip_codes b config)"
  unfolding extract_and_store_zip_codes_def extract_list_def find_or_create_zip_list_def find_zip_list_def zips_of_list_def
    store_zip_def Let_def
  by (intro handler_intros inv_rule_stmts)

lemma inv_rule_handlers:
  "preserves (\<lambda>s. dash_inv old (p_db s)) (list_buyer_integrations X parse v)"
  "preserves (\<lambda>s. dash_inv old (p_db s)) (list_buyer_rule_sets X b)"
  "preserves (\<lambda>s. dash_inv old (p_db s)) (create_buyer_rule_set X num b c)"
  "preserves (\<lambda>s. dash_inv old (p_db s)) (get_buyer_rule_set X b i)"
  "preserves (\<lambda>s. dash_inv old (p_db s)) (update_buyer_rule_set X num user q b i w)"
  "preserves (\<lambda>s. dash_inv old (p_db s)) (delete_buyer_rule_set X b i)"
  unfolding list_buyer_integrations_def list_buyer_rule_sets_def create_buyer_rule_set_def get_buyer_rule_set_def
    update_buyer_rule_set_def delete_buyer_rule_set_def load_zip_codes_from_tables_def rule_set_of_def live_buyer_def
    config_change_def Let_def
  by (intro handler_intros inv_extract inv_rule_stmts)+

lemma inv_routes: "preserves (\<lambda>s. dash_inv old (p_db s)) (dashboard_routes E user q r)"
  by (cases r) (simp_all add: inv_publisher_handlers inv_campaign_handlers inv_update_campaign inv_create_tree
      inv_tree_handlers inv_member_handlers inv_rule_handlers)

lemma inv_steps: "dash_steps E s s' \<Longrightarrow> dash_inv old (p_db s) \<Longrightarrow> dash_inv old (p_db s')"
proof (induction rule: dash_steps.induct)
  case (request s s1 user q r res s2)
  then show ?case using preservesD [OF inv_routes] by blast
qed simp_all

lemma grown_refl [simp]: "grown d d"
  by (simp add: grown_def)

section \<open>Keys\<close>

text \<open>C12: in every state that requests to the dashboard lead to, whichever statements fail, the tables
  are well formed: publishers, campaigns and ping trees have unique ids, key hashes, tokens and
  names, every tree has an allowed strategy and status and an instance, no campaign is twice in a
  tree, members and verticals refer to rows that exist, and every publisher has at most one tree per
  vertical, with a valid revenue share.\<close>

theorem dashboard_keeps_tables:
  assumes "keys_ok (p_db s)" and "dash_steps E s s'"
  shows "keys_ok (p_db s')"
  using inv_steps [OF assms(2), of "p_db s"] assms(1) by (simp add: dash_inv_def)

section \<open>What no request changes\<close>

text \<open>The row with an id, of which there is one.\<close>

definition the_row :: "('r \<Rightarrow> uuid) \<Rightarrow> uuid \<Rightarrow> 'r list \<Rightarrow> 'r option" where
  "the_row k i rows = first_row (filter (\<lambda>r. k r = i) rows)"

lemma first_row_prefix:
  assumes "prefix (map g xs) (map g ys)" and "\<And>r. k r = fst (g r)" and "the_row k i xs = Some x"
  shows "\<exists>y. the_row k i ys = Some y \<and> g y = g x"
  using assms
proof (induction xs arbitrary: ys)
  case (Cons a xs)
  then obtain b ys' where ys: "ys = b # ys'" "g b = g a" "prefix (map g xs) (map g ys')" by (cases ys) auto
  then show ?case using Cons by (auto simp: the_row_def first_row_def split: if_splits)
qed (simp add: the_row_def first_row_def)

text \<open>C20: however many requests the dashboard serves, and whatever they ask for, a ping tree keeps the
  status it was created with and so does a publisher: neither can be paused, suspended or activated
  again. They also keep their instance, and a tree its vertical and strategy.\<close>

theorem statuses_never_change:
  assumes "keys_ok (p_db s)" and "dash_steps E s s'"
    and "the_row pt_id i (ping_trees (p_db s)) = Some t" and "the_row p_id j (publishers (p_db s)) = Some p"
  shows "(\<exists>t'. the_row pt_id i (ping_trees (p_db s')) = Some t' \<and> pt_status t' = pt_status t
            \<and> pt_instance_id t' = pt_instance_id t \<and> pt_vertical t' = pt_vertical t \<and> pt_strategy t' = pt_strategy t)
       \<and> (\<exists>p'. the_row p_id j (publishers (p_db s')) = Some p' \<and> p_status p' = p_status p
            \<and> p_instance_id p' = p_instance_id p)"
proof -
  have "grown (p_db s) (p_db s')" using inv_steps [OF assms(2), of "p_db s"] assms(1) by (simp add: dash_inv_def)
  then have trees: "prefix (map tree_fixed (ping_trees (p_db s))) (map tree_fixed (ping_trees (p_db s')))"
    and pubs: "prefix (map publisher_fixed (publishers (p_db s))) (map publisher_fixed (publishers (p_db s')))"
    by (simp_all add: grown_def)
  obtain t' where "the_row pt_id i (ping_trees (p_db s')) = Some t'" "tree_fixed t' = tree_fixed t"
    using first_row_prefix [OF trees _ assms(3)] by (auto simp: tree_fixed_def)
  moreover obtain p' where "the_row p_id j (publishers (p_db s')) = Some p'" "publisher_fixed p' = publisher_fixed p"
    using first_row_prefix [OF pubs _ assms(4)] by (auto simp: publisher_fixed_def)
  ultimately show ?thesis by (simp add: tree_fixed_def publisher_fixed_def)
qed

text \<open>Queries leave the tables, whatever fails.\<close>

lemma in_db_tables:
  assumes "in_db m s = (res, s')" and "frame tables m"
  shows "p_tables s' = p_tables s"
  using assms by (auto simp: in_db_def in_world_def on_db_def p_tables_def frame_def split: prod.splits) (metis snd_conv)

lemma failing_stmt:
  assumes "\<And>d. \<exists>e. q d = (Inl e, d)"
  shows "\<exists>e s'. in_db (db_stmt q) s = (Inl e, s') \<and> p_tables s' = p_tables s"
proof (cases rule: db_stmt_cases [of q "p_db s"])
  case (fault e fs)
  then show ?thesis by (simp add: in_db_run p_tables_def tables_def)
next
  case (run fs)
  obtain e where "q ((p_db s)\<lparr>db_faults := fs\<rparr>) = (Inl e, (p_db s)\<lparr>db_faults := fs\<rparr>)" using assms by blast
  then have "db_stmt q (p_db s) = (Inl e, (p_db s)\<lparr>db_faults := fs\<rparr>)" using run by simp
  then show ?thesis by (simp add: in_db_run p_tables_def tables_def)
qed

text \<open>a request that names a status for a ping tree is answered 500, or 404 when there is no such
  tree, and so is one that names a status for a publisher; neither changes a table. For the tree the
  statement put together is malformed, for the publisher the database does not take a text for the
  enumeration.\<close>

theorem status_requests_fail:
  assumes "Option.bind (json_get v ''status'') as_str = Some st" and "update_ping_tree X i v s = (res, s')"
    and "up_status u = Some st'" and "update_publisher X user q j u s = (res', s'')"
  shows "res \<in> {Inr (STATUS 404), Inr (STATUS 500)} \<and> p_tables s' = p_tables s
       \<and> res' \<in> {Inr (STATUS 404), Inr (STATUS 500)} \<and> p_tables s'' = p_tables s"
proof -
  have row: "\<exists>e s2. in_db (update_tree_row i (snd (tree_changes t v))) s1 = (Inl e, s2) \<and> p_tables s2 = p_tables s1" for t s1
    unfolding update_tree_row_def by (rule failing_stmt) (simp add: status_clause(1) [OF assms(1)])
  have row': "\<exists>e s2. in_db (update_publisher_row j u) s1 = (Inl e, s2) \<and> p_tables s2 = p_tables s1" for s1
    unfolding update_publisher_row_def using assms(3) by (intro failing_stmt) simp
  have tree: "frame tables (PingTree_find_by_id i)" "frame tables (live_publisher j)"
    unfolding PingTree_find_by_id_def live_publisher_def by (intro frame_intros)+
  have "res \<in> {Inr (STATUS 404), Inr (STATUS 500)} \<and> p_tables s' = p_tables s"
    using assms(2) unfolding update_ping_tree_def
  proof (cases rule: or_answer_cases)
    case (failed e)
    then show ?thesis using in_db_tables [OF _ tree(1)] by auto
  next
    case (ran found s1)
    have s1: "p_tables s1 = p_tables s" using in_db_tables [OF ran(1) tree(1)] .
    show ?thesis
    proof (cases found)
      case (Some t)
      obtain e s2 where e: "in_db (update_tree_row i (snd (tree_changes t v))) s1 = (Inl e, s2)" "p_tables s2 = p_tables s1"
        using row by blast
      then show ?thesis using ran(2) Some s1 status_clause(2) [OF assms(1)]
        by (simp add: Let_def or_answer_def io_bind_def io_try_def io_return_def)
    qed (use ran(2) s1 in \<open>simp add: io_return_def\<close>)
  qed
  moreover have "res' \<in> {Inr (STATUS 404), Inr (STATUS 500)} \<and> p_tables s'' = p_tables s"
    using assms(4) unfolding update_publisher_def
  proof (cases rule: or_answer_cases)
    case (failed e)
    then show ?thesis using in_db_tables [OF _ tree(2)] by auto
  next
    case (ran found s1)
    have s1: "p_tables s1 = p_tables s" using in_db_tables [OF ran(1) tree(2)] .
    show ?thesis
    proof (cases found)
      case (Some p)
      obtain e s2 where "in_db (update_publisher_row j u) s1 = (Inl e, s2)" "p_tables s2 = p_tables s1" using row' by blast
      then show ?thesis using ran(2) Some s1 assms(3)
        by (simp add: has_updates_def or_answer_def io_bind_def io_try_def io_return_def)
    qed (use ran(2) s1 in \<open>simp add: io_return_def\<close>)
  qed
  ultimately show ?thesis by simp
qed

lemma read_run: "db_faults (p_db s) = [] \<Longrightarrow> in_db (db_query f) s = (Inr (f (p_db s)), s)"
  by (simp add: in_db_def in_world_def on_db_def db_query_def db_stmt_ok io_simps)

section \<open>Taking a campaign out of a tree\<close>

definition members_are :: "PingTreeCampaign list \<Rightarrow> Campaign list \<Rightarrow> db \<Rightarrow> bool" where
  "members_are ms cs d \<longleftrightarrow> ping_tree_campaigns d = ms \<and> campaigns d = cs \<and> db_faults d = []"

lemma log_anonymous_run:
  assumes "members_are ms cs (p_db s)"
  shows "\<exists>s'. log_anonymous inst a r i g j s = (Inr (), s') \<and> members_are ms cs (p_db s')"
  using assms by (auto simp: log_anonymous_def in_db_def in_world_def on_db_def create_audit_log_def db_stmt_def current_time_def
      members_are_def io_simps)

lemma delete_member_run:
  assumes "db_faults (p_db s) = []"
  shows "\<exists>s'. in_db (delete_tree_member tree c) s = (Inr (), s')
    \<and> members_are (filter (\<lambda>m. \<not> (ptc_ping_tree_id m = tree \<and> ptc_campaign_id m = c)) (ping_tree_campaigns (p_db s)))
        (campaigns (p_db s)) (p_db s')"
  using assms by (auto simp: delete_tree_member_def in_db_def in_world_def on_db_def db_stmt_def members_are_def)

lemma deactivate_run:
  assumes "members_are ms cs (p_db s)"
  shows "\<exists>s'. io_try (in_db (deactivate_campaign c)) s = (Inr (Inr ()), s') \<and> members_are ms
    (update_rows (\<lambda>r. c_id r = c \<and> c_deleted_at r = None) (\<lambda>r. r\<lparr>c_status := CS_Inactive\<rparr>) cs) (p_db s')"
  using assms by (auto simp: deactivate_campaign_def in_db_def in_world_def on_db_def db_stmt_def members_are_def io_try_def)


section \<open>A sample state\<close>

text \<open>Two instances with a publisher each; the first has a tree with a campaign. The hex texts use the
  letters from a to p.\<close>

definition hex_text :: "string \<Rightarrow> string" where
  "hex_text t = concat (map (\<lambda>c. [char_of (97 + of_char c div 16 :: nat), char_of (97 + of_char c mod 16 :: nat)]) t)"

fun hex_read :: "string \<Rightarrow> string option" where
  "hex_read [] = Some []"
| "hex_read [c] = None"
| "hex_read (a # b # t) = map_option (Cons (char_of (16 * (of_char a - 97) + (of_char b - 97) :: nat))) (hex_read t)"

definition hex_crypto :: extlib where
  "hex_crypto = plain_crypto\<lparr>hex_encode := hex_text, hex_decode := hex_read\<rparr>"

lemma hex_read_text: "hex_read (hex_text t) = Some t"
proof (induction t)
  case (Cons c t)
  have "of_char c div 16 < (16 :: nat)" using nat_of_char_less_256 [of c] by presburger
  then show ?case using Cons by (simp add: hex_text_def char_of_char of_char_of)
qed (simp add: hex_text_def)

lemma hex_crypto_ok: "crypto_ok hex_crypto"
  using plain_crypto_ok by (simp add: crypto_ok_def hex_crypto_def hex_read_text)

definition sample_request :: CreatePublisherRequest where
  "sample_request = \<lparr> cp_name = ''P'', cp_email = ''p@q.r'', cp_instance_id = Some 2, cp_representative_first_name = None,
     cp_representative_last_name = None, cp_address_street = None, cp_address_city = None, cp_address_state = None,
     cp_address_zip = None, cp_timezone = None, cp_ein_tin = None, cp_vertical_ids = None \<rparr>"

definition sample_instance :: "uuid \<Rightarrow> uuid \<Rightarrow> InstanceRow" where
  "sample_instance i user = \<lparr> ins_id = i, ins_name = [], ins_instance_user_id = Some user, ins_deleted_at = None \<rparr>"

definition sample_member :: PingTreeCampaign where
  "sample_member = \<lparr> ptc_id = 1, ptc_ping_tree_id = 5, ptc_campaign_id = 3, ptc_priority = Some 1, ptc_min_price = None,
     ptc_max_price = None, ptc_enabled = True, ptc_created_at = 0, ptc_updated_at = 0 \<rparr>"

definition dash_campaign :: Campaign where
  "dash_campaign = \<lparr> c_id = 3, c_buyer_id = 4, c_publisher_id = 9, c_instance_id = 1, c_name = None, c_vertical = ''solar'',
     c_campaign_token = ''t'', c_status = CS_Active, c_is_documentation_test = False, c_deleted_at = None,
     c_created_at = 0, c_updated_at = 0 \<rparr>"

definition dash_db :: "Publisher list \<Rightarrow> db" where
  "dash_db ps = empty_db\<lparr>instances := [sample_instance 1 7, sample_instance 2 8],
     publishers := new_publisher 9 1 ''h'' ''e'' sample_request # ps, ping_trees := [sample_tree],
     campaigns := [dash_campaign], ping_tree_campaigns := [sample_member]\<rparr>"

definition dash_portal :: "Publisher list \<Rightarrow> portal" where
  "dash_portal ps = \<lparr> px_world = sample_world (dash_db ps), px_mails = [], px_mail_faults = [] \<rparr>"

definition sample_call :: http_call where
  "sample_call = \<lparr> hc_headers = [], hc_body = Inr [] \<rparr>"

lemma dash_parts [simp]:
  "db_faults (p_db (dash_portal ps)) = []" "publishers (p_db (dash_portal ps)) = new_publisher 9 1 ''h'' ''e'' sample_request # ps"
  "ping_trees (p_db (dash_portal ps)) = [sample_tree]" "instances (p_db (dash_portal ps)) = [sample_instance 1 7, sample_instance 2 8]"
  "campaigns (p_db (dash_portal ps)) = [dash_campaign]" "ping_tree_campaigns (p_db (dash_portal ps)) = [sample_member]"
  "verticals (p_db (dash_portal ps)) = []" "publisher_verticals (p_db (dash_portal ps)) = []"
  "ping_tree_publishers (p_db (dash_portal ps)) = []"
  by (simp_all add: dash_portal_def dash_db_def sample_world_def WriteBehindQueue_new_def empty_db_def)

lemma new_publisher_parts [simp]:
  "p_id (new_publisher i inst h e c) = i" "p_api_key_hash (new_publisher i inst h e c) = h"
  "p_instance_id (new_publisher i inst h e c) = inst" "p_deleted_at (new_publisher i inst h e c) = None"
  "p_status (new_publisher i inst h e c) = PS_Active"
  by (simp_all add: new_publisher_def)

lemma dash_keys: "keys_ok (p_db (dash_portal []))" "keys_ok (p_db (dash_portal [new_publisher 10 2 ''i'' ''e'' sample_request]))"
  by (simp_all add: keys_ok_def tree_ok_def sample_tree_def sample_instance_def dash_campaign_def sample_member_def member_key_def ptp_inv_def)

definition sample_dashlib :: dashlib where
  "sample_dashlib = \<lparr> dx_ext = hex_crypto, dx_dec = \<lparr> dl_of_f64 = (\<lambda>_. None), dl_to_f64 = (\<lambda>_. None), dl_text = (\<lambda>_. []) \<rparr>,
     dx_sha = (\<lambda>k. k), dx_parse = (\<lambda>_. None), dx_numeric = Some, dx_cfg = sample_config\<lparr>cf_encryption_key := replicate 32 CHR ''k''\<rparr> \<rparr>"

theorem dashboard_keeps_tables_witness:
  "keys_ok (p_db (snd (dashboard_routes sample_dashlib sample_user sample_call (CreatePublisher sample_request) (dash_portal []))))"
proof -
  obtain res s' where run: "dashboard_routes sample_dashlib sample_user sample_call (CreatePublisher sample_request) (dash_portal []) = (res, s')"
    by force
  show ?thesis using dashboard_keeps_tables [OF dash_keys(1) dash_steps.request [OF dash_steps.none run]] run by simp
qed

theorem statuses_never_change_witness:
  "\<exists>t'. the_row pt_id 5 (ping_trees (p_db (snd (dashboard_routes sample_dashlib sample_user sample_call
      (UpdatePingTree 5 (JObj [(''name'', JStr ''n'')])) (dash_portal []))))) = Some t' \<and> pt_status t' = ''active''"
proof -
  obtain res s' where run: "dashboard_routes sample_dashlib sample_user sample_call
      (UpdatePingTree 5 (JObj [(''name'', JStr ''n'')])) (dash_portal []) = (res, s')" by force
  have "the_row pt_id 5 (ping_trees (p_db (dash_portal []))) = Some sample_tree"
    "the_row p_id 9 (publishers (p_db (dash_portal []))) = Some (new_publisher 9 1 ''h'' ''e'' sample_request)"
    by (simp_all add: the_row_def first_row_def sample_tree_def)
  from statuses_never_change [OF dash_keys(1) dash_steps.request [OF dash_steps.none run] this] run
  show ?thesis by (auto simp: sample_tree_def)
qed

definition status_update :: UpdatePublisherRequest where
  "status_update = \<lparr> up_name = None, up_email = None, up_status = Some ''suspended'', up_hmac_required = None,
     up_representative_first_name = None, up_representative_last_name = None, up_address_street = None, up_address_city = None,
     up_address_state = None, up_address_zip = None, up_timezone = None, up_ein_tin = None \<rparr>"

theorem status_requests_fail_witness:
  "fst (update_ping_tree hex_crypto 5 (JObj [(''status'', JStr ''paused'')]) (dash_portal [])) \<in> {Inr (STATUS 404), Inr (STATUS 500)}"
proof -
  let ?v = "JObj [(''status'', JStr ''paused'')]"
  have "Option.bind (json_get ?v ''status'') as_str = Some ''paused''" by (simp add: json_get_def obj_get_def)
  moreover obtain res s' where tree: "update_ping_tree hex_crypto 5 ?v (dash_portal []) = (res, s')" by force
  moreover have "up_status status_update = Some ''suspended''" by (simp add: status_update_def)
  moreover obtain res' s'' where "update_publisher hex_crypto sample_user sample_call 9 status_update (dash_portal []) = (res', s'')" by force
  ultimately show ?thesis using status_requests_fail [of ?v] by (metis fst_conv)
qed


end
