(* ===== verification/DashboardKeys.thy ===== *)
theory DashboardKeys
  imports DashboardProps
begin

text \<open>
  Properties of the keys of publishers: the dashboard's answers, the rows and what the lead routes make
  of a key agree, and who may ask for a new key or read one.
\<close>

section \<open>Keys of publishers\<close>

text \<open>What is known of the texts of the libraries: hex digits are two per byte, and neither spaces nor
  outside ASCII, which is valid UTF-8; base64 text is empty for nothing else than the empty text.\<close>

definition text_ok :: "extlib \<Rightarrow> bool" where
  "text_ok X \<longleftrightarrow> (\<forall>x. length (hex_encode X x) = 2 * length x
       \<and> list_all (\<lambda>c. \<not> is_space c \<and> of_char c < (128 :: nat)) (hex_encode X x))
     \<and> (\<forall>t. list_all (\<lambda>c. of_char c < (128 :: nat)) t \<longrightarrow> utf8_valid X t)
     \<and> (\<forall>x. b64_encode X x = [] \<longrightarrow> x = [])"

text \<open>The row of publisher \<open>i\<close> carries the key, as a hash and encrypted.\<close>

definition carries_key :: "extlib \<Rightarrow> (string \<Rightarrow> string) \<Rightarrow> AppConfig \<Rightarrow> uuid \<Rightarrow> string \<Rightarrow> Publisher \<Rightarrow> bool" where
  "carries_key X sha cfg i k p \<longleftrightarrow> p_id p = i \<and> p_deleted_at p = None \<and> p_api_key_hash p = sha k
     \<and> (\<exists>e. p_api_key_encrypted p = Some e \<and> e \<noteq> []
          \<and> result_bind (EncryptionService_new (cf_encryption_key cfg)) (\<lambda>key. decrypt X key e) = Inr k)"

definition administers :: "db \<Rightarrow> User \<Rightarrow> uuid \<Rightarrow> bool" where
  "administers d user inst \<longleftrightarrow>
     list_ex (\<lambda>i. ins_instance_user_id i = Some (u_id user) \<and> ins_deleted_at i = None \<and> ins_id i = inst) (instances d)"

definition api_key_text :: "string \<Rightarrow> bool" where
  "api_key_text k \<longleftrightarrow> k \<noteq> [] \<and> trim k = k"

lemma trim_id: "list_all (\<lambda>c. \<not> is_space c) k \<Longrightarrow> trim k = k"
proof -
  assume k: "list_all (\<lambda>c. \<not> is_space c) k"
  have "list_all (\<lambda>c. \<not> is_space c) xs \<Longrightarrow> dropWhile is_space xs = xs" for xs by (cases xs) simp_all
  from this [of k] this [of "rev k"] show "trim k = k" using k by (simp add: trim_def)
qed

lemma key_found:
  assumes "keys_ok d" and "p \<in> set (publishers d)" and "carries_key X sha cfg i k p" and "db_faults d = []" and "api_key_text k"
  shows "Publisher_find_by_api_key sha k d = (Inr (Some p), d)"
proof -
  have "first_row (map id (filter (\<lambda>x. p_api_key_hash x = p_api_key_hash p \<and> p_deleted_at x = None) (publishers d))) = Some (id p)"
    using assms(1-3) by (intro first_row_unique) (auto simp: keys_ok_def carries_key_def)
  then have "first_row (filter (\<lambda>x. p_api_key_hash x = sha k \<and> p_deleted_at x = None) (publishers d)) = Some p"
    using assms(3) by (simp add: carries_key_def)
  then show ?thesis
    using assms(4,5) by (simp add: Publisher_find_by_api_key_def Let_def db_query_optional_def db_query_def db_stmt_ok io_simps api_key_text_def)
qed

lemma live_publisher_found:
  assumes "keys_ok d" and "p \<in> set (publishers d)" and "p_id p = i" and "p_deleted_at p = None"
  shows "first_row (filter (\<lambda>p. p_id p = i \<and> p_deleted_at p = None) (publishers d)) = Some p"
proof -
  have "first_row (map id (filter (\<lambda>x. p_id x = p_id p \<and> p_deleted_at x = None) (publishers d))) = Some (id p)"
    using assms by (intro first_row_unique) (auto simp: keys_ok_def)
  then show ?thesis using assms(3) by simp
qed

lemma key_read:
  assumes "keys_ok (p_db s)" and "p \<in> set (publishers (p_db s))" and "carries_key X sha cfg i k p" and "db_faults (p_db s) = []"
  shows "get_publisher_api_key X cfg user i s =
    (Inr (if administers (p_db s) user (p_instance_id p) then succeeded [(''api_key'', JStr k)] else STATUS 403), s)"
proof -
  have "in_db (live_publisher i) s = (Inr (Some p), s)"
    unfolding live_publisher_def query_run [OF assms(4)]
    using live_publisher_found [OF assms(1,2)] assms(3) by (simp add: carries_key_def)
  moreover have "in_db (is_user_admin (u_id user) (Some (p_instance_id p))) s = (Inr (administers (p_db s) user (p_instance_id p)), s)"
    using assms(4) by (simp add: in_db_def in_world_def on_db_def is_user_admin_def db_query_def db_stmt_ok io_simps administers_def)
  moreover obtain e where "p_api_key_encrypted p = Some e" "e \<noteq> []"
    "result_bind (EncryptionService_new (cf_encryption_key cfg)) (\<lambda>key. decrypt X key e) = Inr k"
    using assms(3) by (auto simp: carries_key_def)
  ultimately show ?thesis by (simp add: get_publisher_api_key_def or_answer_run io_return_def)
qed

text \<open>Drawing, encrypting and logging.\<close>

lemma mapM_draw: "\<exists>ws w'. io_mapM (\<lambda>_. draw) xs w = (Inr ws, w') \<and> length ws = length xs \<and> w_queue w' = w_queue w"
proof (induction xs arbitrary: w)
  case (Cons x xs)
  obtain ws w' where "io_mapM (\<lambda>_. draw) xs (w\<lparr>w_random := tl (w_random w)\<rparr>) = (Inr ws, w')"
    "length ws = length xs" "w_queue w' = w_queue (w\<lparr>w_random := tl (w_random w)\<rparr>)" using Cons.IH by blast
  moreover have "draw w = (Inr (pop 0 (w_random w)), w\<lparr>w_random := tl (w_random w)\<rparr>)" by (simp add: draw_def)
  ultimately show ?case by (simp add: io_bind_def io_return_def)
qed (simp add: io_return_def)

lemma draw_bytes_run: "\<exists>b s'. draw_bytes n s = (Inr b, s') \<and> length b = n \<and> p_db s' = p_db s"
proof -
  obtain ws w' where ws: "io_mapM (\<lambda>_. draw) [0..<(n + 15) div 16] (px_world s) = (Inr ws, w')"
    "length ws = length [0..<(n + 15) div 16]" "w_queue w' = w_queue (px_world s)" using mapM_draw by blast
  have "length (concat (map word_bytes ws)) = 16 * length ws"
    by (induction ws) (simp_all add: word_bytes_def)
  moreover have "n \<le> 16 * ((n + 15) div 16)" by presburger
  ultimately show ?thesis using ws by (simp add: draw_bytes_def in_world_def io_bind_def io_return_def)
qed

lemma new_api_key_run:
  assumes "text_ok X"
  shows "\<exists>k s'. new_api_key X s = (Inr k, s') \<and> p_db s' = p_db s \<and> api_key_text k
    \<and> length k = 72 \<and> utf8_valid X k"
proof -
  obtain b s' where b: "draw_bytes 32 s = (Inr b, s')" "length b = 32" "p_db s' = p_db s" using draw_bytes_run by blast
  let ?k = "''pk_live_'' @ hex_encode X b"
  have k: "list_all (\<lambda>c. \<not> is_space c \<and> of_char c < (128 :: nat)) ?k" using assms by (simp add: text_ok_def is_space_def)
  have "list_all (\<lambda>c. \<not> is_space c) ?k" "list_all (\<lambda>c. of_char c < (128 :: nat)) ?k"
    by (rule list.pred_mono_strong [OF k]; blast)+
  then have "trim ?k = ?k" "utf8_valid X ?k" using assms trim_id unfolding text_ok_def by blast+
  moreover have "length ?k = 72" using assms b(2) by (simp add: text_ok_def)
  ultimately show ?thesis using b by (simp add: new_api_key_def io_bind_def io_return_def api_key_text_def)
qed

lemma encrypt_key_run:
  assumes "crypto_ok X" and "text_ok X" and "utf8_valid X k" and "encrypt_key X cfg k s = (Inr e, s')"
  shows "p_db s' = p_db s \<and> e \<noteq> []
    \<and> result_bind (EncryptionService_new (cf_encryption_key cfg)) (\<lambda>key. decrypt X key e) = Inr k"
proof -
  obtain key where key: "EncryptionService_new (cf_encryption_key cfg) = Inr key"
    using assms(4) by (cases "EncryptionService_new (cf_encryption_key cfg)") (simp_all add: encrypt_key_def io_err_def)
  obtain b s1 where b: "draw_bytes 12 s = (Inr b, s1)" "length b = 12" "p_db s1 = p_db s" using draw_bytes_run by blast
  have enc: "encrypt X key b k = Inr e" "s' = s1" using assms(4) key b by (simp_all add: encrypt_key_def io_bind_def)
  then obtain c where c: "aes_encrypt X key b k = Some c" "e = b64_encode X (b @ c)"
    by (cases "aes_encrypt X key b k") (simp_all add: encrypt_def)
  have "aes_decrypt X key b c = Some k" "b64_decode X (b64_encode X (b @ c)) = Some (b @ c)"
    using assms(1) c(1) unfolding crypto_ok_def by blast+
  moreover have "e \<noteq> []" using assms(2) c(2) b(2) unfolding text_ok_def by (metis append_is_Nil_conv list.size(3) zero_neq_numeral)
  ultimately show ?thesis using b(2,3) enc(2) c key assms(3) by (simp add: decrypt_def)
qed

text \<open>Logging touches neither publishers nor instances and never fails.\<close>

definition db_has :: "Publisher list \<Rightarrow> InstanceRow list \<Rightarrow> db \<Rightarrow> bool" where
  "db_has ps is d \<longleftrightarrow> publishers d = ps \<and> instances d = is \<and> db_faults d = []"

lemma log_change_has: "preserves (\<lambda>s. db_has ps is (p_db s)) (log_change X q user a r i f)"
proof -
  have audit: "preserves (db_has ps is) (create_audit_log i1 i2 a1 a2 i3 j1 j2 a3 a4)" for i1 i2 a1 a2 i3 j1 j2 a3 a4
    by (auto simp: preserves_def create_audit_log_def db_has_def db_stmt_def)
  have inst: "preserves (db_has ps is) (get_instance_id_for_user i)" for i
    by (auto simp: preserves_def get_instance_id_for_user_def db_query_optional_def db_query_def db_stmt_def db_has_def io_simps)
  show ?thesis
    unfolding log_change_def by (intro preserves_intros preserves_in_db preserves_in_world audit inst frame_intros)
qed

lemma log_change_total: "\<exists>s'. log_change X q user a r i f s = (Inr (), s')"
proof -
  have "never_fails (log_change X q user a r i f)"
    unfolding log_change_def draw_uuid_def draw_def current_time_def
    by (intro preserves_intros never_fails_in_world) (simp add: never_fails_def)
  then show ?thesis using never_fails_run by (metis (full_types) old.unit.exhaust)
qed

lemma log_change_run:
  assumes "db_faults (p_db s) = []"
  shows "\<exists>s'. log_change X q user a r i f s = (Inr (), s') \<and> db_has (publishers (p_db s)) (instances (p_db s)) (p_db s')"
proof -
  obtain s' where s': "log_change X q user a r i f s = (Inr (), s')" using log_change_total by blast
  then show ?thesis using preservesD [OF log_change_has _ s'] assms by (auto simp: db_has_def)
qed

text \<open>Answering does not depend on what the log does.\<close>

lemma fst_or_answer:
  "(\<And>x s. fst (f x s) = fst (g x s)) \<Longrightarrow> fst (or_answer a m f s) = fst (or_answer a m g s)"
  by (auto simp: or_answer_def io_bind_def io_try_def io_return_def split: prod.split sum.split)

lemma fst_bind: "(\<And>x s. fst (f x s) = fst (g x s)) \<Longrightarrow> fst (io_bind m f s) = fst (io_bind m g s)"
  by (auto simp: io_bind_def split: prod.split sum.split)

lemma fst_logged: "fst (io_bind (log_change X q user a r i f) (\<lambda>_. io_return y) s) = Inr y"
  using log_change_total [of X q user a r i f s] by (auto simp: io_bind_def io_return_def)

lemma regenerate_any_user:
  "fst (regenerate_publisher_api_key X sha cfg user q i s) = fst (regenerate_publisher_api_key X sha cfg user' q' i s)"
  unfolding regenerate_publisher_api_key_def
proof (rule fst_or_answer)
  fix found s
  show "fst (some_or_answer (STATUS 404) found (\<lambda>p. io_bind (new_api_key X) (\<lambda>api_key.
     or_answer (STATUS 500) (encrypt_key X cfg api_key) (\<lambda>encrypted.
     or_answer (STATUS 500) (in_db (set_api_key i (sha api_key) encrypted)) (\<lambda>_.
     io_bind (log_change X q user ''publisher_api_key_rotated'' ''Publisher'' i
       (rotated_details X q ''api_key_rotated'' ''User regenerated API key via dashboard'' ''/regenerate-api-key'' i p)) (\<lambda>_.
     io_return (succeeded [(''api_key'', JStr api_key), (''message'', JStr ''API key regenerated successfully'')])))))) s)
   = fst (some_or_answer (STATUS 404) found (\<lambda>p. io_bind (new_api_key X) (\<lambda>api_key.
     or_answer (STATUS 500) (encrypt_key X cfg api_key) (\<lambda>encrypted.
     or_answer (STATUS 500) (in_db (set_api_key i (sha api_key) encrypted)) (\<lambda>_.
     io_bind (log_change X q' user' ''publisher_api_key_rotated'' ''Publisher'' i
       (rotated_details X q' ''api_key_rotated'' ''User regenerated API key via dashboard'' ''/regenerate-api-key'' i p)) (\<lambda>_.
     io_return (succeeded [(''api_key'', JStr api_key), (''message'', JStr ''API key regenerated successfully'')])))))) s)"
    by (cases found) (simp, simp, intro fst_bind fst_or_answer, simp only: fst_logged)
qed

lemma first_row_filter: "first_row (filter P rs) = Some r \<Longrightarrow> r \<in> set rs \<and> P r"
  using first_row_in [of id P rs r] by auto

lemma set_api_key_run:
  assumes "in_db (set_api_key i h e) s = (Inr u, s')" and "db_faults (p_db s) = []"
  shows "db_has (update_rows (\<lambda>p. p_id p = i \<and> p_deleted_at p = None) (\<lambda>p. p\<lparr>p_api_key_hash := h, p_api_key_prefix := ''pk_live_'',
     p_api_key_encrypted := Some e, p_updated_at := db_now (p_db s)\<rparr>) (publishers (p_db s))) (instances (p_db s)) (p_db s')"
  using assms by (auto simp: in_db_def in_world_def on_db_def set_api_key_def db_stmt_ok db_has_def split: if_splits)

lemma regenerate_success:
  assumes "crypto_ok X" and "text_ok X" and "db_faults (p_db s) = []"
    and run: "regenerate_publisher_api_key X sha cfg user q i s = (Inr reply, s')" and "fst reply = 200"
  shows "\<exists>k p e now. reply = succeeded [(''api_key'', JStr k), (''message'', JStr ''API key regenerated successfully'')] \<and> api_key_text k
     \<and> p \<in> set (publishers (p_db s)) \<and> p_id p = i \<and> p_deleted_at p = None
     \<and> carries_key X sha cfg i k (p\<lparr>p_api_key_hash := sha k, p_api_key_prefix := ''pk_live_'', p_api_key_encrypted := Some e, p_updated_at := now\<rparr>)
     \<and> db_has (update_rows (\<lambda>p. p_id p = i \<and> p_deleted_at p = None) (\<lambda>p. p\<lparr>p_api_key_hash := sha k, p_api_key_prefix := ''pk_live_'',
          p_api_key_encrypted := Some e, p_updated_at := now\<rparr>) (publishers (p_db s))) (instances (p_db s)) (p_db s')"
  using run unfolding regenerate_publisher_api_key_def
proof (cases rule: or_answer_cases)
  case (failed e)
  then show ?thesis using assms(5) by simp
next
  case (ran found s0)
  have s0: "found = first_row (filter (\<lambda>p. p_id p = i \<and> p_deleted_at p = None) (publishers (p_db s)))" "s0 = s"
    using ran(1) by (auto simp add: live_publisher_def query_run [OF assms(3)])
  obtain p where p: "found = Some p" using ran(2) assms(5) by (cases found) (auto simp: io_return_def)
  then have row: "p \<in> set (publishers (p_db s))" "p_id p = i" "p_deleted_at p = None"
    using s0 by (auto dest!: first_row_filter)
  obtain k s1 where k: "new_api_key X s = (Inr k, s1)" "p_db s1 = p_db s" "api_key_text k" "utf8_valid X k"
    using new_api_key_run [OF assms(2)] by blast
  let ?logged = "\<lambda>_. io_bind (log_change X q user ''publisher_api_key_rotated'' ''Publisher'' i
       (rotated_details X q ''api_key_rotated'' ''User regenerated API key via dashboard'' ''/regenerate-api-key'' i p)) (\<lambda>_.
     io_return (succeeded [(''api_key'', JStr k), (''message'', JStr ''API key regenerated successfully'')]))"
  have "or_answer (STATUS 500) (encrypt_key X cfg k) (\<lambda>encrypted.
     or_answer (STATUS 500) (in_db (set_api_key i (sha k) encrypted)) ?logged) s1 = (Inr reply, s')"
    using ran(2) p s0(2) k(1) by (simp add: io_bind_run)
  then show ?thesis
  proof (cases rule: or_answer_cases)
    case (failed e)
    then show ?thesis using assms(5) by simp
  next
    case (ran e s2)
    have e: "p_db s2 = p_db s" "e \<noteq> []" "result_bind (EncryptionService_new (cf_encryption_key cfg)) (\<lambda>key. decrypt X key e) = Inr k"
      using encrypt_key_run [OF assms(1,2) k(4) ran(1)] k(2) by simp_all
    show ?thesis using ran(2)
    proof (cases rule: or_answer_cases)
      case (failed e)
      then show ?thesis using assms(5) by simp
    next
      case (ran u s3)
      have s3: "db_has (update_rows (\<lambda>p. p_id p = i \<and> p_deleted_at p = None) (\<lambda>p. p\<lparr>p_api_key_hash := sha k, p_api_key_prefix := ''pk_live_'',
          p_api_key_encrypted := Some e, p_updated_at := db_now (p_db s)\<rparr>) (publishers (p_db s))) (instances (p_db s)) (p_db s3)"
        using set_api_key_run [OF ran(1)] e(1) assms(3) by simp
      obtain s4 where s4: "log_change X q user ''publisher_api_key_rotated'' ''Publisher'' i
         (rotated_details X q ''api_key_rotated'' ''User regenerated API key via dashboard'' ''/regenerate-api-key'' i p) s3 = (Inr (), s4)"
        "db_has (publishers (p_db s3)) (instances (p_db s3)) (p_db s4)"
        using log_change_run s3 unfolding db_has_def by blast
      have "reply = succeeded [(''api_key'', JStr k), (''message'', JStr ''API key regenerated successfully'')]" "s' = s4"
        using ran(2) s4(1) by (simp_all add: io_bind_run io_return_def)
      moreover have "carries_key X sha cfg i k
          (p\<lparr>p_api_key_hash := sha k, p_api_key_prefix := ''pk_live_'', p_api_key_encrypted := Some e, p_updated_at := db_now (p_db s)\<rparr>)"
        using row e by (simp add: carries_key_def)
      ultimately show ?thesis using row k(3) s3 s4(2)
        by (intro exI [of _ k] exI [of _ p] exI [of _ e] exI [of _ "db_now (p_db s)"]) (simp add: db_has_def)
    qed
  qed
qed

lemma old_key_gone:
  assumes "db_faults d = []" and "keys_ok d" and "Publisher_find_by_api_key sha k0 d = (Inr (Some p0), d)" and "p_id p0 = i"
    and "sha (trim k0) \<noteq> h" and "db_faults d' = []"
    and "publishers d' = update_rows (\<lambda>p. p_id p = i \<and> p_deleted_at p = None) (\<lambda>p. p\<lparr>p_api_key_hash := h, p_api_key_prefix := pre,
      p_api_key_encrypted := e, p_updated_at := now\<rparr>) (publishers d)"
  shows "Publisher_find_by_api_key sha k0 d' = (Inr None, d')"
proof -
  have k0: "trim k0 \<noteq> []" and "first_row (filter (\<lambda>p. p_api_key_hash p = sha (trim k0) \<and> p_deleted_at p = None) (publishers d)) = Some p0"
    using assms(1,3) by (auto simp: Publisher_find_by_api_key_def Let_def db_query_optional_def db_query_def db_stmt_ok io_simps split: if_splits)
  then have p0: "p0 \<in> set (publishers d)" "p_api_key_hash p0 = sha (trim k0)" "p_deleted_at p0 = None"
    by (auto dest!: first_row_filter)
  have only: "r = p0" if "r \<in> set (publishers d)" "p_api_key_hash r = sha (trim k0)" for r
  proof -
    have "inj_on p_api_key_hash (set (publishers d))" using assms(2) by (simp add: keys_ok_def distinct_map)
    then show ?thesis using that p0(1,2) by (simp add: inj_on_def)
  qed
  have "filter (\<lambda>p. p_api_key_hash p = sha (trim k0) \<and> p_deleted_at p = None) (publishers d') = []"
    unfolding assms(7) filter_empty_conv set_update_rows
  proof (intro ballI, elim imageE)
    fix r r0
    assume r: "r = (if p_id r0 = i \<and> p_deleted_at r0 = None then r0\<lparr>p_api_key_hash := h, p_api_key_prefix := pre,
        p_api_key_encrypted := e, p_updated_at := now\<rparr> else r0)" "r0 \<in> set (publishers d)"
    show "\<not> (p_api_key_hash r = sha (trim k0) \<and> p_deleted_at r = None)"
    proof (cases "p_id r0 = i \<and> p_deleted_at r0 = None")
      case False
      then show ?thesis using r only [of r0] p0(3) assms(4) by auto
    qed (use r(1) assms(5) in simp)
  qed
  then show ?thesis using k0 assms(6)
    by (simp add: Publisher_find_by_api_key_def Let_def db_query_optional_def db_query_def db_stmt_ok io_simps first_row_def)
qed

text \<open>The reply to a key request names the key.\<close>

definition key_in :: "json reply \<Rightarrow> string option" where
  "key_in r = Option.bind (Option.bind (snd r) (\<lambda>v. json_get v ''api_key'')) as_str"

lemma key_in_succeeded: "key_in (succeeded [(''api_key'', JStr k), (''message'', m)]) = Some k"
  by (simp add: key_in_def succeeded_def json_get_def obj_get_def)


text \<open>Adding verticals leaves the publishers.\<close>

lemma verticals_has:
  "preserves (\<lambda>s. db_has ps is (p_db s)) (io_iter (\<lambda>v. io_bind (io_try (in_db (insert_vertical i v))) (\<lambda>_. io_return ())) vs)"
proof -
  have "preserves (db_has ps is) (insert_vertical i v)" for v
    by (auto simp: preserves_def insert_vertical_def db_has_def db_stmt_def)
  then show ?thesis by (intro preserves_intros preserves_in_db)
qed

lemma verticals_total: "\<exists>s'. io_iter (\<lambda>v. io_bind (io_try (in_db (insert_vertical i v))) (\<lambda>_. io_return ())) vs s = (Inr (), s')"
  by (induction vs arbitrary: s) (auto simp: io_return_def io_bind_def io_try_def split: prod.split)

lemma key_in_failures: "key_in (STATUS n) = None" "key_in (email_exists m) = None" "key_in (insert_failed m e) = None"
  by (auto simp: key_in_def email_exists_def insert_failed_def refused_json_def json_get_def obj_get_def)

lemma insert_publisher_run:
  assumes "in_db (insert_publisher p) s = (Inr u, s')" and "db_faults (p_db s) = []"
  shows "db_has (publishers (p_db s) @ [p\<lparr>p_created_at := db_now (p_db s), p_updated_at := db_now (p_db s)\<rparr>]) (instances (p_db s)) (p_db s')"
    and "p_id p \<notin> p_id ` set (publishers (p_db s))"
  using assms by (auto simp: in_db_def in_world_def on_db_def insert_publisher_def db_stmt_ok db_has_def list_ex_iff split: if_splits)

definition create_in :: "extlib \<Rightarrow> (string \<Rightarrow> string) \<Rightarrow> AppConfig \<Rightarrow> User \<Rightarrow> http_call \<Rightarrow> CreatePublisherRequest \<Rightarrow> uuid \<Rightarrow> string \<Rightarrow> string
   \<Rightarrow> (portal, json reply) io" where
  "create_in X sha cfg user q c inst api_key encrypted =
     io_bind (in_world draw_uuid) (\<lambda>i.
       io_bind (io_try (in_db (insert_publisher (new_publisher i inst (sha api_key) encrypted c)))) (\<lambda>res.
       case res of
         Inl e \<Rightarrow> io_return (insert_failed (cp_email c) e)
       | Inr _ \<Rightarrow>
           io_bind (io_iter (\<lambda>v. io_bind (io_try (in_db (insert_vertical i v))) (\<lambda>_. io_return ()))
             (unwrap_or (cp_vertical_ids c) [])) (\<lambda>_.
           io_bind (log_change X q user ''publisher_created'' ''Publisher'' i (created_details X q i c)) (\<lambda>_.
           io_return (succeeded [(''publisher'', JObj [(''id'', JStr (uuid_text X i)), (''name'', JStr (cp_name c)),
               (''email'', JStr (cp_email c)), (''status'', JStr ''active''), (''api_key_prefix'', JStr ''pk_live_'')]),
             (''api_key'', JStr api_key),
             (''message'', JStr ''Publisher created successfully. Save your API key - it will not be shown again!'')])))))"

lemma create_in_success:
  assumes "create_in X sha cfg user q c inst k e s = (Inr reply, s')" and "key_in reply = Some k'" and "db_faults (p_db s) = []"
  shows "\<exists>i now. k' = k \<and> i \<notin> p_id ` set (publishers (p_db s))
    \<and> db_has (publishers (p_db s) @ [(new_publisher i inst (sha k) e c)\<lparr>p_created_at := now, p_updated_at := now\<rparr>])
        (instances (p_db s)) (p_db s')"
proof -
  obtain i s1 where i: "in_world draw_uuid s = (Inr i, s1)" "p_db s1 = p_db s"
    by (auto simp: in_world_def draw_uuid_def draw_def io_bind_def io_return_def)
  obtain res s2 where ins: "in_db (insert_publisher (new_publisher i inst (sha k) e c)) s1 = (res, s2)" by force
  obtain u where u: "res = Inr u"
    using assms(1,2) i ins by (cases res) (auto simp: create_in_def io_bind_def io_try_def io_return_def key_in_failures)
  define ps where "ps = publishers (p_db s) @ [(new_publisher i inst (sha k) e c)\<lparr>p_created_at := db_now (p_db s), p_updated_at := db_now (p_db s)\<rparr>]"
  have s2: "db_has ps (instances (p_db s)) (p_db s2)" and fresh: "i \<notin> p_id ` set (publishers (p_db s))"
    using insert_publisher_run [of "new_publisher i inst (sha k) e c" s1 u s2] ins u i(2) assms(3) by (simp_all add: ps_def new_publisher_def)
  obtain s3 where s3: "io_iter (\<lambda>v. io_bind (io_try (in_db (insert_vertical i v))) (\<lambda>_. io_return ()))
      (unwrap_or (cp_vertical_ids c) []) s2 = (Inr (), s3)" using verticals_total by blast
  obtain s4 where s4: "log_change X q user ''publisher_created'' ''Publisher'' i (created_details X q i c) s3 = (Inr (), s4)"
    using log_change_total by blast
  have "db_has ps (instances (p_db s)) (p_db s4)"
    using preservesD [OF log_change_has preservesD [OF verticals_has s2 s3] s4] .
  moreover have "k' = k" "s' = s4"
    using assms(1,2) i ins u s3 s4
    by (auto simp: create_in_def io_bind_def io_try_def io_return_def key_in_def succeeded_def json_get_def obj_get_def split: prod.splits)
  ultimately show ?thesis using fresh unfolding ps_def by blast
qed

lemma create_publisher_success:
  assumes "crypto_ok X" and "text_ok X" and "db_faults (p_db s) = []"
    and "create_publisher X sha cfg user q c s = (Inr reply, s')" and "key_in reply = Some k'"
  shows "\<exists>inst k e i now. k' = k \<and> api_key_text k \<and> (cp_instance_id c \<noteq> None \<longrightarrow> cp_instance_id c = Some inst) \<and> e \<noteq> []
    \<and> result_bind (EncryptionService_new (cf_encryption_key cfg)) (\<lambda>key. decrypt X key e) = Inr k \<and> i \<notin> p_id ` set (publishers (p_db s))
    \<and> db_has (publishers (p_db s) @ [(new_publisher i inst (sha k) e c)\<lparr>p_created_at := now, p_updated_at := now\<rparr>])
        (instances (p_db s)) (p_db s')"
proof -
  define F where "F inst = io_bind (new_api_key X) (\<lambda>api_key.
     or_answer (STATUS 500) (encrypt_key X cfg api_key) (\<lambda>encrypted.
     or_answer (STATUS 500) (in_db (email_taken (cp_email c))) (\<lambda>taken.
     if taken then io_return (email_exists (cp_email c)) else create_in X sha cfg user q c inst api_key encrypted)))" for inst
  have create: "create_publisher X sha cfg user q c = target_instance (cp_instance_id c) user F"
    unfolding create_publisher_def F_def [abs_def] create_in_def ..
  obtain inst where inst: "F inst s = (Inr reply, s')" "cp_instance_id c \<noteq> None \<longrightarrow> cp_instance_id c = Some inst"
  proof (cases "cp_instance_id c")
    case None
    have "with_instance user F s = (Inr reply, s')" using assms(4) None by (simp add: create target_instance_def)
    then show ?thesis unfolding with_instance_def get_instance_id_for_user_def
    proof (cases rule: or_answer_cases)
      case (ran found s1)
      then show ?thesis using that None assms(5)
        by (cases found) (auto simp: query_run [OF assms(3)] io_return_def key_in_failures)
    qed (use assms(5) in \<open>auto simp: key_in_failures\<close>)
  next
    case (Some i)
    then show ?thesis using that assms(4) by (simp add: create target_instance_def)
  qed
  obtain k s1 where k: "new_api_key X s = (Inr k, s1)" "p_db s1 = p_db s" "api_key_text k" "utf8_valid X k"
    using new_api_key_run [OF assms(2)] by blast
  have "or_answer (STATUS 500) (encrypt_key X cfg k) (\<lambda>encrypted.
     or_answer (STATUS 500) (in_db (email_taken (cp_email c))) (\<lambda>taken.
     if taken then io_return (email_exists (cp_email c)) else create_in X sha cfg user q c inst k encrypted)) s1 = (Inr reply, s')"
    using inst(1) k(1) by (simp add: F_def io_bind_run)
  then show ?thesis
  proof (cases rule: or_answer_cases)
    case (ran e s2)
    note e = encrypt_key_run [OF assms(1,2) k(4) ran(1)]
    show ?thesis using ran(2)
    proof (cases rule: or_answer_cases)
      case (ran taken s3)
      have s3: "p_db s3 = p_db s" using ran(1) e k(2) assms(3)
        by (auto simp: in_db_def in_world_def on_db_def email_taken_def db_query_def db_stmt_ok io_simps)
      have "create_in X sha cfg user q c inst k e s3 = (Inr reply, s')"
        using ran(2) assms(5) by (cases taken) (auto simp: io_return_def key_in_failures)
      then obtain i now where "k' = k" "i \<notin> p_id ` set (publishers (p_db s))"
        "db_has (publishers (p_db s) @ [(new_publisher i inst (sha k) e c)\<lparr>p_created_at := now, p_updated_at := now\<rparr>])
          (instances (p_db s)) (p_db s')"
        using create_in_success [of X sha cfg user q c inst k e s3 reply s' k'] assms(3,5) s3 by auto
      then show ?thesis using k(3) e inst(2)
        by (intro exI [of _ inst] exI [of _ k] exI [of _ e] exI [of _ i] exI [of _ now]) simp
    qed (use assms(5) in \<open>auto simp: key_in_failures\<close>)
  qed (use assms(5) in \<open>auto simp: key_in_failures\<close>)
qed

text \<open>C14: the key in the answer to the creation of a publisher identifies that new, active publisher to
  the lead routes, and whoever administers the instance it was created in reads the same key back;
  everybody else is refused. The instance is the one the request names, whatever instance the user
  belongs to.\<close>

theorem created_key_roundtrip:
  assumes "crypto_ok X" and "text_ok X" and "db_faults (p_db s) = []" and "keys_ok (p_db s)"
    and "create_publisher X sha cfg user q c s = (Inr reply, s')" and "key_in reply = Some k"
  shows "\<exists>p. Publisher_find_by_api_key sha k (p_db s') = (Inr (Some p), p_db s') \<and> p_id p \<notin> p_id ` set (publishers (p_db s))
    \<and> p_name p = cp_name c \<and> p_email p = cp_email c \<and> Publisher_active p
    \<and> (cp_instance_id c \<noteq> None \<longrightarrow> cp_instance_id c = Some (p_instance_id p))
    \<and> get_publisher_api_key X cfg reader (p_id p) s' =
        (Inr (if administers (p_db s') reader (p_instance_id p) then succeeded [(''api_key'', JStr k)] else STATUS 403), s')"
proof -
  obtain inst e i now where k: "api_key_text k" and inst: "cp_instance_id c \<noteq> None \<longrightarrow> cp_instance_id c = Some inst" and e: "e \<noteq> []"
    "result_bind (EncryptionService_new (cf_encryption_key cfg)) (\<lambda>key. decrypt X key e) = Inr k"
    and i: "i \<notin> p_id ` set (publishers (p_db s))"
    and db: "db_has (publishers (p_db s) @ [(new_publisher i inst (sha k) e c)\<lparr>p_created_at := now, p_updated_at := now\<rparr>])
        (instances (p_db s)) (p_db s')"
    using create_publisher_success [OF assms(1-3,5,6)] by blast
  let ?p = "(new_publisher i inst (sha k) e c)\<lparr>p_created_at := now, p_updated_at := now\<rparr>"
  have "dash_inv (p_db s) (p_db s')"
    using preservesD [OF inv_publisher_handlers(2) [of "p_db s"] _ assms(5)] assms(4) by (simp add: dash_inv_def)
  then have keys: "keys_ok (p_db s')" by (simp add: dash_inv_def)
  have p: "?p \<in> set (publishers (p_db s'))" and calm: "db_faults (p_db s') = []" using db by (simp_all add: db_has_def)
  have carries: "carries_key X sha cfg i k ?p" using e by (simp add: carries_key_def new_publisher_def)
  have id: "p_id ?p = i" "p_name ?p = cp_name c" "p_email ?p = cp_email c" "Publisher_active ?p" "p_instance_id ?p = inst"
    by (simp_all add: new_publisher_def Publisher_active_def)
  show ?thesis
    using key_found [OF keys p carries calm k] key_read [OF keys p carries calm, of reader] i inst
    by (intro exI [of _ ?p]) (simp add: id)
qed

section \<open>Deleted publishers\<close>

lemma cache_in_db: "preserves (\<lambda>s. w_cache (px_world s) = c) (in_db m)"
  by (auto simp: preserves_def in_db_def in_world_def on_db_def split: prod.split)

lemma cache_draws:
  "preserves (\<lambda>s. w_cache (px_world s) = c) (in_world (io_bind draw_uuid (\<lambda>u. io_return (f u))))"
  "preserves (\<lambda>s. w_cache (px_world s) = c) (in_world current_time)"
  by (auto simp: preserves_def in_world_def draw_uuid_def draw_def current_time_def io_simps)

lemma cache_delete: "preserves (\<lambda>s. w_cache (px_world s) = c) (delete_publisher X user q i)"
  unfolding delete_publisher_def log_change_def
  by (intro preserves_or_answer preserves_intros cache_in_db cache_draws)

lemma soft_delete_run:
  assumes "db_faults (p_db s) = []"
  shows "\<exists>s'. in_db (soft_delete_publisher i) s = (Inr (), s') \<and> db_has (update_rows (\<lambda>p. p_id p = i)
    (\<lambda>p. p\<lparr>p_deleted_at := Some (db_now (p_db s))\<rparr>) (publishers (p_db s))) (instances (p_db s)) (p_db s')"
  using assms by (auto simp: in_db_def in_world_def on_db_def soft_delete_publisher_def db_stmt_ok db_has_def)

lemma delete_publisher_run:
  assumes "db_faults (p_db s) = []"
  shows "\<exists>s'. delete_publisher X user q i s = (Inr (succeeded [(''message'', JStr ''Publisher deleted successfully'')]), s')
    \<and> db_has (update_rows (\<lambda>p. p_id p = i) (\<lambda>p. p\<lparr>p_deleted_at := Some (db_now (p_db s))\<rparr>) (publishers (p_db s)))
        (instances (p_db s)) (p_db s')"
proof -
  obtain found where found: "in_db (live_publisher i) s = (Inr found, s)" unfolding live_publisher_def query_run [OF assms] by blast
  obtain s1 where s1: "in_db (soft_delete_publisher i) s = (Inr (), s1)" "db_has (update_rows (\<lambda>p. p_id p = i)
    (\<lambda>p. p\<lparr>p_deleted_at := Some (db_now (p_db s))\<rparr>) (publishers (p_db s))) (instances (p_db s)) (p_db s1)"
    using soft_delete_run [OF assms] by blast
  let ?log = "case found of None \<Rightarrow> io_return ()
    | Some p \<Rightarrow> log_change X q user ''publisher_deleted'' ''Publisher'' i (deleted_details X q i p)"
  obtain s2 where s2: "?log s1 = (Inr (), s2)" "db_has (publishers (p_db s1)) (instances (p_db s1)) (p_db s2)"
  proof (cases found)
    case None
    then show ?thesis using that s1(2) by (simp add: io_return_def db_has_def)
  next
    case (Some p)
    have "db_faults (p_db s1) = []" using s1(2) by (simp add: db_has_def)
    from log_change_run [OF this] obtain s2 where
      "log_change X q user ''publisher_deleted'' ''Publisher'' i (deleted_details X q i p) s1 = (Inr (), s2)"
      "db_has (publishers (p_db s1)) (instances (p_db s1)) (p_db s2)" by blast
    then show ?thesis using that Some by simp
  qed
  have "delete_publisher X user q i s = (Inr (succeeded [(''message'', JStr ''Publisher deleted successfully'')]), s2)"
    using found s1(1) s2(1) by (simp add: delete_publisher_def or_answer_run io_bind_def io_return_def)
  then show ?thesis using s1(2) s2(2) by (auto simp: db_has_def)
qed

text \<open>C22: deleting a publisher does not reach the cache: a key that the cache holds is accepted as before
  after its publisher was deleted, although the database no longer knows it.\<close>

theorem deleted_key_still_cached:
  assumes "db_faults (p_db s) = []" and "keys_ok (p_db s)" and "p \<in> set (publishers (p_db s))" and "p_api_key_hash p = sha (trim k)"
    and "trim k \<noteq> []" and "lookup_levels cd (''publisher:api_key:'' @ sha (trim k)) (w_cache (px_world s)) = (Inr (Some (Some p)), c')"
    and "delete_publisher X user q (p_id p) s = (Inr reply, s')"
  shows "fst reply = 200 \<and> fst (find_publisher sha cd True k (px_world s')) = Inr (Some p)
       \<and> fst (find_publisher sha cd False k (px_world s')) = Inr None"
proof -
  have reply: "reply = succeeded [(''message'', JStr ''Publisher deleted successfully'')]"
    and db: "db_has (update_rows (\<lambda>r. p_id r = p_id p) (\<lambda>p. p\<lparr>p_deleted_at := Some (db_now (p_db s))\<rparr>) (publishers (p_db s)))
        (instances (p_db s)) (p_db s')"
    using delete_publisher_run [OF assms(1), of X user q "p_id p"] assms(7) by auto
  have cache: "w_cache (px_world s') = w_cache (px_world s)" using preservesD [OF cache_delete _ assms(7)] by simp
  have hash: "r = p" if "r \<in> set (publishers (p_db s))" "p_api_key_hash r = sha (trim k)" for r
  proof -
    have "inj_on p_api_key_hash (set (publishers (p_db s)))" using assms(2) by (simp add: keys_ok_def distinct_map)
    then show ?thesis using that assms(3,4) by (simp add: inj_on_def)
  qed
  have "filter (\<lambda>p. p_api_key_hash p = sha (trim k) \<and> p_deleted_at p = None) (publishers (p_db s')) = []"
  proof -
    have "publishers (p_db s') = update_rows (\<lambda>r. p_id r = p_id p) (\<lambda>p. p\<lparr>p_deleted_at := Some (db_now (p_db s))\<rparr>) (publishers (p_db s))"
      using db by (simp add: db_has_def)
    then show ?thesis unfolding filter_empty_conv set_update_rows using hash by (auto simp: set_update_rows)
  qed
  then have gone: "Publisher_find_by_api_key sha k (p_db s') = (Inr None, p_db s')"
    using db assms(5) by (simp add: Publisher_find_by_api_key_def Let_def db_query_optional_def db_query_def db_stmt_ok db_has_def io_simps first_row_def)
  have "fst (find_publisher sha cd True k (px_world s')) = Inr (Some p)"
    using assms(6) cache by (simp add: find_publisher_def Let_def on_cached_db_def get_or_insert_with_def io_bind_def on_cache_run io_return_def)
  moreover have "fst (find_publisher sha cd False k (px_world s')) = Inr None"
    using gone by (simp add: find_publisher_def Let_def on_db_def)
  ultimately show ?thesis by (simp add: reply succeeded_def)
qed

section \<open>Samples\<close>

lemma hex_text_ok: "text_ok hex_crypto"
proof -
  have len: "length (hex_text x) = 2 * length x" for x by (induction x) (simp_all add: hex_text_def)
  have digit: "\<not> is_space (char_of (97 + n :: nat)) \<and> of_char (char_of (97 + n :: nat)) < (128 :: nat)" if "n < 16" for n
    using that by (simp add: is_space_def of_char_of)
  have "list_all (\<lambda>c. \<not> is_space c \<and> of_char c < (128 :: nat)) (hex_text x)" for x
  proof (induction x)
    case (Cons c x)
    have "of_char c div 16 < (16 :: nat)" using nat_of_char_less_256 [of c] by presburger
    then show ?case using Cons digit [of "of_char c div 16"] digit [of "of_char c mod 16"] by (simp add: hex_text_def)
  qed (simp add: hex_text_def)
  with len show ?thesis by (simp add: text_ok_def hex_crypto_def plain_crypto_def)
qed

abbreviation sample_cfg :: AppConfig where
  "sample_cfg \<equiv> sample_config\<lparr>cf_encryption_key := replicate 32 CHR ''k''\<rparr>"

lemma sample_encrypt: "\<exists>e s'. encrypt_key hex_crypto sample_cfg k s = (Inr e, s') \<and> p_db s' = p_db s"
proof -
  obtain b s' where "draw_bytes 12 s = (Inr b, s')" "p_db s' = p_db s" using draw_bytes_run by blast
  then show ?thesis by (simp add: encrypt_key_def EncryptionService_new_def io_bind_def encrypt_def hex_crypto_def plain_crypto_def)
qed

lemma sample_regenerate:
  "\<exists>reply s'. regenerate_publisher_api_key hex_crypto (\<lambda>k. k) sample_cfg user q 9 (dash_portal []) = (Inr reply, s') \<and> fst reply = 200"
proof -
  let ?s = "dash_portal []"
  let ?p = "new_publisher 9 1 ''h'' ''e'' sample_request"
  have live: "in_db (live_publisher 9) ?s = (Inr (Some ?p), ?s)" by (simp add: live_publisher_def query_run first_row_def)
  obtain k s1 where k: "new_api_key hex_crypto ?s = (Inr k, s1)" "p_db s1 = p_db ?s"
    using new_api_key_run [OF hex_text_ok] by blast
  obtain e s2 where e: "encrypt_key hex_crypto sample_cfg k s1 = (Inr e, s2)" "p_db s2 = p_db ?s"
    using sample_encrypt [of k s1] k(2) by auto
  obtain s3 where s3: "in_db (set_api_key 9 k e) s2 = (Inr (), s3)"
    using e(2) by (auto simp: in_db_def in_world_def on_db_def set_api_key_def db_stmt_ok)
  obtain s4 where "log_change hex_crypto q user ''publisher_api_key_rotated'' ''Publisher'' 9
      (rotated_details hex_crypto q ''api_key_rotated'' ''User regenerated API key via dashboard'' ''/regenerate-api-key'' 9 ?p) s3 = (Inr (), s4)"
    using log_change_total by blast
  then have "regenerate_publisher_api_key hex_crypto (\<lambda>k. k) sample_cfg user q 9 ?s
     = (Inr (succeeded [(''api_key'', JStr k), (''message'', JStr ''API key regenerated successfully'')]), s4)"
    using live k e s3 by (simp add: regenerate_publisher_api_key_def or_answer_run io_bind_run) (simp add: io_return_def)
  then show ?thesis by (simp add: succeeded_def)
qed

definition stranger :: User where
  "stranger = sample_user\<lparr>u_id := 8\<rparr>"


definition empty_portal :: portal where
  "empty_portal = \<lparr> px_world = sample_world empty_db, px_mails = [], px_mail_faults = [] \<rparr>"

lemma empty_portal_db [simp]: "p_db empty_portal = empty_db"
  by (simp add: empty_portal_def sample_world_def WriteBehindQueue_new_def)

lemma empty_db_ok: "db_faults empty_db = []" "publishers empty_db = []" "keys_ok empty_db"
  by (simp_all add: empty_db_def keys_ok_def ptp_inv_def)

lemma sample_create:
  "\<exists>reply s' k. create_publisher hex_crypto (\<lambda>k. k) sample_cfg user q sample_request empty_portal = (Inr reply, s') \<and> key_in reply = Some k"
proof -
  let ?s = "empty_portal"
  let ?c = "sample_request"
  obtain k s1 where k: "new_api_key hex_crypto ?s = (Inr k, s1)" "p_db s1 = empty_db"
    using new_api_key_run [OF hex_text_ok, of empty_portal] by auto
  obtain e s2 where e: "encrypt_key hex_crypto sample_cfg k s1 = (Inr e, s2)" "p_db s2 = empty_db"
    using sample_encrypt [of k s1] k(2) by auto
  have calm: "db_faults (p_db s2) = []" using e(2) empty_db_ok by simp
  have "in_db (email_taken (cp_email ?c)) s2 = (Inr False, s2)"
    unfolding email_taken_def read_run [OF calm] using e(2) by (simp add: empty_db_ok)
  then have taken: "or_answer (STATUS 500) (in_db (email_taken (cp_email ?c))) f s2 = f False s2"
    for f :: "bool \<Rightarrow> (portal, json reply) io"
    by (simp add: or_answer_def io_bind_def io_try_def)
  obtain i s3 where s3: "in_world draw_uuid s2 = (Inr i, s3)" "p_db s3 = empty_db"
    using e(2) by (auto simp: in_world_def draw_uuid_def draw_def io_bind_def io_return_def)
  obtain s4 where s4: "in_db (insert_publisher (new_publisher i 2 k e ?c)) s3 = (Inr (), s4)"
    using s3(2) by (simp add: in_db_def in_world_def on_db_def insert_publisher_def db_stmt_ok empty_db_ok)
  obtain s5 where s5: "log_change hex_crypto q user ''publisher_created'' ''Publisher'' i (created_details hex_crypto q i ?c) s4 = (Inr (), s5)"
    using log_change_total by blast
  have "cp_vertical_ids ?c = None" "cp_instance_id ?c = Some 2" by (simp_all add: sample_request_def)
  then have "create_publisher hex_crypto (\<lambda>k. k) sample_cfg user q ?c ?s = (Inr (succeeded [(''publisher'', JObj [(''id'', JStr (uuid_text hex_crypto i)),
       (''name'', JStr (cp_name ?c)), (''email'', JStr (cp_email ?c)), (''status'', JStr ''active''), (''api_key_prefix'', JStr ''pk_live_'')]),
     (''api_key'', JStr k), (''message'', JStr ''Publisher created successfully. Save your API key - it will not be shown again!'')]), s5)"
    using k e taken s3(1) s4 s5
    by (simp add: create_publisher_def target_instance_def or_answer_run io_bind_run io_try_def) (simp add: io_return_def io_bind_def)
  then show ?thesis by (simp add: key_in_def succeeded_def json_get_def obj_get_def)
qed

theorem created_key_roundtrip_witness:
  "\<exists>reply s' k p. create_publisher hex_crypto (\<lambda>k. k) sample_cfg stranger sample_call sample_request empty_portal = (Inr reply, s')
     \<and> key_in reply = Some k \<and> Publisher_find_by_api_key (\<lambda>k. k) k (p_db s') = (Inr (Some p), p_db s') \<and> p_instance_id p = 2"
proof -
  obtain reply s' k where run: "create_publisher hex_crypto (\<lambda>k. k) sample_cfg stranger sample_call sample_request empty_portal = (Inr reply, s')"
    "key_in reply = Some k" using sample_create by blast
  have "db_faults (p_db empty_portal) = []" "keys_ok (p_db empty_portal)" by (simp_all add: empty_db_ok)
  from created_key_roundtrip [OF hex_crypto_ok hex_text_ok this run] obtain p where
    "Publisher_find_by_api_key (\<lambda>k. k) k (p_db s') = (Inr (Some p), p_db s')" "cp_instance_id sample_request = Some (p_instance_id p)"
    by (auto simp: sample_request_def)
  then show ?thesis using run by (auto simp: sample_request_def)
qed

text \<open>A cache that holds the publisher of the key.\<close>

definition whole_codec :: "Publisher option codec" where
  "whole_codec = \<lparr> simd_to = (\<lambda>_. None),
     simd_from = (\<lambda>t. if t = ''p'' then Some (Some (new_publisher 9 1 ''h'' ''e'' sample_request)) else None),
     serde_to = (\<lambda>_. Inr ''p''), serde_from = (\<lambda>_. None), utf8_ok = (\<lambda>_. True) \<rparr>"

definition cached_portal :: portal where
  "cached_portal = (dash_portal [])\<lparr>px_world := (px_world (dash_portal []))\<lparr>w_cache :=
     (CacheService_new None ''dev'' 0 [])\<lparr>cs_l1 := [(''publisher:api_key:h'', (''p'', 0))]\<rparr>\<rparr>\<rparr>"

theorem deleted_key_still_cached_witness:
  "\<exists>reply s' p. delete_publisher hex_crypto stranger sample_call 9 cached_portal = (Inr reply, s') \<and> fst reply = 200
     \<and> fst (find_publisher (\<lambda>k. k) whole_codec True ''h'' (px_world s')) = Inr (Some p)
     \<and> fst (find_publisher (\<lambda>k. k) whole_codec False ''h'' (px_world s')) = Inr None"
proof -
  let ?p = "new_publisher 9 1 ''h'' ''e'' sample_request"
  have db: "p_db cached_portal = p_db (dash_portal [])" by (simp add: cached_portal_def)
  have h: "trim ''h'' = ''h''" by code_simp
  obtain c' where look: "lookup_levels whole_codec (''publisher:api_key:'' @ trim ''h'') (w_cache (px_world cached_portal)) = (Inr (Some (Some ?p)), c')"
    unfolding h by (simp add: cached_portal_def lookup_levels_def l1_lookup_def l1_get_def CacheService_new_def L1_TTL_def whole_codec_def
        read_value_def io_bind_def io_return_def io_modify_def count_hit_def Let_def)
  have facts: "db_faults (p_db cached_portal) = []" "keys_ok (p_db cached_portal)" "?p \<in> set (publishers (p_db cached_portal))"
    "p_api_key_hash ?p = trim ''h''" "trim ''h'' \<noteq> []" using dash_keys(1) by (simp_all add: db h)
  from delete_publisher_run [OF facts(1), of hex_crypto stranger sample_call 9] obtain reply s' where
    run: "delete_publisher hex_crypto stranger sample_call 9 cached_portal = (Inr reply, s')" by blast
  from deleted_key_still_cached [where sha = "\<lambda>k. k", OF facts look, of hex_crypto stranger sample_call reply s'] run
  show ?thesis by auto
qed

end
