(* ===== verification/DashboardViews.thy ===== *)
theory DashboardViews
  imports DashboardProps
begin

text \<open>
  Properties of the lists of the dashboard: what a user sees depends only on the rows of their instance.
\<close>

section \<open>What a user sees\<close>

definition instance_of :: "db \<Rightarrow> User \<Rightarrow> uuid option" where
  "instance_of d user = first_row (map ins_id (filter (\<lambda>i. ins_instance_user_id i = Some (u_id user) \<and> ins_deleted_at i = None) (instances d)))"

text \<open>The part of the tables that belongs to an instance: its publishers, campaigns and trees, the
  verticals of its publishers, the members of its campaigns and trees and the assignments to its trees.\<close>

definition own_publishers :: "uuid \<Rightarrow> db \<Rightarrow> Publisher list" where
  "own_publishers inst d = filter (\<lambda>p. p_instance_id p = inst) (publishers d)"

definition own_campaigns :: "uuid \<Rightarrow> db \<Rightarrow> Campaign list" where
  "own_campaigns inst d = filter (\<lambda>c. c_instance_id c = inst) (campaigns d)"

definition own_trees :: "uuid \<Rightarrow> db \<Rightarrow> PingTree list" where
  "own_trees inst d = filter (\<lambda>t. pt_instance_id t = inst) (ping_trees d)"

definition own_verticals :: "uuid \<Rightarrow> db \<Rightarrow> (uuid \<times> uuid) list" where
  "own_verticals inst d = filter (\<lambda>(p, _). p \<in> p_id ` set (own_publishers inst d)) (publisher_verticals d)"

definition own_members :: "uuid \<Rightarrow> db \<Rightarrow> PingTreeCampaign list" where
  "own_members inst d = filter (\<lambda>m. ptc_ping_tree_id m \<in> pt_id ` set (own_trees inst d)
     \<or> ptc_campaign_id m \<in> c_id ` set (own_campaigns inst d)) (ping_tree_campaigns d)"

definition own_assignments :: "uuid \<Rightarrow> db \<Rightarrow> PingTreePublisher list" where
  "own_assignments inst d = filter (\<lambda>a. ptp_ping_tree_id a \<in> pt_id ` set (own_trees inst d)) (ping_tree_publishers d)"

definition same_view :: "uuid \<Rightarrow> db \<Rightarrow> db \<Rightarrow> bool" where
  "same_view inst d d' \<longleftrightarrow> own_publishers inst d = own_publishers inst d' \<and> own_campaigns inst d = own_campaigns inst d'
     \<and> own_trees inst d = own_trees inst d' \<and> own_verticals inst d = own_verticals inst d'
     \<and> own_members inst d = own_members inst d' \<and> own_assignments inst d = own_assignments inst d'
     \<and> instances d = instances d' \<and> verticals d = verticals d'"

lemma mapM_pure: "(\<And>x. f x s = (Inr (g x), s)) \<Longrightarrow> io_mapM f xs s = (Inr (map g xs), s)"
  by (induction xs) (simp_all add: io_bind_def io_return_def)

lemma with_instance_run:
  assumes "db_faults (p_db s) = []" and "instance_of (p_db s) user = Some inst"
  shows "with_instance user f s = f inst s"
  using assms(2) by (simp add: with_instance_def get_instance_id_for_user_def or_answer_def io_bind_def io_try_def
      query_run [OF assms(1)] instance_of_def)

text \<open>The tables read through an instance.\<close>

lemma own_rows:
  "filter (\<lambda>p. p_instance_id p = inst \<and> P p) (publishers d) = filter P (own_publishers inst d)"
  "filter (\<lambda>c. c_instance_id c = inst \<and> Q c) (campaigns d) = filter Q (own_campaigns inst d)"
  "filter (\<lambda>t. pt_instance_id t = inst \<and> R t) (ping_trees d) = filter R (own_trees inst d)"
  by (simp_all add: own_publishers_def own_campaigns_def own_trees_def conj_commute)

lemma own_members_of_tree:
  assumes "i \<in> pt_id ` set (own_trees inst d)"
  shows "filter (\<lambda>m. ptc_ping_tree_id m = i) (ping_tree_campaigns d) = filter (\<lambda>m. ptc_ping_tree_id m = i) (own_members inst d)"
    and "filter (\<lambda>a. ptp_ping_tree_id a = i) (ping_tree_publishers d) = filter (\<lambda>a. ptp_ping_tree_id a = i) (own_assignments inst d)"
  using assms by (auto simp: own_members_def own_assignments_def intro!: filter_cong)

lemma own_member_of:
  assumes "c \<in> c_id ` set (own_campaigns inst d)"
  shows "list_ex (\<lambda>m. ptc_campaign_id m = c) (ping_tree_campaigns d) \<longleftrightarrow> list_ex (\<lambda>m. ptc_campaign_id m = c) (own_members inst d)"
  using assms by (auto simp: own_members_def list_ex_iff)

lemma own_vertical_rows:
  assumes "set ids \<subseteq> p_id ` set (own_publishers inst d)"
  shows "concat (map (\<lambda>(p, i). if p \<in> set ids then f p i else []) (publisher_verticals d))
       = concat (map (\<lambda>(p, i). if p \<in> set ids then f p i else []) (own_verticals inst d))"
proof -
  have "concat (map (\<lambda>(p, i). if p \<in> set ids then f p i else []) pvs)
     = concat (map (\<lambda>(p, i). if p \<in> set ids then f p i else []) (filter (\<lambda>(p, _). p \<in> p_id ` set (own_publishers inst d)) pvs))" for pvs
    using assms by (induction pvs) auto
  then show ?thesis by (simp add: own_verticals_def)
qed

lemma list_publishers_view:
  assumes "db_faults (p_db s) = []" and "instance_of (p_db s) user = Some inst"
  shows "list_publishers X user s = (Inr (succeeded [(''publishers'', JArr
     (let ps = sort_by (\<lambda>a b. cmp (p_created_at b) (p_created_at a)) (filter (\<lambda>p. p_deleted_at p = None) (own_publishers inst (p_db s)));
          rows = sort_key (\<lambda>(_, v). name_key v) (concat (map (\<lambda>(p, i). if p \<in> set (map p_id ps)
            then map (Pair p) (filter (\<lambda>v. v_id v = i) (verticals (p_db s))) else []) (own_verticals inst (p_db s))))
      in map (publisher_response X (if ps = [] then [] else rows)) ps))]), s)"
proof -
  define ps where "ps = sort_by (\<lambda>a b. cmp (p_created_at b) (p_created_at a)) (filter (\<lambda>p. p_deleted_at p = None) (own_publishers inst (p_db s)))"
  have ps: "in_db (instance_publishers inst) s = (Inr ps, s)"
    unfolding instance_publishers_def read_run [OF assms(1)] own_rows ps_def ..
  have sub: "set (map p_id ps) \<subseteq> p_id ` set (own_publishers inst (p_db s))" by (auto simp: ps_def set_sort_by)
  have "in_db (vertical_rows (map p_id ps)) s = (Inr (sort_key (\<lambda>(_, v). name_key v) (concat (map (\<lambda>(p, i). if p \<in> set (map p_id ps)
     then map (Pair p) (filter (\<lambda>v. v_id v = i) (verticals (p_db s))) else []) (own_verticals inst (p_db s))))), s)"
    unfolding vertical_rows_def read_run [OF assms(1)] own_vertical_rows [OF sub] ..
  then show ?thesis
    unfolding ps_def [symmetric] Let_def using with_instance_run [OF assms] ps
    by (simp add: list_publishers_def or_answer_run io_return_def or_answer_def io_bind_def io_try_def)
qed

lemma list_campaigns_view:
  assumes "db_faults (p_db s) = []" and "instance_of (p_db s) user = Some inst"
  shows "list_campaigns X user s = (Inr (succeeded [(''campaigns'', JArr
     (map (\<lambda>c. campaign_json X (list_ex (\<lambda>m. ptc_campaign_id m = c_id c) (own_members inst (p_db s))) c)
       (sort_by (\<lambda>a b. cmp (c_created_at b) (c_created_at a)) (filter (\<lambda>c. c_deleted_at c = None) (own_campaigns inst (p_db s))))))]), s)"
proof -
  define cs where "cs = sort_by (\<lambda>a b. cmp (c_created_at b) (c_created_at a)) (filter (\<lambda>c. c_deleted_at c = None) (own_campaigns inst (p_db s)))"
  define ids where "ids = remdups (map ptc_campaign_id (ping_tree_campaigns (p_db s)))"
  have cs: "in_db (instance_campaigns inst) s = (Inr cs, s)"
    unfolding instance_campaigns_def read_run [OF assms(1)] own_rows cs_def ..
  have ids: "in_db tree_members s = (Inr ids, s)" unfolding tree_members_def read_run [OF assms(1)] ids_def ..
  have "campaign_json X (c_id c \<in> set ids) c = campaign_json X (list_ex (\<lambda>m. ptc_campaign_id m = c_id c) (own_members inst (p_db s))) c"
    if "c \<in> set cs" for c
  proof -
    have "c_id c \<in> c_id ` set (own_campaigns inst (p_db s))" using that by (auto simp: cs_def set_sort_by)
    then have "list_ex (\<lambda>m. ptc_campaign_id m = c_id c) (ping_tree_campaigns (p_db s)) \<longleftrightarrow> list_ex (\<lambda>m. ptc_campaign_id m = c_id c) (own_members inst (p_db s))"
      by (rule own_member_of)
    moreover have "c_id c \<in> set ids \<longleftrightarrow> list_ex (\<lambda>m. ptc_campaign_id m = c_id c) (ping_tree_campaigns (p_db s))"
      by (auto simp: ids_def list_ex_iff intro!: rev_image_eqI)
    ultimately show ?thesis by simp
  qed
  then have own: "map (\<lambda>c. campaign_json X (c_id c \<in> set ids) c) cs
     = map (\<lambda>c. campaign_json X (list_ex (\<lambda>m. ptc_campaign_id m = c_id c) (own_members inst (p_db s))) c) cs" by simp
  show ?thesis
    unfolding cs_def [symmetric] own [symmetric] using with_instance_run [OF assms] cs ids
    by (cases "cs = []") (simp_all add: list_campaigns_def or_answer_run io_return_def io_bind_def io_try_def Let_def)
qed

lemma list_trees_view:
  assumes "db_faults (p_db s) = []" and "instance_of (p_db s) user = Some inst"
  shows "list_ping_trees X user s = (Inr (succeeded [(''ping_trees'', JArr
     (map (\<lambda>t. tree_json X t (int (length (filter (\<lambda>a. ptp_ping_tree_id a = pt_id t) (own_assignments inst (p_db s))))))
       (sort_by (\<lambda>a b. cmp (pt_created_at b) (pt_created_at a)) (filter (\<lambda>t. pt_deleted_at t = None) (own_trees inst (p_db s))))))]), s)"
proof -
  define ts where "ts = sort_by (\<lambda>a b. cmp (pt_created_at b) (pt_created_at a)) (filter (\<lambda>t. pt_deleted_at t = None) (own_trees inst (p_db s)))"
  have ts: "in_db (instance_trees inst) s = (Inr ts, s)"
    unfolding instance_trees_def read_run [OF assms(1)] own_rows ts_def ..
  have count: "io_bind (publisher_count (pt_id t)) (\<lambda>n. io_return (tree_json X t n)) s
      = (Inr (tree_json X t (int (length (filter (\<lambda>a. ptp_ping_tree_id a = pt_id t) (ping_tree_publishers (p_db s)))))), s)" for t
    by (simp add: publisher_count_def io_bind_def io_try_def read_run [OF assms(1)] io_return_def)
  have mapped: "io_mapM (\<lambda>t. io_bind (publisher_count (pt_id t)) (\<lambda>n. io_return (tree_json X t n))) ts s
      = (Inr (map (\<lambda>t. tree_json X t (int (length (filter (\<lambda>a. ptp_ping_tree_id a = pt_id t) (ping_tree_publishers (p_db s)))))) ts), s)"
    by (rule mapM_pure) (rule count)
  have own: "map (\<lambda>t. tree_json X t (int (length (filter (\<lambda>a. ptp_ping_tree_id a = pt_id t) (ping_tree_publishers (p_db s)))))) ts
     = map (\<lambda>t. tree_json X t (int (length (filter (\<lambda>a. ptp_ping_tree_id a = pt_id t) (own_assignments inst (p_db s)))))) ts"
    by (rule map_cong [OF refl], subst own_members_of_tree(2) [of _ inst]) (auto simp: ts_def set_sort_by)
  show ?thesis
    unfolding ts_def [symmetric] own [symmetric] using with_instance_run [OF assms] ts
    by (simp add: list_ping_trees_def or_answer_run) (simp add: io_bind_def [of "io_mapM f xs" for f xs] mapped io_return_def [of "succeeded r" for r])
qed

lemma get_campaign_view:
  assumes "db_faults (p_db s) = []" and "instance_of (p_db s) user = Some inst"
    and "db_faults (p_db s') = []" and "instance_of (p_db s') user = Some inst" and "same_view inst (p_db s) (p_db s')"
  shows "fst (get_campaign X user i s) = fst (get_campaign X user i s')"
proof -
  have found: "in_db (own_campaign i inst) t = (Inr (first_row (filter (\<lambda>c. c_id c = i \<and> c_deleted_at c = None) (own_campaigns inst (p_db t)))), t)"
    if "db_faults (p_db t) = []" for t
    unfolding own_campaign_def query_run [OF that] by (simp add: own_campaigns_def conj_ac)
  have member: "in_ping_tree i t = (Inr (list_ex (\<lambda>m. ptc_campaign_id m = i) (ping_tree_campaigns (p_db t))), t)"
    if "db_faults (p_db t) = []" for t
    by (simp add: in_ping_tree_def io_bind_def io_try_def read_run [OF that] io_return_def)
  show ?thesis
  proof (cases "first_row (filter (\<lambda>c. c_id c = i \<and> c_deleted_at c = None) (own_campaigns inst (p_db s)))")
    case None
    then show ?thesis using found [OF assms(1)] found [OF assms(3)] assms(5) with_instance_run [OF assms(1,2)] with_instance_run [OF assms(3,4)]
      by (simp add: get_campaign_def or_answer_run io_return_def same_view_def)
  next
    case (Some c)
    then have "i \<in> c_id ` set (own_campaigns inst (p_db s))" using first_row_in [of id] by fastforce
    moreover from this have "i \<in> c_id ` set (own_campaigns inst (p_db s'))" using assms(5) by (simp add: same_view_def)
    ultimately have "list_ex (\<lambda>m. ptc_campaign_id m = i) (ping_tree_campaigns (p_db s)) = list_ex (\<lambda>m. ptc_campaign_id m = i) (ping_tree_campaigns (p_db s'))"
      using assms(5) own_member_of [of i inst "p_db s"] own_member_of [of i inst "p_db s'"] by (simp only: same_view_def)
    then show ?thesis using Some found [OF assms(1)] found [OF assms(3)] assms(5) member [OF assms(1)] member [OF assms(3)]
        with_instance_run [OF assms(1,2)] with_instance_run [OF assms(3,4)]
      by (simp add: get_campaign_def or_answer_run io_return_def same_view_def io_bind_def)
  qed
qed

lemma get_tree_view:
  assumes "db_faults (p_db s) = []" and "instance_of (p_db s) user = Some inst"
    and "db_faults (p_db s') = []" and "instance_of (p_db s') user = Some inst" and "same_view inst (p_db s) (p_db s')"
  shows "fst (get_ping_tree X D user i s) = fst (get_ping_tree X D user i s')"
proof -
  have found: "in_db (own_tree i inst) t = (Inr (first_row (filter (\<lambda>c. pt_id c = i \<and> pt_deleted_at c = None) (own_trees inst (p_db t)))), t)"
    if "db_faults (p_db t) = []" for t
    unfolding own_tree_def query_run [OF that] by (simp add: own_trees_def conj_ac)
  have reads: "in_db (members_of_tree i) t = (Inr (sort_key (\<lambda>m. nulls_last (ptc_priority m)) (filter (\<lambda>m. ptc_ping_tree_id m = i) (own_members inst (p_db t)))), t)"
    "in_db (PingTreePublisher_find_by_ping_tree i) t = (Inr (sort_key ptp_created_at (filter (\<lambda>a. ptp_ping_tree_id a = i) (own_assignments inst (p_db t)))), t)"
    if "db_faults (p_db t) = []" "i \<in> pt_id ` set (own_trees inst (p_db t))" for t
    unfolding members_of_tree_def PingTreePublisher_find_by_ping_tree_def read_run [OF that(1)] own_members_of_tree [OF that(2)] by simp_all
  show ?thesis
  proof (cases "first_row (filter (\<lambda>t. pt_id t = i \<and> pt_deleted_at t = None) (own_trees inst (p_db s)))")
    case None
    then show ?thesis using found [OF assms(1)] found [OF assms(3)] assms(5) with_instance_run [OF assms(1,2)] with_instance_run [OF assms(3,4)]
      by (simp add: get_ping_tree_def or_answer_run io_return_def same_view_def)
  next
    case (Some c)
    then have i: "i \<in> pt_id ` set (own_trees inst (p_db s))" using first_row_in [of id] by fastforce
    moreover from this have "i \<in> pt_id ` set (own_trees inst (p_db s'))" using assms(5) by (simp add: same_view_def)
    ultimately show ?thesis using Some found [OF assms(1)] found [OF assms(3)] assms(5) reads [OF assms(1)] reads [OF assms(3)]
        with_instance_run [OF assms(1,2)] with_instance_run [OF assms(3,4)]
      by (simp add: get_ping_tree_def or_answer_run io_return_def same_view_def)
  qed
qed

text \<open>C15: the lists of publishers, campaigns and ping trees and the details of a campaign or tree are
  confined to the instance of the user: when two states agree on the rows of that instance, whatever
  else they hold, the user gets the same answers in both.\<close>

theorem reads_confined:
  assumes "db_faults (p_db s) = []" and "db_faults (p_db s') = []" and "instance_of (p_db s) user = Some inst"
    and "same_view inst (p_db s) (p_db s')"
    and "r \<in> {ListPublishers, ListCampaigns, ListPingTrees, GetCampaign i, GetPingTree i}"
  shows "fst (dashboard_routes E user q r s) = fst (dashboard_routes E user q r s')"
proof -
  have inst: "instance_of (p_db s') user = Some inst" using assms(3,4) by (simp add: instance_of_def same_view_def)
  note views = list_publishers_view list_campaigns_view list_trees_view
  have "fst (list_publishers X user s) = fst (list_publishers X user s')" for X
    using assms(4) unfolding views(1) [OF assms(1,3)] views(1) [OF assms(2) inst] Let_def by (simp only: same_view_def fst_conv)
  moreover have "fst (list_campaigns X user s) = fst (list_campaigns X user s')" for X
    using assms(4) unfolding views(2) [OF assms(1,3)] views(2) [OF assms(2) inst] by (simp add: same_view_def)
  moreover have "fst (list_ping_trees X user s) = fst (list_ping_trees X user s')" for X
    using assms(4) unfolding views(3) [OF assms(1,3)] views(3) [OF assms(2) inst] by (simp add: same_view_def)
  ultimately show ?thesis
    using assms(5) get_campaign_view [OF assms(1,3,2) inst assms(4)] get_tree_view [OF assms(1,3,2) inst assms(4)] by auto
qed

theorem reads_confined_witness:
  "fst (dashboard_routes sample_dashlib sample_user sample_call ListPublishers (dash_portal []))
   = fst (dashboard_routes sample_dashlib sample_user sample_call ListPublishers (dash_portal [new_publisher 10 2 ''i'' ''e'' sample_request]))"
proof -
  let ?s = "dash_portal []"
  let ?s' = "dash_portal [new_publisher 10 2 ''i'' ''e'' sample_request]"
  have "db_faults (p_db ?s) = []" "db_faults (p_db ?s') = []" by simp_all
  moreover have "instance_of (p_db ?s) sample_user = Some 1"
    by (simp add: instance_of_def sample_instance_def sample_user_def first_row_def)
  moreover have "same_view 1 (p_db ?s) (p_db ?s')"
    by (simp add: same_view_def own_publishers_def own_campaigns_def own_trees_def own_verticals_def own_members_def own_assignments_def)
  ultimately show ?thesis by (rule reads_confined) simp
qed

end
