(* ===== verification/RuleSetProps.thy ===== *)
theory RuleSetProps
  imports DashboardProps Qualification
begin

text \<open>
  Properties of the rule sets of buyers: a buyer has at most one active rule set, the one that is
  activated is the one that decides on its leads, an activation that fails leaves the buyer without
  rules, and ZIP codes are never removed.
\<close>

section \<open>What the other requests leave alone\<close>

definition rule_tables where
  "rule_tables d = (buyer_qualification_configs d, buyer_zip_lists d, buyer_zip_codes d, buyers d, verticals d)"

interpretation kept: steady_invariant "\<lambda>d. rule_tables d = v" for v
  by unfold_locales (simp_all add: rule_tables_def)

lemma kept_stmts:
  "preserves (\<lambda>d. rule_tables d = v) (insert_publisher p)"
  "preserves (\<lambda>d. rule_tables d = v) (soft_delete_publisher i)"
  "preserves (\<lambda>d. rule_tables d = v) (set_hmac_secret i h pre)"
  "preserves (\<lambda>d. rule_tables d = v) (update_publisher_row i u)"
  "preserves (\<lambda>d. rule_tables d = v) (insert_vertical i j)"
  "preserves (\<lambda>d. rule_tables d = v) (set_api_key i h e)"
  "preserves (\<lambda>d. rule_tables d = v) (insert_campaign c)"
  "preserves (\<lambda>d. rule_tables d = v) (update_campaign_row i items)"
  "preserves (\<lambda>d. rule_tables d = v) (deactivate_campaign i)"
  "preserves (\<lambda>d. rule_tables d = v) (insert_tree t)"
  "preserves (\<lambda>d. rule_tables d = v) (update_tree_row i titems)"
  "preserves (\<lambda>d. rule_tables d = v) (insert_tree_member i j prio f)"
  "preserves (\<lambda>d. rule_tables d = v) (delete_tree_member i j)"
  "preserves (\<lambda>d. rule_tables d = v) (insert_ptp a)"
  "preserves (\<lambda>d. rule_tables d = v) (db_query_one q)"
  "preserves (\<lambda>d. rule_tables d = v) (PingTreePublisher_delete i j)"
  unfolding insert_publisher_def soft_delete_publisher_def set_hmac_secret_def update_publisher_row_def insert_vertical_def
    set_api_key_def insert_campaign_def update_campaign_row_def deactivate_campaign_def insert_tree_def update_tree_row_def
    insert_tree_member_def delete_tree_member_def insert_ptp_def db_query_one_def PingTreePublisher_delete_def
  by (rule kept.stmt; simp add: rule_tables_def split: option.split)+

lemma kept_assignments:
  "preserves (\<lambda>d. rule_tables d = v) (PingTreePublisher_create i j k ver pct flat)"
  "preserves (\<lambda>d. rule_tables d = v) (PingTreePublisher_update_revshare i pct flat)"
  unfolding PingTreePublisher_create_def PingTreePublisher_update_revshare_def validated_revshare_def Let_def
  by (intro preserves_intros kept_stmts kept.stmt; simp add: rule_tables_def)+

lemma kept_deletions:
  "preserves (\<lambda>d. rule_tables d = v) (db_stmt (\<lambda>d. (Inr (), d\<lparr>campaigns := f d\<rparr>)))"
  "preserves (\<lambda>d. rule_tables d = v) (db_stmt (\<lambda>d. (Inr (), d\<lparr>ping_trees := g d\<rparr>)))"
  by (rule kept.stmt; simp add: rule_tables_def)+

fun rule_request :: "dash_request \<Rightarrow> bool" where
  "rule_request (CreateRuleSet b c) = True"
| "rule_request (UpdateRuleSet b i v) = True"
| "rule_request (DeleteRuleSet b i) = True"
| "rule_request _ = False"

lemmas dash_handler_defs = list_publishers_def create_publisher_def get_publisher_def update_publisher_def delete_publisher_def
  regenerate_publisher_api_key_def get_publisher_api_key_def generate_publisher_hmac_secret_encrypted_def
  list_campaigns_def create_campaign_def get_campaign_def update_campaign_def apply_campaign_changes_def delete_campaign_def
  list_ping_trees_def create_ping_tree_def get_ping_tree_def update_ping_tree_def delete_ping_tree_def
  list_ping_tree_publishers_def add_publisher_to_ping_tree_def remove_publisher_from_ping_tree_def
  update_ping_tree_publisher_revshare_def get_publisher_revenue_share_def list_verticals_def
  add_campaign_to_ping_tree_def remove_campaign_from_ping_tree_def
  list_buyer_integrations_def list_buyer_rule_sets_def get_buyer_rule_set_def

lemmas dash_query_defs = instance_publishers_def vertical_rows_def new_api_key_def email_taken_def publisher_by_id_def
  live_publisher_def is_user_admin_def instance_campaigns_def tree_members_def own_campaign_def in_ping_tree_def
  live_campaign_def instance_trees_def publisher_count_def own_tree_def members_of_tree_def PingTree_find_by_id_def
  PingTreePublisher_find_by_ping_tree_def publisher_assignments_def PingTreePublisher_find_by_ping_tree_and_publisher_def
  in_other_tree_def load_zip_codes_from_tables_def rule_set_of_def Let_def

lemma other_requests_keep:
  "\<not> rule_request r \<Longrightarrow> preserves (\<lambda>s. rule_tables (p_db s) = v) (dashboard_routes E user q r)"
  by (cases r; simp only: dashboard_routes.simps rule_request.simps dash_handler_defs dash_query_defs not_True_eq_False simp_thms;
      (intro kept.handlers kept_stmts kept_assignments kept_deletions)?)

section \<open>Steps with a condition before and after\<close>

definition leads_to :: "('s \<Rightarrow> bool) \<Rightarrow> ('s \<Rightarrow> bool) \<Rightarrow> ('s, 'a) io \<Rightarrow> bool" where
  "leads_to P Q m \<longleftrightarrow> (\<forall>s. P s \<longrightarrow> Q (snd (m s)))"

lemma leads_toI: "(\<And>s. P s \<Longrightarrow> Q (snd (m s))) \<Longrightarrow> leads_to P Q m"
  by (simp add: leads_to_def)

lemma leads_to_weaken: "leads_to P Q m \<Longrightarrow> (\<And>s. P' s \<Longrightarrow> P s) \<Longrightarrow> (\<And>s. Q s \<Longrightarrow> Q' s) \<Longrightarrow> leads_to P' Q' m"
  by (simp add: leads_to_def)

lemma preserves_leads_to: "preserves P m \<Longrightarrow> leads_to P P m" "leads_to P P m \<Longrightarrow> preserves P m"
  by (simp_all add: leads_to_def preserves_def)

lemma leads_to_bind:
  assumes "leads_to P Q m" and "\<And>s. Q s \<Longrightarrow> R s" and "\<And>s x s'. m s = (Inr x, s') \<Longrightarrow> leads_to Q R (f x)"
  shows "leads_to P R (io_bind m f)"
proof (rule leads_toI)
  fix s
  assume "P s"
  obtain r s1 where m: "m s = (r, s1)" by force
  have "Q s1" using assms(1) \<open>P s\<close> m unfolding leads_to_def by (metis snd_conv)
  then show "R (snd (io_bind m f s))"
    using m assms(2) assms(3) by (cases r) (auto simp: io_bind_def leads_to_def)
qed

lemma leads_to_or_answer:
  assumes "\<And>s r s'. P s \<Longrightarrow> m s = (r, s') \<Longrightarrow> R s' \<and> (\<forall>x. r = Inr x \<longrightarrow> Q s')" and "\<And>x. leads_to Q R (f x)"
  shows "leads_to P R (or_answer a m f)"
proof (rule leads_toI)
  fix s
  assume "P s"
  obtain r s' where run: "or_answer a m f s = (r, s')" by force
  then show "R (snd (or_answer a m f s))"
  proof (cases rule: or_answer_cases)
    case (failed e)
    then show ?thesis using assms(1) [OF \<open>P s\<close>] run by simp
  next
    case (ran x s1)
    then show ?thesis using assms(1) [OF \<open>P s\<close> ran(1)] assms(2) [of x] run unfolding leads_to_def by (metis snd_conv)
  qed
qed

lemma leads_to_then_keep:
  assumes "leads_to P R m" and "\<And>x. preserves R (f x)"
  shows "leads_to P R (or_answer a m f)"
proof (rule leads_to_or_answer [OF _ preserves_leads_to(1) [OF assms(2)]])
  show "R s' \<and> (\<forall>x. r = Inr x \<longrightarrow> R s')" if "P s" "m s = (r, s')" for s r s'
    using assms(1) that unfolding leads_to_def by (metis snd_conv)
qed

lemma leads_to_in_db: "leads_to P Q m \<Longrightarrow> leads_to (\<lambda>s. P (p_db s)) (\<lambda>s. Q (p_db s)) (in_db m)"
  by (auto simp: leads_to_def in_db_def in_world_def on_db_def split: prod.splits)

section \<open>Well-formed rule sets\<close>

definition zip_key :: "ZipCodeRow \<Rightarrow> uuid \<times> string" where
  "zip_key c = (zc_list_id c, zc_zip c)"

text \<open>A buyer has at most one active rule set.\<close>

definition one_active :: "BuyerQualificationConfig list \<Rightarrow> bool" where
  "one_active rs \<longleftrightarrow> (\<forall>r \<in> set rs. \<forall>r' \<in> set rs. qc_is_active r \<and> qc_is_active r' \<and> qc_buyer_id r = qc_buyer_id r' \<longrightarrow> r = r')"

definition rule_sets_ok :: "db \<Rightarrow> bool" where
  "rule_sets_ok d \<longleftrightarrow>
     distinct (map qc_id (buyer_qualification_configs d)) \<and> distinct (map rule_set_name (buyer_qualification_configs d))
     \<and> (\<forall>r \<in> set (buyer_qualification_configs d). qc_buyer_id r \<in> b_id ` set (buyers d) \<and> qc_vertical_id r \<in> v_id ` set (verticals d))
     \<and> one_active (buyer_qualification_configs d)"

definition zips_ok :: "db \<Rightarrow> bool" where
  "zips_ok d \<longleftrightarrow>
     distinct (map zl_id (buyer_zip_lists d))
     \<and> (\<forall>l \<in> set (buyer_zip_lists d). zl_buyer_id l \<in> b_id ` set (buyers d) \<and> zl_list_type l \<in> {''blacklist'', ''whitelist''})
     \<and> distinct (map zip_key (buyer_zip_codes d))
     \<and> (\<forall>c \<in> set (buyer_zip_codes d). zc_list_id c \<in> zl_id ` set (buyer_zip_lists d) \<and> valid_zip (zc_zip c))"

text \<open>Between the statements of a request: no rule set of the buyer but the one with the id is active.\<close>

definition only_active :: "uuid \<Rightarrow> uuid option \<Rightarrow> BuyerQualificationConfig list \<Rightarrow> bool" where
  "only_active buyer i rs \<longleftrightarrow> (\<forall>r \<in> set rs. qc_buyer_id r = buyer \<and> qc_is_active r \<longrightarrow> Some (qc_id r) = i)"

definition rules_inv :: "(BuyerQualificationConfig list \<Rightarrow> bool) \<Rightarrow> db \<Rightarrow> bool" where
  "rules_inv C d \<longleftrightarrow> rule_sets_ok d \<and> zips_ok d \<and> C (buyer_qualification_configs d)"

abbreviation rules_ok :: "db \<Rightarrow> bool" where
  "rules_ok \<equiv> rules_inv (\<lambda>_. True)"

interpretation rules: steady_invariant "rules_inv C" for C
  by unfold_locales (simp_all add: rules_inv_def rule_sets_ok_def zips_ok_def)

lemma rules_zip_stmts:
  "preserves (rules_inv C) (insert_zip_list i b n ty)"
  "valid_zip z \<Longrightarrow> preserves (rules_inv C) (insert_zip i z)"
  unfolding insert_zip_list_def insert_zip_def
  by (rule rules.stmt; auto simp: rules_inv_def rule_sets_ok_def zips_ok_def zip_key_def list_ex_iff)+

lemma rules_store_zip: "preserves (\<lambda>s. rules_inv C (p_db s)) (store_zip i zs w)"
proof (cases "as_str w")
  case (Some t)
  then show ?thesis
    by (cases "valid_zip (trim t)") (auto simp: store_zip_def Let_def intro!: rules.handlers rules_zip_stmts)
qed (simp add: store_zip_def preserves_basic)

lemma rules_extract:
  "preserves (\<lambda>s. rules_inv C (p_db s)) (extract_and_store_zip_codes b config)"
  "preserves (\<lambda>s. rules_inv C (p_db s)) (config_change b w)"
  unfolding config_change_def extract_and_store_zip_codes_def extract_list_def find_or_create_zip_list_def find_zip_list_def
    zips_of_list_def
  by (intro rules.handlers rules_store_zip rules_zip_stmts)+

text \<open>A change of rule sets that keeps ids and names.\<close>

lemma rules_same_names:
  assumes "rules_inv C d" and "map qc_id rs = map qc_id (buyer_qualification_configs d)"
    and "map rule_set_name rs = map rule_set_name (buyer_qualification_configs d)" and "one_active rs" and "C' rs"
  shows "rules_inv C' (d\<lparr>buyer_qualification_configs := rs\<rparr>)"
proof -
  have img: "rule_set_name ` set rs = rule_set_name ` set (buyer_qualification_configs d)"
    using arg_cong [OF assms(3), of set] by simp
  have "qc_buyer_id r \<in> b_id ` set (buyers d) \<and> qc_vertical_id r \<in> v_id ` set (verticals d)" if r: "r \<in> set rs" for r
  proof -
    have "rule_set_name r \<in> rule_set_name ` set (buyer_qualification_configs d)" unfolding img [symmetric] using r by (rule imageI)
    then obtain r' where "r' \<in> set (buyer_qualification_configs d)" "qc_buyer_id r' = qc_buyer_id r" "qc_vertical_id r' = qc_vertical_id r"
      by (auto simp: rule_set_name_def)
    then show ?thesis using assms(1) unfolding rules_inv_def rule_sets_ok_def by metis
  qed
  then show ?thesis using assms unfolding rules_inv_def rule_sets_ok_def zips_ok_def by simp
qed

lemma rules_deactivate:
  assumes "rules_inv C d"
  shows "rules_inv (only_active b i) (d\<lparr>buyer_qualification_configs :=
    update_rows (\<lambda>r. qc_buyer_id r = b \<and> Some (qc_id r) \<noteq> i) (\<lambda>r. r\<lparr>qc_is_active := False\<rparr>) (buyer_qualification_configs d)\<rparr>)"
proof -
  let ?rs = "buyer_qualification_configs d" and ?f = "\<lambda>r. r\<lparr>qc_is_active := False\<rparr>"
  let ?new = "update_rows (\<lambda>r. qc_buyer_id r = b \<and> Some (qc_id r) \<noteq> i) ?f ?rs"
  have kept: "retains qc_id ?f" "retains rule_set_name ?f" by (simp_all add: retains_def rule_set_name_def)
  have "map qc_id ?new = map qc_id ?rs" by (rule map_update_retains [OF kept(1)])
  moreover have "map rule_set_name ?new = map rule_set_name ?rs" by (rule map_update_retains [OF kept(2)])
  moreover have "one_active ?new"
  proof -
    have "r \<in> set ?rs" if "r \<in> set ?new" "qc_is_active r" for r
      using that by (auto simp: update_rows_def split: if_splits)
    moreover have "one_active ?rs" using assms by (simp add: rules_inv_def rule_sets_ok_def)
    ultimately show ?thesis unfolding one_active_def by blast
  qed
  moreover have "only_active b i ?new"
    unfolding only_active_def
  proof (intro ballI impI)
    fix r
    assume "r \<in> set ?new" and on: "qc_buyer_id r = b \<and> qc_is_active r"
    then obtain r0 where "r = (if qc_buyer_id r0 = b \<and> Some (qc_id r0) \<noteq> i then ?f r0 else r0)"
      by (auto simp only: update_rows_def set_map image_iff)
    then show "Some (qc_id r) = i" using on by (cases "qc_buyer_id r0 = b \<and> Some (qc_id r0) \<noteq> i") simp_all
  qed
  ultimately show ?thesis by (rule rules_same_names [OF assms])
qed

text \<open>A new rule set: active only when no other one of its buyer is.\<close>

lemma rules_new:
  assumes "rules_inv C d" and "qc_id r \<notin> qc_id ` set (buyer_qualification_configs d)"
    and "rule_set_name r \<notin> rule_set_name ` set (buyer_qualification_configs d)"
    and "qc_buyer_id r \<in> b_id ` set (buyers d)" and "qc_vertical_id r \<in> v_id ` set (verticals d)"
    and quiet: "qc_is_active r \<Longrightarrow> only_active (qc_buyer_id r) None (buyer_qualification_configs d)"
  shows "rules_ok (d\<lparr>buyer_qualification_configs := buyer_qualification_configs d @ [r]\<rparr>)"
proof -
  have "one_active (buyer_qualification_configs d)" using assms(1) by (simp add: rules_inv_def rule_sets_ok_def)
  moreover have "\<not> (qc_is_active r' \<and> qc_buyer_id r' = qc_buyer_id r)"
    if "qc_is_active r" "r' \<in> set (buyer_qualification_configs d)" for r'
    using quiet [OF that(1)] that(2) unfolding only_active_def by blast
  ultimately have "one_active (buyer_qualification_configs d @ [r])" unfolding one_active_def by auto metis+
  then show ?thesis using assms(1-5) unfolding rules_inv_def rule_sets_ok_def zips_ok_def by simp
qed

lemma new_rule_set_parts [simp]:
  "qc_id (new_rule_set i b v cfg c) = i" "qc_buyer_id (new_rule_set i b v cfg c) = b"
  "qc_vertical_id (new_rule_set i b v cfg c) = v" "qc_rule_set_name (new_rule_set i b v cfg c) = rs_rule_set_name c"
  "qc_is_active (new_rule_set i b v cfg c) = unwrap_or (rs_is_active c) False"
  by (simp_all add: new_rule_set_def)

lemma rules_insert:
  assumes "\<And>rs. C rs \<Longrightarrow> unwrap_or (rs_is_active c) False \<Longrightarrow> only_active b None rs"
  shows "leads_to (rules_inv C) rules_ok (insert_rule_set num t (new_rule_set i b v cfg c))"
proof (rule leads_toI)
  fix d
  assume inv: "rules_inv C d"
  let ?r = "new_rule_set i b v cfg c"
  define q where "q d = (case num t of
       None \<Rightarrow> (Inl NUMERIC_OVERFLOW, d)
     | Some t \<Rightarrow>
         if list_ex (\<lambda>r'. qc_id r' = qc_id ?r \<or> rule_set_name r' = rule_set_name ?r) (buyer_qualification_configs d)
         then (Inl UNIQUE_VIOLATION, d)
         else if qc_buyer_id ?r \<notin> b_id ` set (buyers d) \<or> qc_vertical_id ?r \<notin> v_id ` set (verticals d)
         then (Inl ''insert or update on table buyer_qualification_configs violates foreign key constraint'', d)
         else (Inr (), d\<lparr>buyer_qualification_configs := buyer_qualification_configs d
            @ [?r\<lparr>qc_timeout_seconds := Some t, qc_created_at := db_now d, qc_updated_at := db_now d\<rparr>]\<rparr>))" for d :: db
  have weak: "rules_ok d'" if "rules_inv C d'" for d' using that by (simp add: rules_inv_def)
  have stmt: "rules_ok (snd (q d'))" if "rules_inv C d'" for d'
    using that assms [of "buyer_qualification_configs d'"]
    by (auto simp: q_def weak list_ex_iff rule_set_name_def rules_inv_def [of C] intro!: rules_new [of C] split: option.split)
  have "rules_ok (snd (db_stmt q d))" by (rule rules.stmt_leads [where Q = rules_ok, OF inv]) (rule stmt, assumption, rule weak)
  then show "rules_ok (snd (insert_rule_set num t ?r d))" by (simp add: insert_rule_set_def q_def [abs_def])
qed

lemma rules_deactivate_run:
  assumes "rules_ok (p_db s)"
    and "in_db (deactivate_rule_sets (\<lambda>r. qc_buyer_id r = b \<and> Some (qc_id r) \<noteq> i)) s = (res, s')"
  shows "rules_ok (p_db s') \<and> (\<forall>x. res = Inr x \<longrightarrow> rules_inv (only_active b i) (p_db s'))"
proof -
  let ?q = "\<lambda>d. (Inr (), d\<lparr>buyer_qualification_configs :=
     update_rows (\<lambda>r. qc_buyer_id r = b \<and> Some (qc_id r) \<noteq> i) (\<lambda>r. r\<lparr>qc_is_active := False\<rparr>) (buyer_qualification_configs d)\<rparr>)"
  have weak: "rules_ok d" if "rules_inv C d" for C d using that by (simp add: rules_inv_def)
  have "rules_ok (snd (db_stmt ?q (p_db s))) \<and> (\<forall>x. fst (db_stmt ?q (p_db s)) = Inr x \<longrightarrow>
      rules_inv (only_active b i) (snd (db_stmt ?q (p_db s))))"
  proof (cases rule: db_stmt_cases [of ?q "p_db s"])
    case (run fs)
    have "rules_inv (only_active b i) (snd (?q ((p_db s)\<lparr>db_faults := fs\<rparr>)))"
      unfolding snd_conv by (rule rules_deactivate [of "\<lambda>_. True"]) (simp add: assms(1) rules.ignores_faults)
    then show ?thesis unfolding run using weak by blast
  qed (use assms(1) in \<open>simp add: rules.ignores_faults\<close>)
  moreover have "fst (db_stmt ?q (p_db s)) = res" "snd (db_stmt ?q (p_db s)) = p_db s'"
    using assms(2) by (auto simp: deactivate_rule_sets_def in_db_def in_world_def on_db_def split: prod.splits)
  ultimately show ?thesis by simp
qed

lemma rules_create: "preserves (\<lambda>s. rules_ok (p_db s)) (create_buyer_rule_set X num b c)"
proof -
  let ?on = "unwrap_or (rs_is_active c) False"
  define C where "C = (if ?on then only_active b None else (\<lambda>_. True))"
  have C: "?on \<Longrightarrow> C rs \<Longrightarrow> only_active b None rs" for rs by (simp add: C_def)
  let ?I = "\<lambda>s. rules_ok (p_db s)" and ?Q = "\<lambda>s. rules_inv C (p_db s)"
  have weak: "?I s" if "?Q s" for s using that by (simp add: rules_inv_def)
  have insert: "leads_to ?Q ?I (in_db (insert_rule_set num t (new_rule_set i b v cfg c)))" for t i v cfg
    by (intro leads_to_in_db rules_insert C)
  have deact: "?I s' \<and> (\<forall>x. r = Inr x \<longrightarrow> ?Q s')"
    if "?I s" "(if ?on then in_db (deactivate_rule_sets (\<lambda>r. qc_buyer_id r = b)) else io_return ()) s = (r, s')" for s r s'
    using that rules_deactivate_run [of s b None r s'] by (auto simp: C_def io_return_def split: if_splits)
  have rest: "preserves ?I (io_bind (log_rule_set b a w) (\<lambda>_. io_return z))" for a w and z :: "json reply"
    by (intro rules.handlers)
  have body: "leads_to ?Q ?I (io_bind (extract_and_store_zip_codes b config) (\<lambda>config.
     or_answer (STATUS 500) (in_db (insert_rule_set num t (new_rule_set i b v config c))) (\<lambda>_.
     io_bind (log_rule_set b a w) (\<lambda>_. io_return z))))" for config t i v a w and z :: "json reply"
  proof (rule leads_to_bind [OF preserves_leads_to(1) [OF rules_extract(1)]])
    show "leads_to ?Q ?I (or_answer (STATUS 500) (in_db (insert_rule_set num t (new_rule_set i b v cfg c))) (\<lambda>_.
       io_bind (log_rule_set b a w) (\<lambda>_. io_return z)))" for cfg
      by (intro leads_to_then_keep insert rest)
  qed (rule weak)
  have "preserves ?I (or_answer (STATUS 500) (if ?on then in_db (deactivate_rule_sets (\<lambda>r. qc_buyer_id r = b)) else io_return ()) (\<lambda>_.
     io_bind (extract_and_store_zip_codes b config) (\<lambda>config.
     or_answer (STATUS 500) (in_db (insert_rule_set num t (new_rule_set i b v config c))) (\<lambda>_.
     io_bind (log_rule_set b a w) (\<lambda>_. io_return z)))))" for config t i v a w and z :: "json reply"
    by (rule preserves_leads_to(2) [OF leads_to_or_answer [OF deact body]])
  note all = this
  have found: "preserves ?I (in_db (live_buyer b))" unfolding live_buyer_def by (intro rules.handlers)
  show ?thesis
    unfolding create_buyer_rule_set_def
    by (rule preserves_or_answer [OF found preserves_some_or_answer [OF preserves_some_or_answer [OF preserves_bind [OF rules.draws(2) all]]]])
qed

text \<open>A change of a rule set keeps its id, buyer and vertical.\<close>

definition config_items :: "rule_set_change list \<Rightarrow> bool" where
  "config_items cs \<longleftrightarrow> cs = [] \<or> (\<exists>c. cs = [\<lambda>r. r\<lparr>qc_config := c\<rparr>])"

lemma config_change_items: "config_change b w s = (Inr cs, s') \<Longrightarrow> config_items cs"
  by (auto simp: config_change_def config_items_def io_bind_def io_return_def split: option.splits prod.splits sum.splits)

definition asked_active :: "json \<Rightarrow> bool option" where
  "asked_active w = Option.bind (json_get w ''is_active'') as_bool"

lemma items_keep:
  assumes "config_items cs" and "r' = fold (\<lambda>h. h) (rule_set_changes w cs) r"
  shows "qc_id r' = qc_id r" "qc_buyer_id r' = qc_buyer_id r" "qc_vertical_id r' = qc_vertical_id r"
    "qc_is_active r' = unwrap_or (asked_active w) (qc_is_active r)"
  using assms
  by (auto simp: rule_set_changes_def member_change_def config_items_def asked_active_def split: option.splits)

lemma timeout_keeps:
  assumes "set_timeout num t = Some g"
  shows "qc_id (g r) = qc_id r" "qc_buyer_id (g r) = qc_buyer_id r" "qc_vertical_id (g r) = qc_vertical_id r"
    "qc_is_active (g r) = qc_is_active r" "qc_rule_set_name (g r) = qc_rule_set_name r"
  using assms by (auto simp: set_timeout_def split: option.splits)

lemma rules_update_rows:
  assumes inv: "rules_inv C d" and ids: "\<And>r. qc_id (f r) = qc_id r" "\<And>r. qc_buyer_id (f r) = qc_buyer_id r"
      "\<And>r. qc_vertical_id (f r) = qc_vertical_id r"
    and names: "\<not> list_ex (\<lambda>r. (qc_id r = i \<and> qc_buyer_id r = b) \<and>
       list_ex (\<lambda>r'. qc_id r' \<noteq> i \<and> rule_set_name r' = rule_set_name (f r)) (buyer_qualification_configs d)) (buyer_qualification_configs d)"
    and on: "\<And>r. qc_is_active (f r) \<Longrightarrow> qc_is_active r \<or> only_active b (Some i) (buyer_qualification_configs d)"
  shows "rules_ok (d\<lparr>buyer_qualification_configs :=
    update_rows (\<lambda>r. qc_id r = i \<and> qc_buyer_id r = b) f (buyer_qualification_configs d)\<rparr>)"
proof -
  let ?rs = "buyer_qualification_configs d" and ?hit = "\<lambda>r. qc_id r = i \<and> qc_buyer_id r = b"
  have old: "distinct (map qc_id ?rs)" "distinct (map rule_set_name ?rs)" "one_active ?rs"
    using inv by (simp_all add: rules_inv_def rule_sets_ok_def)
  have "retains qc_id f" using ids(1) by (simp add: retains_def)
  then have same: "map qc_id (update_rows ?hit f ?rs) = map qc_id ?rs" by (rule map_update_retains)
  have new_names: "distinct (map rule_set_name (update_rows ?hit f ?rs))"
    by (rule distinct_update_rows [OF old(1,2)]) (use names in \<open>auto simp: list_ex_iff\<close>)
  have rows: "\<exists>r0 \<in> set ?rs. r = (if ?hit r0 then f r0 else r0)" if "r \<in> set (update_rows ?hit f ?rs)" for r
    using that by (auto simp only: update_rows_def set_map image_iff)
  have refs: "qc_buyer_id r \<in> b_id ` set (buyers d) \<and> qc_vertical_id r \<in> v_id ` set (verticals d)"
    if r: "r \<in> set (update_rows ?hit f ?rs)" for r
  proof -
    obtain r0 where "r0 \<in> set ?rs" "qc_buyer_id r = qc_buyer_id r0" "qc_vertical_id r = qc_vertical_id r0"
      using rows [OF r] ids by fastforce
    then show ?thesis using inv unfolding rules_inv_def rule_sets_ok_def by metis
  qed
  have inj: "r = r'" if "r \<in> set ?rs" "r' \<in> set ?rs" "qc_id r = qc_id r'" for r r'
    using old(1) that by (auto simp: distinct_map dest: inj_onD)
  have "one_active (update_rows ?hit f ?rs)"
    unfolding one_active_def
  proof (intro ballI impI)
    fix r r'
    assume in_new: "r \<in> set (update_rows ?hit f ?rs)" "r' \<in> set (update_rows ?hit f ?rs)"
      and act: "qc_is_active r \<and> qc_is_active r' \<and> qc_buyer_id r = qc_buyer_id r'"
    from rows [OF in_new(1)] obtain x where x: "x \<in> set ?rs" "r = (if ?hit x then f x else x)" by (elim bexE)
    from rows [OF in_new(2)] obtain y where y: "y \<in> set ?rs" "r' = (if ?hit y then f y else y)" by (elim bexE)
    have own: "qc_buyer_id (if ?hit z then f z else z) = qc_buyer_id z" for z using ids(2) [of z] by (cases "?hit z") simp_all
    have buyers: "qc_buyer_id x = qc_buyer_id y" using act unfolding x(2) y(2) own by blast
    have only: "qc_id z = i" if "only_active b (Some i) ?rs" "z \<in> set ?rs" "qc_buyer_id z = b" "qc_is_active z" for z
      using that unfolding only_active_def by blast
    have one: "x = y" if "qc_is_active x" "qc_is_active y" using old(3) that buyers x(1) y(1) unfolding one_active_def by blast
    have "x = y"
    proof (cases "?hit x"; cases "?hit y")
      assume h: "?hit x" "?hit y"
      then show ?thesis using inj [OF x(1) y(1)] by simp
    next
      assume h: "?hit x" "\<not> ?hit y"
      have "qc_is_active (f x)" "qc_is_active y" using act unfolding x(2) y(2) if_P [OF h(1)] if_not_P [OF h(2)] by blast+
      then show ?thesis using on [of x] one only [OF _ y(1)] h buyers by auto
    next
      assume h: "\<not> ?hit x" "?hit y"
      have "qc_is_active x" "qc_is_active (f y)" using act unfolding x(2) y(2) if_not_P [OF h(1)] if_P [OF h(2)] by blast+
      then show ?thesis using on [of y] one only [OF _ x(1)] h buyers by auto
    next
      assume h: "\<not> ?hit x" "\<not> ?hit y"
      show ?thesis using act one unfolding x(2) y(2) if_not_P [OF h(1)] if_not_P [OF h(2)] by blast
    qed
    then show "r = r'" using x(2) y(2) by simp
  qed
  then show ?thesis using inv same new_names refs old(1) unfolding rules_inv_def rule_sets_ok_def zips_ok_def by simp
qed

lemma rules_update_row:
  assumes "config_items cs" and "\<And>rs. C rs \<Longrightarrow> asked_active w = Some True \<Longrightarrow> only_active b (Some i) rs"
  shows "leads_to (rules_inv C) rules_ok (update_rule_set_row num b i (rule_set_changes w cs) t)"
proof (rule leads_toI)
  fix d
  assume inv: "rules_inv C d"
  define q where "q d = (case set_timeout num t of
       None \<Rightarrow> (Inl NUMERIC_OVERFLOW, d)
     | Some g \<Rightarrow>
         let f = (\<lambda>r. (g (fold (\<lambda>h. h) (rule_set_changes w cs) r))\<lparr>qc_updated_at := db_now d\<rparr>);
             hit = (\<lambda>r. qc_id r = i \<and> qc_buyer_id r = b) in
         if list_ex (\<lambda>r. hit r \<and> list_ex (\<lambda>r'. qc_id r' \<noteq> i \<and> rule_set_name r' = rule_set_name (f r)) (buyer_qualification_configs d))
              (buyer_qualification_configs d)
         then (Inl UNIQUE_VIOLATION, d)
         else (Inr (), d\<lparr>buyer_qualification_configs := update_rows hit f (buyer_qualification_configs d)\<rparr>))" for d :: db
  have weak: "rules_ok d'" if "rules_inv C d'" for d' using that by (simp add: rules_inv_def)
  have stmt: "rules_ok (snd (q d'))" if d': "rules_inv C d'" for d'
  proof (cases "set_timeout num t")
    case (Some g)
    let ?f = "\<lambda>r. (g (fold (\<lambda>h. h) (rule_set_changes w cs) r))\<lparr>qc_updated_at := db_now d'\<rparr>"
    have "qc_is_active r \<or> only_active b (Some i) (buyer_qualification_configs d')" if "qc_is_active (?f r)" for r
    proof (cases "asked_active w")
      case None
      then show ?thesis using that timeout_keeps(4) [OF Some] items_keep(4) [OF assms(1) refl] by simp
    next
      case (Some a)
      then have "a" using that timeout_keeps(4) [OF \<open>set_timeout num t = Some g\<close>] items_keep(4) [OF assms(1) refl] by simp
      then show ?thesis using assms(2) Some d' by (simp add: rules_inv_def)
    qed
    then show ?thesis
      using weak [OF d'] timeout_keeps(1-3) [OF Some] items_keep(1-3) [OF assms(1) refl]
      by (simp add: q_def Some Let_def) (intro impI rules_update_rows [OF d']; simp)
  qed (simp add: q_def weak [OF d'])
  have "rules_ok (snd (db_stmt q d))" by (rule rules.stmt_leads [where Q = rules_ok, OF inv]) (rule stmt, assumption, rule weak)
  then show "rules_ok (snd (update_rule_set_row num b i (rule_set_changes w cs) t d))"
    by (simp add: update_rule_set_row_def q_def [abs_def])
qed

lemma rules_update: "preserves (\<lambda>s. rules_ok (p_db s)) (update_buyer_rule_set X num user q b i w)"
proof -
  define C where "C = (if asked_active w = Some True then only_active b (Some i) else (\<lambda>_. True))"
  have C: "asked_active w = Some True \<Longrightarrow> C rs \<Longrightarrow> only_active b (Some i) rs" for rs by (simp add: C_def)
  let ?I = "\<lambda>s. rules_ok (p_db s)" and ?Q = "\<lambda>s. rules_inv C (p_db s)"
  have weak: "?I s" if "?Q s" for s using that by (simp add: rules_inv_def)
  have found: "preserves ?I (in_db (rule_set_of b i))" unfolding rule_set_of_def by (intro rules.handlers)
  have deact: "?I s' \<and> (\<forall>x. r = Inr x \<longrightarrow> ?Q s')"
    if "?I s" "(if Option.bind (json_get w ''is_active'') as_bool = Some True
         then in_db (deactivate_rule_sets (\<lambda>r. qc_buyer_id r = b \<and> qc_id r \<noteq> i)) else io_return ()) s = (r, s')" for s r s'
    using that rules_deactivate_run [of s b "Some i" r s'] by (auto simp: C_def asked_active_def io_return_def split: if_splits)
  have row: "leads_to ?Q ?I (in_db (update_rule_set_row num b i (rule_set_changes w cs) t))" if "config_items cs" for cs t
    by (intro leads_to_in_db rules_update_row that C)
  have rest: "preserves ?I (io_bind (log_rule_set_update X user q b i old) (\<lambda>_. io_return z))" for old and z :: "json reply"
    by (intro rules.handlers)
  have upd: "leads_to ?Q ?I (or_answer (STATUS 500) (in_db (update_rule_set_row num b i (rule_set_changes w cs) t)) (\<lambda>_.
      io_bind (log_rule_set_update X user q b i old) (\<lambda>_. io_return z)))"
    if "config_items cs" for cs t old and z :: "json reply"
    by (intro leads_to_then_keep row that rest)
  have final: "leads_to ?Q ?I (let items = rule_set_changes w cs; timeout = new_timeout w in
     if items = [] \<and> timeout = None then io_return y
     else or_answer (STATUS 500) (in_db (update_rule_set_row num b i items timeout)) (\<lambda>_.
       io_bind (log_rule_set_update X user q b i old) (\<lambda>_. io_return z)))"
    if "config_items cs" for cs old and y z :: "json reply"
    using upd [OF that] weak by (simp add: Let_def) (simp add: leads_to_def io_return_def)
  have body: "preserves ?I (io_bind (config_change b w) (\<lambda>cs.
     or_answer (STATUS 500) (if Option.bind (json_get w ''is_active'') as_bool = Some True
         then in_db (deactivate_rule_sets (\<lambda>r. qc_buyer_id r = b \<and> qc_id r \<noteq> i)) else io_return ()) (\<lambda>_.
     let items = rule_set_changes w cs; timeout = new_timeout w in
     if items = [] \<and> timeout = None then io_return y
     else or_answer (STATUS 500) (in_db (update_rule_set_row num b i items timeout)) (\<lambda>_.
       io_bind (log_rule_set_update X user q b i old) (\<lambda>_. io_return z)))))" for old and y z :: "json reply"
    by (rule preserves_leads_to(2) [OF leads_to_bind [OF preserves_leads_to(1) [OF rules_extract(2)]]])
      (assumption, rule leads_to_or_answer [OF deact final [OF config_change_items]])
  show ?thesis
    unfolding update_buyer_rule_set_def by (rule preserves_or_answer [OF found preserves_some_or_answer [OF body]])
qed

lemma rules_delete_row: "preserves rules_ok (delete_rule_set_row b i)"
  unfolding delete_rule_set_row_def Let_def
  by (rule rules.stmt) (auto simp: rules_inv_def rule_sets_ok_def zips_ok_def one_active_def distinct_map_filter)

lemma rules_delete: "preserves (\<lambda>s. rules_ok (p_db s)) (delete_buyer_rule_set X b i)"
  unfolding delete_buyer_rule_set_def rule_set_of_def by (intro rules.handlers rules_delete_row)

lemma rules_cong: "rule_tables d = rule_tables d' \<Longrightarrow> rules_inv C d = rules_inv C d'"
  by (simp add: rule_tables_def rules_inv_def rule_sets_ok_def zips_ok_def)

lemma rules_routes: "preserves (\<lambda>s. rules_ok (p_db s)) (dashboard_routes E user q r)"
proof (cases "rule_request r")
  case True
  then show ?thesis by (cases r) (simp_all add: rules_create rules_update rules_delete)
next
  case False
  show ?thesis
  proof (rule preservesI)
    fix s
    assume "rules_ok (p_db s)"
    moreover have "rule_tables (p_db (snd (dashboard_routes E user q r s))) = rule_tables (p_db s)"
      using preserves_snd [OF other_requests_keep [OF False, of "rule_tables (p_db s)"]] by simp
    ultimately show "rules_ok (p_db (snd (dashboard_routes E user q r s)))" using rules_cong by blast
  qed
qed

section \<open>One active rule set\<close>

text \<open>C16: in every state that requests to the dashboard lead to, whichever statements fail, a buyer has at
  most one active rule set. Rule sets have unique ids and unique names within a buyer and vertical that
  exist, and every list of ZIP codes holds texts of five digits, each once.\<close>

theorem one_active_rule_set:
  assumes "dash_steps E s s'" and "rules_ok (p_db s)"
  shows "rules_ok (p_db s')"
  using assms
proof (induction rule: dash_steps.induct)
  case (request s s1 user q r res s2)
  then show ?case using preservesD [OF rules_routes] by blast
next
  case (passing s s1 fs t)
  have "rule_tables (p_db (s1\<lparr>px_world := set_db ((p_db s1)\<lparr>db_now := t, db_faults := fs\<rparr>) (px_world s1)\<rparr>)) = rule_tables (p_db s1)"
    by (simp add: rule_tables_def)
  then show ?case using passing rules_cong by blast
qed simp

section \<open>ZIP codes stay\<close>

definition zips_grown :: "ZipListRow list \<Rightarrow> ZipCodeRow list \<Rightarrow> db \<Rightarrow> bool" where
  "zips_grown ls cs d \<longleftrightarrow> prefix ls (buyer_zip_lists d) \<and> prefix cs (buyer_zip_codes d)"

interpretation zips: steady_invariant "zips_grown ls cs" for ls cs
  by unfold_locales (simp_all add: zips_grown_def)

lemma zips_stmts:
  "preserves (zips_grown ls cs) (insert_zip_list i b n ty)"
  "preserves (zips_grown ls cs) (insert_zip i z)"
  "preserves (zips_grown ls cs) (deactivate_rule_sets p)"
  "preserves (zips_grown ls cs) (insert_rule_set num t0 r)"
  "preserves (zips_grown ls cs) (update_rule_set_row num b i items t)"
  "preserves (zips_grown ls cs) (delete_rule_set_row b i)"
  unfolding insert_zip_list_def insert_zip_def deactivate_rule_sets_def insert_rule_set_def update_rule_set_row_def
    delete_rule_set_row_def Let_def
  by (rule zips.stmt; simp add: zips_grown_def split: option.split)+

lemma zips_handlers:
  "preserves (\<lambda>s. zips_grown ls cs (p_db s)) (create_buyer_rule_set X num b c)"
  "preserves (\<lambda>s. zips_grown ls cs (p_db s)) (update_buyer_rule_set X num user q b i w)"
  "preserves (\<lambda>s. zips_grown ls cs (p_db s)) (delete_buyer_rule_set X b i)"
  unfolding create_buyer_rule_set_def update_buyer_rule_set_def delete_buyer_rule_set_def rule_set_of_def live_buyer_def
    config_change_def extract_and_store_zip_codes_def extract_list_def find_or_create_zip_list_def find_zip_list_def
    zips_of_list_def store_zip_def Let_def
  by (intro zips.handlers zips_stmts)+

lemma zips_steps:
  assumes "dash_steps E s s'"
  shows "zips_grown (buyer_zip_lists (p_db s)) (buyer_zip_codes (p_db s)) (p_db s')"
  using assms
proof (induction rule: dash_steps.induct)
  case (request s s1 user q r res s2)
  show ?case
  proof (cases "rule_request r")
    case True
    then have "preserves (\<lambda>s'. zips_grown (buyer_zip_lists (p_db s)) (buyer_zip_codes (p_db s)) (p_db s')) (dashboard_routes E user q r)"
      by (cases r) (simp_all add: zips_handlers)
    from preservesD [OF this request(3) request(2)] show ?thesis .
  next
    case False
    have "rule_tables (p_db s2) = rule_tables (p_db s1)"
      using preservesD [OF other_requests_keep [OF False, of "rule_tables (p_db s1)"] refl request(2)] .
    then show ?thesis using request(3) by (simp add: zips_grown_def rule_tables_def)
  qed
qed (simp_all add: zips_grown_def)

lemma prefix_subset: "prefix xs ys \<Longrightarrow> set xs \<subseteq> set ys"
  by (auto simp: prefix_def)

lemma buyer_zips_steps:
  assumes "dash_steps E s s'"
  shows "set (buyer_zips b ty (p_db s)) \<subseteq> set (buyer_zips b ty (p_db s'))"
proof -
  have "set (buyer_zip_lists (p_db s)) \<subseteq> set (buyer_zip_lists (p_db s'))" "set (buyer_zip_codes (p_db s)) \<subseteq> set (buyer_zip_codes (p_db s'))"
    using zips_steps [OF assms] prefix_subset unfolding zips_grown_def by blast+
  then show ?thesis unfolding buyer_zips_def by auto
qed

lemma load_zips_run:
  "db_faults (p_db s) = [] \<Longrightarrow> load_zip_codes_from_tables b s
     = (Inr (buyer_zips b ''blacklist'' (p_db s), buyer_zips b ''whitelist'' (p_db s)), s)"
  by (simp add: load_zip_codes_from_tables_def io_bind_def read_run io_return_def)

text \<open>The member of a configuration that shows a list.\<close>

definition zip_member :: "string \<Rightarrow> string" where
  "zip_member list_type = ''zip_'' @ list_type"

lemma with_zips_shows:
  assumes "list_type = ''blacklist'' \<or> list_type = ''whitelist''"
    and "zs = (if list_type = ''blacklist'' then bl else wl)" and "z \<in> set zs"
  shows "\<exists>o2. with_zips (bl, wl) (JObj o1) = JObj o2 \<and> obj_get o2 (zip_member list_type) = Some (JArr (map JStr zs))"
  using assms by (auto simp: put_zips_def zip_member_def)

text \<open>C19: a ZIP code that is once in a list of a buyer stays there: whatever requests follow, among them
  changes to configurations that no longer name it and deletions of rule sets, every rule set of the
  buyer is shown with the code in its list.\<close>

theorem zip_codes_stay:
  assumes "dash_steps E s s'" and "z \<in> set (buyer_zips b list_type (p_db s))" and "list_type = ''blacklist'' \<or> list_type = ''whitelist''"
    and "db_faults (p_db s') = []"
    and "first_row (filter (\<lambda>r. qc_id r = i \<and> qc_buyer_id r = b) (buyer_qualification_configs (p_db s'))) = Some r"
    and "qc_config r = JObj o1"
  shows "\<exists>o2 zs. get_buyer_rule_set X b i s' = (Inr (succeeded [(''rule_set'', rule_set_json X r (JObj o2))]), s')
    \<and> obj_get o2 (zip_member list_type) = Some (JArr (map JStr zs)) \<and> z \<in> set zs"
proof -
  let ?bl = "buyer_zips b ''blacklist'' (p_db s')" and ?wl = "buyer_zips b ''whitelist'' (p_db s')"
  have z: "z \<in> set (buyer_zips b list_type (p_db s'))" using buyer_zips_steps [OF assms(1)] assms(2) by blast
  moreover have "buyer_zips b list_type (p_db s') = (if list_type = ''blacklist'' then ?bl else ?wl)" using assms(3) by auto
  ultimately obtain o2 where o2: "with_zips (?bl, ?wl) (JObj o1) = JObj o2"
    "obj_get o2 (zip_member list_type) = Some (JArr (map JStr (buyer_zips b list_type (p_db s'))))"
    using with_zips_shows [OF assms(3), of "buyer_zips b list_type (p_db s')" ?bl ?wl z o1] by auto
  have row: "in_db (rule_set_of b i) s' = (Inr (Some r), s')" by (simp add: rule_set_of_def query_run [OF assms(4)] assms(5))
  have "get_buyer_rule_set X b i s' = (Inr (succeeded [(''rule_set'', rule_set_json X r (JObj o2))]), s')"
    using o2(1) assms(6) row
    by (simp add: get_buyer_rule_set_def or_answer_run io_bind_def io_try_def load_zips_run [OF assms(4)] io_return_def)
  then show ?thesis using o2(2) z by blast
qed

section \<open>Activating a rule set\<close>

text \<open>Without faults, and with given rule sets.\<close>

definition calm :: "BuyerQualificationConfig list \<Rightarrow> db \<Rightarrow> bool" where
  "calm rs d \<longleftrightarrow> db_faults d = [] \<and> buyer_qualification_configs d = rs"

interpretation calm: table_invariant "calm rs" for rs
  by unfold_locales (simp_all add: calm_def)

lemma calm_extract: "preserves (\<lambda>s. calm rs (p_db s)) (extract_and_store_zip_codes b config)"
proof -
  have "preserves (calm rs) (insert_zip_list i b n ty)" "preserves (calm rs) (insert_zip i z)" for i b n ty z
    unfolding insert_zip_list_def insert_zip_def by (rule calm.stmt; simp add: calm_def)+
  then show ?thesis
    unfolding extract_and_store_zip_codes_def extract_list_def find_or_create_zip_list_def find_zip_list_def
      zips_of_list_def store_zip_def Let_def
    by (intro calm.handlers)
qed

lemma extract_run:
  assumes "calm rs (p_db s)"
  shows "\<exists>config' s'. extract_and_store_zip_codes b config s = (Inr config', s') \<and> calm rs (p_db s')"
proof -
  have "\<exists>config'. fst (extract_and_store_zip_codes b config s) = Inr config'"
    by (simp add: extract_and_store_zip_codes_def io_bind_def io_try_def io_return_def split: prod.split sum.split)
  then show ?thesis using preserves_snd [OF calm_extract assms] by (metis prod.collapse)
qed

lemma portal_draw_run: "\<exists>i s'. in_world draw_uuid s = (Inr i, s') \<and> p_db s' = p_db s"
proof -
  have "p_db (snd (in_world draw_uuid s)) = p_db s"
    using preserves_snd [OF preserves_in_world [of draw_uuid "\<lambda>d. d = p_db s"]] by (simp add: frame_intros)
  moreover have "\<exists>i. fst (in_world draw_uuid s) = Inr i"
    by (simp add: in_world_def draw_uuid_def draw_def io_simps split: list.split prod.split)
  ultimately show ?thesis by (metis prod.collapse)
qed

lemma deactivate_rules_run:
  assumes "db_faults (p_db s) = []"
  shows "\<exists>s'. in_db (deactivate_rule_sets p) s = (Inr (), s')
    \<and> p_db s' = (p_db s)\<lparr>buyer_qualification_configs := update_rows p (\<lambda>r. r\<lparr>qc_is_active := False\<rparr>) (buyer_qualification_configs (p_db s))\<rparr>"
  using assms by (simp add: deactivate_rule_sets_def in_db_def in_world_def on_db_def db_stmt_def)

lemma no_active_configs:
  assumes "db_faults d = []" and "\<forall>r \<in> set (buyer_qualification_configs d). \<not> (qc_buyer_id r = b \<and> qc_is_active r)"
  shows "\<exists>m. QualificationConfig_find_by_buyer_ids [b] d = (Inr m, d) \<and> m b = Some None"
proof -
  have "active_configs [b] d = []" using assms(2) by (auto simp: active_configs_def filter_empty_conv)
  then show ?thesis
    by (simp add: QualificationConfig_find_by_buyer_ids_def db_query_def db_stmt_ok [OF assms(1)] io_simps group_configs_def)
qed


lemma log_update_run:
  assumes "calm rs (p_db s)"
  shows "\<exists>s'. log_rule_set_update X user q b i old s = (Inr (), s') \<and> calm rs (p_db s')"
proof -
  have draws: "never_fails draw_uuid" "never_fails current_time"
    by (simp_all add: never_fails_def draw_uuid_def draw_def current_time_def io_simps)
  have "never_fails (log_rule_set_update X user q b i old)"
    unfolding log_rule_set_update_def buyer_instance_def Let_def
    by (intro preserves_intros never_fails_in_world draws)
  then obtain x s' where "log_rule_set_update X user q b i old s = (Inr x, s')" by (rule never_fails_run)
  then show ?thesis using preservesD [OF calm.logs(4) assms] by simp
qed

lemma filter_single: "distinct xs \<Longrightarrow> x \<in> set xs \<Longrightarrow> filter (\<lambda>y. y = x) xs = [x]"
  by (induction xs) (auto simp: filter_empty_conv)

text \<open>The rule sets after an activation.\<close>

definition activated :: "timestamp \<Rightarrow> BuyerQualificationConfig \<Rightarrow> BuyerQualificationConfig" where
  "activated now r = r\<lparr>qc_is_active := True, qc_updated_at := now\<rparr>"

definition switched :: "timestamp \<Rightarrow> uuid \<Rightarrow> uuid \<Rightarrow> BuyerQualificationConfig list \<Rightarrow> BuyerQualificationConfig list" where
  "switched now b i rs = update_rows (\<lambda>r. qc_id r = i \<and> qc_buyer_id r = b) (activated now)
     (update_rows (\<lambda>r. qc_buyer_id r = b \<and> qc_id r \<noteq> i) (\<lambda>r. r\<lparr>qc_is_active := False\<rparr>) rs)"

lemma active_after_switch:
  assumes "distinct (map qc_id rs)" and "r \<in> set rs" and "qc_id r = i" and "qc_buyer_id r = b"
  shows "filter (\<lambda>q. qc_buyer_id q \<in> set [b] \<and> qc_enabled q \<and> qc_is_active q) (switched now b i rs)
    = (if qc_enabled r then [activated now r] else [])"
proof -
  define g where "g x = (if qc_buyer_id x = b then (if qc_id x = i then activated now x else x\<lparr>qc_is_active := False\<rparr>) else x)" for x
  have map: "switched now b i rs = map g rs"
    unfolding switched_def update_rows_def map_map by (rule map_cong [OF refl]) (simp add: g_def)
  have one: "qc_id x = i \<longleftrightarrow> x = r" if "x \<in> set rs" for x
    using assms(1-3) that by (auto simp: distinct_map dest: inj_onD)
  have "filter (\<lambda>x. qc_buyer_id (g x) \<in> set [b] \<and> qc_enabled (g x) \<and> qc_is_active (g x)) rs = filter (\<lambda>x. x = r \<and> qc_enabled r) rs"
  proof (rule filter_cong [OF refl])
    fix x
    assume x: "x \<in> set rs"
    show "(qc_buyer_id (g x) \<in> set [b] \<and> qc_enabled (g x) \<and> qc_is_active (g x)) = (x = r \<and> qc_enabled r)"
      using one [OF x] assms(4) by (cases "x = r") (simp_all add: g_def activated_def)
  qed
  also have "\<dots> = (if qc_enabled r then [r] else [])"
    using filter_single [OF _ assms(2)] assms(1) by (simp add: distinct_map)
  finally show ?thesis using assms(3,4) by (simp add: map filter_map comp_def g_def)
qed

lemma single_config_found:
  assumes "db_faults d = []" and "active_configs [b] d = (if on then [r] else [])" and "qc_buyer_id r = b"
  shows "QualificationConfig_find_by_buyer_ids [b] d = (Inr (\<lambda>x. if x = b then Some (if on then Some r else None) else None), d)"
  using assms(2,3)
  by (cases on) (auto simp: QualificationConfig_find_by_buyer_ids_def db_query_def db_stmt_ok [OF assms(1)] io_simps group_configs_def)

lemma activate_row_run:
  assumes "db_faults d = []" and "distinct (map rule_set_name (buyer_qualification_configs d))" and "distinct (map qc_id (buyer_qualification_configs d))"
  shows "update_rule_set_row num b i [\<lambda>r. r\<lparr>qc_is_active := True\<rparr>] None d
    = (Inr (), d\<lparr>buyer_qualification_configs := update_rows (\<lambda>r. qc_id r = i \<and> qc_buyer_id r = b) (activated (db_now d)) (buyer_qualification_configs d)\<rparr>)"
proof -
  let ?f = "\<lambda>r :: BuyerQualificationConfig. r\<lparr>qc_is_active := True, qc_updated_at := db_now d\<rparr>"
  have inj: "inj_on rule_set_name (set (buyer_qualification_configs d))" using assms(2) by (simp add: distinct_map)
  have "rule_set_name (?f r) = rule_set_name r" for r by (simp add: rule_set_name_def)
  then have "\<not> list_ex (\<lambda>r. (qc_id r = i \<and> qc_buyer_id r = b) \<and> list_ex (\<lambda>r'. qc_id r' \<noteq> i \<and> rule_set_name r' = rule_set_name (?f r))
      (buyer_qualification_configs d)) (buyer_qualification_configs d)"
    unfolding list_ex_iff using inj by (metis (no_types, lifting) inj_onD)
  then show ?thesis
    by (simp add: update_rule_set_row_def db_stmt_ok [OF assms(1)] set_timeout_def Let_def activated_def [abs_def])
qed


section \<open>A sample state\<close>

text \<open>A buyer with two rule sets, the first one active, and a ZIP code.\<close>

definition rule_request_sample :: CreateRuleSetRequest where
  "rule_request_sample = \<lparr> rs_rule_set_name = ''one'', rs_timeout_seconds = None, rs_enabled = None, rs_is_active = Some True,
     rs_config = None, rs_rules_order = None \<rparr>"

definition rule_buyer :: Buyer where
  "rule_buyer = \<lparr> b_id = 4, b_name = [], b_instance_id = 1, b_instance_user_id = None, b_vertical_id = Some 6,
     b_buyer_integration_id = None, b_status = BS_Active, b_deleted_at = None, b_created_at = 0, b_updated_at = 0,
     b_contact_info = JObj [], b_ein_tin = None, b_address_street = None, b_address_city = None, b_address_state = None,
     b_address_zip = None, b_email_address = None, b_representative_first_name = None, b_representative_last_name = None,
     b_documents = JArr [], b_post_type = None, b_buyer_type = None \<rparr>"

definition rule_vertical :: Vertical where
  "rule_vertical = \<lparr> v_id = 6, v_name = [], v_slug = [], v_is_active = True, v_created_at = 0, v_updated_at = 0 \<rparr>"

definition rule_set_sample :: "uuid \<Rightarrow> string \<Rightarrow> bool \<Rightarrow> BuyerQualificationConfig" where
  "rule_set_sample i n on = \<lparr> qc_id = i, qc_buyer_id = 4, qc_vertical_id = 6, qc_buyer_integration_id = None,
     qc_rule_set_name = n, qc_config = JObj [], qc_rules_order = [], qc_enabled = True, qc_is_active = on,
     qc_timeout_seconds = None, qc_created_at = 0, qc_updated_at = 0 \<rparr>"

definition rule_portal :: portal where
  "rule_portal = \<lparr> px_world = sample_world (empty_db\<lparr>buyers := [rule_buyer], verticals := [rule_vertical],
       buyer_qualification_configs := [rule_set_sample 1 ''one'' True, rule_set_sample 2 ''two'' False],
       buyer_zip_lists := [\<lparr> zl_id = 3, zl_buyer_id = 4, zl_name = [], zl_list_type = ''blacklist'', zl_created_at = 0, zl_updated_at = 0 \<rparr>],
       buyer_zip_codes := [\<lparr> zc_id = 1, zc_list_id = 3, zc_zip = ''10001'', zc_created_at = 0, zc_updated_at = 0 \<rparr>]\<rparr>),
     px_mails = [], px_mail_faults = [] \<rparr>"

lemma rule_portal_parts [simp]:
  "db_faults (p_db rule_portal) = []" "buyers (p_db rule_portal) = [rule_buyer]" "verticals (p_db rule_portal) = [rule_vertical]"
  "buyer_qualification_configs (p_db rule_portal) = [rule_set_sample 1 ''one'' True, rule_set_sample 2 ''two'' False]"
  "buyer_zip_lists (p_db rule_portal) = [\<lparr> zl_id = 3, zl_buyer_id = 4, zl_name = [], zl_list_type = ''blacklist'', zl_created_at = 0, zl_updated_at = 0 \<rparr>]"
  "buyer_zip_codes (p_db rule_portal) = [\<lparr> zc_id = 1, zc_list_id = 3, zc_zip = ''10001'', zc_created_at = 0, zc_updated_at = 0 \<rparr>]"
  by (simp_all add: rule_portal_def sample_world_def WriteBehindQueue_new_def empty_db_def)

lemma rule_portal_ok: "rules_ok (p_db rule_portal)"
  by (simp add: rules_inv_def rule_sets_ok_def zips_ok_def one_active_def rule_set_name_def rule_set_sample_def rule_buyer_def
      rule_vertical_def zip_key_def valid_zip_def is_digit_def)

lemma rule_portal_zips: "''10001'' \<in> set (buyer_zips 4 ''blacklist'' (p_db rule_portal))"
  by (simp add: buyer_zips_def)

theorem one_active_rule_set_witness:
  "rules_ok (p_db (snd (dashboard_routes sample_dashlib sample_user sample_call (UpdateRuleSet 4 2 (JObj [(''is_active'', JBool True)])) rule_portal)))"
proof -
  obtain res s' where run: "dashboard_routes sample_dashlib sample_user sample_call (UpdateRuleSet 4 2 (JObj [(''is_active'', JBool True)])) rule_portal
      = (res, s')" by force
  show ?thesis using one_active_rule_set [OF dash_steps.request [OF dash_steps.none run] rule_portal_ok] run by simp
qed

theorem zip_codes_stay_witness:
  "\<exists>o2 zs. get_buyer_rule_set hex_crypto 4 1 rule_portal
      = (Inr (succeeded [(''rule_set'', rule_set_json hex_crypto (rule_set_sample 1 ''one'' True) (JObj o2))]), rule_portal)
    \<and> obj_get o2 ''zip_blacklist'' = Some (JArr (map JStr zs)) \<and> ''10001'' \<in> set zs"
proof -
  have "first_row (filter (\<lambda>r. qc_id r = 1 \<and> qc_buyer_id r = 4) (buyer_qualification_configs (p_db rule_portal)))
      = Some (rule_set_sample 1 ''one'' True)" and "qc_config (rule_set_sample 1 ''one'' True) = JObj []"
    by (simp_all add: rule_set_sample_def first_row_def)
  then show ?thesis
    using zip_codes_stay [OF dash_steps.none [of sample_dashlib rule_portal] rule_portal_zips, of 1] by (auto simp: zip_member_def)
qed



text \<open>The log of a change always has the configuration, so that no change counts as one of the timeout
  alone.\<close>

lemma timeout_action_unreachable: "rule_set_action (logged_changes old new) \<noteq> ''buyer_rule_set_timeout_updated''"
  by (auto simp: rule_set_action_def logged_changes_def changed_def split: option.split)

end
