(* ===== verification/Spec2Isabelle.thy ===== *)
theory Spec2Isabelle
  imports Retry Auction Qualification Metrics Revenue WriteBehindProps LeadHandlerProps LeadBodyProps
    MiddlewareProps SecurityProps PulsarEndpoint Health DashboardKeys DashboardViews RuleSetProps
begin

text \<open>
  Verification of leadsnebula-rust: the intake, routing and storage of leads, and the accounts and
  layers that guard them.

  \<^bold>\<open>The program.\<close> A publisher sends a lead to the API, whose layers check its key and signature; the
  handler validates the lead, claims promises and creates new leads. The ping tree router finds the ping tree of the
  publisher and vertical, loads its campaigns and the integrations and qualification
  configurations of their buyers through the cache, asks the buyers (external ones by HTTP, the
  internal buyer Pulsar by a direct call), selects a winner by bid, priority and chance, posts the
  lead, and hands lead updates and buyer responses to the write-behind queue, whose batcher writes
  them to the database. A sale is split between publisher and platform by the revenue calculator.
  Users log in to a dashboard with a password and, where set up, a second factor.

  \<^bold>\<open>Theories\<close> (sources under \<open>src/crates/core/src\<close> unless they name another crate):

  \<^item> \<open>Prelude\<close>: options, orders, stable sorting, the error-and-state monad \<open>io\<close> with its rules
    (\<open>io_simps\<close>, \<open>preserves_intros\<close>); \<open>F64\<close>: binary64 numbers with rounding to nearest even, written
    out; \<open>Json\<close>: serde_json values and accessors.
  \<^item> \<open>Models\<close>, \<open>Database\<close> (\<open>models/*.rs\<close>): rows as records; a database is a record of tables with a
    clock and a list of prescribed faults, a query or statement a function on it. A publisher
    assignment that was created is the one routing finds.
  \<^item> \<open>Retry\<close> (\<open>services/retry.rs\<close>): backoff and the circuit breaker, the latter as a step relation
    over interleaved calls.
  \<^item> \<open>Qualification\<close> (\<open>services/qualification_engine.rs\<close>): the rules; the decision is the first
    rejecting rule.
  \<^item> \<open>Auction\<close> (\<open>select_winner\<close> of \<open>services/ping_tree_router.rs\<close>): optimality, fairness, and
    exactly when it panics.
  \<^item> \<open>Metrics\<close> (\<open>services/diagnostic_metrics.rs\<close>, \<open>services/auction_timing.rs\<close>), \<open>Revenue\<close>
    (\<open>services/revenue_calculator.rs\<close>), \<open>Crypto\<close> (\<open>encryption.rs\<close>, \<open>hmac.rs\<close>,
    \<open>password_policy.rs\<close>; the primitives are fields of the parameter \<open>extlib\<close>).
  \<^item> \<open>WriteBehind\<close>, \<open>WriteBehindProps\<close> (\<open>services/write_behind_queue.rs\<close>): the batcher as a step
    relation over sends, receives, ticks and shutdown, and the five writers of a flush.
  \<^item> \<open>Redis\<close> (\<open>redis.rs\<close>, \<open>lib.rs\<close>): the client over a store of keys with times to live, read
    through the locale \<open>expiring_store\<close>.
  \<^item> \<open>Cache\<close> (\<open>cache.rs\<close>): the memory level and the Redis level. The locale \<open>read_through\<close> states
    what a client of a cache relies on; its interpretation \<open>cached\<close> gives the refinement: a
    sequence of lookups returns what the source would.
  \<^item> \<open>World\<close>: the state the routers share and the effects of their environment (random draws,
    durations, HTTP replies, deadlines, completion orders, each prescribed by a list), with the
    notions \<open>frame\<close> (what a computation leaves alone) and \<open>sends\<close> (which requests it makes).
  \<^item> \<open>Pulsar\<close> (\<open>services/pulsar.rs\<close>), \<open>BuyerRouter\<close> (\<open>services/buyer_router.rs\<close>),
    \<open>PingTreeRouter\<close> (\<open>services/ping_tree_router.rs\<close>): the internal buyer, the calls to one buyer,
    and the router.
  \<^item> \<open>PingTreeRouterProps\<close>: the properties of the router, which compose the others: keys are kept
    under all faults; an auction stores one response per campaign and one update for the winner;
    among internal buyers the qualification rules decide it; a ping sends no contact data; and the
    two ways in which posts and fullposts go wrong.
  \<^item> \<open>LeadIntake\<close>, \<open>LeadHandler\<close> (\<open>crates/api/src/routes/leads.rs\<close>,
    \<open>services/ssm_key_cache.rs\<close>): the handlers that take a lead from a publisher: the request and
    its two body shapes, rate limits, failed leads, the checks of publisher, campaign and vertical,
    the cached encryption key, the claim of a promise id when a lead is posted, the creation of new
    leads, the routing and the answer.
  \<^item> \<open>LeadHandlerProps\<close>: the properties of the handlers, which run through everything above: a
    promise is posted once, a spent one is refused without contacting a buyer, the rate limit is
    exact, and three ways in which the outcome of a routed lead is misreported.
  \<^item> \<open>LeadBodyProps\<close>: the two body shapes as a writer, with the round trip, and what is stored of a
    ping.
  \<^item> \<open>Ssm\<close> (\<open>ssm.rs\<close>), \<open>AppConfig\<close> (\<open>crates/api/src/config.rs\<close>, the reader of \<open>.env.local\<close> in
    \<open>crates/api/src/main.rs\<close>): the parameter store with what is remembered of it in Redis, and the
    configuration assembled from parameters and environment variables.
  \<^item> \<open>Auth\<close> (\<open>auth.rs\<close>, \<open>otp.rs\<close>, \<open>email.rs\<close>, \<open>password_reset.rs\<close>,
    \<open>crates/api/src/routes/auth.rs\<close>): tokens, passwords, logins in one and two steps, reset links.
  \<^item> \<open>Middleware\<close> (\<open>crates/api/src/middleware\<close>): API keys, signatures, session tokens, and the
    service that a request to a lead route meets; \<open>Security\<close> (part of
    \<open>crates/api/src/routes/dashboard.rs\<close>): the second factor and the security log.
  \<^item> \<open>MiddlewareProps\<close>, \<open>SecurityProps\<close>: who reaches a handler and who gets a session; codes and
    reset links are used once; and the ways around signatures, second factor and expiry.

  \<^item> \<open>PulsarEndpoint\<close> (\<open>crates/api/src/routes/pulsar.rs\<close>), \<open>Health\<close>
    (\<open>crates/api/src/routes/health.rs\<close> and its neighbours): the HTTP form of the internal buyer, and
    the health checks with the report of the metrics.
  \<^item> \<open>Dashboard\<close>, \<open>DashboardCampaigns\<close>, \<open>DashboardTrees\<close>, \<open>DashboardRules\<close>
    (\<open>crates/api/src/routes/dashboard.rs\<close>): publishers and their keys; campaigns; ping trees with
    their members, publisher assignments and verticals; the rule sets of buyers with their ZIP codes. Each handler is a function of the database with its faults, in the order of its
    statements, so that a handler that fails half way leaves what it had written.
  \<^item> \<open>DashboardProps\<close>, \<open>DashboardKeys\<close>, \<open>DashboardViews\<close>: sessions of requests as the relation
    \<open>dash_steps\<close>; what every request keeps (the keys of the tables, the status of campaigns and
    trees), that a removed campaign is no longer routed, the life of an API key from its creation
    to the cache that outlives it, and that reads stay inside an instance. The locales
    \<open>table_invariant\<close> and \<open>steady_invariant\<close> hold what every handler does beside its own statements;
    each invariant of the tables is an interpretation.
  \<^item> \<open>RuleSetProps\<close>: a buyer has at most one active rule set in every session; the one activated
    decides on its leads; an activation that fails leaves none; ZIP codes are never removed.

  \<^bold>\<open>Conventions.\<close> Fallible code returns \<open>error + 'a\<close>, with the text of the error; a panic is the
  error \<open>PANIC\<close> or \<open>None\<close> where a function has no other error. Machine integers are words where they
  can wrap. Every loop of the source is structural recursion on a list or a counter, so no
  definition needs fuel; \<open>retry_spawn\<close> recurses on the number of retries left.
  What third-party crates compute is a parameter: \<open>extlib\<close> (hashes, ciphers, text forms), \<open>apilib\<close>
  (the JSON forms that the cache keeps), \<open>authlib\<close> (tokens, password hashes, one-time passwords);
  the laws a property needs of them are its hypotheses.
  Concurrent tasks run in the order in which they complete, one after the other, which is what
  their effects on shared state amount to, since each acts on it by single atomic operations; the
  completion order and the deadlines are arbitrary. A task that a handler spawns runs when it is
  spawned. The clock stands still during a request and is advanced between requests.

  \<^bold>\<open>Not modelled.\<close> Log output, tracing and the delays injected for testing; connection pools, TLS
  and the wiring of the services at startup; passkeys, which are calls of a library, and the
  row level security policies, which are the database's; of the dashboard, the lists of leads,
  buyer responses and log entries, whose content is the text of SQL queries, and the forms of
  buyers; the generated description of the interface; the command line tools, which move data
  between files and the database by SQL text.
\<close>

end
